(* ===== verification/Uads_Prelude.thy ===== *)
theory Uads_Prelude
  imports Complex_Main "HOL-Library.Multiset"
begin

text \<open>
  Shared layer of the development: strings as the program uses them, JavaScript truthiness,
  insertion-ordered sets, stable sorting under a comparator, the result type of an operation
  that may throw after it has already written state, and the host facilities the kernel calls
  (collation, hashing, redaction), which are parameters of every definition that uses them.

  A JavaScript string is a list of code units; the model covers the Latin-1 range
  (\<^typ>\<open>char\<close>). A value that may be \<open>null\<close> or \<open>undefined\<close> is an option; the two are told
  apart only where the code does.
\<close>

named_theorems step_iff \<open>outcome characterisations of the step combinators\<close>
named_theorems keeps_intro \<open>preservation rules of the step combinators\<close>

section \<open>Strings\<close>

definition starts_with :: "string \<Rightarrow> string \<Rightarrow> bool" where
  "starts_with p s \<longleftrightarrow> take (length p) s = p"

definition ends_with :: "string \<Rightarrow> string \<Rightarrow> bool" where
  "ends_with p s \<longleftrightarrow> starts_with (rev p) (rev s)"

fun includes_text :: "string \<Rightarrow> string \<Rightarrow> bool" where
  "includes_text p [] \<longleftrightarrow> p = []"
| "includes_text p (c # cs) \<longleftrightarrow> starts_with p (c # cs) \<or> includes_text p cs"

fun join_with :: "string \<Rightarrow> string list \<Rightarrow> string" where
  "join_with sep [] = []"
| "join_with sep [x] = x"
| "join_with sep (x # y # ys) = x @ sep @ join_with sep (y # ys)"

fun split_on :: "char \<Rightarrow> string \<Rightarrow> string list" where
  "split_on c [] = [[]]"
| "split_on c (x # xs) =
     (if x = c then [] # split_on c xs
      else case split_on c xs of [] \<Rightarrow> [[x]] | w # ws \<Rightarrow> (x # w) # ws)"

definition lower_char :: "char \<Rightarrow> char" where
  "lower_char c =
     (let n = of_char c :: nat
      in if (65 \<le> n \<and> n \<le> 90) \<or> (192 \<le> n \<and> n \<le> 222 \<and> n \<noteq> 215) then char_of (n + 32) else c)"

text \<open>
  The same tests on the bits of a character. The kernel evaluates these equations instead of the
  definitions, which go through the code number.
\<close>

lemma lower_char_bits [code]:
  "lower_char (Char b0 b1 b2 b3 b4 b5 b6 b7) =
     (if \<not> b5 \<and> b6 \<and> (if b7 then \<not> (b4 \<and> b3 \<and> b2 \<and> b1 \<and> b0) \<and> \<not> (b4 \<and> \<not> b3 \<and> b2 \<and> b1 \<and> b0)
         else (b0 \<or> b1 \<or> b2 \<or> b3 \<or> b4) \<and> \<not> (b4 \<and> b3 \<and> (b2 \<or> b1 \<and> b0)))
      then Char b0 b1 b2 b3 b4 True b6 b7 else Char b0 b1 b2 b3 b4 b5 b6 b7)"
  by (cases b0; cases b1; cases b2; cases b3; cases b4; cases b5; cases b6; cases b7; simp add: lower_char_def char_of_def bit_0)

definition to_lower :: "string \<Rightarrow> string" where
  "to_lower s = map lower_char s"

text \<open>The white space that \<open>trim\<close> and \<open>\s\<close> recognise in the Latin-1 range.\<close>

definition is_space :: "char \<Rightarrow> bool" where
  "is_space c \<longleftrightarrow> (let n = of_char c :: nat in (9 \<le> n \<and> n \<le> 13) \<or> n = 32 \<or> n = 160)"

lemma is_space_bits [code]:
  "is_space (Char b0 b1 b2 b3 b4 b5 b6 b7) \<longleftrightarrow>
     (\<not> b4 \<and> \<not> b5 \<and> \<not> b6 \<and> \<not> b7 \<and> b3 \<and> (b0 \<or> b1 \<or> b2) \<and> \<not> (b2 \<and> b1))
     \<or> (\<not> b0 \<and> \<not> b1 \<and> \<not> b2 \<and> \<not> b3 \<and> \<not> b4 \<and> b5 \<and> \<not> b6)"
  by (cases b0; cases b1; cases b2; cases b3; cases b4; cases b5; cases b6; cases b7; simp add: is_space_def)

definition trim :: "string \<Rightarrow> string" where
  "trim s = rev (dropWhile is_space (rev (dropWhile is_space s)))"

text \<open>\<open>s.replace(/\s+/g, " ")\<close>: every maximal run of white space becomes one space.\<close>

fun squash_spaces :: "string \<Rightarrow> string" where
  "squash_spaces [] = []"
| "squash_spaces (c # cs) =
     (if is_space c
      then (case cs of
              [] \<Rightarrow> '' ''
            | d # _ \<Rightarrow> if is_space d then squash_spaces cs else '' '' @ squash_spaces cs)
      else c # squash_spaces cs)"

fun digits_of :: "nat \<Rightarrow> string" where
  "digits_of n = (if n < 10 then [char_of (48 + n)] else digits_of (n div 10) @ [char_of (48 + n mod 10)])"

declare digits_of.simps [simp del]

definition int_text :: "int \<Rightarrow> string" where
  "int_text i = (if i < 0 then ''-'' @ digits_of (nat (- i)) else digits_of (nat i))"

lemma starts_with_append [simp]: "starts_with p (p @ s)"
  by (simp add: starts_with_def)

lemma starts_with_Nil [simp]: "starts_with [] s"
  by (simp add: starts_with_def)

lemma starts_with_iff: "starts_with p s \<longleftrightarrow> (\<exists>t. s = p @ t)"
  by (metis append_take_drop_id append_eq_conv_conj starts_with_def)

lemma includes_text_iff: "includes_text p s \<longleftrightarrow> (\<exists>u v. s = u @ p @ v)"
proof (induction s)
  case Nil
  then show ?case by auto
next
  case (Cons c cs)
  show ?case
  proof
    assume "includes_text p (c # cs)"
    then consider v where "c # cs = p @ v" | u v where "cs = u @ p @ v"
      using Cons.IH by (auto simp: starts_with_iff)
    then show "\<exists>u v. c # cs = u @ p @ v"
      by cases (metis append_Nil, metis append_Cons)
  next
    assume "\<exists>u v. c # cs = u @ p @ v"
    then obtain u v where uv: "c # cs = u @ p @ v" by blast
    show "includes_text p (c # cs)"
    proof (cases u)
      case Nil
      then have "starts_with p (c # cs)" using uv starts_with_iff by auto
      then show ?thesis by simp
    next
      case (Cons d us)
      then show ?thesis using uv Cons.IH by auto
    qed
  qed
qed

subsection \<open>Truthiness of optional strings\<close>

definition truthy :: "string option \<Rightarrow> bool" where
  "truthy v \<longleftrightarrow> (case v of None \<Rightarrow> False | Some s \<Rightarrow> s \<noteq> [])"

definition or_empty :: "string option \<Rightarrow> string" where
  "or_empty v = (case v of None \<Rightarrow> [] | Some s \<Rightarrow> s)"

lemma truthy_simps [simp]: "truthy None = False" "truthy (Some s) \<longleftrightarrow> s \<noteq> []"
  by (simp_all add: truthy_def)

lemma truthy_iff: "truthy v \<longleftrightarrow> (\<exists>s. v = Some s \<and> s \<noteq> [])"
  by (cases v) simp_all

section \<open>Insertion-ordered sets\<close>

text \<open>\<open>[...new Set(xs)]\<close> keeps the first occurrence of every element.\<close>

fun dedup :: "'a list \<Rightarrow> 'a list" where
  "dedup [] = []"
| "dedup (x # xs) = x # removeAll x (dedup xs)"

text \<open>\<open>unique\<close> of \<^verbatim>\<open>ids.ts\<close> and of \<^verbatim>\<open>execution.ts\<close>: falsy strings are dropped first.\<close>

definition unique :: "string list \<Rightarrow> string list" where
  "unique values = dedup (filter (\<lambda>v. v \<noteq> []) values)"

lemma set_dedup [simp]: "set (dedup xs) = set xs"
  by (induction xs) auto

lemma distinct_dedup [simp]: "distinct (dedup xs)"
  by (induction xs) (auto simp: distinct_removeAll)

lemma dedup_distinct [simp]: "distinct xs \<Longrightarrow> dedup xs = xs"
  by (induction xs) auto

lemma dedup_idem [simp]: "dedup (dedup xs) = dedup xs"
  by simp

lemma dedup_eq_Nil [simp]: "dedup xs = [] \<longleftrightarrow> xs = []"
  by (cases xs) auto

lemma set_unique [simp]: "set (unique xs) = set xs - {[]}"
  by (auto simp: unique_def)

lemma distinct_unique [simp]: "distinct (unique xs)"
  by (simp add: unique_def)

lemma unique_idem [simp]: "unique (unique xs) = unique xs"
proof -
  have "filter (\<lambda>v. v \<noteq> []) (unique xs) = unique xs"
    by (auto simp: filter_id_conv)
  then show ?thesis by (simp add: unique_def)
qed

text \<open>\<open>filter\<close> and \<open>map\<close> in one pass, the shape of most of the program's collecting loops.\<close>

lemma in_map_filter: "y \<in> set (List.map_filter f xs) \<longleftrightarrow> (\<exists>x\<in>set xs. f x = Some y)"
  by (induction xs) (auto simp: List.map_filter_simps split: option.splits)

section \<open>Stable sorting under a comparator\<close>

text \<open>
  \<open>Array.prototype.sort\<close> is stable; \<open>sort_with le\<close> is the stable insertion sort for the
  relation "not after".
\<close>

fun insert_with :: "('a \<Rightarrow> 'a \<Rightarrow> bool) \<Rightarrow> 'a \<Rightarrow> 'a list \<Rightarrow> 'a list" where
  "insert_with le x [] = [x]"
| "insert_with le x (y # ys) = (if le x y then x # y # ys else y # insert_with le x ys)"

fun sort_with :: "('a \<Rightarrow> 'a \<Rightarrow> bool) \<Rightarrow> 'a list \<Rightarrow> 'a list" where
  "sort_with le [] = []"
| "sort_with le (x # xs) = insert_with le x (sort_with le xs)"

lemma mset_insert_with [simp]: "mset (insert_with le x xs) = add_mset x (mset xs)"
  by (induction xs) auto

lemma mset_sort_with [simp]: "mset (sort_with le xs) = mset xs"
  by (induction xs) auto

lemma set_sort_with [simp]: "set (sort_with le xs) = set xs"
  by (metis mset_sort_with set_mset_mset)

lemma length_sort_with [simp]: "length (sort_with le xs) = length xs"
  by (metis mset_sort_with size_mset)

lemma distinct_sort_with [simp]: "distinct (sort_with le xs) = distinct xs"
  by (metis mset_sort_with mset_eq_imp_distinct_iff)

lemma sort_with_eq_Nil [simp]: "sort_with le xs = [] \<longleftrightarrow> xs = []"
  by (metis length_0_conv length_sort_with)

text \<open>What the comparator of a sort has to provide for the result to be ordered.\<close>

locale comparator =
  fixes le :: "'a \<Rightarrow> 'a \<Rightarrow> bool"
  assumes le_total: "le x y \<or> le y x"
    and le_trans: "le x y \<Longrightarrow> le y z \<Longrightarrow> le x z"
begin

lemma sorted_insert_with:
  "sorted_wrt le xs \<Longrightarrow> sorted_wrt le (insert_with le x xs)"
proof (induction xs)
  case Nil
  then show ?case by simp
next
  case (Cons y ys)
  have below: "set (insert_with le x ys) = insert x (set ys)"
    by (metis mset_insert_with set_mset_add_mset_insert set_mset_mset)
  show ?case
  proof (cases "le x y")
    case True
    with Cons.prems show ?thesis by (auto intro: le_trans)
  next
    case False
    then have "le y x" using le_total by blast
    with False Cons show ?thesis by (simp add: below)
  qed
qed

lemma sorted_sort_with: "sorted_wrt le (sort_with le xs)"
  by (induction xs) (auto simp: sorted_insert_with)

lemma hd_sort_with_least:
  assumes "x \<in> set xs"
  shows "le (hd (sort_with le xs)) x"
proof -
  obtain y ys where s: "sort_with le xs = y # ys"
    using assms by (cases "sort_with le xs") (auto dest: arg_cong [where f = set])
  have "sorted_wrt le (y # ys)" using sorted_sort_with [of xs] s by simp
  moreover have "x \<in> set (y # ys)" using assms s by (metis set_sort_with)
  ultimately show ?thesis using s le_total by auto
qed

end

text \<open>A comparator whose ties are equalities: the sorted list depends on the multiset only.\<close>

locale strict_comparator = comparator +
  assumes le_antisym: "le x y \<Longrightarrow> le y x \<Longrightarrow> x = y"
begin

lemma sorted_wrt_unique:
  "sorted_wrt le xs \<Longrightarrow> sorted_wrt le ys \<Longrightarrow> mset xs = mset ys \<Longrightarrow> xs = ys"
proof (induction xs arbitrary: ys)
  case Nil
  then show ?case by simp
next
  case (Cons x xs)
  from Cons.prems(3) obtain z zs where ys: "ys = z # zs"
    by (cases ys) auto
  have "x \<in> set ys" "z \<in> set (x # xs)"
    using Cons.prems(3) ys by (metis list.set_intros(1) set_mset_mset)+
  then have "x = z"
    using Cons.prems(1,2) ys le_antisym by auto
  with Cons ys show ?case by simp
qed

lemma sort_with_cong: "mset xs = mset ys \<Longrightarrow> sort_with le xs = sort_with le ys"
  by (rule sorted_wrt_unique) (simp_all add: sorted_sort_with)

end

section \<open>Collation and the host\<close>

text \<open>
  The order of \<open>Array.prototype.sort()\<close> without a comparator: by code units.
\<close>

fun code_unit_le :: "string \<Rightarrow> string \<Rightarrow> bool" where
  "code_unit_le [] _ = True"
| "code_unit_le (_ # _) [] = False"
| "code_unit_le (c # cs) (d # ds) =
     (if c = d then code_unit_le cs ds else (of_char c :: nat) < of_char d)"

fun bits_less :: "bool list \<Rightarrow> bool list \<Rightarrow> bool" where
  "bits_less (b # bs) (c # cs) \<longleftrightarrow> bits_less bs cs \<or> (bs = cs \<and> \<not> b \<and> c)"
| "bits_less _ _ \<longleftrightarrow> False"

definition char_bits :: "char \<Rightarrow> bool list" where
  "char_bits c = [digit0 c, digit1 c, digit2 c, digit3 c, digit4 c, digit5 c, digit6 c, digit7 c]"

lemma bits_less_iff:
  "length bs = length cs \<Longrightarrow>
     (bits_less bs cs \<longleftrightarrow> horner_sum of_bool 2 bs < (horner_sum of_bool 2 cs :: nat))
     \<and> (bs = cs \<longleftrightarrow> horner_sum of_bool 2 bs = (horner_sum of_bool 2 cs :: nat))"
proof (induction bs cs rule: bits_less.induct)
  case (1 b bs c cs)
  then show ?case by (cases b; cases c) auto
qed auto

lemma char_bits_less: "(of_char c :: nat) < of_char d \<longleftrightarrow> bits_less (char_bits c) (char_bits d)"
  by (cases c; cases d) (simp only: of_char_Char char_bits_def char.sel bits_less_iff length_Cons)

lemma code_unit_le_bits [code]:
  "code_unit_le [] ys = True" "code_unit_le (c # cs) [] = False"
  "code_unit_le (c # cs) (d # ds) =
     (if c = d then code_unit_le cs ds else bits_less (char_bits c) (char_bits d))"
  by (simp_all add: char_bits_less)

lemma char_code_neq:
  "c \<noteq> d \<Longrightarrow> (of_char c :: nat) < of_char d \<or> (of_char d :: nat) < of_char c"
  by (metis linorder_neqE_nat of_char_eq_iff)

lemma code_unit_le_total: "code_unit_le x y \<or> code_unit_le y x"
proof (induction x y rule: code_unit_le.induct)
  case (3 c cs d ds)
  then show ?case using char_code_neq [of c d] by auto
qed auto

lemma code_unit_le_antisym: "code_unit_le x y \<Longrightarrow> code_unit_le y x \<Longrightarrow> x = y"
  by (induction x y rule: code_unit_le.induct) (auto split: if_splits elim: code_unit_le.elims)

lemma code_unit_le_trans: "code_unit_le x y \<Longrightarrow> code_unit_le y z \<Longrightarrow> code_unit_le x z"
proof (induction x y arbitrary: z rule: code_unit_le.induct)
  case (1 uu)
  then show ?case by simp
next
  case (2 uv uw)
  then show ?case by simp
next
  case (3 c cs d ds)
  then obtain e es where z: "z = e # es" by (cases z) auto
  show ?case
  proof (cases "c = d")
    case True
    with "3" z show ?thesis by (auto split: if_splits)
  next
    case False
    then have cd: "(of_char c :: nat) < of_char d" using "3.prems"(1) by simp
    have "d = e \<or> (of_char d :: nat) < of_char e"
      using "3.prems"(2) z by (auto split: if_splits)
    then have "(of_char c :: nat) < of_char e" using cd by auto
    then show ?thesis using z by auto
  qed
qed

interpretation code_units: strict_comparator code_unit_le
  by unfold_locales (use code_unit_le_total code_unit_le_trans code_unit_le_antisym in blast)+

text \<open>
  What the kernel takes from the host: \<open>String.prototype.localeCompare\<close> (its order depends on
  the locale data of the runtime), SHA-256 of \<^verbatim>\<open>node:crypto\<close>, and the secret redactor of
  \<^verbatim>\<open>lib/secrets.ts\<close> as \<^verbatim>\<open>lib/safe-persist.ts\<close> applies it to one string. They are arguments
  of the definitions; a theorem holds for every choice unless it names a hypothesis.
\<close>

record host =
  localeCompare :: "string \<Rightarrow> string \<Rightarrow> int"
  sha256Hex :: "string \<Rightarrow> string"
  sanitizeOperationalText :: "string \<Rightarrow> string"

definition locale_le :: "'h host_scheme \<Rightarrow> string \<Rightarrow> string \<Rightarrow> bool" where
  "locale_le H a b \<longleftrightarrow> localeCompare H a b \<le> 0"

text \<open>
  A concrete host for the witnesses: code unit order, a digest that keeps the text and only
  replaces the separators (so that identifiers are safe file names), no redaction.
\<close>

definition plain_char :: "char \<Rightarrow> char" where
  "plain_char c = (if c = CHR '':'' \<or> c = CHR ''|'' \<or> c = CHR ''='' \<or> c = CHR '' '' \<or> c = CHR ''/''
     \<or> c = CHR 0x0A then CHR ''_'' else c)"

definition plain_host :: host where
  "plain_host = \<lparr>localeCompare = (\<lambda>a b. if code_unit_le a b then (if a = b then 0 else - 1) else 1),
     sha256Hex = map plain_char, sanitizeOperationalText = (\<lambda>s. s)\<rparr>"

lemma plain_comparator: "comparator (locale_le plain_host)"
proof -
  have "locale_le plain_host = code_unit_le"
    by (intro ext) (simp add: locale_le_def plain_host_def)
  then show ?thesis using code_units.comparator_axioms by simp
qed

text \<open>\<^verbatim>\<open>ids.ts\<close>: an identifier is a prefix and the first 16 hex digits of a digest.\<close>

definition newPrefixedId :: "'h host_scheme \<Rightarrow> string \<Rightarrow> string \<Rightarrow> string" where
  "newPrefixedId H prefix material = prefix @ ''_'' @ take 16 (sha256Hex H material)"

text \<open>The text test of \<^verbatim>\<open>ids.ts\<close> that the classifiers share.\<close>

definition includesAny :: "string \<Rightarrow> string list \<Rightarrow> bool" where
  "includesAny haystack needles \<longleftrightarrow>
     list_ex (\<lambda>needle. includes_text (to_lower needle) (to_lower haystack)) needles"

definition titleFromObjective :: "string \<Rightarrow> string" where
  "titleFromObjective objective =
     (let compact = trim (squash_spaces objective)
      in if length compact \<le> 80 then compact else take 77 compact @ ''...'')"

lemma titleFromObjective_length: "length (titleFromObjective s) \<le> 80"
  by (auto simp: titleFromObjective_def Let_def)

section \<open>Operations that may throw\<close>

text \<open>
  An operation of the kernel reads and writes the sidecar state and may throw; what it has
  written before the throw stays written. An operation is therefore a function from the state
  to a result (an error or a value) together with the state it leaves.
\<close>

type_synonym ('s, 'e, 'a) step = "'s \<Rightarrow> ('e + 'a) \<times> 's"

definition returnE :: "'a \<Rightarrow> ('s, 'e, 'a) step" where
  "returnE x = (\<lambda>s. (Inr x, s))"

definition throwE :: "'e \<Rightarrow> ('s, 'e, 'a) step" where
  "throwE e = (\<lambda>s. (Inl e, s))"

definition bindE :: "('s, 'e, 'a) step \<Rightarrow> ('a \<Rightarrow> ('s, 'e, 'b) step) \<Rightarrow> ('s, 'e, 'b) step" where
  "bindE m f = (\<lambda>s. case m s of (Inl e, t) \<Rightarrow> (Inl e, t) | (Inr x, t) \<Rightarrow> f x t)"

definition guardE :: "bool \<Rightarrow> 'e \<Rightarrow> ('s, 'e, unit) step" where
  "guardE b e = (if b then returnE () else throwE e)"

definition liftE :: "'e + 'a \<Rightarrow> ('s, 'e, 'a) step" where
  "liftE r = (\<lambda>s. (r, s))"

definition readE :: "('s \<Rightarrow> 'a) \<Rightarrow> ('s, 'e, 'a) step" where
  "readE f = (\<lambda>s. (Inr (f s), s))"

definition writeE :: "('s \<Rightarrow> 's) \<Rightarrow> ('s, 'e, unit) step" where
  "writeE f = (\<lambda>s. (Inr (), f s))"

text \<open>A read that may throw.\<close>

definition queryE :: "('s \<Rightarrow> 'e + 'a) \<Rightarrow> ('s, 'e, 'a) step" where
  "queryE f = (\<lambda>s. (f s, s))"

text \<open>\<open>try { m } catch (e) { h(e) }\<close>\<close>

definition catchE :: "('s, 'e, 'a) step \<Rightarrow> ('e \<Rightarrow> ('s, 'e, 'a) step) \<Rightarrow> ('s, 'e, 'a) step" where
  "catchE m h = (\<lambda>s. case m s of (Inl e, t) \<Rightarrow> h e t | (Inr x, t) \<Rightarrow> (Inr x, t))"

lemma returnE_iff [step_iff]: "returnE x s = (r, t) \<longleftrightarrow> r = Inr x \<and> t = s"
  by (auto simp: returnE_def)

lemma throwE_iff [step_iff]: "throwE e s = (r, t) \<longleftrightarrow> r = Inl e \<and> t = s"
  by (auto simp: throwE_def)

lemma bindE_Inr [step_iff]:
  "bindE m f s = (Inr y, u) \<longleftrightarrow> (\<exists>x t. m s = (Inr x, t) \<and> f x t = (Inr y, u))"
  by (auto simp: bindE_def split: prod.splits sum.splits)

lemma bindE_Inl [step_iff]:
  "bindE m f s = (Inl e, u) \<longleftrightarrow>
     m s = (Inl e, u) \<or> (\<exists>x t. m s = (Inr x, t) \<and> f x t = (Inl e, u))"
  by (auto simp: bindE_def split: prod.splits sum.splits)

lemma guardE_Inr [step_iff]: "guardE b e s = (Inr x, t) \<longleftrightarrow> b \<and> t = s"
  by (auto simp: guardE_def returnE_def throwE_def)

lemma guardE_Inl [step_iff]: "guardE b e s = (Inl e', t) \<longleftrightarrow> \<not> b \<and> e' = e \<and> t = s"
  by (auto simp: guardE_def returnE_def throwE_def)

lemma liftE_iff [step_iff]: "liftE r s = (q, t) \<longleftrightarrow> r = q \<and> t = s"
  by (auto simp: liftE_def)

lemma readE_iff [step_iff]: "readE f s = (r, t) \<longleftrightarrow> r = Inr (f s) \<and> t = s"
  by (auto simp: readE_def)

lemma writeE_iff [step_iff]: "writeE f s = (r, t) \<longleftrightarrow> r = Inr () \<and> t = f s"
  by (auto simp: writeE_def)

lemma queryE_iff [step_iff]: "queryE f s = (r, t) \<longleftrightarrow> r = f s \<and> t = s"
  by (auto simp: queryE_def)

lemma catchE_Inr [step_iff]:
  "catchE m h s = (Inr x, t) \<longleftrightarrow>
     m s = (Inr x, t) \<or> (\<exists>e u. m s = (Inl e, u) \<and> h e u = (Inr x, t))"
  by (auto simp: catchE_def split: prod.splits sum.splits)

lemma catchE_Inl [step_iff]:
  "catchE m h s = (Inl e, t) \<longleftrightarrow> (\<exists>e' u. m s = (Inl e', u) \<and> h e' u = (Inl e, t))"
  by (auto simp: catchE_def split: prod.splits sum.splits)

subsection \<open>Preservation\<close>

text \<open>
  \<open>keeps P m\<close>: whatever the outcome of \<open>m\<close>, returned or thrown, a state with \<open>P\<close> is left
  with \<open>P\<close>. The rules follow the shape of an operation.
\<close>

definition keeps :: "('s \<Rightarrow> bool) \<Rightarrow> ('s, 'e, 'a) step \<Rightarrow> bool" where
  "keeps P m \<longleftrightarrow> (\<forall>s. P s \<longrightarrow> P (snd (m s)))"

lemma keepsD: "keeps P m \<Longrightarrow> m s = (r, t) \<Longrightarrow> P s \<Longrightarrow> P t"
  by (metis keeps_def snd_conv)

lemma keeps_returnE [keeps_intro]: "keeps P (returnE x)"
  by (simp add: keeps_def returnE_def)

lemma keeps_throwE [keeps_intro]: "keeps P (throwE e)"
  by (simp add: keeps_def throwE_def)

lemma keeps_guardE [keeps_intro]: "keeps P (guardE b e)"
  by (simp add: keeps_def guardE_def returnE_def throwE_def)

lemma keeps_liftE [keeps_intro]: "keeps P (liftE r)"
  by (simp add: keeps_def liftE_def)

lemma keeps_readE [keeps_intro]: "keeps P (readE f)"
  by (simp add: keeps_def readE_def)

lemma keeps_queryE [keeps_intro]: "keeps P (queryE f)"
  by (simp add: keeps_def queryE_def)

lemma keeps_writeE [keeps_intro]: "(\<And>s. P s \<Longrightarrow> P (f s)) \<Longrightarrow> keeps P (writeE f)"
  by (simp add: keeps_def writeE_def)

lemma keeps_bindE [keeps_intro]:
  "keeps P m \<Longrightarrow> (\<And>x. keeps P (f x)) \<Longrightarrow> keeps P (bindE m f)"
  by (fastforce simp: keeps_def bindE_def split: prod.splits sum.splits)

lemma keeps_catchE [keeps_intro]:
  "keeps P m \<Longrightarrow> (\<And>e. keeps P (h e)) \<Longrightarrow> keeps P (catchE m h)"
  by (fastforce simp: keeps_def catchE_def split: prod.splits sum.splits)

lemma keeps_if [keeps_intro]:
  "(b \<Longrightarrow> keeps P m) \<Longrightarrow> (\<not> b \<Longrightarrow> keeps P n) \<Longrightarrow> keeps P (if b then m else n)"
  by simp

lemma keeps_option [keeps_intro]:
  "keeps P n \<Longrightarrow> (\<And>x. keeps P (f x)) \<Longrightarrow> keeps P (case v of None \<Rightarrow> n | Some x \<Rightarrow> f x)"
  by (cases v) simp_all

end
