(* ===== verification/Kernel_Types.thy ===== *)
theory Kernel_Types
  imports Uads_Prelude
begin

text \<open>
  The data model of \<^verbatim>\<open>src/kernel/types.ts\<close>: the closed unions as datatypes, the artifacts a
  plan persists (intake, repository map, routing decision, work order, checkpoint, context plan)
  as records. The literal-typed fields \<open>schema\<close> and \<open>schemaVersion\<close> hold one value each and
  are left out. A field that is optional or nullable is an option. Record fields carry a prefix
  because HOL field names are global.
\<close>

section \<open>Closed unions\<close>

datatype scopeClass = Trivial | Local | CrossCutting | Architectural
datatype riskLevel = LOW | MEDIUM | HIGH | CRITICAL
datatype contextRadius = C0 | C1 | C2 | C3 | C4 | C5
datatype capabilityClass = Economy | Balanced | Strong | Critical
datatype phase = Intake | Classify | Plan | Implement | Verify | Review | Stopped
datatype intakeClassifier = HostStructured | FallbackText
datatype workOrderStatus = WoDraft | WoPlanned | WoActive | WoBlocked | WoCompleted | WoCancelled
datatype checkpointStatus = CpPending | CpInProgress | CpBlocked | CpCompleted | CpFailed
datatype cachePreference = PreferCache | Refresh
datatype dependencySource = ScopeClassifier | ImpactReport | HostStructuredSource

datatype activeApprovalGatedAction =
    ProductionDeployment
  | DestructiveProductionDatabaseOperation
  | SpendingMoney
  | RotatingRealCredentials
  | DestructiveGitHistoryRewrite
  | PublishingPackageRelease
  | TransferringAssets
  | OnChainTransaction

definition radius_text :: "contextRadius \<Rightarrow> string" where
  "radius_text r = (case r of C0 \<Rightarrow> ''C0'' | C1 \<Rightarrow> ''C1'' | C2 \<Rightarrow> ''C2''
     | C3 \<Rightarrow> ''C3'' | C4 \<Rightarrow> ''C4'' | C5 \<Rightarrow> ''C5'')"

definition phase_text :: "phase \<Rightarrow> string" where
  "phase_text p = (case p of Intake \<Rightarrow> ''intake'' | Classify \<Rightarrow> ''classify'' | Plan \<Rightarrow> ''plan''
     | Implement \<Rightarrow> ''implement'' | Verify \<Rightarrow> ''verify'' | Review \<Rightarrow> ''review''
     | Stopped \<Rightarrow> ''stopped'')"

section \<open>Intake and repository map\<close>

record normalizedIntake =
  in_objective :: string
  in_constraints :: "string list"
  in_requestedArtifacts :: "string list"
  in_inScope :: "string list"
  in_outOfScope :: "string list"
  in_acceptanceCriteria :: "string list"
  in_domainSignals :: "string list"
  in_riskSignals :: "string list"
  in_destructiveSignals :: "string list"
  in_affectedAreas :: "string list"
  in_uncertainties :: "string list"
  in_approvedBoundaries :: "string list"
  in_classifier :: intakeClassifier

record moduleEntry =
  mod_id :: string
  mod_path :: string
  mod_kind :: string

record repositoryMap =
  map_projectId :: string
  map_generatedAt :: string
  map_repositoryName :: string
  map_digest :: string
  map_gitHead :: "string option"
  map_branch :: "string option"
  map_dirty :: bool
  map_dirtyDigest :: string
  map_reused :: bool
  map_languages :: "string list"
  map_packageManager :: "string option"
  map_frameworks :: "string list"
  map_commands :: "string \<Rightarrow> string option"
  map_signals :: "string \<Rightarrow> bool"
  map_modules :: "moduleEntry list"
  map_entrypoints :: "string list"
  map_agentsMd :: "string list"
  map_cursor :: "string list"
  map_skills :: "string list"
  map_manifestHashes :: "(string \<times> string) list"

section \<open>Specialist fragments that plans carry\<close>

record specialistDependencySignals =
  dep_crossCutting :: bool
  dep_source :: dependencySource

record specialistAssignment =
  as_specialistId :: string
  as_role :: string
  as_objective :: string
  as_coveredDomains :: "string list"
  as_relevantAffectedAreas :: "string list"
  as_relevantFiles :: "string list"
  as_relevantGates :: "string list"
  as_evidenceObligations :: "string list"
  as_riskLevel :: riskLevel
  as_forbiddenScope :: "string list"
  as_dependencyGroup :: nat
  as_parallelEligible :: bool

text \<open>The specialist binding that a routing decision and a work order both carry.\<close>

record specialistBinding =
  sb_selectionPlanId :: "string option"
  sb_selectionDigest :: "string option"
  sb_registryDigest :: "string option"
  sb_policyDigest :: "string option"
  sb_changeDigest :: "string option"
  sb_impactDigest :: "string option"
  sb_gateContractDigest :: "string option"
  sb_riskSignals :: "string list option"
  sb_dependencySignals :: "specialistDependencySignals option"

section \<open>Routing decision, work order, checkpoint, context plan\<close>

record idReason =
  ir_id :: string
  ir_reason :: string

record routingDecision =
  rd_routingDecisionId :: string
  rd_projectId :: string
  rd_createdAt :: string
  rd_scopeClass :: scopeClass
  rd_scopeReasons :: "string list"
  rd_riskLevel :: riskLevel
  rd_riskReasons :: "string list"
  rd_domains :: "idReason list"
  rd_specialists :: "string list"
  rd_assuranceSpecialists :: "string list"
  rd_binding :: specialistBinding
  rd_gates :: "idReason list"
  rd_contextRadius :: contextRadius
  rd_contextReason :: string
  rd_capabilityClass :: capabilityClass
  rd_orderConstraints :: "string list"
  rd_stopConditions :: "string list"
  rd_warnings :: "string list"

record tokenBudget =
  tb_softLimit :: int
  tb_hardLimit :: int
  tb_capabilityClass :: capabilityClass
  tb_cachePreference :: cachePreference
  tb_expansionPolicy :: string

record autonomyBoundary =
  ab_safeAutonomous :: "string list"
  ab_requiresApproval :: "string list"
  ab_activeApprovalGatedActions :: "activeApprovalGatedAction list"
  ab_activeApprovalIntentAmbiguous :: bool

record workOrder =
  wo_workOrderId :: string
  wo_projectId :: string
  wo_title :: string
  wo_objective :: string
  wo_status :: workOrderStatus
  wo_createdAt :: string
  wo_updatedAt :: string
  wo_intakeRef :: string
  wo_routingDecisionId :: string
  wo_scopeClass :: scopeClass
  wo_includedScope :: "string list"
  wo_outOfScope :: "string list"
  wo_recommendations :: "string list"
  wo_riskLevel :: riskLevel
  wo_riskReasons :: "string list"
  wo_constraints :: "string list"
  wo_requestedArtifacts :: "string list"
  wo_destructiveSignals :: "string list"
  wo_domains :: "string list"
  wo_affectedAreas :: "string list"
  wo_specialists :: "string list"
  wo_assuranceReviewers :: "string list"
  wo_binding :: specialistBinding
  wo_specialistAssignments :: "specialistAssignment list option"
  wo_qualityGates :: "string list"
  wo_contextRadius :: contextRadius
  wo_tokenBudget :: tokenBudget
  wo_dependencies :: "string list"
  wo_acceptanceCriteria :: "string list"
  wo_requiredEvidence :: "string list"
  wo_stopConditions :: "string list"
  wo_autonomyBoundary :: autonomyBoundary
  wo_nextAction :: string

record checkpoint =
  cp_checkpointId :: string
  cp_projectId :: string
  cp_workOrderId :: "string option"
  cp_routingDecisionId :: "string option"
  cp_createdAt :: string
  cp_updatedAt :: string
  cp_phase :: phase
  cp_status :: checkpointStatus
  cp_completedSteps :: "string list"
  cp_nextAction :: string
  cp_blockers :: "string list"
  cp_evidenceRefs :: "string list"
  cp_repositoryMapDigest :: "string option"
  cp_contextPlanRef :: "string option"
  cp_resumeCursor :: string

record contextPlan =
  pl_radius :: contextRadius
  pl_reason :: string
  pl_candidateAreas :: "string list"
  pl_reusableArtifacts :: "string list"
  pl_contextPackId :: "string option"
  pl_impactReportId :: "string option"
  pl_indexDigest :: "string option"

definition IMPLEMENTER_ROLE :: string where
  "IMPLEMENTER_ROLE = ''implementation-agent''"

definition INDEPENDENT_REVIEWER_ROLE :: string where
  "INDEPENDENT_REVIEWER_ROLE = ''independent-reviewer''"

section \<open>Ordered unions\<close>

text \<open>
  Several unions are totally ordered by a rank the code looks up in a table (risk, capability,
  reasoning, context radius). The library keeps the facts about "the larger of two by rank"
  in one place.
\<close>

locale ranked =
  fixes rank :: "'a \<Rightarrow> nat"
    and join :: "'a \<Rightarrow> 'a \<Rightarrow> 'a"
  assumes rank_inj: "rank a = rank b \<Longrightarrow> a = b"
    and join_def: "join a b = (if rank b \<le> rank a then a else b)"
begin

lemma rank_join: "rank (join a b) = max (rank a) (rank b)"
  by (simp add: join_def max_def)

lemma join_upper: "rank a \<le> rank (join a b)" "rank b \<le> rank (join a b)"
  by (simp_all add: rank_join)

lemma join_commute: "join a b = join b a"
  by (rule rank_inj) (simp add: rank_join max.commute)

lemma join_assoc: "join (join a b) c = join a (join b c)"
  by (rule rank_inj) (simp add: rank_join max.assoc)

lemma join_idem: "join a a = a"
  by (simp add: join_def)

lemma join_least: "rank a \<le> rank c \<Longrightarrow> rank b \<le> rank c \<Longrightarrow> rank (join a b) \<le> rank c"
  by (simp add: rank_join)

lemma join_mono: "rank a \<le> rank a' \<Longrightarrow> rank b \<le> rank b' \<Longrightarrow> rank (join a b) \<le> rank (join a' b')"
  by (simp add: rank_join) linarith

end

fun radius_rank :: "contextRadius \<Rightarrow> nat" where
  "radius_rank C0 = 0" | "radius_rank C1 = 1" | "radius_rank C2 = 2"
| "radius_rank C3 = 3" | "radius_rank C4 = 4" | "radius_rank C5 = 5"

fun risk_rank :: "riskLevel \<Rightarrow> nat" where
  "risk_rank LOW = 0" | "risk_rank MEDIUM = 1" | "risk_rank HIGH = 2" | "risk_rank CRITICAL = 3"

lemma radius_rank_inj: "radius_rank a = radius_rank b \<Longrightarrow> a = b"
  by (cases a; cases b) simp_all

lemma risk_rank_inj: "risk_rank a = risk_rank b \<Longrightarrow> a = b"
  by (cases a; cases b) simp_all

text \<open>Radii and risk levels are linearly ordered by their rank.\<close>

instantiation contextRadius :: linorder
begin

definition less_eq_contextRadius :: "contextRadius \<Rightarrow> contextRadius \<Rightarrow> bool" where
  "less_eq_contextRadius a b \<longleftrightarrow> radius_rank a \<le> radius_rank b"

definition less_contextRadius :: "contextRadius \<Rightarrow> contextRadius \<Rightarrow> bool" where
  "less_contextRadius a b \<longleftrightarrow> radius_rank a < radius_rank b"

instance
  by standard (auto simp: less_eq_contextRadius_def less_contextRadius_def intro: radius_rank_inj)

end

instantiation riskLevel :: linorder
begin

definition less_eq_riskLevel :: "riskLevel \<Rightarrow> riskLevel \<Rightarrow> bool" where
  "less_eq_riskLevel a b \<longleftrightarrow> risk_rank a \<le> risk_rank b"

definition less_riskLevel :: "riskLevel \<Rightarrow> riskLevel \<Rightarrow> bool" where
  "less_riskLevel a b \<longleftrightarrow> risk_rank a < risk_rank b"

instance
  by standard (auto simp: less_eq_riskLevel_def less_riskLevel_def intro: risk_rank_inj)

end

end
