(* ===== verification/Json.thy ===== *)
theory Json
  imports Uads_Prelude
begin

text \<open>
  JSON values and \<open>JSON.stringify\<close> without indentation, as far as the digests of the kernel use
  it: objects print their members in insertion order, a member whose value is \<open>undefined\<close> is not
  a member, numbers are integers.
\<close>

datatype json = JNull | JBool bool | JInt int | JStr string | JArr "json list" | JObj "(string \<times> json) list"

definition hex_digit :: "nat \<Rightarrow> char" where
  "hex_digit n = (if n < 10 then char_of (48 + n) else char_of (87 + n))"

definition json_char :: "char \<Rightarrow> string" where
  "json_char c =
     (let n = of_char c :: nat
      in if n = 34 then [CHR 0x5C, CHR 0x22]
         else if n = 92 then [CHR 0x5C, CHR 0x5C]
         else if n = 8 then [CHR 0x5C, CHR ''b'']
         else if n = 9 then [CHR 0x5C, CHR ''t'']
         else if n = 10 then [CHR 0x5C, CHR ''n'']
         else if n = 12 then [CHR 0x5C, CHR ''f'']
         else if n = 13 then [CHR 0x5C, CHR ''r'']
         else if n < 32 then [CHR 0x5C, CHR ''u'', CHR ''0'', CHR ''0'', hex_digit (n div 16), hex_digit (n mod 16)]
         else [c])"

text \<open>On the bits of a character: most characters are printed as they are.\<close>

lemma json_char_bits [code]:
  "json_char (Char b0 b1 b2 b3 b4 b5 b6 b7) =
     (if b7 \<or> b6 \<and> \<not> (\<not> b5 \<and> b4 \<and> b3 \<and> b2 \<and> \<not> b1 \<and> \<not> b0) \<or> \<not> b6 \<and> b5 \<and> \<not> (\<not> b4 \<and> \<not> b3 \<and> \<not> b2 \<and> b1 \<and> \<not> b0)
      then [Char b0 b1 b2 b3 b4 b5 b6 b7]
      else if b6 then [CHR 0x5C, CHR 0x5C]
      else if b5 then [CHR 0x5C, CHR 0x22]
      else if \<not> b4 \<and> b3 \<and> \<not> b2 \<and> \<not> b1 \<and> \<not> b0 then [CHR 0x5C, CHR ''b'']
      else if \<not> b4 \<and> b3 \<and> \<not> b2 \<and> \<not> b1 \<and> b0 then [CHR 0x5C, CHR ''t'']
      else if \<not> b4 \<and> b3 \<and> \<not> b2 \<and> b1 \<and> \<not> b0 then [CHR 0x5C, CHR ''n'']
      else if \<not> b4 \<and> b3 \<and> b2 \<and> \<not> b1 \<and> \<not> b0 then [CHR 0x5C, CHR ''f'']
      else if \<not> b4 \<and> b3 \<and> b2 \<and> \<not> b1 \<and> b0 then [CHR 0x5C, CHR ''r'']
      else [CHR 0x5C, CHR ''u'', CHR ''0'', CHR ''0'', if b4 then CHR ''1'' else CHR ''0'',
        hex_digit (of_bool b0 + 2 * (of_bool b1 + 2 * (of_bool b2 + 2 * of_bool b3)))])"
  by (cases b0; cases b1; cases b2; cases b3; cases b4; cases b5; cases b6; cases b7; simp add: json_char_def hex_digit_def char_of_def bit_0)

definition json_string :: "string \<Rightarrow> string" where
  "json_string s = CHR 0x22 # concat (map json_char s) @ [CHR 0x22]"

fun stringify :: "json \<Rightarrow> string" where
  "stringify JNull = ''null''"
| "stringify (JBool b) = (if b then ''true'' else ''false'')"
| "stringify (JInt i) = int_text i"
| "stringify (JStr s) = json_string s"
| "stringify (JArr xs) = ''['' @ join_with '','' (map stringify xs) @ '']''"
| "stringify (JObj kvs) =
     ''{'' @ join_with '','' (map (\<lambda>kv. json_string (fst kv) @ '':'' @ stringify (snd kv)) kvs) @ ''}''"

definition jstr_opt :: "string option \<Rightarrow> json" where
  "jstr_opt v = (case v of None \<Rightarrow> JNull | Some s \<Rightarrow> JStr s)"

definition jstrs :: "string list \<Rightarrow> json" where
  "jstrs xs = JArr (map JStr xs)"

definition sha256Json :: "'h host_scheme \<Rightarrow> json \<Rightarrow> string" where
  "sha256Json H v = sha256Hex H (stringify v)"

end
