(* ===== verification/Specialist_Types.thy ===== *)
theory Specialist_Types
  imports Kernel_Types Json
begin

text \<open>
  The data model of \<^verbatim>\<open>src/kernel/specialist-types.ts\<close>, the domain identifiers of
  \<^verbatim>\<open>src/kernel/domains.ts\<close>, and the JSON text of a selection plan, which its digest covers.
  Domain identifiers stay strings: signals outside the list occur and are carried along.
\<close>

definition DOMAIN_IDS :: "string list" where
  "DOMAIN_IDS =
    [''general'', ''requirements'', ''architecture'', ''frontend'', ''backend'', ''api'', ''database'',
     ''saas'', ''mobile'', ''cloud-devops'', ''security'', ''quality'', ''performance'', ''reliability'',
     ''data-ai'', ''web3'', ''smart-contracts'', ''wallets'', ''finance-economics'', ''tokenomics'',
     ''mathematics-simulation'', ''game-systems'', ''rust'', ''kernel-runtime'', ''contracts'',
     ''event-driven-systems'', ''state-recovery'', ''offline-first'', ''testing'', ''certification'',
     ''documentation'', ''release'']"

datatype specialistKind = CoreKind | DomainKind | AssuranceKind
datatype specialistStatus = SpEnabled | SpDisabled | SpExperimental
datatype specialistSource = BuiltinProfile | UserProfile | AdapterProfile
datatype independenceClass = ImplementationClass | SupportClass | IndependentReviewClass | AssuranceClass

datatype specialistFunction =
    InspectFn | RequirementsFn | ArchitectureFn | PlanningFn | ImplementationFn | TestingFn
  | IndependentReviewFn | SecurityAssuranceFn | PerformanceAssuranceFn | ReliabilityAssuranceFn
  | CheckpointFn | FrontendFn | BackendApiFn | DatabaseFn | MobileFn | PlatformCloudFn | DataAiFn
  | Web3ContractFn | FinanceMathFn | GameSystemsFn | DocumentationFn | ReleaseFn | QualityFn
  | SystemsRuntimeFn

datatype obligationKind =
  DomainOb | GateOb | EvidenceOb | AssuranceOb | AffectedAreaOb | DependencyOb

record specialistActivation =
  ac_scopeClasses :: "scopeClass list option"
  ac_minRisk :: "riskLevel option"
  ac_domainAny :: "string list option"
  ac_riskSignalsAny :: "string list option"
  ac_gatesAny :: "string list option"
  ac_affectedAreaAny :: "string list option"

record specialistObligation =
  ob_obligationId :: string
  ob_kind :: obligationKind
  ob_domainId :: "string option"
  ob_gateId :: "string option"
  ob_evidenceId :: "string option"
  ob_affectedArea :: "string option"
  ob_specialistId :: "string option"

record obligationCoverage =
  oc_obligationId :: string
  oc_gateId :: "string option"
  oc_evidenceId :: "string option"
  oc_specialistId :: string
  oc_reasonCode :: string
  oc_coverageKind :: obligationKind

record unmetObligation =
  uo_obligationId :: string
  uo_gateId :: "string option"
  uo_evidenceId :: "string option"
  uo_specialistId :: "string option"
  uo_reasonCode :: string
  uo_coverageKind :: obligationKind

record specialistProfile =
  sp_specialistId :: string
  sp_kind :: specialistKind
  sp_status :: specialistStatus
  sp_purpose :: string
  sp_coveredDomains :: "string list"
  sp_functions :: "specialistFunction list"
  sp_mayImplement :: bool
  sp_reviewOnly :: bool
  sp_independenceClass :: independenceClass
  sp_activation :: specialistActivation
  sp_requiredInputs :: "string list"
  sp_producesEvidence :: "string list"
  sp_incompatibleWith :: "string list"
  sp_priority :: nat
  sp_source :: specialistSource
  sp_notes :: "string option"
  sp_profileDigest :: string

record specialistRegistry =
  sr_profiles :: "specialistProfile list"
  sr_registryDigest :: string
  sr_policyVersion :: string

record specialistSelection =
  ss_specialistId :: string
  ss_kind :: specialistKind
  ss_role :: string
  ss_required :: bool
  ss_reasonCodes :: "string list"
  ss_coversDomains :: "string list"
  ss_coversGates :: "string list"
  ss_independenceClass :: independenceClass

record specialistRejection =
  sj_specialistId :: string
  sj_reasonCodes :: "string list"
  sj_reasons :: "string list"

record specialistSelectionPlan =
  spl_selectionPlanId :: string
  spl_projectId :: string
  spl_workOrderId :: string
  spl_workOrderDigest :: string
  spl_routingDigest :: string
  spl_registryDigest :: string
  spl_policyDigest :: string
  spl_changeDigest :: "string option"
  spl_impactDigest :: "string option"
  spl_gateContractDigest :: "string option"
  spl_selected :: "specialistSelection list"
  spl_assurance :: "specialistSelection list"
  spl_assignments :: "specialistAssignment list"
  spl_rejections :: "specialistRejection list"
  spl_unmetCoverage :: "string list"
  spl_requiredObligations :: "specialistObligation list"
  spl_coveredObligations :: "obligationCoverage list"
  spl_unmetObligations :: "unmetObligation list"
  spl_conflicts :: "string list"
  spl_dependencyGroups :: "string list list"
  spl_parallelEligibleGroups :: "string list list"
  spl_selected_status :: bool
  spl_blockedReasonCodes :: "string list"
  spl_selectionDigest :: string

record specialistRoutingInput =
  si_projectId :: string
  si_workOrderId :: string
  si_objective :: string
  si_constraints :: "string list"
  si_inScope :: "string list"
  si_outOfScope :: "string list"
  si_acceptanceCriteria :: "string list"
  si_domains :: "string list"
  si_scopeClass :: scopeClass
  si_riskLevel :: riskLevel
  si_riskSignals :: "string list"
  si_riskReasons :: "string list"
  si_affectedAreas :: "string list"
  si_gates :: "string list"
  si_requiredEvidence :: "string list"
  si_dependencyInfo :: "string list"
  si_dependencySignals :: "specialistDependencySignals option"
  si_changeDigest :: "string option"
  si_impactDigest :: "string option"
  si_gateContractDigest :: "string option"
  si_registry :: specialistRegistry
  si_allowExperimental :: bool

section \<open>JSON text of a selection plan\<close>

definition risk_text :: "riskLevel \<Rightarrow> string" where
  "risk_text r = (case r of LOW \<Rightarrow> ''LOW'' | MEDIUM \<Rightarrow> ''MEDIUM'' | HIGH \<Rightarrow> ''HIGH''
     | CRITICAL \<Rightarrow> ''CRITICAL'')"

definition kind_text :: "specialistKind \<Rightarrow> string" where
  "kind_text k = (case k of CoreKind \<Rightarrow> ''core'' | DomainKind \<Rightarrow> ''domain'' | AssuranceKind \<Rightarrow> ''assurance'')"

definition independence_text :: "independenceClass \<Rightarrow> string" where
  "independence_text k = (case k of ImplementationClass \<Rightarrow> ''implementation''
     | SupportClass \<Rightarrow> ''support'' | IndependentReviewClass \<Rightarrow> ''independent-review''
     | AssuranceClass \<Rightarrow> ''assurance'')"

definition obligation_text :: "obligationKind \<Rightarrow> string" where
  "obligation_text k = (case k of DomainOb \<Rightarrow> ''domain'' | GateOb \<Rightarrow> ''gate'' | EvidenceOb \<Rightarrow> ''evidence''
     | AssuranceOb \<Rightarrow> ''assurance'' | AffectedAreaOb \<Rightarrow> ''affected-area''
     | DependencyOb \<Rightarrow> ''dependency'')"

definition selectionJson :: "specialistSelection \<Rightarrow> json" where
  "selectionJson s = JObj
     [(''specialistId'', JStr (ss_specialistId s)), (''kind'', JStr (kind_text (ss_kind s))),
      (''role'', JStr (ss_role s)), (''required'', JBool (ss_required s)),
      (''reasonCodes'', jstrs (ss_reasonCodes s)), (''coversDomains'', jstrs (ss_coversDomains s)),
      (''coversGates'', jstrs (ss_coversGates s)),
      (''independenceClass'', JStr (independence_text (ss_independenceClass s)))]"

definition assignmentJson :: "specialistAssignment \<Rightarrow> json" where
  "assignmentJson a = JObj
     [(''specialistId'', JStr (as_specialistId a)), (''role'', JStr (as_role a)),
      (''objective'', JStr (as_objective a)), (''coveredDomains'', jstrs (as_coveredDomains a)),
      (''relevantAffectedAreas'', jstrs (as_relevantAffectedAreas a)),
      (''relevantFiles'', jstrs (as_relevantFiles a)), (''relevantGates'', jstrs (as_relevantGates a)),
      (''evidenceObligations'', jstrs (as_evidenceObligations a)),
      (''riskLevel'', JStr (risk_text (as_riskLevel a))),
      (''forbiddenScope'', jstrs (as_forbiddenScope a)),
      (''dependencyGroup'', JInt (int (as_dependencyGroup a))),
      (''parallelEligible'', JBool (as_parallelEligible a))]"

definition rejectionJson :: "specialistRejection \<Rightarrow> json" where
  "rejectionJson r = JObj
     [(''specialistId'', JStr (sj_specialistId r)), (''reasonCodes'', jstrs (sj_reasonCodes r)),
      (''reasons'', jstrs (sj_reasons r))]"

definition obligationJson :: "specialistObligation \<Rightarrow> json" where
  "obligationJson b = JObj
     [(''obligationId'', JStr (ob_obligationId b)), (''kind'', JStr (obligation_text (ob_kind b))),
      (''domainId'', jstr_opt (ob_domainId b)), (''gateId'', jstr_opt (ob_gateId b)),
      (''evidenceId'', jstr_opt (ob_evidenceId b)), (''affectedArea'', jstr_opt (ob_affectedArea b)),
      (''specialistId'', jstr_opt (ob_specialistId b))]"

definition coverageJson :: "obligationCoverage \<Rightarrow> json" where
  "coverageJson c = JObj
     [(''obligationId'', JStr (oc_obligationId c)), (''gateId'', jstr_opt (oc_gateId c)),
      (''evidenceId'', jstr_opt (oc_evidenceId c)), (''specialistId'', JStr (oc_specialistId c)),
      (''reasonCode'', JStr (oc_reasonCode c)),
      (''coverageKind'', JStr (obligation_text (oc_coverageKind c)))]"

definition unmetJson :: "unmetObligation \<Rightarrow> json" where
  "unmetJson u = JObj
     [(''obligationId'', JStr (uo_obligationId u)), (''gateId'', jstr_opt (uo_gateId u)),
      (''evidenceId'', jstr_opt (uo_evidenceId u)), (''specialistId'', jstr_opt (uo_specialistId u)),
      (''reasonCode'', JStr (uo_reasonCode u)),
      (''coverageKind'', JStr (obligation_text (uo_coverageKind u)))]"

text \<open>The plan without its digest, in the member order of the plan's construction.\<close>

definition planJson :: "specialistSelectionPlan \<Rightarrow> json" where
  "planJson p = JObj
     [(''schema'', JStr ''uads.specialist-selection-plan''), (''schemaVersion'', JStr ''0.9.0''),
      (''selectionPlanId'', JStr (spl_selectionPlanId p)), (''projectId'', JStr (spl_projectId p)),
      (''workOrderId'', JStr (spl_workOrderId p)), (''workOrderDigest'', JStr (spl_workOrderDigest p)),
      (''routingDigest'', JStr (spl_routingDigest p)), (''registryDigest'', JStr (spl_registryDigest p)),
      (''policyDigest'', JStr (spl_policyDigest p)), (''changeDigest'', jstr_opt (spl_changeDigest p)),
      (''impactDigest'', jstr_opt (spl_impactDigest p)),
      (''gateContractDigest'', jstr_opt (spl_gateContractDigest p)),
      (''selected'', JArr (map selectionJson (spl_selected p))),
      (''assurance'', JArr (map selectionJson (spl_assurance p))),
      (''assignments'', JArr (map assignmentJson (spl_assignments p))),
      (''rejections'', JArr (map rejectionJson (spl_rejections p))),
      (''unmetCoverage'', jstrs (spl_unmetCoverage p)),
      (''requiredObligations'', JArr (map obligationJson (spl_requiredObligations p))),
      (''coveredObligations'', JArr (map coverageJson (spl_coveredObligations p))),
      (''unmetObligations'', JArr (map unmetJson (spl_unmetObligations p))),
      (''conflicts'', jstrs (spl_conflicts p)),
      (''dispatch'', JObj [(''dependencyGroups'', JArr (map jstrs (spl_dependencyGroups p))),
         (''parallelEligibleGroups'', JArr (map jstrs (spl_parallelEligibleGroups p)))]),
      (''status'', JStr (if spl_selected_status p then ''SELECTED'' else ''BLOCKED'')),
      (''blockedReasonCodes'', jstrs (spl_blockedReasonCodes p))]"

definition planDigest :: "'h host_scheme \<Rightarrow> specialistSelectionPlan \<Rightarrow> string" where
  "planDigest H p = sha256Json H (planJson p)"

end
