(* ===== verification/Gates.thy ===== *)
theory Gates
  imports Uads_Prelude
begin

text \<open>
  The gate registry of \<^verbatim>\<open>src/kernel/gates.ts\<close>: the kinds of contract, the seventeen gate
  definitions built by the three constructors, and the lookups the rest of the kernel uses.
\<close>

datatype evidenceKind = CommandEvidence | FileEvidence | InvariantEvidence | ReviewEvidence

datatype gateContractKind = CommandGate | ArtifactGate | InvariantGate | ReviewGate

record gateDef =
  gd_id :: string
  gd_evidence :: string
  gd_purpose :: string
  gd_contractKind :: gateContractKind
  gd_allowedEvidenceKinds :: "evidenceKind list"
  gd_requiresExitCodeZero :: bool
  gd_requiresOutputDigest :: bool
  gd_reviewerRole :: "string option"

definition evidence_kind_text :: "evidenceKind \<Rightarrow> string" where
  "evidence_kind_text k = (case k of CommandEvidence \<Rightarrow> ''command'' | FileEvidence \<Rightarrow> ''file''
     | InvariantEvidence \<Rightarrow> ''invariant'' | ReviewEvidence \<Rightarrow> ''review'')"

definition contract_kind_text :: "gateContractKind \<Rightarrow> string" where
  "contract_kind_text k = (case k of CommandGate \<Rightarrow> ''command'' | ArtifactGate \<Rightarrow> ''artifact''
     | InvariantGate \<Rightarrow> ''invariant'' | ReviewGate \<Rightarrow> ''review'')"

definition commandGate :: "string \<Rightarrow> string \<Rightarrow> string \<Rightarrow> gateDef" where
  "commandGate i evidence purpose =
     \<lparr>gd_id = i, gd_evidence = evidence, gd_purpose = purpose, gd_contractKind = CommandGate,
      gd_allowedEvidenceKinds = [CommandEvidence], gd_requiresExitCodeZero = True,
      gd_requiresOutputDigest = True, gd_reviewerRole = None\<rparr>"

definition invariantGate :: "string \<Rightarrow> string \<Rightarrow> string \<Rightarrow> gateDef" where
  "invariantGate i evidence purpose =
     \<lparr>gd_id = i, gd_evidence = evidence, gd_purpose = purpose, gd_contractKind = InvariantGate,
      gd_allowedEvidenceKinds = [InvariantEvidence, FileEvidence, CommandEvidence],
      gd_requiresExitCodeZero = True, gd_requiresOutputDigest = False, gd_reviewerRole = None\<rparr>"

definition reviewGate :: "string \<Rightarrow> string \<Rightarrow> string \<Rightarrow> string \<Rightarrow> gateDef" where
  "reviewGate i evidence purpose role =
     \<lparr>gd_id = i, gd_evidence = evidence, gd_purpose = purpose, gd_contractKind = ReviewGate,
      gd_allowedEvidenceKinds = [ReviewEvidence], gd_requiresExitCodeZero = False,
      gd_requiresOutputDigest = False, gd_reviewerRole = Some role\<rparr>"

definition GATE_REGISTRY :: "gateDef list" where
  "GATE_REGISTRY =
    [commandGate ''static'' ''gate:static'' ''static analysis'',
     commandGate ''unit-test'' ''gate:unit-test'' ''focused unit/smoke tests'',
     commandGate ''integration-test'' ''gate:integration-test'' ''integration coverage'',
     commandGate ''contract-test'' ''gate:contract-test'' ''public contract assertions'',
     commandGate ''build'' ''gate:build'' ''compile/build'',
     reviewGate ''security-review'' ''gate:security-review'' ''independent security review''
       ''security-reviewer'',
     commandGate ''dependency-audit'' ''gate:dependency-audit'' ''dependency/supply-chain audit'',
     reviewGate ''performance-check'' ''gate:performance-check'' ''hot-path regression check''
       ''performance-reviewer'',
     invariantGate ''architecture-conformance'' ''gate:architecture-conformance''
       ''architecture conformance'',
     commandGate ''database-migration'' ''gate:database-migration'' ''migration test'',
     commandGate ''rollback-validation'' ''gate:rollback-validation'' ''rollback/integrity validation'',
     commandGate ''web3-unit'' ''gate:web3-unit'' ''contract unit tests'',
     commandGate ''web3-fuzz'' ''gate:web3-fuzz'' ''contract fuzzing'',
     invariantGate ''web3-invariant'' ''gate:web3-invariant'' ''contract invariants'',
     invariantGate ''financial-numerical-validation'' ''gate:financial-numerical-validation''
       ''numerical validation'',
     invariantGate ''simulation-invariant'' ''gate:simulation-invariant'' ''simulation invariants'',
     commandGate ''release-check'' ''gate:release-check'' ''release readiness'']"

definition MANDATORY_GATE_IDS :: "string list" where
  "MANDATORY_GATE_IDS = map gd_id GATE_REGISTRY"

definition lookupGate :: "string \<Rightarrow> gateDef option" where
  "lookupGate i = find (\<lambda>gate. gd_id gate = i) GATE_REGISTRY"

definition gateEvidence :: "string \<Rightarrow> string" where
  "gateEvidence i = (case lookupGate i of Some gate \<Rightarrow> gd_evidence gate | None \<Rightarrow> ''gate:'' @ i)"

definition uniqueGateIds :: bool where
  "uniqueGateIds \<longleftrightarrow> length (dedup MANDATORY_GATE_IDS) = length MANDATORY_GATE_IDS"

definition REVIEW_GATE_ROLES :: "string \<Rightarrow> string option" where
  "REVIEW_GATE_ROLES =
     map_of (map (\<lambda>gate. (gd_id gate, the (gd_reviewerRole gate)))
       (filter (\<lambda>gate. truthy (gd_reviewerRole gate)) GATE_REGISTRY))"

definition isReviewGate :: "string \<Rightarrow> bool" where
  "isReviewGate gateId \<longleftrightarrow> REVIEW_GATE_ROLES gateId \<noteq> None"

definition isKnownGateId :: "string \<Rightarrow> bool" where
  "isKnownGateId gateId \<longleftrightarrow> list_ex (\<lambda>gate. gd_id gate = gateId) GATE_REGISTRY"

lemmas gate_constructors = commandGate_def invariantGate_def reviewGate_def

lemma gate_ids_distinct: "distinct MANDATORY_GATE_IDS"
  by (simp add: MANDATORY_GATE_IDS_def GATE_REGISTRY_def gate_constructors)

lemma uniqueGateIds_holds: uniqueGateIds
  by (simp add: uniqueGateIds_def gate_ids_distinct)

lemma lookupGate_Some: "lookupGate i = Some g \<Longrightarrow> g \<in> set GATE_REGISTRY \<and> gd_id g = i"
  by (auto simp: lookupGate_def find_Some_iff)

lemma lookupGate_None: "lookupGate i = None \<longleftrightarrow> i \<notin> set MANDATORY_GATE_IDS"
  by (auto simp: lookupGate_def find_None_iff MANDATORY_GATE_IDS_def)

lemma isKnownGateId_iff: "isKnownGateId i \<longleftrightarrow> lookupGate i \<noteq> None"
  by (auto simp: isKnownGateId_def list_ex_iff lookupGate_None MANDATORY_GATE_IDS_def)

lemma REVIEW_GATE_ROLES_simps:
  "REVIEW_GATE_ROLES =
     [''security-review'' \<mapsto> ''security-reviewer'', ''performance-check'' \<mapsto> ''performance-reviewer'']"
  by (rule ext) (simp add: REVIEW_GATE_ROLES_def GATE_REGISTRY_def gate_constructors)

lemma isReviewGate_iff:
  "isReviewGate i \<longleftrightarrow> i = ''security-review'' \<or> i = ''performance-check''"
  by (simp add: isReviewGate_def REVIEW_GATE_ROLES_simps)

text \<open>The registry is uniform: the kind of contract fixes the admissible evidence.\<close>

definition shape_ok :: "gateDef \<Rightarrow> bool" where
  "shape_ok g \<longleftrightarrow>
     (gd_contractKind g = CommandGate \<and> gd_allowedEvidenceKinds g = [CommandEvidence]
        \<and> gd_reviewerRole g = None)
   \<or> (gd_contractKind g = InvariantGate
        \<and> gd_allowedEvidenceKinds g = [InvariantEvidence, FileEvidence, CommandEvidence]
        \<and> gd_reviewerRole g = None)
   \<or> (gd_contractKind g = ReviewGate \<and> gd_allowedEvidenceKinds g = [ReviewEvidence]
        \<and> gd_reviewerRole g \<noteq> None)"

lemma shape_ok_constructors [simp]:
  "shape_ok (commandGate i e p)" "shape_ok (invariantGate i e p)" "shape_ok (reviewGate i e p r)"
  by (simp_all add: shape_ok_def gate_constructors)

lemma registry_shape: "g \<in> set GATE_REGISTRY \<Longrightarrow> shape_ok g"
proof -
  have "list_all shape_ok GATE_REGISTRY"
    by (simp add: GATE_REGISTRY_def)
  then show "g \<in> set GATE_REGISTRY \<Longrightarrow> shape_ok g"
    by (simp add: list_all_iff)
qed

lemma lookupGate_shape:
  assumes "lookupGate i = Some g"
  shows "gd_contractKind g = CommandGate \<and> gd_allowedEvidenceKinds g = [CommandEvidence]
     \<or> gd_contractKind g = InvariantGate
        \<and> gd_allowedEvidenceKinds g = [InvariantEvidence, FileEvidence, CommandEvidence]
     \<or> gd_contractKind g = ReviewGate \<and> gd_allowedEvidenceKinds g = [ReviewEvidence]"
  using lookupGate_Some [OF assms] registry_shape [of g] by (auto simp: shape_ok_def)

lemma lookupGate_review:
  assumes "lookupGate i = Some g"
  shows "isReviewGate i \<longleftrightarrow> gd_contractKind g = ReviewGate"
proof -
  have "list_all (\<lambda>g. (gd_id g = ''security-review'' \<or> gd_id g = ''performance-check'')
          = (gd_contractKind g = ReviewGate)) GATE_REGISTRY"
    by (simp add: GATE_REGISTRY_def gate_constructors)
  then show ?thesis
    using lookupGate_Some [OF assms] by (auto simp: isReviewGate_iff list_all_iff)
qed

lemma review_gate_known: "isReviewGate i \<Longrightarrow> isKnownGateId i"
  by (auto simp: isReviewGate_iff isKnownGateId_def GATE_REGISTRY_def gate_constructors)

end
