(* ===== verification/Specialist_Obligations.thy ===== *)
theory Specialist_Obligations
  imports Specialist_Types Gates
begin

text \<open>
  The obligations a work order puts on the specialist selection
  (\<^verbatim>\<open>src/kernel/specialist-obligations.ts\<close>): one per requested domain, selected gate,
  required evidence, assurance role, known affected area and cross-cutting dependency; and the
  test whether a profile discharges one of them.
\<close>

record gateRequirement =
  gq_functions :: "specialistFunction list"
  gq_assurance :: bool
  gq_aliases :: "string list"

definition requirement :: "specialistFunction list \<Rightarrow> bool \<Rightarrow> string list \<Rightarrow> gateRequirement" where
  "requirement fs a aliases = \<lparr>gq_functions = fs, gq_assurance = a, gq_aliases = aliases\<rparr>"

definition GATE_REQUIREMENT_TABLE :: "(string \<times> gateRequirement) list" where
  "GATE_REQUIREMENT_TABLE =
    [(''static'', requirement [TestingFn] False [''test evidence'']),
     (''unit-test'', requirement [TestingFn] False [''test evidence'']),
     (''integration-test'', requirement [TestingFn] False [''test evidence'']),
     (''contract-test'', requirement [TestingFn] False [''test evidence'']),
     (''build'', requirement [TestingFn] False [''test evidence'']),
     (''dependency-audit'', requirement [TestingFn] False [''test evidence'']),
     (''security-review'', requirement [SecurityAssuranceFn] True [''security review'']),
     (''performance-check'', requirement [PerformanceAssuranceFn] True [''performance evidence'']),
     (''architecture-conformance'', requirement [ArchitectureFn] False [''architecture bounds'']),
     (''database-migration'', requirement [DatabaseFn] False [''migration and rollback evidence'']),
     (''rollback-validation'', requirement [ReliabilityAssuranceFn] True [''reliability review'']),
     (''web3-unit'', requirement [Web3ContractFn] False [''contract unit, fuzz, and invariant evidence'']),
     (''web3-fuzz'', requirement [Web3ContractFn] False [''contract unit, fuzz, and invariant evidence'']),
     (''web3-invariant'', requirement [Web3ContractFn] False [''contract unit, fuzz, and invariant evidence'']),
     (''financial-numerical-validation'',
        requirement [FinanceMathFn] False [''numerical and edge-case validation'']),
     (''simulation-invariant'',
        requirement [GameSystemsFn, FinanceMathFn] False
          [''simulation evidence'', ''numerical and edge-case validation'']),
     (''release-check'', requirement [ReleaseFn] False [''release readiness evidence''])]"

definition GATE_REQUIREMENTS :: "string \<Rightarrow> gateRequirement option" where
  "GATE_REQUIREMENTS = map_of GATE_REQUIREMENT_TABLE"

definition FREEFORM_EVIDENCE_ALIASES :: "string \<Rightarrow> string list" where
  "FREEFORM_EVIDENCE_ALIASES v =
     (if v = ''focused test evidence'' \<or> v = ''test output'' then [''test evidence''] else [])"

definition sortedUnique :: "'h host_scheme \<Rightarrow> string list \<Rightarrow> string list" where
  "sortedUnique H values = sort_with (locale_le H) (dedup (filter (\<lambda>v. trim v \<noteq> []) values))"

definition normalizeSpecialistEvidenceToken :: "string \<Rightarrow> string" where
  "normalizeSpecialistEvidenceToken v = to_lower (squash_spaces (trim v))"

definition GATE_BY_EVIDENCE :: "string \<Rightarrow> string option" where
  "GATE_BY_EVIDENCE =
     map_of (rev (map (\<lambda>g. (normalizeSpecialistEvidenceToken (gd_evidence g), gd_id g)) GATE_REGISTRY))"

definition is_id_start :: "char \<Rightarrow> bool" where
  "is_id_start c \<longleftrightarrow> (let n = of_char c :: nat in (97 \<le> n \<and> n \<le> 122) \<or> (48 \<le> n \<and> n \<le> 57))"

definition is_id_char :: "char \<Rightarrow> bool" where
  "is_id_char c \<longleftrightarrow> is_id_start c \<or> c = CHR '':'' \<or> c = CHR ''_'' \<or> c = CHR ''-''"

text \<open>\<open>/^[a-z0-9][a-z0-9:_-]*$/\<close>\<close>

definition is_plain_token :: "string \<Rightarrow> bool" where
  "is_plain_token s \<longleftrightarrow> (case s of [] \<Rightarrow> False | c # cs \<Rightarrow> is_id_start c \<and> list_all is_id_char cs)"

definition boundedObligationId :: "'h host_scheme \<Rightarrow> string \<Rightarrow> string \<Rightarrow> string" where
  "boundedObligationId H prefix v =
     (let normalized = normalizeSpecialistEvidenceToken v
      in if length normalized \<le> 80 \<and> is_plain_token normalized
         then prefix @ '':'' @ normalized
         else prefix @ '':'' @ take 16 (sha256Hex H normalized))"

definition boundedEvidenceId :: "'h host_scheme \<Rightarrow> string \<Rightarrow> string" where
  "boundedEvidenceId H v =
     (let normalized = normalizeSpecialistEvidenceToken v
      in if length normalized \<le> 160 then normalized else ''evidence:'' @ take 16 (sha256Hex H normalized))"

definition obligation :: "string \<Rightarrow> obligationKind \<Rightarrow> specialistObligation" where
  "obligation i k = \<lparr>ob_obligationId = i, ob_kind = k, ob_domainId = None, ob_gateId = None,
     ob_evidenceId = None, ob_affectedArea = None, ob_specialistId = None\<rparr>"

definition addObligation :: "specialistObligation list \<Rightarrow> specialistObligation \<Rightarrow> specialistObligation list" where
  "addObligation m item =
     (if ob_obligationId item \<in> ob_obligationId ` set m then m else m @ [item])"

definition hasAny :: "specialistRoutingInput \<Rightarrow> string list \<Rightarrow> bool" where
  "hasAny I values \<longleftrightarrow>
     list_ex (\<lambda>v. v \<in> set (si_domains I) \<or> v \<in> set (si_riskSignals I) \<or> v \<in> set (si_gates I)) values"

definition requestedDomains :: "'h host_scheme \<Rightarrow> specialistRoutingInput \<Rightarrow> string list" where
  "requestedDomains H I =
     filter (\<lambda>d. d \<notin> set [''general'', ''architecture'', ''quality'', ''security'', ''performance'', ''reliability''])
       (sortedUnique H (si_domains I))"

definition domainObligation :: "'h host_scheme \<Rightarrow> string \<Rightarrow> specialistObligation" where
  "domainObligation H d =
     (obligation (boundedObligationId H ''domain'' d) DomainOb)\<lparr>ob_domainId := Some d\<rparr>"

definition gateObligation :: "'h host_scheme \<Rightarrow> string \<Rightarrow> specialistObligation" where
  "gateObligation H g =
     (obligation (boundedObligationId H ''gate'' g) GateOb)
       \<lparr>ob_gateId := Some g, ob_evidenceId := Some (gateEvidence g)\<rparr>"

definition evidenceObligation :: "'h host_scheme \<Rightarrow> string \<Rightarrow> specialistObligation" where
  "evidenceObligation H evidence =
     (let normalized = normalizeSpecialistEvidenceToken evidence
      in case GATE_BY_EVIDENCE normalized of
           Some g \<Rightarrow> gateObligation H g
         | None \<Rightarrow> (obligation (boundedObligationId H ''evidence'' normalized) EvidenceOb)
             \<lparr>ob_evidenceId := Some (boundedEvidenceId H normalized)\<rparr>)"

definition assuranceObligation :: "string \<Rightarrow> string \<Rightarrow> specialistObligation" where
  "assuranceObligation role evidence =
     (obligation (''assurance:'' @ role) AssuranceOb)
       \<lparr>ob_evidenceId := Some evidence, ob_specialistId := Some role\<rparr>"

definition securityRequired :: "specialistRoutingInput \<Rightarrow> bool" where
  "securityRequired I \<longleftrightarrow> si_riskLevel I = HIGH \<or> si_riskLevel I = CRITICAL
     \<or> hasAny I [''security'', ''authentication'', ''web3'', ''smart-contracts'', ''wallets'', ''security-review'']"

definition performanceRequired :: "specialistRoutingInput \<Rightarrow> bool" where
  "performanceRequired I \<longleftrightarrow> hasAny I [''performance'', ''performance-hot-path'', ''performance-check'']"

definition reliabilityRequired :: "specialistRoutingInput \<Rightarrow> bool" where
  "reliabilityRequired I \<longleftrightarrow>
     hasAny I [''reliability'', ''database'', ''cloud-devops'', ''database-migration'', ''destructive'',
       ''infrastructure'', ''rollback-validation'']"

definition assuranceObligations :: "specialistRoutingInput \<Rightarrow> specialistObligation list" where
  "assuranceObligations I =
     [assuranceObligation ''independent-reviewer'' ''independent review'']
     @ (if securityRequired I then [assuranceObligation ''security-reviewer'' ''security review''] else [])
     @ (if performanceRequired I then [assuranceObligation ''performance-reviewer'' ''performance evidence''] else [])
     @ (if reliabilityRequired I then [assuranceObligation ''reliability-reviewer'' ''reliability review''] else [])"

definition knowsArea :: "specialistProfile \<Rightarrow> string \<Rightarrow> bool" where
  "knowsArea p area \<longleftrightarrow>
     (case ac_affectedAreaAny (sp_activation p) of None \<Rightarrow> False
      | Some areas \<Rightarrow> list_ex (\<lambda>candidate. normalizeSpecialistEvidenceToken candidate = area) areas)"

definition areaObligations ::
  "'h host_scheme \<Rightarrow> specialistRoutingInput \<Rightarrow> specialistProfile list \<Rightarrow> specialistObligation list" where
  "areaObligations H I profiles =
     map (\<lambda>area. (obligation (boundedObligationId H ''affected-area'' area) AffectedAreaOb)
              \<lparr>ob_affectedArea := Some area\<rparr>)
       (filter (\<lambda>area. list_ex (\<lambda>p. knowsArea p area) profiles)
          (map normalizeSpecialistEvidenceToken (sortedUnique H (si_affectedAreas I))))"

definition dependencyObligations :: "specialistRoutingInput \<Rightarrow> specialistObligation list" where
  "dependencyObligations I =
     (case si_dependencySignals I of
        Some d \<Rightarrow> if dep_crossCutting d then [obligation ''dependency:cross-cutting'' DependencyOb] else []
      | None \<Rightarrow> [])"

text \<open>Everything the derivation tries to add, in its order.\<close>

definition proposedObligations ::
  "'h host_scheme \<Rightarrow> specialistRoutingInput \<Rightarrow> specialistProfile list \<Rightarrow> specialistObligation list" where
  "proposedObligations H I profiles =
     map (domainObligation H) (requestedDomains H I)
     @ map (gateObligation H) (sortedUnique H (si_gates I))
     @ map (evidenceObligation H) (sortedUnique H (si_requiredEvidence I))
     @ assuranceObligations I @ areaObligations H I profiles @ dependencyObligations I"

definition deriveSpecialistObligations ::
  "'h host_scheme \<Rightarrow> specialistRoutingInput \<Rightarrow> specialistProfile list \<Rightarrow> specialistObligation list" where
  "deriveSpecialistObligations H I profiles =
     sort_with (\<lambda>a b. locale_le H (ob_obligationId a) (ob_obligationId b))
       (foldl addObligation [] (proposedObligations H I profiles))"

section \<open>Which profile discharges an obligation\<close>

definition producedEvidence :: "specialistProfile \<Rightarrow> string list" where
  "producedEvidence p = map normalizeSpecialistEvidenceToken (sp_producesEvidence p)"

definition gateEvidenceMatches :: "specialistProfile \<Rightarrow> string \<Rightarrow> string option \<Rightarrow> bool" where
  "gateEvidenceMatches p gateId evidenceId =
     (case GATE_REQUIREMENTS gateId of None \<Rightarrow> False
      | Some q \<Rightarrow> truthy evidenceId
          \<and> list_ex (\<lambda>v. v \<in> set (producedEvidence p))
              (map normalizeSpecialistEvidenceToken (or_empty evidenceId # gq_aliases q)))"

definition hasRequiredFunction :: "specialistProfile \<Rightarrow> specialistFunction list \<Rightarrow> bool" where
  "hasRequiredFunction p fs \<longleftrightarrow> list_ex (\<lambda>f. f \<in> set (sp_functions p)) fs"

definition coversGateObligation :: "specialistProfile \<Rightarrow> specialistObligation \<Rightarrow> bool" where
  "coversGateObligation p item =
     (if \<not> truthy (ob_gateId item) then False
      else let gateId = or_empty (ob_gateId item)
           in case (lookupGate gateId, GATE_REQUIREMENTS gateId) of
                (Some def, Some q) \<Rightarrow>
                  (if truthy (gd_reviewerRole def) \<and> gd_reviewerRole def \<noteq> Some (sp_specialistId p) then False
                   else if gq_assurance q \<and> sp_independenceClass p \<noteq> AssuranceClass then False
                   else hasRequiredFunction p (gq_functions q)
                        \<and> gateEvidenceMatches p gateId (ob_evidenceId item))
              | _ \<Rightarrow> False)"

definition profileCoversSpecialistObligation :: "specialistProfile \<Rightarrow> specialistObligation \<Rightarrow> bool" where
  "profileCoversSpecialistObligation p item =
    (case ob_kind item of
       DomainOb \<Rightarrow> (case ob_domainId item of None \<Rightarrow> False | Some d \<Rightarrow> d \<in> set (sp_coveredDomains p))
     | GateOb \<Rightarrow> coversGateObligation p item
     | EvidenceOb \<Rightarrow>
         (case ob_evidenceId item of None \<Rightarrow> False
          | Some e \<Rightarrow>
              let normalized = normalizeSpecialistEvidenceToken e
              in list_ex (\<lambda>v. v \<in> set (producedEvidence p))
                   (map normalizeSpecialistEvidenceToken (normalized # FREEFORM_EVIDENCE_ALIASES normalized)))
     | AssuranceOb \<Rightarrow>
         ob_specialistId item = Some (sp_specialistId p)
         \<and> sp_independenceClass p \<noteq> ImplementationClass
         \<and> (IndependentReviewFn \<in> set (sp_functions p) \<or> SecurityAssuranceFn \<in> set (sp_functions p)
            \<or> PerformanceAssuranceFn \<in> set (sp_functions p) \<or> ReliabilityAssuranceFn \<in> set (sp_functions p))
     | AffectedAreaOb \<Rightarrow>
         (case ob_affectedArea item of None \<Rightarrow> False | Some area \<Rightarrow> knowsArea p area)
     | DependencyOb \<Rightarrow> ArchitectureFn \<in> set (sp_functions p))"

definition specialistObligationReasonCode :: "specialistObligation \<Rightarrow> string" where
  "specialistObligationReasonCode item =
    (case ob_kind item of
       DomainOb \<Rightarrow> ''DOMAIN_COVERAGE''
     | GateOb \<Rightarrow> ''GATE_REQUIRES_SPECIALIST''
     | EvidenceOb \<Rightarrow> ''REQUIRED_EVIDENCE_COVERAGE''
     | AffectedAreaOb \<Rightarrow> ''AFFECTED_AREA_MATCH''
     | DependencyOb \<Rightarrow> ''DEPENDENCY_CROSS_CUTTING''
     | AssuranceOb \<Rightarrow>
         (if ob_specialistId item = Some ''security-reviewer'' then ''SECURITY_ASSURANCE_REQUIRED''
          else if ob_specialistId item = Some ''performance-reviewer'' then ''PERFORMANCE_ASSURANCE_REQUIRED''
          else if ob_specialistId item = Some ''reliability-reviewer'' then ''RELIABILITY_ASSURANCE_REQUIRED''
          else ''INDEPENDENT_REVIEW_REQUIRED''))"

section \<open>Facts\<close>

lemma obligation_simps [simp]:
  "ob_obligationId (obligation i k) = i" "ob_kind (obligation i k) = k"
  "ob_gateId (obligation i k) = None" "ob_specialistId (obligation i k) = None"
  "ob_evidenceId (obligation i k) = None"
  by (simp_all add: obligation_def)

lemma set_sortedUnique [simp]: "set (sortedUnique H xs) = {v \<in> set xs. trim v \<noteq> []}"
  by (auto simp: sortedUnique_def)

lemma addObligation_ids:
  "ob_obligationId ` set (addObligation m x) = insert (ob_obligationId x) (ob_obligationId ` set m)"
  by (auto simp: addObligation_def)

lemma foldl_addObligation_ids:
  "ob_obligationId ` set (foldl addObligation m xs) = ob_obligationId ` set m \<union> ob_obligationId ` set xs"
  by (induction xs arbitrary: m) (auto simp: addObligation_ids)

lemma foldl_addObligation_distinct:
  "distinct (map ob_obligationId m) \<Longrightarrow> distinct (map ob_obligationId (foldl addObligation m xs))"
  by (induction xs arbitrary: m) (auto simp: addObligation_def)

lemma foldl_addObligation_sub: "set (foldl addObligation m xs) \<subseteq> set m \<union> set xs"
proof (induction xs arbitrary: m)
  case (Cons x xs)
  have "set (addObligation m x) \<subseteq> insert x (set m)" by (auto simp: addObligation_def)
  with Cons [of "addObligation m x"] show ?case by auto
qed simp

lemma foldl_addObligation_keeps: "set m \<subseteq> set (foldl addObligation m xs)"
proof (induction xs arbitrary: m)
  case (Cons x xs)
  have "set m \<subseteq> set (addObligation m x)" by (auto simp: addObligation_def)
  with Cons show ?case by (metis foldl_Cons order_trans)
qed simp

text \<open>An item that agrees with every proposed item of its identifier is kept.\<close>

lemma foldl_addObligation_mem:
  assumes "x \<in> set xs" "\<forall>y\<in>set m \<union> set xs. ob_obligationId y = ob_obligationId x \<longrightarrow> y = x"
  shows "x \<in> set (foldl addObligation m xs)"
proof -
  have "ob_obligationId x \<in> ob_obligationId ` set (foldl addObligation m xs)"
    using assms(1) by (simp add: foldl_addObligation_ids)
  then obtain y where y: "y \<in> set (foldl addObligation m xs)" "ob_obligationId y = ob_obligationId x"
    by auto
  then have "y \<in> set m \<union> set xs" using foldl_addObligation_sub [of m xs] by blast
  with assms(2) y show ?thesis by auto
qed

lemma distinct_map_sort_with: "distinct (map f (sort_with le xs)) = distinct (map f xs)"
  by (metis mset_eq_imp_distinct_iff mset_map mset_sort_with)

lemma derive_obligations_distinct:
  "distinct (map ob_obligationId (deriveSpecialistObligations H I profiles))"
  unfolding deriveSpecialistObligations_def distinct_map_sort_with
  by (rule foldl_addObligation_distinct) simp

lemma set_derive_obligations:
  "set (deriveSpecialistObligations H I profiles)
     = set (foldl addObligation [] (proposedObligations H I profiles))"
  by (simp add: deriveSpecialistObligations_def)

lemma known_gate_plain:
  "isKnownGateId g \<Longrightarrow> normalizeSpecialistEvidenceToken g = g \<and> length g \<le> 80 \<and> is_plain_token g \<and> trim g \<noteq> []"
proof -
  have "list_all (\<lambda>d. normalizeSpecialistEvidenceToken (gd_id d) = gd_id d \<and> length (gd_id d) \<le> 80
      \<and> is_plain_token (gd_id d) \<and> trim (gd_id d) \<noteq> []) GATE_REGISTRY"
    by code_simp
  then show "isKnownGateId g \<Longrightarrow> ?thesis"
    by (auto simp: isKnownGateId_def list_all_iff list_ex_iff)
qed

lemma known_gate_id: "isKnownGateId g \<Longrightarrow> boundedObligationId H ''gate'' g = ''gate:'' @ g"
  using known_gate_plain [of g] by (simp add: boundedObligationId_def Let_def)

lemma GATE_BY_EVIDENCE_known: "GATE_BY_EVIDENCE v = Some g \<Longrightarrow> isKnownGateId g"
  by (auto simp: GATE_BY_EVIDENCE_def isKnownGateId_def list_ex_iff dest!: map_of_SomeD)

lemma boundedObligationId_prefix:
  "\<exists>t. boundedObligationId H p v = p @ '':'' @ t"
  by (auto simp: boundedObligationId_def Let_def)

lemma requirements_total: "isKnownGateId g \<Longrightarrow> GATE_REQUIREMENTS g \<noteq> None"
proof -
  have "list_all (\<lambda>d. GATE_REQUIREMENTS (gd_id d) \<noteq> None) GATE_REGISTRY"
    by (simp add: GATE_REGISTRY_def gate_constructors GATE_REQUIREMENTS_def GATE_REQUIREMENT_TABLE_def)
  then show "isKnownGateId g \<Longrightarrow> ?thesis"
    by (auto simp: isKnownGateId_def list_all_iff list_ex_iff)
qed

text \<open>The proposed items by identifier: the prefixes keep the groups apart.\<close>

lemma proposed_cases:
  assumes "x \<in> set (proposedObligations H I profiles)"
  obtains (domain) t where "ob_obligationId x = ''domain:'' @ t"
  | (gate) g where "x = gateObligation H g" "g \<in> set (si_gates I) \<or> isKnownGateId g"
  | (evidence) t where "ob_obligationId x = ''evidence:'' @ t"
  | (assurance) "x \<in> set (assuranceObligations I)"
  | (area) t where "ob_obligationId x = ''affected-area:'' @ t"
  | (dependency) "ob_obligationId x = ''dependency:cross-cutting''"
  using assms boundedObligationId_prefix [of H "''domain''"] boundedObligationId_prefix [of H "''evidence''"]
    boundedObligationId_prefix [of H "''affected-area''"]
  by (fastforce simp: proposedObligations_def domainObligation_def evidenceObligation_def Let_def
      areaObligations_def dependencyObligations_def dest: GATE_BY_EVIDENCE_known
      split: option.splits if_splits)

lemma gateObligation_id: "\<exists>t. ob_obligationId (gateObligation H g) = ''gate:'' @ t"
  using boundedObligationId_prefix [of H "''gate''" g] by (simp add: gateObligation_def)

lemma gateObligation_known:
  "isKnownGateId g \<Longrightarrow> ob_obligationId (gateObligation H g) = ''gate:'' @ g"
  by (simp add: gateObligation_def known_gate_id)

lemma assurance_id:
  "x \<in> set (assuranceObligations I) \<Longrightarrow> \<exists>t. ob_obligationId x = ''assurance:'' @ t"
  by (auto simp: assuranceObligations_def assuranceObligation_def split: if_splits)

lemma proposed_gate_items:
  assumes "x \<in> set (proposedObligations H I profiles)" "ob_obligationId x = ''gate:'' @ t"
  shows "\<exists>g. x = gateObligation H g \<and> (g \<in> set (si_gates I) \<or> isKnownGateId g)"
  using assms(1)
  by (cases rule: proposed_cases) (use assms(2) in \<open>auto dest: assurance_id\<close>)

lemma assurance_items_unique:
  assumes "x \<in> set (proposedObligations H I profiles)" "ob_obligationId x = ''assurance:'' @ t"
  shows "x \<in> set (assuranceObligations I)"
  using assms(1)
proof (cases rule: proposed_cases)
  case (gate g)
  then show ?thesis using assms(2) gateObligation_id [of H g] by auto
qed (use assms(2) in auto)

lemma assurance_obligation_determined:
  "x \<in> set (assuranceObligations I) \<Longrightarrow> y \<in> set (assuranceObligations I) \<Longrightarrow>
     ob_obligationId x = ob_obligationId y \<Longrightarrow> x = y"
  by (auto simp: assuranceObligations_def assuranceObligation_def split: if_splits)

lemma derive_assurance_iff:
  "''assurance:'' @ role \<in> ob_obligationId ` set (deriveSpecialistObligations H I profiles) \<longleftrightarrow>
     ''assurance:'' @ role \<in> ob_obligationId ` set (assuranceObligations I)"
  using assurance_items_unique [of _ H I profiles role]
  by (auto simp: set_derive_obligations foldl_addObligation_ids)
    (force simp: proposedObligations_def)

definition assuranceRolesOf :: "specialistRoutingInput \<Rightarrow> string list" where
  "assuranceRolesOf I =
     [''independent-reviewer''] @ (if securityRequired I then [''security-reviewer''] else [])
     @ (if performanceRequired I then [''performance-reviewer''] else [])
     @ (if reliabilityRequired I then [''reliability-reviewer''] else [])"

lemma assurance_ids:
  "''assurance:'' @ role \<in> ob_obligationId ` set (assuranceObligations I) \<longleftrightarrow> role \<in> set (assuranceRolesOf I)"
proof -
  have "map ob_obligationId (assuranceObligations I) = map ((@) ''assurance:'') (assuranceRolesOf I)"
    unfolding assuranceObligations_def assuranceRolesOf_def assuranceObligation_def
    by (cases "securityRequired I"; cases "performanceRequired I"; cases "reliabilityRequired I") simp_all
  then have "ob_obligationId ` set (assuranceObligations I) = (@) ''assurance:'' ` set (assuranceRolesOf I)"
    by (metis set_map)
  moreover have "p @ role \<in> (@) p ` S \<longleftrightarrow> role \<in> S" for p :: string and S by auto
  ultimately show ?thesis by presburger
qed

lemma in_assurance_roles:
  "role \<in> set (assuranceRolesOf I) \<longleftrightarrow> role = ''independent-reviewer'' \<or> (role = ''security-reviewer'' \<and> securityRequired I)
     \<or> (role = ''performance-reviewer'' \<and> performanceRequired I) \<or> (role = ''reliability-reviewer'' \<and> reliabilityRequired I)"
  by (simp add: assuranceRolesOf_def)

section \<open>Properties\<close>

lemma derive_gate_mem:
  assumes "\<forall>g\<in>set (si_gates I). isKnownGateId g" "g \<in> set (si_gates I)"
  shows "gateObligation H g \<in> set (deriveSpecialistObligations H I profiles)"
  unfolding set_derive_obligations
proof (rule foldl_addObligation_mem)
  have g: "isKnownGateId g" using assms by blast
  then show "gateObligation H g \<in> set (proposedObligations H I profiles)"
    using assms(2) known_gate_plain [OF g] by (simp add: proposedObligations_def)
  show "\<forall>y\<in>set [] \<union> set (proposedObligations H I profiles).
      ob_obligationId y = ob_obligationId (gateObligation H g) \<longrightarrow> y = gateObligation H g"
    using proposed_gate_items [of _ H I profiles g] assms(1) gateObligation_known [of _ H] g
    by fastforce
qed

text \<open>The domain items are the requested domains, each kept under its identifier.\<close>

lemma proposed_domain:
  assumes "x \<in> set (proposedObligations H I profiles)"
    and "ob_kind x = DomainOb \<or> (\<exists>t. ob_obligationId x = ''domain:'' @ t)"
  shows "\<exists>d\<in>set (requestedDomains H I). x = domainObligation H d"
proof -
  have kinds: "ob_kind (gateObligation H g) = GateOb" "ob_kind (assuranceObligation r v) = AssuranceOb" for g r v
    by (simp_all add: gateObligation_def assuranceObligation_def)
  have assurance: "ob_kind y = AssuranceOb \<and> \<not> (\<exists>t. ob_obligationId y = ''domain:'' @ t)"
    if "y \<in> set (assuranceObligations I)" for y
    using that by (auto simp: assuranceObligations_def assuranceObligation_def split: if_splits)
  have gate: "\<not> (\<exists>t. ob_obligationId (gateObligation H g) = ''domain:'' @ t)" for g
    using gateObligation_id [of H g] by auto
  have evidence: "ob_kind (evidenceObligation H v) \<noteq> DomainOb
      \<and> \<not> (\<exists>t. ob_obligationId (evidenceObligation H v) = ''domain:'' @ t)" for v
  proof (cases "GATE_BY_EVIDENCE (normalizeSpecialistEvidenceToken v)")
    case None
    obtain t where "boundedObligationId H ''evidence'' (normalizeSpecialistEvidenceToken v) = ''evidence:'' @ t"
      using boundedObligationId_prefix [of H "''evidence''" "normalizeSpecialistEvidenceToken v"] by auto
    with None show ?thesis by (simp add: evidenceObligation_def Let_def)
  next
    case (Some g)
    then have "evidenceObligation H v = gateObligation H g" by (simp add: evidenceObligation_def Let_def)
    with kinds gate show ?thesis by simp
  qed
  have area: "ob_kind y \<noteq> DomainOb \<and> \<not> (\<exists>t. ob_obligationId y = ''domain:'' @ t)"
    if y: "y \<in> set (areaObligations H I profiles)" for y
  proof -
    obtain a where "y = (obligation (boundedObligationId H ''affected-area'' a) AffectedAreaOb)\<lparr>ob_affectedArea := Some a\<rparr>"
      using y by (auto simp: areaObligations_def)
    moreover obtain t where "boundedObligationId H ''affected-area'' a = ''affected-area:'' @ t"
      using boundedObligationId_prefix [of H "''affected-area''" a] by auto
    ultimately show ?thesis by simp
  qed
  have dependency: "ob_kind y \<noteq> DomainOb \<and> \<not> (\<exists>t. ob_obligationId y = ''domain:'' @ t)"
    if "y \<in> set (dependencyObligations I)" for y
    using that by (auto simp: dependencyObligations_def split: option.splits if_splits)
  from assms(1) consider "\<exists>d\<in>set (requestedDomains H I). x = domainObligation H d" | g where "x = gateObligation H g"
    | v where "x = evidenceObligation H v" | "x \<in> set (assuranceObligations I)"
    | "x \<in> set (areaObligations H I profiles)" | "x \<in> set (dependencyObligations I)"
    unfolding proposedObligations_def set_append set_map by blast
  then show ?thesis using assms(2) kinds gate evidence assurance area dependency by cases auto
qed

lemma derived_domain:
  assumes "x \<in> set (deriveSpecialistObligations H I profiles)" "ob_kind x = DomainOb"
  shows "\<exists>d\<in>set (requestedDomains H I). x = domainObligation H d"
  using assms foldl_addObligation_sub [of "[]" "proposedObligations H I profiles"] proposed_domain
  unfolding set_derive_obligations by fastforce

lemma derive_domain_mem:
  assumes "d \<in> set (requestedDomains H I)"
  shows "\<exists>x\<in>set (deriveSpecialistObligations H I profiles).
    ob_kind x = DomainOb \<and> ob_obligationId x = boundedObligationId H ''domain'' d"
proof -
  have id: "ob_obligationId (domainObligation H e) = boundedObligationId H ''domain'' e \<and> ob_kind (domainObligation H e) = DomainOb" for e
    by (simp add: domainObligation_def)
  have "domainObligation H d \<in> set (proposedObligations H I profiles)"
    using assms by (simp add: proposedObligations_def)
  then have "ob_obligationId (domainObligation H d) \<in> ob_obligationId ` set (foldl addObligation [] (proposedObligations H I profiles))"
    by (simp add: foldl_addObligation_ids)
  then obtain x where x: "x \<in> set (foldl addObligation [] (proposedObligations H I profiles))"
      "ob_obligationId x = boundedObligationId H ''domain'' d"
    using id by auto
  then have "x \<in> set (proposedObligations H I profiles)"
    using foldl_addObligation_sub [of "[]" "proposedObligations H I profiles"] by auto
  moreover have "\<exists>t. ob_obligationId x = ''domain:'' @ t"
    using x(2) boundedObligationId_prefix [of H "''domain''" d] by auto
  ultimately obtain e where "x = domainObligation H e" using proposed_domain by blast
  then have "ob_kind x = DomainOb" using id by simp
  with x show ?thesis unfolding set_derive_obligations by blast
qed

text \<open>The domains a specialist is asked for: six have roles of their own, a blank one asks for nobody.\<close>

definition specialistDomain :: "string \<Rightarrow> bool" where
  "specialistDomain d \<longleftrightarrow> trim d \<noteq> []
     \<and> d \<notin> {''general'', ''architecture'', ''quality'', ''security'', ''performance'', ''reliability''}"

lemma in_requestedDomains: "d \<in> set (requestedDomains H I) \<longleftrightarrow> d \<in> set (si_domains I) \<and> specialistDomain d"
  unfolding requestedDomains_def specialistDomain_def set_filter set_sortedUnique by auto

text \<open>C26: the derived obligations have distinct identifiers. Every domain of the work order, the six that
  other obligations stand for apart, has a domain obligation under its identifier, and there is no
  domain obligation beside these; every selected gate (all known) is an obligation carrying its
  registry evidence; independent review is always required, and the security, performance and
  reliability reviewers are required exactly under the conditions of the policy.\<close>

theorem obligations_complete:
  assumes "\<forall>g\<in>set (si_gates I). isKnownGateId g"
  shows "distinct (map ob_obligationId (deriveSpecialistObligations H I profiles))
    \<and> (\<forall>d\<in>set (si_domains I). specialistDomain d \<longrightarrow>
         (\<exists>x\<in>set (deriveSpecialistObligations H I profiles).
            ob_kind x = DomainOb \<and> ob_obligationId x = boundedObligationId H ''domain'' d))
    \<and> (\<forall>x\<in>set (deriveSpecialistObligations H I profiles). ob_kind x = DomainOb \<longrightarrow>
         (\<exists>d\<in>set (si_domains I). specialistDomain d
            \<and> ob_domainId x = Some d \<and> ob_obligationId x = boundedObligationId H ''domain'' d))
    \<and> (\<forall>g\<in>set (si_gates I). \<exists>x\<in>set (deriveSpecialistObligations H I profiles).
         ob_kind x = GateOb \<and> ob_obligationId x = ''gate:'' @ g \<and> ob_gateId x = Some g \<and> ob_evidenceId x = Some (gateEvidence g))
    \<and> (\<forall>role. ''assurance:'' @ role \<in> ob_obligationId ` set (deriveSpecialistObligations H I profiles)
         \<longleftrightarrow> role = ''independent-reviewer'' \<or> (role = ''security-reviewer'' \<and> securityRequired I)
           \<or> (role = ''performance-reviewer'' \<and> performanceRequired I)
           \<or> (role = ''reliability-reviewer'' \<and> reliabilityRequired I))"
proof (intro conjI)
  let ?derived = "deriveSpecialistObligations H I profiles"
  show "distinct (map ob_obligationId ?derived)" by (rule derive_obligations_distinct)
  show "\<forall>d\<in>set (si_domains I). specialistDomain d \<longrightarrow>
         (\<exists>x\<in>set ?derived. ob_kind x = DomainOb \<and> ob_obligationId x = boundedObligationId H ''domain'' d)"
    using derive_domain_mem [of _ H I profiles] unfolding in_requestedDomains by blast
  show "\<forall>x\<in>set ?derived. ob_kind x = DomainOb \<longrightarrow> (\<exists>d\<in>set (si_domains I). specialistDomain d
            \<and> ob_domainId x = Some d \<and> ob_obligationId x = boundedObligationId H ''domain'' d)"
  proof (intro ballI impI)
    fix x assume "x \<in> set ?derived" "ob_kind x = DomainOb"
    from derived_domain [OF this] obtain d where "d \<in> set (requestedDomains H I)" "x = domainObligation H d" by blast
    then show "\<exists>d\<in>set (si_domains I). specialistDomain d
            \<and> ob_domainId x = Some d \<and> ob_obligationId x = boundedObligationId H ''domain'' d"
      unfolding in_requestedDomains by (intro bexI [of _ d]) (simp_all add: domainObligation_def)
  qed
  show "\<forall>g\<in>set (si_gates I). \<exists>x\<in>set ?derived.
         ob_kind x = GateOb \<and> ob_obligationId x = ''gate:'' @ g \<and> ob_gateId x = Some g \<and> ob_evidenceId x = Some (gateEvidence g)"
  proof
    fix g assume g: "g \<in> set (si_gates I)"
    then have "ob_obligationId (gateObligation H g) = ''gate:'' @ g" using assms gateObligation_known by blast
    moreover have "ob_kind (gateObligation H g) = GateOb" "ob_gateId (gateObligation H g) = Some g"
        "ob_evidenceId (gateObligation H g) = Some (gateEvidence g)"
      by (simp_all add: gateObligation_def)
    ultimately show "\<exists>x\<in>set ?derived.
         ob_kind x = GateOb \<and> ob_obligationId x = ''gate:'' @ g \<and> ob_gateId x = Some g \<and> ob_evidenceId x = Some (gateEvidence g)"
      using derive_gate_mem [OF assms g] by metis
  qed
  show "\<forall>role. ''assurance:'' @ role \<in> ob_obligationId ` set ?derived
         \<longleftrightarrow> role = ''independent-reviewer'' \<or> (role = ''security-reviewer'' \<and> securityRequired I)
           \<or> (role = ''performance-reviewer'' \<and> performanceRequired I)
           \<or> (role = ''reliability-reviewer'' \<and> reliabilityRequired I)"
    unfolding derive_assurance_iff assurance_ids in_assurance_roles by blast
qed

definition demoRoutingInput :: specialistRoutingInput where
  "demoRoutingInput =
     \<lparr>si_projectId = ''p'', si_workOrderId = ''wo'', si_objective = ''add a column'', si_constraints = [],
      si_inScope = [''db''], si_outOfScope = [], si_acceptanceCriteria = [], si_domains = [''database''],
      si_scopeClass = Local, si_riskLevel = MEDIUM, si_riskSignals = [], si_riskReasons = [],
      si_affectedAreas = [], si_gates = [''build'', ''database-migration'', ''rollback-validation''],
      si_requiredEvidence = [''gate:build''], si_dependencyInfo = [], si_dependencySignals = None,
      si_changeDigest = None, si_impactDigest = None, si_gateContractDigest = None,
      si_registry = \<lparr>sr_profiles = [], sr_registryDigest = ''r'', sr_policyVersion = ''0.9.0''\<rparr>,
      si_allowExperimental = False\<rparr>"

lemma demo_gates_known: "\<forall>g\<in>set (si_gates demoRoutingInput). isKnownGateId g"
  by (simp add: demoRoutingInput_def isKnownGateId_def GATE_REGISTRY_def gate_constructors)

lemma obligations_complete_witness:
  "(\<exists>x\<in>set (deriveSpecialistObligations plain_host demoRoutingInput []).
      ob_kind x = DomainOb \<and> ob_obligationId x = boundedObligationId plain_host ''domain'' ''database'')
   \<and> (\<exists>x\<in>set (deriveSpecialistObligations plain_host demoRoutingInput []). ob_gateId x = Some ''database-migration'')
   \<and> ''assurance:'' @ ''reliability-reviewer''
       \<in> ob_obligationId ` set (deriveSpecialistObligations plain_host demoRoutingInput [])"
proof (intro conjI)
  note all = obligations_complete [OF demo_gates_known, of plain_host "[]"]
  let ?derived = "deriveSpecialistObligations plain_host demoRoutingInput []"
  have domain: "''database'' \<in> set (si_domains demoRoutingInput)" "specialistDomain ''database''"
    and gate: "''database-migration'' \<in> set (si_gates demoRoutingInput)"
    by (simp_all add: demoRoutingInput_def specialistDomain_def trim_def is_space_def)
  from all [THEN conjunct2, THEN conjunct1, THEN bspec, THEN mp, OF domain]
  show "\<exists>x\<in>set ?derived. ob_kind x = DomainOb \<and> ob_obligationId x = boundedObligationId plain_host ''domain'' ''database''" .
  from all [THEN conjunct2, THEN conjunct2, THEN conjunct2, THEN conjunct1, THEN bspec, OF gate]
  show "\<exists>x\<in>set ?derived. ob_gateId x = Some ''database-migration''" by (elim bexE conjE) (rule bexI)
  have "reliabilityRequired demoRoutingInput"
    by (simp add: reliabilityRequired_def hasAny_def demoRoutingInput_def)
  then show "''assurance:'' @ ''reliability-reviewer'' \<in> ob_obligationId ` set ?derived"
    using all [THEN conjunct2, THEN conjunct2, THEN conjunct2, THEN conjunct2, THEN spec, of "''reliability-reviewer''"] by (simp only: simp_thms)
qed

end
