(* ===== verification/Specialist_Catalog.thy ===== *)
theory Specialist_Catalog
  imports Specialist_Obligations
begin

text \<open>
  The built-in specialist profiles of \<^verbatim>\<open>src/kernel/specialist-catalog.ts\<close>. The digest of a
  profile is added by the registry, so a profile of the catalog has the empty digest here.
\<close>

definition noActivation :: specialistActivation where
  "noActivation = \<lparr>ac_scopeClasses = None, ac_minRisk = None, ac_domainAny = None,
     ac_riskSignalsAny = None, ac_gatesAny = None, ac_affectedAreaAny = None\<rparr>"

definition activation ::
  "string list option \<Rightarrow> string list option \<Rightarrow> string list option \<Rightarrow> specialistActivation" where
  "activation domainAny riskSignalsAny gatesAny =
     noActivation\<lparr>ac_domainAny := domainAny, ac_riskSignalsAny := riskSignalsAny, ac_gatesAny := gatesAny\<rparr>"

definition profile ::
  "string \<Rightarrow> specialistKind \<Rightarrow> string \<Rightarrow> string list \<Rightarrow> specialistFunction list \<Rightarrow> bool \<Rightarrow> bool
     \<Rightarrow> independenceClass \<Rightarrow> specialistActivation \<Rightarrow> string list \<Rightarrow> string list \<Rightarrow> nat \<Rightarrow> string
     \<Rightarrow> specialistProfile" where
  "profile i k purpose domains fs mayImplement reviewOnly ind act inputs produces priority notes =
     \<lparr>sp_specialistId = i, sp_kind = k, sp_status = SpEnabled, sp_purpose = purpose,
      sp_coveredDomains = domains, sp_functions = fs, sp_mayImplement = mayImplement,
      sp_reviewOnly = reviewOnly, sp_independenceClass = ind, sp_activation = act,
      sp_requiredInputs = inputs, sp_producesEvidence = produces, sp_incompatibleWith = [],
      sp_priority = priority, sp_source = BuiltinProfile, sp_notes = Some notes, sp_profileDigest = []\<rparr>"

definition BUILTIN_SPECIALIST_PROFILES :: "specialistProfile list" where
  "BUILTIN_SPECIALIST_PROFILES =
    [profile ''repo-inspector'' CoreKind ''Inspect repository metadata and project identity''
       [''general''] [InspectFn] False True SupportClass noActivation
       [''project identity''] [''repository map''] 10
       ''Must not edit product files or execute discovered project code.'',
     profile ''requirements-engineer'' CoreKind ''Normalize requirements and acceptance criteria''
       [''requirements''] [RequirementsFn] False True SupportClass noActivation
       [''normalized intake''] [''acceptance criteria''] 20
       ''Must not broaden scope beyond the accepted Work Order.'',
     profile ''software-architect'' CoreKind ''Bound cross-cutting architecture decisions''
       [''architecture''] [ArchitectureFn] False True SupportClass noActivation
       [''intake and repository map''] [''architecture bounds''] 30
       ''Must not approve its own implementation or invent external capabilities.'',
     profile ''implementation-planner'' CoreKind ''Produce a bounded executable Work Order plan''
       [''general''] [PlanningFn] False True SupportClass noActivation
       [''intake and routing evidence''] [''Work Order plan''] 40
       ''Must not dispatch work outside the selected scope.'',
     profile ''implementation-agent'' CoreKind ''Apply necessary in-scope product edits''
       [''general''] [ImplementationFn] True False ImplementationClass noActivation
       [''Work Order and execution packet''] [''in-scope change''] 50
       ''Must not perform approval-gated actions or serve as the sole final reviewer.'',
     profile ''test-engineer'' CoreKind ''Design and run focused verification''
       [''quality'', ''testing''] [TestingFn] False True SupportClass noActivation
       [''Work Order and selected gates''] [''test evidence''] 60
       ''Must not self-approve implementation changes.'',
     profile ''independent-reviewer'' CoreKind ''Independently review the implementation''
       [''quality'', ''certification''] [IndependentReviewFn] False True IndependentReviewClass noActivation
       [''diff and gate evidence''] [''independent review''] 70
       ''Must use an independent session and must not implement the reviewed change.'',
     profile ''security-reviewer'' AssuranceKind ''Provide security assurance for sensitive changes''
       [''security''] [SecurityAssuranceFn] False True AssuranceClass noActivation
       [''risk signals and relevant diff''] [''security review''] 80
       ''Must not expose secrets or approve by implementing.'',
     profile ''performance-reviewer'' AssuranceKind ''Provide performance assurance for hot paths''
       [''performance''] [PerformanceAssuranceFn] False True AssuranceClass (activation (Some [''performance'']) (Some [''performance-hot-path'']) None)
       [''hot-path scope and benchmarks''] [''performance evidence''] 90
       ''Must not trade correctness or scope controls for a local benchmark result.'',
     profile ''reliability-reviewer'' AssuranceKind ''Provide reliability and rollback assurance''
       [''reliability''] [ReliabilityAssuranceFn] False True AssuranceClass (activation (Some [''reliability'', ''database'', ''cloud-devops'']) (Some [''database-migration'', ''destructive'', ''infrastructure'']) None)
       [''dependency and rollback evidence''] [''reliability review''] 95
       ''Must not approve irreversible operations without rollback evidence.'',
     profile ''checkpoint-manager'' CoreKind ''Persist bounded resume and checkpoint state''
       [''general''] [CheckpointFn] False True SupportClass noActivation
       [''Work Order and routing decision''] [''atomic checkpoint''] 100
       ''Must persist only sanitized sidecar state outside the managed project.'',
     profile ''product-requirements-specialist'' DomainKind ''Translate product requirements into verifiable outcomes''
       [''requirements''] [RequirementsFn] False True SupportClass (activation (Some [''requirements'']) None None)
       [''objective and acceptance criteria''] [''product requirement trace''] 110
       ''Must not alter technical scope without an explicit Work Order update.'',
     profile ''frontend-specialist'' DomainKind ''Handle frontend and interaction concerns''
       [''frontend''] [FrontendFn] False True SupportClass (activation (Some [''frontend'']) None None)
       [''frontend scope and affected areas''] [''frontend verification''] 120
       ''Must not introduce unrelated backend, Web3, or finance work.'',
     profile ''backend-api-specialist'' DomainKind ''Handle backend, API, and SaaS boundaries''
       [''backend'', ''api'', ''saas''] [BackendApiFn] False True SupportClass (activation (Some [''backend'', ''api'', ''saas'']) None None)
       [''API or service contract''] [''backend/API verification''] 130
       ''Must preserve authentication, contract, and data-boundary obligations.'',
     profile ''database-specialist'' DomainKind ''Handle database schema and migration safety''
       [''database''] [DatabaseFn] False True SupportClass (activation (Some [''database'']) None None)
       [''schema impact and migration plan''] [''migration and rollback evidence''] 140
       ''Must not execute destructive production operations.'',
     profile ''mobile-client-specialist'' DomainKind ''Handle mobile client behavior and compatibility''
       [''mobile''] [MobileFn] False True SupportClass (activation (Some [''mobile'']) None None)
       [''mobile scope and supported clients''] [''mobile compatibility evidence''] 150
       ''Must not assume desktop or server behavior is equivalent to mobile behavior.'',
     profile ''systems-runtime-specialist'' DomainKind ''Handle systems language, kernel/runtime, contract, event-driven, state recovery, and offline-first concerns''
       [''rust'', ''kernel-runtime'', ''contracts'', ''event-driven-systems'', ''state-recovery'', ''offline-first''] [SystemsRuntimeFn] False True SupportClass (activation (Some [''rust'', ''kernel-runtime'', ''contracts'', ''event-driven-systems'', ''state-recovery'', ''offline-first'']) None None)
       [''runtime architecture, contracts, and state/recovery obligations''] [''systems/runtime verification guidance''] 155
       ''Must not replace focused testing, security assurance, or independent certification.'',
     profile ''platform-cloud-specialist'' DomainKind ''Handle cloud, DevOps, and release platform concerns''
       [''cloud-devops'', ''release''] [PlatformCloudFn] False True SupportClass (activation (Some [''cloud-devops'']) None None)
       [''platform scope and deployment constraints''] [''platform readiness''] 160
       ''Must not deploy or change paid infrastructure without approval.'',
     profile ''reliability-specialist'' DomainKind ''Handle service reliability and operational resilience''
       [''reliability''] [ReliabilityAssuranceFn] False True SupportClass (activation (Some [''reliability'']) None None)
       [''failure modes and dependencies''] [''reliability plan''] 165
       ''Must not replace independent assurance for high-risk changes.'',
     profile ''data-ai-specialist'' DomainKind ''Handle data and AI pipeline behavior''
       [''data-ai''] [DataAiFn] False True SupportClass (activation (Some [''data-ai'']) None None)
       [''data flow and quality obligations''] [''data/AI validation''] 170
       ''Must not infer model or data-provider behavior without evidence.'',
     profile ''web3-contract-specialist'' DomainKind ''Handle Web3, smart contract, wallet, and token boundaries''
       [''web3'', ''smart-contracts'', ''wallets'', ''tokenomics''] [Web3ContractFn] False True SupportClass (activation (Some [''web3'', ''smart-contracts'', ''wallets'', ''tokenomics'']) None None)
       [''contract scope and invariant obligations''] [''contract unit, fuzz, and invariant evidence''] 180
       ''Must not execute on-chain transactions or move funds.'',
     profile ''finance-math-specialist'' DomainKind ''Handle finance, accounting, and numerical correctness''
       [''finance-economics'', ''mathematics-simulation'', ''tokenomics''] [FinanceMathFn] False True SupportClass (activation (Some [''finance-economics'', ''mathematics-simulation'', ''tokenomics'']) None None)
       [''financial rules and numerical examples''] [''numerical and edge-case validation''] 190
       ''Must not hard-code vendor prices or authorize financial transfers.'',
     profile ''game-systems-specialist'' DomainKind ''Handle game systems and gameplay formulas''
       [''game-systems''] [GameSystemsFn] False True SupportClass (activation (Some [''game-systems'']) None None)
       [''gameplay rules and invariants''] [''simulation evidence''] 200
       ''Must not create game-asset or UGAS integration work.'',
     profile ''documentation-dx-specialist'' DomainKind ''Handle documentation and developer experience''
       [''documentation''] [DocumentationFn] False True SupportClass (activation (Some [''documentation'']) None None)
       [''documentation scope''] [''documentation verification''] 210
       ''Must not spawn unrelated technical stacks for a documentation-only change.'',
     profile ''release-specialist'' DomainKind ''Handle release readiness and provenance''
       [''release''] [ReleaseFn] False True SupportClass (activation (Some [''release'']) None (Some [''release-check'']))
       [''release contract and evidence index''] [''release readiness evidence''] 220
       ''Must not publish packages or move historical tags without an authorized workflow.'',
     profile ''quality-specialist'' DomainKind ''Handle quality strategy and evidence obligations''
       [''quality''] [QualityFn] False True SupportClass (activation (Some [''quality'']) None None)
       [''quality gates''] [''quality evidence''] 230
       ''Must not replace independent review with a self-authored quality claim.'']"

definition BUILTIN_CORE_SPECIALIST_PROFILES :: "specialistProfile list" where
  "BUILTIN_CORE_SPECIALIST_PROFILES = filter (\<lambda>p. sp_kind p = CoreKind) BUILTIN_SPECIALIST_PROFILES"

lemma profile_simps [simp]:
  "sp_specialistId (profile i k pu d fs m r ind act inp pe pr n) = i"
  "sp_kind (profile i k pu d fs m r ind act inp pe pr n) = k"
  "sp_status (profile i k pu d fs m r ind act inp pe pr n) = SpEnabled"
  "sp_coveredDomains (profile i k pu d fs m r ind act inp pe pr n) = d"
  "sp_functions (profile i k pu d fs m r ind act inp pe pr n) = fs"
  "sp_mayImplement (profile i k pu d fs m r ind act inp pe pr n) = m"
  "sp_reviewOnly (profile i k pu d fs m r ind act inp pe pr n) = r"
  "sp_independenceClass (profile i k pu d fs m r ind act inp pe pr n) = ind"
  "sp_activation (profile i k pu d fs m r ind act inp pe pr n) = act"
  "sp_producesEvidence (profile i k pu d fs m r ind act inp pe pr n) = pe"
  "sp_incompatibleWith (profile i k pu d fs m r ind act inp pe pr n) = []"
  by (simp_all add: profile_def)

text \<open>A predicate that holds of every built-in profile, from one evaluation.\<close>

lemma builtin_all:
  "list_all P BUILTIN_SPECIALIST_PROFILES \<Longrightarrow> p \<in> set BUILTIN_SPECIALIST_PROFILES \<Longrightarrow> P p"
  by (simp add: list_all_iff)

lemma builtin_ids_distinct: "distinct (map sp_specialistId BUILTIN_SPECIALIST_PROFILES)"
  by (simp add: BUILTIN_SPECIALIST_PROFILES_def)

lemma builtin_single_implementer:
  "p \<in> set BUILTIN_SPECIALIST_PROFILES \<Longrightarrow>
     (sp_mayImplement p \<longleftrightarrow> sp_specialistId p = ''implementation-agent'')
     \<and> (sp_independenceClass p = ImplementationClass \<longleftrightarrow> sp_specialistId p = ''implementation-agent'')
     \<and> (sp_reviewOnly p \<longleftrightarrow> sp_specialistId p \<noteq> ''implementation-agent'')"
  by (rule builtin_all [where P = "\<lambda>p. (sp_mayImplement p \<longleftrightarrow> sp_specialistId p = ''implementation-agent'')
     \<and> (sp_independenceClass p = ImplementationClass \<longleftrightarrow> sp_specialistId p = ''implementation-agent'')
     \<and> (sp_reviewOnly p \<longleftrightarrow> sp_specialistId p \<noteq> ''implementation-agent'')"])
    (simp_all add: BUILTIN_SPECIALIST_PROFILES_def)

text \<open>Only the database specialist has the function the migration gate asks for.\<close>

lemma builtin_migration_cover:
  assumes "p \<in> set BUILTIN_SPECIALIST_PROFILES" "DatabaseFn \<in> set (sp_functions p)"
  shows "sp_specialistId p = ''database-specialist''"
proof -
  have "list_all (\<lambda>p. DatabaseFn \<in> set (sp_functions p) \<longrightarrow> sp_specialistId p = ''database-specialist'')
      BUILTIN_SPECIALIST_PROFILES"
    by (simp add: BUILTIN_SPECIALIST_PROFILES_def)
  then show ?thesis using assms by (simp add: list_all_iff)
qed

end
