(* ===== verification/Model_Types.thy ===== *)
theory Model_Types
  imports Kernel_Types
begin

text \<open>
  The data model of \<^verbatim>\<open>src/kernel/model-types.ts\<close>: model profiles and their registry, the
  runtime capability snapshot, the requirements a work order puts on a model, and the execution
  plan that routing returns.
\<close>

datatype modelStatus = ModelEnabled | ModelDisabled | ModelExperimental
datatype reasoningClass = Basic | Standard | Advanced | Deep
datatype relativeClass = VeryLow | Low | Medium | High | VeryHigh | UnknownClass
datatype modelProfileSource = BuiltinFixture | UserConfig | AdapterSource | Imported
datatype capabilityValue = Proven bool | UnknownCapability
datatype modelCapability =
    ModelSelection | ToolCalling | StructuredOutput | PromptCache | ExplicitCache
  | PersistentContext | Subagents | ParallelAgents | UsageTelemetry | VisionInput
datatype modelRole = ImplementationRole | ReviewRole | TestingRole | AssuranceRole
datatype modelRoutingStatus = RoutingSelected | RoutingBlocked
datatype modelSelectionMode = RouterMode | HostManagedMode
datatype complexity = TrivialWork | ModerateWork | ComplexWork | CriticalWork
datatype roleStatus = RoleSelected | RoleHostManaged | RoleBlocked
datatype roleDispatch = SubagentDispatch | RoleCycling
datatype snapshotSource = FromAdapter | ExplicitConfig | TestFixture
datatype snapshotConfidence = ConfidenceProven | ConfidenceDeclared | ConfidenceUnknown

record modelSupports =
  su_toolCalling :: bool
  su_structuredOutput :: bool
  su_vision :: bool
  su_promptCache :: bool
  su_explicitCache :: bool
  su_persistentContext :: bool
  su_usageTelemetry :: bool

record modelProfile =
  mp_profileId :: string
  mp_providerId :: string
  mp_modelId :: string
  mp_status :: modelStatus
  mp_capabilityClass :: capabilityClass
  mp_reasoningClass :: reasoningClass
  mp_contextWindowTokens :: "int option"
  mp_maxOutputTokens :: "int option"
  mp_relativeCostClass :: relativeClass
  mp_relativeLatencyClass :: relativeClass
  mp_supports :: modelSupports
  mp_maxConcurrency :: "int option"
  mp_notes :: "string option"
  mp_source :: modelProfileSource
  mp_adapterId :: "string option"
  mp_adapterVersion :: "string option"
  mp_profileDigest :: string

record modelProfileRegistry =
  mr_schemaVersion :: string
  mr_profiles :: "modelProfile list"
  mr_registryDigest :: string

record runtimeCapabilitySnapshot =
  rs_schemaVersion :: string
  rs_runtimeId :: string
  rs_adapterId :: string
  rs_adapterVersion :: string
  rs_runtimeVersion :: "string option"
  rs_capabilities :: "modelCapability \<Rightarrow> capabilityValue"
  rs_source :: snapshotSource
  rs_confidence :: snapshotConfidence
  rs_identityDigest :: string

record modelRoutingRequirements =
  mq_requiredCapabilityClass :: capabilityClass
  mq_requiredCapabilities :: "modelCapability list"
  mq_minimumReasoningClass :: reasoningClass
  mq_estimatedInputTokens :: int
  mq_requiredOutputTokens :: int
  mq_requireProvenRuntime :: bool
  mq_allowExperimental :: bool
  mq_explicitPreferenceFloor :: "capabilityClass option"
  mq_blockedProviderIds :: "string list"
  mq_complexity :: complexity
  mq_uncertainty :: int
  mq_reasons :: "string list"

record modelCandidateSummary =
  cs_profileId :: string
  cs_providerId :: string
  cs_modelId :: string
  cs_capabilityClass :: capabilityClass
  cs_reasoningClass :: reasoningClass
  cs_relativeCostClass :: relativeClass
  cs_relativeLatencyClass :: relativeClass

record modelRejection =
  mj_profileId :: string
  mj_reasonCodes :: "string list"
  mj_reasons :: "string list"

record modelRoleSelection =
  ms_role :: modelRole
  ms_profileId :: "string option"
  ms_providerId :: "string option"
  ms_modelId :: "string option"
  ms_status :: roleStatus
  ms_reasonCodes :: "string list"

record modelExecutionStrategy =
  me_parallel :: bool
  me_roleDispatch :: roleDispatch
  me_usageTelemetryAvailable :: "bool option"

record modelCacheHints =
  mh_staticLayerDigest :: "string option"
  mh_semiStableLayerDigest :: "string option"
  mh_dynamicLayerDigest :: "string option"
  mh_promptCacheUsable :: bool
  mh_explicitCacheUsable :: bool
  mh_persistentContextUsable :: bool

record modelBudget =
  mb_hardLimit :: int
  mb_softLimit :: int
  mb_estimatedInputTokens :: int
  mb_requiredOutputTokens :: int
  mb_selectedContextWindowTokens :: "int option"

record modelExecutionPlan =
  mx_planId :: string
  mx_projectId :: string
  mx_workOrderId :: string
  mx_workOrderDigest :: string
  mx_changeDigest :: "string option"
  mx_risk :: riskLevel
  mx_scopeClass :: scopeClass
  mx_complexity :: complexity
  mx_uncertainty :: int
  mx_requiredCapabilityClass :: capabilityClass
  mx_requiredCapabilities :: "modelCapability list"
  mx_runtimeIdentityDigest :: string
  mx_registryDigest :: string
  mx_policyDigest :: string
  mx_candidates :: "modelCandidateSummary list"
  mx_eligibleCandidates :: "string list"
  mx_rejections :: "modelRejection list"
  mx_selectedProfileId :: "string option"
  mx_selectedProviderId :: "string option"
  mx_selectedModelId :: "string option"
  mx_roleSelections :: "modelRoleSelection list"
  mx_selectionReasonCodes :: "string list"
  mx_fallbackProfileIds :: "string list"
  mx_escalationFloor :: capabilityClass
  mx_escalationCurrentTier :: capabilityClass
  mx_escalationReasonCodes :: "string list"
  mx_cacheHints :: modelCacheHints
  mx_execution :: modelExecutionStrategy
  mx_budget :: modelBudget
  mx_selectionMode :: modelSelectionMode
  mx_status :: modelRoutingStatus
  mx_blockedReason :: "string option"

record modelRoutingFailureSignals =
  fs_repeatedDistinctFailures :: nat
  fs_loopDetected :: bool
  fs_unresolvedAmbiguity :: bool
  fs_failedArchitectureReview :: bool
  fs_explicitReasons :: "string list"

end
