(* ===== verification/Execution_Types.thy ===== *)
theory Execution_Types
  imports Model_Types Gates
begin

text \<open>
  The data model of \<^verbatim>\<open>src/kernel/execution-types.ts\<close>: execution runs and packets, evidence and
  review records, review packets, gate snapshots, change sets, and the errors the execution
  engine raises (\<^verbatim>\<open>ExecutionBlockedError\<close>, \<^verbatim>\<open>InvalidOrchestrationStateError\<close>,
  \<^verbatim>\<open>CostBudgetError\<close>, and the plain \<^verbatim>\<open>Error\<close> of a failed schema check or unsafe identifier).
\<close>

datatype executionPhase = EpImplement | EpVerify | EpReview | EpStopped
datatype executionStatus =
  ExReady | ExInProgress | ExCorrectionNeeded | ExBlocked | ExCompleted | ExFailed
datatype gateRuntimeStatus = GatePending | GatePass | GateFail | GateBlocked
datatype evidenceStatus = EvPass | EvFail | EvBlocked
datatype reviewVerdict = Approved | CorrectionNeeded | VerdictBlocked
datatype scopeClassification = InScope | Supporting | OutOfScope | Sensitive
datatype evidenceSource = Executed | CacheReuse
datatype findingSeverity = SevLow | SevMedium | SevHigh | SevCritical

definition gate_status_text :: "gateRuntimeStatus \<Rightarrow> string" where
  "gate_status_text s = (case s of GatePending \<Rightarrow> ''PENDING'' | GatePass \<Rightarrow> ''PASS''
     | GateFail \<Rightarrow> ''FAIL'' | GateBlocked \<Rightarrow> ''BLOCKED'')"

definition execution_phase_text :: "executionPhase \<Rightarrow> string" where
  "execution_phase_text p = (case p of EpImplement \<Rightarrow> ''implement'' | EpVerify \<Rightarrow> ''verify''
     | EpReview \<Rightarrow> ''review'' | EpStopped \<Rightarrow> ''stopped'')"

definition execution_status_text :: "executionStatus \<Rightarrow> string" where
  "execution_status_text s = (case s of ExReady \<Rightarrow> ''ready'' | ExInProgress \<Rightarrow> ''in_progress''
     | ExCorrectionNeeded \<Rightarrow> ''correction_needed'' | ExBlocked \<Rightarrow> ''blocked''
     | ExCompleted \<Rightarrow> ''completed'' | ExFailed \<Rightarrow> ''failed'')"

definition classification_text :: "scopeClassification \<Rightarrow> string" where
  "classification_text c = (case c of InScope \<Rightarrow> ''in-scope'' | Supporting \<Rightarrow> ''supporting''
     | OutOfScope \<Rightarrow> ''out-of-scope'' | Sensitive \<Rightarrow> ''sensitive'')"

record executionBaseline =
  bl_gitHead :: "string option"
  bl_dirty :: bool
  bl_capturedAt :: string

record scopeViolation =
  sv_path :: string
  sv_classification :: scopeClassification
  sv_reason :: string

record contextExpansion =
  ce_from :: contextRadius
  ce_to :: contextRadius
  ce_reason :: string
  ce_at :: string

text \<open>The model selection that a run and its packet both carry.\<close>

record modelBinding =
  mo_modelPlanId :: "string option"
  mo_selectedProfileId :: "string option"
  mo_selectedProviderId :: "string option"
  mo_selectedModelId :: "string option"
  mo_selectionMode :: "modelSelectionMode option"
  mo_execution :: "modelExecutionStrategy option"

record executionRun =
  run_executionRunId :: string
  run_projectId :: string
  run_workOrderId :: string
  run_routingDecisionId :: string
  run_createdAt :: string
  run_updatedAt :: string
  run_attempt :: nat
  run_phase :: executionPhase
  run_status :: executionStatus
  run_baseline :: executionBaseline
  run_contextRadius :: contextRadius
  run_contextCandidates :: "string list"
  run_implementerRole :: string
  run_implementerSessionId :: "string option"
  run_requiredReviewers :: "string list"
  run_selectedGates :: "string list"
  run_currentChangeDigest :: "string option"
  run_reviewedChangeDigest :: "string option"
  run_changedFiles :: "string list"
  run_scopeViolations :: "scopeViolation list"
  run_evidenceRefs :: "string list"
  run_reviewRefs :: "string list"
  run_blockers :: "string list"
  run_nextAction :: string
  run_expansionHistory :: "contextExpansion list"
  run_contextPackId :: "string option"
  run_impactReportId :: "string option"
  run_indexDigest :: "string option"
  run_model :: modelBinding

record executionPacket =
  pk_executionRunId :: string
  pk_workOrderId :: string
  pk_objective :: string
  pk_includedScope :: "string list"
  pk_outOfScope :: "string list"
  pk_riskLevel :: riskLevel
  pk_domains :: "string list"
  pk_contextRadius :: contextRadius
  pk_contextCandidates :: "string list"
  pk_specialists :: "string list"
  pk_assuranceReviewers :: "string list"
  pk_specialistSelectionPlanId :: "string option"
  pk_specialistSelectionDigest :: "string option"
  pk_specialistAssignments :: "specialistAssignment list option"
  pk_selectedGates :: "string list"
  pk_acceptanceCriteria :: "string list"
  pk_requiredEvidence :: "string list"
  pk_safeAutonomousActions :: "string list"
  pk_approvalGatedActions :: "string list"
  pk_stopConditions :: "string list"
  pk_baselineGitHead :: "string option"
  pk_nextAction :: string
  pk_contextPackId :: "string option"
  pk_impactReportId :: "string option"
  pk_indexDigest :: "string option"
  pk_model :: modelBinding

record evidenceRecord =
  ev_evidenceId :: string
  ev_projectId :: string
  ev_workOrderId :: string
  ev_executionRunId :: string
  ev_changeDigest :: string
  ev_gateId :: string
  ev_sourceRole :: string
  ev_kind :: evidenceKind
  ev_createdAt :: string
  ev_status :: evidenceStatus
  ev_summary :: string
  ev_command :: "string option"
  ev_exitCode :: "int option"
  ev_outputRef :: "string option"
  ev_outputDigest :: "string option"
  ev_fileRef :: "string option"
  ev_fileDigest :: "string option"
  ev_source :: "evidenceSource option"
  ev_sourceCacheRecordId :: "string option"
  ev_sourceEvidenceId :: "string option"
  ev_cacheDecisionId :: "string option"
  ev_reuseProofDigest :: "string option"
  ev_gateReuseContractIdentity :: "string option"

record reviewFinding =
  rf_severity :: findingSeverity
  rf_category :: string
  rf_message :: string

record reviewRecord =
  rv_reviewId :: string
  rv_projectId :: string
  rv_workOrderId :: string
  rv_executionRunId :: string
  rv_changeDigest :: string
  rv_reviewerRole :: string
  rv_reviewSessionId :: string
  rv_implementerRole :: string
  rv_implementerSessionId :: string
  rv_verdict :: reviewVerdict
  rv_summary :: string
  rv_findings :: "reviewFinding list"
  rv_reasonCodes :: "string list option"
  rv_evidenceRefs :: "string list"
  rv_createdAt :: string

record gateStateSnapshot =
  gs_gateId :: string
  gs_status :: gateRuntimeStatus
  gs_evidenceId :: "string option"

record reviewPacket =
  rp_executionRunId :: string
  rp_workOrderId :: string
  rp_objective :: string
  rp_acceptanceCriteria :: "string list"
  rp_includedScope :: "string list"
  rp_outOfScope :: "string list"
  rp_changedFiles :: "string list"
  rp_changeDigest :: string
  rp_gateStates :: "(string \<times> gateRuntimeStatus) list"
  rp_evidenceRefs :: "string list"
  rp_requiredReviewers :: "string list"
  rp_riskLevel :: riskLevel
  rp_roleToGateMapping :: "(string \<times> string list) list"
  rp_requiredEvidenceObligations :: "string list"
  rp_unresolvedBlockers :: "string list"
  rp_doNotImplement :: "string list"
  rp_independentReviewInvariant :: string
  rp_nextAction :: string

record executionResumeView =
  vw_executionRunId :: "string option"
  vw_attempt :: "nat option"
  vw_phase :: "executionPhase option"
  vw_status :: string
  vw_changeDigest :: "string option"
  vw_pendingGates :: "string list"
  vw_failedGates :: "string list"
  vw_requiredReviewers :: "string list"
  vw_completedReviewers :: "string list"
  vw_blockers :: "string list"
  vw_nextAction :: string

record changedFile =
  cf_path :: string
  cf_classification :: scopeClassification
  cf_reason :: string

record changeSet =
  ch_digest :: string
  ch_files :: "changedFile list"
  ch_violations :: "scopeViolation list"

datatype uadsError =
    ExecutionBlocked string "string list"
  | InvalidOrchestrationState string
  | CostBudget string int int
  | PlainError string

end
