(* ===== verification/Cache_Types.thy ===== *)
theory Cache_Types
  imports Execution_Types
begin

text \<open>
  The data model of \<^verbatim>\<open>src/kernel/cache-types.ts\<close> and the static policy of
  \<^verbatim>\<open>src/kernel/cache-policy.ts\<close>: which gates may be satisfied from the evidence cache, and
  how a command is normalised for identity. A \<open>Record<string, string>\<close> is an association list
  in insertion order.
\<close>

datatype cacheDecisionKind = CacheHit | CacheMiss | CacheStale | CacheNotReusable | CacheBlocked
datatype cacheRecordStatus = RecReusable | RecStale | RecHistorical | RecNotReusable
datatype reuseClass = Eligible | NotReusable

record evidenceCacheRecord =
  cr_cacheRecordId :: string
  cr_projectId :: string
  cr_originatingWorkOrderId :: string
  cr_originatingExecutionRunId :: string
  cr_gateId :: string
  cr_evidenceId :: string
  cr_evidenceKind :: evidenceKind
  cr_originatingChangeDigest :: string
  cr_command :: "string option"
  cr_gateReuseContractIdentity :: string
  cr_reuseProofDigest :: string
  cr_toolIdentity :: "(string \<times> string) list"
  cr_environmentIdentity :: "string option"
  cr_validityBasisPaths :: "string list"
  cr_validityBasisDigests :: "(string \<times> string) list"
  cr_manifestDigests :: "(string \<times> string) list"
  cr_indexDigest :: string
  cr_policyIdentity :: string
  cr_outputDigest :: "string option"
  cr_fileDigest :: "string option"
  cr_createdAt :: string
  cr_reuseClass :: reuseClass
  cr_reusable :: bool
  cr_status :: cacheRecordStatus
  cr_invalidationReason :: "string option"

record cacheDecision =
  cd_cacheDecisionId :: string
  cd_projectId :: string
  cd_workOrderId :: "string option"
  cd_executionRunId :: "string option"
  cd_gateId :: string
  cd_candidateCacheRecordId :: "string option"
  cd_decision :: cacheDecisionKind
  cd_reasonCodes :: "string list"
  cd_changedValidityInputs :: "string list"
  cd_executionRequired :: bool
  cd_maySatisfyGate :: bool
  cd_liveChangeDigest :: "string option"
  cd_indexDigest :: "string option"
  cd_gateReuseContractIdentity :: "string option"
  cd_reuseProofDigest :: "string option"
  cd_createdAt :: string

record cacheIndexEntry =
  ci_cacheRecordId :: string
  ci_gateId :: string
  ci_reusable :: bool
  ci_status :: cacheRecordStatus

record evidenceCacheIndex =
  ix_projectId :: string
  ix_updatedAt :: string
  ix_records :: "cacheIndexEntry list"

section \<open>Policy\<close>

definition CACHE_POLICY_IDENTITY :: string where
  "CACHE_POLICY_IDENTITY = ''uads.cache-policy:0.6.0:gate-contract-strict''"

definition ELIGIBLE_GATES :: "string list" where
  "ELIGIBLE_GATES = [''static'', ''unit-test'', ''contract-test'', ''build'', ''web3-unit'']"

definition reuseClassForGate :: "string \<Rightarrow> reuseClass" where
  "reuseClassForGate gateId =
     (if isReviewGate gateId then NotReusable
      else if gateId = ''integration-test'' then NotReusable
      else if gateId \<in> set ELIGIBLE_GATES then Eligible
      else NotReusable)"

definition requiresEnvironmentIdentity :: "string \<Rightarrow> bool" where
  "requiresEnvironmentIdentity gateId \<longleftrightarrow> gateId = ''integration-test''"

definition isCacheEligibleGate :: "string \<Rightarrow> bool" where
  "isCacheEligibleGate gateId \<longleftrightarrow> reuseClassForGate gateId = Eligible"

definition normalizeCommandIdentity :: "string option \<Rightarrow> string option" where
  "normalizeCommandIdentity command =
     (if \<not> truthy command then None
      else let normalized = trim (squash_spaces (or_empty command))
           in if length normalized > 0 then Some normalized else None)"

text \<open>\<open>process.platform\<close> and \<open>process.env.CI\<close> are read from the host's environment.\<close>

record hostEnvironment =
  he_platform :: string
  he_ci :: bool

definition collectEnvironmentIdentity :: "'e hostEnvironment_scheme \<Rightarrow> string \<Rightarrow> string option" where
  "collectEnvironmentIdentity E gateId =
     (if \<not> requiresEnvironmentIdentity gateId
      then Some (he_platform E @ '':'' @ (if he_ci E then ''ci'' else ''local''))
      else None)"

definition MANIFEST_BASIS_PATHS :: "string list" where
  "MANIFEST_BASIS_PATHS =
    [''package.json'', ''package-lock.json'', ''npm-shrinkwrap.json'', ''pnpm-lock.yaml'',
     ''yarn.lock'', ''tsconfig.json'', ''tsconfig.build.json'']"

lemma eligible_iff: "isCacheEligibleGate g \<longleftrightarrow> g \<in> set ELIGIBLE_GATES"
  by (auto simp: isCacheEligibleGate_def reuseClassForGate_def ELIGIBLE_GATES_def isReviewGate_iff)

lemma eligible_not_review: "isCacheEligibleGate g \<Longrightarrow> \<not> isReviewGate g"
  by (auto simp: isCacheEligibleGate_def reuseClassForGate_def split: if_splits)

lemma eligible_gate_is_command:
  assumes "isCacheEligibleGate g"
  shows "\<exists>d. lookupGate g = Some d \<and> gd_contractKind d = CommandGate
     \<and> gd_allowedEvidenceKinds d = [CommandEvidence]"
proof -
  have "list_all (\<lambda>g. case lookupGate g of None \<Rightarrow> False
      | Some d \<Rightarrow> gd_contractKind d = CommandGate \<and> gd_allowedEvidenceKinds d = [CommandEvidence]) ELIGIBLE_GATES"
    by code_simp
  then show ?thesis using assms by (auto simp: eligible_iff list_all_iff split: option.splits)
qed

end
