(* ===== verification/Cache_Integrity.thy ===== *)
theory Cache_Integrity
  imports Cache_Types
begin

text \<open>
  \<^verbatim>\<open>src/kernel/cache-integrity.ts\<close>: the shape a cache record must have before it can stand
  for evidence, and the validation of a derived evidence record against the decision and the
  cache record it names. The two sidecar reads the validation makes are arguments.
\<close>

definition hasText :: "string option \<Rightarrow> bool" where
  "hasText v \<longleftrightarrow> (case v of None \<Rightarrow> False | Some s \<Rightarrow> length (trim s) > 0)"

definition codeIf :: "bool \<Rightarrow> string \<Rightarrow> string list" where
  "codeIf b c = (if b then [c] else [])"

lemma codeIf_Nil [simp]: "codeIf b c = [] \<longleftrightarrow> \<not> b"
  by (simp add: codeIf_def)

lemma set_codeIf [simp]: "set (codeIf b c) = (if b then {c} else {})"
  by (simp add: codeIf_def)

definition isCacheRecordSemanticallyValid :: "evidenceCacheRecord \<Rightarrow> bool" where
  "isCacheRecordSemanticallyValid r =
    (case lookupGate (cr_gateId r) of
       None \<Rightarrow> False
     | Some def \<Rightarrow>
         if \<not> isCacheEligibleGate (cr_gateId r) \<or> reuseClassForGate (cr_gateId r) \<noteq> Eligible then False
         else if cr_evidenceKind r \<notin> set (gd_allowedEvidenceKinds def) then False
         else if cr_status r \<noteq> RecReusable \<or> cr_reusable r \<noteq> True \<or> cr_reuseClass r \<noteq> Eligible then False
         else if \<not> hasText (Some (cr_gateReuseContractIdentity r))
              \<or> \<not> hasText (Some (cr_reuseProofDigest r)) then False
         else if cr_evidenceKind r = CommandEvidence
              \<and> (\<not> hasText (cr_command r) \<or> \<not> hasText (cr_outputDigest r)) then False
         else if cr_evidenceKind r = CommandEvidence
              \<and> (\<not> hasText (map_of (cr_toolIdentity r) ''producerFamily'')
                 \<or> \<not> hasText (map_of (cr_toolIdentity r) ''producerVersion'')) then False
         else if cr_evidenceKind r = FileEvidence \<and> \<not> hasText (cr_fileDigest r) then False
         else if cr_evidenceKind r = InvariantEvidence \<and> \<not> hasText (cr_outputDigest r)
              \<and> \<not> hasText (cr_fileDigest r) then False
         else True)"

definition evidenceHasConcreteGateProof :: "evidenceRecord \<Rightarrow> bool" where
  "evidenceHasConcreteGateProof r =
    (case lookupGate (ev_gateId r) of
       None \<Rightarrow> False
     | Some def \<Rightarrow>
         if ev_kind r \<notin> set (gd_allowedEvidenceKinds def) then False
         else if gd_contractKind def = CommandGate \<or> ev_kind r = CommandEvidence then
           ev_kind r = CommandEvidence \<and> hasText (ev_command r) \<and> ev_exitCode r = Some 0
             \<and> hasText (ev_outputRef r) \<and> hasText (ev_outputDigest r)
         else if ev_kind r = FileEvidence then hasText (ev_fileRef r) \<and> hasText (ev_fileDigest r)
         else if ev_kind r = InvariantEvidence then
           (hasText (ev_outputRef r) \<and> hasText (ev_outputDigest r))
             \<or> (hasText (ev_fileRef r) \<and> hasText (ev_fileDigest r))
         else False)"

record cacheReader =
  rd_readCacheDecision :: "string \<Rightarrow> cacheDecision option"
  rd_readCacheRecord :: "string \<Rightarrow> evidenceCacheRecord option"

record reuseClaim =
  rc_projectId :: string
  rc_gateId :: string
  rc_changeDigest :: "string option"
  rc_workOrderId :: "string option"
  rc_executionRunId :: "string option"

definition differs :: "string option \<Rightarrow> string option \<Rightarrow> bool" where
  "differs want got \<longleftrightarrow> truthy want \<and> got \<noteq> want"

text \<open>First block: what the evidence record says about itself.\<close>

definition reuseRecordProblems :: "reuseClaim \<Rightarrow> evidenceRecord \<Rightarrow> string list" where
  "reuseRecordProblems c r =
     codeIf (lookupGate (rc_gateId c) = None) ''UNKNOWN_GATE''
   @ codeIf (\<not> truthy (rc_changeDigest c)) ''MISSING_CURRENT_CHANGE_DIGEST''
   @ codeIf (case lookupGate (rc_gateId c) of None \<Rightarrow> False
             | Some def \<Rightarrow> ev_kind r \<notin> set (gd_allowedEvidenceKinds def)) ''EVIDENCE_KIND_NOT_ALLOWED''
   @ codeIf (\<not> evidenceHasConcreteGateProof r) ''EVIDENCE_CONTRACT_INVALID''
   @ codeIf (\<not> hasText (ev_sourceCacheRecordId r)) ''MISSING_SOURCECACHERECORDID''
   @ codeIf (\<not> hasText (ev_sourceEvidenceId r)) ''MISSING_SOURCEEVIDENCEID''
   @ codeIf (\<not> hasText (ev_cacheDecisionId r)) ''MISSING_CACHEDECISIONID''
   @ codeIf (\<not> hasText (ev_reuseProofDigest r)) ''MISSING_REUSEPROOFDIGEST''
   @ codeIf (\<not> hasText (ev_gateReuseContractIdentity r)) ''MISSING_GATEREUSECONTRACTIDENTITY''
   @ codeIf (ev_projectId r \<noteq> rc_projectId c) ''PROJECT_MISMATCH''
   @ codeIf (ev_gateId r \<noteq> rc_gateId c) ''GATE_MISMATCH''
   @ codeIf (Some (ev_changeDigest r) \<noteq> rc_changeDigest c) ''CHANGE_DIGEST_MISMATCH''
   @ codeIf (differs (rc_workOrderId c) (Some (ev_workOrderId r))) ''WORK_ORDER_MISMATCH''
   @ codeIf (differs (rc_executionRunId c) (Some (ev_executionRunId r))) ''EXECUTION_RUN_MISMATCH''"

text \<open>Second block: the decision it names.\<close>

definition reuseDecisionProblems :: "reuseClaim \<Rightarrow> evidenceRecord \<Rightarrow> cacheDecision \<Rightarrow> string list" where
  "reuseDecisionProblems c r d =
     codeIf (Some (cd_cacheDecisionId d) \<noteq> ev_cacheDecisionId r) ''DECISION_ID_MISMATCH''
   @ codeIf (cd_projectId d \<noteq> rc_projectId c) ''DECISION_PROJECT_MISMATCH''
   @ codeIf (cd_gateId d \<noteq> rc_gateId c) ''DECISION_GATE_MISMATCH''
   @ codeIf (differs (rc_workOrderId c) (cd_workOrderId d)) ''DECISION_WORK_ORDER_MISMATCH''
   @ codeIf (differs (rc_executionRunId c) (cd_executionRunId d)) ''DECISION_EXECUTION_RUN_MISMATCH''
   @ codeIf (cd_liveChangeDigest d \<noteq> Some (ev_changeDigest r)) ''DECISION_CHANGE_DIGEST_MISMATCH''
   @ codeIf (cd_decision d \<noteq> CacheHit \<or> \<not> cd_maySatisfyGate d) ''DECISION_NOT_HIT''
   @ codeIf (cd_candidateCacheRecordId d \<noteq> ev_sourceCacheRecordId r) ''DECISION_CACHE_RECORD_MISMATCH''
   @ codeIf (cd_reuseProofDigest d \<noteq> ev_reuseProofDigest r) ''DECISION_PROOF_MISMATCH''
   @ codeIf (cd_gateReuseContractIdentity d \<noteq> ev_gateReuseContractIdentity r)
       ''DECISION_CONTRACT_MISMATCH''"

text \<open>Third block: the cache record it names.\<close>

definition reuseCacheRecordProblems ::
  "reuseClaim \<Rightarrow> evidenceRecord \<Rightarrow> evidenceCacheRecord \<Rightarrow> string list" where
  "reuseCacheRecordProblems c r k =
     codeIf (Some (cr_cacheRecordId k) \<noteq> ev_sourceCacheRecordId r) ''CACHE_RECORD_ID_MISMATCH''
   @ codeIf (cr_projectId k \<noteq> rc_projectId c) ''CACHE_RECORD_PROJECT_MISMATCH''
   @ codeIf (cr_gateId k \<noteq> rc_gateId c) ''CACHE_RECORD_GATE_MISMATCH''
   @ codeIf (Some (cr_evidenceId k) \<noteq> ev_sourceEvidenceId r) ''SOURCE_EVIDENCE_MISMATCH''
   @ codeIf (\<not> isCacheRecordSemanticallyValid k) ''CACHE_RECORD_SEMANTIC_INVALID''
   @ codeIf (Some (cr_reuseProofDigest k) \<noteq> ev_reuseProofDigest r) ''CACHE_RECORD_PROOF_MISMATCH''
   @ codeIf (Some (cr_gateReuseContractIdentity k) \<noteq> ev_gateReuseContractIdentity r)
       ''CACHE_RECORD_CONTRACT_MISMATCH''"

definition validateCacheReuseEvidence ::
  "cacheReader \<Rightarrow> reuseClaim \<Rightarrow> evidenceRecord \<Rightarrow> bool \<times> string list" where
  "validateCacheReuseEvidence R c r =
    (if ev_source r \<noteq> Some CacheReuse then (True, [])
     else if reuseRecordProblems c r \<noteq> [] then (False, reuseRecordProblems c r)
     else case rd_readCacheDecision R (or_empty (ev_cacheDecisionId r)) of
            None \<Rightarrow> (False, [''MISSING_CACHE_DECISION''])
          | Some d \<Rightarrow>
              (case rd_readCacheRecord R (or_empty (ev_sourceCacheRecordId r)) of
                 None \<Rightarrow> (False, ''MISSING_CACHE_RECORD'' # reuseDecisionProblems c r d)
               | Some k \<Rightarrow>
                   let reasonCodes = reuseDecisionProblems c r d @ reuseCacheRecordProblems c r k
                   in (reasonCodes = [], reasonCodes)))"

text \<open>What a positive answer establishes.\<close>

lemma validate_reuse_sound:
  assumes "ev_source r = Some CacheReuse" and "fst (validateCacheReuseEvidence R c r)"
  shows "reuseRecordProblems c r = []"
    and "\<exists>d k. rd_readCacheDecision R (or_empty (ev_cacheDecisionId r)) = Some d
           \<and> rd_readCacheRecord R (or_empty (ev_sourceCacheRecordId r)) = Some k
           \<and> reuseDecisionProblems c r d = [] \<and> reuseCacheRecordProblems c r k = []"
  using assms
  by (auto simp: validateCacheReuseEvidence_def Let_def split: if_splits option.splits)

lemma validate_reuse_codes:
  "fst (validateCacheReuseEvidence R c r) \<longleftrightarrow> snd (validateCacheReuseEvidence R c r) = []"
  by (auto simp: validateCacheReuseEvidence_def Let_def split: option.splits)

text \<open>
  Cross-component safety: accepted reuse evidence is backed by a HIT decision and a reusable
  record of the same project and gate, and carries concrete command proof with exit code 0.
\<close>

lemma reuse_evidence_backed:
  assumes "ev_source r = Some CacheReuse" and "fst (validateCacheReuseEvidence R c r)"
  shows "\<exists>d k. rd_readCacheDecision R (or_empty (ev_cacheDecisionId r)) = Some d
      \<and> rd_readCacheRecord R (or_empty (ev_sourceCacheRecordId r)) = Some k
      \<and> cd_decision d = CacheHit \<and> cd_liveChangeDigest d = Some (ev_changeDigest r)
      \<and> cr_projectId k = ev_projectId r \<and> cr_gateId k = ev_gateId r
      \<and> isCacheRecordSemanticallyValid k \<and> Some (cr_reuseProofDigest k) = cd_reuseProofDigest d"
  using validate_reuse_sound [OF assms]
  by (auto simp: reuseRecordProblems_def reuseDecisionProblems_def reuseCacheRecordProblems_def)

lemma valid_record_eligible:
  "isCacheRecordSemanticallyValid k \<Longrightarrow>
     isCacheEligibleGate (cr_gateId k) \<and> cr_status k = RecReusable \<and> cr_reusable k"
  by (auto simp: isCacheRecordSemanticallyValid_def split: option.splits if_splits)

lemma valid_record_command:
  assumes "isCacheRecordSemanticallyValid k"
  shows "cr_evidenceKind k = CommandEvidence"
proof -
  obtain d where "lookupGate (cr_gateId k) = Some d" "gd_allowedEvidenceKinds d = [CommandEvidence]"
    using eligible_gate_is_command valid_record_eligible [OF assms] by blast
  with assms show ?thesis
    by (auto simp: isCacheRecordSemanticallyValid_def split: if_splits)
qed

end
