(* ===== verification/Gate_States.thy ===== *)
theory Gate_States
  imports Cache_Integrity
begin

text \<open>
  Gate states of a run (\<^verbatim>\<open>evidenceSatisfiesGate\<close>, \<^verbatim>\<open>reviewGateState\<close>,
  \<^verbatim>\<open>deriveGateStates\<close> and \<^verbatim>\<open>buildExecutionResumeView\<close> of \<^verbatim>\<open>src/kernel/execution.ts\<close>).
  Gate states are never stored: they are derived from the evidence and review records of the
  current change digest, which is what makes stale evidence harmless.
\<close>

definition reuseProvenancePresent :: "evidenceRecord \<Rightarrow> bool" where
  "reuseProvenancePresent r \<longleftrightarrow>
     truthy (ev_sourceCacheRecordId r) \<and> truthy (ev_sourceEvidenceId r)
     \<and> truthy (ev_cacheDecisionId r) \<and> truthy (ev_reuseProofDigest r)
     \<and> truthy (ev_gateReuseContractIdentity r)"

definition evidenceSatisfiesGate :: "evidenceRecord \<Rightarrow> gateDef \<Rightarrow> bool" where
  "evidenceSatisfiesGate r def =
    (if ev_status r \<noteq> EvPass then False
     else if ev_kind r \<notin> set (gd_allowedEvidenceKinds def) then False
     else if ev_source r = Some CacheReuse \<and> \<not> reuseProvenancePresent r then False
     else if gd_contractKind def = CommandGate \<or> ev_kind r = CommandEvidence then
       ev_kind r = CommandEvidence \<and> truthy (ev_command r) \<and> ev_exitCode r = Some 0
         \<and> truthy (ev_outputRef r) \<and> truthy (ev_outputDigest r)
     else if ev_kind r = FileEvidence then truthy (ev_fileRef r) \<and> truthy (ev_fileDigest r)
     else if ev_kind r = InvariantEvidence then
       (truthy (ev_outputRef r) \<and> truthy (ev_outputDigest r))
         \<or> (truthy (ev_fileRef r) \<and> truthy (ev_fileDigest r))
     else False)"

text \<open>
  The validation context: the identity the records have to carry and the cache reads. An absent
  work order or run identity (\<open>undefined\<close>) does not filter; no caller passes \<open>null\<close>.
\<close>

record gateValidation =
  gv_reader :: cacheReader
  gv_projectId :: string
  gv_workOrderId :: "string option"
  gv_executionRunId :: "string option"

definition matchesIdentity :: "gateValidation option \<Rightarrow> string \<Rightarrow> string \<Rightarrow> string \<Rightarrow> bool" where
  "matchesIdentity v projectId workOrderId executionRunId =
    (case v of None \<Rightarrow> True
     | Some c \<Rightarrow> projectId = gv_projectId c
         \<and> (gv_workOrderId c = None \<or> gv_workOrderId c = Some workOrderId)
         \<and> (gv_executionRunId c = None \<or> gv_executionRunId c = Some executionRunId))"

definition pendingGate :: "string \<Rightarrow> gateStateSnapshot" where
  "pendingGate gateId = \<lparr>gs_gateId = gateId, gs_status = GatePending, gs_evidenceId = None\<rparr>"

definition gateWith :: "string \<Rightarrow> gateRuntimeStatus \<Rightarrow> string option \<Rightarrow> gateStateSnapshot" where
  "gateWith gateId st e = \<lparr>gs_gateId = gateId, gs_status = st, gs_evidenceId = e\<rparr>"

definition hasSevereFinding :: "reviewRecord \<Rightarrow> bool" where
  "hasSevereFinding r \<longleftrightarrow>
     list_ex (\<lambda>f. rf_severity f = SevCritical \<or> rf_severity f = SevHigh) (rv_findings r)"

definition reviewsForGate ::
  "string \<Rightarrow> string \<Rightarrow> reviewRecord list \<Rightarrow> gateValidation option \<Rightarrow> reviewRecord list" where
  "reviewsForGate role digest reviews v =
     filter (\<lambda>r. rv_changeDigest r = digest \<and> rv_reviewerRole r = role
        \<and> matchesIdentity v (rv_projectId r) (rv_workOrderId r) (rv_executionRunId r)) reviews"

definition reviewGateState ::
  "string \<Rightarrow> string option \<Rightarrow> reviewRecord list \<Rightarrow> gateValidation option \<Rightarrow> gateStateSnapshot" where
  "reviewGateState gateId digest reviews v =
    (if \<not> truthy digest \<or> \<not> truthy (REVIEW_GATE_ROLES gateId) then pendingGate gateId
     else let current = reviewsForGate (or_empty (REVIEW_GATE_ROLES gateId)) (or_empty digest) reviews v
          in if list_ex (\<lambda>r. rv_verdict r = Approved \<and> hasSevereFinding r) current
             then gateWith gateId GateFail None
             else if list_ex (\<lambda>r. rv_verdict r = VerdictBlocked) current
             then gateWith gateId GateBlocked None
             else if list_ex (\<lambda>r. rv_verdict r = CorrectionNeeded) current
             then gateWith gateId GateFail None
             else if list_ex (\<lambda>r. rv_verdict r = Approved) current
             then gateWith gateId GatePass None
             else pendingGate gateId)"

definition evidenceForGate ::
  "string \<Rightarrow> string option \<Rightarrow> evidenceRecord list \<Rightarrow> gateValidation option \<Rightarrow> evidenceRecord list" where
  "evidenceForGate gateId digest evidence v =
     filter (\<lambda>r. ev_gateId r = gateId \<and> Some (ev_changeDigest r) = digest
        \<and> matchesIdentity v (ev_projectId r) (ev_workOrderId r) (ev_executionRunId r)) evidence"

text \<open>The test of the search for a passing record, from the newest record back.\<close>

definition acceptableEvidence ::
  "gateValidation option \<Rightarrow> string option \<Rightarrow> string \<Rightarrow> gateDef \<Rightarrow> evidenceRecord \<Rightarrow> bool" where
  "acceptableEvidence v digest gateId def r =
    (if \<not> evidenceSatisfiesGate r def then False
     else if ev_source r = Some CacheReuse then
       (case v of None \<Rightarrow> False
        | Some c \<Rightarrow> fst (validateCacheReuseEvidence (gv_reader c)
             \<lparr>rc_projectId = gv_projectId c, rc_gateId = gateId, rc_changeDigest = digest,
              rc_workOrderId = gv_workOrderId c, rc_executionRunId = gv_executionRunId c\<rparr> r))
     else True)"

definition evidenceGateState ::
  "string \<Rightarrow> string option \<Rightarrow> evidenceRecord list \<Rightarrow> gateValidation option \<Rightarrow> gateStateSnapshot" where
  "evidenceGateState gateId digest evidence v =
    (let current = evidenceForGate gateId digest evidence v
     in if list_ex (\<lambda>r. ev_status r = EvBlocked) current
        then gateWith gateId GateBlocked
               (map_option ev_evidenceId (find (\<lambda>r. ev_status r = EvBlocked) current))
        else if list_ex (\<lambda>r. ev_status r = EvFail) current
        then gateWith gateId GateFail
               (map_option ev_evidenceId (find (\<lambda>r. ev_status r = EvFail) current))
        else case lookupGate gateId of
               None \<Rightarrow> pendingGate gateId
             | Some def \<Rightarrow>
                 (case find (acceptableEvidence v digest gateId def) (rev current) of
                    Some passing \<Rightarrow> gateWith gateId GatePass (Some (ev_evidenceId passing))
                  | None \<Rightarrow> pendingGate gateId))"

definition gateState ::
  "string option \<Rightarrow> evidenceRecord list \<Rightarrow> reviewRecord list \<Rightarrow> gateValidation option
     \<Rightarrow> string \<Rightarrow> gateStateSnapshot" where
  "gateState digest evidence reviews v gateId =
    (if isReviewGate gateId then reviewGateState gateId digest reviews v
     else evidenceGateState gateId digest evidence v)"

definition deriveGateStates ::
  "string list \<Rightarrow> string option \<Rightarrow> evidenceRecord list \<Rightarrow> reviewRecord list
     \<Rightarrow> gateValidation option \<Rightarrow> gateStateSnapshot list" where
  "deriveGateStates selectedGates digest evidence reviews v =
     map (gateState digest evidence reviews v) selectedGates"

section \<open>Resume view\<close>

definition emptyResumeView :: executionResumeView where
  "emptyResumeView =
     \<lparr>vw_executionRunId = None, vw_attempt = None, vw_phase = None, vw_status = ''none'',
      vw_changeDigest = None, vw_pendingGates = [], vw_failedGates = [], vw_requiredReviewers = [],
      vw_completedReviewers = [], vw_blockers = [],
      vw_nextAction = ''No execution run. Run uads dispatch after a valid plan.''\<rparr>"

definition completedReviewers :: "string option \<Rightarrow> reviewRecord list \<Rightarrow> string list" where
  "completedReviewers digest reviews =
     unique (map rv_reviewerRole
       (filter (\<lambda>r. Some (rv_changeDigest r) = digest \<and> rv_verdict r = Approved) reviews))"

definition failingGateIds :: "gateStateSnapshot list \<Rightarrow> string list" where
  "failingGateIds gates =
     map gs_gateId (filter (\<lambda>g. gs_status g = GateFail \<or> gs_status g = GateBlocked) gates)"

definition pendingGateIds :: "gateStateSnapshot list \<Rightarrow> string list" where
  "pendingGateIds gates = map gs_gateId (filter (\<lambda>g. gs_status g = GatePending) gates)"

definition runValidation :: "cacheReader \<Rightarrow> executionRun \<Rightarrow> gateValidation" where
  "runValidation R run =
     \<lparr>gv_reader = R, gv_projectId = run_projectId run, gv_workOrderId = Some (run_workOrderId run),
      gv_executionRunId = Some (run_executionRunId run)\<rparr>"

definition buildExecutionResumeView ::
  "executionRun option \<Rightarrow> evidenceRecord list \<Rightarrow> reviewRecord list \<Rightarrow> cacheReader option
     \<Rightarrow> executionResumeView" where
  "buildExecutionResumeView mrun evidence reviews R =
    (case mrun of None \<Rightarrow> emptyResumeView
     | Some run \<Rightarrow>
        let gates = deriveGateStates (run_selectedGates run) (run_currentChangeDigest run)
              evidence reviews (map_option (\<lambda>r. runValidation r run) R)
        in \<lparr>vw_executionRunId = Some (run_executionRunId run), vw_attempt = Some (run_attempt run),
            vw_phase = Some (run_phase run), vw_status = execution_status_text (run_status run),
            vw_changeDigest = run_currentChangeDigest run, vw_pendingGates = pendingGateIds gates,
            vw_failedGates = failingGateIds gates, vw_requiredReviewers = run_requiredReviewers run,
            vw_completedReviewers = completedReviewers (run_currentChangeDigest run) reviews,
            vw_blockers = run_blockers run, vw_nextAction = run_nextAction run\<rparr>)"

section \<open>Facts about single gates\<close>

lemma gateWith_simps [simp]:
  "gs_gateId (gateWith g st e) = g" "gs_status (gateWith g st e) = st"
  "gs_evidenceId (gateWith g st e) = e" "gs_gateId (pendingGate g) = g"
  "gs_status (pendingGate g) = GatePending" "gs_evidenceId (pendingGate g) = None"
  by (simp_all add: gateWith_def pendingGate_def)

lemma gs_gateId_if: "gs_gateId (if b then x else y) = (if b then gs_gateId x else gs_gateId y)"
  by simp

lemma reviewGateState_id [simp]: "gs_gateId (reviewGateState g digest reviews v) = g"
  unfolding reviewGateState_def Let_def gs_gateId_if by simp

lemma evidenceGateState_id [simp]: "gs_gateId (evidenceGateState g digest evidence v) = g"
  unfolding evidenceGateState_def Let_def gs_gateId_if
  by (cases "lookupGate g") (simp_all split: option.split)

lemma gateState_id [simp]: "gs_gateId (gateState digest evidence reviews v g) = g"
  by (simp add: gateState_def)

lemma list_ex_find: "list_ex P xs \<longleftrightarrow> (\<exists>x. find P xs = Some x)"
  using find_None_iff [of P xs] by (cases "find P xs") (auto simp: list_ex_iff)

lemma evidence_gate_pass_iff:
  "gs_status (evidenceGateState g digest evidence v) = GatePass \<longleftrightarrow>
     (\<forall>r\<in>set (evidenceForGate g digest evidence v). ev_status r = EvPass)
     \<and> (\<exists>def. lookupGate g = Some def
          \<and> (\<exists>r\<in>set (evidenceForGate g digest evidence v). acceptableEvidence v digest g def r))"
proof -
  let ?c = "evidenceForGate g digest evidence v"
  have clean: "(\<forall>r\<in>set ?c. ev_status r = EvPass) \<longleftrightarrow>
      \<not> list_ex (\<lambda>r. ev_status r = EvBlocked) ?c \<and> \<not> list_ex (\<lambda>r. ev_status r = EvFail) ?c"
    by (auto simp: list_ex_iff) (metis evidenceStatus.exhaust)
  have "(\<exists>r\<in>set ?c. P r) \<longleftrightarrow> (\<exists>x. find P (rev ?c) = Some x)" for P
    using list_ex_find [of P "rev ?c"] by (simp add: list_ex_iff)
  then show ?thesis
    unfolding clean by (auto simp: evidenceGateState_def Let_def split: option.splits)
qed

lemma evidence_gate_blocked_iff:
  "gs_status (evidenceGateState g digest evidence v) = GateBlocked \<longleftrightarrow>
     (\<exists>r\<in>set (evidenceForGate g digest evidence v). ev_status r = EvBlocked)"
  by (auto simp: evidenceGateState_def Let_def list_ex_iff split: option.splits)

lemma evidence_gate_fail_iff:
  "gs_status (evidenceGateState g digest evidence v) = GateFail \<longleftrightarrow>
     (\<exists>r\<in>set (evidenceForGate g digest evidence v). ev_status r = EvFail)
     \<and> (\<forall>r\<in>set (evidenceForGate g digest evidence v). ev_status r \<noteq> EvBlocked)"
  by (auto simp: evidenceGateState_def Let_def list_ex_iff split: option.splits)

lemma truthy_role: "isReviewGate g \<Longrightarrow> truthy (REVIEW_GATE_ROLES g)"
  by (auto simp: isReviewGate_iff REVIEW_GATE_ROLES_simps)

lemma review_gate_pass_iff:
  "gs_status (reviewGateState g digest reviews v) = GatePass \<longleftrightarrow>
     truthy digest \<and> truthy (REVIEW_GATE_ROLES g)
     \<and> (\<exists>r\<in>set (reviewsForGate (or_empty (REVIEW_GATE_ROLES g)) (or_empty digest) reviews v).
          rv_verdict r = Approved)
     \<and> (\<forall>r\<in>set (reviewsForGate (or_empty (REVIEW_GATE_ROLES g)) (or_empty digest) reviews v).
          rv_verdict r = Approved \<and> \<not> hasSevereFinding r)"
  by (auto simp: reviewGateState_def Let_def list_ex_iff)
    (metis reviewVerdict.exhaust)+

lemma satisfies_pass: "evidenceSatisfiesGate r def \<Longrightarrow> ev_status r = EvPass"
  by (auto simp: evidenceSatisfiesGate_def split: if_splits)

lemma satisfies_command:
  "evidenceSatisfiesGate r def \<Longrightarrow> gd_contractKind def = CommandGate \<Longrightarrow>
     ev_kind r = CommandEvidence \<and> truthy (ev_command r) \<and> ev_exitCode r = Some 0
       \<and> truthy (ev_outputRef r) \<and> truthy (ev_outputDigest r)"
  by (auto simp: evidenceSatisfiesGate_def split: if_splits)

lemma satisfies_concrete:
  "evidenceSatisfiesGate r def \<Longrightarrow>
     (truthy (ev_outputRef r) \<and> truthy (ev_outputDigest r))
     \<or> (truthy (ev_fileRef r) \<and> truthy (ev_fileDigest r))"
  by (auto simp: evidenceSatisfiesGate_def split: if_splits)

lemma satisfies_review_kind:
  "evidenceSatisfiesGate r def \<Longrightarrow> ev_kind r \<noteq> ReviewEvidence"
  by (auto simp: evidenceSatisfiesGate_def split: if_splits)

lemma review_gate_rejects_evidence:
  assumes "isReviewGate g" "lookupGate g = Some def"
  shows "\<not> evidenceSatisfiesGate r def"
proof -
  have "gd_allowedEvidenceKinds def = [ReviewEvidence]"
    using assms lookupGate_review lookupGate_shape by force
  then show ?thesis by (auto simp: evidenceSatisfiesGate_def)
qed

section \<open>Derivation over all selected gates\<close>

lemma derive_ids [simp]:
  "map gs_gateId (deriveGateStates gates digest evidence reviews v) = gates"
  by (simp add: deriveGateStates_def comp_def)

lemma derive_length [simp]:
  "length (deriveGateStates gates digest evidence reviews v) = length gates"
  by (simp add: deriveGateStates_def)

lemma derive_mem:
  "s \<in> set (deriveGateStates gates digest evidence reviews v) \<longleftrightarrow>
     (\<exists>g\<in>set gates. s = gateState digest evidence reviews v g)"
  by (auto simp: deriveGateStates_def)

text \<open>Only records of the current digest and identity matter.\<close>

definition currentEvidenceOf :: "string option \<Rightarrow> gateValidation option \<Rightarrow> evidenceRecord list
    \<Rightarrow> evidenceRecord list" where
  "currentEvidenceOf digest v evidence =
     filter (\<lambda>r. Some (ev_changeDigest r) = digest
       \<and> matchesIdentity v (ev_projectId r) (ev_workOrderId r) (ev_executionRunId r)) evidence"

definition currentReviewsOf :: "string option \<Rightarrow> gateValidation option \<Rightarrow> reviewRecord list
    \<Rightarrow> reviewRecord list" where
  "currentReviewsOf digest v reviews =
     filter (\<lambda>r. Some (rv_changeDigest r) = digest
       \<and> matchesIdentity v (rv_projectId r) (rv_workOrderId r) (rv_executionRunId r)) reviews"

lemma evidenceForGate_current:
  "evidenceForGate g digest (currentEvidenceOf digest v evidence) v = evidenceForGate g digest evidence v"
  by (auto simp: evidenceForGate_def currentEvidenceOf_def intro: filter_cong)

lemma reviewsForGate_current:
  "truthy digest \<Longrightarrow>
   reviewsForGate role (or_empty digest) (currentReviewsOf digest v reviews) v
     = reviewsForGate role (or_empty digest) reviews v"
  by (auto simp: reviewsForGate_def currentReviewsOf_def truthy_iff or_empty_def intro: filter_cong)

lemma gateState_current:
  "gateState digest (currentEvidenceOf digest v evidence) (currentReviewsOf digest v reviews) v g
     = gateState digest evidence reviews v g"
  by (auto simp: gateState_def evidenceGateState_def reviewGateState_def evidenceForGate_current
      reviewsForGate_current Let_def split: option.splits)

lemma derive_current:
  "deriveGateStates gates digest (currentEvidenceOf digest v evidence)
      (currentReviewsOf digest v reviews) v
     = deriveGateStates gates digest evidence reviews v"
  by (simp add: deriveGateStates_def gateState_current)

end
