(* ===== verification/Demo_State.thy ===== *)
theory Demo_State
  imports Execution_Types Specialist_Types
begin

text \<open>
  A small concrete project, used by the witnesses only: one work order with the build gate and the
  independent reviewer, its run after a passing build, the review that approves it, and the
  selection plan that covers both obligations.
\<close>

definition noBinding :: specialistBinding where
  "noBinding = \<lparr>sb_selectionPlanId = None, sb_selectionDigest = None, sb_registryDigest = None,
     sb_policyDigest = None, sb_changeDigest = None, sb_impactDigest = None,
     sb_gateContractDigest = None, sb_riskSignals = None, sb_dependencySignals = None\<rparr>"

definition noModel :: modelBinding where
  "noModel = \<lparr>mo_modelPlanId = None, mo_selectedProfileId = None, mo_selectedProviderId = None,
     mo_selectedModelId = None, mo_selectionMode = None, mo_execution = None\<rparr>"

definition demoBudget :: tokenBudget where
  "demoBudget = \<lparr>tb_softLimit = 8000, tb_hardLimit = 20000, tb_capabilityClass = Balanced,
     tb_cachePreference = PreferCache, tb_expansionPolicy = ''one-step''\<rparr>"

definition demoBoundary :: autonomyBoundary where
  "demoBoundary = \<lparr>ab_safeAutonomous = [''edit''], ab_requiresApproval = [''deploy''],
     ab_activeApprovalGatedActions = [], ab_activeApprovalIntentAmbiguous = False\<rparr>"

definition demoWorkOrder :: workOrder where
  "demoWorkOrder =
    \<lparr>wo_workOrderId = ''wo_1'', wo_projectId = ''p_1'', wo_title = ''title'', wo_objective = ''objective'',
     wo_status = WoPlanned, wo_createdAt = ''t0'', wo_updatedAt = ''t0'', wo_intakeRef = ''in_1'',
     wo_routingDecisionId = ''rt_1'', wo_scopeClass = Local, wo_includedScope = [''src''],
     wo_outOfScope = [], wo_recommendations = [], wo_riskLevel = LOW, wo_riskReasons = [],
     wo_constraints = [], wo_requestedArtifacts = [], wo_destructiveSignals = [],
     wo_domains = [''general''], wo_affectedAreas = [''src''], wo_specialists = [''test-engineer''],
     wo_assuranceReviewers = [''independent-reviewer''], wo_binding = noBinding,
     wo_specialistAssignments = None, wo_qualityGates = [''build''], wo_contextRadius = C1,
     wo_tokenBudget = demoBudget, wo_dependencies = [], wo_acceptanceCriteria = [''builds''],
     wo_requiredEvidence = [], wo_stopConditions = [], wo_autonomyBoundary = demoBoundary,
     wo_nextAction = ''dispatch''\<rparr>"

definition demoRun :: executionRun where
  "demoRun =
    \<lparr>run_executionRunId = ''ex_1'', run_projectId = ''p_1'', run_workOrderId = ''wo_1'',
     run_routingDecisionId = ''rt_1'', run_createdAt = ''t1'', run_updatedAt = ''t1'', run_attempt = 1,
     run_phase = EpVerify, run_status = ExInProgress,
     run_baseline = \<lparr>bl_gitHead = None, bl_dirty = False, bl_capturedAt = ''t1''\<rparr>,
     run_contextRadius = C1, run_contextCandidates = [''src/a.ts''],
     run_implementerRole = ''implementation-agent'', run_implementerSessionId = Some ''s_impl'',
     run_requiredReviewers = [''independent-reviewer''], run_selectedGates = [''build''],
     run_currentChangeDigest = Some ''d_1'', run_reviewedChangeDigest = None,
     run_changedFiles = [''src/a.ts''], run_scopeViolations = [], run_evidenceRefs = [],
     run_reviewRefs = [], run_blockers = [], run_nextAction = ''next'', run_expansionHistory = [],
     run_contextPackId = None, run_impactReportId = None, run_indexDigest = None, run_model = noModel\<rparr>"

definition demoEvidence :: evidenceRecord where
  "demoEvidence =
    \<lparr>ev_evidenceId = ''ev_1'', ev_projectId = ''p_1'', ev_workOrderId = ''wo_1'',
     ev_executionRunId = ''ex_1'', ev_changeDigest = ''d_1'', ev_gateId = ''build'',
     ev_sourceRole = ''test-engineer'', ev_kind = CommandEvidence, ev_createdAt = ''t2'',
     ev_status = EvPass, ev_summary = ''build passed'', ev_command = Some ''npm run build'',
     ev_exitCode = Some 0, ev_outputRef = Some ''out'', ev_outputDigest = Some ''od'',
     ev_fileRef = None, ev_fileDigest = None, ev_source = Some Executed,
     ev_sourceCacheRecordId = None, ev_sourceEvidenceId = None, ev_cacheDecisionId = None,
     ev_reuseProofDigest = None, ev_gateReuseContractIdentity = None\<rparr>"

definition demoReview :: reviewRecord where
  "demoReview =
    \<lparr>rv_reviewId = ''rv_1'', rv_projectId = ''p_1'', rv_workOrderId = ''wo_1'',
     rv_executionRunId = ''ex_1'', rv_changeDigest = ''d_1'', rv_reviewerRole = ''independent-reviewer'',
     rv_reviewSessionId = ''s_rev'', rv_implementerRole = ''implementation-agent'',
     rv_implementerSessionId = ''s_impl'', rv_verdict = Approved, rv_summary = ''fine'',
     rv_findings = [], rv_reasonCodes = None, rv_evidenceRefs = [], rv_createdAt = ''t3''\<rparr>"

definition demoSelection :: "string \<Rightarrow> specialistSelection" where
  "demoSelection i = \<lparr>ss_specialistId = i, ss_kind = CoreKind, ss_role = i, ss_required = True,
     ss_reasonCodes = [], ss_coversDomains = [], ss_coversGates = [], ss_independenceClass = SupportClass\<rparr>"

definition demoObligations :: "specialistObligation list" where
  "demoObligations =
    [\<lparr>ob_obligationId = ''assurance:independent-reviewer'', ob_kind = AssuranceOb, ob_domainId = None,
      ob_gateId = None, ob_evidenceId = Some ''independent review'', ob_affectedArea = None,
      ob_specialistId = Some ''independent-reviewer''\<rparr>,
     \<lparr>ob_obligationId = ''gate:build'', ob_kind = GateOb, ob_domainId = None,
      ob_gateId = Some ''build'', ob_evidenceId = Some ''gate:build'', ob_affectedArea = None,
      ob_specialistId = None\<rparr>]"

definition demoCoverage :: "obligationCoverage list" where
  "demoCoverage =
    [\<lparr>oc_obligationId = ''assurance:independent-reviewer'', oc_gateId = None,
      oc_evidenceId = Some ''independent review'', oc_specialistId = ''independent-reviewer'',
      oc_reasonCode = ''INDEPENDENT_REVIEW_REQUIRED'', oc_coverageKind = AssuranceOb\<rparr>,
     \<lparr>oc_obligationId = ''gate:build'', oc_gateId = Some ''build'', oc_evidenceId = Some ''gate:build'',
      oc_specialistId = ''test-engineer'', oc_reasonCode = ''GATE_REQUIRES_SPECIALIST'',
      oc_coverageKind = GateOb\<rparr>]"

definition demoPlanBase :: specialistSelectionPlan where
  "demoPlanBase =
    \<lparr>spl_selectionPlanId = ''sp_1'', spl_projectId = ''p_1'', spl_workOrderId = ''wo_1'',
     spl_workOrderDigest = ''wd'', spl_routingDigest = ''rd'', spl_registryDigest = ''gd'',
     spl_policyDigest = ''pd'', spl_changeDigest = None, spl_impactDigest = None,
     spl_gateContractDigest = None, spl_selected = [demoSelection ''test-engineer''],
     spl_assurance = [demoSelection ''independent-reviewer''], spl_assignments = [],
     spl_rejections = [], spl_unmetCoverage = [], spl_requiredObligations = demoObligations,
     spl_coveredObligations = demoCoverage, spl_unmetObligations = [], spl_conflicts = [],
     spl_dependencyGroups = [[''test-engineer'']], spl_parallelEligibleGroups = [],
     spl_selected_status = True, spl_blockedReasonCodes = [], spl_selectionDigest = []\<rparr>"

definition demoPlan :: "'h host_scheme \<Rightarrow> specialistSelectionPlan" where
  "demoPlan H = demoPlanBase\<lparr>spl_selectionDigest := planDigest H demoPlanBase\<rparr>"

lemma demoPlan_digest: "planDigest H (demoPlan H) = spl_selectionDigest (demoPlan H)"
  by (simp add: demoPlan_def planDigest_def planJson_def)

lemmas demo_defs = demoWorkOrder_def demoRun_def demoEvidence_def demoReview_def demoPlan_def
  demoPlanBase_def demoObligations_def demoCoverage_def demoSelection_def noBinding_def noModel_def

end
