(* ===== verification/Assurance_Policy.thy ===== *)
theory Assurance_Policy
  imports Gate_States Specialist_Catalog Demo_State
begin

text \<open>
  The assurance policy (\<^verbatim>\<open>src/kernel/assurance-policy.ts\<close>): whether the reviews of the current
  change digest, with the gate states and the selection plan, admit a review or let a run finish.
  The evaluation collects blockers; the run is allowed when there is none.
\<close>

datatype assuranceMode = StatusMode | SubmissionMode | FinalizeMode

datatype assuranceReasonCode =
    UNKNOWN_REVIEWER_ROLE | REVIEWER_ROLE_NOT_REQUIRED | REQUIRED_ROLE_BINDING_MISMATCH
  | SELECTED_GATE_BINDING_MISMATCH | CURRENT_DIGEST_REQUIRED | IMPLEMENTER_SESSION_REQUIRED
  | SCOPE_VIOLATION | REVIEWED_DIGEST_MISMATCH | STALE_REVIEW_DIGEST | REVIEW_IDENTITY_MISMATCH
  | IMPLEMENTER_ROLE_REVIEW | IMPLEMENTER_SESSION_REVIEW | REVIEW_SESSION_MISSING
  | REVIEW_IMPLEMENTER_SESSION_MISMATCH | DUPLICATE_REVIEW_APPROVAL | DUPLICATE_REVIEW_ID
  | DUPLICATE_REVIEW_SESSION | NON_REVIEW_GATE_NOT_PASS | CURRENT_FAIL_BLOCKED_EVIDENCE
  | EVIDENCE_REFERENCE_MISMATCH | EVIDENCE_IDENTITY_MISMATCH | APPROVAL_CONTRADICTS_HIGH_FINDING
  | APPROVAL_CONTRADICTS_CRITICAL_FINDING | NEGATIVE_VERDICT_REASON_REQUIRED | REVIEW_BLOCKED
  | REVIEW_CORRECTION_REQUIRED | ROLE_GATE_MISMATCH | PERFORMANCE_EVIDENCE_MISSING
  | RELIABILITY_OBLIGATION_UNSATISFIED | MISSING_REQUIRED_REVIEWER | REVIEW_NOT_APPROVED
  | SPECIALIST_SELECTION_INVALID | TYPED_ASSURANCE_OBLIGATION_MISSING
  | TYPED_ASSURANCE_OBLIGATION_UNSATISFIED

definition reason_text :: "assuranceReasonCode \<Rightarrow> string" where
  "reason_text c = (case c of
     UNKNOWN_REVIEWER_ROLE \<Rightarrow> ''UNKNOWN_REVIEWER_ROLE''
   | REVIEWER_ROLE_NOT_REQUIRED \<Rightarrow> ''REVIEWER_ROLE_NOT_REQUIRED''
   | REQUIRED_ROLE_BINDING_MISMATCH \<Rightarrow> ''REQUIRED_ROLE_BINDING_MISMATCH''
   | SELECTED_GATE_BINDING_MISMATCH \<Rightarrow> ''SELECTED_GATE_BINDING_MISMATCH''
   | CURRENT_DIGEST_REQUIRED \<Rightarrow> ''CURRENT_DIGEST_REQUIRED''
   | IMPLEMENTER_SESSION_REQUIRED \<Rightarrow> ''IMPLEMENTER_SESSION_REQUIRED''
   | SCOPE_VIOLATION \<Rightarrow> ''SCOPE_VIOLATION''
   | REVIEWED_DIGEST_MISMATCH \<Rightarrow> ''REVIEWED_DIGEST_MISMATCH''
   | STALE_REVIEW_DIGEST \<Rightarrow> ''STALE_REVIEW_DIGEST''
   | REVIEW_IDENTITY_MISMATCH \<Rightarrow> ''REVIEW_IDENTITY_MISMATCH''
   | IMPLEMENTER_ROLE_REVIEW \<Rightarrow> ''IMPLEMENTER_ROLE_REVIEW''
   | IMPLEMENTER_SESSION_REVIEW \<Rightarrow> ''IMPLEMENTER_SESSION_REVIEW''
   | REVIEW_SESSION_MISSING \<Rightarrow> ''REVIEW_SESSION_MISSING''
   | REVIEW_IMPLEMENTER_SESSION_MISMATCH \<Rightarrow> ''REVIEW_IMPLEMENTER_SESSION_MISMATCH''
   | DUPLICATE_REVIEW_APPROVAL \<Rightarrow> ''DUPLICATE_REVIEW_APPROVAL''
   | DUPLICATE_REVIEW_ID \<Rightarrow> ''DUPLICATE_REVIEW_ID''
   | DUPLICATE_REVIEW_SESSION \<Rightarrow> ''DUPLICATE_REVIEW_SESSION''
   | NON_REVIEW_GATE_NOT_PASS \<Rightarrow> ''NON_REVIEW_GATE_NOT_PASS''
   | CURRENT_FAIL_BLOCKED_EVIDENCE \<Rightarrow> ''CURRENT_FAIL_BLOCKED_EVIDENCE''
   | EVIDENCE_REFERENCE_MISMATCH \<Rightarrow> ''EVIDENCE_REFERENCE_MISMATCH''
   | EVIDENCE_IDENTITY_MISMATCH \<Rightarrow> ''EVIDENCE_IDENTITY_MISMATCH''
   | APPROVAL_CONTRADICTS_HIGH_FINDING \<Rightarrow> ''APPROVAL_CONTRADICTS_HIGH_FINDING''
   | APPROVAL_CONTRADICTS_CRITICAL_FINDING \<Rightarrow> ''APPROVAL_CONTRADICTS_CRITICAL_FINDING''
   | NEGATIVE_VERDICT_REASON_REQUIRED \<Rightarrow> ''NEGATIVE_VERDICT_REASON_REQUIRED''
   | REVIEW_BLOCKED \<Rightarrow> ''REVIEW_BLOCKED''
   | REVIEW_CORRECTION_REQUIRED \<Rightarrow> ''REVIEW_CORRECTION_REQUIRED''
   | ROLE_GATE_MISMATCH \<Rightarrow> ''ROLE_GATE_MISMATCH''
   | PERFORMANCE_EVIDENCE_MISSING \<Rightarrow> ''PERFORMANCE_EVIDENCE_MISSING''
   | RELIABILITY_OBLIGATION_UNSATISFIED \<Rightarrow> ''RELIABILITY_OBLIGATION_UNSATISFIED''
   | MISSING_REQUIRED_REVIEWER \<Rightarrow> ''MISSING_REQUIRED_REVIEWER''
   | REVIEW_NOT_APPROVED \<Rightarrow> ''REVIEW_NOT_APPROVED''
   | SPECIALIST_SELECTION_INVALID \<Rightarrow> ''SPECIALIST_SELECTION_INVALID''
   | TYPED_ASSURANCE_OBLIGATION_MISSING \<Rightarrow> ''TYPED_ASSURANCE_OBLIGATION_MISSING''
   | TYPED_ASSURANCE_OBLIGATION_UNSATISFIED \<Rightarrow> ''TYPED_ASSURANCE_OBLIGATION_UNSATISFIED'')"

definition ASSURANCE_ROLES :: "string list" where
  "ASSURANCE_ROLES =
     [''independent-reviewer'', ''security-reviewer'', ''performance-reviewer'', ''reliability-reviewer'']"

definition isRecognizedAssuranceRole :: "string \<Rightarrow> bool" where
  "isRecognizedAssuranceRole r \<longleftrightarrow> r \<in> set ASSURANCE_ROLES"

text \<open>\<open>ROLE_DEFINITIONS\<close> behind \<open>assuranceRoleToGates\<close>: no gate for an unknown role.\<close>

definition assuranceRoleToGates :: "string \<Rightarrow> string list" where
  "assuranceRoleToGates role =
     (if role = ''security-reviewer'' then [''security-review'']
      else if role = ''performance-reviewer'' then [''performance-check'']
      else if role = ''reliability-reviewer'' then [''database-migration'', ''rollback-validation'']
      else [])"

definition assuranceRoleGateMapping :: "string list \<Rightarrow> (string \<times> string list) list" where
  "assuranceRoleGateMapping selectedGates =
     map (\<lambda>role. (role, filter (\<lambda>g. g \<in> set selectedGates) (assuranceRoleToGates role))) ASSURANCE_ROLES"

record assurancePolicyInput =
  ai_mode :: assuranceMode
  ai_projectId :: string
  ai_workOrder :: workOrder
  ai_run :: executionRun
  ai_gateStates :: "gateStateSnapshot list"
  ai_evidence :: "evidenceRecord list"
  ai_reviews :: "reviewRecord list"
  ai_candidate :: "reviewRecord option"
  ai_specialistSelectionPlan :: "specialistSelectionPlan option"

type_synonym assuranceBlocker = "assuranceReasonCode \<times> string option"

text \<open>\<open>subject ? `${code}:${subject}` : code\<close>\<close>

definition blocker_text :: "assuranceBlocker \<Rightarrow> string" where
  "blocker_text b = (if truthy (snd b) then reason_text (fst b) @ '':'' @ or_empty (snd b)
                     else reason_text (fst b))"

record assurancePolicyResult =
  ar_allowed :: bool
  ar_reasonCodes :: "string list"
  ar_blockers :: "string list"
  ar_requiredRoles :: "string list"
  ar_satisfiedRoles :: "string list"
  ar_pendingRoles :: "string list"
  ar_blockedRoles :: "string list"
  ar_currentEvidenceRefs :: "string list"
  ar_currentFindingCounts :: "findingSeverity \<Rightarrow> nat"

definition sortedNonEmpty :: "'h host_scheme \<Rightarrow> string list \<Rightarrow> string list" where
  "sortedNonEmpty H values = sort_with (locale_le H) (dedup (filter (\<lambda>v. v \<noteq> []) values))"

definition sameSet :: "'h host_scheme \<Rightarrow> string list \<Rightarrow> string list \<Rightarrow> bool" where
  "sameSet H left right \<longleftrightarrow> sortedNonEmpty H left = sortedNonEmpty H right"

definition runEvidencePrefix :: "executionRun \<Rightarrow> string" where
  "runEvidencePrefix run = ''sidecar://execution-runs/'' @ run_executionRunId run @ ''/evidence/''"

definition evidenceRef :: "executionRun \<Rightarrow> evidenceRecord \<Rightarrow> string" where
  "evidenceRef run r = runEvidencePrefix run @ ev_evidenceId r @ ''.json''"

definition reviewIdentityMatches :: "assurancePolicyInput \<Rightarrow> reviewRecord \<Rightarrow> bool" where
  "reviewIdentityMatches I r \<longleftrightarrow>
     rv_projectId r = ai_projectId I \<and> rv_projectId r = wo_projectId (ai_workOrder I)
     \<and> rv_workOrderId r = wo_workOrderId (ai_workOrder I)
     \<and> rv_executionRunId r = run_executionRunId (ai_run I)
     \<and> Some (rv_changeDigest r) = run_currentChangeDigest (ai_run I)"

definition evidenceIdentityMatches :: "assurancePolicyInput \<Rightarrow> evidenceRecord \<Rightarrow> bool" where
  "evidenceIdentityMatches I r \<longleftrightarrow>
     ev_projectId r = ai_projectId I \<and> ev_projectId r = wo_projectId (ai_workOrder I)
     \<and> ev_workOrderId r = wo_workOrderId (ai_workOrder I)
     \<and> ev_executionRunId r = run_executionRunId (ai_run I)
     \<and> Some (ev_changeDigest r) = run_currentChangeDigest (ai_run I)"

definition currentEvidence :: "assurancePolicyInput \<Rightarrow> evidenceRecord list" where
  "currentEvidence I = filter (evidenceIdentityMatches I) (ai_evidence I)"

definition currentReviews :: "assurancePolicyInput \<Rightarrow> reviewRecord list" where
  "currentReviews I = filter (reviewIdentityMatches I)
     (case ai_candidate I of Some c \<Rightarrow> ai_reviews I @ [c] | None \<Rightarrow> ai_reviews I)"

definition reviewFindingCounts :: "reviewRecord list \<Rightarrow> findingSeverity \<Rightarrow> nat" where
  "reviewFindingCounts reviews sev =
     length (filter (\<lambda>f. rf_severity f = sev) (concat (map rv_findings reviews)))"

section \<open>The typed selection plan\<close>

definition typedPlanDigestIsValid :: "'h host_scheme \<Rightarrow> specialistSelectionPlan \<Rightarrow> bool" where
  "typedPlanDigestIsValid H p \<longleftrightarrow> spl_selectionDigest p = planDigest H p"

definition findObligation :: "specialistSelectionPlan \<Rightarrow> string \<Rightarrow> specialistObligation option" where
  "findObligation p i = find (\<lambda>b. ob_obligationId b = i) (spl_requiredObligations p)"

definition requiredObligationsAreWellFormed :: "specialistSelectionPlan \<Rightarrow> bool" where
  "requiredObligationsAreWellFormed p \<longleftrightarrow>
     distinct (map ob_obligationId (spl_requiredObligations p))
     \<and> list_all (\<lambda>b. ob_kind b = GateOb \<longrightarrow>
          truthy (ob_gateId b) \<and> isKnownGateId (or_empty (ob_gateId b))
          \<and> ob_evidenceId b = map_option gd_evidence (lookupGate (or_empty (ob_gateId b))))
         (spl_requiredObligations p)"

definition coverageItemIsValid :: "specialistSelectionPlan \<Rightarrow> obligationCoverage \<Rightarrow> bool" where
  "coverageItemIsValid p c \<longleftrightarrow>
     (case findObligation p (oc_obligationId c) of None \<Rightarrow> False
      | Some b \<Rightarrow>
          oc_specialistId c \<in> ss_specialistId ` set (spl_selected p @ spl_assurance p)
          \<and> oc_gateId c = ob_gateId b \<and> oc_evidenceId c = ob_evidenceId b
          \<and> oc_coverageKind c = ob_kind b
          \<and> (ob_specialistId b = None \<or> Some (oc_specialistId c) = ob_specialistId b))"

definition obligationIsCoveredOnce :: "specialistSelectionPlan \<Rightarrow> specialistObligation \<Rightarrow> bool" where
  "obligationIsCoveredOnce p b \<longleftrightarrow>
     (case filter (\<lambda>c. oc_obligationId c = ob_obligationId b) (spl_coveredObligations p) of
        [c] \<Rightarrow> oc_gateId c = ob_gateId b \<and> oc_evidenceId c = ob_evidenceId b
      | _ \<Rightarrow> False)"

definition typedSelectionPlanIsValid :: "'h host_scheme \<Rightarrow> assurancePolicyInput \<Rightarrow> bool" where
  "typedSelectionPlanIsValid H I \<longleftrightarrow>
    (case ai_specialistSelectionPlan I of None \<Rightarrow> False
     | Some p \<Rightarrow>
         spl_selected_status p \<and> typedPlanDigestIsValid H p
         \<and> spl_projectId p = ai_projectId I \<and> spl_projectId p = wo_projectId (ai_workOrder I)
         \<and> spl_workOrderId p = wo_workOrderId (ai_workOrder I)
         \<and> spl_unmetCoverage p = [] \<and> spl_unmetObligations p = [] \<and> spl_blockedReasonCodes p = []
         \<and> requiredObligationsAreWellFormed p
         \<and> list_all (\<lambda>g. list_ex (\<lambda>b. ob_kind b = GateOb \<and> ob_gateId b = Some g) (spl_requiredObligations p))
             (run_selectedGates (ai_run I))
         \<and> list_all (\<lambda>role. findObligation p (''assurance:'' @ role) \<noteq> None)
             (run_requiredReviewers (ai_run I))
         \<and> list_all (coverageItemIsValid p) (spl_coveredObligations p)
         \<and> list_all (obligationIsCoveredOnce p) (spl_requiredObligations p))"

definition typedRoleObligations :: "assurancePolicyInput \<Rightarrow> string \<Rightarrow> specialistObligation list" where
  "typedRoleObligations I role =
    (case ai_specialistSelectionPlan I of None \<Rightarrow> []
     | Some p \<Rightarrow>
         filter (\<lambda>b. ob_specialistId b = Some role
             \<or> (ob_kind b = GateOb \<and> ob_gateId b \<in> Some ` set (assuranceRoleToGates role)))
           (spl_requiredObligations p))"

definition roleObligationHolds ::
  "assurancePolicyInput \<Rightarrow> specialistSelectionPlan \<Rightarrow> string \<Rightarrow> specialistObligation \<Rightarrow> bool" where
  "roleObligationHolds I p role b =
    (case find (\<lambda>c. oc_obligationId c = ob_obligationId b) (spl_coveredObligations p) of
       None \<Rightarrow> False
     | Some c \<Rightarrow>
         if oc_specialistId c \<noteq> role \<or> oc_gateId c \<noteq> ob_gateId b \<or> oc_evidenceId c \<noteq> ob_evidenceId b
         then False
         else if ob_kind b = AssuranceOb then True
         else if ob_kind b \<noteq> GateOb \<and> ob_kind b \<noteq> EvidenceOb then True
         else if truthy (ob_gateId b)
              \<and> (\<exists>def\<in>set_option (lookupGate (or_empty (ob_gateId b))).
                   gd_contractKind def = ReviewGate \<and> gd_reviewerRole def = Some role)
         then True
         else list_ex (\<lambda>r. ev_status r = EvPass \<and> Some (ev_gateId r) = ob_gateId b) (currentEvidence I))"

definition requiredRoleGate :: "string \<Rightarrow> string option" where
  "requiredRoleGate role =
     (if role = ''security-reviewer'' then Some ''security-review''
      else if role = ''performance-reviewer'' then Some ''performance-check''
      else if role = ''reliability-reviewer'' then Some ''rollback-validation''
      else None)"

definition hasRelevantEvidence :: "assurancePolicyInput \<Rightarrow> string \<Rightarrow> bool" where
  "hasRelevantEvidence I role =
    (if role = ''independent-reviewer''
     then list_ex (\<lambda>b. ob_kind b = AssuranceOb \<and> ob_specialistId b = Some role) (typedRoleObligations I role)
     else case ai_specialistSelectionPlan I of None \<Rightarrow> False
       | Some p \<Rightarrow>
           if typedRoleObligations I role = [] then False
           else if \<exists>g\<in>set_option (requiredRoleGate role). g \<notin> set (run_selectedGates (ai_run I)) then False
           else list_all (roleObligationHolds I p role) (typedRoleObligations I role))"

definition reviewReferencesAreCurrent ::
  "assurancePolicyInput \<Rightarrow> reviewRecord \<Rightarrow> evidenceRecord list \<Rightarrow> bool" where
  "reviewReferencesAreCurrent I r evidence \<longleftrightarrow>
     list_all (\<lambda>ref. ref \<in> set (map (evidenceRef (ai_run I)) evidence)) (rv_evidenceRefs r)"

text \<open>\<open>new Map(gateStates.map(...))\<close>: the last state of a gate wins.\<close>

definition gateStatusOf :: "gateStateSnapshot list \<Rightarrow> string \<Rightarrow> gateRuntimeStatus option" where
  "gateStatusOf states = map_of (rev (map (\<lambda>s. (gs_gateId s, gs_status s)) states))"

definition roleGateIsSufficient :: "assurancePolicyInput \<Rightarrow> string \<Rightarrow> reviewRecord \<Rightarrow> bool" where
  "roleGateIsSufficient I role review \<longleftrightarrow>
     list_all (\<lambda>g.
        if g \<notin> set (run_selectedGates (ai_run I)) then True
        else if (role = ''security-reviewer'' \<or> role = ''performance-reviewer'')
             \<and> (\<exists>def\<in>set_option (lookupGate g). gd_reviewerRole def = Some role)
             \<and> rv_verdict review = Approved then True
        else gateStatusOf (ai_gateStates I) g = Some GatePass)
       (assuranceRoleToGates role)"

section \<open>The evaluation\<close>

text \<open>\<open>if (b) addReason(...)\<close>\<close>

definition reasonIf :: "bool \<Rightarrow> assuranceReasonCode \<Rightarrow> string option \<Rightarrow> assuranceBlocker list" where
  "reasonIf b code subject = (if b then [(code, subject)] else [])"

text \<open>The checks on the run and its bindings, before the reviews are looked at.\<close>

definition runBlockers :: "'h host_scheme \<Rightarrow> assurancePolicyInput \<Rightarrow> assuranceBlocker list" where
  "runBlockers H I =
    (let run = ai_run I; requiredRoles = sortedNonEmpty H (run_requiredReviewers run)
     in reasonIf (\<not> truthy (run_currentChangeDigest run)) CURRENT_DIGEST_REQUIRED None
      @ reasonIf (\<not> truthy (run_implementerSessionId run)) IMPLEMENTER_SESSION_REQUIRED None
      @ reasonIf (run_scopeViolations run \<noteq> []) SCOPE_VIOLATION None
      @ reasonIf (truthy (run_reviewedChangeDigest run)
            \<and> run_reviewedChangeDigest run \<noteq> run_currentChangeDigest run) REVIEWED_DIGEST_MISMATCH None
      @ reasonIf (\<not> sameSet H (run_requiredReviewers run) (wo_assuranceReviewers (ai_workOrder I))
            \<or> list_ex (\<lambda>role. \<not> isRecognizedAssuranceRole role) requiredRoles)
          REQUIRED_ROLE_BINDING_MISMATCH None
      @ reasonIf (\<not> sameSet H (run_selectedGates run) (wo_qualityGates (ai_workOrder I))
            \<or> list_ex (\<lambda>g. \<not> isKnownGateId g) (run_selectedGates run))
          SELECTED_GATE_BINDING_MISMATCH None
      @ reasonIf (\<not> typedSelectionPlanIsValid H I) SPECIALIST_SELECTION_INVALID None)"

definition gateBlockers :: "assurancePolicyInput \<Rightarrow> assuranceBlocker list" where
  "gateBlockers I =
     concat (map (\<lambda>s. reasonIf (\<not> isReviewGate (gs_gateId s) \<and> gs_status s \<noteq> GatePass)
         NON_REVIEW_GATE_NOT_PASS (Some (gs_gateId s @ '':'' @ gate_status_text (gs_status s))))
       (ai_gateStates I))
   @ concat (map (\<lambda>r. reasonIf ((ev_status r = EvFail \<or> ev_status r = EvBlocked) \<and> \<not> isReviewGate (ev_gateId r))
         CURRENT_FAIL_BLOCKED_EVIDENCE (Some (ev_gateId r)))
       (filter (\<lambda>r. ev_gateId r \<in> set (run_selectedGates (ai_run I))) (currentEvidence I)))"

definition reviewHasSeverity :: "findingSeverity \<Rightarrow> reviewRecord \<Rightarrow> bool" where
  "reviewHasSeverity sev r \<longleftrightarrow> list_ex (\<lambda>f. rf_severity f = sev) (rv_findings r)"

text \<open>The checks on one review that do not depend on the reviews before it.\<close>

definition reviewBlockers :: "'h host_scheme \<Rightarrow> assurancePolicyInput \<Rightarrow> reviewRecord \<Rightarrow> assuranceBlocker list" where
  "reviewBlockers H I r =
    (let run = ai_run I; role = rv_reviewerRole r; subject = Some role
     in reasonIf (role \<notin> set (sortedNonEmpty H (run_requiredReviewers run))) REVIEWER_ROLE_NOT_REQUIRED subject
      @ reasonIf (\<not> reviewIdentityMatches I r) STALE_REVIEW_DIGEST subject
      @ reasonIf (rv_reviewSessionId r = []) REVIEW_SESSION_MISSING subject
      @ reasonIf (role = run_implementerRole run) IMPLEMENTER_ROLE_REVIEW subject
      @ reasonIf (rv_implementerRole r \<noteq> run_implementerRole run) REVIEW_IDENTITY_MISMATCH subject
      @ reasonIf (\<not> truthy (run_implementerSessionId run)
            \<or> Some (rv_implementerSessionId r) \<noteq> run_implementerSessionId run)
          REVIEW_IMPLEMENTER_SESSION_MISMATCH subject
      @ reasonIf (Some (rv_reviewSessionId r) = run_implementerSessionId run) IMPLEMENTER_SESSION_REVIEW subject
      @ reasonIf (\<not> reviewReferencesAreCurrent I r (currentEvidence I)) EVIDENCE_REFERENCE_MISMATCH subject
      @ reasonIf (list_ex (\<lambda>ref. \<not> starts_with (runEvidencePrefix run) ref) (rv_evidenceRefs r))
          EVIDENCE_IDENTITY_MISMATCH subject
      @ reasonIf (rv_verdict r = Approved \<and> reviewHasSeverity SevHigh r)
          APPROVAL_CONTRADICTS_HIGH_FINDING subject
      @ reasonIf (rv_verdict r = Approved \<and> reviewHasSeverity SevCritical r)
          APPROVAL_CONTRADICTS_CRITICAL_FINDING subject
      @ reasonIf ((rv_verdict r = VerdictBlocked \<or> rv_verdict r = CorrectionNeeded) \<and> rv_findings r = []
            \<and> (case rv_reasonCodes r of None \<Rightarrow> True | Some cs \<Rightarrow> cs = []))
          NEGATIVE_VERDICT_REASON_REQUIRED subject)"

text \<open>The proof obligations of an approval, outside the status mode.\<close>

definition approvalBlockers :: "assurancePolicyInput \<Rightarrow> reviewRecord \<Rightarrow> assuranceBlocker list" where
  "approvalBlockers I r =
    (let role = rv_reviewerRole r; subject = Some role
     in reasonIf (ai_mode I \<noteq> StatusMode \<and> \<not> roleGateIsSufficient I role r)
          (if role = ''reliability-reviewer'' then RELIABILITY_OBLIGATION_UNSATISFIED else ROLE_GATE_MISMATCH)
          subject
      @ reasonIf (ai_mode I \<noteq> StatusMode \<and> \<not> hasRelevantEvidence I role)
          (if role = ''performance-reviewer'' then PERFORMANCE_EVIDENCE_MISSING
           else TYPED_ASSURANCE_OBLIGATION_UNSATISFIED) subject)"

text \<open>
  What the loop over the reviews carries: the identifiers seen, the approvals by role, the role
  under which a session first approved, and the blockers.
\<close>

record reviewLoop =
  lo_ids :: "string list"
  lo_approvals :: "string \<Rightarrow> reviewRecord list"
  lo_sessions :: "string \<Rightarrow> string option"
  lo_blockers :: "assuranceBlocker list"

definition emptyLoop :: reviewLoop where
  "emptyLoop = \<lparr>lo_ids = [], lo_approvals = (\<lambda>_. []), lo_sessions = (\<lambda>_. None), lo_blockers = []\<rparr>"

definition approveStep :: "assurancePolicyInput \<Rightarrow> reviewRecord \<Rightarrow> reviewLoop \<Rightarrow> reviewLoop" where
  "approveStep I r l =
    (let role = rv_reviewerRole r; session = rv_reviewSessionId r;
         approvals = lo_approvals l role @ [r];
         clash = (\<exists>other\<in>set_option (lo_sessions l session). other \<noteq> role)
     in l\<lparr>lo_approvals := (lo_approvals l)(role := approvals),
          lo_sessions := (if clash then lo_sessions l else (lo_sessions l)(session \<mapsto> role)),
          lo_blockers := lo_blockers l
            @ reasonIf clash DUPLICATE_REVIEW_SESSION (Some session)
            @ reasonIf (length approvals > 1) DUPLICATE_REVIEW_APPROVAL (Some role)
            @ approvalBlockers I r\<rparr>)"

definition reviewStep :: "'h host_scheme \<Rightarrow> assurancePolicyInput \<Rightarrow> reviewLoop \<Rightarrow> reviewRecord \<Rightarrow> reviewLoop" where
  "reviewStep H I l r =
    (let l1 = l\<lparr>lo_ids := rv_reviewId r # lo_ids l,
          lo_blockers := lo_blockers l
            @ reasonIf (rv_reviewId r \<in> set (lo_ids l)) DUPLICATE_REVIEW_ID (Some (rv_reviewId r))\<rparr>
     in if \<not> isRecognizedAssuranceRole (rv_reviewerRole r)
        then l1\<lparr>lo_blockers := lo_blockers l1 @ [(UNKNOWN_REVIEWER_ROLE, Some (rv_reviewerRole r))]\<rparr>
        else let l2 = l1\<lparr>lo_blockers := lo_blockers l1 @ reviewBlockers H I r\<rparr>
             in if rv_verdict r = Approved then approveStep I r l2 else l2)"

definition reviewLoopOf :: "'h host_scheme \<Rightarrow> assurancePolicyInput \<Rightarrow> reviewLoop" where
  "reviewLoopOf H I = foldl (reviewStep H I) emptyLoop (currentReviews I)"

definition satisfiedRolesOf :: "'h host_scheme \<Rightarrow> assurancePolicyInput \<Rightarrow> string list" where
  "satisfiedRolesOf H I = filter (\<lambda>role. lo_approvals (reviewLoopOf H I) role \<noteq> [])
     (sortedNonEmpty H (run_requiredReviewers (ai_run I)))"

definition finalizeBlockers :: "'h host_scheme \<Rightarrow> assurancePolicyInput \<Rightarrow> assuranceBlocker list" where
  "finalizeBlockers H I =
    (let requiredRoles = sortedNonEmpty H (run_requiredReviewers (ai_run I));
         approvals = lo_approvals (reviewLoopOf H I)
     in if ai_mode I \<noteq> FinalizeMode then []
        else map (\<lambda>role. (MISSING_REQUIRED_REVIEWER, Some role))
               (filter (\<lambda>role. role \<notin> set (satisfiedRolesOf H I)) requiredRoles)
           @ concat (map (\<lambda>role. case approvals role of
                 [] \<Rightarrow> []
               | r # _ \<Rightarrow> reasonIf (rv_verdict r \<noteq> Approved) REVIEW_NOT_APPROVED (Some role)) requiredRoles))"

definition candidateIsValid :: "'h host_scheme \<Rightarrow> assurancePolicyInput \<Rightarrow> bool" where
  "candidateIsValid H I \<longleftrightarrow> ai_mode I \<noteq> SubmissionMode
     \<or> (case ai_candidate I of None \<Rightarrow> False
        | Some c \<Rightarrow> isRecognizedAssuranceRole (rv_reviewerRole c)
            \<and> rv_reviewerRole c \<in> set (sortedNonEmpty H (run_requiredReviewers (ai_run I)))
            \<and> Some (rv_changeDigest c) = run_currentChangeDigest (ai_run I))"

definition assuranceBlockers :: "'h host_scheme \<Rightarrow> assurancePolicyInput \<Rightarrow> assuranceBlocker list" where
  "assuranceBlockers H I = runBlockers H I @ gateBlockers I @ lo_blockers (reviewLoopOf H I)
     @ finalizeBlockers H I @ reasonIf (\<not> candidateIsValid H I) REVIEWER_ROLE_NOT_REQUIRED None"

definition evaluateAssurancePolicy :: "'h host_scheme \<Rightarrow> assurancePolicyInput \<Rightarrow> assurancePolicyResult" where
  "evaluateAssurancePolicy H I =
    (let requiredRoles = sortedNonEmpty H (run_requiredReviewers (ai_run I));
         blockers = assuranceBlockers H I;
         satisfied = satisfiedRolesOf H I
     in \<lparr>ar_allowed = (length blockers = 0),
         ar_reasonCodes = sort_with (locale_le H) (dedup (map (\<lambda>b. reason_text (fst b)) blockers)),
         ar_blockers = sortedNonEmpty H (map blocker_text blockers),
         ar_requiredRoles = requiredRoles,
         ar_satisfiedRoles = satisfied,
         ar_pendingRoles = filter (\<lambda>role. role \<notin> set satisfied) requiredRoles,
         ar_blockedRoles = filter (\<lambda>role. list_ex (\<lambda>r. rv_reviewerRole r = role \<and> rv_verdict r = VerdictBlocked)
           (currentReviews I)) requiredRoles,
         ar_currentEvidenceRefs =
           sort_with (locale_le H) (map (evidenceRef (ai_run I)) (currentEvidence I)),
         ar_currentFindingCounts = reviewFindingCounts (currentReviews I)\<rparr>)"

section \<open>The loop over the reviews\<close>

lemma reasonIf_Nil [simp]: "reasonIf b c x = [] \<longleftrightarrow> \<not> b"
  by (simp add: reasonIf_def)

definition approvalsIn :: "reviewRecord list \<Rightarrow> reviewRecord list" where
  "approvalsIn rs = filter (\<lambda>r. isRecognizedAssuranceRole (rv_reviewerRole r) \<and> rv_verdict r = Approved) rs"

text \<open>The state of the loop after \<open>rs\<close> (the reviews are processed left to right).\<close>

lemma loop_ids: "set (lo_ids (foldl (reviewStep H I) l rs)) = set (lo_ids l) \<union> rv_reviewId ` set rs"
  by (induction rs arbitrary: l) (auto simp: reviewStep_def approveStep_def Let_def)

lemma approveStep_approvals:
  "lo_approvals (approveStep I r l) = (lo_approvals l)(rv_reviewerRole r := lo_approvals l (rv_reviewerRole r) @ [r])"
  by (simp add: approveStep_def Let_def)

lemma reviewStep_approvals:
  "lo_approvals (reviewStep H I l r) =
     (if isRecognizedAssuranceRole (rv_reviewerRole r) \<and> rv_verdict r = Approved
      then (lo_approvals l)(rv_reviewerRole r := lo_approvals l (rv_reviewerRole r) @ [r])
      else lo_approvals l)"
  by (simp add: reviewStep_def Let_def approveStep_approvals)

lemma loop_approvals:
  "lo_approvals (foldl (reviewStep H I) l rs) role
     = lo_approvals l role @ filter (\<lambda>r. rv_reviewerRole r = role) (approvalsIn rs)"
  by (induction rs arbitrary: l) (auto simp: reviewStep_approvals approvalsIn_def)

definition loopClean :: "'h host_scheme \<Rightarrow> assurancePolicyInput \<Rightarrow> reviewRecord list \<Rightarrow> bool" where
  "loopClean H I rs \<longleftrightarrow> distinct (map rv_reviewId rs)
     \<and> (\<forall>r\<in>set rs. isRecognizedAssuranceRole (rv_reviewerRole r) \<and> reviewBlockers H I r = [])
     \<and> (\<forall>r\<in>set (approvalsIn rs). approvalBlockers I r = [])
     \<and> distinct (map rv_reviewerRole (approvalsIn rs))
     \<and> distinct (map rv_reviewSessionId (approvalsIn rs))"

lemma approvalsIn_snoc:
  "approvalsIn (rs @ [r]) = approvalsIn rs
     @ (if isRecognizedAssuranceRole (rv_reviewerRole r) \<and> rv_verdict r = Approved then [r] else [])"
  by (simp add: approvalsIn_def)

lemma reviewStep_blockers_Nil:
  "lo_blockers (reviewStep H I l r) = [] \<longleftrightarrow>
     lo_blockers l = [] \<and> rv_reviewId r \<notin> set (lo_ids l)
     \<and> isRecognizedAssuranceRole (rv_reviewerRole r) \<and> reviewBlockers H I r = []
     \<and> (rv_verdict r = Approved \<longrightarrow>
          (\<forall>other. lo_sessions l (rv_reviewSessionId r) = Some other \<longrightarrow> other = rv_reviewerRole r)
          \<and> lo_approvals l (rv_reviewerRole r) = [] \<and> approvalBlockers I r = [])"
  by (auto simp: reviewStep_def approveStep_def Let_def elem_set)

lemma reviewStep_sessions:
  assumes "lo_blockers (reviewStep H I l r) = []"
  shows "lo_sessions (reviewStep H I l r) =
     (if rv_verdict r = Approved then (lo_sessions l)(rv_reviewSessionId r \<mapsto> rv_reviewerRole r)
      else lo_sessions l)"
  using assms unfolding reviewStep_blockers_Nil
  by (auto simp: reviewStep_def approveStep_def Let_def elem_set)

lemma fresh_pair:
  "(\<forall>other. (\<exists>r\<in>A. f r = x \<and> g r = other) \<longrightarrow> other = y) \<and> y \<notin> g ` A \<longleftrightarrow> y \<notin> g ` A \<and> x \<notin> f ` A"
  by blast

lemma loop_clean:
  fixes H :: "'h host_scheme" and I :: assurancePolicyInput
  defines "L \<equiv> foldl (reviewStep H I) emptyLoop"
  shows "(lo_blockers (L rs) = [] \<longleftrightarrow> loopClean H I rs)
    \<and> (loopClean H I rs \<longrightarrow> (\<forall>s role. lo_sessions (L rs) s = Some role \<longleftrightarrow>
          (\<exists>r\<in>set (approvalsIn rs). rv_reviewSessionId r = s \<and> rv_reviewerRole r = role)))"
proof (induction rs rule: rev_induct)
  case Nil
  then show ?case by (simp add: L_def emptyLoop_def loopClean_def approvalsIn_def)
next
  case (snoc r rs)
  have step: "L (rs @ [r]) = reviewStep H I (L rs) r" by (simp add: L_def)
  have ids: "set (lo_ids (L rs)) = rv_reviewId ` set rs"
    unfolding L_def loop_ids by (simp add: emptyLoop_def)
  have approvals: "lo_approvals (L rs) role = [] \<longleftrightarrow> role \<notin> rv_reviewerRole ` set (approvalsIn rs)" for role
    unfolding L_def loop_approvals by (auto simp: emptyLoop_def filter_empty_conv)
  have blockers: "lo_blockers (L (rs @ [r])) = [] \<longleftrightarrow> loopClean H I (rs @ [r])"
  proof (cases "loopClean H I rs")
    case False
    then have "\<not> loopClean H I (rs @ [r])" by (auto simp: loopClean_def approvalsIn_snoc)
    with False snoc show ?thesis by (simp add: step reviewStep_blockers_Nil)
  next
    case True
    with snoc have s: "lo_sessions (L rs) s = Some role \<longleftrightarrow>
        (\<exists>r\<in>set (approvalsIn rs). rv_reviewSessionId r = s \<and> rv_reviewerRole r = role)" for s role
      by blast
    have fresh: "(\<forall>other. lo_sessions (L rs) (rv_reviewSessionId r) = Some other \<longrightarrow> other = rv_reviewerRole r)
        \<and> lo_approvals (L rs) (rv_reviewerRole r) = [] \<longleftrightarrow>
      rv_reviewerRole r \<notin> rv_reviewerRole ` set (approvalsIn rs)
        \<and> rv_reviewSessionId r \<notin> rv_reviewSessionId ` set (approvalsIn rs)"
      unfolding s approvals by (rule fresh_pair)
    show ?thesis
      unfolding step reviewStep_blockers_Nil loopClean_def approvalsIn_snoc
      using True snoc fresh by (auto simp: loopClean_def ids)
  qed
  show ?case
  proof (intro conjI impI blockers)
    assume clean: "loopClean H I (rs @ [r])"
    then have "loopClean H I rs" by (auto simp: loopClean_def approvalsIn_snoc)
    moreover have "lo_blockers (reviewStep H I (L rs) r) = []" using blockers clean step by simp
    ultimately show "\<forall>s role. lo_sessions (L (rs @ [r])) s = Some role \<longleftrightarrow>
        (\<exists>r\<in>set (approvalsIn (rs @ [r])). rv_reviewSessionId r = s \<and> rv_reviewerRole r = role)"
      using snoc clean
      by (auto simp: step reviewStep_sessions approvalsIn_snoc loopClean_def)
  qed
qed

lemma reviewLoop_blockers: "lo_blockers (reviewLoopOf H I) = [] \<longleftrightarrow> loopClean H I (currentReviews I)"
  using loop_clean [of H I "currentReviews I"] by (simp add: reviewLoopOf_def)

lemma reviewLoop_approvals:
  "lo_approvals (reviewLoopOf H I) role = filter (\<lambda>r. rv_reviewerRole r = role) (approvalsIn (currentReviews I))"
  by (simp add: reviewLoopOf_def loop_approvals emptyLoop_def)

section \<open>What the policy promises\<close>

text \<open>The specification: no loop, no blockers, one condition per promise.\<close>

definition runReady :: "'h host_scheme \<Rightarrow> assurancePolicyInput \<Rightarrow> bool" where
  "runReady H I \<longleftrightarrow>
     (let run = ai_run I
      in truthy (run_currentChangeDigest run) \<and> truthy (run_implementerSessionId run)
       \<and> run_scopeViolations run = []
       \<and> (truthy (run_reviewedChangeDigest run) \<longrightarrow> run_reviewedChangeDigest run = run_currentChangeDigest run)
       \<and> sameSet H (run_requiredReviewers run) (wo_assuranceReviewers (ai_workOrder I))
       \<and> (\<forall>role\<in>set (run_requiredReviewers run) - {[]}. isRecognizedAssuranceRole role)
       \<and> sameSet H (run_selectedGates run) (wo_qualityGates (ai_workOrder I))
       \<and> (\<forall>g\<in>set (run_selectedGates run). isKnownGateId g)
       \<and> typedSelectionPlanIsValid H I)"

definition gatesClean :: "assurancePolicyInput \<Rightarrow> bool" where
  "gatesClean I \<longleftrightarrow>
     (\<forall>s\<in>set (ai_gateStates I). isReviewGate (gs_gateId s) \<or> gs_status s = GatePass)
     \<and> (\<forall>r\<in>set (currentEvidence I). ev_gateId r \<in> set (run_selectedGates (ai_run I)) \<longrightarrow>
          isReviewGate (ev_gateId r) \<or> ev_status r = EvPass)"

definition reviewSound :: "assurancePolicyInput \<Rightarrow> reviewRecord \<Rightarrow> bool" where
  "reviewSound I r \<longleftrightarrow>
     isRecognizedAssuranceRole (rv_reviewerRole r)
     \<and> rv_reviewerRole r \<in> set (run_requiredReviewers (ai_run I))
     \<and> rv_reviewSessionId r \<noteq> []
     \<and> rv_reviewerRole r \<noteq> run_implementerRole (ai_run I)
     \<and> rv_implementerRole r = run_implementerRole (ai_run I)
     \<and> run_implementerSessionId (ai_run I) = Some (rv_implementerSessionId r)
     \<and> rv_implementerSessionId r \<noteq> [] \<and> rv_reviewSessionId r \<noteq> rv_implementerSessionId r
     \<and> set (rv_evidenceRefs r) \<subseteq> evidenceRef (ai_run I) ` set (currentEvidence I)
     \<and> (if rv_verdict r = Approved then \<not> hasSevereFinding r
        else rv_findings r \<noteq> [] \<or> (\<exists>cs. rv_reasonCodes r = Some cs \<and> cs \<noteq> []))"

definition approvalProven :: "assurancePolicyInput \<Rightarrow> reviewRecord \<Rightarrow> bool" where
  "approvalProven I r \<longleftrightarrow> roleGateIsSufficient I (rv_reviewerRole r) r \<and> hasRelevantEvidence I (rv_reviewerRole r)"

definition currentApprovals :: "assurancePolicyInput \<Rightarrow> reviewRecord list" where
  "currentApprovals I = filter (\<lambda>r. rv_verdict r = Approved) (currentReviews I)"

definition reviewsClean :: "assurancePolicyInput \<Rightarrow> bool" where
  "reviewsClean I \<longleftrightarrow>
     distinct (map rv_reviewId (currentReviews I))
     \<and> (\<forall>r\<in>set (currentReviews I). reviewSound I r)
     \<and> distinct (map rv_reviewerRole (currentApprovals I))
     \<and> distinct (map rv_reviewSessionId (currentApprovals I))
     \<and> (ai_mode I \<noteq> StatusMode \<longrightarrow> (\<forall>r\<in>set (currentApprovals I). approvalProven I r))"

definition modeSatisfied :: "assurancePolicyInput \<Rightarrow> bool" where
  "modeSatisfied I \<longleftrightarrow>
     (case ai_mode I of
        StatusMode \<Rightarrow> True
      | SubmissionMode \<Rightarrow> (\<exists>c. ai_candidate I = Some c \<and> isRecognizedAssuranceRole (rv_reviewerRole c)
            \<and> rv_reviewerRole c \<in> set (run_requiredReviewers (ai_run I))
            \<and> run_currentChangeDigest (ai_run I) = Some (rv_changeDigest c))
      | FinalizeMode \<Rightarrow> (\<forall>role\<in>set (run_requiredReviewers (ai_run I)) - {[]}.
            \<exists>r\<in>set (currentApprovals I). rv_reviewerRole r = role))"

lemma set_sortedNonEmpty [simp]: "set (sortedNonEmpty H xs) = set xs - {[]}"
  by (auto simp: sortedNonEmpty_def)

lemma recognized_nonempty: "isRecognizedAssuranceRole r \<Longrightarrow> r \<noteq> []"
  by (auto simp: isRecognizedAssuranceRole_def ASSURANCE_ROLES_def)

lemma run_blockers_iff: "runBlockers H I = [] \<longleftrightarrow> runReady H I"
  by (auto simp: runBlockers_def runReady_def Let_def list_ex_iff)

lemma gate_blockers_iff: "gateBlockers I = [] \<longleftrightarrow> gatesClean I"
  by (auto simp: gateBlockers_def gatesClean_def) (metis evidenceStatus.exhaust)+

lemma refs_prefix:
  "reviewReferencesAreCurrent I r evidence \<Longrightarrow>
     list_ex (\<lambda>ref. \<not> starts_with (runEvidencePrefix (ai_run I)) ref) (rv_evidenceRefs r) = False"
  by (auto simp: reviewReferencesAreCurrent_def list_all_iff list_ex_iff evidenceRef_def)

lemma severe_iff: "hasSevereFinding r \<longleftrightarrow> reviewHasSeverity SevHigh r \<or> reviewHasSeverity SevCritical r"
  by (auto simp: hasSevereFinding_def reviewHasSeverity_def list_ex_iff)

lemma refs_current_iff:
  "reviewReferencesAreCurrent I r evidence \<longleftrightarrow> set (rv_evidenceRefs r) \<subseteq> evidenceRef (ai_run I) ` set evidence"
  by (auto simp: reviewReferencesAreCurrent_def list_all_iff)

lemma review_blockers_iff:
  assumes "reviewIdentityMatches I r"
  shows "isRecognizedAssuranceRole (rv_reviewerRole r) \<and> reviewBlockers H I r = [] \<longleftrightarrow> reviewSound I r"
proof -
  have negative: "\<not> ((rv_verdict r = VerdictBlocked \<or> rv_verdict r = CorrectionNeeded) \<and> rv_findings r = []
        \<and> (case rv_reasonCodes r of None \<Rightarrow> True | Some cs \<Rightarrow> cs = [])) \<longleftrightarrow>
      (rv_verdict r = Approved \<or> rv_findings r \<noteq> [] \<or> (\<exists>cs. rv_reasonCodes r = Some cs \<and> cs \<noteq> []))"
    by (cases "rv_verdict r"; cases "rv_reasonCodes r") auto
  show ?thesis
  proof (cases "reviewReferencesAreCurrent I r (currentEvidence I)")
    case True
    then show ?thesis
      using assms recognized_nonempty [of "rv_reviewerRole r"]
      unfolding reviewBlockers_def reviewSound_def Let_def append_is_Nil_conv reasonIf_Nil negative severe_iff
        refs_prefix [OF True]
      by (auto simp: refs_current_iff truthy_iff)
  next
    case False
    then show ?thesis
      by (auto simp: reviewBlockers_def reviewSound_def Let_def refs_current_iff)
  qed
qed

lemma approval_blockers_iff: "approvalBlockers I r = [] \<longleftrightarrow> ai_mode I = StatusMode \<or> approvalProven I r"
  by (auto simp: approvalBlockers_def approvalProven_def Let_def)

lemma current_reviews_identity: "r \<in> set (currentReviews I) \<Longrightarrow> reviewIdentityMatches I r"
  by (auto simp: currentReviews_def)

lemma approvals_current:
  assumes "\<forall>r\<in>set (currentReviews I). isRecognizedAssuranceRole (rv_reviewerRole r)"
  shows "approvalsIn (currentReviews I) = currentApprovals I"
  unfolding approvalsIn_def currentApprovals_def using assms by (auto intro: filter_cong)

lemma loop_blockers_iff: "lo_blockers (reviewLoopOf H I) = [] \<longleftrightarrow> reviewsClean I"
proof (cases "\<forall>r\<in>set (currentReviews I). isRecognizedAssuranceRole (rv_reviewerRole r)")
  case True
  have "(\<forall>r\<in>set (currentReviews I). isRecognizedAssuranceRole (rv_reviewerRole r) \<and> reviewBlockers H I r = [])
      \<longleftrightarrow> (\<forall>r\<in>set (currentReviews I). reviewSound I r)"
    using review_blockers_iff current_reviews_identity by blast
  then show ?thesis
    unfolding reviewLoop_blockers loopClean_def reviewsClean_def approvals_current [OF True] approval_blockers_iff
    by blast
next
  case False
  then show ?thesis
    unfolding reviewLoop_blockers loopClean_def reviewsClean_def by (auto simp: reviewSound_def)
qed

lemma satisfied_roles_iff:
  assumes "reviewsClean I"
  shows "role \<in> set (satisfiedRolesOf H I) \<longleftrightarrow> role \<in> set (run_requiredReviewers (ai_run I)) - {[]}
     \<and> (\<exists>r\<in>set (currentApprovals I). rv_reviewerRole r = role)"
proof -
  have "approvalsIn (currentReviews I) = currentApprovals I"
    using assms by (intro approvals_current) (auto simp: reviewsClean_def reviewSound_def)
  then show ?thesis by (auto simp: satisfiedRolesOf_def reviewLoop_approvals filter_empty_conv)
qed

lemma finalize_blockers_iff:
  assumes "reviewsClean I"
  shows "finalizeBlockers H I = [] \<and> candidateIsValid H I \<longleftrightarrow> modeSatisfied I"
proof -
  have first: "(case lo_approvals (reviewLoopOf H I) role of [] \<Rightarrow> []
      | r # _ \<Rightarrow> reasonIf (rv_verdict r \<noteq> Approved) REVIEW_NOT_APPROVED (Some role)) = []" for role
  proof (cases "lo_approvals (reviewLoopOf H I) role")
    case (Cons r rs)
    then have "r \<in> set (approvalsIn (currentReviews I))"
      by (metis filter_is_subset list.set_intros(1) reviewLoop_approvals subsetD)
    then show ?thesis using Cons by (simp add: approvalsIn_def)
  qed simp
  show ?thesis
    unfolding finalizeBlockers_def candidateIsValid_def modeSatisfied_def Let_def first
    using recognized_nonempty
    by (cases "ai_mode I")
      (auto simp: satisfied_roles_iff [OF assms] filter_empty_conv split: option.splits)
qed

lemma policy_allowed_iff:
  "ar_allowed (evaluateAssurancePolicy H I) \<longleftrightarrow> runReady H I \<and> gatesClean I \<and> reviewsClean I \<and> modeSatisfied I"
  using finalize_blockers_iff [of I H]
  by (auto simp: evaluateAssurancePolicy_def Let_def assuranceBlockers_def run_blockers_iff gate_blockers_iff
      loop_blockers_iff)

lemma finalize_approvals:
  assumes "ar_allowed (evaluateAssurancePolicy H I)" "ai_mode I = FinalizeMode"
    and "role \<in> set (run_requiredReviewers (ai_run I))" "role \<noteq> []"
  shows "\<exists>r\<in>set (currentApprovals I). rv_reviewerRole r = role \<and> approvalProven I r"
  using assms by (auto simp: policy_allowed_iff modeSatisfied_def reviewsClean_def)

lemma covered_once_find:
  assumes "obligationIsCoveredOnce p b"
  obtains c where "c \<in> set (spl_coveredObligations p)" "oc_obligationId c = ob_obligationId b"
    "find (\<lambda>c. oc_obligationId c = ob_obligationId b) (spl_coveredObligations p) = Some c"
proof -
  obtain c where "filter (\<lambda>c. oc_obligationId c = ob_obligationId b) (spl_coveredObligations p) = [c]"
    using assms by (auto simp: obligationIsCoveredOnce_def split: list.splits)
  then have "c \<in> set (filter (\<lambda>c. oc_obligationId c = ob_obligationId b) (spl_coveredObligations p))"
    by simp
  then have "c \<in> set (spl_coveredObligations p)" "oc_obligationId c = ob_obligationId b"
    by simp_all
  moreover from this obtain d where
    "find (\<lambda>c. oc_obligationId c = ob_obligationId b) (spl_coveredObligations p) = Some d"
    by (metis (mono_tags, lifting) find_None_iff not_None_eq)
  ultimately show ?thesis using that by (metis (mono_tags, lifting) find_Some_iff nth_mem)
qed

lemma migration_gate_cover:
  assumes "q \<in> set BUILTIN_SPECIALIST_PROFILES" "profileCoversSpecialistObligation q b"
    and "ob_kind b = GateOb" "ob_gateId b = Some ''database-migration''"
  shows "sp_specialistId q = ''database-specialist''"
proof -
  have "\<exists>d. lookupGate ''database-migration'' = Some d"
    by (simp add: lookupGate_def GATE_REGISTRY_def gate_constructors)
  moreover have "GATE_REQUIREMENTS ''database-migration''
      = Some (requirement [DatabaseFn] False [''migration and rollback evidence''])"
    by (simp add: GATE_REQUIREMENTS_def GATE_REQUIREMENT_TABLE_def)
  ultimately have "DatabaseFn \<in> set (sp_functions q)"
    using assms(2,3,4)
    by (auto simp: profileCoversSpecialistObligation_def coversGateObligation_def or_empty_def
        hasRequiredFunction_def requirement_def split: if_splits)
  then show ?thesis using assms(1) builtin_migration_cover by blast
qed

section \<open>Properties\<close>

text \<open>C8: the evaluation allows exactly the inputs that meet the specification: run and bindings
  ready, gates clean, every current review sound, approvals proven and unique by role and session,
  and the condition of the mode (an approval per required role when a run is finalized).\<close>

theorem assurance_policy_refines_spec:
  "ar_allowed (evaluateAssurancePolicy H I) = (runReady H I \<and> gatesClean I \<and> reviewsClean I \<and> modeSatisfied I)"
  by (rule policy_allowed_iff)

text \<open>C9: when a run may be finalized, every required reviewer role has an approval of the current
  digest, given in a session of its own that is neither the implementer's nor that of another
  role's approval, with no HIGH or CRITICAL finding, and every gate that is not a review gate is
  PASS.\<close>

theorem assurance_finalize_independent:
  assumes "ar_allowed (evaluateAssurancePolicy H I)" "ai_mode I = FinalizeMode"
  shows "(\<forall>role\<in>set (run_requiredReviewers (ai_run I)) - {[]}. \<exists>r\<in>set (currentApprovals I).
       rv_reviewerRole r = role \<and> Some (rv_changeDigest r) = run_currentChangeDigest (ai_run I)
       \<and> rv_reviewSessionId r \<noteq> [] \<and> Some (rv_reviewSessionId r) \<noteq> run_implementerSessionId (ai_run I)
       \<and> \<not> hasSevereFinding r
       \<and> (\<forall>r'\<in>set (currentApprovals I). rv_reviewSessionId r' = rv_reviewSessionId r \<longrightarrow> r' = r))
    \<and> (\<forall>s\<in>set (ai_gateStates I). \<not> isReviewGate (gs_gateId s) \<longrightarrow> gs_status s = GatePass)"
proof (intro conjI ballI)
  have clean: "reviewsClean I" and gates: "gatesClean I"
    using assms(1) by (simp_all add: policy_allowed_iff)
  fix role assume "role \<in> set (run_requiredReviewers (ai_run I)) - {[]}"
  then obtain r where r: "r \<in> set (currentApprovals I)" "rv_reviewerRole r = role"
    using finalize_approvals [OF assms] by blast
  then have cur: "r \<in> set (currentReviews I)" "rv_verdict r = Approved"
    by (auto simp: currentApprovals_def)
  then have sound: "reviewSound I r" "reviewIdentityMatches I r"
    using clean by (auto simp: reviewsClean_def currentReviews_def)
  have "\<forall>r'\<in>set (currentApprovals I). rv_reviewSessionId r' = rv_reviewSessionId r \<longrightarrow> r' = r"
    using clean r(1) by (auto simp: reviewsClean_def distinct_map dest: inj_onD)
  then show "\<exists>r\<in>set (currentApprovals I).
       rv_reviewerRole r = role \<and> Some (rv_changeDigest r) = run_currentChangeDigest (ai_run I)
       \<and> rv_reviewSessionId r \<noteq> [] \<and> Some (rv_reviewSessionId r) \<noteq> run_implementerSessionId (ai_run I)
       \<and> \<not> hasSevereFinding r
       \<and> (\<forall>r'\<in>set (currentApprovals I). rv_reviewSessionId r' = rv_reviewSessionId r \<longrightarrow> r' = r)"
    using r cur sound by (auto simp: reviewSound_def reviewIdentityMatches_def intro!: bexI [of _ r])
next
  fix s assume "s \<in> set (ai_gateStates I)"
  then show "\<not> isReviewGate (gs_gateId s) \<longrightarrow> gs_status s = GatePass"
    using assms(1) by (auto simp: policy_allowed_iff gatesClean_def)
qed

definition demoAssurance :: assurancePolicyInput where
  "demoAssurance =
    \<lparr>ai_mode = FinalizeMode, ai_projectId = ''p_1'', ai_workOrder = demoWorkOrder, ai_run = demoRun,
     ai_gateStates = [gateWith ''build'' GatePass (Some ''ev_1'')], ai_evidence = [demoEvidence],
     ai_reviews = [demoReview], ai_candidate = None,
     ai_specialistSelectionPlan = Some (demoPlan plain_host)\<rparr>"

lemma demo_plan_valid: "typedSelectionPlanIsValid plain_host demoAssurance"
proof -
  have known: "lookupGate ''build'' = Some (commandGate ''build'' ''gate:build'' ''compile/build'')"
    by (simp add: lookupGate_def GATE_REGISTRY_def gate_constructors)
  have "typedPlanDigestIsValid plain_host (demoPlan plain_host)"
    by (simp add: typedPlanDigestIsValid_def demoPlan_digest)
  then show ?thesis
    by (simp add: typedSelectionPlanIsValid_def demoAssurance_def demo_defs
        requiredObligationsAreWellFormed_def isKnownGateId_iff known findObligation_def
        coverageItemIsValid_def obligationIsCoveredOnce_def or_empty_def gate_constructors)
qed

lemma demo_allowed: "ar_allowed (evaluateAssurancePolicy plain_host demoAssurance)"
proof -
  have known: "isKnownGateId ''build''"
    by (simp add: isKnownGateId_def GATE_REGISTRY_def gate_constructors)
  have cur: "currentReviews demoAssurance = [demoReview]"
    by (simp add: currentReviews_def demoAssurance_def reviewIdentityMatches_def demo_defs)
  have ready: "runReady plain_host demoAssurance"
    unfolding runReady_def Let_def
    by (intro conjI demo_plan_valid)
      (simp_all add: demoAssurance_def demo_defs isRecognizedAssuranceRole_def ASSURANCE_ROLES_def
        sameSet_def sortedNonEmpty_def known)
  have gates: "gatesClean demoAssurance"
    by (simp add: gatesClean_def demoAssurance_def currentEvidence_def evidenceIdentityMatches_def demo_defs)
  have approved: "currentApprovals demoAssurance = [demoReview]"
    by (simp add: currentApprovals_def cur demoReview_def)
  have sound: "reviewSound demoAssurance demoReview"
    by (simp add: reviewSound_def demoAssurance_def demo_defs isRecognizedAssuranceRole_def
        ASSURANCE_ROLES_def hasSevereFinding_def)
  have proven: "approvalProven demoAssurance demoReview"
    by (simp add: approvalProven_def roleGateIsSufficient_def hasRelevantEvidence_def demo_defs
        assuranceRoleToGates_def typedRoleObligations_def demoAssurance_def)
  have mode: "modeSatisfied demoAssurance"
    unfolding modeSatisfied_def approved by (simp add: demoAssurance_def demoRun_def demoReview_def)
  have reviews: "reviewsClean demoAssurance"
    using sound proven by (simp add: reviewsClean_def cur approved)
  show ?thesis
    unfolding policy_allowed_iff using ready gates reviews mode by blast
qed

lemma assurance_finalize_independent_witness:
  "\<exists>r\<in>set (currentApprovals demoAssurance). rv_reviewerRole r = ''independent-reviewer''
     \<and> rv_reviewSessionId r \<noteq> [] \<and> Some (rv_reviewSessionId r) \<noteq> Some ''s_impl''"
proof -
  have "ai_mode demoAssurance = FinalizeMode" by (simp add: demoAssurance_def)
  note all = assurance_finalize_independent [OF demo_allowed this, THEN conjunct1]
  have "''independent-reviewer'' \<in> set (run_requiredReviewers (ai_run demoAssurance)) - {[]}"
    by (simp add: demoAssurance_def demoRun_def)
  from bspec [OF all this] show ?thesis by (auto simp: demoAssurance_def demoRun_def)
qed

text \<open>C30: a run that has to pass the database-migration gate and needs the reliability reviewer can
  never be finalized when its plan is covered by the built-in profiles. The reliability role lists
  the migration gate among its own, the migration obligation can only be covered by the database
  specialist, and an approval counts only if the role itself covers every gate it lists.\<close>

theorem reliability_migration_deadlock:
  assumes "ai_mode I = FinalizeMode" "ai_specialistSelectionPlan I = Some p"
    and "''database-migration'' \<in> set (run_selectedGates (ai_run I))"
    and "''reliability-reviewer'' \<in> set (run_requiredReviewers (ai_run I))"
    and "\<forall>c\<in>set (spl_coveredObligations p). \<forall>b\<in>set (spl_requiredObligations p).
      oc_obligationId c = ob_obligationId b \<longrightarrow>
      (\<exists>q\<in>set BUILTIN_SPECIALIST_PROFILES. sp_specialistId q = oc_specialistId c
         \<and> profileCoversSpecialistObligation q b)"
  shows "\<not> ar_allowed (evaluateAssurancePolicy H I)"
proof
  let ?role = "''reliability-reviewer''"
  assume allowed: "ar_allowed (evaluateAssurancePolicy H I)"
  then have valid: "typedSelectionPlanIsValid H I"
    by (auto simp: policy_allowed_iff runReady_def Let_def)
  obtain b where b: "b \<in> set (spl_requiredObligations p)" "ob_kind b = GateOb"
      "ob_gateId b = Some ''database-migration''"
    using valid assms(2,3) by (auto simp: typedSelectionPlanIsValid_def list_all_iff list_ex_iff)
  have once: "obligationIsCoveredOnce p b"
    using valid assms(2) b(1) by (auto simp: typedSelectionPlanIsValid_def list_all_iff)
  obtain c where c: "c \<in> set (spl_coveredObligations p)" "oc_obligationId c = ob_obligationId b"
      "find (\<lambda>c. oc_obligationId c = ob_obligationId b) (spl_coveredObligations p) = Some c"
    by (rule covered_once_find [OF once])
  have "oc_specialistId c = ''database-specialist''"
    using assms(5) b c(1,2) migration_gate_cover by metis
  then have fails: "\<not> roleObligationHolds I p ?role b"
    by (simp add: roleObligationHolds_def c(3))
  have mine: "b \<in> set (typedRoleObligations I ?role)"
    using b by (auto simp: typedRoleObligations_def assms(2) assuranceRoleToGates_def)
  have "\<not> hasRelevantEvidence I ?role"
    using fails mine by (auto simp: hasRelevantEvidence_def assms(2) list_all_iff)
  moreover obtain r where "approvalProven I r" "rv_reviewerRole r = ?role"
    using finalize_approvals [OF allowed assms(1,4)] by auto
  ultimately show False by (simp add: approvalProven_def)
qed

definition migrationObligation :: specialistObligation where
  "migrationObligation = gateObligation plain_host ''database-migration''"

definition migrationCoverage :: obligationCoverage where
  "migrationCoverage = \<lparr>oc_obligationId = ob_obligationId migrationObligation,
     oc_gateId = ob_gateId migrationObligation, oc_evidenceId = ob_evidenceId migrationObligation,
     oc_specialistId = ''database-specialist'', oc_reasonCode = ''GATE_REQUIRES_SPECIALIST'',
     oc_coverageKind = GateOb\<rparr>"

definition migrationPlan :: specialistSelectionPlan where
  "migrationPlan = demoPlanBase\<lparr>spl_requiredObligations := [migrationObligation],
     spl_coveredObligations := [migrationCoverage]\<rparr>"

definition demoMigration :: assurancePolicyInput where
  "demoMigration = demoAssurance\<lparr>ai_specialistSelectionPlan := Some migrationPlan,
     ai_run := demoRun\<lparr>run_selectedGates := [''database-migration''],
       run_requiredReviewers := [''independent-reviewer'', ''reliability-reviewer'']\<rparr>\<rparr>"

lemma database_specialist_covers_migration:
  "\<exists>q\<in>set BUILTIN_SPECIALIST_PROFILES. sp_specialistId q = ''database-specialist''
     \<and> profileCoversSpecialistObligation q migrationObligation"
proof -
  have "list_ex (\<lambda>q. sp_specialistId q = ''database-specialist''
     \<and> profileCoversSpecialistObligation q migrationObligation) BUILTIN_SPECIALIST_PROFILES"
    by code_simp
  then show ?thesis by (auto simp: list_ex_iff)
qed

lemma reliability_migration_deadlock_witness:
  "\<not> ar_allowed (evaluateAssurancePolicy plain_host demoMigration)"
proof (rule reliability_migration_deadlock)
  show "ai_mode demoMigration = FinalizeMode" "ai_specialistSelectionPlan demoMigration = Some migrationPlan"
    "''database-migration'' \<in> set (run_selectedGates (ai_run demoMigration))"
    "''reliability-reviewer'' \<in> set (run_requiredReviewers (ai_run demoMigration))"
    by (simp_all add: demoMigration_def demoAssurance_def)
  show "\<forall>c\<in>set (spl_coveredObligations migrationPlan). \<forall>b\<in>set (spl_requiredObligations migrationPlan).
      oc_obligationId c = ob_obligationId b \<longrightarrow>
      (\<exists>q\<in>set BUILTIN_SPECIALIST_PROFILES. sp_specialistId q = oc_specialistId c
         \<and> profileCoversSpecialistObligation q b)"
    using database_specialist_covers_migration by (simp add: migrationPlan_def migrationCoverage_def)
qed

end
