(* ===== verification/Cost_Types.thy ===== *)
theory Cost_Types
  imports Kernel_Types
begin

text \<open>
  The data model of \<^verbatim>\<open>src/kernel/cost-types.ts\<close> and the pure part of the cost governor
  (\<^verbatim>\<open>src/kernel/cost-governor.ts\<close>): the budget test, the counters, the quality-per-token
  snapshot. The literal field \<open>tokenEstimateMethod\<close> is left out. Quotients are exact rationals
  here; the program's are IEEE doubles.
\<close>

datatype budgetStatus = BudgetOk | SoftWarning | HardBlocked
datatype governorOutcome = AllowOutcome | WarnOutcome | BlockOutcome | ReuseOutcome
datatype independentReviewState = ReviewPending | ReviewSatisfied | ReviewNotRequired

definition outcome_text :: "governorOutcome \<Rightarrow> string" where
  "outcome_text x = (case x of AllowOutcome \<Rightarrow> ''allow'' | WarnOutcome \<Rightarrow> ''warn''
     | BlockOutcome \<Rightarrow> ''block'' | ReuseOutcome \<Rightarrow> ''reuse'')"

definition capability_text :: "capabilityClass \<Rightarrow> string" where
  "capability_text c = (case c of Economy \<Rightarrow> ''economy'' | Balanced \<Rightarrow> ''balanced''
     | Strong \<Rightarrow> ''strong'' | Critical \<Rightarrow> ''critical'')"

record costLedger =
  cl_projectId :: string
  cl_workOrderId :: "string option"
  cl_executionRunId :: "string option"
  cl_estimatedContextTokens :: int
  cl_estimatedDiagnosticTokens :: int
  cl_contextExpansions :: int
  cl_c5Uses :: int
  cl_toolExecutions :: int
  cl_gateExecutions :: int
  cl_gateCacheHits :: int
  cl_gateCacheMisses :: int
  cl_evidenceReuseCount :: int
  cl_avoidedToolExecutions :: int
  cl_fullRepositoryScans :: int
  cl_agentCallsReported :: "int option"
  cl_modelCapabilityClass :: "string option"
  cl_softBudget :: "int option"
  cl_hardBudget :: "int option"
  cl_budgetStatus :: budgetStatus
  cl_updatedAt :: string

record costDecision =
  kd_costDecisionId :: string
  kd_projectId :: string
  kd_workOrderId :: "string option"
  kd_executionRunId :: "string option"
  kd_outcome :: governorOutcome
  kd_reasonCodes :: "string list"
  kd_subject :: string
  kd_createdAt :: string

record qptSnapshot =
  qp_projectId :: string
  qp_requiredGatesTotal :: int
  qp_requiredGatesSatisfiedCurrent :: int
  qp_verifiedQualityCoverage :: rat
  qp_requiredIndependentReview :: independentReviewState
  qp_estimatedContextTokens :: int
  qp_toolExecutions :: int
  qp_gateExecutions :: int
  qp_gateCacheHits :: int
  qp_gateCacheMisses :: int
  qp_avoidedWorkCount :: int
  qp_contextRadius :: "string option"
  qp_budgetUtilization :: "rat option"
  qp_qptRatio :: rat
  qp_qptFormula :: string
  qp_limitations :: "string list"
  qp_estimatedDiagnosticTokens :: int
  qp_updatedAt :: string

definition QPT_FORMULA :: string where
  "QPT_FORMULA = ''verifiedQualityCoverage / max(1, estimatedContextTokens/1000)''"

definition QPT_LIMITATIONS :: "string list" where
  "QPT_LIMITATIONS =
    [''byte-heuristic estimates only; not provider tokenizer counts'',
     ''not a financial cost, latency, or billing score'',
     ''agentCallsReported stays null unless the host reports them'',
     ''estimatedDiagnosticTokens is tracked separately and is not part of the QPT denominator'']"

section \<open>Budget test\<close>

definition evaluateTokenBudget :: "int \<Rightarrow> int option \<Rightarrow> int option \<Rightarrow> budgetStatus" where
  "evaluateTokenBudget estimated soft hard =
     (if (case hard of None \<Rightarrow> False | Some h \<Rightarrow> h < estimated) then HardBlocked
      else if (case soft of None \<Rightarrow> False | Some s \<Rightarrow> s < estimated) then SoftWarning
      else BudgetOk)"

lemma budget_blocked_iff:
  "evaluateTokenBudget e soft hard = HardBlocked \<longleftrightarrow> (\<exists>h. hard = Some h \<and> h < e)"
  by (cases hard) (auto simp: evaluateTokenBudget_def)

lemma budget_ok_iff:
  "evaluateTokenBudget e soft hard = BudgetOk \<longleftrightarrow>
     (\<forall>h. hard = Some h \<longrightarrow> e \<le> h) \<and> (\<forall>s. soft = Some s \<longrightarrow> e \<le> s)"
  by (cases hard; cases soft) (auto simp: evaluateTokenBudget_def)

section \<open>Counters\<close>

datatype counterKey =
    EstimatedContextTokens | EstimatedDiagnosticTokens | ContextExpansions | C5Uses | ToolExecutions
  | GateExecutions | GateCacheHits | GateCacheMisses | EvidenceReuseCount | AvoidedToolExecutions
  | FullRepositoryScans

definition COUNTER_KEYS :: "counterKey list" where
  "COUNTER_KEYS =
    [EstimatedContextTokens, EstimatedDiagnosticTokens, ContextExpansions, C5Uses, ToolExecutions,
     GateExecutions, GateCacheHits, GateCacheMisses, EvidenceReuseCount, AvoidedToolExecutions,
     FullRepositoryScans]"

fun counter :: "counterKey \<Rightarrow> costLedger \<Rightarrow> int" where
  "counter EstimatedContextTokens l = cl_estimatedContextTokens l"
| "counter EstimatedDiagnosticTokens l = cl_estimatedDiagnosticTokens l"
| "counter ContextExpansions l = cl_contextExpansions l"
| "counter C5Uses l = cl_c5Uses l"
| "counter ToolExecutions l = cl_toolExecutions l"
| "counter GateExecutions l = cl_gateExecutions l"
| "counter GateCacheHits l = cl_gateCacheHits l"
| "counter GateCacheMisses l = cl_gateCacheMisses l"
| "counter EvidenceReuseCount l = cl_evidenceReuseCount l"
| "counter AvoidedToolExecutions l = cl_avoidedToolExecutions l"
| "counter FullRepositoryScans l = cl_fullRepositoryScans l"

fun set_counter :: "counterKey \<Rightarrow> int \<Rightarrow> costLedger \<Rightarrow> costLedger" where
  "set_counter EstimatedContextTokens v l = l\<lparr>cl_estimatedContextTokens := v\<rparr>"
| "set_counter EstimatedDiagnosticTokens v l = l\<lparr>cl_estimatedDiagnosticTokens := v\<rparr>"
| "set_counter ContextExpansions v l = l\<lparr>cl_contextExpansions := v\<rparr>"
| "set_counter C5Uses v l = l\<lparr>cl_c5Uses := v\<rparr>"
| "set_counter ToolExecutions v l = l\<lparr>cl_toolExecutions := v\<rparr>"
| "set_counter GateExecutions v l = l\<lparr>cl_gateExecutions := v\<rparr>"
| "set_counter GateCacheHits v l = l\<lparr>cl_gateCacheHits := v\<rparr>"
| "set_counter GateCacheMisses v l = l\<lparr>cl_gateCacheMisses := v\<rparr>"
| "set_counter EvidenceReuseCount v l = l\<lparr>cl_evidenceReuseCount := v\<rparr>"
| "set_counter AvoidedToolExecutions v l = l\<lparr>cl_avoidedToolExecutions := v\<rparr>"
| "set_counter FullRepositoryScans v l = l\<lparr>cl_fullRepositoryScans := v\<rparr>"

lemma counter_set [simp]: "counter k (set_counter j v l) = (if k = j then v else counter k l)"
  by (cases k; cases j) simp_all

lemma set_counter_frame [simp]:
  "cl_projectId (set_counter k v l) = cl_projectId l"
  "cl_budgetStatus (set_counter k v l) = cl_budgetStatus l"
  "cl_hardBudget (set_counter k v l) = cl_hardBudget l"
  "cl_softBudget (set_counter k v l) = cl_softBudget l"
  "cl_workOrderId (set_counter k v l) = cl_workOrderId l"
  "cl_executionRunId (set_counter k v l) = cl_executionRunId l"
  by (cases k; simp)+

text \<open>
  The patch an increment builds: every counter that has a delta is set to the current value plus
  the delta. A partial object of deltas is a partial function from the keys.
\<close>

definition counterPatch :: "costLedger \<Rightarrow> (counterKey \<Rightarrow> int option) \<Rightarrow> costLedger \<Rightarrow> costLedger" where
  "counterPatch current deltas target =
     foldl (\<lambda>l k. case deltas k of None \<Rightarrow> l | Some d \<Rightarrow> set_counter k (counter k current + d) l)
       target COUNTER_KEYS"

lemma COUNTER_KEYS_all [simp]: "k \<in> set COUNTER_KEYS"
  by (cases k) (simp_all add: COUNTER_KEYS_def)

lemma distinct_COUNTER_KEYS: "distinct COUNTER_KEYS"
  by (simp add: COUNTER_KEYS_def)

lemma foldl_counter:
  assumes "distinct ks"
  shows "counter k (foldl (\<lambda>l k. case deltas k of None \<Rightarrow> l | Some d \<Rightarrow> set_counter k (f k + d) l) l ks)
     = (if k \<in> set ks then (case deltas k of None \<Rightarrow> counter k l | Some d \<Rightarrow> f k + d) else counter k l)"
  using assms by (induction ks arbitrary: l) (auto split: option.split)

lemma counter_counterPatch:
  "counter k (counterPatch current deltas target)
     = (case deltas k of None \<Rightarrow> counter k target | Some d \<Rightarrow> counter k current + d)"
  unfolding counterPatch_def foldl_counter [OF distinct_COUNTER_KEYS] by simp

lemma counterPatch_frame [simp]:
  "cl_projectId (counterPatch c ds l) = cl_projectId l"
  "cl_hardBudget (counterPatch c ds l) = cl_hardBudget l"
  "cl_softBudget (counterPatch c ds l) = cl_softBudget l"
  "cl_budgetStatus (counterPatch c ds l) = cl_budgetStatus l"
proof -
  have "cl_projectId (foldl (\<lambda>l k. case ds k of None \<Rightarrow> l | Some d \<Rightarrow> set_counter k (counter k c + d) l) l ks)
      = cl_projectId l \<and>
    cl_hardBudget (foldl (\<lambda>l k. case ds k of None \<Rightarrow> l | Some d \<Rightarrow> set_counter k (counter k c + d) l) l ks)
      = cl_hardBudget l \<and>
    cl_softBudget (foldl (\<lambda>l k. case ds k of None \<Rightarrow> l | Some d \<Rightarrow> set_counter k (counter k c + d) l) l ks)
      = cl_softBudget l \<and>
    cl_budgetStatus (foldl (\<lambda>l k. case ds k of None \<Rightarrow> l | Some d \<Rightarrow> set_counter k (counter k c + d) l) l ks)
      = cl_budgetStatus l" for ks
    by (induction ks arbitrary: l) (auto split: option.split)
  then show "cl_projectId (counterPatch c ds l) = cl_projectId l"
    "cl_hardBudget (counterPatch c ds l) = cl_hardBudget l"
    "cl_softBudget (counterPatch c ds l) = cl_softBudget l"
    "cl_budgetStatus (counterPatch c ds l) = cl_budgetStatus l"
    by (simp_all add: counterPatch_def)
qed

section \<open>Quality per token\<close>

definition buildQptSnapshot ::
  "string \<Rightarrow> string \<Rightarrow> int \<Rightarrow> int \<Rightarrow> independentReviewState \<Rightarrow> costLedger \<Rightarrow> string option \<Rightarrow> qptSnapshot" where
  "buildQptSnapshot now projectId required satisfied review ledger radius =
    (let coverage = (if required \<le> 0 then 0 else rat_of_int satisfied / rat_of_int required);
         denom = max 1 (rat_of_int (cl_estimatedContextTokens ledger) / 1000);
         utilization = (case cl_hardBudget ledger of None \<Rightarrow> None
           | Some h \<Rightarrow> if h > 0 then Some (rat_of_int (cl_estimatedContextTokens ledger) / rat_of_int h) else None)
     in \<lparr>qp_projectId = projectId, qp_requiredGatesTotal = required,
         qp_requiredGatesSatisfiedCurrent = satisfied, qp_verifiedQualityCoverage = coverage,
         qp_requiredIndependentReview = review,
         qp_estimatedContextTokens = cl_estimatedContextTokens ledger,
         qp_toolExecutions = cl_toolExecutions ledger, qp_gateExecutions = cl_gateExecutions ledger,
         qp_gateCacheHits = cl_gateCacheHits ledger, qp_gateCacheMisses = cl_gateCacheMisses ledger,
         qp_avoidedWorkCount = cl_avoidedToolExecutions ledger + cl_evidenceReuseCount ledger,
         qp_contextRadius = radius, qp_budgetUtilization = utilization,
         qp_qptRatio = coverage / denom, qp_qptFormula = QPT_FORMULA,
         qp_limitations = QPT_LIMITATIONS,
         qp_estimatedDiagnosticTokens = cl_estimatedDiagnosticTokens ledger, qp_updatedAt = now\<rparr>)"

text \<open>The quality-per-token ratio is a value between 0 and the verified coverage, which is
  itself at most 1, whenever no more gates are satisfied than are required; the budget utilization
  exceeds 1 exactly when the hard budget is exceeded.\<close>

theorem qpt_snapshot_bounds:
  assumes "0 \<le> satisfied" "satisfied \<le> required"
    and "q = buildQptSnapshot now p required satisfied review ledger radius"
  shows "0 \<le> qp_qptRatio q \<and> qp_qptRatio q \<le> qp_verifiedQualityCoverage q
    \<and> qp_verifiedQualityCoverage q \<le> 1
    \<and> (\<forall>u. qp_budgetUtilization q = Some u \<longrightarrow>
         (u > 1 \<longleftrightarrow> evaluateTokenBudget (cl_estimatedContextTokens ledger) (cl_softBudget ledger)
            (cl_hardBudget ledger) = HardBlocked))"
proof -
  let ?cov = "(if required \<le> 0 then 0 else rat_of_int satisfied / rat_of_int required)"
  let ?den = "max 1 (rat_of_int (cl_estimatedContextTokens ledger) / 1000)"
  have cov: "0 \<le> ?cov" "?cov \<le> 1" using assms(1,2) by (auto simp: divide_le_eq)
  have den: "1 \<le> ?den" by simp
  have ratio: "0 \<le> ?cov / ?den" "?cov / ?den \<le> ?cov"
  proof -
    show "0 \<le> ?cov / ?den" using cov(1) den by (intro divide_nonneg_pos) linarith+
    have "?cov / ?den \<le> ?cov / 1" using cov(1) den by (intro divide_left_mono) auto
    then show "?cov / ?den \<le> ?cov" by simp
  qed
  have util: "u > 1 \<longleftrightarrow> evaluateTokenBudget (cl_estimatedContextTokens ledger) (cl_softBudget ledger)
      (cl_hardBudget ledger) = HardBlocked"
    if "qp_budgetUtilization q = Some u" for u
    using that unfolding assms(3) budget_blocked_iff
    by (auto simp: buildQptSnapshot_def Let_def less_divide_eq split: option.splits if_splits)
  have "qp_qptRatio q = ?cov / ?den" "qp_verifiedQualityCoverage q = ?cov"
    by (simp_all add: assms(3) buildQptSnapshot_def Let_def)
  then show ?thesis using cov ratio util by auto
qed

definition demoLedger :: costLedger where
  "demoLedger =
    \<lparr>cl_projectId = ''p_1'', cl_workOrderId = None, cl_executionRunId = None, cl_estimatedContextTokens = 3000,
     cl_estimatedDiagnosticTokens = 0, cl_contextExpansions = 0, cl_c5Uses = 0, cl_toolExecutions = 0,
     cl_gateExecutions = 0, cl_gateCacheHits = 0, cl_gateCacheMisses = 0, cl_evidenceReuseCount = 0,
     cl_avoidedToolExecutions = 0, cl_fullRepositoryScans = 0, cl_agentCallsReported = None,
     cl_modelCapabilityClass = None, cl_softBudget = None, cl_hardBudget = Some 2000,
     cl_budgetStatus = BudgetOk, cl_updatedAt = ''t''\<rparr>"

lemma qpt_snapshot_bounds_witness:
  "qp_budgetUtilization (buildQptSnapshot ''t'' ''p_1'' 2 1 ReviewPending demoLedger None) = Some (3/2)
     \<and> evaluateTokenBudget 3000 None (Some 2000) = HardBlocked
     \<and> qp_qptRatio (buildQptSnapshot ''t'' ''p_1'' 2 1 ReviewPending demoLedger None) \<le> 1"
proof -
  let ?q = "buildQptSnapshot ''t'' ''p_1'' 2 1 ReviewPending demoLedger None"
  have u: "qp_budgetUtilization ?q = Some (3/2)" by (simp add: buildQptSnapshot_def demoLedger_def Let_def)
  have l: "cl_estimatedContextTokens demoLedger = 3000" "cl_softBudget demoLedger = None" "cl_hardBudget demoLedger = Some 2000"
    by (simp_all add: demoLedger_def)
  have "(0::int) \<le> 1" "(1::int) \<le> 2" by simp_all
  note bounds = qpt_snapshot_bounds [OF this refl, of "''t''" "''p_1''" ReviewPending demoLedger None]
  then have "evaluateTokenBudget 3000 None (Some 2000) = HardBlocked" using u unfolding l by fastforce
  moreover have "qp_qptRatio ?q \<le> 1" using bounds by linarith
  ultimately show ?thesis using u by blast
qed

end
