(* ===== verification/Intelligence_Types.thy ===== *)
theory Intelligence_Types
  imports Kernel_Types
begin

text \<open>
  The data model of \<^verbatim>\<open>src/kernel/intelligence-types.ts\<close>: the project index, its dependency
  graph, test and interface maps, impact reports and context packs. Confidence values are exact
  rationals.
\<close>

datatype indexMode = FullBuild | IncrementalUpdate | ReusedIndex
datatype indexConfidence = HighConfidence | ReducedConfidence
datatype fileKind = SourceFile | TestFile | SchemaFile | ConfigFile | DocsFile | ManifestFile | BinaryFile
datatype edgeType =
    ImportsEdge | RequiresEdge | DynamicImportEdge | TestOfEdge | ConfiguresEdge | DocumentsEdge
  | InterfaceReferenceEdge | ManifestReferenceEdge
datatype impactRelation =
  DirectImpact | DependencyImpact | DependentImpact | TestImpact | InterfaceImpact
  | DocumentationImpact | ConfigImpact
datatype contextLayer = StaticLayer | SemiStableLayer | DynamicLayer
datatype contextRole = ImplementationCtx | TestCtx | ReviewCtx | SecurityCtx | DocsCtx | ConfigCtx | ContractCtx

record repoIdentity =
  ri_gitAvailable :: bool
  ri_gitHead :: "string option"
  ri_dirtyDigest :: string

record indexedFileRecord =
  if_path :: string
  if_contentDigest :: string
  if_kind :: fileKind
  if_language :: "string option"
  if_bytes :: nat
  if_hasExportBoundary :: bool

record graphNode =
  gn_path :: string
  gn_kind :: fileKind
  gn_contentDigest :: string

record graphEdge =
  ge_type :: edgeType
  ge_source :: string
  ge_target :: string
  ge_method :: string
  ge_confidence :: rat
  ge_evidence :: string
  ge_line :: "nat option"
  ge_sourceDigest :: string

record unresolvedReference =
  ur_source :: string
  ur_specifier :: string
  ur_reason :: string
  ur_method :: string
  ur_confidence :: rat
  ur_line :: "nat option"
  ur_sourceDigest :: string

record indexState =
  is_projectId :: string
  is_indexDigest :: string
  is_extractorVersion :: string
  is_engineVersion :: string
  is_generatedAt :: string
  is_updatedAt :: string
  is_gitHead :: "string option"
  is_dirtyDigest :: string
  is_gitAvailable :: bool
  is_mode :: indexMode
  is_confidence :: indexConfidence
  is_stale :: bool
  is_staleReason :: "string option"
  is_filesConsidered :: nat
  is_filesParsed :: nat
  is_filesReused :: nat
  is_filesRemoved :: nat
  is_unresolvedCount :: nat
  is_nodeCount :: nat
  is_edgeCount :: nat
  is_complete :: bool
  is_truncated :: bool
  is_truncationReason :: "string option"
  is_files :: "indexedFileRecord list"

record dependencyGraph =
  dg_projectId :: string
  dg_indexDigest :: string
  dg_generatedAt :: string
  dg_extractorVersion :: string
  dg_nodes :: "graphNode list"
  dg_edges :: "graphEdge list"
  dg_unresolved :: "unresolvedReference list"

record testRelation =
  tr_test :: string
  tr_source :: string
  tr_method :: string
  tr_confidence :: rat
  tr_evidence :: string

record interfaceContract =
  ic_path :: string
  ic_kind :: string
  ic_evidence :: string
  ic_confidence :: rat

record impactItem =
  im_path :: string
  im_relation :: impactRelation
  im_reason :: string
  im_confidence :: rat
  im_hops :: nat

record impactReport =
  ip_impactReportId :: string
  ip_projectId :: string
  ip_workOrderId :: "string option"
  ip_executionRunId :: "string option"
  ip_indexDigest :: string
  ip_gitHead :: "string option"
  ip_dirtyDigest :: string
  ip_generatedAt :: string
  ip_contextRadius :: contextRadius
  ip_seeds :: "string list"
  ip_inScopeCandidates :: "impactItem list"
  ip_supportingContext :: "impactItem list"
  ip_possibleImpact :: "impactItem list"
  ip_excluded :: "(string \<times> string) list"
  ip_unresolved :: "unresolvedReference list"
  ip_stale :: bool
  ip_indexConfidence :: indexConfidence

record contextPackItem =
  ck_path :: string
  ck_role :: contextRole
  ck_relation :: impactRelation
  ck_reason :: string
  ck_confidence :: rat
  ck_contentDigest :: string
  ck_estimatedTokens :: nat
  ck_layer :: contextLayer

text \<open>An expansion of the radius: from, to, reason, time.\<close>

type_synonym packExpansion = "string \<times> string \<times> string \<times> string"

record contextPack =
  cx_contextPackId :: string
  cx_projectId :: string
  cx_workOrderId :: "string option"
  cx_executionRunId :: "string option"
  cx_impactReportId :: string
  cx_indexDigest :: string
  cx_gitHead :: "string option"
  cx_dirtyDigest :: string
  cx_generatedAt :: string
  cx_contextRadius :: contextRadius
  cx_objective :: "string option"
  cx_estimatedTokens :: nat
  cx_items :: "contextPackItem list"
  cx_focusedTests :: "string list"
  cx_contracts :: "string list"
  cx_docs :: "string list"
  cx_unresolved :: "unresolvedReference list"
  cx_excludedSummary :: "(string \<times> string) list"
  cx_expansionHistory :: "packExpansion list"
  cx_staticLayerDigest :: string
  cx_semiStableLayerDigest :: string
  cx_dynamicLayerDigest :: string

record indexBundle =
  ib_state :: indexState
  ib_graph :: dependencyGraph
  ib_tests :: "testRelation list"
  ib_interfaces :: "interfaceContract list"

text \<open>The digest of a file of the index.\<close>

definition fileDigestOf :: "indexBundle \<Rightarrow> string \<Rightarrow> string option" where
  "fileDigestOf b p = map_option if_contentDigest (find (\<lambda>f. if_path f = p) (is_files (ib_state b)))"

end
