(* ===== verification/Sidecar_Store.thy ===== *)
theory Sidecar_Store
  imports Gate_States Cost_Types Intelligence_Types
begin

text \<open>
  The sidecar workspace as the kernel reads and writes it (\<^verbatim>\<open>src/kernel/persist.ts\<close>,
  \<^verbatim>\<open>execution-persist.ts\<close>, \<^verbatim>\<open>execution-integrity.ts\<close>, \<^verbatim>\<open>src/lib/atomic-write.ts\<close>,
  \<^verbatim>\<open>src/lib/safe-persist.ts\<close>). A JSON file is missing, unreadable or parsed; a
  directory is the list of its entries in listing order. Every value is sanitized before it is
  written; the literals of closed unions are not changed by the redactor, the strings are. A
  JSON schema check is a predicate of the system record, because the schemas are compiled by a
  third-party validator; the text of its messages is not modelled.
\<close>

datatype 'a artifact = Missing | Unreadable string | Parsed 'a

record currentPointer =
  cu_executionRunId :: string
  cu_updatedAt :: string

section \<open>Stores\<close>

record costStore =
  ks_ledger :: "costLedger artifact"
  ks_qpt :: "qptSnapshot artifact"
  ks_decisions :: "(string \<times> costDecision artifact) list"

record planStore =
  ps_workOrders :: "(string \<times> workOrder artifact) list"
  ps_decisions :: "(string \<times> routingDecision artifact) list"
  ps_checkpoints :: "(string \<times> checkpoint artifact) list"
  ps_currentState :: "checkpoint artifact"
  ps_contextPlan :: "contextPlan artifact"

record runStore =
  rn_run :: "executionRun artifact"
  rn_packet :: "executionPacket artifact"
  rn_evidence :: "(string \<times> evidenceRecord artifact) list"
  rn_reviews :: "(string \<times> reviewRecord artifact) list"
  rn_reviewPacket :: "reviewPacket artifact"
  rn_outputs :: "(string \<times> string) list"

record cacheStore =
  kc_index :: "evidenceCacheIndex artifact"
  kc_evidence :: "(string \<times> evidenceCacheRecord artifact) list"
  kc_decisions :: "(string \<times> cacheDecision artifact) list"

record sidecar =
  sc_cost :: costStore
  sc_plan :: planStore
  sc_runs :: "(string \<times> runStore) list"
  sc_pointer :: "currentPointer artifact"
  sc_cache :: cacheStore

record sys = host +
  okLedger :: "costLedger \<Rightarrow> bool"
  okCostDecision :: "costDecision \<Rightarrow> bool"
  okQpt :: "qptSnapshot \<Rightarrow> bool"
  okWorkOrder :: "workOrder \<Rightarrow> bool"
  okRouting :: "routingDecision \<Rightarrow> bool"
  okCheckpoint :: "checkpoint \<Rightarrow> bool"
  okRun :: "executionRun \<Rightarrow> bool"
  okPacket :: "executionPacket \<Rightarrow> bool"
  okEvidence :: "evidenceRecord \<Rightarrow> bool"
  okReview :: "reviewRecord \<Rightarrow> bool"
  okReviewPacket :: "reviewPacket \<Rightarrow> bool"
  okCacheRecord :: "evidenceCacheRecord \<Rightarrow> bool"
  okCacheDecision :: "cacheDecision \<Rightarrow> bool"

type_synonym 'a op = "(sidecar, uadsError, 'a) step"

section \<open>Directories and identifiers\<close>

text \<open>A write replaces the entry of that name or adds it.\<close>

fun write_entry :: "string \<Rightarrow> 'a \<Rightarrow> (string \<times> 'a) list \<Rightarrow> (string \<times> 'a) list" where
  "write_entry n v [] = [(n, v)]"
| "write_entry n v (e # es) = (if fst e = n then (n, v) # es else e # write_entry n v es)"

definition read_entry :: "string \<Rightarrow> (string \<times> 'a artifact) list \<Rightarrow> 'a artifact" where
  "read_entry n es = (case map_of es n of None \<Rightarrow> Missing | Some a \<Rightarrow> a)"

lemma map_of_write_entry [simp]: "map_of (write_entry n v es) = (map_of es)(n \<mapsto> v)"
  by (induction es) auto

lemma read_write_entry [simp]:
  "read_entry m (write_entry n (Parsed v) es) = (if m = n then Parsed v else read_entry m es)"
  by (simp add: read_entry_def)

lemma write_entry_names: "fst ` set (write_entry n v es) = insert n (fst ` set es)"
  by (induction es) auto

lemma write_entry_distinct: "distinct (map fst es) \<Longrightarrow> distinct (map fst (write_entry n v es))"
proof (induction es)
  case (Cons e es)
  then show ?case using write_entry_names [of n v es] by auto
qed simp

definition is_safe_char :: "char \<Rightarrow> bool" where
  "is_safe_char c \<longleftrightarrow> (let n = of_char c :: nat
     in (65 \<le> n \<and> n \<le> 90) \<or> (97 \<le> n \<and> n \<le> 122) \<or> (48 \<le> n \<and> n \<le> 57) \<or> n = 46 \<or> n = 95 \<or> n = 45)"

text \<open>The test on the bits of a character, for evaluation.\<close>

lemma is_safe_char_bits [code]:
  "is_safe_char (Char b0 b1 b2 b3 b4 b5 b6 b7) \<longleftrightarrow> \<not> b7 \<and>
     (b6 \<and> (b0 \<or> b1 \<or> b2 \<or> b3 \<or> b4) \<and> \<not> (b4 \<and> b3 \<and> (b2 \<or> b1 \<and> b0))
      \<or> b6 \<and> \<not> b5 \<and> b4 \<and> b3 \<and> b2 \<and> b1 \<and> b0
      \<or> \<not> b6 \<and> b5 \<and> b4 \<and> (\<not> b3 \<or> \<not> b2 \<and> \<not> b1)
      \<or> \<not> b6 \<and> b5 \<and> \<not> b4 \<and> b3 \<and> b2 \<and> b1 \<noteq> b0)"
  by (cases b0; cases b1; cases b2; cases b3; cases b4; cases b5; cases b6; cases b7; simp add: is_safe_char_def)

text \<open>\<open>/^[A-Za-z0-9._-]+$/\<close>\<close>

definition isSafeSidecarId :: "string \<Rightarrow> bool" where
  "isSafeSidecarId i \<longleftrightarrow> i \<noteq> [] \<and> list_all is_safe_char i"

definition assertSafeSidecarId :: "string \<Rightarrow> uadsError + unit" where
  "assertSafeSidecarId i =
     (if isSafeSidecarId i then Inr () else Inl (PlainError ''unsafe sidecar identifier''))"

definition jsonName :: "string \<Rightarrow> string" where
  "jsonName i = i @ ''.json''"

lemma jsonName_inj [simp]: "jsonName a = jsonName b \<longleftrightarrow> a = b"
  by (simp add: jsonName_def)

text \<open>
  \<open>executionRunPaths\<close>: the directory of a run is the identifier resolved below the run directory;
  of the identifiers that pass the character test only \<^verbatim>\<open>..\<close> and names starting with it
  are outside by \<open>isPathInside\<close>.
\<close>

definition runPathCheck :: "string \<Rightarrow> uadsError + unit" where
  "runPathCheck i =
     (if \<not> isSafeSidecarId i then Inl (PlainError ''unsafe sidecar identifier'')
      else if starts_with ''..'' i then Inl (PlainError ''execution-run path escape rejected'')
      else Inr ())"

definition schemaError :: "string \<Rightarrow> string" where
  "schemaError name = name @ '' validation failed''"

definition assertSchema :: "string \<Rightarrow> bool \<Rightarrow> ('s, uadsError, unit) step" where
  "assertSchema name ok = guardE ok (PlainError (schemaError name))"

section \<open>Sanitizing\<close>

definition sanList :: "'h host_scheme \<Rightarrow> string list \<Rightarrow> string list" where
  "sanList H xs = map (sanitizeOperationalText H) xs"

definition sanOpt :: "'h host_scheme \<Rightarrow> string option \<Rightarrow> string option" where
  "sanOpt H v = map_option (sanitizeOperationalText H) v"

definition sanValues :: "'h host_scheme \<Rightarrow> (string \<times> string) list \<Rightarrow> (string \<times> string) list" where
  "sanValues H kvs = map (\<lambda>kv. (fst kv, sanitizeOperationalText H (snd kv))) kvs"

definition sanitizeLedger :: "'h host_scheme \<Rightarrow> costLedger \<Rightarrow> costLedger" where
  "sanitizeLedger H l = (let S = sanitizeOperationalText H in
     l\<lparr>cl_projectId := S (cl_projectId l), cl_workOrderId := sanOpt H (cl_workOrderId l),
       cl_executionRunId := sanOpt H (cl_executionRunId l),
       cl_modelCapabilityClass := sanOpt H (cl_modelCapabilityClass l), cl_updatedAt := S (cl_updatedAt l)\<rparr>)"

definition sanitizeCostDecision :: "'h host_scheme \<Rightarrow> costDecision \<Rightarrow> costDecision" where
  "sanitizeCostDecision H d = (let S = sanitizeOperationalText H in
     d\<lparr>kd_costDecisionId := S (kd_costDecisionId d), kd_projectId := S (kd_projectId d),
       kd_workOrderId := sanOpt H (kd_workOrderId d), kd_executionRunId := sanOpt H (kd_executionRunId d),
       kd_reasonCodes := sanList H (kd_reasonCodes d), kd_subject := S (kd_subject d),
       kd_createdAt := S (kd_createdAt d)\<rparr>)"

definition sanitizeQpt :: "'h host_scheme \<Rightarrow> qptSnapshot \<Rightarrow> qptSnapshot" where
  "sanitizeQpt H q = (let S = sanitizeOperationalText H in
     q\<lparr>qp_projectId := S (qp_projectId q), qp_contextRadius := sanOpt H (qp_contextRadius q),
       qp_qptFormula := S (qp_qptFormula q), qp_limitations := sanList H (qp_limitations q),
       qp_updatedAt := S (qp_updatedAt q)\<rparr>)"

definition sanitizeCheckpoint :: "'h host_scheme \<Rightarrow> checkpoint \<Rightarrow> checkpoint" where
  "sanitizeCheckpoint H c = (let S = sanitizeOperationalText H in
     c\<lparr>cp_checkpointId := S (cp_checkpointId c), cp_projectId := S (cp_projectId c),
       cp_workOrderId := sanOpt H (cp_workOrderId c), cp_routingDecisionId := sanOpt H (cp_routingDecisionId c),
       cp_createdAt := S (cp_createdAt c), cp_updatedAt := S (cp_updatedAt c),
       cp_completedSteps := sanList H (cp_completedSteps c), cp_nextAction := S (cp_nextAction c),
       cp_blockers := sanList H (cp_blockers c), cp_evidenceRefs := sanList H (cp_evidenceRefs c),
       cp_repositoryMapDigest := sanOpt H (cp_repositoryMapDigest c),
       cp_contextPlanRef := sanOpt H (cp_contextPlanRef c), cp_resumeCursor := S (cp_resumeCursor c)\<rparr>)"

definition sanitizeContextPlan :: "'h host_scheme \<Rightarrow> contextPlan \<Rightarrow> contextPlan" where
  "sanitizeContextPlan H p =
     p\<lparr>pl_reason := sanitizeOperationalText H (pl_reason p),
       pl_candidateAreas := sanList H (pl_candidateAreas p),
       pl_reusableArtifacts := sanList H (pl_reusableArtifacts p),
       pl_contextPackId := sanOpt H (pl_contextPackId p),
       pl_impactReportId := sanOpt H (pl_impactReportId p), pl_indexDigest := sanOpt H (pl_indexDigest p)\<rparr>"

definition sanitizeModelBinding :: "'h host_scheme \<Rightarrow> modelBinding \<Rightarrow> modelBinding" where
  "sanitizeModelBinding H m =
     m\<lparr>mo_modelPlanId := sanOpt H (mo_modelPlanId m), mo_selectedProfileId := sanOpt H (mo_selectedProfileId m),
       mo_selectedProviderId := sanOpt H (mo_selectedProviderId m),
       mo_selectedModelId := sanOpt H (mo_selectedModelId m)\<rparr>"

definition sanitizeViolation :: "'h host_scheme \<Rightarrow> scopeViolation \<Rightarrow> scopeViolation" where
  "sanitizeViolation H v =
     v\<lparr>sv_path := sanitizeOperationalText H (sv_path v), sv_reason := sanitizeOperationalText H (sv_reason v)\<rparr>"

definition sanitizeExpansion :: "'h host_scheme \<Rightarrow> contextExpansion \<Rightarrow> contextExpansion" where
  "sanitizeExpansion H x =
     x\<lparr>ce_reason := sanitizeOperationalText H (ce_reason x), ce_at := sanitizeOperationalText H (ce_at x)\<rparr>"

definition sanitizeRun :: "'h host_scheme \<Rightarrow> executionRun \<Rightarrow> executionRun" where
  "sanitizeRun H r = (let S = sanitizeOperationalText H in
     r\<lparr>run_executionRunId := S (run_executionRunId r), run_projectId := S (run_projectId r),
       run_workOrderId := S (run_workOrderId r), run_routingDecisionId := S (run_routingDecisionId r),
       run_createdAt := S (run_createdAt r), run_updatedAt := S (run_updatedAt r),
       run_baseline := (run_baseline r)\<lparr>bl_gitHead := sanOpt H (bl_gitHead (run_baseline r)),
          bl_capturedAt := S (bl_capturedAt (run_baseline r))\<rparr>,
       run_contextCandidates := sanList H (run_contextCandidates r),
       run_implementerRole := S (run_implementerRole r),
       run_implementerSessionId := sanOpt H (run_implementerSessionId r),
       run_requiredReviewers := sanList H (run_requiredReviewers r),
       run_selectedGates := sanList H (run_selectedGates r),
       run_currentChangeDigest := sanOpt H (run_currentChangeDigest r),
       run_reviewedChangeDigest := sanOpt H (run_reviewedChangeDigest r),
       run_changedFiles := sanList H (run_changedFiles r),
       run_scopeViolations := map (sanitizeViolation H) (run_scopeViolations r),
       run_evidenceRefs := sanList H (run_evidenceRefs r), run_reviewRefs := sanList H (run_reviewRefs r),
       run_blockers := sanList H (run_blockers r), run_nextAction := S (run_nextAction r),
       run_expansionHistory := map (sanitizeExpansion H) (run_expansionHistory r),
       run_contextPackId := sanOpt H (run_contextPackId r),
       run_impactReportId := sanOpt H (run_impactReportId r),
       run_indexDigest := sanOpt H (run_indexDigest r),
       run_model := sanitizeModelBinding H (run_model r)\<rparr>)"

definition sanitizeAssignment :: "'h host_scheme \<Rightarrow> specialistAssignment \<Rightarrow> specialistAssignment" where
  "sanitizeAssignment H a = (let S = sanitizeOperationalText H in
     a\<lparr>as_specialistId := S (as_specialistId a), as_role := S (as_role a), as_objective := S (as_objective a),
       as_coveredDomains := sanList H (as_coveredDomains a),
       as_relevantAffectedAreas := sanList H (as_relevantAffectedAreas a),
       as_relevantFiles := sanList H (as_relevantFiles a), as_relevantGates := sanList H (as_relevantGates a),
       as_evidenceObligations := sanList H (as_evidenceObligations a),
       as_forbiddenScope := sanList H (as_forbiddenScope a)\<rparr>)"

definition sanitizePacket :: "'h host_scheme \<Rightarrow> executionPacket \<Rightarrow> executionPacket" where
  "sanitizePacket H p = (let S = sanitizeOperationalText H in
     p\<lparr>pk_executionRunId := S (pk_executionRunId p), pk_workOrderId := S (pk_workOrderId p),
       pk_objective := S (pk_objective p), pk_includedScope := sanList H (pk_includedScope p),
       pk_outOfScope := sanList H (pk_outOfScope p), pk_domains := sanList H (pk_domains p),
       pk_contextCandidates := sanList H (pk_contextCandidates p), pk_specialists := sanList H (pk_specialists p),
       pk_assuranceReviewers := sanList H (pk_assuranceReviewers p),
       pk_specialistSelectionPlanId := sanOpt H (pk_specialistSelectionPlanId p),
       pk_specialistSelectionDigest := sanOpt H (pk_specialistSelectionDigest p),
       pk_specialistAssignments := map_option (map (sanitizeAssignment H)) (pk_specialistAssignments p),
       pk_selectedGates := sanList H (pk_selectedGates p), pk_acceptanceCriteria := sanList H (pk_acceptanceCriteria p),
       pk_requiredEvidence := sanList H (pk_requiredEvidence p),
       pk_safeAutonomousActions := sanList H (pk_safeAutonomousActions p),
       pk_approvalGatedActions := sanList H (pk_approvalGatedActions p),
       pk_stopConditions := sanList H (pk_stopConditions p), pk_baselineGitHead := sanOpt H (pk_baselineGitHead p),
       pk_nextAction := S (pk_nextAction p), pk_contextPackId := sanOpt H (pk_contextPackId p),
       pk_impactReportId := sanOpt H (pk_impactReportId p), pk_indexDigest := sanOpt H (pk_indexDigest p),
       pk_model := sanitizeModelBinding H (pk_model p)\<rparr>)"

definition sanitizeEvidence :: "'h host_scheme \<Rightarrow> evidenceRecord \<Rightarrow> evidenceRecord" where
  "sanitizeEvidence H r = (let S = sanitizeOperationalText H in
     r\<lparr>ev_evidenceId := S (ev_evidenceId r), ev_projectId := S (ev_projectId r),
       ev_workOrderId := S (ev_workOrderId r), ev_executionRunId := S (ev_executionRunId r),
       ev_changeDigest := S (ev_changeDigest r), ev_gateId := S (ev_gateId r),
       ev_sourceRole := S (ev_sourceRole r), ev_createdAt := S (ev_createdAt r), ev_summary := S (ev_summary r),
       ev_command := sanOpt H (ev_command r), ev_outputRef := sanOpt H (ev_outputRef r),
       ev_outputDigest := sanOpt H (ev_outputDigest r), ev_fileRef := sanOpt H (ev_fileRef r),
       ev_fileDigest := sanOpt H (ev_fileDigest r), ev_sourceCacheRecordId := sanOpt H (ev_sourceCacheRecordId r),
       ev_sourceEvidenceId := sanOpt H (ev_sourceEvidenceId r), ev_cacheDecisionId := sanOpt H (ev_cacheDecisionId r),
       ev_reuseProofDigest := sanOpt H (ev_reuseProofDigest r),
       ev_gateReuseContractIdentity := sanOpt H (ev_gateReuseContractIdentity r)\<rparr>)"

definition sanitizeFinding :: "'h host_scheme \<Rightarrow> reviewFinding \<Rightarrow> reviewFinding" where
  "sanitizeFinding H f =
     f\<lparr>rf_category := sanitizeOperationalText H (rf_category f), rf_message := sanitizeOperationalText H (rf_message f)\<rparr>"

definition sanitizeReview :: "'h host_scheme \<Rightarrow> reviewRecord \<Rightarrow> reviewRecord" where
  "sanitizeReview H r = (let S = sanitizeOperationalText H in
     r\<lparr>rv_reviewId := S (rv_reviewId r), rv_projectId := S (rv_projectId r), rv_workOrderId := S (rv_workOrderId r),
       rv_executionRunId := S (rv_executionRunId r), rv_changeDigest := S (rv_changeDigest r),
       rv_reviewerRole := S (rv_reviewerRole r), rv_reviewSessionId := S (rv_reviewSessionId r),
       rv_implementerRole := S (rv_implementerRole r), rv_implementerSessionId := S (rv_implementerSessionId r),
       rv_summary := S (rv_summary r), rv_findings := map (sanitizeFinding H) (rv_findings r),
       rv_reasonCodes := map_option (sanList H) (rv_reasonCodes r),
       rv_evidenceRefs := sanList H (rv_evidenceRefs r), rv_createdAt := S (rv_createdAt r)\<rparr>)"

definition sanitizeReviewPacket :: "'h host_scheme \<Rightarrow> reviewPacket \<Rightarrow> reviewPacket" where
  "sanitizeReviewPacket H p = (let S = sanitizeOperationalText H in
     p\<lparr>rp_executionRunId := S (rp_executionRunId p), rp_workOrderId := S (rp_workOrderId p),
       rp_objective := S (rp_objective p), rp_acceptanceCriteria := sanList H (rp_acceptanceCriteria p),
       rp_includedScope := sanList H (rp_includedScope p), rp_outOfScope := sanList H (rp_outOfScope p),
       rp_changedFiles := sanList H (rp_changedFiles p), rp_changeDigest := S (rp_changeDigest p),
       rp_gateStates := map (\<lambda>gs. (S (fst gs), snd gs)) (rp_gateStates p),
       rp_evidenceRefs := sanList H (rp_evidenceRefs p), rp_requiredReviewers := sanList H (rp_requiredReviewers p),
       rp_roleToGateMapping := map (\<lambda>rg. (fst rg, sanList H (snd rg))) (rp_roleToGateMapping p),
       rp_requiredEvidenceObligations := sanList H (rp_requiredEvidenceObligations p),
       rp_unresolvedBlockers := sanList H (rp_unresolvedBlockers p), rp_doNotImplement := sanList H (rp_doNotImplement p),
       rp_independentReviewInvariant := S (rp_independentReviewInvariant p), rp_nextAction := S (rp_nextAction p)\<rparr>)"

definition sanitizeCacheRecord :: "'h host_scheme \<Rightarrow> evidenceCacheRecord \<Rightarrow> evidenceCacheRecord" where
  "sanitizeCacheRecord H r = (let S = sanitizeOperationalText H in
     r\<lparr>cr_cacheRecordId := S (cr_cacheRecordId r), cr_projectId := S (cr_projectId r),
       cr_originatingWorkOrderId := S (cr_originatingWorkOrderId r),
       cr_originatingExecutionRunId := S (cr_originatingExecutionRunId r), cr_gateId := S (cr_gateId r),
       cr_evidenceId := S (cr_evidenceId r), cr_originatingChangeDigest := S (cr_originatingChangeDigest r),
       cr_command := sanOpt H (cr_command r), cr_gateReuseContractIdentity := S (cr_gateReuseContractIdentity r),
       cr_reuseProofDigest := S (cr_reuseProofDigest r), cr_toolIdentity := sanValues H (cr_toolIdentity r),
       cr_environmentIdentity := sanOpt H (cr_environmentIdentity r),
       cr_validityBasisPaths := sanList H (cr_validityBasisPaths r),
       cr_validityBasisDigests := sanValues H (cr_validityBasisDigests r),
       cr_manifestDigests := sanValues H (cr_manifestDigests r), cr_indexDigest := S (cr_indexDigest r),
       cr_policyIdentity := S (cr_policyIdentity r), cr_outputDigest := sanOpt H (cr_outputDigest r),
       cr_fileDigest := sanOpt H (cr_fileDigest r), cr_createdAt := S (cr_createdAt r),
       cr_invalidationReason := sanOpt H (cr_invalidationReason r)\<rparr>)"

definition sanitizeCacheDecision :: "'h host_scheme \<Rightarrow> cacheDecision \<Rightarrow> cacheDecision" where
  "sanitizeCacheDecision H d = (let S = sanitizeOperationalText H in
     d\<lparr>cd_cacheDecisionId := S (cd_cacheDecisionId d), cd_projectId := S (cd_projectId d),
       cd_workOrderId := sanOpt H (cd_workOrderId d), cd_executionRunId := sanOpt H (cd_executionRunId d),
       cd_gateId := S (cd_gateId d), cd_candidateCacheRecordId := sanOpt H (cd_candidateCacheRecordId d),
       cd_reasonCodes := sanList H (cd_reasonCodes d),
       cd_changedValidityInputs := sanList H (cd_changedValidityInputs d),
       cd_liveChangeDigest := sanOpt H (cd_liveChangeDigest d), cd_indexDigest := sanOpt H (cd_indexDigest d),
       cd_gateReuseContractIdentity := sanOpt H (cd_gateReuseContractIdentity d),
       cd_reuseProofDigest := sanOpt H (cd_reuseProofDigest d), cd_createdAt := S (cd_createdAt d)\<rparr>)"

definition sanitizeCacheIndex :: "'h host_scheme \<Rightarrow> evidenceCacheIndex \<Rightarrow> evidenceCacheIndex" where
  "sanitizeCacheIndex H x = (let S = sanitizeOperationalText H in
     x\<lparr>ix_projectId := S (ix_projectId x), ix_updatedAt := S (ix_updatedAt x),
       ix_records := map (\<lambda>e. e\<lparr>ci_cacheRecordId := S (ci_cacheRecordId e), ci_gateId := S (ci_gateId e)\<rparr>)
         (ix_records x)\<rparr>)"

definition sanitizeBinding :: "'h host_scheme \<Rightarrow> specialistBinding \<Rightarrow> specialistBinding" where
  "sanitizeBinding H b =
     b\<lparr>sb_selectionPlanId := sanOpt H (sb_selectionPlanId b), sb_selectionDigest := sanOpt H (sb_selectionDigest b),
       sb_registryDigest := sanOpt H (sb_registryDigest b), sb_policyDigest := sanOpt H (sb_policyDigest b),
       sb_changeDigest := sanOpt H (sb_changeDigest b), sb_impactDigest := sanOpt H (sb_impactDigest b),
       sb_gateContractDigest := sanOpt H (sb_gateContractDigest b),
       sb_riskSignals := map_option (sanList H) (sb_riskSignals b)\<rparr>"

definition sanitizeIdReasons :: "'h host_scheme \<Rightarrow> idReason list \<Rightarrow> idReason list" where
  "sanitizeIdReasons H xs = map (\<lambda>x. x\<lparr>ir_id := sanitizeOperationalText H (ir_id x),
     ir_reason := sanitizeOperationalText H (ir_reason x)\<rparr>) xs"

definition sanitizeRouting :: "'h host_scheme \<Rightarrow> routingDecision \<Rightarrow> routingDecision" where
  "sanitizeRouting H d = (let S = sanitizeOperationalText H in
     d\<lparr>rd_routingDecisionId := S (rd_routingDecisionId d), rd_projectId := S (rd_projectId d),
       rd_createdAt := S (rd_createdAt d), rd_scopeReasons := sanList H (rd_scopeReasons d),
       rd_riskReasons := sanList H (rd_riskReasons d), rd_domains := sanitizeIdReasons H (rd_domains d),
       rd_specialists := sanList H (rd_specialists d),
       rd_assuranceSpecialists := sanList H (rd_assuranceSpecialists d),
       rd_binding := sanitizeBinding H (rd_binding d), rd_gates := sanitizeIdReasons H (rd_gates d),
       rd_contextReason := S (rd_contextReason d), rd_orderConstraints := sanList H (rd_orderConstraints d),
       rd_stopConditions := sanList H (rd_stopConditions d), rd_warnings := sanList H (rd_warnings d)\<rparr>)"

definition sanitizeWorkOrder :: "'h host_scheme \<Rightarrow> workOrder \<Rightarrow> workOrder" where
  "sanitizeWorkOrder H w = (let S = sanitizeOperationalText H in
     w\<lparr>wo_workOrderId := S (wo_workOrderId w), wo_projectId := S (wo_projectId w), wo_title := S (wo_title w),
       wo_objective := S (wo_objective w), wo_createdAt := S (wo_createdAt w), wo_updatedAt := S (wo_updatedAt w),
       wo_intakeRef := S (wo_intakeRef w), wo_routingDecisionId := S (wo_routingDecisionId w),
       wo_includedScope := sanList H (wo_includedScope w), wo_outOfScope := sanList H (wo_outOfScope w),
       wo_recommendations := sanList H (wo_recommendations w), wo_riskReasons := sanList H (wo_riskReasons w),
       wo_constraints := sanList H (wo_constraints w), wo_requestedArtifacts := sanList H (wo_requestedArtifacts w),
       wo_destructiveSignals := sanList H (wo_destructiveSignals w), wo_domains := sanList H (wo_domains w),
       wo_affectedAreas := sanList H (wo_affectedAreas w), wo_specialists := sanList H (wo_specialists w),
       wo_assuranceReviewers := sanList H (wo_assuranceReviewers w), wo_binding := sanitizeBinding H (wo_binding w),
       wo_specialistAssignments := map_option (map (sanitizeAssignment H)) (wo_specialistAssignments w),
       wo_qualityGates := sanList H (wo_qualityGates w),
       wo_tokenBudget := (wo_tokenBudget w)\<lparr>tb_expansionPolicy := S (tb_expansionPolicy (wo_tokenBudget w))\<rparr>,
       wo_dependencies := sanList H (wo_dependencies w), wo_acceptanceCriteria := sanList H (wo_acceptanceCriteria w),
       wo_requiredEvidence := sanList H (wo_requiredEvidence w), wo_stopConditions := sanList H (wo_stopConditions w),
       wo_autonomyBoundary := (wo_autonomyBoundary w)
         \<lparr>ab_safeAutonomous := sanList H (ab_safeAutonomous (wo_autonomyBoundary w)),
          ab_requiresApproval := sanList H (ab_requiresApproval (wo_autonomyBoundary w))\<rparr>,
       wo_nextAction := S (wo_nextAction w)\<rparr>)"

section \<open>A concrete system, for the witnesses\<close>

definition plain_sys :: sys where
  "plain_sys =
     \<lparr>localeCompare = localeCompare plain_host, sha256Hex = sha256Hex plain_host,
      sanitizeOperationalText = sanitizeOperationalText plain_host,
      okLedger = (\<lambda>_. True), okCostDecision = (\<lambda>_. True), okQpt = (\<lambda>_. True), okWorkOrder = (\<lambda>_. True),
      okRouting = (\<lambda>_. True), okCheckpoint = (\<lambda>_. True), okRun = (\<lambda>_. True), okPacket = (\<lambda>_. True),
      okEvidence = (\<lambda>_. True), okReview = (\<lambda>_. True), okReviewPacket = (\<lambda>_. True),
      okCacheRecord = (\<lambda>_. True), okCacheDecision = (\<lambda>_. True)\<rparr>"

definition emptySidecar :: sidecar where
  "emptySidecar =
     \<lparr>sc_cost = \<lparr>ks_ledger = Missing, ks_qpt = Missing, ks_decisions = []\<rparr>,
      sc_plan = \<lparr>ps_workOrders = [], ps_decisions = [], ps_checkpoints = [], ps_currentState = Missing,
        ps_contextPlan = Missing\<rparr>,
      sc_runs = [], sc_pointer = Missing,
      sc_cache = \<lparr>kc_index = Missing, kc_evidence = [], kc_decisions = []\<rparr>\<rparr>"

end
