(* ===== verification/Sidecar_Persist.thy ===== *)
theory Sidecar_Persist
  imports Sidecar_Store Demo_State
begin

text \<open>
  Reads and writes of plans and execution artifacts (\<^verbatim>\<open>src/kernel/persist.ts\<close>,
  \<^verbatim>\<open>execution-persist.ts\<close>, \<^verbatim>\<open>execution-integrity.ts\<close>). A write may throw
  on its schema check before or after an earlier file of the same operation was written, and the
  files written before the throw stay.
\<close>

section \<open>Access to the run directories\<close>

definition emptyRunStore :: runStore where
  "emptyRunStore = \<lparr>rn_run = Missing, rn_packet = Missing, rn_evidence = [], rn_reviews = [],
     rn_reviewPacket = Missing, rn_outputs = []\<rparr>"

definition runStoreOf :: "string \<Rightarrow> sidecar \<Rightarrow> runStore" where
  "runStoreOf i s = (case map_of (sc_runs s) i of None \<Rightarrow> emptyRunStore | Some r \<Rightarrow> r)"

definition updateRunStore :: "string \<Rightarrow> (runStore \<Rightarrow> runStore) \<Rightarrow> sidecar \<Rightarrow> sidecar" where
  "updateRunStore i f s = s\<lparr>sc_runs := write_entry i (f (runStoreOf i s)) (sc_runs s)\<rparr>"

lemma runStoreOf_update [simp]:
  "runStoreOf j (updateRunStore i f s) = (if j = i then f (runStoreOf i s) else runStoreOf j s)"
  by (simp add: runStoreOf_def updateRunStore_def)

lemma updateRunStore_frame [simp]:
  "sc_cost (updateRunStore i f s) = sc_cost s" "sc_plan (updateRunStore i f s) = sc_plan s"
  "sc_pointer (updateRunStore i f s) = sc_pointer s" "sc_cache (updateRunStore i f s) = sc_cache s"
  by (simp_all add: updateRunStore_def)

lemma runStoreOf_frame [simp]:
  "runStoreOf i (s\<lparr>sc_pointer := p\<rparr>) = runStoreOf i s" "runStoreOf i (s\<lparr>sc_cost := c\<rparr>) = runStoreOf i s"
  "runStoreOf i (s\<lparr>sc_plan := q\<rparr>) = runStoreOf i s" "runStoreOf i (s\<lparr>sc_cache := k\<rparr>) = runStoreOf i s"
  by (simp_all add: runStoreOf_def)

lemma write_entry_twice [simp]: "write_entry n v (write_entry n w es) = write_entry n v es"
  by (induction es) auto

definition checkE :: "uadsError + unit \<Rightarrow> unit op" where
  "checkE r = liftE r"

section \<open>Plans and checkpoints\<close>

definition readContextPlan :: "sidecar \<Rightarrow> contextPlan option" where
  "readContextPlan s = (case ps_contextPlan (sc_plan s) of Parsed p \<Rightarrow> Some p | _ \<Rightarrow> None)"

definition writeWorkOrder :: "workOrder \<Rightarrow> sidecar \<Rightarrow> sidecar" where
  "writeWorkOrder w s = s\<lparr>sc_plan := (sc_plan s)\<lparr>ps_workOrders :=
     write_entry (jsonName (wo_workOrderId w)) (Parsed w) (ps_workOrders (sc_plan s))\<rparr>\<rparr>"

definition writeRouting :: "routingDecision \<Rightarrow> sidecar \<Rightarrow> sidecar" where
  "writeRouting d s = s\<lparr>sc_plan := (sc_plan s)\<lparr>ps_decisions :=
     write_entry (jsonName (rd_routingDecisionId d)) (Parsed d) (ps_decisions (sc_plan s))\<rparr>\<rparr>"

definition writeCheckpointFile :: "checkpoint \<Rightarrow> sidecar \<Rightarrow> sidecar" where
  "writeCheckpointFile c s = s\<lparr>sc_plan := (sc_plan s)\<lparr>ps_checkpoints :=
     write_entry (jsonName (cp_checkpointId c)) (Parsed c) (ps_checkpoints (sc_plan s))\<rparr>\<rparr>"

definition writeCurrentState :: "checkpoint \<Rightarrow> sidecar \<Rightarrow> sidecar" where
  "writeCurrentState c s = s\<lparr>sc_plan := (sc_plan s)\<lparr>ps_currentState := Parsed c\<rparr>\<rparr>"

definition writeContextPlan :: "contextPlan \<Rightarrow> sidecar \<Rightarrow> sidecar" where
  "writeContextPlan p s = s\<lparr>sc_plan := (sc_plan s)\<lparr>ps_contextPlan := Parsed p\<rparr>\<rparr>"

definition persistPlan ::
  "'h sys_scheme \<Rightarrow> workOrder \<Rightarrow> routingDecision \<Rightarrow> checkpoint \<Rightarrow> contextPlan
     \<Rightarrow> (workOrder \<times> routingDecision \<times> checkpoint \<times> contextPlan) op" where
  "persistPlan H w0 d0 c0 p0 =
    (let w = sanitizeWorkOrder H w0; d = sanitizeRouting H d0; c = sanitizeCheckpoint H c0;
         p = sanitizeContextPlan H p0
     in bindE (assertSchema ''work-order.schema.json'' (okWorkOrder H w)) (\<lambda>_.
        bindE (assertSchema ''routing-decision.schema.json'' (okRouting H d)) (\<lambda>_.
        bindE (assertSchema ''checkpoint.schema.json'' (okCheckpoint H c)) (\<lambda>_.
        bindE (checkE (assertSafeSidecarId (wo_workOrderId w))) (\<lambda>_.
        bindE (writeE (writeWorkOrder w)) (\<lambda>_.
        bindE (checkE (assertSafeSidecarId (rd_routingDecisionId d))) (\<lambda>_.
        bindE (writeE (writeRouting d)) (\<lambda>_.
        bindE (checkE (assertSafeSidecarId (cp_checkpointId c))) (\<lambda>_.
        bindE (writeE (writeCheckpointFile c)) (\<lambda>_.
        bindE (writeE (writeCurrentState c)) (\<lambda>_.
        bindE (writeE (writeContextPlan p)) (\<lambda>_.
        returnE (w, d, c, p)))))))))))))"

fun parsedOk :: "('a \<Rightarrow> bool) \<Rightarrow> 'a artifact \<Rightarrow> 'a option" where
  "parsedOk ok (Parsed v) = (if ok v then Some v else None)"
| "parsedOk ok _ = None"

lemma parsedOk_Some [simp]: "parsedOk ok a = Some v \<longleftrightarrow> a = Parsed v \<and> ok v"
  by (cases a) auto

definition recoverLatestCheckpoint :: "'h sys_scheme \<Rightarrow> sidecar \<Rightarrow> checkpoint option" where
  "recoverLatestCheckpoint H s =
    (let files = filter (\<lambda>e. ends_with ''.json'' (fst e)) (ps_checkpoints (sc_plan s));
         valid = List.map_filter (\<lambda>e. parsedOk (okCheckpoint H) (snd e)) files
     in case sort_with (\<lambda>a b. localeCompare H (cp_updatedAt b) (cp_updatedAt a) \<le> 0) valid of
          [] \<Rightarrow> None
        | c # _ \<Rightarrow> Some c)"

definition readCurrentCheckpoint :: "'h sys_scheme \<Rightarrow> sidecar \<Rightarrow> checkpoint option" where
  "readCurrentCheckpoint H s =
    (case parsedOk (okCheckpoint H) (ps_currentState (sc_plan s)) of
       Some c \<Rightarrow> Some c
     | None \<Rightarrow> recoverLatestCheckpoint H s)"

definition readWorkOrder :: "'h sys_scheme \<Rightarrow> sidecar \<Rightarrow> string \<Rightarrow> uadsError + workOrder option" where
  "readWorkOrder H s i =
    (case assertSafeSidecarId i of Inl e \<Rightarrow> Inl e
     | Inr _ \<Rightarrow> Inr (parsedOk (okWorkOrder H) (read_entry (jsonName i) (ps_workOrders (sc_plan s)))))"

definition readRoutingDecision ::
  "'h sys_scheme \<Rightarrow> sidecar \<Rightarrow> string \<Rightarrow> uadsError + routingDecision option" where
  "readRoutingDecision H s i =
    (case assertSafeSidecarId i of Inl e \<Rightarrow> Inl e
     | Inr _ \<Rightarrow> Inr (parsedOk (okRouting H) (read_entry (jsonName i) (ps_decisions (sc_plan s)))))"

definition inspectCurrentState :: "'h sys_scheme \<Rightarrow> sidecar \<Rightarrow> bool \<times> string option" where
  "inspectCurrentState H s =
    (case ps_currentState (sc_plan s) of
       Missing \<Rightarrow> (True, None)
     | Unreadable e \<Rightarrow> (False, Some e)
     | Parsed c \<Rightarrow> if okCheckpoint H c then (True, None)
                   else (False, Some (schemaError ''checkpoint.schema.json'')))"

section \<open>Execution artifacts\<close>

definition persistExecutionRun ::
  "'h sys_scheme \<Rightarrow> executionRun \<Rightarrow> executionPacket option \<Rightarrow> executionRun op" where
  "persistExecutionRun H run0 packet0 =
    (let run = sanitizeRun H run0; i = run_executionRunId run
     in bindE (assertSchema ''execution-run.schema.json'' (okRun H run)) (\<lambda>_.
        bindE (checkE (runPathCheck i)) (\<lambda>_.
        bindE (writeE (updateRunStore i (\<lambda>d. d\<lparr>rn_run := Parsed run\<rparr>))) (\<lambda>_.
        bindE (case packet0 of None \<Rightarrow> returnE ()
               | Some p0 \<Rightarrow>
                   let p = sanitizePacket H p0
                   in bindE (assertSchema ''execution-packet.schema.json'' (okPacket H p)) (\<lambda>_.
                      writeE (updateRunStore i (\<lambda>d. d\<lparr>rn_packet := Parsed p\<rparr>)))) (\<lambda>_.
        bindE (writeE (\<lambda>s. s\<lparr>sc_pointer :=
            Parsed \<lparr>cu_executionRunId = i, cu_updatedAt = run_updatedAt run\<rparr>\<rparr>)) (\<lambda>_.
        returnE run))))))"

definition persistExecutionPacket :: "'h sys_scheme \<Rightarrow> executionPacket \<Rightarrow> executionPacket op" where
  "persistExecutionPacket H p0 =
    (let p = sanitizePacket H p0
     in bindE (assertSchema ''execution-packet.schema.json'' (okPacket H p)) (\<lambda>_.
        bindE (checkE (runPathCheck (pk_executionRunId p))) (\<lambda>_.
        bindE (writeE (updateRunStore (pk_executionRunId p) (\<lambda>d. d\<lparr>rn_packet := Parsed p\<rparr>))) (\<lambda>_.
        returnE p))))"

definition persistEvidenceRecord :: "'h sys_scheme \<Rightarrow> evidenceRecord \<Rightarrow> evidenceRecord op" where
  "persistEvidenceRecord H r0 =
    (let r = sanitizeEvidence H r0
     in bindE (assertSchema ''evidence-record.schema.json'' (okEvidence H r)) (\<lambda>_.
        bindE (checkE (runPathCheck (ev_executionRunId r))) (\<lambda>_.
        bindE (writeE (updateRunStore (ev_executionRunId r) (\<lambda>d. d\<lparr>rn_evidence :=
            write_entry (jsonName (ev_evidenceId r)) (Parsed r) (rn_evidence d)\<rparr>))) (\<lambda>_.
        returnE r))))"

definition persistReviewRecord :: "'h sys_scheme \<Rightarrow> reviewRecord \<Rightarrow> reviewRecord op" where
  "persistReviewRecord H r0 =
    (let r = sanitizeReview H r0
     in bindE (assertSchema ''review-record.schema.json'' (okReview H r)) (\<lambda>_.
        bindE (checkE (runPathCheck (rv_executionRunId r))) (\<lambda>_.
        bindE (writeE (updateRunStore (rv_executionRunId r) (\<lambda>d. d\<lparr>rn_reviews :=
            write_entry (jsonName (rv_reviewId r)) (Parsed r) (rn_reviews d)\<rparr>))) (\<lambda>_.
        returnE r))))"

definition persistReviewPacket :: "'h sys_scheme \<Rightarrow> reviewPacket \<Rightarrow> reviewPacket op" where
  "persistReviewPacket H p0 =
    (let p = sanitizeReviewPacket H p0
     in bindE (assertSchema ''review-packet.schema.json'' (okReviewPacket H p)) (\<lambda>_.
        bindE (checkE (runPathCheck (rp_executionRunId p))) (\<lambda>_.
        bindE (writeE (updateRunStore (rp_executionRunId p) (\<lambda>d. d\<lparr>rn_reviewPacket := Parsed p\<rparr>))) (\<lambda>_.
        returnE p))))"

text \<open>A required file: unreadable and schema-invalid contents are rejected, never ignored.\<close>

definition readRequired ::
  "string \<Rightarrow> string \<Rightarrow> string \<Rightarrow> ('a \<Rightarrow> bool) \<Rightarrow> 'a artifact \<Rightarrow> uadsError + 'a" where
  "readRequired unreadable corrupt schema ok a =
    (case a of
       Missing \<Rightarrow> Inl (InvalidOrchestrationState (unreadable @ ''missing''))
     | Unreadable e \<Rightarrow> Inl (InvalidOrchestrationState (unreadable @ e))
     | Parsed v \<Rightarrow> if ok v then Inr v
                   else Inl (InvalidOrchestrationState (corrupt @ schemaError schema)))"

lemma readRequired_Inr [simp]: "readRequired u c sc ok a = Inr v \<longleftrightarrow> a = Parsed v \<and> ok v"
  by (cases a) (auto simp: readRequired_def)

definition readExecutionRun :: "'h sys_scheme \<Rightarrow> sidecar \<Rightarrow> string \<Rightarrow> uadsError + executionRun" where
  "readExecutionRun H s i =
    (case runPathCheck i of Inl e \<Rightarrow> Inl e
     | Inr _ \<Rightarrow> readRequired ''execution run unreadable: '' ''corrupt execution run rejected: ''
         ''execution-run.schema.json'' (okRun H) (rn_run (runStoreOf i s)))"

definition readExecutionPacket ::
  "'h sys_scheme \<Rightarrow> sidecar \<Rightarrow> string \<Rightarrow> uadsError + executionPacket option" where
  "readExecutionPacket H s i =
    (case runPathCheck i of Inl e \<Rightarrow> Inl e
     | Inr _ \<Rightarrow>
         if rn_packet (runStoreOf i s) = Missing then Inr None
         else map_sum id Some (readRequired ''execution packet unreadable: '' ''corrupt execution packet rejected: ''
                ''execution-packet.schema.json'' (okPacket H) (rn_packet (runStoreOf i s))))"

definition readRequiredExecutionPacket ::
  "'h sys_scheme \<Rightarrow> sidecar \<Rightarrow> string \<Rightarrow> uadsError + executionPacket" where
  "readRequiredExecutionPacket H s i =
    (case readExecutionPacket H s i of Inl e \<Rightarrow> Inl e
     | Inr None \<Rightarrow> Inl (InvalidOrchestrationState ''execution packet missing for active run'')
     | Inr (Some p) \<Rightarrow> Inr p)"

definition readCurrentExecutionRunId :: "sidecar \<Rightarrow> string option" where
  "readCurrentExecutionRunId s =
    (case sc_pointer s of
       Parsed c \<Rightarrow> if isSafeSidecarId (cu_executionRunId c) then Some (cu_executionRunId c) else None
     | _ \<Rightarrow> None)"

definition readCurrentExecutionRun :: "'h sys_scheme \<Rightarrow> sidecar \<Rightarrow> uadsError + executionRun option" where
  "readCurrentExecutionRun H s =
    (case readCurrentExecutionRunId s of None \<Rightarrow> Inr None
     | Some i \<Rightarrow>
         (case runPathCheck i of Inl e \<Rightarrow> Inl e
          | Inr _ \<Rightarrow> if rn_run (runStoreOf i s) = Missing then Inr None
                     else map_sum id Some (readExecutionRun H s i)))"

text \<open>The records of a directory, read in file name order; the first corrupt one is an error.\<close>

fun readRecords ::
  "string \<Rightarrow> string \<Rightarrow> ('a \<Rightarrow> bool) \<Rightarrow> (string \<times> 'a artifact) list \<Rightarrow> uadsError + 'a list" where
  "readRecords what schema ok [] = Inr []"
| "readRecords what schema ok (e # es) =
     (case readRequired (what @ fst e @ '': '') (what @ fst e @ '': '') schema ok (snd e) of
        Inl x \<Rightarrow> Inl x
      | Inr v \<Rightarrow> map_sum id (\<lambda>vs. v # vs) (readRecords what schema ok es))"

definition byName :: "(string \<times> 'a) list \<Rightarrow> (string \<times> 'a) list" where
  "byName es = sort_with (\<lambda>a b. code_unit_le (fst a) (fst b)) es"

definition listEvidenceRecords ::
  "'h sys_scheme \<Rightarrow> sidecar \<Rightarrow> string \<Rightarrow> uadsError + evidenceRecord list" where
  "listEvidenceRecords H s i =
    (case runPathCheck i of Inl e \<Rightarrow> Inl e
     | Inr _ \<Rightarrow>
         map_sum id (sort_with (\<lambda>a b. locale_le H (ev_createdAt a) (ev_createdAt b)))
           (readRecords ''corrupt evidence record '' ''evidence-record.schema.json'' (okEvidence H)
             (byName (filter (\<lambda>e. ends_with ''.json'' (fst e)) (rn_evidence (runStoreOf i s))))))"

definition listReviewRecords ::
  "'h sys_scheme \<Rightarrow> sidecar \<Rightarrow> string \<Rightarrow> uadsError + reviewRecord list" where
  "listReviewRecords H s i =
    (case runPathCheck i of Inl e \<Rightarrow> Inl e
     | Inr _ \<Rightarrow>
         map_sum id (sort_with (\<lambda>a b. locale_le H (rv_createdAt a) (rv_createdAt b)))
           (readRecords ''corrupt review record '' ''review-record.schema.json'' (okReview H)
             (byName (filter (\<lambda>e. ends_with ''.json'' (fst e) \<and> fst e \<noteq> ''packet.json'')
                (rn_reviews (runStoreOf i s))))))"

section \<open>Consistency of the active artifacts\<close>

definition assertActiveExecutionConsistency ::
  "string \<Rightarrow> checkpoint \<Rightarrow> workOrder \<Rightarrow> routingDecision \<Rightarrow> executionRun \<Rightarrow> executionPacket
     \<Rightarrow> uadsError + unit" where
  "assertActiveExecutionConsistency projectId c w d run p =
    (if projectId \<noteq> cp_projectId c \<or> projectId \<noteq> wo_projectId w \<or> projectId \<noteq> rd_projectId d
        \<or> projectId \<noteq> run_projectId run
     then Inl (InvalidOrchestrationState ''execution artifacts have conflicting projectId'')
     else if \<not> truthy (cp_workOrderId c) \<or> cp_workOrderId c \<noteq> Some (wo_workOrderId w)
        \<or> wo_workOrderId w \<noteq> run_workOrderId run
     then Inl (InvalidOrchestrationState ''execution artifacts have conflicting workOrderId'')
     else if \<not> truthy (cp_routingDecisionId c) \<or> cp_routingDecisionId c \<noteq> Some (wo_routingDecisionId w)
        \<or> wo_routingDecisionId w \<noteq> run_routingDecisionId run
        \<or> rd_routingDecisionId d \<noteq> run_routingDecisionId run
     then Inl (InvalidOrchestrationState ''execution artifacts have conflicting routingDecisionId'')
     else if pk_executionRunId p \<noteq> run_executionRunId run \<or> pk_workOrderId p \<noteq> run_workOrderId run
     then Inl (InvalidOrchestrationState ''execution packet does not match the active run'')
     else Inr ())"

section \<open>Facts\<close>

lemma checkE_iff [step_iff]: "checkE r s = (q, t) \<longleftrightarrow> r = q \<and> t = s"
  by (auto simp: checkE_def liftE_def)

lemma assertSchema_Inr [step_iff]: "assertSchema n b s = (Inr x, t) \<longleftrightarrow> b \<and> t = s"
  by (simp add: assertSchema_def step_iff)

lemma assertSchema_Inl [step_iff]:
  "assertSchema n b s = (Inl e, t) \<longleftrightarrow> \<not> b \<and> e = PlainError (schemaError n) \<and> t = s"
  by (auto simp: assertSchema_def step_iff)

lemma keeps_checkE [keeps_intro]: "keeps P (checkE r)"
  by (simp add: checkE_def keeps_liftE)

lemma keeps_assertSchema [keeps_intro]: "keeps P (assertSchema n b)"
  by (simp add: assertSchema_def keeps_guardE)

lemma safe_id_Inr [simp]: "assertSafeSidecarId i = Inr u \<longleftrightarrow> isSafeSidecarId i"
  by (simp add: assertSafeSidecarId_def)

lemma runPathCheck_Inr [simp]: "runPathCheck i = Inr u \<longleftrightarrow> isSafeSidecarId i \<and> \<not> starts_with ''..'' i"
  by (simp add: runPathCheck_def)

lemma runPathCheck_safe [simp]:
  "isSafeSidecarId i \<Longrightarrow> \<not> starts_with ''..'' i \<Longrightarrow> runPathCheck i = Inr ()"
  by simp

lemma safe_id_check [simp]: "isSafeSidecarId i \<Longrightarrow> assertSafeSidecarId i = Inr ()"
  by simp

lemma map_sum_Inr [simp]: "map_sum id f r = Inr y \<longleftrightarrow> (\<exists>x. r = Inr x \<and> y = f x)"
  by (cases r) auto

lemma readRecords_Inr:
  "readRecords what schema ok es = Inr vs \<longleftrightarrow>
     (\<forall>e\<in>set es. \<exists>v. snd e = Parsed v \<and> ok v) \<and> map snd es = map Parsed vs"
proof (induction es arbitrary: vs)
  case Nil
  then show ?case by auto
next
  case (Cons e es)
  then show ?case
    by (cases "snd e"; cases vs) (auto simp: readRequired_def)
qed

lemma set_byName [simp]: "set (byName es) = set es"
  by (simp add: byName_def)

lemma set_write_entry:
  assumes "distinct (map fst es)"
  shows "set (write_entry n v es) = insert (n, v) {e \<in> set es. fst e \<noteq> n}"
  using assms by (induction es) (auto simp: image_iff rev_image_eqI)

lemma parsed_list_set:
  assumes "map snd es = map Parsed vs"
  shows "v \<in> set vs \<longleftrightarrow> (\<exists>n. (n, Parsed v) \<in> set es)"
proof -
  have "v \<in> set vs \<longleftrightarrow> Parsed v \<in> set (map Parsed vs)" by auto
  also have "\<dots> \<longleftrightarrow> Parsed v \<in> set (map snd es)" by (simp only: assms)
  also have "\<dots> \<longleftrightarrow> (\<exists>n. (n, Parsed v) \<in> set es)" by force
  finally show ?thesis .
qed

lemma listEvidence_Inr:
  assumes "listEvidenceRecords H s i = Inr vs"
  shows "v \<in> set vs \<longleftrightarrow>
     (\<exists>n. (n, Parsed v) \<in> set (rn_evidence (runStoreOf i s)) \<and> ends_with ''.json'' n)"
proof -
  let ?es = "byName (filter (\<lambda>e. ends_with ''.json'' (fst e)) (rn_evidence (runStoreOf i s)))"
  obtain us where "readRecords ''corrupt evidence record '' ''evidence-record.schema.json'' (okEvidence H) ?es = Inr us"
      "vs = sort_with (\<lambda>a b. locale_le H (ev_createdAt a) (ev_createdAt b)) us"
    using assms by (auto simp: listEvidenceRecords_def split: sum.splits)
  then have "set vs = set us" "map snd ?es = map Parsed us" by (simp_all add: readRecords_Inr)
  then show ?thesis using parsed_list_set [of ?es us v] by auto
qed

lemma ends_with_append: "ends_with p (s @ p)"
  by (simp only: ends_with_def rev_append starts_with_append)

lemma jsonName_ends [simp]: "ends_with ''.json'' (jsonName i)"
  by (simp only: jsonName_def ends_with_append)

section \<open>Properties\<close>

lemma persist_run_result:
  assumes "persistExecutionRun H run p s = (Inr r, t)"
  shows "r = sanitizeRun H run \<and> okRun H r \<and> isSafeSidecarId (run_executionRunId r)
    \<and> \<not> starts_with ''..'' (run_executionRunId r)
    \<and> t = (updateRunStore (run_executionRunId r) (\<lambda>d. case p of None \<Rightarrow> d\<lparr>rn_run := Parsed r\<rparr>
              | Some q \<Rightarrow> d\<lparr>rn_run := Parsed r, rn_packet := Parsed (sanitizePacket H q)\<rparr>) s)
         \<lparr>sc_pointer := Parsed \<lparr>cu_executionRunId = run_executionRunId r, cu_updatedAt = run_updatedAt r\<rparr>\<rparr>"
  using assms
  by (cases p)
    (auto simp: persistExecutionRun_def Let_def step_iff updateRunStore_def runStoreOf_def write_entry_twice)

text \<open>C24: a persisted run is read back as the current run exactly as it was sanitized and written;
  its evidence and reviews, every other run, the plans, the cost ledger and the cache are not
  touched.\<close>

theorem execution_run_roundtrip:
  assumes "persistExecutionRun H run p s = (Inr r, t)"
  shows "r = sanitizeRun H run \<and> readCurrentExecutionRun H t = Inr (Some r)
    \<and> rn_evidence (runStoreOf (run_executionRunId r) t) = rn_evidence (runStoreOf (run_executionRunId r) s)
    \<and> rn_reviews (runStoreOf (run_executionRunId r) t) = rn_reviews (runStoreOf (run_executionRunId r) s)
    \<and> (\<forall>j. j \<noteq> run_executionRunId r \<longrightarrow> runStoreOf j t = runStoreOf j s)
    \<and> sc_plan t = sc_plan s \<and> sc_cost t = sc_cost s \<and> sc_cache t = sc_cache s"
  using persist_run_result [OF assms]
  by (auto simp: readCurrentExecutionRun_def readCurrentExecutionRunId_def readExecutionRun_def
      split: sum.splits option.splits)

lemma execution_run_roundtrip_witness:
  "\<exists>t. persistExecutionRun plain_sys demoRun None emptySidecar = (Inr demoRun, t)
     \<and> readCurrentExecutionRun plain_sys t = Inr (Some demoRun)"
proof -
  obtain t where t: "persistExecutionRun plain_sys demoRun None emptySidecar = (Inr demoRun, t)"
    by (simp add: persistExecutionRun_def Let_def bindE_def assertSchema_def guardE_def returnE_def writeE_def
        checkE_def liftE_def runPathCheck_def isSafeSidecarId_def is_safe_char_def starts_with_def
        sanitizeRun_def plain_sys_def plain_host_def demoRun_def sanOpt_def sanList_def sanitizeModelBinding_def
        noModel_def)
  from execution_run_roundtrip [OF this] t show ?thesis by blast
qed

text \<open>C25: a persisted plan is read back file by file; when the write throws instead, the current
  checkpoint, the context plan and everything outside the plan store are as before.\<close>

theorem plan_persist_roundtrip:
  "case persistPlan H w0 d0 c0 p0 s of
     (Inr (w, d, c, p), t) \<Rightarrow>
        readWorkOrder H t (wo_workOrderId w) = Inr (Some w)
        \<and> readRoutingDecision H t (rd_routingDecisionId d) = Inr (Some d)
        \<and> readCurrentCheckpoint H t = Some c \<and> readContextPlan t = Some p
        \<and> w = sanitizeWorkOrder H w0 \<and> c = sanitizeCheckpoint H c0
   | (Inl e, t) \<Rightarrow>
        readCurrentCheckpoint H t = readCurrentCheckpoint H s \<and> readContextPlan t = readContextPlan s
        \<and> sc_runs t = sc_runs s \<and> sc_cost t = sc_cost s \<and> sc_cache t = sc_cache s"
proof (cases "persistPlan H w0 d0 c0 p0 s")
  case (Pair res t)
  show ?thesis
  proof (cases res)
    case (Inl e)
    have "sc_runs t = sc_runs s \<and> sc_cost t = sc_cost s \<and> sc_cache t = sc_cache s
      \<and> ps_currentState (sc_plan t) = ps_currentState (sc_plan s)
      \<and> ps_checkpoints (sc_plan t) = ps_checkpoints (sc_plan s)
      \<and> ps_contextPlan (sc_plan t) = ps_contextPlan (sc_plan s)"
      using Pair [unfolded Inl persistPlan_def Let_def]
      by (auto simp: step_iff writeWorkOrder_def writeRouting_def)
    moreover from this have "recoverLatestCheckpoint H t = recoverLatestCheckpoint H s"
      by (simp add: recoverLatestCheckpoint_def)
    ultimately show ?thesis
      unfolding Pair Inl by (simp add: readCurrentCheckpoint_def readContextPlan_def split: option.split)
  next
    case (Inr v)
    obtain w d c p where v: "v = (w, d, c, p)" by (metis surj_pair)
    have "w = sanitizeWorkOrder H w0 \<and> d = sanitizeRouting H d0 \<and> c = sanitizeCheckpoint H c0
      \<and> p = sanitizeContextPlan H p0 \<and> okWorkOrder H w \<and> okRouting H d \<and> okCheckpoint H c
      \<and> isSafeSidecarId (wo_workOrderId w) \<and> isSafeSidecarId (rd_routingDecisionId d)
      \<and> t = writeContextPlan p (writeCurrentState c (writeCheckpointFile c (writeRouting d (writeWorkOrder w s))))"
      using Pair [unfolded Inr v persistPlan_def Let_def] by (simp add: step_iff)
    then show ?thesis
      unfolding Pair Inr v
      by (auto simp: readWorkOrder_def readRoutingDecision_def readCurrentCheckpoint_def readContextPlan_def
          writeWorkOrder_def writeRouting_def writeCheckpointFile_def writeCurrentState_def writeContextPlan_def)
  qed
qed

lemma persist_evidence_result:
  assumes "persistEvidenceRecord H r0 s = (Inr r, t)"
  shows "r = sanitizeEvidence H r0 \<and> okEvidence H r \<and> runPathCheck (ev_executionRunId r) = Inr ()
    \<and> t = updateRunStore (ev_executionRunId r) (\<lambda>d. d\<lparr>rn_evidence :=
          write_entry (jsonName (ev_evidenceId r)) (Parsed r) (rn_evidence d)\<rparr>) s"
  using assms by (auto simp: persistEvidenceRecord_def Let_def step_iff)

lemma distinct_names_evidence:
  "distinct (map fst (rn_evidence (runStoreOf i s))) \<Longrightarrow>
   (n, a) \<in> set (write_entry m b (rn_evidence (runStoreOf i s))) \<longleftrightarrow>
     (n, a) = (m, b) \<or> (n \<noteq> m \<and> (n, a) \<in> set (rn_evidence (runStoreOf i s)))"
  by (auto simp: set_write_entry)

lemma readRecords_total:
  "(\<forall>e\<in>set es. \<exists>v. snd e = Parsed v \<and> ok v) \<Longrightarrow> \<exists>vs. readRecords what schema ok es = Inr vs"
proof (induction es)
  case (Cons e es)
  then obtain v vs where "snd e = Parsed v" "ok v" "readRecords what schema ok es = Inr vs" by force
  then show ?case by (simp add: readRequired_def)
qed simp

lemma listEvidence_total:
  assumes "listEvidenceRecords H s i = Inr vs"
  shows "runPathCheck i = Inr () \<and> (\<forall>n a. (n, a) \<in> set (rn_evidence (runStoreOf i s)) \<longrightarrow> ends_with ''.json'' n
     \<longrightarrow> (\<exists>v. a = Parsed v \<and> okEvidence H v))"
proof -
  have "runPathCheck i = Inr ()" using assms by (auto simp: listEvidenceRecords_def split: sum.splits)
  moreover have "\<exists>v. a = Parsed v \<and> okEvidence H v"
    if "(n, a) \<in> set (rn_evidence (runStoreOf i s))" "ends_with ''.json'' n" for n a
    using assms that by (auto simp: listEvidenceRecords_def readRecords_Inr split: sum.splits)
  ultimately show ?thesis by blast
qed

text \<open>After an evidence record is persisted, the listing of its run still succeeds and holds
  that record and the earlier ones, except one of the same identifier, which it replaces.\<close>

theorem evidence_listing_after_persist:
  assumes "listEvidenceRecords H s (ev_executionRunId r) = Inr old"
    and "distinct (map fst (rn_evidence (runStoreOf (ev_executionRunId r) s)))"
    and "persistEvidenceRecord H r0 s = (Inr r, t)"
  shows "\<exists>new. listEvidenceRecords H t (ev_executionRunId r) = Inr new \<and> r \<in> set new
    \<and> (\<forall>x\<in>set new. x = r \<or> x \<in> set old)
    \<and> (\<forall>n x. (n, Parsed x) \<in> set (rn_evidence (runStoreOf (ev_executionRunId r) s)) \<longrightarrow> ends_with ''.json'' n
         \<longrightarrow> n \<noteq> jsonName (ev_evidenceId r) \<longrightarrow> x \<in> set new)"
proof -
  let ?i = "ev_executionRunId r"
  let ?es = "write_entry (jsonName (ev_evidenceId r)) (Parsed r) (rn_evidence (runStoreOf ?i s))"
  note res = persist_evidence_result [OF assms(3)]
  have t: "rn_evidence (runStoreOf ?i t) = ?es" using res by simp
  note mem = distinct_names_evidence [OF assms(2), of _ _ "jsonName (ev_evidenceId r)" "Parsed r"]
  have old: "\<exists>v. a = Parsed v \<and> okEvidence H v"
    if "(n, a) \<in> set (rn_evidence (runStoreOf ?i s))" "ends_with ''.json'' n" for n a
    using listEvidence_total [OF assms(1)] that by blast
  have "\<forall>e\<in>set (byName (filter (\<lambda>e. ends_with ''.json'' (fst e)) ?es)). \<exists>v. snd e = Parsed v \<and> okEvidence H v"
    using old conjunct1 [OF conjunct2 [OF res]] unfolding set_byName set_filter
    by (auto simp only: mem mem_Collect_eq fst_conv snd_conv split_paired_All prod.inject)
  then obtain vs where "readRecords ''corrupt evidence record '' ''evidence-record.schema.json'' (okEvidence H)
      (byName (filter (\<lambda>e. ends_with ''.json'' (fst e)) ?es)) = Inr vs"
    using readRecords_total by blast
  moreover have "runPathCheck ?i = Inr ()" using listEvidence_total [OF assms(1)] by blast
  ultimately have "\<exists>new. listEvidenceRecords H t ?i = Inr new" by (simp add: listEvidenceRecords_def t)
  then obtain new where new: "listEvidenceRecords H t ?i = Inr new" by blast
  note elems = listEvidence_Inr [OF new, unfolded t mem] and olds = listEvidence_Inr [OF assms(1)]
  have "r \<in> set new" unfolding elems by auto
  moreover have "\<forall>x\<in>set new. x = r \<or> x \<in> set old" using elems olds by blast
  moreover have "\<forall>n x. (n, Parsed x) \<in> set (rn_evidence (runStoreOf ?i s)) \<longrightarrow> ends_with ''.json'' n
      \<longrightarrow> n \<noteq> jsonName (ev_evidenceId r) \<longrightarrow> x \<in> set new"
    using elems by blast
  ultimately show ?thesis using new by blast
qed

lemma demo_evidence_persisted:
  "persistEvidenceRecord plain_sys demoEvidence emptySidecar =
     (Inr demoEvidence, snd (persistEvidenceRecord plain_sys demoEvidence emptySidecar))"
  by (simp add: persistEvidenceRecord_def Let_def bindE_def assertSchema_def guardE_def returnE_def writeE_def
      checkE_def liftE_def runPathCheck_def isSafeSidecarId_def is_safe_char_def starts_with_def
      sanitizeEvidence_def plain_sys_def plain_host_def demoEvidence_def sanOpt_def)

lemma evidence_listing_after_persist_witness:
  "\<exists>new. listEvidenceRecords plain_sys (snd (persistEvidenceRecord plain_sys demoEvidence emptySidecar)) ''ex_1''
     = Inr new \<and> demoEvidence \<in> set new"
proof -
  have i: "ev_executionRunId demoEvidence = ''ex_1''" by (simp add: demoEvidence_def)
  have "runPathCheck ''ex_1'' = Inr ()"
    by (simp add: runPathCheck_def isSafeSidecarId_def is_safe_char_def starts_with_def)
  then have none: "listEvidenceRecords plain_sys emptySidecar (ev_executionRunId demoEvidence) = Inr []"
    by (simp add: listEvidenceRecords_def runStoreOf_def emptySidecar_def emptyRunStore_def byName_def i)
  have "distinct (map fst (rn_evidence (runStoreOf (ev_executionRunId demoEvidence) emptySidecar)))"
    by (simp add: runStoreOf_def emptySidecar_def emptyRunStore_def)
  from evidence_listing_after_persist [OF none this demo_evidence_persisted] show ?thesis
    unfolding i by blast
qed

end
