(* ===== verification/Cost_Governor.thy ===== *)
theory Cost_Governor
  imports Sidecar_Persist
begin

text \<open>
  The cost ledger and the governor (\<^verbatim>\<open>src/kernel/cost-persist.ts\<close> and the stateful part of
  \<^verbatim>\<open>src/kernel/cost-governor.ts\<close>). The instant an operation reads from the clock is its
  argument \<open>now\<close>. A ledger that does not parse, fails its schema or belongs to another project
  counts as absent, and the governor starts from an empty one.
\<close>

definition emptyCostLedger :: "string \<Rightarrow> string \<Rightarrow> costLedger" where
  "emptyCostLedger now projectId =
     \<lparr>cl_projectId = projectId, cl_workOrderId = None, cl_executionRunId = None,
      cl_estimatedContextTokens = 0, cl_estimatedDiagnosticTokens = 0, cl_contextExpansions = 0,
      cl_c5Uses = 0, cl_toolExecutions = 0, cl_gateExecutions = 0, cl_gateCacheHits = 0,
      cl_gateCacheMisses = 0, cl_evidenceReuseCount = 0, cl_avoidedToolExecutions = 0,
      cl_fullRepositoryScans = 0, cl_agentCallsReported = None, cl_modelCapabilityClass = None,
      cl_softBudget = None, cl_hardBudget = None, cl_budgetStatus = BudgetOk, cl_updatedAt = now\<rparr>"

definition readCostLedger :: "'h sys_scheme \<Rightarrow> string \<Rightarrow> string \<Rightarrow> sidecar \<Rightarrow> costLedger option" where
  "readCostLedger H now projectId s =
    (case ks_ledger (sc_cost s) of
       Missing \<Rightarrow> Some (emptyCostLedger now projectId)
     | Unreadable _ \<Rightarrow> None
     | Parsed l \<Rightarrow> if okLedger H l \<and> cl_projectId l = projectId then Some l else None)"

definition writeLedger :: "costLedger \<Rightarrow> sidecar \<Rightarrow> sidecar" where
  "writeLedger l s = s\<lparr>sc_cost := (sc_cost s)\<lparr>ks_ledger := Parsed l\<rparr>\<rparr>"

definition persistCostLedger :: "'h sys_scheme \<Rightarrow> costLedger \<Rightarrow> costLedger op" where
  "persistCostLedger H l0 =
    (let l = sanitizeLedger H l0
     in bindE (assertSchema ''cost-ledger.schema.json'' (okLedger H l)) (\<lambda>_.
        bindE (writeE (writeLedger l)) (\<lambda>_. returnE l)))"

definition persistCostDecision :: "'h sys_scheme \<Rightarrow> costDecision \<Rightarrow> costDecision op" where
  "persistCostDecision H d0 =
    (let d = sanitizeCostDecision H d0
     in bindE (assertSchema ''cost-decision.schema.json'' (okCostDecision H d)) (\<lambda>_.
        bindE (checkE (assertSafeSidecarId (kd_costDecisionId d))) (\<lambda>_.
        bindE (writeE (\<lambda>s. s\<lparr>sc_cost := (sc_cost s)\<lparr>ks_decisions :=
            write_entry (jsonName (kd_costDecisionId d)) (Parsed d) (ks_decisions (sc_cost s))\<rparr>\<rparr>)) (\<lambda>_.
        returnE d))))"

definition persistQptSnapshot :: "'h sys_scheme \<Rightarrow> qptSnapshot \<Rightarrow> qptSnapshot op" where
  "persistQptSnapshot H q0 =
    (let q = sanitizeQpt H q0
     in bindE (assertSchema ''qpt-snapshot.schema.json'' (okQpt H q)) (\<lambda>_.
        bindE (writeE (\<lambda>s. s\<lparr>sc_cost := (sc_cost s)\<lparr>ks_qpt := Parsed q\<rparr>\<rparr>)) (\<lambda>_. returnE q)))"

definition readQptSnapshot :: "'h sys_scheme \<Rightarrow> sidecar \<Rightarrow> qptSnapshot option" where
  "readQptSnapshot H s = parsedOk (okQpt H) (ks_qpt (sc_cost s))"

record costStatus =
  co_budgetStatus :: "budgetStatus option"
  co_estimatedContextTokens :: int
  co_gateCacheHits :: int
  co_gateCacheMisses :: int
  co_contextExpansions :: int
  co_fullRepositoryScans :: int
  co_qptRatio :: "rat option"

text \<open>The status \<^verbatim>\<open>unavailable\<close> is \<open>None\<close>.\<close>

definition readCostStatusCompact :: "'h sys_scheme \<Rightarrow> string \<Rightarrow> string \<Rightarrow> sidecar \<Rightarrow> costStatus" where
  "readCostStatusCompact H now projectId s =
    (let ratio = map_option qp_qptRatio (readQptSnapshot H s)
     in case readCostLedger H now projectId s of
          None \<Rightarrow> \<lparr>co_budgetStatus = None, co_estimatedContextTokens = 0, co_gateCacheHits = 0,
            co_gateCacheMisses = 0, co_contextExpansions = 0, co_fullRepositoryScans = 0, co_qptRatio = ratio\<rparr>
        | Some l \<Rightarrow> \<lparr>co_budgetStatus = Some (cl_budgetStatus l),
            co_estimatedContextTokens = cl_estimatedContextTokens l, co_gateCacheHits = cl_gateCacheHits l,
            co_gateCacheMisses = cl_gateCacheMisses l, co_contextExpansions = cl_contextExpansions l,
            co_fullRepositoryScans = cl_fullRepositoryScans l, co_qptRatio = ratio\<rparr>)"

section \<open>Governor\<close>

definition loadLedger :: "'h sys_scheme \<Rightarrow> string \<Rightarrow> string \<Rightarrow> sidecar \<Rightarrow> costLedger" where
  "loadLedger H now projectId s =
    (case readCostLedger H now projectId s of Some l \<Rightarrow> l | None \<Rightarrow> emptyCostLedger now projectId)"

text \<open>A decision that cannot be persisted is dropped: explaining must not break the operation.\<close>

definition writeDecision ::
  "'h sys_scheme \<Rightarrow> string \<Rightarrow> string \<Rightarrow> string option \<Rightarrow> string option \<Rightarrow> governorOutcome
     \<Rightarrow> string list \<Rightarrow> string \<Rightarrow> costDecision op" where
  "writeDecision H now projectId workOrderId executionRunId outcome reasonCodes subject =
    (let d = \<lparr>kd_costDecisionId = newPrefixedId H ''csd''
                (projectId @ '':'' @ subject @ '':'' @ now @ '':'' @ outcome_text outcome),
              kd_projectId = projectId, kd_workOrderId = workOrderId, kd_executionRunId = executionRunId,
              kd_outcome = outcome, kd_reasonCodes = reasonCodes, kd_subject = subject, kd_createdAt = now\<rparr>
     in bindE (catchE (bindE (persistCostDecision H d) (\<lambda>_. returnE ())) (\<lambda>_. returnE ())) (\<lambda>_. returnE d))"

text \<open>A partial ledger is the update it stands for; identity, method and time are set last.\<close>

definition applyLedgerPatch ::
  "'h sys_scheme \<Rightarrow> string \<Rightarrow> string \<Rightarrow> (costLedger \<Rightarrow> costLedger) \<Rightarrow> costLedger op" where
  "applyLedgerPatch H now projectId patch =
    bindE (readE (loadLedger H now projectId)) (\<lambda>current.
      persistCostLedger H ((patch current)\<lparr>cl_projectId := projectId, cl_updatedAt := now\<rparr>))"

definition enforceTokenBudget ::
  "'h sys_scheme \<Rightarrow> string \<Rightarrow> workOrder \<Rightarrow> int \<Rightarrow> string \<Rightarrow> string option \<Rightarrow> (budgetStatus \<times> costDecision) op" where
  "enforceTokenBudget H now w estimated subject executionRunId =
    (let soft = tb_softLimit (wo_tokenBudget w); hard = tb_hardLimit (wo_tokenBudget w);
         status = evaluateTokenBudget estimated (Some soft) (Some hard)
     in bindE (applyLedgerPatch H now (wo_projectId w)
          (\<lambda>l. l\<lparr>cl_workOrderId := Some (wo_workOrderId w), cl_executionRunId := executionRunId,
             cl_estimatedContextTokens := estimated, cl_softBudget := Some soft, cl_hardBudget := Some hard,
             cl_modelCapabilityClass := Some (capability_text (tb_capabilityClass (wo_tokenBudget w))),
             cl_budgetStatus := status\<rparr>)) (\<lambda>_.
        if status = HardBlocked
        then bindE (writeDecision H now (wo_projectId w) (Some (wo_workOrderId w)) executionRunId BlockOutcome
               [''HARD_TOKEN_BUDGET'', ''BYTE_HEURISTIC_ESTIMATE''] subject) (\<lambda>_.
             throwE (CostBudget (''hard token budget exceeded: estimated '' @ int_text estimated
               @ '' > hard '' @ int_text hard) estimated hard))
        else bindE (writeDecision H now (wo_projectId w) (Some (wo_workOrderId w)) executionRunId
               (if status = SoftWarning then WarnOutcome else AllowOutcome)
               (if status = SoftWarning
                then [''SOFT_TOKEN_BUDGET'', ''RECOMMEND_REUSE_OR_NARROWER_CONTEXT'', ''BYTE_HEURISTIC_ESTIMATE'']
                else [''BUDGET_OK'', ''BYTE_HEURISTIC_ESTIMATE'']) subject) (\<lambda>d.
             returnE (status, d))))"

definition incrementCostCounters ::
  "'h sys_scheme \<Rightarrow> string \<Rightarrow> string \<Rightarrow> (counterKey \<Rightarrow> int option) \<Rightarrow> (costLedger \<Rightarrow> costLedger)
     \<Rightarrow> costLedger op" where
  "incrementCostCounters H now projectId deltas extra =
    bindE (readE (loadLedger H now projectId)) (\<lambda>current.
      applyLedgerPatch H now projectId (\<lambda>l. counterPatch current deltas (extra l)))"

definition noteGovernorEvent ::
  "'h sys_scheme \<Rightarrow> string \<Rightarrow> string \<Rightarrow> string option \<Rightarrow> string option \<Rightarrow> governorOutcome
     \<Rightarrow> string list \<Rightarrow> string \<Rightarrow> (counterKey \<Rightarrow> int option) option \<Rightarrow> costDecision op" where
  "noteGovernorEvent H now projectId workOrderId executionRunId outcome reasonCodes subject patch =
    bindE (case patch of None \<Rightarrow> returnE ()
           | Some deltas \<Rightarrow>
               bindE (incrementCostCounters H now projectId deltas
                 (\<lambda>l. l\<lparr>cl_workOrderId := workOrderId, cl_executionRunId := executionRunId\<rparr>)) (\<lambda>_. returnE ())) (\<lambda>_.
      writeDecision H now projectId workOrderId executionRunId outcome reasonCodes subject)"

definition refreshQptSnapshot ::
  "'h sys_scheme \<Rightarrow> string \<Rightarrow> string \<Rightarrow> int \<Rightarrow> int \<Rightarrow> independentReviewState \<Rightarrow> string option
     \<Rightarrow> qptSnapshot option op" where
  "refreshQptSnapshot H now projectId required satisfied review radius =
    bindE (readE (readCostLedger H now projectId)) (\<lambda>ledger.
      case ledger of None \<Rightarrow> returnE None
      | Some l \<Rightarrow>
          bindE (persistQptSnapshot H (buildQptSnapshot now projectId required satisfied review l radius)) (\<lambda>q.
            returnE (Some q)))"

section \<open>Facts\<close>

text \<open>The governor writes the cost store and nothing else.\<close>

definition costOnly :: "sidecar \<Rightarrow> sidecar \<Rightarrow> bool" where
  "costOnly s t \<longleftrightarrow> sc_plan t = sc_plan s \<and> sc_runs t = sc_runs s \<and> sc_pointer t = sc_pointer s \<and> sc_cache t = sc_cache s"

abbreviation costFrame :: "sidecar \<Rightarrow> 'a op \<Rightarrow> bool" where
  "costFrame s0 m \<equiv> keeps (costOnly s0) m"

lemma costOnly_refl [simp]: "costOnly s s"
  by (simp add: costOnly_def)

lemma costOnly_upd [simp]: "costOnly s0 s \<Longrightarrow> costOnly s0 (s\<lparr>sc_cost := c\<rparr>)"
  by (simp add: costOnly_def)

lemma costFrame_persistCostLedger [keeps_intro]: "costFrame s0 (persistCostLedger H l)"
  unfolding persistCostLedger_def Let_def
  by (intro keeps_intro) (simp add: writeLedger_def)

lemma costFrame_persistCostDecision [keeps_intro]: "costFrame s0 (persistCostDecision H d)"
  unfolding persistCostDecision_def Let_def by (intro keeps_intro) simp

lemma costFrame_persistQpt [keeps_intro]: "costFrame s0 (persistQptSnapshot H q)"
  unfolding persistQptSnapshot_def Let_def by (intro keeps_intro) simp

lemma costFrame_writeDecision [keeps_intro]: "costFrame s0 (writeDecision H now p w e oc rs sub)"
  unfolding writeDecision_def Let_def by (intro keeps_intro)

lemma costFrame_applyLedgerPatch [keeps_intro]: "costFrame s0 (applyLedgerPatch H now p f)"
  unfolding applyLedgerPatch_def by (intro keeps_intro)

lemma costFrame_enforce [keeps_intro]: "costFrame s0 (enforceTokenBudget H now w e sub x)"
  unfolding enforceTokenBudget_def Let_def by (intro keeps_intro)

lemma costFrame_increment [keeps_intro]: "costFrame s0 (incrementCostCounters H now p ds f)"
  unfolding incrementCostCounters_def by (intro keeps_intro)

lemma costFrame_note [keeps_intro]: "costFrame s0 (noteGovernorEvent H now p w e oc rs sub pt)"
  unfolding noteGovernorEvent_def by (intro keeps_intro)

lemma costFrame_refresh [keeps_intro]: "costFrame s0 (refreshQptSnapshot H now p n m r c)"
  unfolding refreshQptSnapshot_def by (intro keeps_intro)

text \<open>A decision is returned whether or not it could be written; the ledger is not touched.\<close>

lemma writeDecision_total:
  "\<exists>d t. writeDecision H now p w e oc rs sub s = (Inr d, t) \<and> kd_outcome d = oc
     \<and> ks_ledger (sc_cost t) = ks_ledger (sc_cost s)"
proof -
  let ?d = "\<lparr>kd_costDecisionId = newPrefixedId H ''csd'' (p @ '':'' @ sub @ '':'' @ now @ '':'' @ outcome_text oc),
     kd_projectId = p, kd_workOrderId = w, kd_executionRunId = e, kd_outcome = oc, kd_reasonCodes = rs,
     kd_subject = sub, kd_createdAt = now\<rparr>"
  obtain r t where r: "persistCostDecision H ?d s = (r, t)" by fastforce
  have keep: "ks_ledger (sc_cost t) = ks_ledger (sc_cost s)"
    using r by (cases r) (auto simp: persistCostDecision_def Let_def step_iff)
  have "writeDecision H now p w e oc rs sub s = (Inr ?d, t)"
    unfolding writeDecision_def Let_def using r
    by (cases r) (simp_all add: bindE_def catchE_def returnE_def)
  then show ?thesis using keep by (intro exI [of _ ?d] exI [of _ t]) simp
qed

lemma applyLedgerPatch_Inr:
  assumes "applyLedgerPatch H now p f s = (Inr l, t)"
  shows "ks_ledger (sc_cost t) = Parsed l \<and> okLedger H l
    \<and> l = sanitizeLedger H ((f (loadLedger H now p s))\<lparr>cl_projectId := p, cl_updatedAt := now\<rparr>)"
  using assms by (auto simp: applyLedgerPatch_def persistCostLedger_def Let_def step_iff writeLedger_def)

lemma applyLedgerPatch_Inl:
  assumes "applyLedgerPatch H now p f s = (Inl e, t)"
  shows "t = s \<and> (\<exists>m. e = PlainError m)"
  using assms by (auto simp: applyLedgerPatch_def persistCostLedger_def Let_def step_iff)

lemma sanitizeLedger_numbers [simp]:
  "counter k (sanitizeLedger H l) = counter k l"
  "cl_budgetStatus (sanitizeLedger H l) = cl_budgetStatus l"
  "cl_hardBudget (sanitizeLedger H l) = cl_hardBudget l"
  "cl_softBudget (sanitizeLedger H l) = cl_softBudget l"
  "cl_projectId (sanitizeLedger H l) = sanitizeOperationalText H (cl_projectId l)"
  by (cases k; simp add: sanitizeLedger_def Let_def)+

lemma counter_id_upd [simp]:
  "counter k (l\<lparr>cl_projectId := p, cl_updatedAt := n\<rparr>) = counter k l"
  by (cases k) simp_all

text \<open>What the state is after a hard block and after an admitted estimate.\<close>

lemma enforce_outcome:
  assumes "enforceTokenBudget H now w e sub x s = (r, t)"
  shows "(\<exists>m. r = Inl (PlainError m) \<and> t = s)
    \<or> (\<exists>l. ks_ledger (sc_cost t) = Parsed l \<and> cl_estimatedContextTokens l = e
         \<and> cl_budgetStatus l = evaluateTokenBudget e (Some (tb_softLimit (wo_tokenBudget w)))
              (Some (tb_hardLimit (wo_tokenBudget w)))
         \<and> (if tb_hardLimit (wo_tokenBudget w) < e
            then (\<exists>m. r = Inl (CostBudget m e (tb_hardLimit (wo_tokenBudget w))))
            else (\<exists>d. r = Inr (cl_budgetStatus l, d) \<and> kd_outcome d \<noteq> BlockOutcome)))"
proof -
  let ?st = "evaluateTokenBudget e (Some (tb_softLimit (wo_tokenBudget w))) (Some (tb_hardLimit (wo_tokenBudget w)))"
  let ?f = "\<lambda>l. l\<lparr>cl_workOrderId := Some (wo_workOrderId w), cl_executionRunId := x,
             cl_estimatedContextTokens := e, cl_softBudget := Some (tb_softLimit (wo_tokenBudget w)),
             cl_hardBudget := Some (tb_hardLimit (wo_tokenBudget w)),
             cl_modelCapabilityClass := Some (capability_text (tb_capabilityClass (wo_tokenBudget w))),
             cl_budgetStatus := ?st\<rparr>"
  have hard: "?st = HardBlocked \<longleftrightarrow> tb_hardLimit (wo_tokenBudget w) < e" by (simp add: budget_blocked_iff)
  obtain q u where q: "applyLedgerPatch H now (wo_projectId w) ?f s = (q, u)" by fastforce
  show ?thesis
  proof (cases q)
    case (Inl err)
    then show ?thesis
      using assms q applyLedgerPatch_Inl [of H now "wo_projectId w" ?f s err u]
      by (auto simp: enforceTokenBudget_def Let_def bindE_def)
  next
    case (Inr l)
    have l: "ks_ledger (sc_cost u) = Parsed l" "cl_estimatedContextTokens l = e" "cl_budgetStatus l = ?st"
      using applyLedgerPatch_Inr [OF q [unfolded Inr]] by (simp_all add: sanitizeLedger_def Let_def)
    have dec: "\<exists>d t'. writeDecision H now (wo_projectId w) (Some (wo_workOrderId w)) x oc rs sub u = (Inr d, t')
        \<and> kd_outcome d = oc \<and> ks_ledger (sc_cost t') = ks_ledger (sc_cost u)" for oc rs
      by (rule writeDecision_total)
    show ?thesis
    proof (cases "tb_hardLimit (wo_tokenBudget w) < e")
      case True
      obtain d t' where d: "writeDecision H now (wo_projectId w) (Some (wo_workOrderId w)) x BlockOutcome
          [''HARD_TOKEN_BUDGET'', ''BYTE_HEURISTIC_ESTIMATE''] sub u = (Inr d, t')"
          "ks_ledger (sc_cost t') = ks_ledger (sc_cost u)"
        using dec by blast
      then show ?thesis
        using assms q Inr True hard l
        by (auto simp: enforceTokenBudget_def Let_def bindE_def throwE_def)
    next
      case False
      let ?oc = "if ?st = SoftWarning then WarnOutcome else AllowOutcome"
      let ?rs = "if ?st = SoftWarning
                then [''SOFT_TOKEN_BUDGET'', ''RECOMMEND_REUSE_OR_NARROWER_CONTEXT'', ''BYTE_HEURISTIC_ESTIMATE'']
                else [''BUDGET_OK'', ''BYTE_HEURISTIC_ESTIMATE'']"
      obtain d t' where d: "writeDecision H now (wo_projectId w) (Some (wo_workOrderId w)) x ?oc ?rs sub u = (Inr d, t')"
          "ks_ledger (sc_cost t') = ks_ledger (sc_cost u)" "kd_outcome d = ?oc"
        using dec by blast
      have "enforceTokenBudget H now w e sub x s = (Inr (?st, d), t')"
        using q Inr False hard d(1)
        by (simp add: enforceTokenBudget_def Let_def bindE_def returnE_def del: not_less)
      then show ?thesis using assms False l d by auto
    qed
  qed
qed

section \<open>Properties\<close>

text \<open>Enforcing the token budget writes the cost store only. Unless the ledger itself is refused
  by its schema (then nothing is written), the ledger records the estimate and its status, and the
  call throws exactly when the estimate exceeds the hard limit; otherwise it returns that status
  with a decision that is not a block.\<close>

theorem token_budget_enforced:
  "let (r, t) = enforceTokenBudget H now w e sub x s; hard = tb_hardLimit (wo_tokenBudget w)
   in costOnly s t
    \<and> ((\<exists>m. r = Inl (PlainError m) \<and> t = s)
       \<or> (\<exists>l. ks_ledger (sc_cost t) = Parsed l \<and> cl_estimatedContextTokens l = e
           \<and> cl_budgetStatus l = evaluateTokenBudget e (Some (tb_softLimit (wo_tokenBudget w))) (Some hard)
           \<and> (if hard < e then (\<exists>m. r = Inl (CostBudget m e hard))
              else (\<exists>d. r = Inr (cl_budgetStatus l, d) \<and> kd_outcome d \<noteq> BlockOutcome))))"
proof -
  obtain r t where rt: "enforceTokenBudget H now w e sub x s = (r, t)" by fastforce
  have "costOnly s t" by (rule keepsD [OF costFrame_enforce rt]) simp
  then show ?thesis using enforce_outcome [OF rt] unfolding rt Let_def by simp
qed

text \<open>An increment that is persisted adds every delta to the counter the ledger had, and leaves
  the counters without a delta alone.\<close>

theorem cost_counters_add:
  assumes "incrementCostCounters H now p deltas extra s = (Inr l, t)"
    and "\<And>k. counter k (extra (loadLedger H now p s)) = counter k (loadLedger H now p s)"
  shows "ks_ledger (sc_cost t) = Parsed l
    \<and> counter k l = counter k (loadLedger H now p s) + (case deltas k of None \<Rightarrow> 0 | Some d \<Rightarrow> d)"
proof -
  let ?c = "loadLedger H now p s"
  have "applyLedgerPatch H now p (\<lambda>l. counterPatch ?c deltas (extra l)) s = (Inr l, t)"
    using assms(1) by (simp add: incrementCostCounters_def step_iff)
  from applyLedgerPatch_Inr [OF this]
  have "ks_ledger (sc_cost t) = Parsed l" "counter k l = counter k (counterPatch ?c deltas (extra ?c))"
    by simp_all
  then show ?thesis using assms(2) [of k] by (simp add: counter_counterPatch split: option.split)
qed

lemma cost_counters_add_witness:
  "\<exists>l t. incrementCostCounters plain_sys ''t'' ''p_1'' [GateExecutions \<mapsto> 3] id emptySidecar = (Inr l, t)
     \<and> cl_gateExecutions l = 3"
proof -
  obtain l t where lt: "incrementCostCounters plain_sys ''t'' ''p_1'' [GateExecutions \<mapsto> 3] id emptySidecar = (Inr l, t)"
    by (simp add: incrementCostCounters_def applyLedgerPatch_def persistCostLedger_def bindE_def readE_def
        assertSchema_def guardE_def returnE_def writeE_def Let_def plain_sys_def)
  have "counter GateExecutions l = counter GateExecutions (loadLedger plain_sys ''t'' ''p_1'' emptySidecar) + 3"
    using cost_counters_add [OF lt, of GateExecutions] by simp
  then have "cl_gateExecutions l = 3"
    by (simp add: loadLedger_def readCostLedger_def emptySidecar_def emptyCostLedger_def)
  with lt show ?thesis by blast
qed

end
