(* ===== verification/Safe_Path.thy ===== *)
theory Safe_Path
  imports Uads_Prelude
begin

text \<open>
  Relative project paths: the safety check of \<^verbatim>\<open>src/kernel/safe-path.ts\<close>, the name
  classifiers of \<^verbatim>\<open>src/lib/exclusions.ts\<close>, and the functions of Node's
  \<^verbatim>\<open>path.posix\<close> they call. The host is a POSIX system, so \<open>toPosix\<close> is the identity.
\<close>

section \<open>path.posix\<close>

definition backslash :: char where "backslash = CHR 0x5C"
definition nul :: char where "nul = CHR 0x00"

definition replaceBackslashes :: "string \<Rightarrow> string" where
  "replaceBackslashes s = map (\<lambda>c. if c = backslash then CHR ''/'' else c) s"

definition segments :: "string \<Rightarrow> string list" where
  "segments s = split_on (CHR ''/'') s"

definition stripTrailingSlashes :: "string \<Rightarrow> string" where
  "stripTrailingSlashes s = rev (dropWhile (\<lambda>c. c = CHR ''/'') (rev s))"

definition basename :: "string \<Rightarrow> string" where
  "basename s = rev (takeWhile (\<lambda>c. c \<noteq> CHR ''/'') (rev (stripTrailingSlashes s)))"

text \<open>The text after the last dot and the text before it, when there is a dot.\<close>

definition splitLastDot :: "string \<Rightarrow> (string \<times> string) option" where
  "splitLastDot s =
     (if CHR ''.'' \<in> set s
      then let suf = takeWhile (\<lambda>c. c \<noteq> CHR ''.'') (rev s)
           in Some (rev (drop (length suf + 1) (rev s)), rev suf)
      else None)"

definition extname :: "string \<Rightarrow> string" where
  "extname base =
     (if base = ''..'' then []
      else case splitLastDot base of None \<Rightarrow> []
        | Some (pre, suf) \<Rightarrow> if pre = [] then [] else ''.'' @ suf)"

text \<open>The segment stack of \<open>normalize\<close> for a relative path.\<close>

fun normalizeSegments :: "string list \<Rightarrow> string list \<Rightarrow> string list" where
  "normalizeSegments stack [] = rev stack"
| "normalizeSegments stack (x # xs) =
     (if x = [] \<or> x = ''.'' then normalizeSegments stack xs
      else if x = ''..'' then
        (case stack of
           [] \<Rightarrow> normalizeSegments [''..''] xs
         | y # ys \<Rightarrow> if y = ''..'' then normalizeSegments (''..'' # stack) xs else normalizeSegments ys xs)
      else normalizeSegments (x # stack) xs)"

definition normalizeRelative :: "string \<Rightarrow> string" where
  "normalizeRelative s =
     (let body = join_with ''/'' (normalizeSegments [] (segments s))
      in (if body = [] then ''.'' else body) @ (if s \<noteq> [] \<and> last s = CHR ''/'' then ''/'' else []))"

section \<open>Safe relative paths\<close>

definition is_letter :: "char \<Rightarrow> bool" where
  "is_letter c \<longleftrightarrow> (let n = of_char c :: nat in (65 \<le> n \<and> n \<le> 90) \<or> (97 \<le> n \<and> n \<le> 122))"

definition is_digit :: "char \<Rightarrow> bool" where
  "is_digit c \<longleftrightarrow> (let n = of_char c :: nat in 48 \<le> n \<and> n \<le> 57)"

lemma is_letter_bits [code]:
  "is_letter (Char b0 b1 b2 b3 b4 b5 b6 b7) \<longleftrightarrow>
     \<not> b7 \<and> b6 \<and> (b0 \<or> b1 \<or> b2 \<or> b3 \<or> b4) \<and> \<not> (b4 \<and> b3 \<and> (b2 \<or> b1 \<and> b0))"
  by (cases b0; cases b1; cases b2; cases b3; cases b4; cases b5; cases b6; cases b7; simp add: is_letter_def)

lemma is_digit_bits [code]:
  "is_digit (Char b0 b1 b2 b3 b4 b5 b6 b7) \<longleftrightarrow> \<not> b7 \<and> \<not> b6 \<and> b5 \<and> b4 \<and> (\<not> b3 \<or> \<not> b2 \<and> \<not> b1)"
  by (cases b0; cases b1; cases b2; cases b3; cases b4; cases b5; cases b6; cases b7; simp add: is_digit_def)

definition is_alnum :: "char \<Rightarrow> bool" where
  "is_alnum c \<longleftrightarrow> is_letter c \<or> is_digit c"

definition windowsDrive :: "string \<Rightarrow> bool" where
  "windowsDrive s \<longleftrightarrow> (case s of c # d # _ \<Rightarrow> is_letter c \<and> d = CHR '':'' | _ \<Rightarrow> False)"

definition dropDotSlash :: "string \<Rightarrow> string" where
  "dropDotSlash s = (if starts_with ''./'' s then drop 2 s else s)"

text \<open>\<open>None\<close> is the thrown error.\<close>

definition assertSafeRelativeProjectPath :: "string \<Rightarrow> string option" where
  "assertSafeRelativeProjectPath v =
    (let trimmed = trim v; posix = dropDotSlash (replaceBackslashes trimmed)
     in if trimmed = [] then None
        else if posix = [] \<or> posix = ''.'' \<or> posix = ''..'' then None
        else if starts_with ''/'' posix \<or> starts_with [backslash] posix then None
        else if windowsDrive posix \<or> windowsDrive trimmed then None
        else if starts_with ''//'' posix \<or> starts_with [backslash, backslash] trimmed then None
        else if ''..'' \<in> set (segments posix) then None
        else if nul \<in> set posix then None
        else if starts_with ''../'' (normalizeRelative posix) \<or> normalizeRelative posix = ''..'' then None
        else Some posix)"

definition isRelativeProjectPath :: "string \<Rightarrow> bool" where
  "isRelativeProjectPath v \<longleftrightarrow> assertSafeRelativeProjectPath v \<noteq> None"

section \<open>Excluded and sensitive names\<close>

definition EXCLUDED_DIRECTORY_NAMES :: "string list" where
  "EXCLUDED_DIRECTORY_NAMES =
    [''node_modules'', ''.git'', ''dist'', ''coverage'', ''build'', ''.next'', ''.turbo'', ''.cache'',
     ''.parcel-cache'', ''.nuxt'', ''.output'', ''.venv'', ''venv'', ''__pycache__'', ''.tox'',
     ''.pytest_cache'', ''.idea'', ''.vscode'', ''.uads'', ''reviews'', ''memory-bank'', ''.terraform'',
     ''target'', ''bin'', ''obj'']"

definition isExcludedDirectoryName :: "string \<Rightarrow> bool" where
  "isExcludedDirectoryName n \<longleftrightarrow> n \<in> set EXCLUDED_DIRECTORY_NAMES"

text \<open>\<open>/^\.env(\..+)?$/i\<close>; the dot of a regular expression does not match a line break.\<close>

definition envFile :: "string \<Rightarrow> bool" where
  "envFile base \<longleftrightarrow>
     (let b = to_lower base
      in b = ''.env'' \<or> (starts_with ''.env.'' b \<and> length b > 5
           \<and> list_all (\<lambda>c. of_char c \<noteq> (10::nat) \<and> of_char c \<noteq> (13::nat)) (drop 5 b)))"

definition endsWithExt :: "string list \<Rightarrow> string \<Rightarrow> bool" where
  "endsWithExt exts base \<longleftrightarrow> list_ex (\<lambda>e. ends_with (''.'' @ e) (to_lower base)) exts"

definition isSensitiveDataFile :: "string \<Rightarrow> bool" where
  "isSensitiveDataFile relativePath =
    (let base = basename relativePath; ext = to_lower (extname base); b = to_lower base
     in if base = ''.env.example'' then False
        else if envFile base then True
        else if endsWithExt [''pem'', ''p12'', ''pfx'', ''jks'', ''keystore''] base then True
        else if ext = ''.key'' then True
        else if ext = ''.token'' then True
        else if list_ex (\<lambda>k. b = k \<or> b = k @ ''.pub'') [''id_rsa'', ''id_dsa'', ''id_ecdsa'', ''id_ed25519''] then True
        else if b = ''secrets.json'' \<or> b = ''credentials.json'' then True
        else False)"

definition nonEmptySegments :: "string \<Rightarrow> string list" where
  "nonEmptySegments s = filter (\<lambda>p. p \<noteq> []) (segments s)"

definition shouldExcludeFromReview :: "string \<Rightarrow> bool" where
  "shouldExcludeFromReview relativePath =
    (let parts = nonEmptySegments relativePath; base = (if parts = [] then [] else last parts)
     in if list_ex isExcludedDirectoryName parts then True
        else if ends_with ''.zip.sha256'' base \<or> includes_text ''/reviews/'' relativePath then True
        else isSensitiveDataFile relativePath)"

definition isUnsafeZipEntryName :: "string \<Rightarrow> bool" where
  "isUnsafeZipEntryName n =
    (let posix = replaceBackslashes n
     in if starts_with ''/'' posix \<or> starts_with [backslash] posix then True
        else if windowsDrive posix then True
        else ''..'' \<in> set (segments posix))"

section \<open>Facts\<close>

lemma split_on_nonempty [simp]: "split_on c s \<noteq> []"
  by (induction s) (auto split: list.splits)

lemma split_on_parts: "w \<in> set (split_on c s) \<Longrightarrow> c \<notin> set w"
  by (induction s arbitrary: w) (auto split: list.splits if_splits)

lemma split_on_append: "c \<notin> set w \<Longrightarrow> split_on c (w @ c # s) = w # split_on c s"
  by (induction w) auto

lemma split_on_single: "c \<notin> set w \<Longrightarrow> split_on c w = [w]"
  by (induction w) auto

lemma starts_with_Cons [simp]:
  "starts_with (p # ps) (x # xs) \<longleftrightarrow> p = x \<and> starts_with ps xs"
  "starts_with (p # ps) [] \<longleftrightarrow> False"
  by (auto simp: starts_with_def)

lemma normalize_no_dotdot:
  assumes "''..'' \<notin> set stack" "''..'' \<notin> set xs"
  shows "''..'' \<notin> set (normalizeSegments stack xs)"
  using assms by (induction stack xs rule: normalizeSegments.induct) auto

text \<open>C27: an accepted path is non-empty and relative, and stays below the project root: no segment
  is the parent directory, it has no backslash, no drive prefix and no NUL, and the normalized path
  has no parent segment either.\<close>

theorem safe_path_sound:
  assumes "assertSafeRelativeProjectPath v = Some p"
  shows "p \<noteq> [] \<and> hd p \<noteq> CHR ''/'' \<and> ''..'' \<notin> set (segments p) \<and> backslash \<notin> set p
    \<and> nul \<notin> set p \<and> \<not> windowsDrive p \<and> ''..'' \<notin> set (normalizeSegments [] (segments p))"
proof -
  have p: "p = dropDotSlash (replaceBackslashes (trim v))"
    using assms by (auto simp: assertSafeRelativeProjectPath_def Let_def split: if_splits)
  have bs: "backslash \<notin> set (replaceBackslashes s)" for s
  proof -
    have "CHR ''/'' \<noteq> backslash" by (simp add: backslash_def)
    then show ?thesis by (auto simp: replaceBackslashes_def)
  qed
  have "backslash \<notin> set p"
    using bs [of "trim v"] p by (auto simp: dropDotSlash_def dest: in_set_dropD)
  moreover have "p \<noteq> [] \<and> \<not> starts_with ''/'' p \<and> ''..'' \<notin> set (segments p) \<and> nul \<notin> set p \<and> \<not> windowsDrive p"
    using assms p by (auto simp: assertSafeRelativeProjectPath_def Let_def split: if_splits)
  moreover from this have "hd p \<noteq> CHR ''/''" by (cases p) auto
  moreover have "''..'' \<notin> set (normalizeSegments [] (segments p))"
    using calculation by (intro normalize_no_dotdot) auto
  ultimately show ?thesis by blast
qed

lemma safe_path_sound_witness:
  "assertSafeRelativeProjectPath ''./src/a.ts'' = Some ''src/a.ts'' \<and> ''..'' \<notin> set (segments ''src/a.ts'')"
proof -
  have s: "assertSafeRelativeProjectPath ''./src/a.ts'' = Some ''src/a.ts''"
    by code_simp
  then show ?thesis using safe_path_sound [OF s] by blast
qed

end
