(* ===== verification/Scope_Guard.thy ===== *)
theory Scope_Guard
  imports Safe_Path Demo_State
begin

text \<open>
  Classification of changed paths against the planned scope (\<^verbatim>\<open>src/kernel/scope-guard.ts\<close>).
  The regular expressions of the source are predicates on path segments here.
\<close>

definition inSegments :: "string list \<Rightarrow> string \<Rightarrow> bool" where
  "inSegments names posix \<longleftrightarrow> list_ex (\<lambda>p. to_lower p \<in> set names) (segments posix)"

definition TEST_DIR :: "string \<Rightarrow> bool" where
  "TEST_DIR posix \<longleftrightarrow> inSegments [''test'', ''tests'', ''__tests__'', ''spec''] posix"

text \<open>\<open>/\.(test|spec)\.[A-Za-z0-9]+$/i\<close>\<close>

definition TEST_FILE :: "string \<Rightarrow> bool" where
  "TEST_FILE posix \<longleftrightarrow>
     (case splitLastDot posix of None \<Rightarrow> False
      | Some (pre, ext) \<Rightarrow> ext \<noteq> [] \<and> list_all is_alnum ext \<and> endsWithExt [''test'', ''spec''] pre)"

text \<open>\<open>/(^|\/)(docs?|README(\.[A-Za-z0-9]+)?$)/i\<close>: the first alternative is not anchored, so
  every segment that starts with "doc" matches.\<close>

definition readmeName :: "string \<Rightarrow> bool" where
  "readmeName base \<longleftrightarrow>
     (let b = to_lower base
      in b = ''readme'' \<or> (starts_with ''readme.'' b \<and> length b > 7 \<and> list_all is_alnum (drop 7 b)))"

definition DOC_FILE :: "string \<Rightarrow> bool" where
  "DOC_FILE posix \<longleftrightarrow> list_ex (\<lambda>p. starts_with ''doc'' (to_lower p)) (segments posix)
     \<or> readmeName (last (segments posix))"

definition MIGRATION_DIR :: "string \<Rightarrow> bool" where
  "MIGRATION_DIR posix \<longleftrightarrow> inSegments [''migration'', ''migrations''] posix"

definition dropTrailingSlash :: "string \<Rightarrow> string" where
  "dropTrailingSlash s = (if s \<noteq> [] \<and> last s = CHR ''/'' then butlast s else s)"

definition scopePrefixes :: "workOrder \<Rightarrow> contextPlan option \<Rightarrow> string list" where
  "scopePrefixes w plan =
     filter (\<lambda>p. p \<noteq> [])
       (map dropTrailingSlash
         (wo_affectedAreas w
          @ filter (\<lambda>item. \<not> includes_text '' '' item \<and> length item < 80) (wo_includedScope w)
          @ (case plan of None \<Rightarrow> [] | Some p \<Rightarrow> pl_candidateAreas p)))"

definition matchesPrefix :: "string \<Rightarrow> string \<Rightarrow> bool" where
  "matchesPrefix relative area =
    (let posix = replaceBackslashes relative; needle = dropTrailingSlash (replaceBackslashes area)
     in if needle = [] \<or> includes_text '' '' needle then False
        else posix = needle \<or> starts_with (needle @ ''/'') posix \<or> needle = hd (segments posix))"

definition isProjectOperationalPath :: "string \<Rightarrow> bool" where
  "isProjectOperationalPath p =
    (let parts = nonEmptySegments p
     in (parts \<noteq> [] \<and> hd parts = ''.uads'') \<or> p = ''.uads'' \<or> ''.uads'' \<in> set parts)"

definition secretBearing :: "string \<Rightarrow> bool" where
  "secretBearing posix \<longleftrightarrow>
     isSensitiveDataFile posix \<or> endsWithExt [''pem'', ''key'', ''p12'', ''pfx''] (basename posix)"

definition plannedArea :: "string \<Rightarrow> workOrder \<Rightarrow> contextPlan option \<Rightarrow> bool" where
  "plannedArea posix w plan \<longleftrightarrow> list_ex (matchesPrefix posix) (scopePrefixes w plan)"

definition defaultSourceRoot :: "string \<Rightarrow> workOrder \<Rightarrow> bool" where
  "defaultSourceRoot posix w \<longleftrightarrow>
     (wo_scopeClass w = Trivial \<or> wo_scopeClass w = Local)
     \<and> hd (segments posix) \<in> set [''src'', ''frontend'', ''ui'', ''app'', ''lib'']"

definition classifyChangedPath ::
  "string \<Rightarrow> workOrder \<Rightarrow> contextPlan option \<Rightarrow> scopeClassification \<times> string" where
  "classifyChangedPath relativePath w plan =
    (let posix = replaceBackslashes relativePath;
         areas = scopePrefixes w plan;
         selected = wo_qualityGates w
     in if secretBearing posix then (Sensitive, ''credential or secret-bearing path'')
        else if isProjectOperationalPath posix then (Sensitive, ''project-local UADS operational path'')
        else if plannedArea posix w plan
        then (InScope, ''matches planned affected area or context candidate'')
        else if defaultSourceRoot posix w
        then (InScope, ''default source root for local/trivial work'')
        else if (TEST_DIR posix \<or> TEST_FILE posix)
             \<and> (''unit-test'' \<in> set selected \<or> ''integration-test'' \<in> set selected \<or> length areas > 0)
        then (Supporting, ''focused test for the planned change'')
        else if (posix = ''package.json'' \<or> posix = ''package-lock.json'')
             \<and> (''dependency-audit'' \<in> set selected \<or> ''build'' \<in> set selected)
        then (Supporting, ''project manifest for a selected dependency/build gate'')
        else if DOC_FILE posix
             \<and> (''documentation'' \<in> set (wo_domains w)
                \<or> list_ex (\<lambda>item. includes_text ''doc'' (to_lower item)) (wo_acceptanceCriteria w))
        then (Supporting, ''documentation required by acceptance criteria'')
        else if MIGRATION_DIR posix
             \<and> (''database-migration'' \<in> set selected \<or> ''database'' \<in> set (wo_domains w))
        then (Supporting, ''migration file for a selected database gate'')
        else (OutOfScope, ''path is outside planned areas and is not a supporting artifact''))"

section \<open>Properties\<close>

text \<open>A secret-bearing or operational path is classified sensitive whatever the work order
  plans, nothing else is sensitive, and a path is in scope exactly when it is planned or under a
  default source root of local work.\<close>

theorem classify_sensitive_dominates:
  "(fst (classifyChangedPath p w plan) = Sensitive \<longleftrightarrow>
      secretBearing (replaceBackslashes p) \<or> isProjectOperationalPath (replaceBackslashes p))
   \<and> (fst (classifyChangedPath p w plan) = InScope \<longleftrightarrow>
      \<not> secretBearing (replaceBackslashes p) \<and> \<not> isProjectOperationalPath (replaceBackslashes p)
      \<and> (plannedArea (replaceBackslashes p) w plan \<or> defaultSourceRoot (replaceBackslashes p) w))"
  by (simp add: classifyChangedPath_def Let_def)

text \<open>The documentation exception also admits files that are not documentation: for a work
  order with an acceptance criterion that mentions "doc", a top-level \<^verbatim>\<open>Dockerfile\<close> is a supporting
  file, because the pattern for the docs directory is not anchored at the end of the segment.\<close>

theorem dockerfile_is_supporting:
  "fst (classifyChangedPath ''Dockerfile''
      (demoWorkOrder\<lparr>wo_acceptanceCriteria := [''docs updated''], wo_affectedAreas := [''web''],
         wo_includedScope := []\<rparr>) None) = Supporting"
  by code_simp

end
