(* ===== verification/Context_Candidates.thy ===== *)
theory Context_Candidates
  imports Scope_Guard
begin

text \<open>
  The areas a context radius admits (\<^verbatim>\<open>src/kernel/context-candidates.ts\<close>): named or inferred
  areas first, then tests, related areas and modules as the radius grows.
\<close>

definition modulePaths :: "repositoryMap \<Rightarrow> string list" where
  "modulePaths m = map mod_path (map_modules m)"

definition hasArea :: "repositoryMap \<Rightarrow> string \<Rightarrow> bool" where
  "hasArea m area =
    (let needle = dropTrailingSlash (replaceBackslashes area);
         hits = (\<lambda>p. p = needle \<or> starts_with (needle @ ''/'') p)
     in list_ex hits (modulePaths m) \<or> list_ex hits (map_entrypoints m))"

definition portableArea :: "string \<Rightarrow> bool" where
  "portableArea area \<longleftrightarrow> \<not> includes_text '':'' area \<or> starts_with ''.'' area \<or> \<not> windowsDrive area"

text \<open>\<open>if (condition) list.push(value)\<close>\<close>

definition pushIf :: "bool \<Rightarrow> string \<Rightarrow> string list" where
  "pushIf b v = (if b then [v] else [])"

definition signalled :: "normalizedIntake \<Rightarrow> string \<Rightarrow> bool" where
  "signalled i d \<longleftrightarrow> d \<in> set (in_domainSignals i)"

definition inferredAreas :: "normalizedIntake \<Rightarrow> repositoryMap \<Rightarrow> string list" where
  "inferredAreas i m =
     pushIf (signalled i ''frontend'' \<and> hasArea m ''frontend'') ''frontend''
   @ pushIf (signalled i ''backend'' \<and> hasArea m ''backend'') ''backend''
   @ pushIf (signalled i ''documentation'' \<and> hasArea m ''docs'') ''docs''
   @ pushIf ((signalled i ''web3'' \<or> signalled i ''smart-contracts'') \<and> hasArea m ''contracts'') ''contracts''"

definition namedOrInferred :: "normalizedIntake \<Rightarrow> repositoryMap \<Rightarrow> string list" where
  "namedOrInferred i m =
    (if length (in_affectedAreas i) > 0 then unique (filter portableArea (in_affectedAreas i))
     else unique (inferredAreas i m))"

definition neighbors :: "string list \<Rightarrow> repositoryMap \<Rightarrow> string list \<Rightarrow> string list" where
  "neighbors areas m extra =
     unique (areas @ filter (\<lambda>x. x \<in> set (modulePaths m) \<union> set (map_entrypoints m) \<or> hasArea m x) extra)"

definition relatedAreas :: "string list \<Rightarrow> normalizedIntake \<Rightarrow> repositoryMap \<Rightarrow> string list" where
  "relatedAreas named i m =
     pushIf (''frontend'' \<in> set named \<and> hasArea m ''backend'') ''backend''
   @ pushIf (''backend'' \<in> set named \<and> hasArea m ''frontend'') ''frontend''
   @ pushIf (signalled i ''api'' \<and> hasArea m ''backend'') ''backend''
   @ pushIf (signalled i ''database'' \<and> hasArea m ''backend'') ''backend''"

definition connectedAreas :: "normalizedIntake \<Rightarrow> repositoryMap \<Rightarrow> string list" where
  "connectedAreas i m =
    (let web = signalled i ''web3'' \<or> signalled i ''smart-contracts''
     in pushIf (web \<and> hasArea m ''contracts'') ''contracts''
      @ pushIf (web \<and> hasArea m ''backend'') ''backend''
      @ pushIf (signalled i ''security'' \<and> hasArea m ''backend'') ''backend''
      @ pushIf (signalled i ''finance-economics'' \<and> hasArea m ''backend'') ''backend''
      @ (if signalled i ''architecture'' then take 4 (filter (\<lambda>p. p \<noteq> ''docs'') (modulePaths m)) else []))"

definition selectContextCandidates :: "contextRadius \<Rightarrow> normalizedIntake \<Rightarrow> repositoryMap \<Rightarrow> string list" where
  "selectContextCandidates radius i m =
    (let named = namedOrInferred i m;
         tests = (if hasArea m ''tests'' then [''tests''] else [])
     in case radius of
          C0 \<Rightarrow> []
        | C1 \<Rightarrow> take 8 named
        | C2 \<Rightarrow> take 10 (unique (named @ tests))
        | C3 \<Rightarrow> take 12 (neighbors named m (tests @ relatedAreas named i m))
        | _ \<Rightarrow> take 16 (unique (named @ tests @ connectedAreas i m)))"

lemma set_pushIf [simp]: "set (pushIf b v) = (if b then {v} else {})"
  by (simp add: pushIf_def)

lemma set_inferred: "set (inferredAreas i m) \<subseteq> {a. hasArea m a}"
  by (auto simp: inferredAreas_def)

lemma set_named: "set (namedOrInferred i m) \<subseteq> set (in_affectedAreas i) \<union> {a. hasArea m a}"
  using set_inferred [of i m] by (auto simp: namedOrInferred_def set_unique)

lemma set_related: "set (relatedAreas named i m) \<subseteq> {a. hasArea m a}"
  by (auto simp: relatedAreas_def)

lemma set_connected: "set (connectedAreas i m) \<subseteq> {a. hasArea m a} \<union> set (modulePaths m)"
  by (auto simp: connectedAreas_def Let_def dest: in_set_takeD)

lemma set_take_mono: "set xs \<subseteq> A \<Longrightarrow> set (take n xs) \<subseteq> A"
  by (auto dest: in_set_takeD)

section \<open>Properties\<close>

text \<open>Whatever the radius, a context candidate is an area the intake names, an area that exists in
  the repository map, or one of its modules; nothing at radius C0, and at most 16 candidates.\<close>

theorem context_candidates_exist:
  "set (selectContextCandidates radius i m)
      \<subseteq> set (in_affectedAreas i) \<union> {a. hasArea m a} \<union> set (modulePaths m)
    \<and> length (selectContextCandidates radius i m) \<le> (case radius of C0 \<Rightarrow> 0 | C1 \<Rightarrow> 8 | C2 \<Rightarrow> 10 | C3 \<Rightarrow> 12 | _ \<Rightarrow> 16)"
proof (rule conjI)
  let ?A = "set (in_affectedAreas i) \<union> {a. hasArea m a} \<union> set (modulePaths m)"
  note parts = set_named [of i m] set_related [of "namedOrInferred i m" i m] set_connected [of i m]
  have c2: "set (unique (namedOrInferred i m @ (if hasArea m ''tests'' then [''tests''] else []))) \<subseteq> ?A"
    using parts by (auto simp: set_unique)
  have c3: "set (neighbors (namedOrInferred i m) m ((if hasArea m ''tests'' then [''tests''] else [])
      @ relatedAreas (namedOrInferred i m) i m)) \<subseteq> ?A"
    using parts by (auto simp: neighbors_def set_unique)
  have c4: "set (unique (namedOrInferred i m @ (if hasArea m ''tests'' then [''tests''] else [])
      @ connectedAreas i m)) \<subseteq> ?A"
    using parts by (auto simp: set_unique)
  have "set (namedOrInferred i m) \<subseteq> ?A" using parts by auto
  then show "set (selectContextCandidates radius i m) \<subseteq> ?A"
    using set_take_mono [OF c2, of 10] set_take_mono [OF c3, of 12] set_take_mono [OF c4, of 16]
      set_take_mono [of "namedOrInferred i m" ?A 8]
    unfolding selectContextCandidates_def Let_def
    by (cases radius) (simp_all only: contextRadius.case list.set empty_subsetI)
  show "length (selectContextCandidates radius i m)
      \<le> (case radius of C0 \<Rightarrow> 0 | C1 \<Rightarrow> 8 | C2 \<Rightarrow> 10 | C3 \<Rightarrow> 12 | _ \<Rightarrow> 16)"
    by (cases radius) (simp_all add: selectContextCandidates_def Let_def)
qed

end
