(* ===== verification/Change_Digest.thy ===== *)
theory Change_Digest
  imports Safe_Path
begin

text \<open>
  The change set of the work tree (\<^verbatim>\<open>src/kernel/change-digest.ts\<close>): the parsers of git's
  NUL-separated listings, the filter that drops unsafe and excluded paths, and the digest. Git
  output and the identity of a file's content are arguments.
\<close>

record porcelainEntry =
  pe_code :: string
  pe_path :: string
  pe_origPath :: "string option"

definition isRenameOrCopy :: "string \<Rightarrow> bool" where
  "isRenameOrCopy code \<longleftrightarrow> includes_text ''R'' code \<or> includes_text ''C'' code"

definition entry :: "string \<Rightarrow> string \<Rightarrow> string option \<Rightarrow> porcelainEntry" where
  "entry c p orig = \<lparr>pe_code = c, pe_path = p, pe_origPath = orig\<rparr>"

text \<open>The loop over the parts; a rename takes the next part, or nothing when there is none.\<close>

fun porcelainParts :: "string list \<Rightarrow> porcelainEntry list" where
  "porcelainParts [] = []"
| "porcelainParts (raw # rest) =
     (if raw = [] then porcelainParts rest
      else if length raw < 3 then porcelainParts rest
      else let code = take 2 raw; firstPath = replaceBackslashes (drop 3 raw)
           in if isRenameOrCopy code
              then (case rest of
                      [] \<Rightarrow> [entry code [] (Some firstPath)]
                    | dest # rest' \<Rightarrow> entry code (replaceBackslashes dest) (Some firstPath) # porcelainParts rest')
              else entry code firstPath None # porcelainParts rest)"

definition parseGitPorcelain :: "string \<Rightarrow> porcelainEntry list" where
  "parseGitPorcelain output = porcelainParts (split_on nul output)"

definition isWorktreeDirty :: "string \<Rightarrow> bool" where
  "isWorktreeDirty output \<longleftrightarrow> length (parseGitPorcelain output) > 0"

definition part0 :: "string list \<Rightarrow> string" where
  "part0 xs = (case xs of [] \<Rightarrow> [] | x # _ \<Rightarrow> x)"

fun nameStatusParts :: "string list \<Rightarrow> porcelainEntry list" where
  "nameStatusParts [] = []"
| "nameStatusParts (raw # rest) =
     (let status = trim raw; code = take 1 status
      in if status = [] then nameStatusParts rest
         else if code = ''R'' \<or> code = ''C'' then
           (let origPath = replaceBackslashes (part0 rest); pathName = replaceBackslashes (part0 (drop 1 rest));
                tail = nameStatusParts (drop 2 rest)
            in if origPath \<noteq> [] \<and> pathName \<noteq> []
               then entry (if take 2 status = [] then code else take 2 status) pathName (Some origPath) # tail
               else tail)
         else
           (let pathName = replaceBackslashes (part0 rest); tail = nameStatusParts (drop 1 rest)
            in if pathName \<noteq> [] then entry code pathName None # tail else tail))"

definition parseNameStatusZ :: "string \<Rightarrow> porcelainEntry list" where
  "parseNameStatusZ output = nameStatusParts (split_on nul output)"

definition pathHasExcludedSegment :: "string \<Rightarrow> bool" where
  "pathHasExcludedSegment p \<longleftrightarrow> list_ex isExcludedDirectoryName (nonEmptySegments p)"

text \<open>One entry of the listing: an unsafe or excluded path drops the entry.\<close>

definition safeEntry :: "porcelainEntry \<Rightarrow> porcelainEntry option" where
  "safeEntry e =
    (let candidates = filter (\<lambda>v. v \<noteq> []) (pe_path e # (case pe_origPath e of None \<Rightarrow> [] | Some o1 \<Rightarrow> [o1]))
     in case assertSafeRelativeProjectPath (pe_path e) of None \<Rightarrow> None
        | Some p \<Rightarrow>
            if truthy (pe_origPath e) then
              (case assertSafeRelativeProjectPath (or_empty (pe_origPath e)) of None \<Rightarrow> None
               | Some q \<Rightarrow> if list_ex pathHasExcludedSegment candidates then None
                           else Some (e\<lparr>pe_path := p, pe_origPath := Some q\<rparr>))
            else if list_ex pathHasExcludedSegment candidates then None
            else Some (e\<lparr>pe_path := p\<rparr>))"

definition listChangedEntries :: "string \<Rightarrow> porcelainEntry list" where
  "listChangedEntries output = List.map_filter safeEntry (parseGitPorcelain output)"

definition listChangedRelativePaths :: "'h host_scheme \<Rightarrow> string \<Rightarrow> string list" where
  "listChangedRelativePaths H output =
     sort_with (locale_le H)
       (dedup (concat (map (\<lambda>e. pe_path e # (if truthy (pe_origPath e) then [or_empty (pe_origPath e)] else []))
          (listChangedEntries output))))"

definition entryOrder :: "'h host_scheme \<Rightarrow> porcelainEntry \<Rightarrow> porcelainEntry \<Rightarrow> bool" where
  "entryOrder H a b \<longleftrightarrow>
     locale_le H (or_empty (pe_origPath a) @ '':'' @ pe_path a) (or_empty (pe_origPath b) @ '':'' @ pe_path b)"

definition entryKey :: "porcelainEntry \<Rightarrow> string" where
  "entryKey e = pe_code e @ '':'' @ or_empty (pe_origPath e) @ '':'' @ pe_path e"

text \<open>Entries whose key was seen are skipped.\<close>

fun firstByKey :: "string list \<Rightarrow> porcelainEntry list \<Rightarrow> porcelainEntry list" where
  "firstByKey seen [] = []"
| "firstByKey seen (e # es) =
     (if entryKey e \<in> set seen then firstByKey seen es
      else e # firstByKey (entryKey e # seen) es)"

definition origIdentity :: "(string \<Rightarrow> string) \<Rightarrow> porcelainEntry \<Rightarrow> string" where
  "origIdentity identity e = (if truthy (pe_origPath e) then identity (or_empty (pe_origPath e)) else [])"

definition digestLine :: "(string \<Rightarrow> string) \<Rightarrow> porcelainEntry \<Rightarrow> string" where
  "digestLine identity e =
     pe_path e @ '':'' @ pe_code e @ '':'' @ or_empty (pe_origPath e) @ '':'' @ identity (pe_path e) @ '':''
     @ origIdentity identity e"

definition newline :: string where "newline = [CHR 0x0A]"

definition computeChangeDigest ::
  "'h host_scheme \<Rightarrow> (string \<Rightarrow> string) \<Rightarrow> string \<Rightarrow> porcelainEntry list \<Rightarrow> string" where
  "computeChangeDigest H identity diff entries =
     sha256Hex H (join_with newline
       ((''diff:'' @ sha256Hex H diff)
        # map (digestLine identity) (firstByKey [] (sort_with (entryOrder H) entries))))"

definition computeLiveChangeDigest ::
  "'h host_scheme \<Rightarrow> (string \<Rightarrow> string) \<Rightarrow> string \<Rightarrow> string \<Rightarrow> string" where
  "computeLiveChangeDigest H identity diff status = computeChangeDigest H identity diff (listChangedEntries status)"

definition worktreeContentDigest :: "'h host_scheme \<Rightarrow> (string \<Rightarrow> string) \<Rightarrow> string \<Rightarrow> string" where
  "worktreeContentDigest H identity status =
    (let entries = listChangedEntries status
     in if length entries = 0 then sha256Hex H ''worktree:empty''
        else sha256Hex H (join_with newline
          (map (\<lambda>e. pe_code e @ [nul] @ pe_path e @ [nul] @ or_empty (pe_origPath e) @ [nul]
                  @ identity (pe_path e) @ [nul] @ origIdentity identity e)
            (sort_with (entryOrder H) entries))))"

section \<open>Facts\<close>

text \<open>
  An entry as git documents its print for \<^verbatim>\<open>status --porcelain=v1 -z\<close>: the code and the path, and
  for a rename or copy the new path first and the original second, each closed by NUL. This is a
  statement about git, not about code of this program.
\<close>

definition gitStatusRecord :: "porcelainEntry \<Rightarrow> string" where
  "gitStatusRecord e = pe_code e @ '' '' @ pe_path e @ [nul]
     @ (case pe_origPath e of None \<Rightarrow> [] | Some orig \<Rightarrow> orig @ [nul])"

definition exchangedPaths :: "porcelainEntry \<Rightarrow> porcelainEntry" where
  "exchangedPaths e =
     (case pe_origPath e of None \<Rightarrow> e | Some orig \<Rightarrow> e\<lparr>pe_path := orig, pe_origPath := Some (pe_path e)\<rparr>)"

definition plainPath :: "string \<Rightarrow> bool" where
  "plainPath p \<longleftrightarrow> nul \<notin> set p \<and> backslash \<notin> set p"

definition renderable :: "porcelainEntry \<Rightarrow> bool" where
  "renderable e \<longleftrightarrow> length (pe_code e) = 2 \<and> nul \<notin> set (pe_code e) \<and> plainPath (pe_path e)
     \<and> (\<forall>orig. pe_origPath e = Some orig \<longrightarrow> plainPath orig)
     \<and> (pe_origPath e \<noteq> None \<longleftrightarrow> isRenameOrCopy (pe_code e))"

lemma replaceBackslashes_plain: "backslash \<notin> set p \<Longrightarrow> replaceBackslashes p = p"
  unfolding replaceBackslashes_def by (induction p) auto

lemma parts_listing:
  assumes "renderable e"
  shows "porcelainParts (split_on nul (gitStatusRecord e @ rest)) = exchangedPaths e # porcelainParts (split_on nul rest)"
proof -
  have space: "nul \<noteq> CHR '' ''" by (simp add: nul_def)
  obtain c1 c2 where code: "pe_code e = [c1, c2]"
    using assms by (auto simp: renderable_def length_Suc_conv numeral_2_eq_2)
  show ?thesis
  proof (cases "pe_origPath e")
    case None
    then have "split_on nul (gitStatusRecord e @ rest) = (pe_code e @ '' '' @ pe_path e) # split_on nul rest"
      using assms space split_on_append [of nul "pe_code e @ '' '' @ pe_path e" rest]
      by (simp add: gitStatusRecord_def renderable_def plainPath_def)
    then show ?thesis
      using assms None code
      by (cases e) (simp add: renderable_def plainPath_def replaceBackslashes_plain entry_def exchangedPaths_def
          numeral_2_eq_2 numeral_3_eq_3)
  next
    case (Some orig)
    then have "split_on nul (gitStatusRecord e @ rest)
        = (pe_code e @ '' '' @ pe_path e) # orig # split_on nul rest"
      using assms space split_on_append [of nul "pe_code e @ '' '' @ pe_path e" "orig @ [nul] @ rest"]
        split_on_append [of nul orig rest]
      by (simp add: gitStatusRecord_def renderable_def plainPath_def)
    then show ?thesis
      using assms Some code
      by (cases e) (simp add: renderable_def plainPath_def replaceBackslashes_plain entry_def exchangedPaths_def
          numeral_2_eq_2 numeral_3_eq_3)
  qed
qed

lemma safeEntry_path:
  assumes "safeEntry e = Some f"
  shows "assertSafeRelativeProjectPath (pe_path e) = Some (pe_path f) \<and> \<not> pathHasExcludedSegment (pe_path e)"
proof -
  have "pe_path e \<noteq> []"
    using assms by (auto simp: safeEntry_def Let_def assertSafeRelativeProjectPath_def trim_def split: option.splits)
  then show ?thesis
    using assms by (auto simp: safeEntry_def Let_def split: option.splits if_splits)
qed

section \<open>Properties\<close>

text \<open>C28: a status listing as git prints it is parsed into its entries, in order and with their codes, but
  the two paths of every rename and copy are exchanged: git prints the new path first and the
  original second, and the parser takes the first for the original. This is so for two-letter codes,
  paths without NUL and backslash and an original path exactly on renames and copies; entries of any
  other kind come back unchanged.\<close>

theorem porcelain_listing_parsed:
  assumes "\<forall>e\<in>set es. renderable e"
  shows "parseGitPorcelain (concat (map gitStatusRecord es)) = map exchangedPaths es"
  using assms unfolding parseGitPorcelain_def
proof (induction es)
  case (Cons e es)
  then show ?case using parts_listing [of e "concat (map gitStatusRecord es)"] by simp
qed simp

lemma porcelain_listing_parsed_witness:
  "parseGitPorcelain ('' M src/a.ts'' @ [nul] @ ''R  new.ts'' @ [nul] @ ''old.ts'' @ [nul])
     = [entry '' M'' ''src/a.ts'' None, entry ''R '' ''old.ts'' (Some ''new.ts'')]"
proof -
  have "\<forall>e\<in>set [entry '' M'' ''src/a.ts'' None, entry ''R '' ''new.ts'' (Some ''old.ts'')]. renderable e"
    by (simp add: renderable_def entry_def plainPath_def isRenameOrCopy_def nul_def backslash_def)
  from porcelain_listing_parsed [OF this] show ?thesis
    by (simp add: gitStatusRecord_def exchangedPaths_def entry_def)
qed

text \<open>C29: every changed path that is listed is safe and has no excluded segment; in particular an edit
  under \<^verbatim>\<open>.uads\<close>, \<^verbatim>\<open>build\<close> or \<^verbatim>\<open>bin\<close> is never listed.\<close>

theorem changed_entries_safe:
  "\<forall>f\<in>set (listChangedEntries output). \<exists>e\<in>set (parseGitPorcelain output).
     assertSafeRelativeProjectPath (pe_path e) = Some (pe_path f) \<and> ''..'' \<notin> set (segments (pe_path f))
     \<and> (\<forall>d\<in>set EXCLUDED_DIRECTORY_NAMES. d \<notin> set (segments (pe_path e)))"
proof
  fix f assume "f \<in> set (listChangedEntries output)"
  then obtain e where e: "e \<in> set (parseGitPorcelain output)" "safeEntry e = Some f"
    by (auto simp: listChangedEntries_def List.map_filter_def)
  have ne: "d \<noteq> []" if "d \<in> set EXCLUDED_DIRECTORY_NAMES" for d
    using that by (auto simp: EXCLUDED_DIRECTORY_NAMES_def)
  note s = safeEntry_path [OF e(2)]
  have "''..'' \<notin> set (segments (pe_path f))"
    using s by (auto simp: assertSafeRelativeProjectPath_def Let_def split: if_splits)
  moreover have "\<forall>d\<in>set EXCLUDED_DIRECTORY_NAMES. d \<notin> set (segments (pe_path e))"
    using s ne by (auto simp: pathHasExcludedSegment_def nonEmptySegments_def list_ex_iff isExcludedDirectoryName_def)
  ultimately show "\<exists>e\<in>set (parseGitPorcelain output).
     assertSafeRelativeProjectPath (pe_path e) = Some (pe_path f) \<and> ''..'' \<notin> set (segments (pe_path f))
     \<and> (\<forall>d\<in>set EXCLUDED_DIRECTORY_NAMES. d \<notin> set (segments (pe_path e)))"
    using e(1) s by blast
qed

lemma changed_entries_safe_witness:
  "\<exists>e\<in>set (parseGitPorcelain ('' M src/a.ts'' @ [nul] @ '' M build/b.js'' @ [nul])).
     assertSafeRelativeProjectPath (pe_path e) = Some ''src/a.ts''"
proof -
  have "entry '' M'' ''src/a.ts'' None \<in> set (listChangedEntries ('' M src/a.ts'' @ [nul] @ '' M build/b.js'' @ [nul]))"
    by code_simp
  from bspec [OF changed_entries_safe this] show ?thesis by (auto simp: entry_def)
qed

end
