(* ===== verification/Worktree.thy ===== *)
theory Worktree
  imports Change_Digest Scope_Guard Execution_Types
begin

text \<open>
  The project's work tree as the kernel sees it, and the change set of a run
  (\<open>describeSymlinkChange\<close>, \<open>fileContentIdentity\<close> and the digest of
  \<^verbatim>\<open>src/kernel/change-digest.ts\<close>; \<open>buildChangeSet\<close> and \<open>hashProjectFileEvidence\<close> of
  \<^verbatim>\<open>execution.ts\<close>). What git prints and what a path holds are data of the work tree; it does
  not change while one operation runs.
\<close>

text \<open>A symbolic link has its target and whether it resolves; a special file its mode.\<close>

datatype treeFile = NoFile | RegularFile string | SymlinkFile string bool | SpecialFile string

record worktree =
  wt_status :: string
  wt_diff :: string
  wt_gitHead :: "string option"
  wt_file :: "string \<Rightarrow> treeFile"

definition fileAt :: "worktree \<Rightarrow> string \<Rightarrow> treeFile" where
  "fileAt W relative = wt_file W (normalizeRelative relative)"

text \<open>\<open>isPathInside(repoRoot, path.resolve(repoRoot, relative))\<close>\<close>

definition insideRepo :: "string \<Rightarrow> bool" where
  "insideRepo relative \<longleftrightarrow> \<not> starts_with ''..'' (normalizeRelative relative)"

text \<open>\<open>fs.existsSync\<close>: a link that does not resolve does not exist.\<close>

fun existsFile :: "treeFile \<Rightarrow> bool" where
  "existsFile NoFile = False"
| "existsFile (SymlinkFile _ resolves) = resolves"
| "existsFile _ = True"

section \<open>Identities and the change digest\<close>

definition unsupportedTarget :: "string \<Rightarrow> bool" where
  "unsupportedTarget target \<longleftrightarrow> starts_with ''/'' target \<or> windowsDrive target
     \<or> starts_with [backslash, backslash] target \<or> includes_text ''..'' target"

text \<open>The identity of a link, and the reason when it is blocked.\<close>

definition describeSymlinkChange :: "'h host_scheme \<Rightarrow> string \<Rightarrow> string \<Rightarrow> string \<times> string option" where
  "describeSymlinkChange H relative target =
    (if \<not> insideRepo relative then (''escape'', Some ''symlink path escape'')
     else if unsupportedTarget target
     then (''symlink-blocked:'' @ sha256Hex H target, Some ''unsupported symlink target'')
     else (''symlink:'' @ sha256Hex H target, None))"

definition fileContentIdentity :: "'h host_scheme \<Rightarrow> worktree \<Rightarrow> string \<Rightarrow> uadsError + string" where
  "fileContentIdentity H W relative =
    (if \<not> insideRepo relative then Inl (PlainError ''path traversal rejected'')
     else Inr (if \<not> existsFile (fileAt W relative) then ''deleted''
       else case fileAt W relative of
              NoFile \<Rightarrow> ''deleted''
            | SymlinkFile target _ \<Rightarrow> fst (describeSymlinkChange H relative target)
            | SpecialFile mode \<Rightarrow> ''special:'' @ mode
            | RegularFile content \<Rightarrow> sha256Hex H content))"

definition identityOf :: "'h host_scheme \<Rightarrow> worktree \<Rightarrow> string \<Rightarrow> string" where
  "identityOf H W p = (case fileContentIdentity H W p of Inr i \<Rightarrow> i | Inl _ \<Rightarrow> [])"

definition entryPaths :: "porcelainEntry list \<Rightarrow> string list" where
  "entryPaths entries =
     concat (map (\<lambda>e. filter (\<lambda>p. p \<noteq> []) [pe_path e, or_empty (pe_origPath e)]) entries)"

text \<open>\<open>computeChangeDigest\<close>, which throws when the identity of a path does.\<close>

definition liveDigestOf :: "'h host_scheme \<Rightarrow> worktree \<Rightarrow> porcelainEntry list \<Rightarrow> uadsError + string" where
  "liveDigestOf H W entries =
    (if list_all insideRepo (entryPaths entries)
     then Inr (computeChangeDigest H (identityOf H W) (wt_diff W) entries)
     else Inl (PlainError ''path traversal rejected''))"

definition liveDigest :: "'h host_scheme \<Rightarrow> worktree \<Rightarrow> uadsError + string" where
  "liveDigest H W = liveDigestOf H W (listChangedEntries (wt_status W))"

section \<open>The change set of a run\<close>

definition changedPathsOf :: "'h host_scheme \<Rightarrow> porcelainEntry list \<Rightarrow> string list" where
  "changedPathsOf H entries = sort_with (locale_le H) (dedup (entryPaths entries))"

definition changedFileOf ::
  "'h host_scheme \<Rightarrow> worktree \<Rightarrow> workOrder \<Rightarrow> contextPlan option \<Rightarrow> string \<Rightarrow> changedFile" where
  "changedFileOf H W w plan relative =
    (let blocked = (case fileAt W relative of
           SymlinkFile target True \<Rightarrow> snd (describeSymlinkChange H relative target) | _ \<Rightarrow> None);
         c = classifyChangedPath relative w plan
     in case blocked of
          Some reason \<Rightarrow> \<lparr>cf_path = relative, cf_classification = Sensitive, cf_reason = reason\<rparr>
        | None \<Rightarrow> \<lparr>cf_path = relative, cf_classification = fst c, cf_reason = snd c\<rparr>)"

definition violationOf :: "changedFile \<Rightarrow> scopeViolation option" where
  "violationOf f =
    (if cf_classification f = OutOfScope \<or> cf_classification f = Sensitive
     then Some \<lparr>sv_path = cf_path f, sv_classification = cf_classification f, sv_reason = cf_reason f\<rparr>
     else None)"

definition buildChangeSet ::
  "'h host_scheme \<Rightarrow> worktree \<Rightarrow> workOrder \<Rightarrow> contextPlan option \<Rightarrow> uadsError + changeSet" where
  "buildChangeSet H W w plan =
    (let entries = listChangedEntries (wt_status W);
         files = map (changedFileOf H W w plan) (changedPathsOf H entries)
     in map_sum id (\<lambda>d. \<lparr>ch_digest = d, ch_files = files, ch_violations = List.map_filter violationOf files\<rparr>)
          (liveDigestOf H W entries))"

text \<open>
  File evidence has to be a regular file of the repository that holds no secrets. The reason of an
  unsafe path is not modelled.
\<close>

definition hashProjectFileEvidence ::
  "'h host_scheme \<Rightarrow> worktree \<Rightarrow> string \<Rightarrow> uadsError + (string \<times> string)" where
  "hashProjectFileEvidence H W relativePath =
    (case assertSafeRelativeProjectPath relativePath of
       None \<Rightarrow> Inl (PlainError ''unsafe project path'')
     | Some relative \<Rightarrow>
         if isSensitiveDataFile relative
         then Inl (ExecutionBlocked ''sensitive file evidence rejected'' [''sensitive:'' @ relative])
         else if \<not> insideRepo relative
         then Inl (ExecutionBlocked ''path traversal rejected'' [''file path traversal''])
         else if \<not> existsFile (fileAt W relative)
         then Inl (ExecutionBlocked ''evidence file not found'' [''missing file''])
         else case fileAt W relative of
                RegularFile content \<Rightarrow> Inr (relative, sha256Hex H content)
              | _ \<Rightarrow> Inl (ExecutionBlocked ''file evidence must be a regular file inside the repository''
                         [''invalid file evidence'']))"

section \<open>Facts\<close>

lemma buildChangeSet_Inr:
  "buildChangeSet H W w plan = Inr c \<longleftrightarrow>
     (\<exists>d. liveDigest H W = Inr d
        \<and> c = \<lparr>ch_digest = d,
               ch_files = map (changedFileOf H W w plan) (changedPathsOf H (listChangedEntries (wt_status W))),
               ch_violations = List.map_filter violationOf
                 (map (changedFileOf H W w plan) (changedPathsOf H (listChangedEntries (wt_status W))))\<rparr>)"
  by (cases "liveDigest H W") (auto simp: buildChangeSet_def liveDigest_def Let_def)

lemma changedFileOf_path [simp]: "cf_path (changedFileOf H W w plan p) = p"
  by (simp add: changedFileOf_def Let_def split: option.split)

lemma no_violations_iff:
  "List.map_filter violationOf fs = [] \<longleftrightarrow>
     (\<forall>f\<in>set fs. cf_classification f = InScope \<or> cf_classification f = Supporting)"
proof (induction fs)
  case (Cons f fs)
  then show ?case
    by (cases "cf_classification f") (simp_all add: violationOf_def List.map_filter_simps)
qed (simp add: List.map_filter_simps)

lemma set_entryPaths:
  "p \<in> set (entryPaths es) \<longleftrightarrow> p \<noteq> [] \<and> (\<exists>e\<in>set es. p = pe_path e \<or> pe_origPath e = Some p)"
proof -
  have "set (entryPaths es) = (\<Union>e\<in>set es. {pe_path e, or_empty (pe_origPath e)}) - {[]}"
    by (auto simp: entryPaths_def split: if_splits)
  moreover have "p \<noteq> [] \<Longrightarrow> p = or_empty (pe_origPath e) \<longleftrightarrow> pe_origPath e = Some p" for e
    by (cases "pe_origPath e") (auto simp: or_empty_def)
  ultimately show ?thesis by blast
qed

lemma classify_sensitive:
  assumes "fst (classifyChangedPath p w plan) \<noteq> Sensitive"
  shows "\<not> secretBearing (replaceBackslashes p) \<and> \<not> isProjectOperationalPath (replaceBackslashes p)"
proof (rule ccontr)
  assume "\<not> (\<not> secretBearing (replaceBackslashes p) \<and> \<not> isProjectOperationalPath (replaceBackslashes p))"
  then have "fst (classifyChangedPath p w plan) = Sensitive"
    unfolding classifyChangedPath_def Let_def by (cases "secretBearing (replaceBackslashes p)") simp_all
  then show False using assms by simp
qed

section \<open>Properties\<close>

text \<open>C14: a change set without violations has classified every path of the listing: each of them, and
  each origin of a rename, is in scope or supporting, and none is a secret-bearing or operational
  path.\<close>

theorem clean_change_set_in_scope:
  assumes "buildChangeSet H W w plan = Inr c" "ch_violations c = []"
  shows "(\<forall>e\<in>set (listChangedEntries (wt_status W)). \<forall>p\<in>insert (pe_path e) (set_option (pe_origPath e)) - {[]}.
      (\<exists>f\<in>set (ch_files c). cf_path f = p \<and> cf_classification f \<in> {InScope, Supporting}
         \<and> cf_classification f = fst (classifyChangedPath p w plan))
      \<and> \<not> secretBearing (replaceBackslashes p) \<and> \<not> isProjectOperationalPath (replaceBackslashes p))"
proof (intro ballI)
  fix e p assume e: "e \<in> set (listChangedEntries (wt_status W))" and p: "p \<in> insert (pe_path e) (set_option (pe_origPath e)) - {[]}"
  let ?f = "changedFileOf H W w plan p"
  have mem: "?f \<in> set (ch_files c)"
    using assms(1) e p by (fastforce simp: buildChangeSet_Inr changedPathsOf_def set_entryPaths)
  have ok: "cf_classification ?f = InScope \<or> cf_classification ?f = Supporting"
    using assms mem unfolding buildChangeSet_Inr by (metis changeSet.select_convs(2,3) no_violations_iff)
  then have cls: "cf_classification ?f = fst (classifyChangedPath p w plan)"
    by (auto simp: changedFileOf_def Let_def split: option.splits)
  have "\<not> secretBearing (replaceBackslashes p) \<and> \<not> isProjectOperationalPath (replaceBackslashes p)"
    using ok unfolding cls by (intro classify_sensitive [of p w plan]) auto
  then show "(\<exists>f\<in>set (ch_files c). cf_path f = p \<and> cf_classification f \<in> {InScope, Supporting}
         \<and> cf_classification f = fst (classifyChangedPath p w plan))
      \<and> \<not> secretBearing (replaceBackslashes p) \<and> \<not> isProjectOperationalPath (replaceBackslashes p)"
    using mem ok cls by (intro conjI bexI [of _ ?f]) auto
qed

definition demoTree :: worktree where
  "demoTree = \<lparr>wt_status = '' M src/a.ts'' @ [nul], wt_diff = ''diff'', wt_gitHead = Some ''h1'',
     wt_file = (\<lambda>p. if p = ''src/a.ts'' then RegularFile ''text'' else NoFile)\<rparr>"

lemma demo_entries: "listChangedEntries (wt_status demoTree) = [entry '' M'' ''src/a.ts'' None]"
  by code_simp

lemma demo_change_set:
  "\<exists>c. buildChangeSet plain_host demoTree demoWorkOrder None = Inr c \<and> ch_violations c = []
     \<and> map cf_path (ch_files c) = [''src/a.ts'']"
proof -
  have "case buildChangeSet plain_host demoTree demoWorkOrder None of Inl _ \<Rightarrow> False
      | Inr c \<Rightarrow> ch_violations c = [] \<and> map cf_path (ch_files c) = [''src/a.ts'']"
    by code_simp
  then show ?thesis by (cases "buildChangeSet plain_host demoTree demoWorkOrder None") auto
qed

lemma clean_change_set_in_scope_witness:
  "fst (classifyChangedPath ''src/a.ts'' demoWorkOrder None) \<in> {InScope, Supporting}"
proof -
  obtain c where c: "buildChangeSet plain_host demoTree demoWorkOrder None = Inr c" "ch_violations c = []"
    using demo_change_set by blast
  have "entry '' M'' ''src/a.ts'' None \<in> set (listChangedEntries (wt_status demoTree))" by (simp add: demo_entries)
  from bspec [OF bspec [OF clean_change_set_in_scope [OF c] this], of "''src/a.ts''"]
  show ?thesis by (auto simp: entry_def)
qed

end
