(* ===== verification/Gate_Reuse_Contract.thy ===== *)
theory Gate_Reuse_Contract
  imports Cache_Types Intelligence_Types Json
begin

text \<open>
  The contract a cached gate result is reused under (\<^verbatim>\<open>src/kernel/gate-reuse-contract.ts\<close>): the
  command a gate runs, the identity of that contract, the tool chain that produced the result, and
  the proof digest over all of it. The probes of the project directory are a record of functions.
  Lookups in object literals see the literal's own members only.
\<close>

datatype jsonProbe = ProbeMissing | ProbeUnsafe | ProbeInvalid | ProbeValid "(string \<times> json) list"

record repoProbe = hostEnvironment +
  re_exists :: "string \<Rightarrow> bool"
  re_json :: "string \<Rightarrow> jsonProbe"
  re_nodeVersion :: string

definition GATE_REUSE_CONTRACT_VERSION :: string where
  "GATE_REUSE_CONTRACT_VERSION = ''0.6.0-c1''"

definition GATE_SCRIPT_KEYS :: "string \<Rightarrow> string list option" where
  "GATE_SCRIPT_KEYS = map_of
    [(''static'', [''lint'', ''typecheck'']), (''unit-test'', [''test'', ''unit-test'']),
     (''contract-test'', [''test'', ''contract-test'']), (''build'', [''build'']),
     (''web3-unit'', [''test'', ''web3-test'']), (''dependency-audit'', [''audit'']),
     (''database-migration'', [''migrate'']), (''release-check'', [''release''])]"

definition detectPackageManager :: "'p repoProbe_scheme \<Rightarrow> string option" where
  "detectPackageManager E =
     (if re_exists E ''pnpm-lock.yaml'' then Some ''pnpm''
      else if re_exists E ''yarn.lock'' then Some ''yarn''
      else if re_exists E ''bun.lock'' then Some ''bun''
      else if re_exists E ''package-lock.json'' then Some ''npm''
      else if re_exists E ''package.json'' then Some ''npm''
      else None)"

definition packageScriptInvocation :: "string option \<Rightarrow> string \<Rightarrow> string" where
  "packageScriptInvocation pm scriptKey =
    (let runner = (if pm = Some ''pnpm'' then ''pnpm'' else if pm = Some ''yarn'' then ''yarn''
                   else if pm = Some ''bun'' then ''bun'' else ''npm'')
     in if scriptKey = ''test'' then runner @ '' test'' else runner @ '' run '' @ scriptKey)"

fun commandFromKeys :: "repositoryMap \<Rightarrow> string list \<Rightarrow> string option" where
  "commandFromKeys m [] = None"
| "commandFromKeys m (key # keys) =
     (if truthy (map_commands m key) \<and> trim (or_empty (map_commands m key)) \<noteq> []
      then let invocation = packageScriptInvocation (map_packageManager m) key
           in case normalizeCommandIdentity (map_commands m key) of
                None \<Rightarrow> normalizeCommandIdentity (Some invocation)
              | Some scriptNorm \<Rightarrow> normalizeCommandIdentity (Some (invocation @ '' :: '' @ scriptNorm))
      else commandFromKeys m keys)"

definition deriveNormalizedCommandFromMap :: "string \<Rightarrow> repositoryMap option \<Rightarrow> string option" where
  "deriveNormalizedCommandFromMap gateId m =
     (case m of None \<Rightarrow> None
      | Some rm \<Rightarrow> (case GATE_SCRIPT_KEYS gateId of None \<Rightarrow> None | Some keys \<Rightarrow> commandFromKeys rm keys))"

record gateReuseContract =
  gc_gateId :: string
  gc_contractKind :: gateContractKind
  gc_normalizedCommandIdentity :: "string option"
  gc_gateReuseContractIdentity :: string
  gc_derivable :: bool

definition buildGateReuseContract :: "'h host_scheme \<Rightarrow> string \<Rightarrow> repositoryMap option \<Rightarrow> gateReuseContract" where
  "buildGateReuseContract H gateId m =
    (let kind = (case lookupGate gateId of Some d \<Rightarrow> gd_contractKind d | None \<Rightarrow> CommandGate);
         command = (if kind = CommandGate then deriveNormalizedCommandFromMap gateId m else None);
         derivable = (if kind = CommandGate then command \<noteq> None else kind = InvariantGate);
         material = join_with ''|'' [gateId, contract_kind_text kind, GATE_REUSE_CONTRACT_VERSION,
           or_empty command, CACHE_POLICY_IDENTITY]
     in \<lparr>gc_gateId = gateId, gc_contractKind = kind, gc_normalizedCommandIdentity = command,
         gc_gateReuseContractIdentity = sha256Hex H material, gc_derivable = derivable\<rparr>)"

section \<open>Producer of a result\<close>

definition SUPPORTED_PRODUCERS :: "string \<Rightarrow> string option" where
  "SUPPORTED_PRODUCERS = map_of
    [(''vitest'', ''vitest''), (''jest'', ''jest''), (''tsc'', ''typescript''), (''eslint'', ''eslint''),
     (''vite'', ''vite''), (''webpack'', ''webpack''), (''rollup'', ''rollup''), (''next'', ''next''),
     (''tsup'', ''tsup'')]"

definition is_digit_char :: "char \<Rightarrow> bool" where
  "is_digit_char c \<longleftrightarrow> (let n = of_char c :: nat in 48 \<le> n \<and> n \<le> 57)"

definition is_word_char :: "char \<Rightarrow> bool" where
  "is_word_char c \<longleftrightarrow> (let n = of_char c :: nat
     in (48 \<le> n \<and> n \<le> 57) \<or> (65 \<le> n \<and> n \<le> 90) \<or> (97 \<le> n \<and> n \<le> 122) \<or> n = 95)"

text \<open>One number and the text after it.\<close>

definition takeNumber :: "string \<Rightarrow> string option" where
  "takeNumber s = (if takeWhile is_digit_char s = [] then None else Some (dropWhile is_digit_char s))"

definition takeDot :: "string \<Rightarrow> string option" where
  "takeDot s = (case s of [] \<Rightarrow> None | c # cs \<Rightarrow> if c = CHR ''.'' then Some cs else None)"

text \<open>\<open>/^\d+\.\d+\.\d+(?:[-+][\w.]+)?$/\<close>\<close>

definition exactVersion :: "string \<Rightarrow> bool" where
  "exactVersion s =
    (case Option.bind (Option.bind (Option.bind (Option.bind (takeNumber s) takeDot) takeNumber) takeDot) takeNumber of
       None \<Rightarrow> False
     | Some rest \<Rightarrow>
         (case rest of [] \<Rightarrow> True
          | c # cs \<Rightarrow> (c = CHR ''-'' \<or> c = CHR ''+'') \<and> cs \<noteq> [] \<and> list_all (\<lambda>d. is_word_char d \<or> d = CHR ''.'') cs))"

definition isExactVersionSpec :: "string \<Rightarrow> bool" where
  "isExactVersionSpec v =
    (let trimmed = trim v
     in if trimmed = [] \<or> includes_text ''^'' trimmed \<or> includes_text ''~'' trimmed
           \<or> includes_text ''*'' trimmed \<or> includes_text ''x'' trimmed then False
        else if starts_with ''>'' trimmed \<or> starts_with ''<'' trimmed \<or> includes_text ''||'' trimmed then False
        else exactVersion trimmed)"

datatype versionEvidence = VersionMissing | VersionValid string string | VersionInvalid string

definition versionOfEntry :: "string \<Rightarrow> json option \<Rightarrow> versionEvidence" where
  "versionOfEntry from v =
     (case v of Some (JStr s) \<Rightarrow> if isExactVersionSpec s then VersionValid s from
                                 else VersionInvalid ''PRODUCER_VERSION_UNRESOLVED''
      | _ \<Rightarrow> VersionInvalid ''PRODUCER_VERSION_UNRESOLVED'')"

text \<open>An entry of a lock file, when it is there: an object with a version.\<close>

definition lockEntry :: "json \<Rightarrow> versionEvidence" where
  "lockEntry e = (case e of JObj members \<Rightarrow> versionOfEntry ''lockfile'' (map_of members ''version'')
                  | _ \<Rightarrow> VersionInvalid ''PRODUCER_METADATA_INVALID'')"

definition resolveFromNpmLock :: "'p repoProbe_scheme \<Rightarrow> string \<Rightarrow> versionEvidence" where
  "resolveFromNpmLock E packageName =
    (case re_json E ''package-lock.json'' of
       ProbeMissing \<Rightarrow> VersionMissing
     | ProbeUnsafe \<Rightarrow> VersionInvalid ''PRODUCER_METADATA_UNSAFE_PATH''
     | ProbeInvalid \<Rightarrow> VersionInvalid ''PRODUCER_METADATA_INVALID''
     | ProbeValid lock \<Rightarrow>
         let nested = (case map_of lock ''dependencies'' of
                None \<Rightarrow> VersionMissing
              | Some (JObj dependencies) \<Rightarrow>
                  (case map_of dependencies packageName of None \<Rightarrow> VersionMissing | Some e \<Rightarrow> lockEntry e)
              | Some _ \<Rightarrow> VersionInvalid ''PRODUCER_METADATA_INVALID'')
         in case map_of lock ''packages'' of
              None \<Rightarrow> nested
            | Some (JObj packages) \<Rightarrow>
                (case map_of packages (''node_modules/'' @ packageName) of
                   None \<Rightarrow> nested
                 | Some e \<Rightarrow> lockEntry e)
            | Some _ \<Rightarrow> VersionInvalid ''PRODUCER_METADATA_INVALID'')"

definition resolveFromNodeModules :: "'p repoProbe_scheme \<Rightarrow> string \<Rightarrow> versionEvidence" where
  "resolveFromNodeModules E packageName =
    (case re_json E (''node_modules/'' @ packageName @ ''/package.json'') of
       ProbeMissing \<Rightarrow> VersionMissing
     | ProbeUnsafe \<Rightarrow> VersionInvalid ''PRODUCER_METADATA_UNSAFE_PATH''
     | ProbeInvalid \<Rightarrow> VersionInvalid ''PRODUCER_METADATA_INVALID''
     | ProbeValid pkg \<Rightarrow> versionOfEntry ''node_modules'' (map_of pkg ''version''))"

text \<open>The dependency tables of the package manifest; \<open>None\<close> when one of them is not an object.\<close>

definition dependencyTables :: "(string \<times> json) list \<Rightarrow> (string \<times> json) list list option" where
  "dependencyTables pkg =
     those (map (\<lambda>raw. case raw of JObj vs \<Rightarrow> Some vs | _ \<Rightarrow> None)
       (List.map_filter (map_of pkg) [''dependencies'', ''devDependencies'']))"

definition resolveFromPackageJsonExact :: "'p repoProbe_scheme \<Rightarrow> string \<Rightarrow> versionEvidence" where
  "resolveFromPackageJsonExact E packageName =
    (case re_json E ''package.json'' of
       ProbeMissing \<Rightarrow> VersionMissing
     | ProbeUnsafe \<Rightarrow> VersionInvalid ''PRODUCER_METADATA_UNSAFE_PATH''
     | ProbeInvalid \<Rightarrow> VersionInvalid ''PRODUCER_METADATA_INVALID''
     | ProbeValid pkg \<Rightarrow>
         (case dependencyTables pkg of
            None \<Rightarrow> VersionInvalid ''PRODUCER_METADATA_INVALID''
          | Some tables \<Rightarrow>
              let specs = List.map_filter (\<lambda>t. map_of t packageName) tables;
                  texts = map (\<lambda>v. case v of JStr s \<Rightarrow> trim s | _ \<Rightarrow> []) specs
              in if specs = [] then VersionMissing
                 else if list_ex (\<lambda>t. t = []) texts then VersionInvalid ''PRODUCER_METADATA_INVALID''
                 else if length (dedup texts) > 1 then VersionInvalid ''PRODUCER_VERSION_AMBIGUOUS''
                 else if isExactVersionSpec (hd texts) then VersionValid (hd texts) ''package-json-exact''
                 else VersionMissing))"

text \<open>The version all sources agree on, with the sources, or the reason there is none.\<close>

definition resolveProducerVersion :: "'p repoProbe_scheme \<Rightarrow> string \<Rightarrow> string list + (string \<times> string option)" where
  "resolveProducerVersion E npmPackage =
    (let sources = [resolveFromNpmLock E npmPackage, resolveFromNodeModules E npmPackage,
                    resolveFromPackageJsonExact E npmPackage];
         valid = List.map_filter (\<lambda>s. case s of VersionValid v f \<Rightarrow> if v \<noteq> [] \<and> f \<noteq> [] then Some (v, f) else None
                                      | _ \<Rightarrow> None) sources;
         versions = dedup (map fst valid)
     in case find (\<lambda>s. case s of VersionInvalid _ \<Rightarrow> True | _ \<Rightarrow> False) sources of
          Some (VersionInvalid code) \<Rightarrow> Inl [code]
        | _ \<Rightarrow>
            if length versions = 0 then Inl [''PRODUCER_VERSION_UNRESOLVED'']
            else if length versions > 1 then Inl [''PRODUCER_VERSION_AMBIGUOUS'']
            else Inr (hd versions,
              let from = join_with ''+'' (map snd valid) in if from = [] then None else Some from))"

text \<open>The script behind \<open>invocation :: script\<close>: the text after the first \<^verbatim>\<open>::\<close>.\<close>

fun afterColons :: "string \<Rightarrow> string option" where
  "afterColons (c # d # cs) = (if c = CHR '':'' \<and> d = CHR '':'' then Some cs else afterColons (d # cs))"
| "afterColons _ = None"

definition scriptBodyFromNormalizedCommand :: "string option \<Rightarrow> string option" where
  "scriptBodyFromNormalizedCommand command =
     (if \<not> truthy command then None
      else case afterColons (or_empty command) of
             Some body \<Rightarrow> Some (trim body)
           | None \<Rightarrow> Some (trim (or_empty command)))"

definition afterLastSeparator :: "string \<Rightarrow> string" where
  "afterLastSeparator s = rev (takeWhile (\<lambda>c. c \<noteq> CHR ''/'' \<and> c \<noteq> CHR 0x5C) (rev s))"

definition detectProducerFromScript :: "string \<Rightarrow> (string \<times> string) option" where
  "detectProducerFromScript body =
    (let trimmed = trim body; bare = afterLastSeparator (takeWhile (\<lambda>c. \<not> is_space c) trimmed)
     in if trimmed = [] then None
        else case SUPPORTED_PRODUCERS bare of None \<Rightarrow> None
          | Some npmPackage \<Rightarrow> Some (if bare = ''tsc'' then ''typescript'' else bare, npmPackage))"

record toolchainResult =
  tc_provable :: bool
  tc_identity :: "(string \<times> string) list"
  tc_producerFamily :: "string option"
  tc_producerVersion :: "string option"
  tc_reasonCodes :: "string list"

definition baseToolIdentity :: "'p repoProbe_scheme \<Rightarrow> indexBundle option \<Rightarrow> (string \<times> string) list" where
  "baseToolIdentity E bundle =
     [(''node'', re_nodeVersion E), (''platform'', he_platform E), (''runtimeFamily'', ''node'')]
   @ (case detectPackageManager E of None \<Rightarrow> [] | Some pm \<Rightarrow> [(''packageManager'', pm)])
   @ (case bundle of None \<Rightarrow> []
      | Some b \<Rightarrow> List.map_filter (\<lambda>rel. map_option (\<lambda>d. (''manifestDigest:'' @ rel, d)) (fileDigestOf b rel))
          MANIFEST_BASIS_PATHS)"

definition resolveToolchainIdentity ::
  "'p repoProbe_scheme \<Rightarrow> string option \<Rightarrow> indexBundle option \<Rightarrow> toolchainResult" where
  "resolveToolchainIdentity E command bundle =
    (let identity = baseToolIdentity E bundle;
         unprovable = (\<lambda>family codes. \<lparr>tc_provable = False, tc_identity = identity, tc_producerFamily = family,
           tc_producerVersion = None, tc_reasonCodes = ''TOOLCHAIN_UNPROVABLE'' # codes\<rparr>)
     in if \<not> truthy (scriptBodyFromNormalizedCommand command) then unprovable None [''MISSING_SCRIPT_BODY'']
        else case detectProducerFromScript (or_empty (scriptBodyFromNormalizedCommand command)) of
          None \<Rightarrow> unprovable None [''UNSUPPORTED_PRODUCER'']
        | Some (family, npmPackage) \<Rightarrow>
            (case resolveProducerVersion E npmPackage of
               Inl codes \<Rightarrow> unprovable (Some family) codes
             | Inr (version, from) \<Rightarrow>
                 \<lparr>tc_provable = True,
                  tc_identity = identity @ [(''producerFamily'', family), (''producerVersion'', version)]
                    @ (case from of None \<Rightarrow> [] | Some f \<Rightarrow> [(''producerResolvedFrom'', f)]),
                  tc_producerFamily = Some family, tc_producerVersion = Some version, tc_reasonCodes = []\<rparr>))"

section \<open>Proof digest\<close>

definition digestLines :: "'h host_scheme \<Rightarrow> string \<Rightarrow> (string \<times> string) list \<Rightarrow> string list" where
  "digestLines H prefix kvs =
     map (\<lambda>kv. prefix @ '':'' @ fst kv @ ''='' @ snd kv) (sort_with (\<lambda>a b. locale_le H (fst a) (fst b)) kvs)"

definition computeReuseProofDigest ::
  "'h host_scheme \<Rightarrow> string \<Rightarrow> string \<Rightarrow> string option \<Rightarrow> (string \<times> string) list \<Rightarrow> (string \<times> string) list
     \<Rightarrow> (string \<times> string) list \<Rightarrow> string option \<Rightarrow> string \<Rightarrow> string" where
  "computeReuseProofDigest H projectId contract command basis manifests tools environment policy =
     sha256Hex H (join_with [CHR 0x0A]
       ([projectId, contract, or_empty command, policy, or_empty environment]
        @ digestLines H ''basis'' basis @ digestLines H ''manifest'' manifests @ digestLines H ''tool'' tools))"

section \<open>Properties\<close>

lemma resolve_version_agrees:
  assumes "resolveProducerVersion E pkg = Inr (v, from)"
  shows "v \<noteq> [] \<and> (\<forall>s\<in>{resolveFromNpmLock E pkg, resolveFromNodeModules E pkg, resolveFromPackageJsonExact E pkg}.
      s = VersionMissing \<or> (\<exists>f. s = VersionValid v f) \<or> (\<exists>f. s = VersionValid [] f) \<or> (\<exists>w. s = VersionValid w []))"
proof -
  define sources where "sources = [resolveFromNpmLock E pkg, resolveFromNodeModules E pkg, resolveFromPackageJsonExact E pkg]"
  define valid where "valid = List.map_filter (\<lambda>s. case s of VersionValid v f \<Rightarrow> if v \<noteq> [] \<and> f \<noteq> [] then Some (v, f) else None
                                      | _ \<Rightarrow> None) sources"
  have none: "find (\<lambda>s. case s of VersionInvalid _ \<Rightarrow> True | _ \<Rightarrow> False) sources = None"
  proof (rule ccontr)
    assume "find (\<lambda>s. case s of VersionInvalid _ \<Rightarrow> True | _ \<Rightarrow> False) sources \<noteq> None"
    then obtain x where x: "find (\<lambda>s. case s of VersionInvalid _ \<Rightarrow> True | _ \<Rightarrow> False) sources = Some x"
      by blast
    then have "case x of VersionInvalid _ \<Rightarrow> True | _ \<Rightarrow> False" by (auto simp: find_Some_iff)
    then obtain c where "find (\<lambda>s. case s of VersionInvalid _ \<Rightarrow> True | _ \<Rightarrow> False) sources = Some (VersionInvalid c)"
      using x by (cases x) simp_all
    then show False using assms by (simp add: resolveProducerVersion_def Let_def sources_def)
  qed
  have one: "dedup (map fst valid) \<noteq> []" "\<not> length (dedup (map fst valid)) > 1" "v = hd (dedup (map fst valid))"
    using assms none unfolding resolveProducerVersion_def Let_def sources_def [symmetric] valid_def [symmetric]
    by (auto split: if_splits)
  then have dv: "dedup (map fst valid) = [v]"
    by (cases "dedup (map fst valid)") auto
  have "set (map fst valid) = set (dedup (map fst valid))" by (simp only: set_dedup)
  also have "\<dots> = {v}" by (simp only: dv list.set)
  finally have fsts: "fst ` set valid = {v}" by simp
  have nonempty: "w \<noteq> []" if mem: "(w, f) \<in> set valid" for w f
  proof -
    obtain s where "(case s of VersionValid v f \<Rightarrow> if v \<noteq> [] \<and> f \<noteq> [] then Some (v, f) else None
        | _ \<Rightarrow> None) = Some (w, f)"
      using mem unfolding valid_def in_map_filter by blast
    then show ?thesis by (cases s) (auto split: if_splits)
  qed
  have "v \<in> fst ` set valid" unfolding fsts by (rule singletonI)
  then obtain p where p: "p \<in> set valid" "v = fst p" by blast
  have "v \<noteq> []" using nonempty [of "fst p" "snd p"] p by simp
  moreover have "s = VersionMissing \<or> (\<exists>f. s = VersionValid v f) \<or> (\<exists>f. s = VersionValid [] f) \<or> (\<exists>w. s = VersionValid w [])"
    if s: "s \<in> set sources" for s
  proof (cases s)
    case (VersionValid w f)
    show ?thesis
    proof (cases "w = [] \<or> f = []")
      case False
      then have "(w, f) \<in> set valid"
        unfolding valid_def in_map_filter using s VersionValid by (intro bexI [of _ s]) simp_all
      then have "w = v" using fsts by (metis fst_conv image_eqI singletonD)
      then show ?thesis using VersionValid by simp
    qed (use VersionValid in auto)
  next
    case (VersionInvalid c)
    then show ?thesis using none s by (auto simp: find_None_iff)
  qed simp
  ultimately show ?thesis by (simp add: sources_def)
qed

lemma toolchain_provable_iff:
  "tc_provable (resolveToolchainIdentity E command bundle) \<longleftrightarrow>
     (\<exists>body family pkg v from. scriptBodyFromNormalizedCommand command = Some body \<and> body \<noteq> []
        \<and> detectProducerFromScript body = Some (family, pkg) \<and> resolveProducerVersion E pkg = Inr (v, from))"
  by (auto simp: resolveToolchainIdentity_def Let_def truthy_iff or_empty_def split: option.splits sum.splits)

text \<open>A tool chain counts as provable only for a supported producer whose version is fixed: the lock
  file, the installed package and the manifest each are silent or give that same version, and a
  malformed source makes it unprovable.\<close>

theorem toolchain_provable_version_agrees:
  assumes "tc_provable (resolveToolchainIdentity E command bundle)"
  shows "\<exists>pkg v. v \<noteq> [] \<and> tc_producerVersion (resolveToolchainIdentity E command bundle) = Some v
    \<and> (\<forall>s\<in>{resolveFromNpmLock E pkg, resolveFromNodeModules E pkg, resolveFromPackageJsonExact E pkg}.
         (\<forall>code. s \<noteq> VersionInvalid code) \<and> (\<forall>w f. s = VersionValid w f \<longrightarrow> w \<noteq> [] \<longrightarrow> f \<noteq> [] \<longrightarrow> w = v))"
proof -
  obtain body family pkg v src where r: "scriptBodyFromNormalizedCommand command = Some body" "body \<noteq> []"
      "detectProducerFromScript body = Some (family, pkg)" "resolveProducerVersion E pkg = Inr (v, src)"
    using assms toolchain_provable_iff by blast
  then have version: "tc_producerVersion (resolveToolchainIdentity E command bundle) = Some v"
    by (simp add: resolveToolchainIdentity_def Let_def or_empty_def)
  have "v \<noteq> []" and each: "\<forall>s\<in>{resolveFromNpmLock E pkg, resolveFromNodeModules E pkg, resolveFromPackageJsonExact E pkg}.
      s = VersionMissing \<or> (\<exists>f. s = VersionValid v f) \<or> (\<exists>f. s = VersionValid [] f) \<or> (\<exists>w. s = VersionValid w [])"
    using resolve_version_agrees [OF r(4)] by blast+
  have "\<forall>s\<in>{resolveFromNpmLock E pkg, resolveFromNodeModules E pkg, resolveFromPackageJsonExact E pkg}.
      (\<forall>code. s \<noteq> VersionInvalid code) \<and> (\<forall>w f. s = VersionValid w f \<longrightarrow> w \<noteq> [] \<longrightarrow> f \<noteq> [] \<longrightarrow> w = v)"
    using each by fastforce
  with \<open>v \<noteq> []\<close> version show ?thesis by blast
qed

definition demoProbe :: repoProbe where
  "demoProbe = \<lparr>he_platform = ''linux'', he_ci = True, re_exists = (\<lambda>p. p = ''package-lock.json''),
     re_json = (\<lambda>p. if p = ''package.json''
       then ProbeValid [(''devDependencies'', JObj [(''typescript'', JStr ''5.4.2'')])] else ProbeMissing),
     re_nodeVersion = ''v20''\<rparr>"

lemma demo_toolchain: "tc_provable (resolveToolchainIdentity demoProbe (Some ''npm run build :: tsc -p .'') None)"
  by code_simp

lemma toolchain_provable_version_agrees_witness:
  "\<exists>v. v \<noteq> [] \<and> tc_producerVersion (resolveToolchainIdentity demoProbe (Some ''npm run build :: tsc -p .'') None) = Some v"
  using toolchain_provable_version_agrees [OF demo_toolchain] by blast

end
