(* ===== verification/Cache_Engine.thy ===== *)
theory Cache_Engine
  imports Sidecar_Persist Gate_Reuse_Contract Safe_Path
begin

text \<open>
  The evidence cache (\<^verbatim>\<open>src/kernel/cache-persist.ts\<close>, \<^verbatim>\<open>cache-engine.ts\<close>, and
  \<open>buildValidityBasis\<close> of \<^verbatim>\<open>failure-memory.ts\<close>): storing a passing command result with the
  basis it is valid under, deciding whether a stored result may stand for a gate now, and deriving
  evidence from a hit. A digest map is an association list with distinct keys.
\<close>

section \<open>Cache store\<close>

definition writeCacheStore :: "(cacheStore \<Rightarrow> cacheStore) \<Rightarrow> sidecar \<Rightarrow> sidecar" where
  "writeCacheStore f s = s\<lparr>sc_cache := f (sc_cache s)\<rparr>"

definition emptyIndex :: "string \<Rightarrow> string \<Rightarrow> evidenceCacheIndex" where
  "emptyIndex now projectId = \<lparr>ix_projectId = projectId, ix_updatedAt = now, ix_records = []\<rparr>"

definition readEvidenceCacheIndex :: "string \<Rightarrow> sidecar \<Rightarrow> string \<Rightarrow> evidenceCacheIndex option" where
  "readEvidenceCacheIndex now s projectId =
    (case kc_index (sc_cache s) of
       Missing \<Rightarrow> Some (emptyIndex now projectId)
     | Unreadable _ \<Rightarrow> None
     | Parsed x \<Rightarrow> if ix_projectId x = projectId then Some x else None)"

definition indexWith :: "'h host_scheme \<Rightarrow> evidenceCacheRecord \<Rightarrow> evidenceCacheIndex \<Rightarrow> evidenceCacheIndex" where
  "indexWith H r x =
     x\<lparr>ix_projectId := cr_projectId r, ix_updatedAt := cr_createdAt r,
       ix_records := sort_with (\<lambda>a b. locale_le H (ci_cacheRecordId a) (ci_cacheRecordId b))
         (filter (\<lambda>e. ci_cacheRecordId e \<noteq> cr_cacheRecordId r) (ix_records x)
          @ [\<lparr>ci_cacheRecordId = cr_cacheRecordId r, ci_gateId = cr_gateId r, ci_reusable = cr_reusable r,
              ci_status = cr_status r\<rparr>])\<rparr>"

definition persistEvidenceCacheRecord ::
  "'h sys_scheme \<Rightarrow> string \<Rightarrow> evidenceCacheRecord \<Rightarrow> evidenceCacheRecord op" where
  "persistEvidenceCacheRecord H now r0 =
    (let r = sanitizeCacheRecord H r0
     in bindE (assertSchema ''evidence-cache-record.schema.json'' (okCacheRecord H r)) (\<lambda>_.
        bindE (checkE (assertSafeSidecarId (cr_cacheRecordId r))) (\<lambda>_.
        bindE (writeE (writeCacheStore (\<lambda>c. c\<lparr>kc_evidence :=
            write_entry (jsonName (cr_cacheRecordId r)) (Parsed r) (kc_evidence c)\<rparr>))) (\<lambda>_.
        bindE (readE (\<lambda>s. readEvidenceCacheIndex now s (cr_projectId r))) (\<lambda>existing.
        case existing of
          None \<Rightarrow> throwE (PlainError ''cross-project or corrupt cache persist rejected'')
        | Some x \<Rightarrow>
            bindE (guardE (ix_projectId x = cr_projectId r) (PlainError ''cross-project cache persist rejected'')) (\<lambda>_.
            bindE (writeE (writeCacheStore (\<lambda>c. c\<lparr>kc_index := Parsed (sanitizeCacheIndex H (indexWith H r x))\<rparr>))) (\<lambda>_.
            returnE r)))))))"

definition persistCacheDecision :: "'h sys_scheme \<Rightarrow> cacheDecision \<Rightarrow> cacheDecision op" where
  "persistCacheDecision H d0 =
    (let d = sanitizeCacheDecision H d0
     in bindE (assertSchema ''cache-decision.schema.json'' (okCacheDecision H d)) (\<lambda>_.
        bindE (checkE (assertSafeSidecarId (cd_cacheDecisionId d))) (\<lambda>_.
        bindE (writeE (writeCacheStore (\<lambda>c. c\<lparr>kc_decisions :=
            write_entry (jsonName (cd_cacheDecisionId d)) (Parsed d) (kc_decisions c)\<rparr>))) (\<lambda>_.
        returnE d))))"

definition readCacheDecision :: "'h sys_scheme \<Rightarrow> sidecar \<Rightarrow> string \<Rightarrow> cacheDecision option" where
  "readCacheDecision H s i =
     (if isSafeSidecarId i then parsedOk (okCacheDecision H) (read_entry (jsonName i) (kc_decisions (sc_cache s)))
      else None)"

definition readEvidenceCacheRecord :: "'h sys_scheme \<Rightarrow> sidecar \<Rightarrow> string \<Rightarrow> evidenceCacheRecord option" where
  "readEvidenceCacheRecord H s i =
     (if isSafeSidecarId i then parsedOk (okCacheRecord H) (read_entry (jsonName i) (kc_evidence (sc_cache s)))
      else None)"

definition cacheReaderOf :: "'h sys_scheme \<Rightarrow> sidecar \<Rightarrow> cacheReader" where
  "cacheReaderOf H s = \<lparr>rd_readCacheDecision = readCacheDecision H s, rd_readCacheRecord = readEvidenceCacheRecord H s\<rparr>"

definition listCacheRecordIdsForGate :: "string \<Rightarrow> sidecar \<Rightarrow> string \<Rightarrow> string \<Rightarrow> string list" where
  "listCacheRecordIdsForGate now s projectId gateId =
    (case readEvidenceCacheIndex now s projectId of None \<Rightarrow> []
     | Some x \<Rightarrow> map ci_cacheRecordId (filter (\<lambda>e. ci_gateId e = gateId) (ix_records x)))"

definition markCacheRecordStatus ::
  "'h sys_scheme \<Rightarrow> string \<Rightarrow> string \<Rightarrow> cacheRecordStatus \<Rightarrow> string \<Rightarrow> unit op" where
  "markCacheRecordStatus H now i status reason =
    bindE (readE (\<lambda>s. readEvidenceCacheRecord H s i)) (\<lambda>found.
      case found of None \<Rightarrow> returnE ()
      | Some r \<Rightarrow>
          bindE (persistEvidenceCacheRecord H now
            (r\<lparr>cr_status := status, cr_reusable := (if status = RecReusable then cr_reusable r else False),
               cr_invalidationReason := Some reason\<rparr>)) (\<lambda>_. returnE ()))"

record cacheStatus =
  ct_reusableRecords :: nat
  ct_staleRecords :: nat
  ct_notReusableRecords :: nat
  ct_indexedRecords :: nat
  ct_indexCorrupt :: bool

definition readCacheStatusCompact :: "string \<Rightarrow> sidecar \<Rightarrow> string \<Rightarrow> cacheStatus" where
  "readCacheStatusCompact now s projectId =
    (case readEvidenceCacheIndex now s projectId of
       None \<Rightarrow> \<lparr>ct_reusableRecords = 0, ct_staleRecords = 0, ct_notReusableRecords = 0, ct_indexedRecords = 0,
         ct_indexCorrupt = (kc_index (sc_cache s) \<noteq> Missing)\<rparr>
     | Some x \<Rightarrow>
         let countOf = (\<lambda>st. length (filter (\<lambda>e. ci_status e = st) (ix_records x)))
         in \<lparr>ct_reusableRecords = countOf RecReusable, ct_staleRecords = countOf RecStale,
             ct_notReusableRecords = countOf RecNotReusable, ct_indexedRecords = length (ix_records x),
             ct_indexCorrupt = False\<rparr>)"

section \<open>Validity basis\<close>

definition isCodeDependency :: "edgeType \<Rightarrow> bool" where
  "isCodeDependency t \<longleftrightarrow> t = ImportsEdge \<or> t = RequiresEdge \<or> t = DynamicImportEdge"

text \<open>The far ends of the edges at a path, in edge order, and the tests related to it.\<close>

definition edgeNeighbours :: "(edgeType \<Rightarrow> bool) \<Rightarrow> indexBundle \<Rightarrow> string \<Rightarrow> string list" where
  "edgeNeighbours sel b seed =
     concat (map (\<lambda>e. (if ge_source e = seed then [ge_target e] else []) @ (if ge_target e = seed then [ge_source e] else []))
       (filter (\<lambda>e. sel (ge_type e)) (dg_edges (ib_graph b))))"

definition testNeighbours :: "indexBundle \<Rightarrow> string \<Rightarrow> string list" where
  "testNeighbours b seed =
     concat (map (\<lambda>r. (if tr_source r = seed then [tr_test r] else []) @ (if tr_test r = seed then [tr_source r] else []))
       (ib_tests b))"

definition digestsOf :: "indexBundle \<Rightarrow> string list \<Rightarrow> (string \<times> string) list" where
  "digestsOf b paths =
     List.map_filter (\<lambda>p. if truthy (fileDigestOf b p) then Some (p, or_empty (fileDigestOf b p)) else None) paths"

definition buildValidityBasis :: "'h host_scheme \<Rightarrow> indexBundle \<Rightarrow> string list \<Rightarrow> (string \<times> string) list" where
  "buildValidityBasis H b seedPaths =
    (let seeds = dedup (List.map_filter assertSafeRelativeProjectPath seedPaths);
         found = concat (map (\<lambda>s. edgeNeighbours (\<lambda>t. isCodeDependency t \<or> t = InterfaceReferenceEdge \<or> t = TestOfEdge) b s
                   @ testNeighbours b s) seeds)
     in digestsOf b (sort_with (locale_le H) (dedup (seeds @ found))))"

definition CONFIG_FILE_NAMES :: "string list" where
  "CONFIG_FILE_NAMES =
    [''vitest.config.ts'', ''vitest.config.js'', ''vitest.config.mts'', ''jest.config.js'', ''jest.config.ts'',
     ''jest.config.mjs'', ''vite.config.ts'', ''vite.config.js'', ''webpack.config.js'', ''babel.config.js'',
     ''eslint.config.js'', ''.eslintrc.json'', ''foundry.toml'', ''hardhat.config.ts'', ''hardhat.config.js'']"

definition isConfigPath :: "string \<Rightarrow> bool" where
  "isConfigPath p \<longleftrightarrow> list_ex (\<lambda>n. p = n \<or> ends_with (''/'' @ n) p) CONFIG_FILE_NAMES"

definition configPathsFromBundle :: "indexBundle \<Rightarrow> string list" where
  "configPathsFromBundle b = filter isConfigPath (map if_path (is_files (ib_state b)))"

definition manifestDigestsFromBundle :: "indexBundle \<Rightarrow> (string \<times> string) list" where
  "manifestDigestsFromBundle b =
     List.map_filter (\<lambda>p. map_option (\<lambda>d. (p, d)) (fileDigestOf b p)) MANIFEST_BASIS_PATHS"

text \<open>The basis of a cached result: its digests (their keys are its paths) and the manifests.\<close>

definition buildCacheValidityBasis ::
  "'h host_scheme \<Rightarrow> indexBundle \<Rightarrow> string list \<Rightarrow> (string \<times> string) list \<times> (string \<times> string) list" where
  "buildCacheValidityBasis H b seedPaths =
    (let basis = map fst (buildValidityBasis H b (seedPaths @ MANIFEST_BASIS_PATHS));
         extra = concat (map (edgeNeighbours (\<lambda>t. t = ConfiguresEdge \<or> t = ManifestReferenceEdge) b) basis)
           @ configPathsFromBundle b
     in (digestsOf b (sort_with (locale_le H) (dedup (basis @ extra))), manifestDigestsFromBundle b))"

definition indexIsReusable :: "indexBundle \<Rightarrow> bool" where
  "indexIsReusable b \<longleftrightarrow> is_complete (ib_state b) \<and> \<not> is_truncated (ib_state b) \<and> \<not> is_stale (ib_state b)"

section \<open>Comparing a stored result with the project now\<close>

definition allKeys :: "(string \<times> string) list \<Rightarrow> (string \<times> string) list \<Rightarrow> string list" where
  "allKeys stored live = dedup (map fst stored @ map fst live)"

definition toolIdentityMatches :: "(string \<times> string) list \<Rightarrow> (string \<times> string) list \<Rightarrow> bool" where
  "toolIdentityMatches stored live \<longleftrightarrow>
     list_all (\<lambda>k. map_of stored k = map_of live k) (allKeys stored live) \<and> length (allKeys stored live) > 0"

definition compareDigestMap ::
  "'h host_scheme \<Rightarrow> (string \<times> string) list \<Rightarrow> (string \<times> string) list \<Rightarrow> string \<Rightarrow> string list" where
  "compareDigestMap H stored live prefix =
     sort_with (locale_le H)
       (map (\<lambda>k. prefix @ '':'' @ k) (filter (\<lambda>k. map_of stored k \<noteq> map_of live k) (allKeys stored live)))"

text \<open>The paths compared: those of the record and the configuration files of the index.\<close>

definition comparedPaths :: "evidenceCacheRecord \<Rightarrow> indexBundle \<Rightarrow> string list" where
  "comparedPaths r b = dedup (cr_validityBasisPaths r @ configPathsFromBundle b)"

definition basisChanged :: "evidenceCacheRecord \<Rightarrow> indexBundle \<Rightarrow> string \<Rightarrow> bool" where
  "basisChanged r b p \<longleftrightarrow>
    (let current = fileDigestOf b p; stored = map_of (cr_validityBasisDigests r) p
     in if \<not> truthy current then truthy stored
        else (truthy stored \<and> stored \<noteq> current) \<or> (\<not> truthy stored \<and> p \<in> set (configPathsFromBundle b)))"

definition compareCandidateValidity ::
  "evidenceCacheRecord \<Rightarrow> indexBundle \<Rightarrow> string list \<times> (string \<times> string) list" where
  "compareCandidateValidity r b =
     (map (\<lambda>p. ''basis:'' @ p) (filter (basisChanged r b) (comparedPaths r b)), digestsOf b (comparedPaths r b))"

record candidateEvaluation =
  ca_changed :: "string list"
  ca_semanticallyValid :: bool
  ca_reuseProofDigest :: "string option"

definition rejectCandidate :: "string \<Rightarrow> candidateEvaluation" where
  "rejectCandidate code = \<lparr>ca_changed = [code], ca_semanticallyValid = False, ca_reuseProofDigest = None\<rparr>"

text \<open>What is live when a gate is looked up.\<close>

record liveInputs =
  li_projectId :: string
  li_gateId :: string
  li_bundle :: indexBundle
  li_contract :: gateReuseContract
  li_toolchain :: "(string \<times> string) list"
  li_environment :: "string option"
  li_manifests :: "(string \<times> string) list"

definition liveProof :: "'h host_scheme \<Rightarrow> liveInputs \<Rightarrow> evidenceCacheRecord \<Rightarrow> string" where
  "liveProof H L r =
     computeReuseProofDigest H (li_projectId L) (gc_gateReuseContractIdentity (li_contract L))
       (gc_normalizedCommandIdentity (li_contract L)) (snd (compareCandidateValidity r (li_bundle L)))
       (li_manifests L) (li_toolchain L) (li_environment L) CACHE_POLICY_IDENTITY"

definition changedInputs :: "'h host_scheme \<Rightarrow> liveInputs \<Rightarrow> evidenceCacheRecord \<Rightarrow> string list" where
  "changedInputs H L r =
     codeIf (cr_gateReuseContractIdentity r \<noteq> gc_gateReuseContractIdentity (li_contract L)) ''gateReuseContractIdentity''
   @ codeIf (cr_policyIdentity r \<noteq> CACHE_POLICY_IDENTITY) ''policyIdentity''
   @ codeIf (\<not> toolIdentityMatches (cr_toolIdentity r) (li_toolchain L)) ''toolIdentity''
   @ codeIf (cr_environmentIdentity r \<noteq> li_environment L) ''environmentIdentity''
   @ fst (compareCandidateValidity r (li_bundle L))
   @ compareDigestMap H (cr_manifestDigests r) (li_manifests L) ''manifest''
   @ codeIf (cr_reuseProofDigest r \<noteq> liveProof H L r) ''reuseProofDigest''"

definition evaluateCandidate :: "'h host_scheme \<Rightarrow> liveInputs \<Rightarrow> evidenceCacheRecord \<Rightarrow> candidateEvaluation" where
  "evaluateCandidate H L r =
    (if \<not> isCacheRecordSemanticallyValid r then rejectCandidate ''semantic-invalid''
     else if cr_projectId r \<noteq> li_projectId L then rejectCandidate ''cross-project''
     else if cr_gateId r \<noteq> li_gateId L then rejectCandidate ''gateId''
     else if gc_contractKind (li_contract L) = CommandGate \<and> \<not> gc_derivable (li_contract L)
     then rejectCandidate ''gateContractUnprovable''
     else \<lparr>ca_changed = dedup (changedInputs H L r), ca_semanticallyValid = True,
           ca_reuseProofDigest = Some (liveProof H L r)\<rparr>)"

section \<open>The decision\<close>

definition decideKind ::
  "bool \<Rightarrow> bool \<Rightarrow> evidenceCacheRecord option \<Rightarrow> string list \<Rightarrow> bool \<Rightarrow> bool \<Rightarrow> bool \<Rightarrow> cacheDecisionKind" where
  "decideKind eligible blocked candidate changed contractUnprovable toolchainUnprovable allCandidatesStale =
    (if blocked then CacheBlocked
     else if \<not> eligible then CacheNotReusable
     else if contractUnprovable \<or> toolchainUnprovable then CacheNotReusable
     else if allCandidatesStale \<and> length changed > 0 then CacheStale
     else if candidate = None then CacheMiss
     else if length changed > 0 then CacheStale
     else CacheHit)"

definition decision_text :: "cacheDecisionKind \<Rightarrow> string" where
  "decision_text d = (case d of CacheHit \<Rightarrow> ''HIT'' | CacheMiss \<Rightarrow> ''MISS'' | CacheStale \<Rightarrow> ''STALE''
     | CacheNotReusable \<Rightarrow> ''NOT_REUSABLE'' | CacheBlocked \<Rightarrow> ''BLOCKED'')"

definition newestFirst :: "'h host_scheme \<Rightarrow> evidenceCacheRecord \<Rightarrow> evidenceCacheRecord \<Rightarrow> bool" where
  "newestFirst H a b \<longleftrightarrow>
    (let timeCmp = localeCompare H (cr_createdAt b) (cr_createdAt a)
     in if timeCmp \<noteq> 0 then timeCmp \<le> 0
        else localeCompare H (cr_cacheRecordId b) (cr_cacheRecordId a) \<le> 0)"

definition listCandidatesForGate ::
  "'h sys_scheme \<Rightarrow> string \<Rightarrow> sidecar \<Rightarrow> string \<Rightarrow> string \<Rightarrow> evidenceCacheRecord list" where
  "listCandidatesForGate H now s projectId gateId =
     sort_with (newestFirst H)
       (List.map_filter (readEvidenceCacheRecord H s) (listCacheRecordIdsForGate now s projectId gateId))"

text \<open>The state of the search over the candidates.\<close>

record candidateScan =
  sn_candidate :: "evidenceCacheRecord option"
  sn_blocked :: bool
  sn_reasonCodes :: "string list"
  sn_reuseProofDigest :: "string option"
  sn_sawStale :: bool
  sn_lastStaleChanged :: "string list"

fun scanCandidates ::
  "'h sys_scheme \<Rightarrow> string \<Rightarrow> liveInputs \<Rightarrow> evidenceCacheRecord list \<Rightarrow> candidateScan \<Rightarrow> candidateScan op" where
  "scanCandidates H now L [] st = returnE st"
| "scanCandidates H now L (r # rs) st =
    (if cr_projectId r \<noteq> li_projectId L
     then returnE (st\<lparr>sn_blocked := True, sn_reasonCodes := sn_reasonCodes st @ [''CROSS_PROJECT''],
            sn_candidate := Some r\<rparr>)
     else let ev = evaluateCandidate H L r
          in if \<not> ca_semanticallyValid ev
             then (if ''cross-project'' \<in> set (ca_changed ev)
                   then returnE (st\<lparr>sn_blocked := True, sn_candidate := Some r\<rparr>)
                   else scanCandidates H now L rs st)
             else if length (ca_changed ev) = 0 \<and> truthy (ca_reuseProofDigest ev)
             then returnE (st\<lparr>sn_candidate := Some r, sn_reuseProofDigest := ca_reuseProofDigest ev\<rparr>)
             else bindE (markCacheRecordStatus H now (cr_cacheRecordId r) RecStale (join_with '','' (ca_changed ev))) (\<lambda>_.
                  scanCandidates H now L rs (st\<lparr>sn_sawStale := True, sn_lastStaleChanged := ca_changed ev\<rparr>)))"

record cacheQuery =
  cq_projectId :: string
  cq_gateId :: string
  cq_workOrderId :: "string option"
  cq_executionRunId :: "string option"
  cq_liveChangeDigest :: "string option"
  cq_bundle :: "indexBundle option"
  cq_repositoryMap :: "repositoryMap option"
  cq_persistDecision :: bool

text \<open>What is known before the candidates are read: is the search blocked or pointless, and why.\<close>

record lookupGuards =
  lg_blocked :: bool
  lg_contractUnprovable :: bool
  lg_toolchainUnprovable :: bool
  lg_reasonCodes :: "string list"

definition lookupGuardsOf ::
  "cacheQuery \<Rightarrow> evidenceCacheIndex option \<Rightarrow> gateReuseContract \<Rightarrow> toolchainResult \<Rightarrow> lookupGuards" where
  "lookupGuardsOf q index contract toolchain =
    (let eligible = isCacheEligibleGate (cq_gateId q);
         bundleUnusable = (case cq_bundle q of None \<Rightarrow> True | Some b \<Rightarrow> \<not> indexIsReusable b);
         crossProject = (case cq_bundle q of None \<Rightarrow> False
           | Some b \<Rightarrow> indexIsReusable b \<and> is_projectId (ib_state b) \<noteq> cq_projectId q);
         corrupt = (eligible \<and> index = None);
         isCommand = (gc_contractKind contract = CommandGate);
         contractBad = (eligible \<and> isCommand \<and> \<not> gc_derivable contract);
         toolchainBad = (eligible \<and> isCommand \<and> \<not> tc_provable toolchain)
     in \<lparr>lg_blocked = ((bundleUnusable \<and> eligible) \<or> crossProject \<or> corrupt),
         lg_contractUnprovable = contractBad, lg_toolchainUnprovable = toolchainBad,
         lg_reasonCodes =
             codeIf (\<not> eligible) ''GATE_NOT_REUSABLE''
           @ codeIf bundleUnusable (if cq_bundle q = None then ''INDEX_UNAVAILABLE'' else ''INDEX_NOT_REUSABLE'')
           @ codeIf crossProject ''CROSS_PROJECT''
           @ codeIf corrupt ''CACHE_INDEX_CORRUPT''
           @ codeIf contractBad ''GATE_CONTRACT_UNPROVABLE''
           @ (if toolchainBad then ''TOOLCHAIN_UNPROVABLE''
                # filter (\<lambda>c. c \<noteq> ''TOOLCHAIN_UNPROVABLE'') (tc_reasonCodes toolchain) else [])\<rparr>)"

definition initialScan :: "lookupGuards \<Rightarrow> candidateScan" where
  "initialScan g = \<lparr>sn_candidate = None, sn_blocked = lg_blocked g, sn_reasonCodes = lg_reasonCodes g,
     sn_reuseProofDigest = None, sn_sawStale = False, sn_lastStaleChanged = []\<rparr>"

definition scanReasons :: "evidenceCacheRecord list \<Rightarrow> candidateScan \<Rightarrow> string list" where
  "scanReasons candidates st =
     (if sn_candidate st = None \<and> length candidates > 0 \<and> \<not> sn_blocked st
      then [if sn_sawStale st then ''ALL_CANDIDATES_STALE'' else ''NO_VALID_CANDIDATE'']
      else if sn_candidate st = None \<and> length candidates = 0 then [''NO_CANDIDATE''] else [])"

text \<open>The search, when nothing rules it out.\<close>

definition searchCandidates ::
  "'h sys_scheme \<Rightarrow> string \<Rightarrow> cacheQuery \<Rightarrow> liveInputs option \<Rightarrow> lookupGuards \<Rightarrow> bool \<Rightarrow> candidateScan op" where
  "searchCandidates H now q live g indexReadable =
    (case live of
       Some L \<Rightarrow>
         if isCacheEligibleGate (cq_gateId q) \<and> \<not> lg_blocked g \<and> \<not> lg_contractUnprovable g
            \<and> \<not> lg_toolchainUnprovable g \<and> indexReadable
         then bindE (readE (\<lambda>s. listCandidatesForGate H now s (cq_projectId q) (cq_gateId q))) (\<lambda>candidates.
              bindE (scanCandidates H now L candidates (initialScan g)) (\<lambda>st.
              returnE (st\<lparr>sn_reasonCodes := sn_reasonCodes st @ scanReasons candidates st\<rparr>)))
         else returnE (initialScan g)
     | None \<Rightarrow> returnE (initialScan g))"

definition liveInputsOf ::
  "'e hostEnvironment_scheme \<Rightarrow> cacheQuery \<Rightarrow> gateReuseContract \<Rightarrow> toolchainResult \<Rightarrow> liveInputs option" where
  "liveInputsOf E q contract toolchain =
     map_option (\<lambda>b. \<lparr>li_projectId = cq_projectId q, li_gateId = cq_gateId q, li_bundle = b, li_contract = contract,
         li_toolchain = tc_identity toolchain, li_environment = collectEnvironmentIdentity E (cq_gateId q),
         li_manifests = manifestDigestsFromBundle b\<rparr>) (cq_bundle q)"

definition buildDecision ::
  "'h host_scheme \<Rightarrow> string \<Rightarrow> cacheQuery \<Rightarrow> gateReuseContract \<Rightarrow> lookupGuards \<Rightarrow> candidateScan \<Rightarrow> cacheDecision" where
  "buildDecision H now q contract g st =
    (let changed = (if sn_candidate st = None \<and> sn_sawStale st then sn_lastStaleChanged st else []);
         decision = decideKind (isCacheEligibleGate (cq_gateId q)) (sn_blocked st) (sn_candidate st) changed
           (lg_contractUnprovable g) (lg_toolchainUnprovable g)
           (sn_candidate st = None \<and> length changed > 0);
         reasons = sn_reasonCodes st
           @ (if decision = CacheHit then [''VALIDITY_BASIS_MATCH'', ''GATE_CONTRACT_MATCH'']
              else if decision = CacheStale then [''VALIDITY_BASIS_CHANGED''] else [])
     in \<lparr>cd_cacheDecisionId = newPrefixedId H ''cd''
           (cq_projectId q @ '':'' @ cq_gateId q @ '':'' @ or_empty (cq_liveChangeDigest q) @ '':'' @ now @ '':''
            @ decision_text decision),
         cd_projectId = cq_projectId q, cd_workOrderId = cq_workOrderId q,
         cd_executionRunId = cq_executionRunId q, cd_gateId = cq_gateId q,
         cd_candidateCacheRecordId = map_option cr_cacheRecordId (sn_candidate st), cd_decision = decision,
         cd_reasonCodes = dedup reasons,
         cd_changedValidityInputs = sort_with (locale_le H) (dedup changed),
         cd_executionRequired = (decision \<noteq> CacheHit), cd_maySatisfyGate = (decision = CacheHit),
         cd_liveChangeDigest = cq_liveChangeDigest q,
         cd_indexDigest = map_option (\<lambda>b. is_indexDigest (ib_state b)) (cq_bundle q),
         cd_gateReuseContractIdentity = Some (gc_gateReuseContractIdentity contract),
         cd_reuseProofDigest = (if decision = CacheHit then sn_reuseProofDigest st else None),
         cd_createdAt = now\<rparr>)"

definition evaluateCache ::
  "'h sys_scheme \<Rightarrow> 'p repoProbe_scheme \<Rightarrow> string \<Rightarrow> cacheQuery \<Rightarrow> cacheDecision op" where
  "evaluateCache H E now q =
    bindE (readE (\<lambda>s. readEvidenceCacheIndex now s (cq_projectId q))) (\<lambda>index.
     let contract = buildGateReuseContract H (cq_gateId q) (cq_repositoryMap q);
         toolchain = resolveToolchainIdentity E (gc_normalizedCommandIdentity contract) (cq_bundle q);
         g = lookupGuardsOf q index contract toolchain
     in bindE (searchCandidates H now q (liveInputsOf E q contract toolchain) g (index \<noteq> None)) (\<lambda>st.
        let result = buildDecision H now q contract g st
        in bindE (if cq_persistDecision q
                  then catchE (bindE (persistCacheDecision H result) (\<lambda>_. returnE ())) (\<lambda>_. returnE ())
                  else returnE ()) (\<lambda>_.
           returnE result)))"

section \<open>Filling the cache\<close>

text \<open>The conditions under which a passing record enters the cache, with what it enters with.\<close>

definition cacheableEvidence :: "executionRun \<Rightarrow> evidenceRecord \<Rightarrow> indexBundle \<Rightarrow> bool" where
  "cacheableEvidence run r b \<longleftrightarrow>
     ev_status r = EvPass \<and> ev_projectId r = run_projectId run
     \<and> (case lookupGate (ev_gateId r) of None \<Rightarrow> False
        | Some def \<Rightarrow> reuseClassForGate (ev_gateId r) = Eligible
            \<and> \<not> (ev_kind r = CommandEvidence \<and> (\<not> truthy (ev_command r) \<or> \<not> truthy (ev_outputDigest r)
                 \<or> ev_exitCode r \<noteq> Some 0))
            \<and> ev_kind r \<in> set (gd_allowedEvidenceKinds def))
     \<and> indexIsReusable b \<and> is_projectId (ib_state b) = run_projectId run"

definition commandMatchesContract :: "string option \<Rightarrow> gateReuseContract \<Rightarrow> bool" where
  "commandMatchesContract command contract \<longleftrightarrow>
     (gc_contractKind contract = CommandGate \<longrightarrow>
        truthy command \<and> gc_derivable contract \<and> command = gc_normalizedCommandIdentity contract)"

definition newCacheRecord ::
  "'h host_scheme \<Rightarrow> 'e hostEnvironment_scheme \<Rightarrow> string \<Rightarrow> executionRun \<Rightarrow> evidenceRecord \<Rightarrow> indexBundle
     \<Rightarrow> gateReuseContract \<Rightarrow> (string \<times> string) list \<Rightarrow> evidenceCacheRecord" where
  "newCacheRecord H E now run r b contract toolchain =
    (let basis = buildCacheValidityBasis H b (run_changedFiles run);
         environment = collectEnvironmentIdentity E (ev_gateId r)
     in \<lparr>cr_cacheRecordId = newPrefixedId H ''ecr'' (run_projectId run @ '':'' @ ev_gateId r @ '':''
           @ (case ev_outputDigest r of Some d \<Rightarrow> d
              | None \<Rightarrow> (case ev_fileDigest r of Some d \<Rightarrow> d | None \<Rightarrow> now))),
         cr_projectId = run_projectId run, cr_originatingWorkOrderId = ev_workOrderId r,
         cr_originatingExecutionRunId = ev_executionRunId r, cr_gateId = ev_gateId r,
         cr_evidenceId = ev_evidenceId r,
         cr_evidenceKind = (if ev_kind r = ReviewEvidence then CommandEvidence else ev_kind r),
         cr_originatingChangeDigest = ev_changeDigest r,
         cr_command = normalizeCommandIdentity (ev_command r),
         cr_gateReuseContractIdentity = gc_gateReuseContractIdentity contract,
         cr_reuseProofDigest = computeReuseProofDigest H (run_projectId run)
           (gc_gateReuseContractIdentity contract) (gc_normalizedCommandIdentity contract)
           (fst basis) (snd basis) toolchain environment CACHE_POLICY_IDENTITY,
         cr_toolIdentity = toolchain, cr_environmentIdentity = environment,
         cr_validityBasisPaths = map fst (fst basis), cr_validityBasisDigests = fst basis,
         cr_manifestDigests = snd basis, cr_indexDigest = is_indexDigest (ib_state b),
         cr_policyIdentity = CACHE_POLICY_IDENTITY, cr_outputDigest = ev_outputDigest r,
         cr_fileDigest = ev_fileDigest r, cr_createdAt = now,
         cr_reuseClass = reuseClassForGate (ev_gateId r), cr_reusable = True, cr_status = RecReusable,
         cr_invalidationReason = None\<rparr>)"

definition populateCacheFromEvidence ::
  "'h sys_scheme \<Rightarrow> 'p repoProbe_scheme \<Rightarrow> string \<Rightarrow> executionRun \<Rightarrow> evidenceRecord \<Rightarrow> indexBundle
     \<Rightarrow> repositoryMap option \<Rightarrow> evidenceCacheRecord option op" where
  "populateCacheFromEvidence H E now run r b m =
    (let contract = buildGateReuseContract H (ev_gateId r) m;
         command = normalizeCommandIdentity (ev_command r);
         toolchain = resolveToolchainIdentity E command (Some b)
     in if \<not> cacheableEvidence run r b then returnE None
        else if \<not> commandMatchesContract command contract then returnE None
        else if gc_contractKind contract = CommandGate \<and> \<not> tc_provable toolchain then returnE None
        else bindE (persistEvidenceCacheRecord H now (newCacheRecord H E now run r b contract (tc_identity toolchain))) (\<lambda>k.
             returnE (Some k)))"

section \<open>Applying hits\<close>

definition derivedEvidence ::
  "'h host_scheme \<Rightarrow> string \<Rightarrow> executionRun \<Rightarrow> string \<Rightarrow> string \<Rightarrow> cacheDecision \<Rightarrow> evidenceCacheRecord
     \<Rightarrow> evidenceRecord" where
  "derivedEvidence H now run digest gate d k =
    \<lparr>ev_evidenceId = newPrefixedId H ''ev'' (run_executionRunId run @ '':'' @ gate @ '':cache:'' @ cd_cacheDecisionId d),
     ev_projectId = run_projectId run, ev_workOrderId = run_workOrderId run,
     ev_executionRunId = run_executionRunId run, ev_changeDigest = digest, ev_gateId = gate,
     ev_sourceRole = ''evidence-cache'', ev_kind = cr_evidenceKind k, ev_createdAt = now, ev_status = EvPass,
     ev_summary = ''cache-reuse of '' @ cr_cacheRecordId k, ev_command = cr_command k,
     ev_exitCode = (if cr_evidenceKind k = CommandEvidence then Some 0 else None),
     ev_outputRef = (if truthy (cr_outputDigest k)
       then Some (''sidecar://cache/evidence/'' @ cr_cacheRecordId k) else None),
     ev_outputDigest = cr_outputDigest k, ev_fileRef = None, ev_fileDigest = cr_fileDigest k,
     ev_source = Some CacheReuse, ev_sourceCacheRecordId = Some (cr_cacheRecordId k),
     ev_sourceEvidenceId = Some (cr_evidenceId k), ev_cacheDecisionId = Some (cd_cacheDecisionId d),
     ev_reuseProofDigest = cd_reuseProofDigest d,
     ev_gateReuseContractIdentity = cd_gateReuseContractIdentity d\<rparr>"

definition gateSettled :: "gateStateSnapshot list \<Rightarrow> string \<Rightarrow> bool" where
  "gateSettled states gate \<longleftrightarrow>
     (case find (\<lambda>s. gs_gateId s = gate) states of None \<Rightarrow> False
      | Some st \<Rightarrow> gs_status st = GateFail \<or> gs_status st = GateBlocked \<or> gs_status st = GatePass)"

text \<open>What a decision yields for its gate: the derived record, when everything about it checks.\<close>

definition applyHit ::
  "'h sys_scheme \<Rightarrow> string \<Rightarrow> executionRun \<Rightarrow> string \<Rightarrow> cacheDecision \<Rightarrow> evidenceRecord option op" where
  "applyHit H now run gate d =
    (if cd_decision d \<noteq> CacheHit \<or> \<not> truthy (cd_candidateCacheRecordId d) \<or> \<not> truthy (run_currentChangeDigest run)
     then returnE None
     else if \<not> truthy (cd_reuseProofDigest d) \<or> \<not> truthy (cd_gateReuseContractIdentity d) then returnE None
     else bindE (readE (\<lambda>s. (readEvidenceCacheRecord H s (or_empty (cd_candidateCacheRecordId d)), cacheReaderOf H s))) (\<lambda>kr.
       case fst kr of None \<Rightarrow> returnE None
       | Some k \<Rightarrow>
           let digest = or_empty (run_currentChangeDigest run); derived = derivedEvidence H now run digest gate d k
           in if cr_projectId k \<noteq> run_projectId run \<or> \<not> isCacheRecordSemanticallyValid k then returnE None
              else if Some (cr_reuseProofDigest k) \<noteq> cd_reuseProofDigest d then returnE None
              else if \<not> fst (validateCacheReuseEvidence (snd kr)
                  \<lparr>rc_projectId = run_projectId run, rc_gateId = gate, rc_changeDigest = Some digest,
                   rc_workOrderId = Some (run_workOrderId run), rc_executionRunId = Some (run_executionRunId run)\<rparr> derived)
              then returnE None
              else bindE (persistEvidenceRecord H derived) (\<lambda>_. returnE (Some derived))))"

definition gateQuery ::
  "executionRun \<Rightarrow> indexBundle option \<Rightarrow> repositoryMap option \<Rightarrow> string \<Rightarrow> cacheQuery" where
  "gateQuery run b m gate =
     \<lparr>cq_projectId = run_projectId run, cq_gateId = gate, cq_workOrderId = Some (run_workOrderId run),
      cq_executionRunId = Some (run_executionRunId run), cq_liveChangeDigest = run_currentChangeDigest run,
      cq_bundle = b, cq_repositoryMap = m, cq_persistDecision = True\<rparr>"

fun applyHitsTo ::
  "'h sys_scheme \<Rightarrow> 'p repoProbe_scheme \<Rightarrow> string \<Rightarrow> executionRun \<Rightarrow> indexBundle option \<Rightarrow> gateStateSnapshot list
     \<Rightarrow> repositoryMap option \<Rightarrow> string list \<Rightarrow> (evidenceRecord list \<times> cacheDecision list) op" where
  "applyHitsTo H E now run b states m [] = returnE ([], [])"
| "applyHitsTo H E now run b states m (gate # gates) =
    (if isCacheEligibleGate gate \<and> gateSettled states gate then applyHitsTo H E now run b states m gates
     else bindE (evaluateCache H E now (gateQuery run b m gate)) (\<lambda>d.
          bindE (if isCacheEligibleGate gate then applyHit H now run gate d else returnE None) (\<lambda>applied.
          bindE (applyHitsTo H E now run b states m gates) (\<lambda>rest.
          returnE ((case applied of None \<Rightarrow> fst rest | Some e \<Rightarrow> e # fst rest), d # snd rest)))))"

definition applyEligibleCacheHits ::
  "'h sys_scheme \<Rightarrow> 'p repoProbe_scheme \<Rightarrow> string \<Rightarrow> executionRun \<Rightarrow> indexBundle option \<Rightarrow> gateStateSnapshot list
     \<Rightarrow> repositoryMap option \<Rightarrow> (evidenceRecord list \<times> cacheDecision list) op" where
  "applyEligibleCacheHits H E now run b states m =
     applyHitsTo H E now run b states m (run_selectedGates run)"

section \<open>Facts\<close>

text \<open>The cache engine writes the cache store; only an applied hit writes evidence.\<close>

definition cacheOnly :: "sidecar \<Rightarrow> sidecar \<Rightarrow> bool" where
  "cacheOnly s t \<longleftrightarrow> sc_plan t = sc_plan s \<and> sc_runs t = sc_runs s \<and> sc_pointer t = sc_pointer s \<and> sc_cost t = sc_cost s"

lemma cacheOnly_refl [simp]: "cacheOnly s s"
  by (simp add: cacheOnly_def)

lemma cacheOnly_write [simp]: "cacheOnly s0 s \<Longrightarrow> cacheOnly s0 (writeCacheStore f s)"
  by (simp add: cacheOnly_def writeCacheStore_def)

lemma cacheOnly_persistRecord [keeps_intro]: "keeps (cacheOnly s0) (persistEvidenceCacheRecord H now r)"
  unfolding persistEvidenceCacheRecord_def Let_def by (intro keeps_intro) simp_all

lemma cacheOnly_persistDecision [keeps_intro]: "keeps (cacheOnly s0) (persistCacheDecision H d)"
  unfolding persistCacheDecision_def Let_def by (intro keeps_intro) simp

lemma cacheOnly_mark [keeps_intro]: "keeps (cacheOnly s0) (markCacheRecordStatus H now i st reason)"
  unfolding markCacheRecordStatus_def by (intro keeps_intro)

lemma cacheOnly_scan [keeps_intro]: "keeps (cacheOnly s0) (scanCandidates H now L rs st)"
  by (induction rs arbitrary: st) (auto simp: Let_def intro!: keeps_intro)

lemma cacheOnly_search [keeps_intro]: "keeps (cacheOnly s0) (searchCandidates H now q live g b)"
  unfolding searchCandidates_def by (intro keeps_intro)

lemma cacheOnly_evaluate [keeps_intro]: "keeps (cacheOnly s0) (evaluateCache H E now q)"
  unfolding evaluateCache_def Let_def by (intro keeps_intro)

lemma cacheOnly_populate [keeps_intro]: "keeps (cacheOnly s0) (populateCacheFromEvidence H E now run r b m)"
  unfolding populateCacheFromEvidence_def Let_def by (intro keeps_intro)

lemma evaluateCandidate_valid:
  assumes "ca_semanticallyValid (evaluateCandidate H L r)"
  shows "isCacheRecordSemanticallyValid r \<and> cr_projectId r = li_projectId L \<and> cr_gateId r = li_gateId L
    \<and> ca_changed (evaluateCandidate H L r) = dedup (changedInputs H L r)
    \<and> ca_reuseProofDigest (evaluateCandidate H L r) = Some (liveProof H L r)"
  using assms by (auto simp: evaluateCandidate_def rejectCandidate_def split: if_splits)

text \<open>An unchanged candidate, as the search has to find it.\<close>

definition freshCandidate :: "'h host_scheme \<Rightarrow> liveInputs \<Rightarrow> evidenceCacheRecord \<Rightarrow> bool" where
  "freshCandidate H L r \<longleftrightarrow> isCacheRecordSemanticallyValid r \<and> cr_projectId r = li_projectId L
     \<and> cr_gateId r = li_gateId L \<and> changedInputs H L r = []"

lemma fresh_candidate_proof: "freshCandidate H L r \<Longrightarrow> cr_reuseProofDigest r = liveProof H L r"
  by (simp add: freshCandidate_def changedInputs_def)

lemma scan_outcome:
  assumes "scanCandidates H now L rs st s = (Inr st', t)" "sn_candidate st = None" "\<not> sn_blocked st'"
  shows "sn_candidate st' = None
    \<or> (\<exists>r\<in>set rs. sn_candidate st' = Some r \<and> freshCandidate H L r \<and> sn_reuseProofDigest st' = Some (cr_reuseProofDigest r))"
  using assms
proof (induction rs arbitrary: st s)
  case Nil
  then show ?case by (simp add: step_iff)
next
  case (Cons r rs)
  let ?ev = "evaluateCandidate H L r"
  have own: "cr_projectId r = li_projectId L" using Cons.prems by (auto simp: step_iff split: if_splits)
  consider (invalid) "\<not> ca_semanticallyValid ?ev" | (hit) "ca_semanticallyValid ?ev" "ca_changed ?ev = []" "truthy (ca_reuseProofDigest ?ev)"
    | (stale) "ca_semanticallyValid ?ev" "\<not> (ca_changed ?ev = [] \<and> truthy (ca_reuseProofDigest ?ev))" by blast
  then show ?case
  proof cases
    case invalid
    then have "scanCandidates H now L rs st s = (Inr st', t)"
      using Cons.prems own by (auto simp: step_iff Let_def split: if_splits)
    from Cons.IH [OF this Cons.prems(2,3)] show ?thesis by auto
  next
    case hit
    then have st': "st' = st\<lparr>sn_candidate := Some r, sn_reuseProofDigest := ca_reuseProofDigest ?ev\<rparr>"
      using Cons.prems(1) own by (simp add: step_iff Let_def)
    have "freshCandidate H L r"
      using evaluateCandidate_valid [OF hit(1)] hit(2) by (cases "changedInputs H L r") (auto simp: freshCandidate_def)
    then show ?thesis
      using st' evaluateCandidate_valid [OF hit(1)] fresh_candidate_proof by fastforce
  next
    case stale
    then obtain u where "scanCandidates H now L rs (st\<lparr>sn_sawStale := True, sn_lastStaleChanged := ca_changed ?ev\<rparr>) u
        = (Inr st', t)"
      using Cons.prems(1) own by (auto simp: step_iff Let_def split: if_splits)
    from Cons.IH [OF this _ Cons.prems(3)] Cons.prems(2) show ?thesis by auto
  qed
qed

lemma decideKind_hit:
  "decideKind e b c ch cu tu al = CacheHit \<Longrightarrow> e \<and> \<not> b \<and> c \<noteq> None \<and> ch = [] \<and> \<not> cu \<and> \<not> tu"
  by (auto simp: decideKind_def split: if_splits)

lemma search_outcome:
  assumes "searchCandidates H now q live g b s = (Inr st, t)" "\<not> sn_blocked st" "sn_candidate st \<noteq> None"
  shows "\<exists>L r. live = Some L \<and> \<not> lg_blocked g \<and> r \<in> set (listCandidatesForGate H now s (cq_projectId q) (cq_gateId q))
    \<and> sn_candidate st = Some r \<and> freshCandidate H L r \<and> sn_reuseProofDigest st = Some (cr_reuseProofDigest r)"
proof -
  obtain L where L: "live = Some L"
    using assms by (cases live) (auto simp: searchCandidates_def step_iff initialScan_def)
  have g: "isCacheEligibleGate (cq_gateId q) \<and> \<not> lg_blocked g \<and> \<not> lg_contractUnprovable g
            \<and> \<not> lg_toolchainUnprovable g \<and> b"
    using assms L by (auto simp: searchCandidates_def step_iff initialScan_def split: if_splits)
  then obtain st1 u where scan: "scanCandidates H now L (listCandidatesForGate H now s (cq_projectId q) (cq_gateId q)) (initialScan g) u
      = (Inr st1, t)" "sn_blocked st1 = sn_blocked st" "sn_candidate st1 = sn_candidate st"
      "sn_reuseProofDigest st1 = sn_reuseProofDigest st"
    using assms(1) L by (auto simp: searchCandidates_def step_iff)
  from scan_outcome [OF scan(1)] assms scan show ?thesis
    using L g by (auto simp: initialScan_def)
qed

lemma set_listCandidates:
  "r \<in> set (listCandidatesForGate H now s p g) \<Longrightarrow> \<exists>i. readEvidenceCacheRecord H s i = Some r"
  by (auto simp: listCandidatesForGate_def in_map_filter)

section \<open>Properties\<close>

text \<open>C10: a HIT is sound. The gate is eligible, its contract can be derived and its tool chain proved, the
  index is complete, current and of the project, and a stored record of that project and gate was
  found in which nothing the result depends on has changed. Contract, policy, tool chain, environment,
  basis files and manifests of the record are those of the project now, and the proof digest computed
  again from what is live now is that of the record, which is the one the decision carries.\<close>

theorem cache_hit_sound:
  assumes "evaluateCache H E now q s = (Inr d, t)" "cd_decision d = CacheHit"
  shows "isCacheEligibleGate (cq_gateId q)
    \<and> (\<exists>b r i contract toolchain. cq_bundle q = Some b \<and> indexIsReusable b \<and> is_projectId (ib_state b) = cq_projectId q
         \<and> contract = buildGateReuseContract H (cq_gateId q) (cq_repositoryMap q)
         \<and> toolchain = resolveToolchainIdentity E (gc_normalizedCommandIdentity contract) (Some b)
         \<and> (gc_contractKind contract = CommandGate \<longrightarrow> gc_derivable contract \<and> tc_provable toolchain)
         \<and> readEvidenceCacheRecord H s i = Some r \<and> cd_candidateCacheRecordId d = Some (cr_cacheRecordId r)
         \<and> cr_projectId r = cq_projectId q \<and> cr_gateId r = cq_gateId q \<and> isCacheRecordSemanticallyValid r
         \<and> cr_gateReuseContractIdentity r = gc_gateReuseContractIdentity contract
         \<and> cr_policyIdentity r = CACHE_POLICY_IDENTITY
         \<and> toolIdentityMatches (cr_toolIdentity r) (tc_identity toolchain)
         \<and> cr_environmentIdentity r = collectEnvironmentIdentity E (cq_gateId q)
         \<and> fst (compareCandidateValidity r b) = []
         \<and> compareDigestMap H (cr_manifestDigests r) (manifestDigestsFromBundle b) ''manifest'' = []
         \<and> cr_reuseProofDigest r = computeReuseProofDigest H (cq_projectId q) (gc_gateReuseContractIdentity contract)
             (gc_normalizedCommandIdentity contract) (snd (compareCandidateValidity r b))
             (manifestDigestsFromBundle b) (tc_identity toolchain) (collectEnvironmentIdentity E (cq_gateId q))
             CACHE_POLICY_IDENTITY
         \<and> cd_reuseProofDigest d = Some (cr_reuseProofDigest r)
         \<and> cd_gateReuseContractIdentity d = Some (cr_gateReuseContractIdentity r))"
proof -
  define contract where "contract = buildGateReuseContract H (cq_gateId q) (cq_repositoryMap q)"
  define toolchain where
    "toolchain = resolveToolchainIdentity E (gc_normalizedCommandIdentity contract) (cq_bundle q)"
  define index where "index = readEvidenceCacheIndex now s (cq_projectId q)"
  define g where "g = lookupGuardsOf q index contract toolchain"
  obtain st u where st: "searchCandidates H now q (liveInputsOf E q contract toolchain) g (index \<noteq> None) s = (Inr st, u)"
      and d: "d = buildDecision H now q contract g st"
    using assms(1) unfolding evaluateCache_def Let_def contract_def toolchain_def index_def g_def
    by (auto simp: step_iff)
  have hit: "isCacheEligibleGate (cq_gateId q)" "\<not> sn_blocked st" "sn_candidate st \<noteq> None"
      "\<not> lg_contractUnprovable g" "\<not> lg_toolchainUnprovable g"
    using assms(2) decideKind_hit unfolding d buildDecision_def Let_def by fastforce+
  obtain L r where Lr: "liveInputsOf E q contract toolchain = Some L" "\<not> lg_blocked g"
      "r \<in> set (listCandidatesForGate H now s (cq_projectId q) (cq_gateId q))"
      "sn_candidate st = Some r" "freshCandidate H L r" "sn_reuseProofDigest st = Some (cr_reuseProofDigest r)"
    using search_outcome [OF st hit(2,3)] by blast
  obtain b where b: "cq_bundle q = Some b" and L: "L = \<lparr>li_projectId = cq_projectId q, li_gateId = cq_gateId q, li_bundle = b,
      li_contract = contract, li_toolchain = tc_identity toolchain,
      li_environment = collectEnvironmentIdentity E (cq_gateId q), li_manifests = manifestDigestsFromBundle b\<rparr>"
    using Lr(1) by (auto simp: liveInputsOf_def)
  have usable: "indexIsReusable b" "is_projectId (ib_state b) = cq_projectId q"
    using Lr(2) hit(1) b by (auto simp: g_def lookupGuardsOf_def Let_def)
  have provable: "gc_contractKind contract = CommandGate \<longrightarrow> gc_derivable contract \<and> tc_provable toolchain"
    using hit(1,4,5) by (simp add: g_def lookupGuardsOf_def Let_def)
  obtain i where i: "readEvidenceCacheRecord H s i = Some r" using set_listCandidates [OF Lr(3)] by blast
  have carried: "cd_candidateCacheRecordId d = Some (cr_cacheRecordId r)"
      "cd_reuseProofDigest d = Some (cr_reuseProofDigest r)"
      "cd_gateReuseContractIdentity d = Some (gc_gateReuseContractIdentity contract)"
    using assms(2) Lr(4,6) unfolding d buildDecision_def Let_def by simp_all
  note fresh = Lr(5) [unfolded L freshCandidate_def changedInputs_def liveProof_def append_is_Nil_conv codeIf_Nil
      liveInputs.simps not_not]
  show ?thesis
    using hit(1) b usable provable i carried fresh
    by (intro conjI exI [of _ b] exI [of _ r] exI [of _ i] exI [of _ contract] exI [of _ toolchain])
      (simp_all add: contract_def toolchain_def)
qed

section \<open>A concrete hit\<close>

definition demoFile :: "string \<Rightarrow> string \<Rightarrow> indexedFileRecord" where
  "demoFile p d = \<lparr>if_path = p, if_contentDigest = d, if_kind = SourceFile, if_language = None, if_bytes = 1,
     if_hasExportBoundary = False\<rparr>"

definition demoBundle :: indexBundle where
  "demoBundle =
    \<lparr>ib_state = \<lparr>is_projectId = ''p_1'', is_indexDigest = ''i'', is_extractorVersion = ''e'', is_engineVersion = ''n'',
       is_generatedAt = ''t'', is_updatedAt = ''t'', is_gitHead = None, is_dirtyDigest = ''c'', is_gitAvailable = True,
       is_mode = FullBuild, is_confidence = HighConfidence, is_stale = False, is_staleReason = None, is_filesConsidered = 1, is_filesParsed = 1,
       is_filesReused = 0, is_filesRemoved = 0, is_unresolvedCount = 0, is_nodeCount = 0, is_edgeCount = 0,
       is_complete = True, is_truncated = False, is_truncationReason = None,
       is_files = [demoFile ''src/a.ts'' ''a1'', demoFile ''package.json'' ''m1'']\<rparr>,
     ib_graph = \<lparr>dg_projectId = ''p_1'', dg_indexDigest = ''i'', dg_generatedAt = ''t'', dg_extractorVersion = ''1'', dg_nodes = [], dg_edges = [], dg_unresolved = []\<rparr>,
     ib_tests = [], ib_interfaces = []\<rparr>"

definition demoMap :: repositoryMap where
  "demoMap =
    \<lparr>map_projectId = ''p_1'', map_generatedAt = ''t'', map_repositoryName = ''r'', map_digest = ''d'', map_gitHead = None,
     map_branch = None, map_dirty = False, map_dirtyDigest = ''c'', map_reused = False, map_languages = [],
     map_packageManager = Some ''npm'', map_frameworks = [],
     map_commands = (\<lambda>k. if k = ''build'' then Some ''tsc -p .'' else None), map_signals = (\<lambda>_. False),
     map_modules = [], map_entrypoints = [], map_agentsMd = [], map_cursor = [], map_skills = [],
     map_manifestHashes = []\<rparr>"

definition demoBuildEvidence :: evidenceRecord where
  "demoBuildEvidence = demoEvidence\<lparr>ev_command := Some ''npm run build :: tsc -p .''\<rparr>"

definition filledSidecar :: sidecar where
  "filledSidecar =
     snd (populateCacheFromEvidence plain_sys demoProbe ''t2'' demoRun demoBuildEvidence demoBundle (Some demoMap) emptySidecar)"

definition demoQuery :: cacheQuery where
  "demoQuery = gateQuery demoRun (Some demoBundle) (Some demoMap) ''build''"

section \<open>Applied hits\<close>

lemma hasText_truthy: "hasText v \<Longrightarrow> truthy v"
  by (cases v) (auto simp: hasText_def trim_def)

lemma concrete_proof_satisfies:
  assumes "evidenceHasConcreteGateProof r" "lookupGate (ev_gateId r) = Some def" "ev_status r = EvPass"
    "reuseProvenancePresent r"
  shows "evidenceSatisfiesGate r def"
  using assms hasText_truthy
  by (auto simp: evidenceHasConcreteGateProof_def evidenceSatisfiesGate_def split: if_splits)

lemma reuse_record_satisfies:
  assumes "ev_source r = Some CacheReuse" "fst (validateCacheReuseEvidence R c r)" "ev_status r = EvPass"
  shows "\<exists>def. lookupGate (ev_gateId r) = Some def \<and> evidenceSatisfiesGate r def"
proof -
  have p: "reuseRecordProblems c r = []" using validate_reuse_sound [OF assms(1,2)] by blast
  then obtain def where def: "lookupGate (ev_gateId r) = Some def" by (auto simp: reuseRecordProblems_def)
  have "reuseProvenancePresent r"
    using p hasText_truthy by (auto simp: reuseRecordProblems_def reuseProvenancePresent_def)
  moreover have "evidenceHasConcreteGateProof r" using p by (simp add: reuseRecordProblems_def)
  ultimately show ?thesis using def concrete_proof_satisfies assms(3) by blast
qed

text \<open>
  What an applied record is worth when it was applied in the sidecar \<open>u\<close>: a record of this run for an
  eligible gate that was still open, which satisfies the gate, and the decision and the cache record
  it names are stored in \<open>u\<close>, a HIT and a valid record of the same project, gate and proof.
\<close>

definition appliedRecordOk ::
  "'h sys_scheme \<Rightarrow> sidecar \<Rightarrow> executionRun \<Rightarrow> gateStateSnapshot list \<Rightarrow> evidenceRecord \<Rightarrow> bool" where
  "appliedRecordOk H u run states e \<longleftrightarrow>
     ev_source e = Some CacheReuse \<and> isCacheEligibleGate (ev_gateId e) \<and> \<not> gateSettled states (ev_gateId e)
     \<and> ev_projectId e = run_projectId run \<and> ev_executionRunId e = run_executionRunId run
     \<and> Some (ev_changeDigest e) = run_currentChangeDigest run
     \<and> (\<exists>def. lookupGate (ev_gateId e) = Some def \<and> evidenceSatisfiesGate e def)
     \<and> (\<exists>d k. readCacheDecision H u (or_empty (ev_cacheDecisionId e)) = Some d
         \<and> readEvidenceCacheRecord H u (or_empty (ev_sourceCacheRecordId e)) = Some k
         \<and> cd_decision d = CacheHit \<and> cd_projectId d = run_projectId run \<and> cd_gateId d = ev_gateId e
         \<and> (run_executionRunId run \<noteq> [] \<longrightarrow> cd_executionRunId d = Some (run_executionRunId run))
         \<and> cd_liveChangeDigest d = run_currentChangeDigest run \<and> cd_candidateCacheRecordId d = ev_sourceCacheRecordId e
         \<and> cr_projectId k = run_projectId run \<and> cr_gateId k = ev_gateId e \<and> isCacheRecordSemanticallyValid k
         \<and> cd_reuseProofDigest d = Some (cr_reuseProofDigest k) \<and> ev_reuseProofDigest e = Some (cr_reuseProofDigest k)
         \<and> cd_gateReuseContractIdentity d = Some (cr_gateReuseContractIdentity k))"

lemma applyHit_ok:
  assumes "applyHit H now run gate d s = (Inr (Some e), t)" "isCacheEligibleGate gate" "\<not> gateSettled states gate"
  shows "appliedRecordOk H s run states e \<and> ev_gateId e = gate \<and> cd_decision d = CacheHit
    \<and> ev_cacheDecisionId e = Some (cd_cacheDecisionId d) \<and> (\<exists>p. persistEvidenceRecord H e s = (Inr p, t))"
proof -
  let ?claim = "\<lparr>rc_projectId = run_projectId run, rc_gateId = gate, rc_changeDigest = Some (or_empty (run_currentChangeDigest run)),
          rc_workOrderId = Some (run_workOrderId run), rc_executionRunId = Some (run_executionRunId run)\<rparr>"
  obtain k p where k: "e = derivedEvidence H now run (or_empty (run_currentChangeDigest run)) gate d k"
      "fst (validateCacheReuseEvidence (cacheReaderOf H s) ?claim e)"
      "truthy (run_currentChangeDigest run)" "cd_decision d = CacheHit" "persistEvidenceRecord H e s = (Inr p, t)"
    using assms(1)
    by (auto simp: applyHit_def Let_def step_iff split: if_splits option.splits)
  then have src: "ev_source e = Some CacheReuse" "ev_status e = EvPass" "ev_gateId e = gate" "ev_projectId e = run_projectId run"
      "ev_executionRunId e = run_executionRunId run" "ev_changeDigest e = or_empty (run_currentChangeDigest run)"
      "ev_cacheDecisionId e = Some (cd_cacheDecisionId d)"
    by (simp_all add: derivedEvidence_def)
  have digest: "Some (or_empty (run_currentChangeDigest run)) = run_currentChangeDigest run"
    using k(3) by (auto simp: truthy_iff or_empty_def)
  have "\<exists>def. lookupGate gate = Some def \<and> evidenceSatisfiesGate e def"
    using reuse_record_satisfies [OF src(1) k(2) src(2)] src(3) by simp
  moreover obtain d' k' where stored: "readCacheDecision H s (or_empty (ev_cacheDecisionId e)) = Some d'"
      "readEvidenceCacheRecord H s (or_empty (ev_sourceCacheRecordId e)) = Some k'"
      "reuseDecisionProblems ?claim e d' = []" "reuseCacheRecordProblems ?claim e k' = []"
    using validate_reuse_sound(2) [OF src(1) k(2)] by (auto simp: cacheReaderOf_def)
  ultimately show ?thesis
    unfolding appliedRecordOk_def using src assms(2,3) digest k(4,5)
    by (auto simp: reuseDecisionProblems_def reuseCacheRecordProblems_def differs_def truthy_iff)
qed

text \<open>Where a record was applied: after the gates before its own, on the decision made there.\<close>

lemma applyHits_ok:
  assumes "applyHitsTo H E now run b states m gates s = (Inr (applied, ds), t)" "e \<in> set applied"
  shows "\<exists>before after xs s1 d u p v. gates = before @ ev_gateId e # after
    \<and> applyHitsTo H E now run b states m before s = (Inr xs, s1)
    \<and> evaluateCache H E now (gateQuery run b m (ev_gateId e)) s1 = (Inr d, u)
    \<and> cd_decision d = CacheHit \<and> ev_cacheDecisionId e = Some (cd_cacheDecisionId d)
    \<and> appliedRecordOk H u run states e \<and> persistEvidenceRecord H e u = (Inr p, v)"
  using assms
proof (induction gates arbitrary: s applied ds)
  case Nil
  then show ?case by (simp add: step_iff)
next
  case (Cons g gs)
  show ?case
  proof (cases "isCacheEligibleGate g \<and> gateSettled states g")
    case True
    then have "applyHitsTo H E now run b states m gs s = (Inr (applied, ds), t)" using Cons.prems by simp
    from Cons.IH [OF this Cons.prems(2)] obtain before after xs s1 d u p v where ih: "gs = before @ ev_gateId e # after"
        "applyHitsTo H E now run b states m before s = (Inr xs, s1)"
        "evaluateCache H E now (gateQuery run b m (ev_gateId e)) s1 = (Inr d, u)"
        "cd_decision d = CacheHit" "ev_cacheDecisionId e = Some (cd_cacheDecisionId d)"
        "appliedRecordOk H u run states e" "persistEvidenceRecord H e u = (Inr p, v)" by blast
    have "applyHitsTo H E now run b states m (g # before) s = (Inr xs, s1)" using ih(2) True by simp
    with ih show ?thesis by (metis append_Cons)
  next
    case False
    obtain d ap u v rest where st: "evaluateCache H E now (gateQuery run b m g) s = (Inr d, u)"
        "(if isCacheEligibleGate g then applyHit H now run g d else returnE None) u = (Inr ap, v)"
        "applyHitsTo H E now run b states m gs v = (Inr rest, t)"
        "applied = (case ap of None \<Rightarrow> fst rest | Some e \<Rightarrow> e # fst rest)"
      using Cons.prems False by (auto simp: step_iff)
    consider (here) "ap = Some e" | (later) "e \<in> set (fst rest)"
      using Cons.prems(2) st(4) by (cases ap) auto
    then show ?thesis
    proof cases
      case here
      then have elig: "isCacheEligibleGate g" using st(2) by (auto simp: step_iff split: if_splits)
      with here st(2) False applyHit_ok [of H now run g d u e v states]
      have ok: "appliedRecordOk H u run states e" "ev_gateId e = g" "cd_decision d = CacheHit"
          "ev_cacheDecisionId e = Some (cd_cacheDecisionId d)" "\<exists>p. persistEvidenceRecord H e u = (Inr p, v)"
        by auto
      have "applyHitsTo H E now run b states m [] s = (Inr ([], []), s)" by (simp add: step_iff)
      with ok st(1) show ?thesis by (metis append_Nil)
    next
      case later
      have "applyHitsTo H E now run b states m gs v = (Inr (fst rest, snd rest), t)" using st(3) by simp
      from Cons.IH [OF this later] obtain before after xs s1 d' u' p v' where ih: "gs = before @ ev_gateId e # after"
          "applyHitsTo H E now run b states m before v = (Inr xs, s1)"
          "evaluateCache H E now (gateQuery run b m (ev_gateId e)) s1 = (Inr d', u')"
          "cd_decision d' = CacheHit" "ev_cacheDecisionId e = Some (cd_cacheDecisionId d')"
          "appliedRecordOk H u' run states e" "persistEvidenceRecord H e u' = (Inr p, v')" by blast
      have "\<exists>ys. applyHitsTo H E now run b states m (g # before) s = (Inr ys, s1)"
        using ih(2) st(1,2) False by (auto simp: bindE_def returnE_def)
      with ih show ?thesis by (metis append_Cons)
    qed
  qed
qed

text \<open>C13: every record that is applied from the cache was applied at its own gate in the course of this
  operation. The gate is selected, eligible for reuse and not yet settled, the search in the sidecar
  as it was then found a HIT, the record belongs to the current digest and this run and satisfies its
  gate, and the sidecar in which it was written held the decision and the cache record it names: a
  HIT for this project, run, gate and digest and a valid record with the same proof.\<close>

theorem applied_cache_hits_ok:
  assumes "applyEligibleCacheHits H E now run b states m s = (Inr (applied, ds), t)"
  shows "\<forall>e\<in>set applied. \<exists>before after xs s1 d u p v. run_selectedGates run = before @ ev_gateId e # after
    \<and> applyHitsTo H E now run b states m before s = (Inr xs, s1)
    \<and> evaluateCache H E now (gateQuery run b m (ev_gateId e)) s1 = (Inr d, u)
    \<and> cd_decision d = CacheHit \<and> ev_cacheDecisionId e = Some (cd_cacheDecisionId d)
    \<and> appliedRecordOk H u run states e \<and> persistEvidenceRecord H e u = (Inr p, v)"
  using assms unfolding applyEligibleCacheHits_def by (blast intro: applyHits_ok)

end
