(* ===== verification/Gate_Properties.thy ===== *)
theory Gate_Properties
  imports Gate_States Cache_Engine
begin

text \<open>
  What the derived gate states promise: exactly which records make a gate PASS, that a PASS by
  reused evidence is backed by the cache, and that records of other digests or runs do not matter.
\<close>

definition evidenceGatePasses ::
  "string \<Rightarrow> string option \<Rightarrow> evidenceRecord list \<Rightarrow> gateValidation option \<Rightarrow> bool" where
  "evidenceGatePasses g digest evidence v \<longleftrightarrow>
     list_all (\<lambda>r. ev_status r = EvPass) (evidenceForGate g digest evidence v)
     \<and> (case lookupGate g of None \<Rightarrow> False
        | Some def \<Rightarrow> list_ex (acceptableEvidence v digest g def) (evidenceForGate g digest evidence v))"

definition reviewGatePasses ::
  "string \<Rightarrow> string option \<Rightarrow> reviewRecord list \<Rightarrow> gateValidation option \<Rightarrow> bool" where
  "reviewGatePasses g digest reviews v \<longleftrightarrow>
     truthy digest
     \<and> (let rs = reviewsForGate (or_empty (REVIEW_GATE_ROLES g)) (or_empty digest) reviews v
        in rs \<noteq> [] \<and> list_all (\<lambda>r. rv_verdict r = Approved \<and> \<not> hasSevereFinding r) rs)"

lemma review_gate_passes:
  assumes "isReviewGate g"
  shows "gs_status (reviewGateState g digest reviews v) = GatePass \<longleftrightarrow> reviewGatePasses g digest reviews v"
proof -
  let ?rs = "reviewsForGate (or_empty (REVIEW_GATE_ROLES g)) (or_empty digest) reviews v"
  have "(\<exists>r\<in>set ?rs. rv_verdict r = Approved) \<and> (\<forall>r\<in>set ?rs. rv_verdict r = Approved \<and> \<not> hasSevereFinding r)
      \<longleftrightarrow> ?rs \<noteq> [] \<and> list_all (\<lambda>r. rv_verdict r = Approved \<and> \<not> hasSevereFinding r) ?rs"
    by (cases ?rs) (auto simp: list_all_iff)
  then show ?thesis
    using truthy_role [OF assms] by (simp add: review_gate_pass_iff reviewGatePasses_def Let_def)
qed

text \<open>A gate is PASS exactly when, for a review gate, its role has at least one review of the
  current digest and all of them are approvals without HIGH or CRITICAL finding; for any other
  gate, when no current record of it failed or is blocked and one of them satisfies the contract of
  the gate, with valid provenance if it was reused.\<close>

theorem gate_pass_iff:
  "gs_status (gateState digest evidence reviews v g) = GatePass
     \<longleftrightarrow> (if isReviewGate g then reviewGatePasses g digest reviews v else evidenceGatePasses g digest evidence v)"
  by (auto simp: gateState_def review_gate_passes evidence_gate_pass_iff evidenceGatePasses_def
      list_all_iff list_ex_iff split: option.splits)

text \<open>Evidence and reviews of another change digest, project, work order or run do not change
  any gate state: deriving from the current records alone gives the same states.\<close>

theorem stale_records_ignored:
  "deriveGateStates gates digest (currentEvidenceOf digest v evidence) (currentReviewsOf digest v reviews) v
     = deriveGateStates gates digest evidence reviews v"
  by (rule derive_current)

text \<open>C7: behind every gate other than a review gate that is PASS stands a passing record of that gate
  and digest with concrete proof (an output or a file with its digest); if that record was reused, a
  HIT decision for this digest and a valid, reusable cache record of the same project and gate are
  stored, and the proof digests agree.\<close>

theorem pass_is_backed:
  assumes "gs_status (gateState digest evidence reviews (Some v) g) = GatePass" "\<not> isReviewGate g"
  shows "\<exists>r\<in>set evidence. ev_gateId r = g \<and> Some (ev_changeDigest r) = digest \<and> ev_status r = EvPass
    \<and> ((truthy (ev_outputRef r) \<and> truthy (ev_outputDigest r)) \<or> (truthy (ev_fileRef r) \<and> truthy (ev_fileDigest r)))
    \<and> (ev_source r = Some CacheReuse \<longrightarrow>
        (\<exists>d k. rd_readCacheDecision (gv_reader v) (or_empty (ev_cacheDecisionId r)) = Some d
           \<and> rd_readCacheRecord (gv_reader v) (or_empty (ev_sourceCacheRecordId r)) = Some k
           \<and> cd_decision d = CacheHit \<and> cd_liveChangeDigest d = digest
           \<and> cr_projectId k = ev_projectId r \<and> cr_gateId k = g
           \<and> isCacheRecordSemanticallyValid k \<and> Some (cr_reuseProofDigest k) = cd_reuseProofDigest d))"
proof -
  obtain def r where r: "r \<in> set (evidenceForGate g digest evidence (Some v))"
      "acceptableEvidence (Some v) digest g def r"
    using assms by (auto simp: gateState_def evidence_gate_pass_iff)
  then have cur: "r \<in> set evidence" "ev_gateId r = g" "Some (ev_changeDigest r) = digest"
    by (auto simp: evidenceForGate_def)
  have sat: "evidenceSatisfiesGate r def"
    using r(2) by (auto simp: acceptableEvidence_def split: if_splits)
  have "\<exists>d k. rd_readCacheDecision (gv_reader v) (or_empty (ev_cacheDecisionId r)) = Some d
           \<and> rd_readCacheRecord (gv_reader v) (or_empty (ev_sourceCacheRecordId r)) = Some k
           \<and> cd_decision d = CacheHit \<and> cd_liveChangeDigest d = digest
           \<and> cr_projectId k = ev_projectId r \<and> cr_gateId k = g
           \<and> isCacheRecordSemanticallyValid k \<and> Some (cr_reuseProofDigest k) = cd_reuseProofDigest d"
    if reused: "ev_source r = Some CacheReuse"
  proof -
    have "fst (validateCacheReuseEvidence (gv_reader v)
        \<lparr>rc_projectId = gv_projectId v, rc_gateId = g, rc_changeDigest = digest,
         rc_workOrderId = gv_workOrderId v, rc_executionRunId = gv_executionRunId v\<rparr> r)"
      using r(2) reused by (auto simp: acceptableEvidence_def split: if_splits)
    from reuse_evidence_backed [OF reused this] show ?thesis using cur by auto
  qed
  then show ?thesis using cur satisfies_pass [OF sat] satisfies_concrete [OF sat] by blast
qed

text \<open>The evidence of the run in a state, and the state of its build gate there.\<close>

definition evidenceIn :: "sidecar \<Rightarrow> evidenceRecord list" where
  "evidenceIn s = (case listEvidenceRecords plain_sys s ''ex_1'' of Inl _ \<Rightarrow> [] | Inr es \<Rightarrow> es)"

definition validationIn :: "sidecar \<Rightarrow> gateValidation" where
  "validationIn s = runValidation (cacheReaderOf plain_sys s) demoRun"

definition reusedPassIn :: "sidecar \<Rightarrow> bool" where
  "reusedPassIn s \<longleftrightarrow>
     list_all (\<lambda>r. ev_source r = Some CacheReuse) (evidenceIn s)
     \<and> gs_status (gateState (Some ''d_1'') (evidenceIn s) [] (Some (validationIn s)) ''build'') = GatePass"

definition appliedSidecar :: sidecar where
  "appliedSidecar =
     snd (applyEligibleCacheHits plain_sys demoProbe ''t3'' demoRun (Some demoBundle) [] (Some demoMap) filledSidecar)"

lemma applied_reused:
  "reusedPassIn (snd (applyEligibleCacheHits plain_sys demoProbe ''t3'' demoRun (Some demoBundle) [] (Some demoMap)
     filledSidecar))"
  by code_simp

lemma pass_is_backed_witness:
  "\<exists>r\<in>set (evidenceIn appliedSidecar). \<exists>d k.
     rd_readCacheDecision (gv_reader (validationIn appliedSidecar)) (or_empty (ev_cacheDecisionId r)) = Some d
     \<and> rd_readCacheRecord (gv_reader (validationIn appliedSidecar)) (or_empty (ev_sourceCacheRecordId r)) = Some k
     \<and> cd_decision d = CacheHit \<and> cr_gateId k = ''build''"
proof -
  have "reusedPassIn appliedSidecar" unfolding appliedSidecar_def by (rule applied_reused)
  then have pass: "gs_status (gateState (Some ''d_1'') (evidenceIn appliedSidecar) []
        (Some (validationIn appliedSidecar)) ''build'') = GatePass"
      and reused: "\<forall>r\<in>set (evidenceIn appliedSidecar). ev_source r = Some CacheReuse"
    by (auto simp: reusedPassIn_def list_all_iff)
  have "\<not> isReviewGate ''build''" by code_simp
  from pass_is_backed [OF pass this] reused show ?thesis by blast
qed

section \<open>A hit of the cache\<close>

text \<open>
  A cache that holds the demo build is searched and its hit applied.
\<close>

lemma demo_hit:
  "case fst (evaluateCache plain_sys demoProbe ''t3'' demoQuery filledSidecar) of
     Inl e \<Rightarrow> False | Inr d \<Rightarrow> cd_decision d = CacheHit"
  by code_simp

lemma cache_hit_sound_witness:
  "\<exists>d t. evaluateCache plain_sys demoProbe ''t3'' demoQuery filledSidecar = (Inr d, t)
     \<and> cd_reuseProofDigest d \<noteq> None \<and> isCacheEligibleGate (cq_gateId demoQuery)"
proof -
  obtain r t where rt: "evaluateCache plain_sys demoProbe ''t3'' demoQuery filledSidecar = (r, t)" by fastforce
  then obtain d where d: "r = Inr d" "cd_decision d = CacheHit"
    using demo_hit by (cases r) auto
  show ?thesis using cache_hit_sound [OF rt [unfolded d(1)] d(2)] rt d(1) by blast
qed

lemma demo_applied:
  "case fst (applyEligibleCacheHits plain_sys demoProbe ''t3'' demoRun (Some demoBundle) [] (Some demoMap) filledSidecar) of
     Inl e \<Rightarrow> False | Inr r \<Rightarrow> length (fst r) = 1"
  by code_simp

lemma applied_cache_hits_ok_witness:
  "\<exists>e ds t. applyEligibleCacheHits plain_sys demoProbe ''t3'' demoRun (Some demoBundle) [] (Some demoMap) filledSidecar
      = (Inr ([e], ds), t) \<and> (\<exists>u. appliedRecordOk plain_sys u demoRun [] e)"
proof -
  obtain r t where rt: "applyEligibleCacheHits plain_sys demoProbe ''t3'' demoRun (Some demoBundle) [] (Some demoMap) filledSidecar
      = (r, t)" by fastforce
  then obtain es ds where es: "r = Inr (es, ds)" "length es = 1"
    using demo_applied by (cases r) auto
  then obtain e where e: "es = [e]" by (auto simp: length_Suc_conv)
  have "applyEligibleCacheHits plain_sys demoProbe ''t3'' demoRun (Some demoBundle) [] (Some demoMap) filledSidecar
      = (Inr ([e], ds), t)" using rt es(1) e by simp
  moreover from applied_cache_hits_ok [OF this] have "\<exists>u. appliedRecordOk plain_sys u demoRun [] e" by fastforce
  ultimately show ?thesis by blast
qed

end
