(* ===== verification/Execution_Base.thy ===== *)
theory Execution_Base
  imports Worktree Cache_Engine Cost_Governor Assurance_Policy
begin

text \<open>
  What the operations of the execution engine (\<^verbatim>\<open>src/kernel/execution.ts\<close>) share: the
  surroundings of one operation, the load of the active artifacts, the checkpoint write, packets.

  One operation sees one instant, one work tree and one set of answers from the parts of the kernel
  that are not modelled: the index and its impact analysis, model routing, the specialist selection
  check. Each of them answers or throws; the index and the model plan may be asked twice, so their
  answers are numbered. An operation that rebuilds the whole index counts the scan in the ledger.
\<close>

datatype selectionFailure = SelectionRejected string | SelectionThrew uadsError

record execEnv =
  en_now :: string
  en_projectId :: string
  en_tree :: worktree
  en_map :: "repositoryMap option"
  en_probe :: repoProbe
  en_index :: "nat \<Rightarrow> uadsError + (indexBundle \<times> bool)"
  en_intel :: "indexBundle \<Rightarrow> contextRadius \<Rightarrow> workOrder \<Rightarrow> string \<Rightarrow> contextExpansion list \<Rightarrow> bool
    \<Rightarrow> uadsError + (impactReport \<times> contextPack)"
  en_publish :: "impactReport \<Rightarrow> contextPack \<Rightarrow> uadsError + unit"
  en_modelPlan :: "nat \<Rightarrow> workOrder \<Rightarrow> contextPlan \<Rightarrow> string \<Rightarrow> uadsError + modelExecutionPlan"
  en_selection :: "workOrder \<Rightarrow> routingDecision option \<Rightarrow> contextPlan \<Rightarrow> string option
    \<Rightarrow> selectionFailure + specialistSelectionPlan"
  en_outputFile :: "string \<Rightarrow> string option"
  en_redactOutput :: "string \<Rightarrow> string option"

definition errorMessage :: "uadsError \<Rightarrow> string" where
  "errorMessage e = (case e of ExecutionBlocked m _ \<Rightarrow> m | InvalidOrchestrationState m \<Rightarrow> m
     | CostBudget m _ _ \<Rightarrow> m | PlainError m \<Rightarrow> m)"

definition failureMessage :: "selectionFailure \<Rightarrow> string" where
  "failureMessage f = (case f of SelectionRejected m \<Rightarrow> m | SelectionThrew e \<Rightarrow> errorMessage e)"

definition blockedE :: "string \<Rightarrow> string list \<Rightarrow> 'a op" where
  "blockedE m bs = throwE (ExecutionBlocked m bs)"

text \<open>\<open>if (b) throw new ExecutionBlockedError(m, bs)\<close>\<close>

definition refuseIf :: "bool \<Rightarrow> string \<Rightarrow> string list \<Rightarrow> unit op" where
  "refuseIf b m bs = guardE (\<not> b) (ExecutionBlocked m bs)"

text \<open>A step whose outcome the code swallows (\<open>try { \<dots> } catch { }\<close>).\<close>

definition bestEffort :: "'a op \<Rightarrow> unit op" where
  "bestEffort m = catchE (bindE m (\<lambda>_. returnE ())) (\<lambda>_. returnE ())"

text \<open>Branches of an operation, applied to a state.\<close>

lemma option_step_iff [step_iff]:
  "(case v of None \<Rightarrow> m | Some x \<Rightarrow> f x) s = (r, t) \<longleftrightarrow>
     (v = None \<and> m s = (r, t)) \<or> (\<exists>x. v = Some x \<and> f x s = (r, t))"
  by (cases v) auto

lemma sum_step_iff [step_iff]:
  "(case v of Inl e \<Rightarrow> f e | Inr x \<Rightarrow> g x) s = (r, t) \<longleftrightarrow>
     (\<exists>e. v = Inl e \<and> f e s = (r, t)) \<or> (\<exists>x. v = Inr x \<and> g x s = (r, t))"
  by (cases v) auto

lemma if_step_iff [step_iff]:
  "(if b then m else k) s = (r, t) \<longleftrightarrow> (b \<and> m s = (r, t)) \<or> (\<not> b \<and> k s = (r, t))"
  by simp

lemma blockedE_iff [step_iff]: "blockedE m bs s = (r, t) \<longleftrightarrow> r = Inl (ExecutionBlocked m bs) \<and> t = s"
  by (simp add: blockedE_def step_iff)

lemma refuseIf_Inr [step_iff]: "refuseIf b m bs s = (Inr x, t) \<longleftrightarrow> \<not> b \<and> t = s"
  by (simp add: refuseIf_def step_iff)

lemma refuseIf_Inl [step_iff]: "refuseIf b m bs s = (Inl e, t) \<longleftrightarrow> b \<and> e = ExecutionBlocked m bs \<and> t = s"
  by (simp add: refuseIf_def step_iff)

lemma keeps_blockedE [keeps_intro]: "keeps P (blockedE m bs)"
  by (simp add: blockedE_def keeps_throwE)

lemma keeps_refuseIf [keeps_intro]: "keeps P (refuseIf b m bs)"
  by (simp add: refuseIf_def keeps_guardE)

lemma bestEffort_total: "\<exists>t. bestEffort m s = (Inr (), t)"
proof (cases "m s")
  case (Pair r t)
  then show ?thesis by (cases r) (simp_all add: bestEffort_def catchE_def bindE_def returnE_def)
qed

lemma keeps_bestEffort [keeps_intro]: "keeps P m \<Longrightarrow> keeps P (bestEffort m)"
  unfolding bestEffort_def by (intro keeps_intro)

section \<open>Runs and packets\<close>

definition touchRun :: "string \<Rightarrow> executionRun \<Rightarrow> executionRun" where
  "touchRun now run = run\<lparr>run_updatedAt := now\<rparr>"

definition requiresImplementation :: "workOrder \<Rightarrow> bool" where
  "requiresImplementation w \<longleftrightarrow> IMPLEMENTER_ROLE \<in> set (wo_specialists w)"

definition missingSession :: "string \<Rightarrow> uadsError" where
  "missingSession m = ExecutionBlocked m [''missing implementer session'']"

definition rebindError :: uadsError where
  "rebindError = ExecutionBlocked ''cannot rebind implementer session on an active run''
     [''implementer session mismatch'']"

text \<open>The session bound by the current run, when that run belongs to the work order.\<close>

definition boundSession :: "workOrder \<Rightarrow> executionRun option \<Rightarrow> string option" where
  "boundSession w existing =
    (case existing of None \<Rightarrow> None
     | Some r \<Rightarrow> if run_workOrderId r = wo_workOrderId w then run_implementerSessionId r else None)"

definition resolveImplementerSession ::
  "'h host_scheme \<Rightarrow> workOrder \<Rightarrow> executionRun option \<Rightarrow> string option \<Rightarrow> uadsError + string option" where
  "resolveImplementerSession H w existing providedRaw =
    (let provided = (if truthy providedRaw then sanitizeOperationalText H (or_empty providedRaw) else []);
         bound = boundSession w existing
     in if requiresImplementation w then
          if truthy bound then
            if provided = [] then Inl (missingSession ''dispatch requires the bound implementer session'')
            else if Some provided \<noteq> bound then Inl rebindError
            else Inr bound
          else if provided = [] then Inl (missingSession ''dispatch requires a non-empty implementer session'')
          else Inr (Some provided)
        else if truthy bound then
          if provided \<noteq> [] \<and> Some provided \<noteq> bound then Inl rebindError else Inr bound
        else Inr (if provided = [] then None else Some provided))"

definition hostManaged :: "modelBinding \<Rightarrow> modelBinding" where
  "hostManaged b = b\<lparr>mo_selectionMode := Some (case mo_selectionMode b of None \<Rightarrow> HostManagedMode | Some m \<Rightarrow> m)\<rparr>"

definition buildPacket :: "executionRun \<Rightarrow> workOrder \<Rightarrow> executionPacket" where
  "buildPacket run w =
    \<lparr>pk_executionRunId = run_executionRunId run, pk_workOrderId = wo_workOrderId w,
     pk_objective = wo_objective w, pk_includedScope = wo_includedScope w, pk_outOfScope = wo_outOfScope w,
     pk_riskLevel = wo_riskLevel w, pk_domains = wo_domains w, pk_contextRadius = run_contextRadius run,
     pk_contextCandidates = run_contextCandidates run, pk_specialists = wo_specialists w,
     pk_assuranceReviewers = wo_assuranceReviewers w,
     pk_specialistSelectionPlanId = sb_selectionPlanId (wo_binding w),
     pk_specialistSelectionDigest = sb_selectionDigest (wo_binding w),
     pk_specialistAssignments = wo_specialistAssignments w, pk_selectedGates = run_selectedGates run,
     pk_acceptanceCriteria = wo_acceptanceCriteria w, pk_requiredEvidence = wo_requiredEvidence w,
     pk_safeAutonomousActions = ab_safeAutonomous (wo_autonomyBoundary w),
     pk_approvalGatedActions = ab_requiresApproval (wo_autonomyBoundary w),
     pk_stopConditions = wo_stopConditions w
       @ [''Begin from Work Order, checkpoint, compact repository map, Context Pack, and context candidates before source files.''],
     pk_baselineGitHead = bl_gitHead (run_baseline run), pk_nextAction = run_nextAction run,
     pk_contextPackId = run_contextPackId run, pk_impactReportId = run_impactReportId run,
     pk_indexDigest = run_indexDigest run, pk_model = hostManaged (run_model run)\<rparr>"

section \<open>Checkpoints\<close>

definition writeCheckpoint ::
  "'h sys_scheme \<Rightarrow> checkpoint \<Rightarrow> workOrder \<Rightarrow> contextPlan \<Rightarrow> checkpoint op" where
  "writeCheckpoint H c w p =
    bindE (if wo_routingDecisionId w \<noteq> [] then queryE (\<lambda>s. readRoutingDecision H s (wo_routingDecisionId w))
           else returnE None) (\<lambda>routing.
      case routing of
        None \<Rightarrow> throwE (InvalidOrchestrationState ''routing decision missing for checkpoint update'')
      | Some d \<Rightarrow> bindE (persistPlan H w d c p) (\<lambda>r. returnE (fst (snd (snd r)))))"

section \<open>The active artifacts\<close>

record activeState =
  ac_checkpoint :: checkpoint
  ac_workOrder :: workOrder
  ac_plan :: contextPlan
  ac_run :: executionRun

text \<open>\<open>condition ? read(\<dots>) : null\<close>\<close>

definition queryIf :: "bool \<Rightarrow> (sidecar \<Rightarrow> uadsError + 'a option) \<Rightarrow> 'a option op" where
  "queryIf b f = (if b then queryE f else returnE None)"

definition missingArtifacts :: "'a op" where
  "missingArtifacts =
     throwE (InvalidOrchestrationState ''Work Order, routing decision, or context plan missing'')"

definition loadArtifacts :: "'h sys_scheme \<Rightarrow> execEnv \<Rightarrow> checkpoint \<Rightarrow> executionRun \<Rightarrow> activeState op" where
  "loadArtifacts H V c run =
    bindE (queryE (\<lambda>s. readWorkOrder H s (or_empty (cp_workOrderId c)))) (\<lambda>w0.
    bindE (readE readContextPlan) (\<lambda>p0.
    bindE (queryIf (truthy (cp_routingDecisionId c))
             (\<lambda>s. readRoutingDecision H s (or_empty (cp_routingDecisionId c)))) (\<lambda>d0.
      case w0 of None \<Rightarrow> missingArtifacts | Some w \<Rightarrow>
      case p0 of None \<Rightarrow> missingArtifacts | Some p \<Rightarrow>
      case d0 of None \<Rightarrow> missingArtifacts | Some d \<Rightarrow>
        bindE (queryE (\<lambda>s. readRequiredExecutionPacket H s (run_executionRunId run))) (\<lambda>packet.
        bindE (liftE (assertActiveExecutionConsistency (en_projectId V) c w d run packet)) (\<lambda>_.
        returnE \<lparr>ac_checkpoint = c, ac_workOrder = w, ac_plan = p, ac_run = run\<rparr>)))))"

definition noActiveRun :: "'a op" where
  "noActiveRun = blockedE ''no active execution run'' [''dispatch has not succeeded'']"

definition loadActive :: "'h sys_scheme \<Rightarrow> execEnv \<Rightarrow> activeState op" where
  "loadActive H V =
    bindE (readE (readCurrentCheckpoint H)) (\<lambda>c0.
    bindE (queryE (readCurrentExecutionRun H)) (\<lambda>r0.
      case c0 of None \<Rightarrow> noActiveRun | Some c \<Rightarrow>
      case r0 of None \<Rightarrow> noActiveRun | Some run \<Rightarrow>
        if truthy (cp_workOrderId c) then loadArtifacts H V c run else noActiveRun))"

section \<open>Gate states, selection, index\<close>

definition engineValidation :: "'h sys_scheme \<Rightarrow> execEnv \<Rightarrow> sidecar \<Rightarrow> executionRun \<Rightarrow> gateValidation" where
  "engineValidation H V s run =
     \<lparr>gv_reader = cacheReaderOf H s, gv_projectId = en_projectId V,
      gv_workOrderId = Some (run_workOrderId run), gv_executionRunId = Some (run_executionRunId run)\<rparr>"

definition runGateStates ::
  "'h sys_scheme \<Rightarrow> execEnv \<Rightarrow> sidecar \<Rightarrow> executionRun \<Rightarrow> evidenceRecord list \<Rightarrow> reviewRecord list
     \<Rightarrow> gateStateSnapshot list" where
  "runGateStates H V s run evidence reviews =
     deriveGateStates (run_selectedGates run) (run_currentChangeDigest run) evidence reviews
       (Some (engineValidation H V s run))"

text \<open>The gate states of the run as the sidecar holds its records now.\<close>

definition gateStatesOf :: "'h sys_scheme \<Rightarrow> execEnv \<Rightarrow> executionRun \<Rightarrow> evidenceRecord list \<Rightarrow> reviewRecord list
  \<Rightarrow> gateStateSnapshot list op" where
  "gateStatesOf H V run evidence reviews = readE (\<lambda>s. runGateStates H V s run evidence reviews)"

definition passCount :: "gateStateSnapshot list \<Rightarrow> int" where
  "passCount gates = int (length (filter (\<lambda>g. gs_status g = GatePass) gates))"

text \<open>Counter deltas of a governor event.\<close>

definition deltas :: "(counterKey \<times> int) list \<Rightarrow> (counterKey \<Rightarrow> int option) option" where
  "deltas kvs = Some (map_of kvs)"

definition noteRunEvent ::
  "'h sys_scheme \<Rightarrow> execEnv \<Rightarrow> executionRun \<Rightarrow> governorOutcome \<Rightarrow> string list \<Rightarrow> string
     \<Rightarrow> (counterKey \<times> int) list \<Rightarrow> unit op" where
  "noteRunEvent H V run outcome reasons subject kvs =
    bindE (noteGovernorEvent H (en_now V) (en_projectId V) (Some (run_workOrderId run))
             (Some (run_executionRunId run)) outcome reasons subject (deltas kvs)) (\<lambda>_. returnE ())"

definition assuranceSelection ::
  "'h sys_scheme \<Rightarrow> execEnv \<Rightarrow> workOrder \<Rightarrow> contextPlan \<Rightarrow> specialistSelectionPlan op" where
  "assuranceSelection H V w p =
    bindE (queryE (\<lambda>s. readRoutingDecision H s (wo_routingDecisionId w))) (\<lambda>routing.
      case en_selection V w routing p None of
        Inr sel \<Rightarrow> returnE sel
      | Inl f \<Rightarrow> blockedE (''assurance requires current specialist selection: '' @ failureMessage f)
                  [reason_text SPECIALIST_SELECTION_INVALID])"

text \<open>\<^verbatim>\<open>intelligence.ts\<close>: the \<open>n\<close>-th request for the index in an operation; a full build is counted.\<close>

definition currentOrRefreshIndex :: "'h sys_scheme \<Rightarrow> execEnv \<Rightarrow> nat \<Rightarrow> indexBundle op" where
  "currentOrRefreshIndex H V n =
    (case en_index V n of
       Inl e \<Rightarrow> throwE e
     | Inr (b, fullBuild) \<Rightarrow>
         if fullBuild then
           bindE (bestEffort (bindE (readE (readCostLedger H (en_now V) (en_projectId V))) (\<lambda>current.
             applyLedgerPatch H (en_now V) (en_projectId V) (\<lambda>l. l\<lparr>cl_fullRepositoryScans :=
               (case current of None \<Rightarrow> 0 | Some c \<Rightarrow> cl_fullRepositoryScans c) + 1\<rparr>)))) (\<lambda>_.
           returnE b)
         else returnE b)"

text \<open>
  Impact report and context pack within the token budget: built from the index, checked against the
  budget of the work order, published. A budget error is reported as a blocked execution.
\<close>

definition budgetedIntel ::
  "'h sys_scheme \<Rightarrow> execEnv \<Rightarrow> nat \<Rightarrow> contextRadius \<Rightarrow> workOrder \<Rightarrow> string \<Rightarrow> contextExpansion list \<Rightarrow> bool
     \<Rightarrow> string \<Rightarrow> (impactReport \<times> contextPack) op" where
  "budgetedIntel H V n radius w runId history approveC5 subject =
    catchE
      (bindE (currentOrRefreshIndex H V n) (\<lambda>b.
       bindE (liftE (en_intel V b radius w runId history approveC5)) (\<lambda>intel.
       bindE (enforceTokenBudget H (en_now V) w (int (cx_estimatedTokens (snd intel))) subject (Some runId)) (\<lambda>_.
       bindE (liftE (en_publish V (fst intel) (snd intel))) (\<lambda>_.
       returnE intel)))))
      (\<lambda>e. case e of
         CostBudget m _ _ \<Rightarrow> blockedE m [''hard token budget exceeded'']
       | _ \<Rightarrow> throwE e)"

section \<open>Facts\<close>

text \<open>Index and budget steps write the cost store only.\<close>

lemma costFrame_index [keeps_intro]: "costFrame s0 (currentOrRefreshIndex H V n)"
  unfolding currentOrRefreshIndex_def by (cases "en_index V n") (auto intro!: keeps_intro)

lemma costFrame_intel [keeps_intro]: "costFrame s0 (budgetedIntel H V n r w i h a sub)"
  unfolding budgetedIntel_def by (intro keeps_intro) (auto intro: keeps_intro split: uadsError.split)

lemma session_never_rebound:
  assumes "resolveImplementerSession H w existing provided = Inr session" "truthy (boundSession w existing)"
  shows "session = boundSession w existing"
  using assms by (auto simp: resolveImplementerSession_def Let_def split: if_splits)

lemma session_present:
  assumes "resolveImplementerSession H w existing provided = Inr session" "requiresImplementation w"
  shows "truthy session"
  using assms by (auto simp: resolveImplementerSession_def Let_def truthy_iff dest: sym split: if_splits)

lemma missing_iff [step_iff]:
  "missingArtifacts s = (r, t) \<longleftrightarrow> t = s \<and>
     r = Inl (InvalidOrchestrationState ''Work Order, routing decision, or context plan missing'')"
  "noActiveRun s = (q, u) \<longleftrightarrow> u = s
     \<and> q = Inl (ExecutionBlocked ''no active execution run'' [''dispatch has not succeeded''])"
  by (auto simp: missingArtifacts_def noActiveRun_def step_iff)

lemma keeps_missing [keeps_intro]: "keeps P missingArtifacts" "keeps P noActiveRun" "keeps P (queryIf b f)"
  by (auto simp: missingArtifacts_def noActiveRun_def queryIf_def intro!: keeps_intro)

lemma loadArtifacts_Inr:
  assumes "loadArtifacts H V c run s = (Inr a, t)"
  shows "\<exists>w p d packet. a = \<lparr>ac_checkpoint = c, ac_workOrder = w, ac_plan = p, ac_run = run\<rparr>
     \<and> readWorkOrder H s (or_empty (cp_workOrderId c)) = Inr (Some w) \<and> readContextPlan s = Some p
     \<and> readRoutingDecision H s (or_empty (cp_routingDecisionId c)) = Inr (Some d)
     \<and> readRequiredExecutionPacket H s (run_executionRunId run) = Inr packet
     \<and> assertActiveExecutionConsistency (en_projectId V) c w d run packet = Inr ()"
  using assms unfolding loadArtifacts_def
  by (auto simp: step_iff queryIf_def dest!: sym [of "Inr _"])

lemma loadActive_Inr:
  assumes "loadActive H V s = (Inr a, t)"
  shows "readCurrentCheckpoint H s = Some (ac_checkpoint a)" "readCurrentExecutionRun H s = Inr (Some (ac_run a))"
    "loadArtifacts H V (ac_checkpoint a) (ac_run a) s = (Inr a, t)"
proof -
  obtain c run where cr: "readCurrentCheckpoint H s = Some c" "readCurrentExecutionRun H s = Inr (Some run)"
      "loadArtifacts H V c run s = (Inr a, t)"
    using assms unfolding loadActive_def by (auto simp: step_iff dest!: sym [of "Inr _"])
  from loadArtifacts_Inr [OF cr(3)] have "ac_checkpoint a = c" "ac_run a = run" by auto
  then show "readCurrentCheckpoint H s = Some (ac_checkpoint a)" "readCurrentExecutionRun H s = Inr (Some (ac_run a))"
    "loadArtifacts H V (ac_checkpoint a) (ac_run a) s = (Inr a, t)"
    using cr by simp_all
qed

lemma keeps_loadActive [keeps_intro]: "keeps P (loadActive H V)"
  unfolding loadActive_def loadArtifacts_def by (intro keeps_intro)

lemma loadActive_state: "loadActive H V s = (r, t) \<Longrightarrow> t = s"
  by (rule keepsD [OF keeps_loadActive]) simp_all

lemma consistency_facts:
  assumes "assertActiveExecutionConsistency pid c w d run p = Inr ()"
  shows "run_projectId run = pid" "wo_projectId w = pid" "cp_projectId c = pid"
    "run_workOrderId run = wo_workOrderId w" "cp_workOrderId c = Some (wo_workOrderId w)"
    "run_routingDecisionId run = wo_routingDecisionId w" "pk_executionRunId p = run_executionRunId run"
  using assms by (auto simp: assertActiveExecutionConsistency_def split: if_splits)

lemma loadActive_run:
  assumes "loadActive H V s = (Inr a, t)"
  shows "readCurrentExecutionRun H s = Inr (Some (ac_run a))" "run_projectId (ac_run a) = en_projectId V"
    "run_workOrderId (ac_run a) = wo_workOrderId (ac_workOrder a)" "t = s"
    "readCurrentCheckpoint H s = Some (ac_checkpoint a)"
proof -
  note load = loadActive_Inr [OF assms]
  from loadArtifacts_Inr [OF load(3)] obtain w d packet where
    "ac_workOrder a = w" "assertActiveExecutionConsistency (en_projectId V) (ac_checkpoint a) w d (ac_run a) packet = Inr ()"
    by (metis activeState.select_convs(2))
  with consistency_facts [OF this(2)]
  show "run_projectId (ac_run a) = en_projectId V" "run_workOrderId (ac_run a) = wo_workOrderId (ac_workOrder a)"
    by simp_all
  show "readCurrentExecutionRun H s = Inr (Some (ac_run a))" "readCurrentCheckpoint H s = Some (ac_checkpoint a)"
    by (fact load)+
  show "t = s" using loadActive_state [OF assms] .
qed

end
