(* ===== verification/Execution_Dispatch.thy ===== *)
theory Execution_Dispatch
  imports Execution_Base
begin

text \<open>
  Dispatch (\<open>runDispatch\<close> of \<^verbatim>\<open>src/kernel/execution.ts\<close>): a planned work order becomes an
  execution run with its packet. The definitions follow the parts of the function: the artifacts it
  needs, the specialist selection, the dirty tree, the model plan, the run that is reused, the run
  that is created.
\<close>

section \<open>Inputs\<close>

record dispatchInputs =
  di_checkpoint :: checkpoint
  di_workOrder :: workOrder
  di_routing :: routingDecision
  di_plan :: contextPlan

definition noPlannedOrder :: "string \<Rightarrow> 'a op" where
  "noPlannedOrder why = blockedE ''cannot dispatch without a valid planned Work Order'' [why]"

definition missingDispatchPlan :: "'a op" where
  "missingDispatchPlan = throwE (InvalidOrchestrationState ''routing decision or context plan missing'')"

text \<open>Outside the plan and implement phases only the run of the same work order may be dispatched.\<close>

definition phaseCheck :: "'h sys_scheme \<Rightarrow> checkpoint \<Rightarrow> unit op" where
  "phaseCheck H c =
    (if cp_phase c \<noteq> Plan \<and> cp_phase c \<noteq> Implement then
       bindE (queryE (readCurrentExecutionRun H)) (\<lambda>existing.
         case existing of
           None \<Rightarrow> noPlannedOrder (''checkpoint phase is '' @ phase_text (cp_phase c))
         | Some r \<Rightarrow> if Some (run_workOrderId r) \<noteq> cp_workOrderId c
                     then noPlannedOrder (''checkpoint phase is '' @ phase_text (cp_phase c))
                     else returnE ())
     else returnE ())"

definition dispatchInputsOf :: "'h sys_scheme \<Rightarrow> dispatchInputs op" where
  "dispatchInputsOf H =
    bindE (readE (readCurrentCheckpoint H)) (\<lambda>c0.
      case c0 of None \<Rightarrow> noPlannedOrder ''missing planned Work Order'' | Some c \<Rightarrow>
        if \<not> truthy (cp_workOrderId c) \<or> \<not> truthy (cp_routingDecisionId c)
        then noPlannedOrder ''missing planned Work Order''
        else
          bindE (phaseCheck H c) (\<lambda>_.
          bindE (queryE (\<lambda>s. readWorkOrder H s (or_empty (cp_workOrderId c)))) (\<lambda>w0.
          bindE (queryE (\<lambda>s. readRoutingDecision H s (or_empty (cp_routingDecisionId c)))) (\<lambda>d0.
          bindE (readE readContextPlan) (\<lambda>p0.
            case w0 of None \<Rightarrow> noPlannedOrder ''Work Order missing or still draft'' | Some w \<Rightarrow>
              if wo_status w = WoDraft then noPlannedOrder ''Work Order missing or still draft''
              else case d0 of None \<Rightarrow> missingDispatchPlan | Some d \<Rightarrow>
                   (case p0 of None \<Rightarrow> missingDispatchPlan | Some p \<Rightarrow>
                      returnE \<lparr>di_checkpoint = c, di_workOrder = w, di_routing = d, di_plan = p\<rparr>))))))"

section \<open>Specialist selection\<close>

text \<open>The impact identity of the live index, when the plan or the work order is bound to one.\<close>

definition dispatchImpactDigest :: "'h sys_scheme \<Rightarrow> execEnv \<Rightarrow> dispatchInputs \<Rightarrow> bool \<Rightarrow> string option op" where
  "dispatchImpactDigest H V I dirty =
    (if \<not> dirty \<and> (pl_indexDigest (di_plan I) \<noteq> None \<or> truthy (sb_impactDigest (wo_binding (di_workOrder I))))
     then catchE (bindE (currentOrRefreshIndex H V 0) (\<lambda>b. returnE (Some (is_indexDigest (ib_state b)))))
            (\<lambda>e. blockedE (''specialist Context/Impact state is unavailable: '' @ errorMessage e)
               [''current specialist impact identity is unavailable''])
     else returnE None)"

definition dispatchSelection :: "execEnv \<Rightarrow> dispatchInputs \<Rightarrow> string option \<Rightarrow> unit op" where
  "dispatchSelection V I impact =
    (case en_selection V (di_workOrder I) (Some (di_routing I)) (di_plan I) impact of
       Inr _ \<Rightarrow> returnE ()
     | Inl (SelectionRejected m) \<Rightarrow>
         blockedE (''specialist routing state is unavailable: '' @ m)
           [''specialist selection missing, blocked, stale, or cross-artifact mismatch'']
     | Inl (SelectionThrew e) \<Rightarrow> throwE e)"

section \<open>Refusals that are recorded\<close>

definition DIRTY_BLOCKER :: string where
  "DIRTY_BLOCKER = ''pre-existing dirty worktree at dispatch''"

definition sameOrder :: "workOrder \<Rightarrow> executionRun option \<Rightarrow> executionRun option" where
  "sameOrder w existing =
    (case existing of None \<Rightarrow> None
     | Some r \<Rightarrow> if run_workOrderId r = wo_workOrderId w then Some r else None)"

definition dirtyRun :: "string \<Rightarrow> executionRun \<Rightarrow> executionRun" where
  "dirtyRun now r = touchRun now (r\<lparr>run_status := ExBlocked, run_phase := EpStopped,
     run_blockers := unique (run_blockers r @ [DIRTY_BLOCKER]),
     run_nextAction := ''Clean or commit unrelated local changes, then re-run uads dispatch. UADS will not reset, stash, or delete user files.''\<rparr>)"

definition blockedCheckpoint :: "string \<Rightarrow> string \<Rightarrow> string \<Rightarrow> checkpoint \<Rightarrow> checkpoint" where
  "blockedCheckpoint now blocker action c =
     c\<lparr>cp_updatedAt := now, cp_status := CpBlocked, cp_blockers := unique (cp_blockers c @ [blocker]),
       cp_nextAction := action\<rparr>"

definition refuseDirty :: "'h sys_scheme \<Rightarrow> execEnv \<Rightarrow> dispatchInputs \<Rightarrow> executionRun option \<Rightarrow> 'a op" where
  "refuseDirty H V I existing =
    bindE (case sameOrder (di_workOrder I) existing of
             None \<Rightarrow> returnE ()
           | Some r \<Rightarrow> bindE (persistExecutionRun H (dirtyRun (en_now V) r) None) (\<lambda>_. returnE ())) (\<lambda>_.
    bindE (writeCheckpoint H
             (blockedCheckpoint (en_now V) DIRTY_BLOCKER
                ''Refuse dispatch: dirty worktree. Do not reset/stash/clean. Resolve ownership, then dispatch.''
                (di_checkpoint I)) (di_workOrder I) (di_plan I)) (\<lambda>_.
    blockedE ''dirty worktree blocks dispatch'' [DIRTY_BLOCKER]))"

definition dispatchModelPlan :: "'h sys_scheme \<Rightarrow> execEnv \<Rightarrow> dispatchInputs \<Rightarrow> modelExecutionPlan op" where
  "dispatchModelPlan H V I =
    catchE (bindE (liftE (liveDigest H (en_tree V))) (\<lambda>digest.
              liftE (en_modelPlan V 0 (di_workOrder I) (di_plan I) digest)))
      (\<lambda>e. blockedE (''model routing state is unavailable: '' @ errorMessage e)
         [''model routing state missing or corrupt''])"

definition refuseModelPlan :: "'h sys_scheme \<Rightarrow> execEnv \<Rightarrow> dispatchInputs \<Rightarrow> modelExecutionPlan \<Rightarrow> unit op" where
  "refuseModelPlan H V I m =
    (if mx_status m = RoutingBlocked then
       let blocker = (case mx_blockedReason m of None \<Rightarrow> ''NO_ELIGIBLE_MODEL'' | Some b \<Rightarrow> b)
       in bindE (writeCheckpoint H
                   (blockedCheckpoint (en_now V) blocker
                      ''Register a compatible model profile or configure a runtime that proves the required capabilities, then re-route.''
                      (di_checkpoint I)) (di_workOrder I) (di_plan I)) (\<lambda>_.
          blockedE ''model routing blocked dispatch'' [blocker])
     else returnE ())"

section \<open>The run\<close>

definition historyOf :: "executionRun option \<Rightarrow> contextExpansion list" where
  "historyOf existing = (case existing of None \<Rightarrow> [] | Some r \<Rightarrow> run_expansionHistory r)"

definition dispatchedRun ::
  "execEnv \<Rightarrow> dispatchInputs \<Rightarrow> executionRun option \<Rightarrow> string option \<Rightarrow> string \<Rightarrow> contextPack \<Rightarrow> impactReport
     \<Rightarrow> modelExecutionPlan \<Rightarrow> executionRun" where
  "dispatchedRun V I existing session runId pack report m =
    (let w = di_workOrder I; now = en_now V
     in \<lparr>run_executionRunId = runId, run_projectId = en_projectId V, run_workOrderId = wo_workOrderId w,
         run_routingDecisionId = wo_routingDecisionId w,
         run_createdAt = (case existing of None \<Rightarrow> now | Some r \<Rightarrow> run_createdAt r), run_updatedAt = now,
         run_attempt = (case sameOrder w existing of None \<Rightarrow> 1 | Some r \<Rightarrow> run_attempt r),
         run_phase = EpImplement, run_status = ExReady,
         run_baseline = \<lparr>bl_gitHead = wt_gitHead (en_tree V), bl_dirty = False, bl_capturedAt = now\<rparr>,
         run_contextRadius = wo_contextRadius w, run_contextCandidates = pl_candidateAreas (di_plan I),
         run_implementerRole = IMPLEMENTER_ROLE, run_implementerSessionId = session,
         run_requiredReviewers = unique (wo_assuranceReviewers w), run_selectedGates = wo_qualityGates w,
         run_currentChangeDigest = None, run_reviewedChangeDigest = None, run_changedFiles = [],
         run_scopeViolations = [],
         run_evidenceRefs = (case existing of None \<Rightarrow> [] | Some r \<Rightarrow> run_evidenceRefs r),
         run_reviewRefs = (case existing of None \<Rightarrow> [] | Some r \<Rightarrow> run_reviewRefs r),
         run_blockers = [],
         run_nextAction = ''Invoke selected implementation specialist(s). Edit only NECESSARY in-scope files. Then run uads verify.'',
         run_expansionHistory = historyOf existing,
         run_contextPackId = Some (cx_contextPackId pack), run_impactReportId = Some (ip_impactReportId report),
         run_indexDigest = Some (cx_indexDigest pack),
         run_model = \<lparr>mo_modelPlanId = Some (mx_planId m), mo_selectedProfileId = mx_selectedProfileId m,
           mo_selectedProviderId = mx_selectedProviderId m, mo_selectedModelId = mx_selectedModelId m,
           mo_selectionMode = Some (mx_selectionMode m), mo_execution = Some (mx_execution m)\<rparr>\<rparr>)"

definition dispatchCheckpoint :: "string \<Rightarrow> string \<Rightarrow> checkpoint \<Rightarrow> checkpoint" where
  "dispatchCheckpoint now action c =
     c\<lparr>cp_updatedAt := now, cp_phase := Implement, cp_status := CpInProgress,
       cp_completedSteps := unique (cp_completedSteps c @ [''dispatch'']), cp_blockers := [],
       cp_nextAction := action, cp_resumeCursor := ''implement:await-edits''\<rparr>"

definition dispatchContextPlan :: "contextPack \<Rightarrow> impactReport \<Rightarrow> contextPlan \<Rightarrow> contextPlan" where
  "dispatchContextPlan pack report p =
     p\<lparr>pl_contextPackId := Some (cx_contextPackId pack), pl_impactReportId := Some (ip_impactReportId report),
       pl_indexDigest := Some (cx_indexDigest pack),
       pl_reusableArtifacts := unique (pl_reusableArtifacts p
         @ [''sidecar://context/packs/'' @ cx_contextPackId pack @ ''.json''])\<rparr>"

definition dispatchRunId :: "'h host_scheme \<Rightarrow> string \<Rightarrow> workOrder \<Rightarrow> executionRun option \<Rightarrow> string" where
  "dispatchRunId H now w existing =
    (case sameOrder w existing of
       Some r \<Rightarrow> run_executionRunId r
     | None \<Rightarrow> newPrefixedId H ''er'' (wo_workOrderId w @ '':'' @ now))"

definition createRun ::
  "'h sys_scheme \<Rightarrow> execEnv \<Rightarrow> dispatchInputs \<Rightarrow> executionRun option \<Rightarrow> string option
     \<Rightarrow> (executionRun \<times> executionPacket \<times> workOrder) op" where
  "createRun H V I existing session =
    (let w = di_workOrder I; now = en_now V; runId = dispatchRunId H now w existing
     in bindE (budgetedIntel H V 1 (wo_contextRadius w) w runId (historyOf existing) False ''dispatch'') (\<lambda>intel.
        bindE (liftE (liveDigest H (en_tree V))) (\<lambda>digest.
        bindE (liftE (en_modelPlan V 1 (w\<lparr>wo_status := WoActive, wo_updatedAt := now\<rparr>) (di_plan I) digest)) (\<lambda>m.
        let run = dispatchedRun V I existing session runId (snd intel) (fst intel) m;
            packet = buildPacket run w;
            active = w\<lparr>wo_status := WoActive, wo_updatedAt := now, wo_nextAction := pk_nextAction packet\<rparr>
        in bindE (persistExecutionRun H run (Some packet)) (\<lambda>_.
           bindE (writeCheckpoint H (dispatchCheckpoint now (pk_nextAction packet) (di_checkpoint I)) active
                    (dispatchContextPlan (snd intel) (fst intel) (di_plan I))) (\<lambda>_.
           returnE (run, packet, active)))))))"

text \<open>A run of the work order that is neither failed nor blocked is handed out again.\<close>

definition reusableRun :: "workOrder \<Rightarrow> executionRun option \<Rightarrow> executionRun option" where
  "reusableRun w existing =
    (case sameOrder w existing of None \<Rightarrow> None
     | Some r \<Rightarrow> if run_status r \<noteq> ExFailed \<and> run_status r \<noteq> ExBlocked then Some r else None)"

definition alreadyCompleted :: "workOrder \<Rightarrow> executionRun option \<Rightarrow> bool" where
  "alreadyCompleted w existing \<longleftrightarrow>
     (case sameOrder w existing of None \<Rightarrow> False | Some r \<Rightarrow> run_status r = ExCompleted)"

definition dispatchRun ::
  "'h sys_scheme \<Rightarrow> execEnv \<Rightarrow> string option \<Rightarrow> dispatchInputs \<Rightarrow> executionRun option
     \<Rightarrow> (executionRun \<times> executionPacket \<times> workOrder) op" where
  "dispatchRun H V provided I existing =
    (let w = di_workOrder I
     in bindE (dispatchModelPlan H V I) (\<lambda>m.
        bindE (refuseModelPlan H V I m) (\<lambda>_.
        bindE (refuseIf (alreadyCompleted w existing) ''execution run already completed'' [''run already completed'']) (\<lambda>_.
        bindE (liftE (resolveImplementerSession H w existing provided)) (\<lambda>session.
          case reusableRun w existing of
            Some r \<Rightarrow> bindE (queryE (\<lambda>s. readExecutionPacket H s (run_executionRunId r))) (\<lambda>p.
                        returnE (r, (case p of None \<Rightarrow> buildPacket r w | Some p' \<Rightarrow> p'), w))
          | None \<Rightarrow> createRun H V I existing session)))))"

definition runDispatch ::
  "'h sys_scheme \<Rightarrow> execEnv \<Rightarrow> string option \<Rightarrow> (executionRun \<times> executionPacket \<times> workOrder) op" where
  "runDispatch H V provided =
    bindE (dispatchInputsOf H) (\<lambda>I.
    let dirty = isWorktreeDirty (wt_status (en_tree V))
    in bindE (dispatchImpactDigest H V I dirty) (\<lambda>impact.
       bindE (dispatchSelection V I impact) (\<lambda>_.
       bindE (queryE (readCurrentExecutionRun H)) (\<lambda>existing.
         if dirty then refuseDirty H V I existing
         else dispatchRun H V provided I existing))))"

end
