(* ===== verification/Execution_Verify.thy ===== *)
theory Execution_Verify
  imports Execution_Base
begin

text \<open>
  Verification of the implementation (\<open>runVerify\<close> of \<^verbatim>\<open>src/kernel/execution.ts\<close>): the
  change set of the work tree is classified, a violation stops the run, a clean one binds the run to
  the change digest and reuses cached evidence where it may.
\<close>

section \<open>Guards and refusals\<close>

definition canVerify :: "executionRun \<Rightarrow> bool" where
  "canVerify run \<longleftrightarrow> run_phase run = EpImplement \<or> run_phase run = EpVerify \<or> run_phase run = EpReview
     \<or> run_status run = ExCorrectionNeeded"

definition verifyGuards :: "executionRun \<Rightarrow> unit op" where
  "verifyGuards run =
    bindE (refuseIf (run_status run = ExCompleted \<or> run_status run = ExFailed) ''execution run is not active''
             [''status is '' @ execution_status_text (run_status run)]) (\<lambda>_.
    refuseIf (\<not> canVerify run) ''cannot verify before dispatch or after the run has stopped''
      [''phase is '' @ execution_phase_text (run_phase run)])"

definition NO_CHANGE :: string where
  "NO_CHANGE = ''no implementation change to verify''"

definition noChangeRun :: "string \<Rightarrow> executionRun \<Rightarrow> executionRun" where
  "noChangeRun now run = touchRun now (run\<lparr>run_status := ExBlocked,
     run_blockers := unique (run_blockers run @ [NO_CHANGE]),
     run_nextAction := ''Implement in-scope edits, then re-run uads verify.''\<rparr>)"

definition violationText :: "string \<Rightarrow> scopeViolation \<Rightarrow> string" where
  "violationText sep v = classification_text (sv_classification v) @ sep @ sv_path v"

definition violatingRun :: "string \<Rightarrow> changeSet \<Rightarrow> executionRun \<Rightarrow> executionRun" where
  "violatingRun now c run = touchRun now (run\<lparr>run_status := ExBlocked, run_phase := EpStopped,
     run_currentChangeDigest := Some (ch_digest c), run_changedFiles := map cf_path (ch_files c),
     run_scopeViolations := ch_violations c,
     run_blockers := unique (run_blockers run @ map (violationText '': '') (ch_violations c)),
     run_nextAction := ''Out-of-scope or sensitive changes block verification. Create a new plan or revert the extra files.''\<rparr>)"

definition stoppedCheckpoint :: "string \<Rightarrow> executionRun \<Rightarrow> checkpoint \<Rightarrow> checkpoint" where
  "stoppedCheckpoint now run c =
     c\<lparr>cp_updatedAt := now, cp_status := CpBlocked, cp_phase := Stopped, cp_blockers := run_blockers run,
       cp_nextAction := run_nextAction run\<rparr>"

definition refuseChangeSet :: "'h sys_scheme \<Rightarrow> execEnv \<Rightarrow> activeState \<Rightarrow> changeSet \<Rightarrow> unit op" where
  "refuseChangeSet H V a c =
    (if requiresImplementation (ac_workOrder a) \<and> ch_files c = [] then
       bindE (persistExecutionRun H (noChangeRun (en_now V) (ac_run a)) None) (\<lambda>_.
       blockedE NO_CHANGE [NO_CHANGE])
     else if ch_violations c \<noteq> [] then
       let blocked = violatingRun (en_now V) c (ac_run a)
       in bindE (persistExecutionRun H blocked None) (\<lambda>_.
          bindE (writeCheckpoint H (stoppedCheckpoint (en_now V) blocked (ac_checkpoint a)) (ac_workOrder a) (ac_plan a)) (\<lambda>_.
          blockedE (''scope or sensitive path violations: ''
              @ join_with '', '' (map (violationText '':'') (ch_violations c))) (run_blockers blocked)))
     else returnE ())"

section \<open>The verified run\<close>

definition verifiedRun :: "string \<Rightarrow> changeSet \<Rightarrow> executionRun \<Rightarrow> executionRun" where
  "verifiedRun now c run = touchRun now (run\<lparr>run_phase := EpVerify, run_status := ExInProgress,
     run_currentChangeDigest := Some (ch_digest c), run_changedFiles := map cf_path (ch_files c),
     run_scopeViolations := [], run_blockers := [],
     run_reviewedChangeDigest := (if run_phase run = EpReview then None else run_reviewedChangeDigest run),
     run_nextAction := ''Record PASS evidence for selected non-review gates, then uads assurance start.''\<rparr>)"

definition reuseRun :: "string \<Rightarrow> evidenceRecord list \<Rightarrow> executionRun \<Rightarrow> executionRun" where
  "reuseRun now applied run = touchRun now (run\<lparr>run_evidenceRefs :=
     unique (run_evidenceRefs run @ map (evidenceRef run) applied)\<rparr>)"

text \<open>The run after the reuse of cached evidence; the events count the hits.\<close>

definition recordReuse ::
  "'h sys_scheme \<Rightarrow> execEnv \<Rightarrow> executionRun \<Rightarrow> evidenceRecord list \<Rightarrow> executionRun op" where
  "recordReuse H V run applied =
    (if applied \<noteq> [] then
       let n = int (length applied); withReuse = reuseRun (en_now V) applied run
       in bindE (persistExecutionRun H withReuse None) (\<lambda>_.
          bindE (noteRunEvent H V withReuse ReuseOutcome [''CACHE_HIT'', ''AVOIDED_ELIGIBLE_GATE_RERUN''] ''verify-cache-hit''
                   [(GateCacheHits, n), (EvidenceReuseCount, n), (AvoidedToolExecutions, n)]) (\<lambda>_.
          returnE withReuse))
     else returnE run)"

definition cacheMisses :: "cacheDecision list \<Rightarrow> nat" where
  "cacheMisses ds = length (filter (\<lambda>d. cd_decision d \<noteq> CacheHit \<and> cd_executionRequired d) ds)"

definition recordMisses :: "'h sys_scheme \<Rightarrow> execEnv \<Rightarrow> executionRun \<Rightarrow> cacheDecision list \<Rightarrow> unit op" where
  "recordMisses H V run ds =
    (if cacheMisses ds > 0
     then noteRunEvent H V run AllowOutcome [''CACHE_MISS_OR_STALE''] ''verify-cache-miss''
            [(GateCacheMisses, int (cacheMisses ds))]
     else returnE ())"

definition verifyCheckpoint :: "string \<Rightarrow> executionRun \<Rightarrow> checkpoint \<Rightarrow> checkpoint" where
  "verifyCheckpoint now run c =
     c\<lparr>cp_updatedAt := now, cp_phase := Verify, cp_status := CpInProgress,
       cp_completedSteps := unique (cp_completedSteps c @ [''verify'']), cp_blockers := [],
       cp_nextAction := run_nextAction run, cp_resumeCursor := ''verify:await-evidence''\<rparr>"

text \<open>\<open>try { bundle = currentOrRefreshIndex(\<dots>) } catch { bundle = null }\<close>\<close>

definition indexOrNone :: "'h sys_scheme \<Rightarrow> execEnv \<Rightarrow> indexBundle option op" where
  "indexOrNone H V = catchE (bindE (currentOrRefreshIndex H V 0) (\<lambda>b. returnE (Some b))) (\<lambda>_. returnE None)"

definition verifyClean ::
  "'h sys_scheme \<Rightarrow> execEnv \<Rightarrow> activeState \<Rightarrow> changeSet \<Rightarrow> (executionRun \<times> string list) op" where
  "verifyClean H V a c =
    (let now = en_now V; updated = verifiedRun now c (ac_run a); i = run_executionRunId updated
     in bindE (persistExecutionRun H updated (Some (buildPacket updated (ac_workOrder a)))) (\<lambda>_.
        bindE (queryE (\<lambda>s. listEvidenceRecords H s i)) (\<lambda>evidence.
        bindE (queryE (\<lambda>s. listReviewRecords H s i)) (\<lambda>reviews.
        bindE (gateStatesOf H V updated evidence reviews) (\<lambda>gates.
        bindE (indexOrNone H V) (\<lambda>bundle.
        bindE (applyEligibleCacheHits H (en_probe V) now updated bundle gates (en_map V)) (\<lambda>reused.
        bindE (recordReuse H V updated (fst reused)) (\<lambda>current.
        bindE (recordMisses H V current (snd reused)) (\<lambda>_.
        bindE (queryE (\<lambda>s. listEvidenceRecords H s i)) (\<lambda>evidenceAfter.
        bindE (gateStatesOf H V current evidenceAfter reviews) (\<lambda>gatesAfter.
        bindE (refreshQptSnapshot H now (en_projectId V) (int (length (run_selectedGates current)))
                 (passCount gatesAfter)
                 (if run_requiredReviewers current \<noteq> [] then ReviewPending else ReviewNotRequired)
                 (Some (radius_text (run_contextRadius current)))) (\<lambda>_.
        bindE (writeCheckpoint H (verifyCheckpoint now current (ac_checkpoint a)) (ac_workOrder a) (ac_plan a)) (\<lambda>_.
        returnE (current, pendingGateIds gatesAfter))))))))))))))"

definition runVerify :: "'h sys_scheme \<Rightarrow> execEnv \<Rightarrow> (executionRun \<times> changeSet \<times> string list) op" where
  "runVerify H V =
    bindE (loadActive H V) (\<lambda>a.
    bindE (verifyGuards (ac_run a)) (\<lambda>_.
    bindE (liftE (buildChangeSet H (en_tree V) (ac_workOrder a) (Some (ac_plan a)))) (\<lambda>c.
    bindE (refuseChangeSet H V a c) (\<lambda>_.
    bindE (verifyClean H V a c) (\<lambda>r.
    returnE (fst r, c, snd r))))))"

end
