(* ===== verification/Execution_Evidence.thy ===== *)
theory Execution_Evidence
  imports Execution_Base
begin

text \<open>
  Recording evidence for a gate (\<open>assertRecordableGate\<close>, \<open>assertPassContract\<close>,
  \<open>copySanitizedOutput\<close> and \<open>runEvidenceRecord\<close> of \<^verbatim>\<open>src/kernel/execution.ts\<close>). The
  output file is copied into the sidecar before the contract of the gate is checked, so a rejected
  record leaves the copy. The status of command evidence is derived from its exit code.
\<close>

record evidenceInput =
  ei_gateId :: string
  ei_kind :: evidenceKind
  ei_role :: string
  ei_command :: "string option"
  ei_exitCode :: "int option"
  ei_outputPath :: "string option"
  ei_file :: "string option"
  ei_summary :: string
  ei_status :: "evidenceStatus option"

section \<open>Guards\<close>

definition assertRecordableGate :: "executionRun \<Rightarrow> string \<Rightarrow> uadsError + gateDef" where
  "assertRecordableGate run gateId =
    (if \<not> isKnownGateId gateId
     then Inl (ExecutionBlocked ''unknown gate cannot be recorded'' [''unknown gate '' @ gateId])
     else if gateId \<notin> set (run_selectedGates run)
     then Inl (ExecutionBlocked ''unselected gate cannot be recorded'' [''unselected gate '' @ gateId])
     else case lookupGate gateId of
            None \<Rightarrow> Inl (ExecutionBlocked ''unknown gate cannot be recorded'' [''unknown gate '' @ gateId])
          | Some def \<Rightarrow>
              if isReviewGate gateId
              then Inl (ExecutionBlocked ''review gates require assurance records, not generic evidence''
                     [''review-gate:'' @ gateId])
              else Inr def)"

text \<open>What was proved about a record: the copied output and the hashed file.\<close>

record evidenceProof =
  pf_outputRef :: "string option"
  pf_outputDigest :: "string option"
  pf_fileRef :: "string option"
  pf_fileDigest :: "string option"

definition assertPassContract :: "gateDef \<Rightarrow> evidenceInput \<Rightarrow> evidenceProof \<Rightarrow> uadsError + unit" where
  "assertPassContract def i p =
    (let output = truthy (pf_outputRef p) \<and> truthy (pf_outputDigest p);
         file = truthy (pf_fileRef p) \<and> truthy (pf_fileDigest p)
     in if ei_kind i \<notin> set (gd_allowedEvidenceKinds def)
        then Inl (ExecutionBlocked ''evidence kind cannot satisfy the selected gate''
               [''kind '' @ evidence_kind_text (ei_kind i) @ '' not allowed for '' @ gd_id def])
        else if (gd_contractKind def = CommandGate \<or> ei_kind i = CommandEvidence)
             \<and> (ei_kind i \<noteq> CommandEvidence \<or> \<not> truthy (ei_command i) \<or> ei_exitCode i \<noteq> Some 0 \<or> \<not> output)
        then Inl (ExecutionBlocked ''command PASS requires command, exit 0, output ref, and output digest''
               [''insufficient command evidence for '' @ gd_id def])
        else if ei_kind i = FileEvidence \<and> \<not> file
        then Inl (ExecutionBlocked ''file evidence requires a relative fileRef and file digest'' [''missing file digest''])
        else if ei_kind i = InvariantEvidence \<and> \<not> (output \<or> file)
        then Inl (ExecutionBlocked ''invariant PASS requires a concrete output or file digest''
               [''summary-only invariant rejected''])
        else Inr ())"

definition evidenceStatusOf :: "evidenceInput \<Rightarrow> evidenceStatus" where
  "evidenceStatusOf i =
    (if ei_status i = Some EvBlocked then EvBlocked
     else if ei_kind i = CommandEvidence
     then (if (case ei_exitCode i of None \<Rightarrow> 1 | Some c \<Rightarrow> c) = 0 then EvPass else EvFail)
     else case ei_status i of None \<Rightarrow> EvPass | Some st \<Rightarrow> st)"

definition statusMismatch :: "evidenceInput \<Rightarrow> bool" where
  "statusMismatch i \<longleftrightarrow> ei_kind i = CommandEvidence \<and> ei_status i = Some EvPass
     \<and> (case ei_exitCode i of None \<Rightarrow> 1 | Some c \<Rightarrow> c) \<noteq> 0"

definition evidenceGuards :: "'h sys_scheme \<Rightarrow> executionRun \<Rightarrow> evidenceInput \<Rightarrow> gateDef op" where
  "evidenceGuards H run i =
    bindE (refuseIf (\<not> truthy (run_currentChangeDigest run)) ''cannot record evidence before verify''
             [''missing change digest'']) (\<lambda>_.
    bindE (refuseIf (run_phase run \<noteq> EpVerify \<and> run_phase run \<noteq> EpReview \<and> run_status run \<noteq> ExCorrectionNeeded)
             ''evidence recording requires an active verified run''
             [''phase is '' @ execution_phase_text (run_phase run)]) (\<lambda>_.
    bindE (liftE (assertRecordableGate run (sanitizeOperationalText H (ei_gateId i)))) (\<lambda>def.
    bindE (refuseIf (ei_kind i = CommandEvidence \<and> ei_exitCode i = None)
             ''command evidence requires --exit-code'' [''missing exit code'']) (\<lambda>_.
    bindE (refuseIf (statusMismatch i) ''PASS command evidence is incompatible with a non-zero exit code''
             [''status/exit-code mismatch'']) (\<lambda>_.
    returnE def)))))"

section \<open>The proof of a record\<close>

definition pathParts :: "string \<Rightarrow> string list" where
  "pathParts p = split_on (CHR ''/'') (map (\<lambda>c. if c = backslash then CHR ''/'' else c) p)"

definition copySanitizedOutput ::
  "'h sys_scheme \<Rightarrow> execEnv \<Rightarrow> string \<Rightarrow> string \<Rightarrow> string option \<Rightarrow> (string option \<times> string option) op" where
  "copySanitizedOutput H V runId evidenceId outputPath =
    (if \<not> truthy outputPath then returnE (None, None)
     else if ''..'' \<in> set (pathParts (or_empty outputPath))
     then blockedE ''path traversal rejected'' [''output path traversal'']
     else case en_outputFile V (or_empty outputPath) of
       None \<Rightarrow> blockedE ''evidence output file not found'' [''missing output file'']
     | Some raw \<Rightarrow>
         let text = (case en_redactOutput V raw of None \<Rightarrow> ''[REDACTED:unsanitizable-output]'' @ [CHR 0x0A] | Some x \<Rightarrow> x);
             name = evidenceId @ ''.output.txt''
         in bindE (writeE (updateRunStore runId (\<lambda>d. d\<lparr>rn_outputs := write_entry name text (rn_outputs d)\<rparr>))) (\<lambda>_.
            returnE (Some (''sidecar://execution-runs/'' @ runId @ ''/evidence/'' @ name), Some (sha256Hex H text))))"

definition fileProofOf :: "'h sys_scheme \<Rightarrow> execEnv \<Rightarrow> string option \<Rightarrow> (string option \<times> string option) op" where
  "fileProofOf H V file =
    (if truthy file
     then bindE (liftE (hashProjectFileEvidence H (en_tree V) (or_empty file))) (\<lambda>fd.
            returnE (Some (fst fd), Some (snd fd)))
     else returnE (None, None))"

definition evidenceProofOf ::
  "'h sys_scheme \<Rightarrow> execEnv \<Rightarrow> executionRun \<Rightarrow> string \<Rightarrow> evidenceInput \<Rightarrow> evidenceProof op" where
  "evidenceProofOf H V run evidenceId i =
    bindE (copySanitizedOutput H V (run_executionRunId run) evidenceId (ei_outputPath i)) (\<lambda>out.
    bindE (fileProofOf H V (ei_file i)) (\<lambda>file.
    returnE \<lparr>pf_outputRef = fst out, pf_outputDigest = snd out, pf_fileRef = fst file, pf_fileDigest = snd file\<rparr>))"

section \<open>The record and the run\<close>

definition evidenceIdOf :: "'h host_scheme \<Rightarrow> string \<Rightarrow> executionRun \<Rightarrow> evidenceInput \<Rightarrow> string" where
  "evidenceIdOf H now run i = newPrefixedId H ''ev''
     (run_executionRunId run @ '':'' @ ei_gateId i @ '':'' @ or_empty (run_currentChangeDigest run) @ '':'' @ now)"

definition evidenceRecordOf ::
  "'h host_scheme \<Rightarrow> string \<Rightarrow> executionRun \<Rightarrow> evidenceInput \<Rightarrow> evidenceProof \<Rightarrow> evidenceRecord" where
  "evidenceRecordOf H now run i p =
    (let S = sanitizeOperationalText H in
     \<lparr>ev_evidenceId = evidenceIdOf H now run i, ev_projectId = run_projectId run,
      ev_workOrderId = run_workOrderId run, ev_executionRunId = run_executionRunId run,
      ev_changeDigest = or_empty (run_currentChangeDigest run), ev_gateId = S (ei_gateId i),
      ev_sourceRole = S (ei_role i), ev_kind = ei_kind i, ev_createdAt = now, ev_status = evidenceStatusOf i,
      ev_summary = S (ei_summary i),
      ev_command = (if truthy (ei_command i) then Some (S (or_empty (ei_command i))) else None),
      ev_exitCode = (if ei_kind i = CommandEvidence then ei_exitCode i else None),
      ev_outputRef = pf_outputRef p, ev_outputDigest = pf_outputDigest p, ev_fileRef = pf_fileRef p,
      ev_fileDigest = pf_fileDigest p, ev_source = Some Executed, ev_sourceCacheRecordId = None,
      ev_sourceEvidenceId = None, ev_cacheDecisionId = None, ev_reuseProofDigest = None,
      ev_gateReuseContractIdentity = None\<rparr>)"

definition withoutGateFail :: "string list \<Rightarrow> string list" where
  "withoutGateFail bs = filter (\<lambda>b. \<not> starts_with ''gate-fail:'' b) bs"

definition evidenceRun :: "string \<Rightarrow> evidenceRecord \<Rightarrow> gateStateSnapshot list \<Rightarrow> executionRun \<Rightarrow> executionRun" where
  "evidenceRun now r states run =
    (let failed = failingGateIds states
     in touchRun now (run\<lparr>run_evidenceRefs := unique (run_evidenceRefs run @ [evidenceRef run r]),
          run_blockers := (if failed \<noteq> []
            then unique (withoutGateFail (run_blockers run) @ map (\<lambda>g. ''gate-fail: '' @ g) failed)
            else withoutGateFail (run_blockers run)),
          run_nextAction := (if failed \<noteq> []
            then ''Selected gate evidence FAIL/BLOCKED. Fix implementation, re-verify, and record new evidence.''
            else run_nextAction run)\<rparr>))"

definition cacheFromEvidence :: "'h sys_scheme \<Rightarrow> execEnv \<Rightarrow> executionRun \<Rightarrow> evidenceRecord \<Rightarrow> unit op" where
  "cacheFromEvidence H V run r =
    (if ev_status r = EvPass
     then bestEffort (bindE (currentOrRefreshIndex H V 0) (\<lambda>b.
            populateCacheFromEvidence H (en_probe V) (en_now V) run r b (en_map V)))
     else returnE ())"

definition runEvidenceRecord ::
  "'h sys_scheme \<Rightarrow> execEnv \<Rightarrow> evidenceInput \<Rightarrow> (evidenceRecord \<times> executionRun \<times> gateStateSnapshot list) op" where
  "runEvidenceRecord H V i =
    bindE (loadActive H V) (\<lambda>a.
    let run = ac_run a; now = en_now V
    in bindE (evidenceGuards H run i) (\<lambda>def.
       bindE (evidenceProofOf H V run (evidenceIdOf H now run i) i) (\<lambda>p.
       bindE (if evidenceStatusOf i = EvPass then liftE (assertPassContract def i p) else returnE ()) (\<lambda>_.
       let r = evidenceRecordOf H now run i p
       in bindE (persistEvidenceRecord H r) (\<lambda>_.
          bindE (cacheFromEvidence H V run r) (\<lambda>_.
          bindE (noteRunEvent H V run AllowOutcome
                   (if ev_status r = EvPass then [''GATE_EXECUTED''] else [''GATE_EXECUTED_NON_PASS''])
                   (''evidence-record:'' @ sanitizeOperationalText H (ei_gateId i))
                   [(GateExecutions, 1), (ToolExecutions, 1)]) (\<lambda>_.
          bindE (queryE (\<lambda>s. listEvidenceRecords H s (run_executionRunId run))) (\<lambda>evidence.
          bindE (queryE (\<lambda>s. listReviewRecords H s (run_executionRunId run))) (\<lambda>reviews.
          bindE (gateStatesOf H V run evidence reviews) (\<lambda>states.
          let updated = evidenceRun now r states run
          in bindE (persistExecutionRun H updated None) (\<lambda>_.
             bindE (writeCheckpoint H
                      ((ac_checkpoint a)\<lparr>cp_updatedAt := now,
                         cp_evidenceRefs := unique (cp_evidenceRefs (ac_checkpoint a) @ run_evidenceRefs updated),
                         cp_nextAction := run_nextAction updated\<rparr>) (ac_workOrder a) (ac_plan a)) (\<lambda>_.
             returnE (r, updated, states)))))))))))))"

end
