(* ===== verification/Execution_Review.thy ===== *)
theory Execution_Review
  imports Execution_Base
begin

text \<open>
  Independent review (\<open>runAssuranceStart\<close>, \<open>parseFindings\<close> and \<open>runAssuranceRecord\<close> of
  \<^verbatim>\<open>src/kernel/execution.ts\<close>). The findings a reviewer submits are given as the outcome of the
  file checks and of \<open>JSON.parse\<close>; a verdict outside the union is rejected before anything is
  written and is not represented.
\<close>

section \<open>Start\<close>

definition startGuards :: "executionRun \<Rightarrow> unit op" where
  "startGuards run =
    bindE (refuseIf (run_phase run \<noteq> EpVerify \<and> run_phase run \<noteq> EpReview) ''assurance start requires verify phase''
             [''phase is '' @ execution_phase_text (run_phase run)]) (\<lambda>_.
    refuseIf (\<not> truthy (run_currentChangeDigest run)) ''assurance start requires a current change digest''
      [''missing change digest''])"

definition blockingGates :: "gateStateSnapshot list \<Rightarrow> gateStateSnapshot list" where
  "blockingGates states = filter (\<lambda>g. \<not> isReviewGate (gs_gateId g) \<and> gs_status g \<noteq> GatePass) states"

definition policyInput ::
  "execEnv \<Rightarrow> assuranceMode \<Rightarrow> workOrder \<Rightarrow> executionRun \<Rightarrow> gateStateSnapshot list \<Rightarrow> evidenceRecord list
     \<Rightarrow> reviewRecord list \<Rightarrow> reviewRecord option \<Rightarrow> specialistSelectionPlan option \<Rightarrow> assurancePolicyInput" where
  "policyInput V mode w run states evidence reviews candidate sel =
    \<lparr>ai_mode = mode, ai_projectId = en_projectId V, ai_workOrder = w, ai_run = run, ai_gateStates = states,
     ai_evidence = evidence, ai_reviews = reviews, ai_candidate = candidate, ai_specialistSelectionPlan = sel\<rparr>"

definition reviewPacketOf ::
  "workOrder \<Rightarrow> executionRun \<Rightarrow> gateStateSnapshot list \<Rightarrow> assurancePolicyResult \<Rightarrow> reviewPacket" where
  "reviewPacketOf w run states result =
    \<lparr>rp_executionRunId = run_executionRunId run, rp_workOrderId = run_workOrderId run,
     rp_objective = wo_objective w, rp_acceptanceCriteria = wo_acceptanceCriteria w,
     rp_includedScope = wo_includedScope w, rp_outOfScope = wo_outOfScope w,
     rp_changedFiles = run_changedFiles run, rp_changeDigest = or_empty (run_currentChangeDigest run),
     rp_gateStates = map (\<lambda>g. (gs_gateId g, gs_status g)) states,
     rp_evidenceRefs = ar_currentEvidenceRefs result, rp_requiredReviewers = run_requiredReviewers run,
     rp_riskLevel = wo_riskLevel w, rp_roleToGateMapping = assuranceRoleGateMapping (run_selectedGates run),
     rp_requiredEvidenceObligations = wo_requiredEvidence w,
     rp_unresolvedBlockers = ar_blockers result
       @ map (\<lambda>role. reason_text MISSING_REQUIRED_REVIEWER @ '':'' @ role) (ar_pendingRoles result),
     rp_doNotImplement = [''provider API calls or arbitrary external commands'',
       ''out-of-scope files or project-local UADS operational state'',
       ''approval-gated release, deployment, custody, or financial actions''],
     rp_independentReviewInvariant = ''Every required assurance role uses an exact recognized role and a distinct non-implementer session bound to this change digest.'',
     rp_nextAction = ''Invoke distinct reviewer session(s). Do not self-approve. Record verdicts with uads assurance record.''\<rparr>"

definition reviewStartRun :: "string \<Rightarrow> string \<Rightarrow> executionRun \<Rightarrow> executionRun" where
  "reviewStartRun now action run = touchRun now (run\<lparr>run_phase := EpReview, run_status := ExInProgress,
     run_nextAction := action\<rparr>)"

definition runAssuranceStart :: "'h sys_scheme \<Rightarrow> execEnv \<Rightarrow> (executionRun \<times> reviewPacket) op" where
  "runAssuranceStart H V =
    bindE (loadActive H V) (\<lambda>a.
    let run = ac_run a; w = ac_workOrder a; now = en_now V
    in bindE (startGuards run) (\<lambda>_.
       bindE (queryE (\<lambda>s. listEvidenceRecords H s (run_executionRunId run))) (\<lambda>evidence.
       bindE (queryE (\<lambda>s. listReviewRecords H s (run_executionRunId run))) (\<lambda>reviews.
       bindE (gateStatesOf H V run evidence reviews) (\<lambda>states.
       bindE (refuseIf (blockingGates states \<noteq> []) ''selected non-review gates are not PASS''
                (map (\<lambda>g. gs_gateId g @ '':'' @ gate_status_text (gs_status g)) (blockingGates states))) (\<lambda>_.
       bindE (assuranceSelection H V w (ac_plan a)) (\<lambda>sel.
       let result = evaluateAssurancePolicy H (policyInput V StatusMode w run states evidence reviews None (Some sel))
       in bindE (refuseIf (\<not> ar_allowed result) ''assurance prerequisites are not valid'' (ar_blockers result)) (\<lambda>_.
          let packet = reviewPacketOf w run states result;
              updated = reviewStartRun now (rp_nextAction packet) run
          in bindE (persistReviewPacket H packet) (\<lambda>_.
             bindE (persistExecutionRun H updated None) (\<lambda>_.
             bindE (writeCheckpoint H
                      ((ac_checkpoint a)\<lparr>cp_updatedAt := now, cp_phase := Review, cp_status := CpInProgress,
                         cp_completedSteps := unique (cp_completedSteps (ac_checkpoint a) @ [''assurance-start'']),
                         cp_nextAction := rp_nextAction packet, cp_resumeCursor := ''review:await-verdicts''\<rparr>)
                      w (ac_plan a)) (\<lambda>_.
             returnE (updated, packet))))))))))))"

section \<open>Findings\<close>

text \<open>
  One row of the parsed array: not an object, or an object with its severity (\<open>None\<close> when it is
  absent or not a string of the union), and category and message as \<open>String\<close> renders them
  (\<open>None\<close> when nullish).
\<close>

datatype findingRow = NotAnObject | FindingRow "findingSeverity option" "string option" "string option"

datatype findingsText = NotJson | NotAnArray | FindingRows "findingRow list"

text \<open>
  The facts about a findings file that \<open>safeFindingsFile\<close> reads: whether its path is inside a managed
  root, what \<open>lstat\<close> says, whether its real path is inside a root, and for each segment below the
  first root that contains it whether that is a link (\<open>None\<close> when the call throws).
\<close>

datatype fileStat = StatFails | StatSymlink | StatOther | StatRegular nat

record findingsFile =
  ff_insideRoots :: bool
  ff_stat :: fileStat
  ff_realInside :: "bool option"
  ff_links :: "bool option list"
  ff_text :: "findingsText option"

text \<open>The file wins over the inline text, which is \<^verbatim>\<open>[]\<close> when it is absent.\<close>

datatype findingsSource = FromFile findingsFile | Inline nat findingsText

definition MAX_FINDINGS_FILE_BYTES :: nat where
  "MAX_FINDINGS_FILE_BYTES = 1048576"

definition MAX_FINDINGS :: nat where
  "MAX_FINDINGS = 1000"

definition parseFinding :: "findingRow \<Rightarrow> uadsError + reviewFinding" where
  "parseFinding row =
    (case row of
       NotAnObject \<Rightarrow> Inl (ExecutionBlocked ''each finding must be an object'' [''invalid finding''])
     | FindingRow None _ _ \<Rightarrow>
         Inl (ExecutionBlocked ''finding severity is not recognized'' [''invalid finding severity''])
     | FindingRow (Some sev) c m \<Rightarrow>
         Inr \<lparr>rf_severity = sev, rf_category = (case c of None \<Rightarrow> ''general'' | Some x \<Rightarrow> x), rf_message = or_empty m\<rparr>)"

fun parseRows :: "findingRow list \<Rightarrow> uadsError + reviewFinding list" where
  "parseRows [] = Inr []"
| "parseRows (r # rs) =
     (case parseFinding r of Inl e \<Rightarrow> Inl e | Inr f \<Rightarrow> map_sum id (\<lambda>fs. f # fs) (parseRows rs))"

definition findingsRefused :: "string \<Rightarrow> string \<Rightarrow> uadsError + 'a" where
  "findingsRefused m b = Inl (ExecutionBlocked m [b])"

definition findingsUnavailable :: "uadsError + 'a" where
  "findingsUnavailable = findingsRefused ''findings file is unavailable'' ''findings file unavailable''"

definition symlinkRefused :: "uadsError + 'a" where
  "symlinkRefused = findingsRefused ''findings file symlinks are rejected'' ''findings symlink rejected''"

fun checkLinks :: "bool option list \<Rightarrow> uadsError + unit" where
  "checkLinks [] = Inr ()"
| "checkLinks (None # _) = findingsUnavailable"
| "checkLinks (Some True # _) = symlinkRefused"
| "checkLinks (Some False # ls) = checkLinks ls"

definition safeFindingsFile :: "findingsFile \<Rightarrow> uadsError + unit" where
  "safeFindingsFile f =
    (if \<not> ff_insideRoots f
     then findingsRefused ''findings file must be inside the repository or sidecar'' ''findings path outside managed roots''
     else case ff_stat f of
       StatFails \<Rightarrow> findingsUnavailable
     | StatSymlink \<Rightarrow> symlinkRefused
     | StatOther \<Rightarrow> findingsRefused ''findings file must be an ordinary file'' ''unsupported findings file type''
     | StatRegular n \<Rightarrow>
         if n > MAX_FINDINGS_FILE_BYTES
         then findingsRefused ''findings file exceeds the bounded input size'' ''findings file too large''
         else case ff_realInside f of
           None \<Rightarrow> findingsUnavailable
         | Some False \<Rightarrow>
             findingsRefused ''findings file resolves outside managed roots'' ''findings symlink escape rejected''
         | Some True \<Rightarrow> checkLinks (ff_links f))"

definition findingsTextOf :: "findingsSource \<Rightarrow> uadsError + findingsText" where
  "findingsTextOf src =
    (case src of
       FromFile f \<Rightarrow> (case safeFindingsFile f of Inl e \<Rightarrow> Inl e
                     | Inr _ \<Rightarrow> (case ff_text f of None \<Rightarrow> findingsUnavailable | Some t \<Rightarrow> Inr t))
     | Inline n t \<Rightarrow>
         if n > MAX_FINDINGS_FILE_BYTES
         then findingsRefused ''inline findings exceed the bounded input size'' ''findings input too large''
         else Inr t)"

definition parseFindings :: "'h host_scheme \<Rightarrow> findingsSource \<Rightarrow> uadsError + reviewFinding list" where
  "parseFindings H src =
    (case findingsTextOf src of Inl e \<Rightarrow> Inl e
     | Inr NotJson \<Rightarrow> findingsRefused ''findings must be valid JSON'' ''invalid findings JSON''
     | Inr NotAnArray \<Rightarrow> findingsRefused ''findings must be a bounded JSON array'' ''invalid findings array''
     | Inr (FindingRows rows) \<Rightarrow>
         if length rows > MAX_FINDINGS
         then findingsRefused ''findings must be a bounded JSON array'' ''invalid findings array''
         else map_sum id (map (sanitizeFinding H)) (parseRows rows))"

section \<open>Record\<close>

record reviewInput =
  ri_role :: string
  ri_session :: string
  ri_implementerSession :: "string option"
  ri_verdict :: reviewVerdict
  ri_summary :: string
  ri_findings :: findingsSource

definition reviewGuards :: "executionRun \<Rightarrow> workOrder \<Rightarrow> unit op" where
  "reviewGuards run w =
    bindE (refuseIf (run_phase run \<noteq> EpReview) ''assurance record requires review phase after uads assurance start''
             [''phase is '' @ execution_phase_text (run_phase run)]) (\<lambda>_.
    bindE (refuseIf (run_status run = ExCompleted \<or> run_status run = ExBlocked \<or> run_status run = ExFailed)
             ''assurance record requires an active review run''
             [''status is '' @ execution_status_text (run_status run)]) (\<lambda>_.
    bindE (refuseIf (\<not> truthy (run_currentChangeDigest run)) ''assurance record requires a current change digest''
             [''missing change digest'']) (\<lambda>_.
    refuseIf (requiresImplementation w \<and> \<not> truthy (run_implementerSessionId run))
      ''missing authoritative implementer session; re-dispatch a new run'' [''missing implementer session''])))"

text \<open>Who reviews, after sanitizing.\<close>

definition reviewerGuards :: "executionRun \<Rightarrow> string \<Rightarrow> string \<Rightarrow> string \<Rightarrow> unit op" where
  "reviewerGuards run role session provided =
    bindE (refuseIf (\<not> truthy (run_implementerSessionId run))
             ''missing authoritative implementer session; reviewer cannot invent it'' [''missing implementer session'']) (\<lambda>_.
    bindE (refuseIf (provided \<noteq> [] \<and> Some provided \<noteq> run_implementerSessionId run)
             ''caller implementer session does not match the bound run session'' [''implementer session mismatch'']) (\<lambda>_.
    bindE (refuseIf (role = run_implementerRole run \<or> role = IMPLEMENTER_ROLE) ''implementer cannot self-review''
             [''reviewer role equals implementer role'']) (\<lambda>_.
    bindE (refuseIf (Some session = run_implementerSessionId run) ''same implementer/reviewer session''
             [''same implementer/reviewer session'']) (\<lambda>_.
    bindE (refuseIf (\<not> isRecognizedAssuranceRole role) ''reviewer role is not recognized by the assurance policy''
             [reason_text UNKNOWN_REVIEWER_ROLE @ '':'' @ role]) (\<lambda>_.
    refuseIf (role \<notin> set (run_requiredReviewers run)) ''reviewer role is not required for this Work Order''
      [reason_text REVIEWER_ROLE_NOT_REQUIRED @ '':'' @ role])))))"

definition reviewReasonCodes :: "reviewVerdict \<Rightarrow> reviewFinding list \<Rightarrow> string list" where
  "reviewReasonCodes verdict findings =
    (if findings = [] \<and> verdict = VerdictBlocked then [reason_text REVIEW_BLOCKED]
     else if findings = [] \<and> verdict = CorrectionNeeded then [reason_text REVIEW_CORRECTION_REQUIRED]
     else [])"

definition currentRefs :: "'h host_scheme \<Rightarrow> execEnv \<Rightarrow> executionRun \<Rightarrow> evidenceRecord list \<Rightarrow> string list" where
  "currentRefs H V run evidence =
     sort_with (locale_le H) (map (evidenceRef run)
       (filter (\<lambda>e. ev_projectId e = en_projectId V \<and> ev_workOrderId e = run_workOrderId run
          \<and> ev_executionRunId e = run_executionRunId run \<and> Some (ev_changeDigest e) = run_currentChangeDigest run) evidence))"

definition reviewRecordOf ::
  "'h host_scheme \<Rightarrow> string \<Rightarrow> executionRun \<Rightarrow> reviewInput \<Rightarrow> reviewFinding list \<Rightarrow> string list \<Rightarrow> reviewRecord" where
  "reviewRecordOf H now run i findings refs =
    (let role = sanitizeOperationalText H (ri_role i); digest = or_empty (run_currentChangeDigest run)
     in \<lparr>rv_reviewId = newPrefixedId H ''rv'' (run_executionRunId run @ '':'' @ role @ '':'' @ digest @ '':'' @ now),
         rv_projectId = run_projectId run, rv_workOrderId = run_workOrderId run,
         rv_executionRunId = run_executionRunId run, rv_changeDigest = digest, rv_reviewerRole = role,
         rv_reviewSessionId = sanitizeOperationalText H (ri_session i),
         rv_implementerRole = run_implementerRole run,
         rv_implementerSessionId = or_empty (run_implementerSessionId run), rv_verdict = ri_verdict i,
         rv_summary = sanitizeOperationalText H (ri_summary i), rv_findings = findings,
         rv_reasonCodes = Some (reviewReasonCodes (ri_verdict i) findings), rv_evidenceRefs = refs,
         rv_createdAt = now\<rparr>)"

definition reviewRefOf :: "executionRun \<Rightarrow> reviewRecord \<Rightarrow> string" where
  "reviewRefOf run r =
     ''sidecar://execution-runs/'' @ run_executionRunId run @ ''/reviews/'' @ rv_reviewId r @ ''.json''"

text \<open>The run after the verdict.\<close>

definition reviewedRun :: "string \<Rightarrow> reviewRecord \<Rightarrow> executionRun \<Rightarrow> executionRun" where
  "reviewedRun now r run0 =
    (let run = run0\<lparr>run_reviewRefs := unique (run_reviewRefs run0 @ [reviewRefOf run0 r])\<rparr>
     in touchRun now (case rv_verdict r of
          CorrectionNeeded \<Rightarrow>
            run\<lparr>run_phase := EpImplement, run_status := ExCorrectionNeeded, run_attempt := run_attempt run0 + 1,
              run_reviewedChangeDigest := None,
              run_nextAction := ''Address review findings, edit in-scope files, then uads verify (new digest required).''\<rparr>
        | VerdictBlocked \<Rightarrow>
            run\<lparr>run_status := ExBlocked, run_phase := EpStopped,
              run_blockers := unique (run_blockers run @ [''review-blocked:'' @ rv_reviewerRole r]),
              run_nextAction := ''Independent review BLOCKED. Do not continue automatically.''\<rparr>
        | Approved \<Rightarrow>
            run\<lparr>run_reviewedChangeDigest := run_currentChangeDigest run0,
              run_nextAction := ''If all required reviewers approved this digest, run uads finalize.''\<rparr>))"

definition independentReviewOf :: "string option \<Rightarrow> reviewRecord list \<Rightarrow> reviewRecord option" where
  "independentReviewOf digest reviews =
     find (\<lambda>r. rv_reviewerRole r = INDEPENDENT_REVIEWER_ROLE \<and> Some (rv_changeDigest r) = digest) reviews"

definition independentStatus :: "executionRun \<Rightarrow> reviewRecord list \<Rightarrow> independentReviewState" where
  "independentStatus run reviews =
    (if run_requiredReviewers run = [] then ReviewNotRequired
     else case independentReviewOf (run_currentChangeDigest run) reviews of
            None \<Rightarrow> ReviewPending
          | Some r \<Rightarrow> if rv_verdict r = Approved then ReviewSatisfied else ReviewPending)"

definition recordedCheckpoint :: "string \<Rightarrow> executionRun \<Rightarrow> checkpoint \<Rightarrow> checkpoint" where
  "recordedCheckpoint now run c =
     c\<lparr>cp_updatedAt := now,
       cp_phase := (if run_phase run = EpImplement then Implement else if run_phase run = EpStopped then Stopped else Review),
       cp_status := (if run_status run = ExBlocked then CpBlocked else CpInProgress),
       cp_blockers := run_blockers run, cp_nextAction := run_nextAction run,
       cp_resumeCursor := (if run_status run = ExCorrectionNeeded then ''implement:correction'' else ''review:recorded'')\<rparr>"

text \<open>The record that is accepted by the policy; nothing has been written when it is rejected.\<close>

definition admitReview ::
  "'h sys_scheme \<Rightarrow> execEnv \<Rightarrow> activeState \<Rightarrow> reviewInput \<Rightarrow> reviewRecord op" where
  "admitReview H V a i =
    (let run = ac_run a; w = ac_workOrder a
     in bindE (queryE (\<lambda>s. listEvidenceRecords H s (run_executionRunId run))) (\<lambda>evidence.
        bindE (queryE (\<lambda>s. listReviewRecords H s (run_executionRunId run))) (\<lambda>reviews.
        bindE (assuranceSelection H V w (ac_plan a)) (\<lambda>sel.
        bindE (gateStatesOf H V run evidence reviews) (\<lambda>states.
        bindE (liftE (parseFindings H (ri_findings i))) (\<lambda>findings.
        let r = reviewRecordOf H (en_now V) run i findings (currentRefs H V run evidence);
            result = evaluateAssurancePolicy H
              (policyInput V SubmissionMode w run states evidence reviews (Some r) (Some sel))
        in bindE (refuseIf (\<not> ar_allowed result) ''assurance record rejected by deterministic policy''
                    (ar_blockers result)) (\<lambda>_.
           returnE r)))))))"

text \<open>The review is written, then the run with its verdict, the snapshot and the checkpoint.\<close>

definition commitReview :: "'h sys_scheme \<Rightarrow> execEnv \<Rightarrow> activeState \<Rightarrow> reviewRecord \<Rightarrow> executionRun op" where
  "commitReview H V a r =
    (let now = en_now V; updated = reviewedRun now r (ac_run a)
     in bindE (persistReviewRecord H r) (\<lambda>_.
        bindE (persistExecutionRun H updated (Some (buildPacket updated (ac_workOrder a)))) (\<lambda>_.
        bindE (queryE (\<lambda>s. listEvidenceRecords H s (run_executionRunId updated))) (\<lambda>evidence.
        bindE (queryE (\<lambda>s. listReviewRecords H s (run_executionRunId updated))) (\<lambda>reviews.
        bindE (gateStatesOf H V updated evidence reviews) (\<lambda>states.
        bindE (refreshQptSnapshot H now (en_projectId V) (int (length (run_selectedGates updated)))
                 (passCount states) (independentStatus updated reviews)
                 (Some (radius_text (run_contextRadius updated)))) (\<lambda>_.
        bindE (writeCheckpoint H (recordedCheckpoint now updated (ac_checkpoint a)) (ac_workOrder a) (ac_plan a)) (\<lambda>_.
        returnE updated))))))))"

definition runAssuranceRecord :: "'h sys_scheme \<Rightarrow> execEnv \<Rightarrow> reviewInput \<Rightarrow> (reviewRecord \<times> executionRun) op" where
  "runAssuranceRecord H V i =
    bindE (loadActive H V) (\<lambda>a.
    let run = ac_run a; S = sanitizeOperationalText H
    in bindE (reviewGuards run (ac_workOrder a)) (\<lambda>_.
       bindE (reviewerGuards run (S (ri_role i)) (S (ri_session i))
                (if truthy (ri_implementerSession i) then S (or_empty (ri_implementerSession i)) else [])) (\<lambda>_.
       bindE (admitReview H V a i) (\<lambda>r.
       bindE (commitReview H V a r) (\<lambda>updated.
       returnE (r, updated))))))"

end
