(* ===== verification/Execution_Finalize.thy ===== *)
theory Execution_Finalize
  imports Execution_Review Context_Candidates
begin

text \<open>
  The end of a run and what surrounds it (\<open>runFinalize\<close>, \<open>runContextExpand\<close> and
  \<open>loadExecutionView\<close> of \<^verbatim>\<open>src/kernel/execution.ts\<close>). Finalizing collects every reason
  against the run and refuses when there is one. The note it leaves in the failure memory is best
  effort and outside the model.
\<close>

section \<open>Reasons against finalizing\<close>

text \<open>\<open>if (b) blockers.push(m)\<close>\<close>

definition blockIf :: "bool \<Rightarrow> string \<Rightarrow> string list" where
  "blockIf b m = (if b then [m] else [])"

definition finalizeRunBlockers :: "executionRun \<Rightarrow> workOrder \<Rightarrow> string \<Rightarrow> string list" where
  "finalizeRunBlockers run w live =
     blockIf (\<not> truthy (run_currentChangeDigest run)) ''missing change digest''
   @ blockIf (run_phase run = EpImplement \<or> run_phase run = EpVerify \<or> run_status run = ExCorrectionNeeded)
       ''cannot finalize before independent review''
   @ blockIf (requiresImplementation w \<and> \<not> truthy (run_implementerSessionId run))
       ''missing authoritative implementer session''
   @ blockIf (truthy (run_currentChangeDigest run) \<and> Some live \<noteq> run_currentChangeDigest run)
       ''current git digest differs from verified digest''
   @ blockIf (run_scopeViolations run \<noteq> []) ''unresolved out-of-scope or sensitive changes''"

definition selectionBlocker :: "uadsError \<Rightarrow> string" where
  "selectionBlocker e =
    (case e of ExecutionBlocked _ (b # _) \<Rightarrow> b | _ \<Rightarrow> reason_text SPECIALIST_SELECTION_INVALID)"

text \<open>The selection plan, or the blocker its absence is.\<close>

definition finalizeSelection ::
  "'h sys_scheme \<Rightarrow> execEnv \<Rightarrow> workOrder \<Rightarrow> contextPlan \<Rightarrow> (specialistSelectionPlan option \<times> string list) op" where
  "finalizeSelection H V w p =
     catchE (bindE (assuranceSelection H V w p) (\<lambda>sel. returnE (Some sel, [])))
       (\<lambda>e. returnE (None, [selectionBlocker e]))"

definition gateFinalBlockers :: "executionRun \<Rightarrow> gateStateSnapshot \<Rightarrow> string list" where
  "gateFinalBlockers run g =
     blockIf (\<not> isKnownGateId (gs_gateId g) \<and> gs_gateId g \<in> set (run_selectedGates run))
       (''unknown selected gate '' @ gs_gateId g)
   @ blockIf (gs_status g = GatePending) (''pending gate '' @ gs_gateId g)
   @ blockIf (gs_status g = GateFail \<or> gs_status g = GateBlocked)
       (to_lower (gate_status_text (gs_status g)) @ '' gate '' @ gs_gateId g)"

definition independentBlockers :: "executionRun \<Rightarrow> string \<Rightarrow> reviewRecord list \<Rightarrow> string list" where
  "independentBlockers run live revs =
    (case find (\<lambda>r. rv_reviewerRole r = INDEPENDENT_REVIEWER_ROLE) revs of
       None \<Rightarrow> [''missing independent review'']
     | Some r \<Rightarrow>
         if rv_verdict r = CorrectionNeeded then [''CORRECTION_NEEDED review is not an approval'']
         else if rv_verdict r \<noteq> Approved then [''independent reviewer has not APPROVED'']
         else blockIf (rv_reviewerRole r = rv_implementerRole r) ''implementer self-review''
            @ blockIf (rv_reviewSessionId r = rv_implementerSessionId r) ''same implementer/reviewer session''
            @ blockIf (truthy (run_implementerSessionId run)
                 \<and> Some (rv_implementerSessionId r) \<noteq> run_implementerSessionId run)
                ''review does not carry the authoritative implementer session''
            @ blockIf (truthy (run_reviewedChangeDigest run)
                 \<and> run_reviewedChangeDigest run \<noteq> run_currentChangeDigest run)
                ''reviewed digest does not match current digest''
            @ blockIf (live \<noteq> rv_changeDigest r) ''current git digest differs from reviewed digest'')"

definition missingReviewerBlockers :: "executionRun \<Rightarrow> reviewRecord list \<Rightarrow> string list" where
  "missingReviewerBlockers run revs =
     concat (map (\<lambda>role. blockIf (\<not> list_ex (\<lambda>r. rv_reviewerRole r = role \<and> rv_verdict r = Approved) revs)
       (''missing required assurance reviewer '' @ role)) (run_requiredReviewers run))"

definition passOfDigest :: "executionRun \<Rightarrow> evidenceRecord list \<Rightarrow> evidenceRecord list" where
  "passOfDigest run evidence =
     filter (\<lambda>e. Some (ev_changeDigest e) = run_currentChangeDigest run \<and> ev_status e = EvPass) evidence"

record finalizeInputs =
  fi_live :: string
  fi_evidence :: "evidenceRecord list"
  fi_reviews :: "reviewRecord list"
  fi_selection :: "specialistSelectionPlan option \<times> string list"
  fi_states :: "gateStateSnapshot list"

definition reviewsOfDigest :: "executionRun \<Rightarrow> reviewRecord list \<Rightarrow> reviewRecord list" where
  "reviewsOfDigest run reviews = filter (\<lambda>r. Some (rv_changeDigest r) = run_currentChangeDigest run) reviews"

definition finalizePolicy ::
  "'h host_scheme \<Rightarrow> execEnv \<Rightarrow> workOrder \<Rightarrow> executionRun \<Rightarrow> finalizeInputs \<Rightarrow> assurancePolicyResult" where
  "finalizePolicy H V w run F =
     evaluateAssurancePolicy H (policyInput V FinalizeMode w run (fi_states F) (fi_evidence F) (fi_reviews F) None
       (fst (fi_selection F)))"

definition finalizeBlockersOf ::
  "'h host_scheme \<Rightarrow> execEnv \<Rightarrow> workOrder \<Rightarrow> executionRun \<Rightarrow> finalizeInputs \<Rightarrow> string list" where
  "finalizeBlockersOf H V w run F =
    (let revs = reviewsOfDigest run (fi_reviews F)
     in finalizeRunBlockers run w (fi_live F)
      @ snd (fi_selection F)
      @ ar_blockers (finalizePolicy H V w run F)
      @ concat (map (gateFinalBlockers run) (fi_states F))
      @ independentBlockers run (fi_live F) revs
      @ missingReviewerBlockers run revs
      @ blockIf (wo_acceptanceCriteria w \<noteq> [] \<and> passOfDigest run (fi_evidence F) = [])
          ''required acceptance evidence missing''
      @ (if run_blockers run \<noteq> [] \<and> run_status run = ExBlocked then run_blockers run else []))"

definition finalizeInputsOf :: "'h sys_scheme \<Rightarrow> execEnv \<Rightarrow> activeState \<Rightarrow> finalizeInputs op" where
  "finalizeInputsOf H V a =
    (let run = ac_run a; w = ac_workOrder a
     in bindE (liftE (buildChangeSet H (en_tree V) w (Some (ac_plan a)))) (\<lambda>c.
        bindE (queryE (\<lambda>s. listEvidenceRecords H s (run_executionRunId run))) (\<lambda>evidence.
        bindE (queryE (\<lambda>s. listReviewRecords H s (run_executionRunId run))) (\<lambda>reviews.
        bindE (finalizeSelection H V w (ac_plan a)) (\<lambda>sel.
        bindE (gateStatesOf H V run evidence reviews) (\<lambda>states.
        returnE \<lparr>fi_live = ch_digest c, fi_evidence = evidence, fi_reviews = reviews, fi_selection = sel,
                 fi_states = states\<rparr>))))))"

section \<open>The completed run\<close>

definition completedAction :: "executionRun \<Rightarrow> evidenceRecord list \<Rightarrow> string" where
  "completedAction run evidence =
    (let passes = passOfDigest run evidence;
         reused = length (filter (\<lambda>e. ev_source e = Some CacheReuse) passes);
         executed = length (filter (\<lambda>e. ev_source e \<noteq> Some CacheReuse) passes)
     in if reused > 0
        then ''Completed with '' @ int_text (int executed) @ '' executed PASS and '' @ int_text (int reused)
          @ '' cache-reuse PASS. Generate a review ZIP if required. Do not deploy or transfer funds.''
        else ''Generate a review ZIP if required. Do not deploy or transfer funds.'')"

definition finalizedRun :: "string \<Rightarrow> string \<Rightarrow> executionRun \<Rightarrow> executionRun" where
  "finalizedRun now action run =
     touchRun now (run\<lparr>run_phase := EpStopped, run_status := ExCompleted, run_nextAction := action\<rparr>)"

definition completedCheckpoint :: "string \<Rightarrow> string \<Rightarrow> checkpoint \<Rightarrow> checkpoint" where
  "completedCheckpoint now action c =
     c\<lparr>cp_updatedAt := now, cp_phase := Stopped, cp_status := CpCompleted,
       cp_completedSteps := unique (cp_completedSteps c @ [''finalize'']), cp_blockers := [],
       cp_nextAction := action, cp_resumeCursor := ''complete:await-review-bundle''\<rparr>"

definition completeRun :: "'h sys_scheme \<Rightarrow> execEnv \<Rightarrow> activeState \<Rightarrow> finalizeInputs \<Rightarrow> executionRun op" where
  "completeRun H V a F =
    (let now = en_now V; w = ac_workOrder a; action = completedAction (ac_run a) (fi_evidence F);
         updated = finalizedRun now action (ac_run a)
     in bindE (persistExecutionRun H updated (Some (buildPacket updated w))) (\<lambda>_.
        bindE (gateStatesOf H V updated (fi_evidence F) (fi_reviews F)) (\<lambda>states.
        bindE (refreshQptSnapshot H now (en_projectId V) (int (length (run_selectedGates updated)))
                 (passCount states) ReviewSatisfied (Some (radius_text (run_contextRadius updated)))) (\<lambda>_.
        bindE (writeCheckpoint H (completedCheckpoint now action (ac_checkpoint a))
                 (w\<lparr>wo_status := WoCompleted, wo_updatedAt := now, wo_nextAction := action\<rparr>) (ac_plan a)) (\<lambda>_.
        returnE updated)))))"

definition runFinalize :: "'h sys_scheme \<Rightarrow> execEnv \<Rightarrow> executionRun op" where
  "runFinalize H V =
    bindE (loadActive H V) (\<lambda>a.
      if run_status (ac_run a) = ExCompleted then returnE (ac_run a)
      else bindE (finalizeInputsOf H V a) (\<lambda>F.
           let blockers = finalizeBlockersOf H V (ac_workOrder a) (ac_run a) F
           in bindE (refuseIf (blockers \<noteq> []) ''finalize refused'' (unique blockers)) (\<lambda>_.
              completeRun H V a F)))"

section \<open>Context expansion\<close>

definition RADIUS_ORDER :: "contextRadius list" where
  "RADIUS_ORDER = [C0, C1, C2, C3, C4, C5]"

text \<open>\<open>RADIUS_ORDER[indexOf(radius) + 1]\<close>, when there is one.\<close>

definition nextRadius :: "contextRadius \<Rightarrow> contextRadius option" where
  "nextRadius radius = (case dropWhile (\<lambda>r. r \<noteq> radius) RADIUS_ORDER of _ # n # _ \<Rightarrow> Some n | _ \<Rightarrow> None)"

definition expansionIntake :: "workOrder \<Rightarrow> normalizedIntake" where
  "expansionIntake w =
    \<lparr>in_objective = wo_objective w, in_constraints = [], in_requestedArtifacts = [],
     in_inScope = wo_includedScope w, in_outOfScope = wo_outOfScope w,
     in_acceptanceCriteria = wo_acceptanceCriteria w, in_domainSignals = wo_domains w,
     in_riskSignals = wo_riskReasons w, in_destructiveSignals = [], in_affectedAreas = wo_affectedAreas w,
     in_uncertainties = [], in_approvedBoundaries = [], in_classifier = HostStructured\<rparr>"

definition expandedCandidates :: "execEnv \<Rightarrow> contextRadius \<Rightarrow> workOrder \<Rightarrow> executionRun \<Rightarrow> string list" where
  "expandedCandidates V radius w run =
    (case en_map V of None \<Rightarrow> unique (run_contextCandidates run)
     | Some m \<Rightarrow> selectContextCandidates radius (expansionIntake w) m)"

definition expandedRun ::
  "string \<Rightarrow> contextRadius \<Rightarrow> string list \<Rightarrow> contextExpansion list \<Rightarrow> contextPack \<Rightarrow> impactReport
     \<Rightarrow> executionRun \<Rightarrow> executionRun" where
  "expandedRun now radius candidates history pack report run =
     touchRun now (run\<lparr>run_contextRadius := radius, run_contextCandidates := candidates,
       run_expansionHistory := history,
       run_nextAction := ''Context expanded to '' @ radius_text radius
         @ ''. Do not treat this as permission to edit unrelated areas.'',
       run_contextPackId := Some (cx_contextPackId pack), run_impactReportId := Some (ip_impactReportId report),
       run_indexDigest := Some (cx_indexDigest pack)\<rparr>)"

definition expandedPlan ::
  "contextRadius \<Rightarrow> string list \<Rightarrow> string \<Rightarrow> contextPack \<Rightarrow> impactReport \<Rightarrow> contextPlan \<Rightarrow> contextPlan" where
  "expandedPlan radius candidates reason pack report p =
     p\<lparr>pl_radius := radius, pl_candidateAreas := candidates,
       pl_reason := pl_reason p @ ''; expanded: '' @ reason,
       pl_contextPackId := Some (cx_contextPackId pack), pl_impactReportId := Some (ip_impactReportId report),
       pl_indexDigest := Some (cx_indexDigest pack)\<rparr>"

text \<open>The run, its packet and the checkpoint after an expansion.\<close>

definition commitExpansion ::
  "'h sys_scheme \<Rightarrow> execEnv \<Rightarrow> activeState \<Rightarrow> contextRadius \<Rightarrow> string \<Rightarrow> contextExpansion list
     \<Rightarrow> impactReport \<times> contextPack \<Rightarrow> (executionRun \<times> executionPacket) op" where
  "commitExpansion H V a radius reason history intel =
    (let now = en_now V; w = ac_workOrder a; candidates = expandedCandidates V radius w (ac_run a);
         updated = expandedRun now radius candidates history (snd intel) (fst intel) (ac_run a)
     in bindE (persistExecutionPacket H (buildPacket updated w)) (\<lambda>packet.
        bindE (persistExecutionRun H updated (Some packet)) (\<lambda>_.
        bindE (writeCheckpoint H ((ac_checkpoint a)\<lparr>cp_updatedAt := now, cp_nextAction := run_nextAction updated\<rparr>) w
                 (expandedPlan radius candidates reason (snd intel) (fst intel) (ac_plan a))) (\<lambda>_.
        returnE (updated, packet)))))"

definition expandTo ::
  "'h sys_scheme \<Rightarrow> execEnv \<Rightarrow> activeState \<Rightarrow> contextRadius \<Rightarrow> string \<Rightarrow> bool \<Rightarrow> (executionRun \<times> executionPacket) op" where
  "expandTo H V a radius reason approveC5 =
    (let run = ac_run a; w = ac_workOrder a; now = en_now V; subject = ''context-expand:'' @ radius_text radius;
         history = run_expansionHistory run @ [\<lparr>ce_from = run_contextRadius run, ce_to = radius,
           ce_reason = sanitizeOperationalText H reason, ce_at = now\<rparr>]
     in bindE (budgetedIntel H V 0 radius w (run_executionRunId run) history approveC5 subject) (\<lambda>intel.
        bindE (noteRunEvent H V run (if radius = C5 then WarnOutcome else AllowOutcome)
                 (if radius = C5 then [''CONTEXT_EXPANDED'', ''C5_EXCEPTIONAL''] else [''CONTEXT_EXPANDED'']) subject
                 [(ContextExpansions, 1), (C5Uses, if radius = C5 then 1 else 0)]) (\<lambda>_.
        commitExpansion H V a radius reason history intel)))"

definition runContextExpand ::
  "'h sys_scheme \<Rightarrow> execEnv \<Rightarrow> string \<Rightarrow> bool \<Rightarrow> (executionRun \<times> executionPacket) op" where
  "runContextExpand H V reason approveC5 =
    bindE (loadActive H V) (\<lambda>a.
      case nextRadius (run_contextRadius (ac_run a)) of
        None \<Rightarrow> blockedE ''context radius cannot expand further''
                  [''radius is '' @ radius_text (run_contextRadius (ac_run a))]
      | Some radius \<Rightarrow>
          bindE (refuseIf (radius = C5 \<and> \<not> approveC5) ''C5 is exceptional and blocked by default''
                   [''C5 requires explicit approval'']) (\<lambda>_.
          expandTo H V a radius reason approveC5))"

section \<open>The resume view\<close>

text \<open>The current assurance artifacts, for the view: their message when they are not valid.\<close>

definition viewSelection :: "'h sys_scheme \<Rightarrow> execEnv \<Rightarrow> sidecar \<Rightarrow> string option" where
  "viewSelection H V s =
    (case readCurrentCheckpoint H s of None \<Rightarrow> Some ''current assurance artifacts are unavailable''
     | Some c \<Rightarrow>
        (case (if truthy (cp_workOrderId c) then readWorkOrder H s (or_empty (cp_workOrderId c)) else Inr None) of
           Inl e \<Rightarrow> Some (errorMessage e)
         | Inr None \<Rightarrow> Some ''current assurance artifacts are unavailable''
         | Inr (Some w) \<Rightarrow>
             if wo_routingDecisionId w = [] then Some ''current assurance artifacts are unavailable''
             else case readContextPlan s of None \<Rightarrow> Some ''current Context/Impact plan is unavailable''
               | Some p \<Rightarrow> (case fst (assuranceSelection H V w p s) of
                   Inl e \<Rightarrow> Some (errorMessage e) | Inr _ \<Rightarrow> None)))"

definition invalidView :: "string \<Rightarrow> executionResumeView" where
  "invalidView m = emptyResumeView\<lparr>vw_status := ''invalid-state'', vw_blockers := [m],
     vw_nextAction := ''Do not guess. Restore or recreate a valid execution run from a planned Work Order.''\<rparr>"

definition caughtView :: "uadsError \<Rightarrow> uadsError + executionResumeView" where
  "caughtView e = (case e of InvalidOrchestrationState m \<Rightarrow> Inr (invalidView m) | _ \<Rightarrow> Inl e)"

definition loadExecutionView :: "'h sys_scheme \<Rightarrow> execEnv \<Rightarrow> sidecar \<Rightarrow> uadsError + executionResumeView" where
  "loadExecutionView H V s =
    (case readCurrentExecutionRun H s of
       Inl e \<Rightarrow> caughtView e
     | Inr None \<Rightarrow> Inr emptyResumeView
     | Inr (Some run) \<Rightarrow>
        (case listEvidenceRecords H s (run_executionRunId run) of Inl e \<Rightarrow> caughtView e
         | Inr evidence \<Rightarrow>
            (case listReviewRecords H s (run_executionRunId run) of Inl e \<Rightarrow> caughtView e
             | Inr reviews \<Rightarrow>
                 let view = buildExecutionResumeView (Some run) evidence reviews (Some (cacheReaderOf H s))
                 in case viewSelection H V s of
                      None \<Rightarrow> Inr view
                    | Some m \<Rightarrow> Inr (view\<lparr>
                        vw_blockers := unique (vw_blockers view @ [reason_text SPECIALIST_SELECTION_INVALID]),
                        vw_nextAction := ''Assurance resume blocked: '' @ sanitizeOperationalText H m\<rparr>))))"

end
