(* ===== verification/Execution_Frames.thy ===== *)
theory Execution_Frames
  imports Execution_Dispatch Execution_Verify Execution_Evidence Execution_Finalize
begin

text \<open>
  Which operations leave the stored runs alone. \<open>sameRuns\<close> is the frame of every step of the
  execution engine but the write of a run: whatever its outcome, the run files and the pointer to the
  current run are as before.
\<close>

definition sameRuns :: "sidecar \<Rightarrow> sidecar \<Rightarrow> bool" where
  "sameRuns s t \<longleftrightarrow> sc_pointer t = sc_pointer s \<and> (\<forall>i. rn_run (runStoreOf i t) = rn_run (runStoreOf i s))"

abbreviation runsFrame :: "sidecar \<Rightarrow> 'a op \<Rightarrow> bool" where
  "runsFrame s0 m \<equiv> keeps (sameRuns s0) m"

lemma sameRuns_refl [simp]: "sameRuns s s"
  by (simp add: sameRuns_def)

lemma sameRuns_trans: "sameRuns s t \<Longrightarrow> sameRuns t u \<Longrightarrow> sameRuns s u"
  by (simp add: sameRuns_def)

lemma sameRuns_upd [simp]:
  "sameRuns s0 s \<Longrightarrow> sameRuns s0 (s\<lparr>sc_cost := c\<rparr>)" "sameRuns s0 s \<Longrightarrow> sameRuns s0 (s\<lparr>sc_plan := p\<rparr>)"
  "sameRuns s0 s \<Longrightarrow> sameRuns s0 (s\<lparr>sc_cache := k\<rparr>)"
  by (simp_all add: sameRuns_def)

lemma sameRuns_updateRunStore [simp]:
  "(\<And>d. rn_run (f d) = rn_run d) \<Longrightarrow> sameRuns s0 s \<Longrightarrow> sameRuns s0 (updateRunStore i f s)"
  by (simp add: sameRuns_def)

lemma sameRuns_current:
  assumes "sameRuns s t"
  shows "readCurrentExecutionRun H t = readCurrentExecutionRun H s"
proof -
  have "readCurrentExecutionRunId t = readCurrentExecutionRunId s"
    using assms by (simp add: sameRuns_def readCurrentExecutionRunId_def)
  moreover have "readExecutionRun H t i = readExecutionRun H s i" for i
    using assms by (simp add: sameRuns_def readExecutionRun_def split: sum.split)
  ultimately show ?thesis using assms
    by (simp add: readCurrentExecutionRun_def sameRuns_def split: option.split sum.split)
qed

text \<open>A relation between states that every run of the step satisfies gives any frame it implies.\<close>

lemma keeps_of_frame:
  assumes "\<And>s0. keeps (F s0) m" "\<And>s. F s s" "\<And>s t. F s t \<Longrightarrow> P s \<Longrightarrow> P t"
  shows "keeps P m"
  using assms unfolding keeps_def by blast

lemma costOnly_sameRuns: "costOnly s t \<Longrightarrow> sameRuns s t"
  by (simp add: costOnly_def sameRuns_def runStoreOf_def)

lemma cacheOnly_sameRuns: "cacheOnly s t \<Longrightarrow> sameRuns s t"
  by (simp add: cacheOnly_def sameRuns_def runStoreOf_def)

lemma runsFrame_cost: "(\<And>s0. costFrame s0 m) \<Longrightarrow> runsFrame s0 m"
  by (rule keeps_of_frame [where F = costOnly]) (auto intro: sameRuns_trans costOnly_sameRuns)

lemma runsFrame_cache: "(\<And>s0. keeps (cacheOnly s0) m) \<Longrightarrow> runsFrame s0 m"
  by (rule keeps_of_frame [where F = cacheOnly]) (auto intro: sameRuns_trans cacheOnly_sameRuns)

section \<open>The steps\<close>

lemma runsFrame_index [keeps_intro]: "runsFrame s0 (currentOrRefreshIndex H V n)"
  by (rule runsFrame_cost) (intro keeps_intro)

lemma runsFrame_intel [keeps_intro]: "runsFrame s0 (budgetedIntel H V n r w i h a sub)"
  by (rule runsFrame_cost) (intro keeps_intro)

lemma runsFrame_note [keeps_intro]: "runsFrame s0 (noteRunEvent H V run oc rs sub kvs)"
  unfolding noteRunEvent_def by (rule runsFrame_cost) (intro keeps_intro)

lemma runsFrame_refresh [keeps_intro]: "runsFrame s0 (refreshQptSnapshot H now p n m r c)"
  by (rule runsFrame_cost) (intro keeps_intro)

lemma runsFrame_persistPlan [keeps_intro]: "runsFrame s0 (persistPlan H w d c p)"
  unfolding persistPlan_def Let_def
  by (intro keeps_intro)
    (simp_all add: writeWorkOrder_def writeRouting_def writeCheckpointFile_def writeCurrentState_def writeContextPlan_def)

lemma runsFrame_writeCheckpoint [keeps_intro]: "runsFrame s0 (writeCheckpoint H c w p)"
  unfolding writeCheckpoint_def by (intro keeps_intro)

lemma runsFrame_persistEvidence [keeps_intro]: "runsFrame s0 (persistEvidenceRecord H r)"
  unfolding persistEvidenceRecord_def Let_def by (intro keeps_intro) simp

lemma runsFrame_persistReview [keeps_intro]: "runsFrame s0 (persistReviewRecord H r)"
  unfolding persistReviewRecord_def Let_def by (intro keeps_intro) simp

lemma runsFrame_persistReviewPacket [keeps_intro]: "runsFrame s0 (persistReviewPacket H p)"
  unfolding persistReviewPacket_def Let_def by (intro keeps_intro) simp

lemma runsFrame_persistPacket [keeps_intro]: "runsFrame s0 (persistExecutionPacket H p)"
  unfolding persistExecutionPacket_def Let_def by (intro keeps_intro) simp

lemma runsFrame_evaluateCache [keeps_intro]: "runsFrame s0 (evaluateCache H E now q)"
  by (rule runsFrame_cache) (intro keeps_intro)

lemma runsFrame_populate [keeps_intro]: "runsFrame s0 (populateCacheFromEvidence H E now run r b m)"
  by (rule runsFrame_cache) (intro keeps_intro)

lemma runsFrame_applyHit [keeps_intro]: "runsFrame s0 (applyHit H now run g d)"
  unfolding applyHit_def Let_def by (intro keeps_intro)

lemma runsFrame_applyHits [keeps_intro]: "runsFrame s0 (applyHitsTo H E now run b st m gs)"
  by (induction gs) (auto intro!: keeps_intro)

lemma runsFrame_apply [keeps_intro]: "runsFrame s0 (applyEligibleCacheHits H E now run b st m)"
  unfolding applyEligibleCacheHits_def by (intro keeps_intro)

lemma runsFrame_selection [keeps_intro]: "runsFrame s0 (assuranceSelection H V w p)"
  unfolding assuranceSelection_def by (intro keeps_intro) (auto intro: keeps_intro split: sum.split)

lemma runsFrame_gateStates [keeps_intro]: "runsFrame s0 (gateStatesOf H V run e r)"
  unfolding gateStatesOf_def by (intro keeps_intro)

lemma runsFrame_copy [keeps_intro]: "runsFrame s0 (copySanitizedOutput H V i e p)"
  unfolding copySanitizedOutput_def Let_def by (intro keeps_intro) simp

lemma runsFrame_evidenceProof [keeps_intro]: "runsFrame s0 (evidenceProofOf H V run e i)"
  unfolding evidenceProofOf_def fileProofOf_def by (intro keeps_intro)

lemma runsFrame_cacheFromEvidence [keeps_intro]: "runsFrame s0 (cacheFromEvidence H V run r)"
  unfolding cacheFromEvidence_def by (intro keeps_intro)

lemma runsFrame_recordMisses [keeps_intro]: "runsFrame s0 (recordMisses H V run ds)"
  unfolding recordMisses_def by (intro keeps_intro)

lemma runsFrame_indexOrNone [keeps_intro]: "runsFrame s0 (indexOrNone H V)"
  unfolding indexOrNone_def by (intro keeps_intro)

lemma runsFrame_evidenceGuards [keeps_intro]: "runsFrame s0 (evidenceGuards H run i)"
  unfolding evidenceGuards_def by (intro keeps_intro)

lemma runsFrame_admitReview [keeps_intro]: "runsFrame s0 (admitReview H V a i)"
  unfolding admitReview_def Let_def by (intro keeps_intro)

lemma runsFrame_guards [keeps_intro]:
  "runsFrame s0 (verifyGuards run)" "runsFrame s0 (startGuards run)" "runsFrame s0 (reviewGuards run w)"
  "runsFrame s0 (reviewerGuards run role session provided)"
  unfolding verifyGuards_def startGuards_def reviewGuards_def reviewerGuards_def by (intro keeps_intro)+

lemma runsFrame_finalizeInputs [keeps_intro]: "runsFrame s0 (finalizeInputsOf H V a)"
  unfolding finalizeInputsOf_def finalizeSelection_def Let_def by (intro keeps_intro)

lemma runsFrame_dispatchReads [keeps_intro]:
  "runsFrame s0 (dispatchInputsOf H)" "runsFrame s0 (dispatchImpactDigest H V I d)"
  "runsFrame s0 (dispatchSelection V I x)" "runsFrame s0 (dispatchModelPlan H V I)"
  "runsFrame s0 (refuseModelPlan H V I m)"
proof -
  show "runsFrame s0 (dispatchInputsOf H)"
    unfolding dispatchInputsOf_def phaseCheck_def noPlannedOrder_def missingDispatchPlan_def by (intro keeps_intro)
  show "runsFrame s0 (dispatchImpactDigest H V I d)" unfolding dispatchImpactDigest_def by (intro keeps_intro)
  show "runsFrame s0 (dispatchSelection V I x)"
    unfolding dispatchSelection_def by (auto intro!: keeps_intro split: sum.split selectionFailure.split)
  show "runsFrame s0 (dispatchModelPlan H V I)" unfolding dispatchModelPlan_def by (intro keeps_intro)
  show "runsFrame s0 (refuseModelPlan H V I m)" unfolding refuseModelPlan_def Let_def by (intro keeps_intro)
qed

section \<open>The current run after a step\<close>

lemma persist_current:
  assumes "persistExecutionRun H run p s = (Inr r, t)"
  shows "readCurrentExecutionRun H t = Inr (Some (sanitizeRun H run))"
  using persist_run_result [OF assms]
  by (auto simp: readCurrentExecutionRun_def readCurrentExecutionRunId_def readExecutionRun_def
      split: sum.splits option.splits)

lemma frame_keeps_current:
  assumes "\<And>s0. runsFrame s0 m" "m s = (r, t)"
  shows "readCurrentExecutionRun H t = readCurrentExecutionRun H s"
proof -
  have "sameRuns s t" by (rule keepsD [OF assms(1) assms(2)]) simp
  then show ?thesis by (rule sameRuns_current)
qed

end
