(* ===== verification/Execution_Lifecycle.thy ===== *)
theory Execution_Lifecycle
  imports Execution_Frames
begin

text \<open>
  The life of an execution run. \<open>runMove\<close> is the abstract state machine of one run: which stored run
  may follow which, under what guard. \<open>uadsStep\<close> is one operation of the command line on the whole
  sidecar, whatever the work tree, the time and the outcome. Every operation moves the stored runs by
  \<open>runMove\<close> only; what every move preserves therefore holds of every reachable sidecar.
\<close>

section \<open>The state machine of a run\<close>

text \<open>The reasons of \<open>runFinalize\<close> against the run, over all the inputs it may find.\<close>

definition mayFinalize :: "'h host_scheme \<Rightarrow> executionRun \<Rightarrow> bool" where
  "mayFinalize H run \<longleftrightarrow> (\<exists>V w F. finalizeBlockersOf H V w run F = [])"

inductive runMove :: "'h host_scheme \<Rightarrow> executionRun \<Rightarrow> executionRun \<Rightarrow> bool" for H where
  Dirty: "runMove H run (sanitizeRun H (dirtyRun now run))"
| Redispatch:
    "wo_workOrderId (di_workOrder I) = run_workOrderId run \<Longrightarrow> run_status run = ExFailed \<or> run_status run = ExBlocked
     \<Longrightarrow> resolveImplementerSession H (di_workOrder I) (Some run) provided = Inr session
     \<Longrightarrow> runMove H run (sanitizeRun H (dispatchedRun V I (Some run) session (run_executionRunId run) pack report m))"
| NoChange:
    "run_status run \<noteq> ExCompleted \<Longrightarrow> run_status run \<noteq> ExFailed \<Longrightarrow> canVerify run
     \<Longrightarrow> runMove H run (sanitizeRun H (noChangeRun now run))"
| Violating:
    "run_status run \<noteq> ExCompleted \<Longrightarrow> run_status run \<noteq> ExFailed \<Longrightarrow> canVerify run \<Longrightarrow> ch_violations c \<noteq> []
     \<Longrightarrow> runMove H run (sanitizeRun H (violatingRun now c run))"
| Verified:
    "run_status run \<noteq> ExCompleted \<Longrightarrow> run_status run \<noteq> ExFailed \<Longrightarrow> canVerify run \<Longrightarrow> ch_violations c = []
     \<Longrightarrow> runMove H run (sanitizeRun H (verifiedRun now c run))"
| VerifiedReuse:
    "run_status run \<noteq> ExCompleted \<Longrightarrow> run_status run \<noteq> ExFailed \<Longrightarrow> canVerify run \<Longrightarrow> ch_violations c = []
     \<Longrightarrow> runMove H run (sanitizeRun H (reuseRun now applied (verifiedRun now c run)))"
| Evidence:
    "truthy (run_currentChangeDigest run)
     \<Longrightarrow> run_phase run = EpVerify \<or> run_phase run = EpReview \<or> run_status run = ExCorrectionNeeded
     \<Longrightarrow> runMove H run (sanitizeRun H (evidenceRun now r states run))"
| ReviewStart:
    "run_phase run = EpVerify \<or> run_phase run = EpReview \<Longrightarrow> truthy (run_currentChangeDigest run)
     \<Longrightarrow> runMove H run (sanitizeRun H (reviewStartRun now action run))"
| Reviewed:
    "run_phase run = EpReview \<Longrightarrow> run_status run \<noteq> ExCompleted \<Longrightarrow> run_status run \<noteq> ExBlocked
     \<Longrightarrow> run_status run \<noteq> ExFailed \<Longrightarrow> truthy (run_currentChangeDigest run)
     \<Longrightarrow> rv_reviewerRole r \<noteq> run_implementerRole run
     \<Longrightarrow> Some (rv_reviewSessionId r) \<noteq> run_implementerSessionId run
     \<Longrightarrow> rv_reviewerRole r \<in> set (run_requiredReviewers run)
     \<Longrightarrow> runMove H run (sanitizeRun H (reviewedRun now r run))"
| Finalized:
    "run_status run \<noteq> ExCompleted \<Longrightarrow> mayFinalize H run
     \<Longrightarrow> runMove H run (sanitizeRun H (finalizedRun now action run))"
| Expanded:
    "nextRadius (run_contextRadius run) = Some radius
     \<Longrightarrow> runMove H run (sanitizeRun H (expandedRun now radius cs history pack report run))"

text \<open>A run that dispatch creates for a work order that is not the one of the current run.\<close>

definition createdRun :: "'h host_scheme \<Rightarrow> executionRun \<Rightarrow> bool" where
  "createdRun H r \<longleftrightarrow> (\<exists>V I existing provided session now pack report m.
     sameOrder (di_workOrder I) existing = None
     \<and> resolveImplementerSession H (di_workOrder I) existing provided = Inr session
     \<and> r = sanitizeRun H (dispatchedRun V I existing session
            (dispatchRunId H now (di_workOrder I) existing) pack report m))"

section \<open>What operations do to the stored runs\<close>

definition allRuns :: "(executionRun \<Rightarrow> bool) \<Rightarrow> sidecar \<Rightarrow> bool" where
  "allRuns Q s \<longleftrightarrow> (\<forall>i r. rn_run (runStoreOf i s) = Parsed r \<longrightarrow> Q r)"

lemma allRuns_sameRuns: "sameRuns s t \<Longrightarrow> allRuns Q s \<Longrightarrow> allRuns Q t"
  by (simp add: allRuns_def sameRuns_def)

lemma allRuns_frame: "(\<And>s0. runsFrame s0 m) \<Longrightarrow> keeps (allRuns Q) m"
  by (rule keeps_of_frame [where F = sameRuns]) (auto intro: allRuns_sameRuns)

lemma allRuns_persist:
  assumes "Q (sanitizeRun H run)"
  shows "keeps (allRuns Q) (persistExecutionRun H run p)"
proof -
  have "allRuns Q (updateRunStore i (\<lambda>d. d\<lparr>rn_run := Parsed (sanitizeRun H run)\<rparr>) s)" if "allRuns Q s" for i s
    using assms that by (simp add: allRuns_def)
  moreover have "allRuns Q (updateRunStore i (\<lambda>d. d\<lparr>rn_packet := x\<rparr>) s)" if "allRuns Q s" for i s x
    using that by (simp add: allRuns_def)
  moreover have "allRuns Q (s\<lparr>sc_pointer := x\<rparr>)" if "allRuns Q s" for s x
    using that by (simp add: allRuns_def)
  ultimately show ?thesis
    unfolding persistExecutionRun_def Let_def by (cases p) (auto intro!: keeps_intro)
qed

text \<open>A bind whose second part may use what the first part returned about the state.\<close>

lemma keeps_bind_fact:
  assumes "keeps P m" "\<And>s x t. P s \<Longrightarrow> m s = (Inr x, t) \<Longrightarrow> R x" "\<And>x. R x \<Longrightarrow> keeps P (f x)"
  shows "keeps P (bindE m f)"
  unfolding keeps_def
proof (intro allI impI)
  fix s assume P: "P s"
  obtain r t where m: "m s = (r, t)" by fastforce
  then have "P t" using keepsD [OF assms(1)] P by blast
  then show "P (snd (bindE m f s))"
    using m assms(2) [OF P] assms(3) by (cases r) (auto simp: bindE_def keeps_def)
qed

lemma keeps_refuse:
  "(\<not> b \<Longrightarrow> keeps P f) \<Longrightarrow> keeps P (bindE (refuseIf b m bs) (\<lambda>_. f))"
  by (rule keeps_bind_fact [where R = "\<lambda>_. \<not> b"]) (auto intro: keeps_intro simp: step_iff)

lemma keeps_guarded:
  assumes "\<And>s0. runsFrame s0 m" "\<And>s x t. m s = (Inr x, t) \<Longrightarrow> R x" "\<And>x. R x \<Longrightarrow> keeps (allRuns Q) (f x)"
  shows "keeps (allRuns Q) (bindE m f)"
  by (rule keeps_bind_fact [where R = R]) (use assms allRuns_frame in blast)+

lemma current_run_Q:
  assumes "allRuns Q s" "readCurrentExecutionRun H s = Inr (Some r)"
  shows "Q r"
  using assms
  by (auto simp: allRuns_def readCurrentExecutionRun_def readExecutionRun_def split: option.splits sum.splits if_splits)

text \<open>The frames of the single steps, for all stored runs.\<close>

lemmas allRuns_leaves [keeps_intro] =
  allRuns_frame [OF runsFrame_index] allRuns_frame [OF runsFrame_intel] allRuns_frame [OF runsFrame_note]
  allRuns_frame [OF runsFrame_refresh] allRuns_frame [OF runsFrame_persistPlan]
  allRuns_frame [OF runsFrame_writeCheckpoint] allRuns_frame [OF runsFrame_persistEvidence]
  allRuns_frame [OF runsFrame_persistReview] allRuns_frame [OF runsFrame_persistReviewPacket]
  allRuns_frame [OF runsFrame_persistPacket] allRuns_frame [OF runsFrame_apply]
  allRuns_frame [OF runsFrame_selection] allRuns_frame [OF runsFrame_gateStates]
  allRuns_frame [OF runsFrame_evidenceProof] allRuns_frame [OF runsFrame_cacheFromEvidence]
  allRuns_frame [OF runsFrame_recordMisses] allRuns_frame [OF runsFrame_indexOrNone]
  allRuns_frame [OF runsFrame_evidenceGuards] allRuns_frame [OF runsFrame_admitReview]
  allRuns_frame [OF runsFrame_guards(1)] allRuns_frame [OF runsFrame_guards(2)]
  allRuns_frame [OF runsFrame_guards(3)] allRuns_frame [OF runsFrame_guards(4)]
  allRuns_frame [OF runsFrame_finalizeInputs] allRuns_frame [OF runsFrame_dispatchReads(1)]
  allRuns_frame [OF runsFrame_dispatchReads(2)] allRuns_frame [OF runsFrame_dispatchReads(3)]
  allRuns_frame [OF runsFrame_dispatchReads(4)] allRuns_frame [OF runsFrame_dispatchReads(5)]

section \<open>What the guards establish\<close>

lemma verifyGuards_Inr:
  "verifyGuards run s = (Inr x, t) \<Longrightarrow> run_status run \<noteq> ExCompleted \<and> run_status run \<noteq> ExFailed \<and> canVerify run"
  by (auto simp: verifyGuards_def step_iff)

lemma refuseChangeSet_Inr: "refuseChangeSet H V a c s = (Inr x, t) \<Longrightarrow> ch_violations c = [] \<and> t = s"
  by (auto simp: refuseChangeSet_def Let_def step_iff)

lemma evidenceGuards_Inr:
  "evidenceGuards H run i s = (Inr x, t) \<Longrightarrow> truthy (run_currentChangeDigest run)
     \<and> (run_phase run = EpVerify \<or> run_phase run = EpReview \<or> run_status run = ExCorrectionNeeded)"
  by (auto simp: evidenceGuards_def step_iff)

lemma startGuards_Inr:
  "startGuards run s = (Inr x, t) \<Longrightarrow>
     (run_phase run = EpVerify \<or> run_phase run = EpReview) \<and> truthy (run_currentChangeDigest run)"
  by (auto simp: startGuards_def step_iff)

lemma reviewGuards_Inr:
  "reviewGuards run w s = (Inr x, t) \<Longrightarrow> run_phase run = EpReview \<and> run_status run \<noteq> ExCompleted
     \<and> run_status run \<noteq> ExBlocked \<and> run_status run \<noteq> ExFailed \<and> truthy (run_currentChangeDigest run)"
  by (auto simp: reviewGuards_def step_iff)

lemma reviewerGuards_Inr:
  "reviewerGuards run role session provided s = (Inr x, t) \<Longrightarrow> role \<noteq> run_implementerRole run
     \<and> Some session \<noteq> run_implementerSessionId run \<and> role \<in> set (run_requiredReviewers run)"
  by (auto simp: reviewerGuards_def step_iff)

lemma admitReview_Inr:
  assumes "admitReview H V a i s = (Inr r, t)"
  shows "rv_reviewerRole r = sanitizeOperationalText H (ri_role i)
     \<and> rv_reviewSessionId r = sanitizeOperationalText H (ri_session i)"
  using assms by (auto simp: admitReview_def Let_def step_iff reviewRecordOf_def)

text \<open>
  What has to be known of a property of runs: every move and every creation keeps it. The operations
  then keep it for all stored runs.
\<close>

locale run_invariant =
  fixes H :: "'h sys_scheme" and Q :: "executionRun \<Rightarrow> bool"
  assumes moved: "Q r \<Longrightarrow> runMove H r r' \<Longrightarrow> Q r'"
    and created: "createdRun H r \<Longrightarrow> Q r"
begin

lemma persist_moved: "Q r \<Longrightarrow> runMove H r (sanitizeRun H r') \<Longrightarrow> keeps (allRuns Q) (persistExecutionRun H r' p)"
  by (rule allRuns_persist) (rule moved)

lemma keeps_active:
  assumes "\<And>a. Q (ac_run a) \<Longrightarrow> keeps (allRuns Q) (f a)"
  shows "keeps (allRuns Q) (bindE (loadActive H V) f)"
proof (rule keeps_bind_fact [where R = "\<lambda>a. Q (ac_run a)"])
  fix s a t assume "allRuns Q s" "loadActive H V s = (Inr a, t)"
  then show "Q (ac_run a)" using current_run_Q loadActive_Inr(2) by blast
qed (auto intro: keeps_intro assms)

lemma persist_verified:
  assumes "Q run" "run_status run \<noteq> ExCompleted \<and> run_status run \<noteq> ExFailed \<and> canVerify run"
  shows "keeps (allRuns Q) (persistExecutionRun H (noChangeRun now run) p)"
    "ch_violations c \<noteq> [] \<Longrightarrow> keeps (allRuns Q) (persistExecutionRun H (violatingRun now c run) p)"
    "ch_violations c = [] \<Longrightarrow> keeps (allRuns Q) (persistExecutionRun H (verifiedRun now c run) p)"
    "ch_violations c = [] \<Longrightarrow> keeps (allRuns Q) (persistExecutionRun H (reuseRun now applied (verifiedRun now c run)) p)"
  using assms(2) by (auto intro!: persist_moved [OF assms(1)] intro: runMove.intros)

lemma persist_evidence:
  assumes "Q run" "truthy (run_currentChangeDigest run)
     \<and> (run_phase run = EpVerify \<or> run_phase run = EpReview \<or> run_status run = ExCorrectionNeeded)"
  shows "keeps (allRuns Q) (persistExecutionRun H (evidenceRun now r states run) p)"
  using assms(2) by (intro persist_moved [OF assms(1)] runMove.Evidence) blast+

lemma persist_start:
  assumes "Q run" "(run_phase run = EpVerify \<or> run_phase run = EpReview) \<and> truthy (run_currentChangeDigest run)"
  shows "keeps (allRuns Q) (persistExecutionRun H (reviewStartRun now action run) p)"
  using assms(2) by (intro persist_moved [OF assms(1)] runMove.ReviewStart) blast+

lemma keeps_refuseChangeSet:
  assumes "Q (ac_run a)"
    "run_status (ac_run a) \<noteq> ExCompleted \<and> run_status (ac_run a) \<noteq> ExFailed \<and> canVerify (ac_run a)"
  shows "keeps (allRuns Q) (refuseChangeSet H V a c)"
  unfolding refuseChangeSet_def Let_def
  by (intro keeps_intro persist_verified [OF assms]) assumption

lemma keeps_verifyClean:
  assumes "Q (ac_run a)"
    "run_status (ac_run a) \<noteq> ExCompleted \<and> run_status (ac_run a) \<noteq> ExFailed \<and> canVerify (ac_run a)"
    "ch_violations c = []"
  shows "keeps (allRuns Q) (verifyClean H V a c)"
  unfolding verifyClean_def recordReuse_def Let_def
  by (intro keeps_intro persist_verified(3,4) [OF assms(1,2)] assms(3))

lemma keeps_runVerify: "keeps (allRuns Q) (runVerify H V)"
  unfolding runVerify_def
proof (rule keeps_active, rule keeps_guarded [OF runsFrame_guards(1) verifyGuards_Inr], assumption,
    rule keeps_bindE, rule keeps_liftE)
  fix a :: activeState and c
  assume run: "Q (ac_run a)"
    "run_status (ac_run a) \<noteq> ExCompleted \<and> run_status (ac_run a) \<noteq> ExFailed \<and> canVerify (ac_run a)"
  show "keeps (allRuns Q) (bindE (refuseChangeSet H V a c) (\<lambda>_. bindE (verifyClean H V a c) (\<lambda>r. returnE (fst r, c, snd r))))"
    by (rule keeps_bind_fact [where R = "\<lambda>_. ch_violations c = []"])
      (use keeps_refuseChangeSet [OF run] keeps_verifyClean [OF run] in \<open>auto intro!: keeps_intro dest: refuseChangeSet_Inr\<close>)
qed

lemma keeps_runEvidenceRecord: "keeps (allRuns Q) (runEvidenceRecord H V i)"
  unfolding runEvidenceRecord_def Let_def
  by (rule keeps_active, rule keeps_guarded [OF runsFrame_evidenceGuards evidenceGuards_Inr], assumption)
    (intro keeps_intro persist_evidence; assumption)

lemma keeps_runAssuranceStart: "keeps (allRuns Q) (runAssuranceStart H V)"
  unfolding runAssuranceStart_def Let_def
  by (rule keeps_active, rule keeps_guarded [OF runsFrame_guards(2) startGuards_Inr], assumption)
    (intro keeps_intro persist_start; assumption)

lemma persist_reviewed:
  assumes "Q run" "run_phase run = EpReview \<and> run_status run \<noteq> ExCompleted
     \<and> run_status run \<noteq> ExBlocked \<and> run_status run \<noteq> ExFailed \<and> truthy (run_currentChangeDigest run)"
    "role \<noteq> run_implementerRole run \<and> Some session \<noteq> run_implementerSessionId run \<and> role \<in> set (run_requiredReviewers run)"
    "rv_reviewerRole r = role \<and> rv_reviewSessionId r = session"
  shows "keeps (allRuns Q) (persistExecutionRun H (reviewedRun now r run) p)"
  using assms(2-4) by (intro persist_moved [OF assms(1)] runMove.Reviewed) blast+

lemma keeps_runAssuranceRecord: "keeps (allRuns Q) (runAssuranceRecord H V i)"
  unfolding runAssuranceRecord_def commitReview_def Let_def
  by (rule keeps_active, rule keeps_guarded [OF runsFrame_guards(3) reviewGuards_Inr], assumption,
      rule keeps_guarded [OF runsFrame_guards(4) reviewerGuards_Inr], assumption,
      rule keeps_guarded [OF runsFrame_admitReview admitReview_Inr], assumption)
    (intro keeps_intro persist_reviewed; assumption)

lemma keeps_completeRun:
  assumes "Q (ac_run a)" "run_status (ac_run a) \<noteq> ExCompleted"
    "finalizeBlockersOf H V (ac_workOrder a) (ac_run a) F = []"
  shows "keeps (allRuns Q) (completeRun H V a F)"
proof -
  have "mayFinalize H (ac_run a)" unfolding mayFinalize_def using assms(3) by blast
  then have "keeps (allRuns Q) (persistExecutionRun H (finalizedRun now action (ac_run a)) p)" for now action p
    using assms(2) by (intro persist_moved [OF assms(1)] runMove.Finalized)
  then show ?thesis unfolding completeRun_def Let_def by (intro keeps_intro)
qed

lemma keeps_runFinalize: "keeps (allRuns Q) (runFinalize H V)"
  unfolding runFinalize_def Let_def
  by (rule keeps_active, rule keeps_if, rule keeps_returnE, rule keeps_bindE, rule allRuns_leaves,
      rule keeps_refuse, rule keeps_completeRun; simp)

lemma keeps_runContextExpand: "keeps (allRuns Q) (runContextExpand H V reason ok)"
  unfolding runContextExpand_def
proof (rule keeps_active)
  fix a :: activeState
  assume Q: "Q (ac_run a)"
  have expand: "keeps (allRuns Q) (expandTo H V a radius reason ok)"
    if "nextRadius (run_contextRadius (ac_run a)) = Some radius" for radius
  proof -
    have "keeps (allRuns Q) (persistExecutionRun H (expandedRun now radius cs h pack report (ac_run a)) p)"
      for now cs h pack report p
      using that by (intro persist_moved [OF Q] runMove.Expanded)
    then show ?thesis unfolding expandTo_def commitExpansion_def Let_def by (intro keeps_intro)
  qed
  show "keeps (allRuns Q) (case nextRadius (run_contextRadius (ac_run a)) of
        None \<Rightarrow> blockedE ''context radius cannot expand further''
                  [''radius is '' @ radius_text (run_contextRadius (ac_run a))]
      | Some radius \<Rightarrow>
          bindE (refuseIf (radius = C5 \<and> \<not> ok) ''C5 is exceptional and blocked by default''
                   [''C5 requires explicit approval'']) (\<lambda>_. expandTo H V a radius reason ok))"
    by (cases "nextRadius (run_contextRadius (ac_run a))") (auto intro!: keeps_intro expand)
qed

lemma keeps_refuseDirty:
  assumes "\<forall>r. existing = Some r \<longrightarrow> Q r"
  shows "keeps (allRuns Q) (refuseDirty H V I existing)"
proof -
  have dirty: "keeps (allRuns Q) (persistExecutionRun H (dirtyRun now r) p)" if "sameOrder w existing = Some r" for now r p w
  proof -
    have "Q r" using that assms by (auto simp: sameOrder_def split: option.splits if_splits)
    from persist_moved [OF this runMove.Dirty] show ?thesis .
  qed
  have "keeps (allRuns Q) (case sameOrder (di_workOrder I) existing of None \<Rightarrow> returnE ()
      | Some r \<Rightarrow> bindE (persistExecutionRun H (dirtyRun (en_now V) r) None) (\<lambda>_. returnE ()))"
  proof (cases "sameOrder (di_workOrder I) existing")
    case None
    then show ?thesis by (simp add: keeps_returnE)
  next
    case (Some r)
    have "keeps (allRuns Q) (bindE (persistExecutionRun H (dirtyRun (en_now V) r) None) (\<lambda>_. returnE ()))"
      by (rule keeps_bindE [OF dirty [OF Some] keeps_returnE])
    then show ?thesis using Some by simp
  qed
  then show ?thesis unfolding refuseDirty_def by (rule keeps_bindE) (intro keeps_intro)
qed

lemma keeps_createRun:
  assumes "\<forall>r. existing = Some r \<longrightarrow> Q r" "reusableRun (di_workOrder I) existing = None"
    "resolveImplementerSession H (di_workOrder I) existing provided = Inr session"
  shows "keeps (allRuns Q) (createRun H V I existing session)"
proof -
  let ?run = "\<lambda>pack report m. dispatchedRun V I existing session
     (dispatchRunId H (en_now V) (di_workOrder I) existing) pack report m"
  have "Q (sanitizeRun H (?run pack report m))" for pack report m
  proof (cases "sameOrder (di_workOrder I) existing")
    case None
    then show ?thesis unfolding createdRun_def using assms(3) by (intro created [unfolded createdRun_def]) blast
  next
    case (Some r)
    then have r: "existing = Some r" "run_workOrderId r = wo_workOrderId (di_workOrder I)"
      by (auto simp: sameOrder_def split: option.splits if_splits)
    have status: "run_status r = ExFailed \<or> run_status r = ExBlocked"
      using Some assms(2) by (auto simp: reusableRun_def split: if_splits)
    have "runMove H r (sanitizeRun H (dispatchedRun V I (Some r) session (run_executionRunId r) pack report m))"
      using r assms(3) status by (intro runMove.Redispatch) simp_all
    then show ?thesis using moved assms(1) r Some by (auto simp: dispatchRunId_def)
  qed
  then have "keeps (allRuns Q) (persistExecutionRun H (?run pack report m) p)" for pack report m p
    by (rule allRuns_persist)
  then show ?thesis unfolding createRun_def Let_def by (intro keeps_intro)
qed

lemma keeps_dispatchRun:
  assumes "\<forall>r. existing = Some r \<longrightarrow> Q r"
  shows "keeps (allRuns Q) (dispatchRun H V provided I existing)"
proof -
  have rest: "keeps (allRuns Q) (bindE (liftE (resolveImplementerSession H (di_workOrder I) existing provided)) (\<lambda>session.
      case reusableRun (di_workOrder I) existing of
        Some r \<Rightarrow> bindE (queryE (\<lambda>s. readExecutionPacket H s (run_executionRunId r))) (\<lambda>p.
                    returnE (r, (case p of None \<Rightarrow> buildPacket r (di_workOrder I) | Some p' \<Rightarrow> p'), di_workOrder I))
      | None \<Rightarrow> createRun H V I existing session))"
    by (rule keeps_bind_fact [where R = "\<lambda>session. resolveImplementerSession H (di_workOrder I) existing provided = Inr session"])
      (use keeps_createRun [OF assms] in \<open>auto simp: step_iff intro!: keeps_intro split: option.split\<close>)
  show ?thesis unfolding dispatchRun_def Let_def by (intro keeps_intro rest)
qed

lemma keeps_runDispatch: "keeps (allRuns Q) (runDispatch H V provided)"
proof -
  have rest: "keeps (allRuns Q) (bindE (queryE (readCurrentExecutionRun H)) (\<lambda>existing.
      if dirty then refuseDirty H V I existing else dispatchRun H V provided I existing))" for I dirty
    by (rule keeps_bind_fact [where R = "\<lambda>existing. \<forall>r. existing = Some r \<longrightarrow> Q r"])
      (use current_run_Q keeps_refuseDirty keeps_dispatchRun in \<open>auto simp: step_iff intro!: keeps_intro dest!: sym [of "Inr _"]\<close>)
  show ?thesis unfolding runDispatch_def Let_def by (intro keeps_intro rest)
qed

end

section \<open>The system\<close>

text \<open>One command: a plan is written, or one of the operations runs, in any surroundings.\<close>

inductive uadsStep :: "'h sys_scheme \<Rightarrow> sidecar \<Rightarrow> sidecar \<Rightarrow> bool" for H where
  PlanStep: "persistPlan H w d c p s = (res, t) \<Longrightarrow> uadsStep H s t"
| DispatchStep: "runDispatch H V provided s = (res, t) \<Longrightarrow> uadsStep H s t"
| VerifyStep: "runVerify H V s = (res, t) \<Longrightarrow> uadsStep H s t"
| EvidenceStep: "runEvidenceRecord H V ev s = (res, t) \<Longrightarrow> uadsStep H s t"
| AssuranceStartStep: "runAssuranceStart H V s = (res, t) \<Longrightarrow> uadsStep H s t"
| AssuranceRecordStep: "runAssuranceRecord H V rv s = (res, t) \<Longrightarrow> uadsStep H s t"
| FinalizeStep: "runFinalize H V s = (res, t) \<Longrightarrow> uadsStep H s t"
| ExpandStep: "runContextExpand H V reason ok s = (res, t) \<Longrightarrow> uadsStep H s t"

abbreviation uadsSteps :: "'h sys_scheme \<Rightarrow> sidecar \<Rightarrow> sidecar \<Rightarrow> bool" where
  "uadsSteps H \<equiv> (uadsStep H)\<^sup>*\<^sup>*"

context run_invariant
begin

lemma step_keeps: "uadsStep H s t \<Longrightarrow> allRuns Q s \<Longrightarrow> allRuns Q t"
proof (induction rule: uadsStep.induct)
  case (PlanStep w d c p s res t)
  then show ?case using keepsD [OF allRuns_frame [OF runsFrame_persistPlan]] by blast
next
  case (DispatchStep V provided s res t)
  then show ?case using keepsD [OF keeps_runDispatch] by blast
next
  case (VerifyStep V s res t)
  then show ?case using keepsD [OF keeps_runVerify] by blast
next
  case (EvidenceStep V ev s res t)
  then show ?case using keepsD [OF keeps_runEvidenceRecord] by blast
next
  case (AssuranceStartStep V s res t)
  then show ?case using keepsD [OF keeps_runAssuranceStart] by blast
next
  case (AssuranceRecordStep V rv s res t)
  then show ?case using keepsD [OF keeps_runAssuranceRecord] by blast
next
  case (FinalizeStep V s res t)
  then show ?case using keepsD [OF keeps_runFinalize] by blast
next
  case (ExpandStep V reason ok s res t)
  then show ?case using keepsD [OF keeps_runContextExpand] by blast
qed

lemma steps_keep: "uadsSteps H s t \<Longrightarrow> allRuns Q s \<Longrightarrow> allRuns Q t"
  by (induction rule: rtranclp_induct) (auto intro: step_keeps)

end

section \<open>Invariants of every run\<close>

text \<open>
  What phase, status, digests and violations of a run have to do with each other: while a run is
  implemented or verified nothing of it is reviewed; the reviewed digest of a run that was not
  stopped is its current one; violations stop and block the run; a completed run is stopped, has a
  digest and no violations.
\<close>

definition runOk :: "executionRun \<Rightarrow> bool" where
  "runOk r \<longleftrightarrow>
     (run_phase r = EpImplement \<or> run_phase r = EpVerify \<longrightarrow> run_reviewedChangeDigest r = None)
     \<and> (run_phase r \<noteq> EpStopped \<and> run_reviewedChangeDigest r \<noteq> None
          \<longrightarrow> run_reviewedChangeDigest r = run_currentChangeDigest r)
     \<and> (run_phase r = EpVerify \<or> run_phase r = EpReview \<longrightarrow> run_currentChangeDigest r \<noteq> None)
     \<and> (run_scopeViolations r \<noteq> [] \<longrightarrow> run_phase r = EpStopped \<and> run_status r = ExBlocked)
     \<and> (run_status r = ExCorrectionNeeded \<longrightarrow> run_phase r = EpImplement)
     \<and> (run_status r = ExCompleted \<longrightarrow> run_phase r = EpStopped \<and> run_currentChangeDigest r \<noteq> None)
     \<and> run_status r \<noteq> ExFailed \<and> 1 \<le> run_attempt r"

lemma sanitizeRun_simps [simp]:
  "run_phase (sanitizeRun H r) = run_phase r" "run_status (sanitizeRun H r) = run_status r"
  "run_attempt (sanitizeRun H r) = run_attempt r"
  "run_currentChangeDigest (sanitizeRun H r) = sanOpt H (run_currentChangeDigest r)"
  "run_reviewedChangeDigest (sanitizeRun H r) = sanOpt H (run_reviewedChangeDigest r)"
  "run_implementerSessionId (sanitizeRun H r) = sanOpt H (run_implementerSessionId r)"
  "run_executionRunId (sanitizeRun H r) = sanitizeOperationalText H (run_executionRunId r)"
  "run_projectId (sanitizeRun H r) = sanitizeOperationalText H (run_projectId r)"
  "run_workOrderId (sanitizeRun H r) = sanitizeOperationalText H (run_workOrderId r)"
  "run_scopeViolations (sanitizeRun H r) = [] \<longleftrightarrow> run_scopeViolations r = []"
  by (simp_all add: sanitizeRun_def Let_def)

lemma sanOpt_simps [simp]:
  "sanOpt H v = None \<longleftrightarrow> v = None" "sanOpt H None = None" "sanOpt H (Some x) = Some (sanitizeOperationalText H x)"
  by (simp_all add: sanOpt_def)

text \<open>The updates of the moves, for the simplifier.\<close>

lemmas run_updates = touchRun_def dirtyRun_def noChangeRun_def violatingRun_def verifiedRun_def reuseRun_def
  evidenceRun_def reviewStartRun_def finalizedRun_def expandedRun_def Let_def

lemma mayFinalize_digest:
  assumes "mayFinalize H run"
  shows "run_currentChangeDigest run \<noteq> None \<and> run_scopeViolations run = []
     \<and> (run_phase run = EpReview \<or> run_phase run = EpStopped) \<and> run_status run \<noteq> ExCorrectionNeeded"
  using assms
  by (cases "run_phase run")
    (auto simp: mayFinalize_def finalizeBlockersOf_def finalizeRunBlockers_def blockIf_def Let_def truthy_iff split: if_splits)

lemma runOk_moved:
  assumes "runOk r" "runMove H r r'"
  shows "runOk r'"
  using assms(2,1)
proof (induction rule: runMove.induct)
  case (Reviewed run r now)
  then show ?case
    by (cases "rv_verdict r") (auto simp: runOk_def reviewedRun_def run_updates)
next
  case (Finalized run now action)
  from mayFinalize_digest [OF Finalized(2)] Finalized show ?case by (auto simp: runOk_def run_updates)
next
  case (Redispatch I run provided session V pack report m)
  then show ?case by (auto simp: runOk_def dispatchedRun_def Let_def sameOrder_def)
qed (simp_all add: runOk_def run_updates canVerify_def truthy_iff, (elim disjE; clarsimp)+)

lemma runOk_created:
  assumes "createdRun H r"
  shows "runOk r"
  using assms by (auto simp: createdRun_def runOk_def dispatchedRun_def Let_def)

interpretation run_ok: run_invariant H runOk for H
  by unfold_locales (auto intro: runOk_moved runOk_created)

section \<open>Histories\<close>

text \<open>The run descends by moves from a run stored in \<open>s0\<close> or from one that dispatch created.\<close>

definition descends :: "'h host_scheme \<Rightarrow> sidecar \<Rightarrow> executionRun \<Rightarrow> bool" where
  "descends H s0 r \<longleftrightarrow>
     (\<exists>r0. (createdRun H r0 \<or> (\<exists>i. rn_run (runStoreOf i s0) = Parsed r0)) \<and> (runMove H)\<^sup>*\<^sup>* r0 r)"

interpretation descent: run_invariant H "descends H s0" for H s0
proof unfold_locales
  show "descends H s0 r'" if "descends H s0 r" "runMove H r r'" for r r'
    using that unfolding descends_def by (meson rtranclp.rtrancl_into_rtrancl)
  show "descends H s0 r" if "createdRun H r" for r
    using that unfolding descends_def by blast
qed

text \<open>Moves and the identity of a run. The redactor leaves the identifiers of a stored run alone.\<close>

definition stableIds :: "'h host_scheme \<Rightarrow> executionRun \<Rightarrow> bool" where
  "stableIds H r \<longleftrightarrow>
     sanitizeOperationalText H (run_executionRunId r) = run_executionRunId r
     \<and> sanitizeOperationalText H (run_workOrderId r) = run_workOrderId r
     \<and> sanOpt H (run_implementerSessionId r) = run_implementerSessionId r"

lemma redispatch_session:
  assumes "resolveImplementerSession H w (Some r) provided = Inr session" "run_workOrderId r = wo_workOrderId w"
    and "truthy (run_implementerSessionId r)"
  shows "session = run_implementerSessionId r"
  using session_never_rebound [OF assms(1)] assms(2,3) by (simp add: boundSession_def)

lemma move_identity:
  assumes "runMove H r r'" "stableIds H r"
  shows "run_executionRunId r' = run_executionRunId r \<and> run_workOrderId r' = run_workOrderId r
    \<and> run_attempt r \<le> run_attempt r'
    \<and> (truthy (run_implementerSessionId r) \<longrightarrow> run_implementerSessionId r' = run_implementerSessionId r)"
  using assms
proof (induction rule: runMove.induct)
  case (Redispatch I run provided session V pack report m)
  then have "sameOrder (di_workOrder I) (Some run) = Some run" by (simp add: sameOrder_def)
  with Redispatch redispatch_session [OF Redispatch(3)] show ?case
    by (auto simp: dispatchedRun_def Let_def stableIds_def)
next
  case (Reviewed run r now)
  then show ?case
    by (cases "rv_verdict r") (auto simp: reviewedRun_def run_updates stableIds_def)
qed (auto simp: run_updates stableIds_def)

lemma move_stable:
  assumes "runMove H r r'" "stableIds H r" "truthy (run_implementerSessionId r)"
  shows "stableIds H r' \<and> truthy (run_implementerSessionId r')"
  using move_identity [OF assms(1,2)] assms(2,3) by (auto simp: stableIds_def)

text \<open>C33: along any history of a run its identifier and work order stay, its attempt never decreases, and
  the implementer session it was bound to is never replaced.\<close>

theorem session_binding_permanent:
  assumes "(runMove H)\<^sup>*\<^sup>* r r'" "stableIds H r" "truthy (run_implementerSessionId r)"
  shows "run_executionRunId r' = run_executionRunId r \<and> run_workOrderId r' = run_workOrderId r
    \<and> run_attempt r \<le> run_attempt r' \<and> run_implementerSessionId r' = run_implementerSessionId r"
proof -
  have "stableIds H r' \<and> truthy (run_implementerSessionId r')
    \<and> run_executionRunId r' = run_executionRunId r \<and> run_workOrderId r' = run_workOrderId r
    \<and> run_attempt r \<le> run_attempt r' \<and> run_implementerSessionId r' = run_implementerSessionId r"
    using assms(1)
  proof (induction rule: rtranclp_induct)
    case base
    then show ?case using assms(2,3) by simp
  next
    case (step y z)
    with move_identity [OF step(2)] move_stable [OF step(2)] show ?case by auto
  qed
  then show ?thesis by blast
qed

text \<open>C2: every run an operation leaves in the sidecar descends, by moves of the state machine, from a run
  that was stored before or from one that dispatch created: the operations refine the machine.\<close>

theorem operations_refine_run_machine:
  assumes "uadsSteps H s t" "rn_run (runStoreOf i t) = Parsed r"
  shows "descends H s r"
proof -
  have "allRuns (descends H s) s" unfolding allRuns_def descends_def by blast
  with descent.steps_keep [OF assms(1)] show ?thesis using assms(2) unfolding allRuns_def by blast
qed

text \<open>C3: in every sidecar that the operations produce from one whose runs are consistent, the runs are
  consistent (phase, status, digests and violations agree as \<open>runOk\<close> says); no run ever fails.\<close>

theorem reachable_runs_consistent:
  assumes "uadsSteps H s t" "allRuns runOk s"
  shows "allRuns runOk t"
  using run_ok.steps_keep assms .

text \<open>A completed run stays completed under every move but one: a dispatch in a dirty work tree turns
  it into a blocked run.\<close>

theorem completed_run_left_only_by_dirty_dispatch:
  assumes "runMove H r r'" "runOk r" "run_status r = ExCompleted"
  shows "(run_status r' = ExCompleted \<and> run_phase r' = EpStopped
       \<and> run_currentChangeDigest r' = sanOpt H (run_currentChangeDigest r))
    \<or> (\<exists>now. r' = sanitizeRun H (dirtyRun now r))"
  using assms
  by (induction rule: runMove.induct) (auto simp: runOk_def run_updates canVerify_def)

end
