(* ===== verification/Execution_Demo.thy ===== *)
theory Execution_Demo
  imports Execution_Lifecycle
begin

text \<open>
  A concrete history, used by the witnesses only: the demo work order is planned, dispatched,
  verified, its build recorded, reviewed and finalized. The surroundings are a clean and a changed
  work tree and fixed answers of the parts of the kernel that are arguments of the model.
\<close>

definition demoRouting :: routingDecision where
  "demoRouting =
    \<lparr>rd_routingDecisionId = ''rt_1'', rd_projectId = ''p_1'', rd_createdAt = ''t0'', rd_scopeClass = Local,
     rd_scopeReasons = [], rd_riskLevel = LOW, rd_riskReasons = [], rd_domains = [], rd_specialists = [''test-engineer''],
     rd_assuranceSpecialists = [''independent-reviewer''], rd_binding = noBinding, rd_gates = [],
     rd_contextRadius = C1, rd_contextReason = ''r'', rd_capabilityClass = Balanced, rd_orderConstraints = [],
     rd_stopConditions = [], rd_warnings = []\<rparr>"

definition demoCheckpoint :: checkpoint where
  "demoCheckpoint =
    \<lparr>cp_checkpointId = ''cp_1'', cp_projectId = ''p_1'', cp_workOrderId = Some ''wo_1'',
     cp_routingDecisionId = Some ''rt_1'', cp_createdAt = ''t0'', cp_updatedAt = ''t0'', cp_phase = Plan,
     cp_status = CpPending, cp_completedSteps = [], cp_nextAction = ''dispatch'', cp_blockers = [],
     cp_evidenceRefs = [], cp_repositoryMapDigest = None, cp_contextPlanRef = None, cp_resumeCursor = ''plan''\<rparr>"

definition demoContextPlan :: contextPlan where
  "demoContextPlan = \<lparr>pl_radius = C1, pl_reason = ''r'', pl_candidateAreas = [''src''], pl_reusableArtifacts = [],
     pl_contextPackId = None, pl_impactReportId = None, pl_indexDigest = None\<rparr>"

definition demoModelPlan :: modelExecutionPlan where
  "demoModelPlan =
    \<lparr>mx_planId = ''mp_1'', mx_projectId = ''p_1'', mx_workOrderId = ''wo_1'', mx_workOrderDigest = ''wd'',
     mx_changeDigest = None, mx_risk = LOW, mx_scopeClass = Local, mx_complexity = TrivialWork, mx_uncertainty = 0,
     mx_requiredCapabilityClass = Balanced, mx_requiredCapabilities = [], mx_runtimeIdentityDigest = ''r'',
     mx_registryDigest = ''g'', mx_policyDigest = ''p'', mx_candidates = [], mx_eligibleCandidates = [],
     mx_rejections = [], mx_selectedProfileId = None, mx_selectedProviderId = None, mx_selectedModelId = None,
     mx_roleSelections = [], mx_selectionReasonCodes = [], mx_fallbackProfileIds = [], mx_escalationFloor = Balanced,
     mx_escalationCurrentTier = Balanced, mx_escalationReasonCodes = [],
     mx_cacheHints = \<lparr>mh_staticLayerDigest = None, mh_semiStableLayerDigest = None, mh_dynamicLayerDigest = None,
       mh_promptCacheUsable = False, mh_explicitCacheUsable = False, mh_persistentContextUsable = False\<rparr>,
     mx_execution = \<lparr>me_parallel = False, me_roleDispatch = RoleCycling, me_usageTelemetryAvailable = None\<rparr>,
     mx_budget = \<lparr>mb_hardLimit = 20000, mb_softLimit = 8000, mb_estimatedInputTokens = 1, mb_requiredOutputTokens = 1,
       mb_selectedContextWindowTokens = None\<rparr>,
     mx_selectionMode = HostManagedMode, mx_status = RoutingSelected, mx_blockedReason = None\<rparr>"

definition demoReport :: "contextRadius \<Rightarrow> impactReport" where
  "demoReport r =
    \<lparr>ip_impactReportId = ''ir_1'', ip_projectId = ''p_1'', ip_workOrderId = Some ''wo_1'', ip_executionRunId = None,
     ip_indexDigest = ''i'', ip_gitHead = None, ip_dirtyDigest = ''c'', ip_generatedAt = ''t'', ip_contextRadius = r,
     ip_seeds = [], ip_inScopeCandidates = [], ip_supportingContext = [], ip_possibleImpact = [], ip_excluded = [],
     ip_unresolved = [], ip_stale = False, ip_indexConfidence = HighConfidence\<rparr>"

definition demoPack :: "contextRadius \<Rightarrow> contextPack" where
  "demoPack r =
    \<lparr>cx_contextPackId = ''pk_1'', cx_projectId = ''p_1'', cx_workOrderId = Some ''wo_1'', cx_executionRunId = None,
     cx_impactReportId = ''ir_1'', cx_indexDigest = ''i'', cx_gitHead = None, cx_dirtyDigest = ''c'',
     cx_generatedAt = ''t'', cx_contextRadius = r, cx_objective = None, cx_estimatedTokens = 100, cx_items = [],
     cx_focusedTests = [], cx_contracts = [], cx_docs = [], cx_unresolved = [], cx_excludedSummary = [],
     cx_expansionHistory = [], cx_staticLayerDigest = ''static'', cx_semiStableLayerDigest = ''semi-stable'',
     cx_dynamicLayerDigest = ''dynamic''\<rparr>"

definition cleanTree :: worktree where
  "cleanTree = \<lparr>wt_status = [], wt_diff = [], wt_gitHead = Some ''h1'', wt_file = (\<lambda>_. NoFile)\<rparr>"

text \<open>The answers are constants applied to their arguments, so that evaluation reaches them only when asked.\<close>

definition demoIndex :: "nat \<Rightarrow> uadsError + (indexBundle \<times> bool)" where
  "demoIndex n = Inr (demoBundle, False)"

definition demoIntel :: "indexBundle \<Rightarrow> contextRadius \<Rightarrow> workOrder \<Rightarrow> string \<Rightarrow> contextExpansion list \<Rightarrow> bool
    \<Rightarrow> uadsError + (impactReport \<times> contextPack)" where
  "demoIntel b r w i h a = Inr (demoReport r, demoPack r)"

definition demoModelRouting :: "nat \<Rightarrow> workOrder \<Rightarrow> contextPlan \<Rightarrow> string \<Rightarrow> uadsError + modelExecutionPlan" where
  "demoModelRouting n w p d = Inr demoModelPlan"

definition demoSelectionCheck :: "workOrder \<Rightarrow> routingDecision option \<Rightarrow> contextPlan \<Rightarrow> string option
    \<Rightarrow> selectionFailure + specialistSelectionPlan" where
  "demoSelectionCheck w d p i = Inr (demoPlan plain_host)"

definition demoOutput :: "string \<Rightarrow> string option" where
  "demoOutput p = Some ''ok''"

definition demoEnv :: "string \<Rightarrow> worktree \<Rightarrow> execEnv" where
  "demoEnv now tree =
    \<lparr>en_now = now, en_projectId = ''p_1'', en_tree = tree, en_map = Some demoMap, en_probe = demoProbe,
     en_index = demoIndex, en_intel = demoIntel, en_publish = (\<lambda>_ _. Inr ()), en_modelPlan = demoModelRouting,
     en_selection = demoSelectionCheck, en_outputFile = demoOutput, en_redactOutput = Some\<rparr>"

definition demoBuildInput :: evidenceInput where
  "demoBuildInput = \<lparr>ei_gateId = ''build'', ei_kind = CommandEvidence, ei_role = ''test-engineer'',
     ei_command = Some ''npm run build'', ei_exitCode = Some 0, ei_outputPath = Some ''out.txt'', ei_file = None,
     ei_summary = ''built'', ei_status = None\<rparr>"

definition demoReviewInput :: reviewInput where
  "demoReviewInput = \<lparr>ri_role = ''independent-reviewer'', ri_session = ''s_rev'', ri_implementerSession = None,
     ri_verdict = Approved, ri_summary = ''fine'', ri_findings = Inline 2 (FindingRows [])\<rparr>"

text \<open>
  For evaluation an operation is unfolded only when it is applied to a state: otherwise every branch
  that comes after a step would be evaluated symbolically before the step.
\<close>

lemmas operations_applied [code] =
  returnE_def [THEN fun_cong] throwE_def [THEN fun_cong] bindE_def [THEN fun_cong] guardE_def [THEN fun_cong]
  liftE_def [THEN fun_cong] readE_def [THEN fun_cong] writeE_def [THEN fun_cong] queryE_def [THEN fun_cong]
  catchE_def [THEN fun_cong] assertSchema_def [THEN fun_cong] checkE_def [THEN fun_cong]
  persistPlan_def [THEN fun_cong] persistExecutionRun_def [THEN fun_cong]
  persistExecutionPacket_def [THEN fun_cong] persistEvidenceRecord_def [THEN fun_cong]
  persistReviewRecord_def [THEN fun_cong] persistReviewPacket_def [THEN fun_cong]
  persistCostLedger_def [THEN fun_cong] persistCostDecision_def [THEN fun_cong]
  persistQptSnapshot_def [THEN fun_cong] writeDecision_def [THEN fun_cong] applyLedgerPatch_def [THEN fun_cong]
  enforceTokenBudget_def [THEN fun_cong] incrementCostCounters_def [THEN fun_cong]
  noteGovernorEvent_def [THEN fun_cong] refreshQptSnapshot_def [THEN fun_cong]
  persistEvidenceCacheRecord_def [THEN fun_cong] persistCacheDecision_def [THEN fun_cong]
  markCacheRecordStatus_def [THEN fun_cong] searchCandidates_def [THEN fun_cong]
  evaluateCache_def [THEN fun_cong] populateCacheFromEvidence_def [THEN fun_cong] applyHit_def [THEN fun_cong]
  applyEligibleCacheHits_def [THEN fun_cong] blockedE_def [THEN fun_cong] refuseIf_def [THEN fun_cong]
  bestEffort_def [THEN fun_cong] writeCheckpoint_def [THEN fun_cong] queryIf_def [THEN fun_cong]
  missingArtifacts_def [THEN fun_cong] loadArtifacts_def [THEN fun_cong] noActiveRun_def [THEN fun_cong]
  loadActive_def [THEN fun_cong] gateStatesOf_def [THEN fun_cong] noteRunEvent_def [THEN fun_cong]
  assuranceSelection_def [THEN fun_cong] currentOrRefreshIndex_def [THEN fun_cong]
  budgetedIntel_def [THEN fun_cong] noPlannedOrder_def [THEN fun_cong] missingDispatchPlan_def [THEN fun_cong]
  phaseCheck_def [THEN fun_cong] dispatchInputsOf_def [THEN fun_cong] dispatchImpactDigest_def [THEN fun_cong]
  dispatchSelection_def [THEN fun_cong] refuseDirty_def [THEN fun_cong] dispatchModelPlan_def [THEN fun_cong]
  refuseModelPlan_def [THEN fun_cong] createRun_def [THEN fun_cong] dispatchRun_def [THEN fun_cong]
  runDispatch_def [THEN fun_cong] verifyGuards_def [THEN fun_cong] refuseChangeSet_def [THEN fun_cong]
  recordReuse_def [THEN fun_cong] recordMisses_def [THEN fun_cong] indexOrNone_def [THEN fun_cong]
  verifyClean_def [THEN fun_cong] runVerify_def [THEN fun_cong] evidenceGuards_def [THEN fun_cong]
  copySanitizedOutput_def [THEN fun_cong] fileProofOf_def [THEN fun_cong] evidenceProofOf_def [THEN fun_cong]
  cacheFromEvidence_def [THEN fun_cong] runEvidenceRecord_def [THEN fun_cong] startGuards_def [THEN fun_cong]
  runAssuranceStart_def [THEN fun_cong] reviewGuards_def [THEN fun_cong] reviewerGuards_def [THEN fun_cong]
  admitReview_def [THEN fun_cong] commitReview_def [THEN fun_cong] runAssuranceRecord_def [THEN fun_cong] finalizeSelection_def [THEN fun_cong]
  finalizeInputsOf_def [THEN fun_cong] completeRun_def [THEN fun_cong] runFinalize_def [THEN fun_cong]
  expandTo_def [THEN fun_cong] commitExpansion_def [THEN fun_cong] runContextExpand_def [THEN fun_cong]

text \<open>A test of what an operation returns and leaves behind.\<close>

definition succeeds :: "'a op \<Rightarrow> sidecar \<Rightarrow> ('a \<Rightarrow> sidecar \<Rightarrow> bool) \<Rightarrow> bool" where
  "succeeds m s P = (case m s of (Inl _, _) \<Rightarrow> False | (Inr x, t) \<Rightarrow> P x t)"

definition throws :: "'a op \<Rightarrow> sidecar \<Rightarrow> (uadsError \<Rightarrow> sidecar \<Rightarrow> bool) \<Rightarrow> bool" where
  "throws m s P = (case m s of (Inl e, t) \<Rightarrow> P e t | (Inr _, _) \<Rightarrow> False)"

lemma succeedsD: "succeeds m s P \<Longrightarrow> \<exists>x t. m s = (Inr x, t) \<and> P x t"
  by (auto simp: succeeds_def split: prod.splits sum.splits)

lemma throwsD: "throws m s P \<Longrightarrow> \<exists>e t. m s = (Inl e, t) \<and> P e t"
  by (auto simp: throws_def split: prod.splits sum.splits)

definition currentIs :: "(executionRun \<Rightarrow> bool) \<Rightarrow> sidecar \<Rightarrow> bool" where
  "currentIs P s = (case readCurrentExecutionRun plain_sys s of Inr (Some r) \<Rightarrow> P r | _ \<Rightarrow> False)"

lemma currentIsD: "currentIs P s \<Longrightarrow> \<exists>r. readCurrentExecutionRun plain_sys s = Inr (Some r) \<and> P r"
  by (auto simp: currentIs_def split: sum.splits option.splits)

text \<open>The sidecar in the middle of the history: the demo plan and one run with its records.\<close>

definition sidecarWith :: "executionRun \<Rightarrow> evidenceRecord list \<Rightarrow> reviewRecord list \<Rightarrow> sidecar" where
  "sidecarWith run evidence reviews =
    emptySidecar\<lparr>
      sc_plan := \<lparr>ps_workOrders = [(''wo_1.json'', Parsed demoWorkOrder)], ps_decisions = [(''rt_1.json'', Parsed demoRouting)],
        ps_checkpoints = [], ps_currentState = Parsed demoCheckpoint, ps_contextPlan = Parsed demoContextPlan\<rparr>,
      sc_runs := [(run_executionRunId run,
        \<lparr>rn_run = Parsed run, rn_packet = Parsed (buildPacket run demoWorkOrder),
         rn_evidence = map (\<lambda>e. (jsonName (ev_evidenceId e), Parsed e)) evidence,
         rn_reviews = map (\<lambda>r. (jsonName (rv_reviewId r), Parsed r)) reviews,
         rn_reviewPacket = Missing, rn_outputs = []\<rparr>)],
      sc_pointer := Parsed \<lparr>cu_executionRunId = run_executionRunId run, cu_updatedAt = run_updatedAt run\<rparr>\<rparr>"

definition plannedSidecar :: sidecar where
  "plannedSidecar = (sidecarWith demoRun [] [])\<lparr>sc_runs := [], sc_pointer := Missing\<rparr>"

text \<open>The same surroundings without an index: nothing is reused or added to the cache.\<close>

definition noIndex :: "nat \<Rightarrow> uadsError + (indexBundle \<times> bool)" where
  "noIndex n = Inl (PlainError ''index unavailable'')"

definition offlineEnv :: "string \<Rightarrow> worktree \<Rightarrow> execEnv" where
  "offlineEnv now tree = (demoEnv now tree)\<lparr>en_index := noIndex\<rparr>"

text \<open>The run at the stages of the history, over the digest of the changed work tree.\<close>

definition demoDigest :: string where
  "demoDigest = (case liveDigest plain_host demoTree of Inr d \<Rightarrow> d | Inl _ \<Rightarrow> [])"

definition implementingRun :: executionRun where
  "implementingRun = demoRun\<lparr>run_phase := EpImplement, run_status := ExReady, run_currentChangeDigest := None\<rparr>"

definition reviewingRun :: executionRun where
  "reviewingRun = demoRun\<lparr>run_phase := EpReview, run_currentChangeDigest := Some demoDigest\<rparr>"

definition currentDemoEvidence :: evidenceRecord where
  "currentDemoEvidence = demoEvidence\<lparr>ev_changeDigest := demoDigest\<rparr>"

definition currentDemoReview :: reviewRecord where
  "currentDemoReview = demoReview\<lparr>rv_changeDigest := demoDigest\<rparr>"

definition secretTree :: worktree where
  "secretTree = demoTree\<lparr>wt_status := '' M .env'' @ [nul]\<rparr>"

section \<open>The demo run under review\<close>

text \<open>
  The demo run under review and the load of the active artifacts of the demo history, decided by the
  simplifier. The surroundings use a hash whose digest is that of the demo records.
\<close>

definition fixed_sys :: sys where
  "fixed_sys = plain_sys\<lparr>sha256Hex := (\<lambda>_. ''d_1'')\<rparr>"

definition openRun :: executionRun where
  "openRun = demoRun\<lparr>run_phase := EpReview\<rparr>"

lemma openRun_fields:
  "run_requiredReviewers openRun = [''independent-reviewer'']" "run_implementerRole openRun = ''implementation-agent''"
  "run_implementerSessionId openRun = Some ''s_impl''" "run_currentChangeDigest openRun = Some ''d_1''"
  "run_phase openRun = EpReview" "run_status openRun = ExInProgress"
  by (simp_all add: openRun_def demoRun_def)



section \<open>The demo run under review\<close>

lemma demo_ids: "runPathCheck ''ex_1'' = Inr ()" "assertSafeSidecarId ''wo_1'' = Inr ()" "assertSafeSidecarId ''rt_1'' = Inr ()"
  "isSafeSidecarId ''ex_1''"
  by code_simp+

definition activeOf :: "executionRun \<Rightarrow> activeState" where
  "activeOf run = \<lparr>ac_checkpoint = demoCheckpoint, ac_workOrder = demoWorkOrder, ac_plan = demoContextPlan, ac_run = run\<rparr>"

lemma activeOf_fields:
  "ac_checkpoint (activeOf run) = demoCheckpoint" "ac_workOrder (activeOf run) = demoWorkOrder"
  "ac_plan (activeOf run) = demoContextPlan" "ac_run (activeOf run) = run"
  by (simp_all add: activeOf_def)

lemma demo_active:
  assumes "H = plain_sys\<lparr>sha256Hex := h\<rparr>" "run_executionRunId run = ''ex_1''" "run_projectId run = ''p_1''"
    "run_workOrderId run = ''wo_1''" "run_routingDecisionId run = ''rt_1''" "en_projectId V = ''p_1''"
  shows "loadActive H V (sidecarWith run es rs) = (Inr (activeOf run), sidecarWith run es rs)"
  using assms
  by (simp add: loadActive_def loadArtifacts_def bindE_def readE_def queryE_def queryIf_def liftE_def returnE_def
     readCurrentCheckpoint_def sidecarWith_def plain_sys_def readCurrentExecutionRun_def
     readCurrentExecutionRunId_def demo_ids readExecutionRun_def runStoreOf_def readRequired_def demoCheckpoint_def
     readWorkOrder_def readRoutingDecision_def readContextPlan_def read_entry_def or_empty_def truthy_def
     readRequiredExecutionPacket_def readExecutionPacket_def assertActiveExecutionConsistency_def buildPacket_def
     demoWorkOrder_def demoRouting_def jsonName_def activeOf_def)

end
