(* ===== verification/Execution_Properties.thy ===== *)
theory Execution_Properties
  imports Execution_Demo
begin

text \<open>
  What the single operations guarantee: dispatch, verification, evidence, review, finalizing and
  context expansion, each stated over the state before and after.
\<close>

section \<open>Dispatch\<close>

lemma createRun_result:
  assumes "createRun H V I existing session s = (Inr (run, packet, w), t)"
  shows "readCurrentExecutionRun H t = Inr (Some (sanitizeRun H run))
    \<and> run_workOrderId run = wo_workOrderId (di_workOrder I) \<and> run_implementerSessionId run = session
    \<and> run_phase run = EpImplement \<and> run_status run = ExReady \<and> run_currentChangeDigest run = None
    \<and> wo_specialists w = wo_specialists (di_workOrder I)"
proof -
  obtain intel m p x u v where st:
      "run = dispatchedRun V I existing session (dispatchRunId H (en_now V) (di_workOrder I) existing) (snd intel) (fst intel) m"
      "persistExecutionRun H run (Some (buildPacket run (di_workOrder I))) u = (Inr p, v)"
      "writeCheckpoint H (dispatchCheckpoint (en_now V) (pk_nextAction (buildPacket run (di_workOrder I))) (di_checkpoint I)) w
         (dispatchContextPlan (snd intel) (fst intel) (di_plan I)) v = (Inr x, t)"
      "w = (di_workOrder I)\<lparr>wo_status := WoActive, wo_updatedAt := en_now V,
         wo_nextAction := pk_nextAction (buildPacket run (di_workOrder I))\<rparr>"
    using assms unfolding createRun_def Let_def by (auto simp: step_iff)
  have "readCurrentExecutionRun H t = readCurrentExecutionRun H v"
    by (rule frame_keeps_current [OF runsFrame_writeCheckpoint st(3)])
  with persist_current [OF st(2)] have "readCurrentExecutionRun H t = Inr (Some (sanitizeRun H run))" by simp
  then show ?thesis using st(1,4) by (simp add: dispatchedRun_def Let_def)
qed

lemma resolve_session:
  assumes "resolveImplementerSession H w existing provided = Inr session" "sameOrder w existing = Some r"
    and "truthy (run_implementerSessionId r)"
  shows "session = run_implementerSessionId r"
proof -
  have "boundSession w existing = run_implementerSessionId r"
    using assms(2) by (auto simp: sameOrder_def boundSession_def split: option.splits if_splits)
  with session_never_rebound [OF assms(1)] assms(3) show ?thesis by simp
qed

lemma dispatchRun_result:
  assumes "dispatchRun H V provided I existing s = (Inr (run, packet, w), t)"
    and "readCurrentExecutionRun H s = Inr existing"
  shows "run_workOrderId run = wo_workOrderId w \<and> wo_workOrderId w = wo_workOrderId (di_workOrder I)
    \<and> run_status run \<notin> {ExCompleted, ExFailed, ExBlocked}
    \<and> (readCurrentExecutionRun H t = Inr (Some (sanitizeRun H run)) \<or> readCurrentExecutionRun H t = Inr (Some run))
    \<and> (\<forall>r. sameOrder w existing = Some r \<and> truthy (run_implementerSessionId r)
          \<longrightarrow> run_implementerSessionId run = run_implementerSessionId r)
    \<and> (requiresImplementation w \<and> sameOrder w existing = None \<longrightarrow> truthy (run_implementerSessionId run))"
proof -
  let ?w = "di_workOrder I"
  obtain m u v session where st: "dispatchModelPlan H V I s = (Inr m, u)" "refuseModelPlan H V I m u = (Inr (), v)"
      "\<not> alreadyCompleted ?w existing" "resolveImplementerSession H ?w existing provided = Inr session"
      "(case reusableRun ?w existing of
          Some r \<Rightarrow> bindE (queryE (\<lambda>s. readExecutionPacket H s (run_executionRunId r))) (\<lambda>p.
                      returnE (r, (case p of None \<Rightarrow> buildPacket r ?w | Some p' \<Rightarrow> p'), ?w))
        | None \<Rightarrow> createRun H V I existing session) v = (Inr (run, packet, w), t)"
    using assms(1) unfolding dispatchRun_def Let_def by (auto simp: bindE_Inr liftE_iff refuseIf_Inr)
  have cur: "readCurrentExecutionRun H v = Inr existing"
    using frame_keeps_current [where H = H, OF runsFrame_dispatchReads(4) st(1)] frame_keeps_current [where H = H, OF runsFrame_dispatchReads(5) st(2)] assms(2)
    by simp
  show ?thesis
  proof (cases "reusableRun ?w existing")
    case None
    with st(5) have c: "createRun H V I existing session v = (Inr (run, packet, w), t)" by simp
    have ws: "wo_workOrderId w = wo_workOrderId ?w"
      using c unfolding createRun_def Let_def by (auto simp: step_iff)
    have same: "sameOrder w existing = sameOrder ?w existing" using ws by (simp add: sameOrder_def split: option.split)
    have "truthy session" if "requiresImplementation ?w"
      using session_present [OF st(4) that] .
    with createRun_result [OF c] ws same resolve_session [OF st(4)] show ?thesis
      by (auto simp: requiresImplementation_def)
  next
    case (Some r)
    with st(5) have r: "run = r" "w = ?w" "t = v" by (auto simp: step_iff)
    from Some have ex: "existing = Some r" "run_workOrderId r = wo_workOrderId ?w"
        "run_status r \<noteq> ExFailed" "run_status r \<noteq> ExBlocked" "sameOrder ?w existing = Some r"
      by (auto simp: reusableRun_def sameOrder_def split: option.splits if_splits)
    with st(3) have "run_status r \<noteq> ExCompleted" by (simp add: alreadyCompleted_def)
    with ex r cur show ?thesis by auto
  qed
qed

text \<open>C6: dispatch succeeds in a clean work tree only, and what it hands out is the current run of the work
  order, neither finished nor blocked; a session that the current run of the order is bound to is
  kept, and a new run that needs an implementer has a session.\<close>

theorem dispatch_success:
  assumes "runDispatch H V provided s = (Inr (run, packet, w), t)" "readCurrentExecutionRun H s = Inr existing"
  shows "\<not> isWorktreeDirty (wt_status (en_tree V))
    \<and> run_workOrderId run = wo_workOrderId w \<and> run_status run \<notin> {ExCompleted, ExFailed, ExBlocked}
    \<and> (readCurrentExecutionRun H t = Inr (Some (sanitizeRun H run)) \<or> readCurrentExecutionRun H t = Inr (Some run))
    \<and> (\<forall>r. sameOrder w existing = Some r \<and> truthy (run_implementerSessionId r)
          \<longrightarrow> run_implementerSessionId run = run_implementerSessionId r)
    \<and> (requiresImplementation w \<and> sameOrder w existing = None \<longrightarrow> truthy (run_implementerSessionId run))"
proof -
  let ?dirty = "isWorktreeDirty (wt_status (en_tree V))"
  obtain I s1 x s2 s3 ex where st: "dispatchInputsOf H s = (Inr I, s1)" "dispatchImpactDigest H V I ?dirty s1 = (Inr x, s2)"
      "dispatchSelection V I x s2 = (Inr (), s3)" "readCurrentExecutionRun H s3 = Inr ex"
      "(if ?dirty then refuseDirty H V I ex else dispatchRun H V provided I ex) s3 = (Inr (run, packet, w), t)"
    using assms(1) unfolding runDispatch_def Let_def by (auto simp: bindE_Inr queryE_iff dest!: sym [of "Inr _"])
  have "readCurrentExecutionRun H s3 = Inr existing"
    using frame_keeps_current [where H = H, OF runsFrame_dispatchReads(1) st(1)] frame_keeps_current [where H = H, OF runsFrame_dispatchReads(2) st(2)]
      frame_keeps_current [where H = H, OF runsFrame_dispatchReads(3) st(3)] assms(2) by simp
  with st(4) have ex: "ex = existing" by simp
  have clean: "\<not> ?dirty" using st(5) by (auto simp: refuseDirty_def step_iff split: if_splits)
  with st(5) ex have "dispatchRun H V provided I existing s3 = (Inr (run, packet, w), t)" by simp
  from dispatchRun_result [OF this] st(4) ex clean show ?thesis by auto
qed

end
