(* ===== verification/Lifecycle_Properties.thy ===== *)
theory Lifecycle_Properties
  imports Execution_Demo
begin

text \<open>
  What verification, evidence, review, finalizing and context expansion guarantee, each stated over
  the sidecar before and after the operation.
\<close>

section \<open>Verification\<close>

lemma recordReuse_current:
  assumes "recordReuse H V run applied s = (Inr r, t)"
    and "readCurrentExecutionRun H s = Inr (Some (sanitizeRun H run))"
  shows "readCurrentExecutionRun H t = Inr (Some (sanitizeRun H r))
    \<and> (r = run \<or> r = reuseRun (en_now V) applied run)"
proof (cases "applied = []")
  case True
  with assms show ?thesis by (simp add: recordReuse_def step_iff)
next
  case False
  then obtain p u where st: "persistExecutionRun H (reuseRun (en_now V) applied run) None s = (Inr p, u)"
      "noteRunEvent H V (reuseRun (en_now V) applied run) ReuseOutcome [''CACHE_HIT'', ''AVOIDED_ELIGIBLE_GATE_RERUN'']
         ''verify-cache-hit'' [(GateCacheHits, int (length applied)), (EvidenceReuseCount, int (length applied)),
           (AvoidedToolExecutions, int (length applied))] u = (Inr (), t)"
      "r = reuseRun (en_now V) applied run"
    using assms(1) unfolding recordReuse_def Let_def by (auto simp: step_iff)
  with persist_current [OF st(1)] frame_keeps_current [where H = H, OF runsFrame_note st(2)] show ?thesis by simp
qed

lemma verifyClean_result:
  assumes "verifyClean H V a c s = (Inr r, t)"
  shows "readCurrentExecutionRun H t = Inr (Some (sanitizeRun H (fst r)))
    \<and> (\<exists>applied. fst r = verifiedRun (en_now V) c (ac_run a)
         \<or> fst r = reuseRun (en_now V) applied (verifiedRun (en_now V) c (ac_run a)))"
proof -
  let ?run = "verifiedRun (en_now V) c (ac_run a)"
  obtain p1 s1 ev rv gates bdl s2 s3 applied ds s4 run s5 s6 ev' gates' q s7 ck where st:
      "persistExecutionRun H ?run (Some (buildPacket ?run (ac_workOrder a))) s = (Inr p1, s1)"
      "indexOrNone H V s1 = (Inr bdl, s2)"
      "applyEligibleCacheHits H (en_probe V) (en_now V) ?run bdl gates (en_map V) s2 = (Inr (applied, ds), s3)"
      "recordReuse H V ?run applied s3 = (Inr run, s4)" "recordMisses H V run ds s4 = (Inr (), s5)"
      "refreshQptSnapshot H (en_now V) (en_projectId V) (int (length (run_selectedGates run))) (passCount gates')
         (if run_requiredReviewers run \<noteq> [] then ReviewPending else ReviewNotRequired)
         (Some (radius_text (run_contextRadius run))) s5 = (Inr q, s6)"
      "writeCheckpoint H (verifyCheckpoint (en_now V) run (ac_checkpoint a)) (ac_workOrder a) (ac_plan a) s6 = (Inr ck, t)"
      "fst r = run"
    using assms unfolding verifyClean_def Let_def by (auto simp: step_iff gateStatesOf_def)
  note keep = frame_keeps_current [where H = H]
  have "readCurrentExecutionRun H s3 = Inr (Some (sanitizeRun H ?run))"
    using persist_current [OF st(1)] keep [OF runsFrame_indexOrNone st(2)] keep [OF runsFrame_apply st(3)] by simp
  from recordReuse_current [OF st(4) this]
  have r: "readCurrentExecutionRun H s4 = Inr (Some (sanitizeRun H run))"
      "run = ?run \<or> run = reuseRun (en_now V) applied ?run" by blast+
  have "readCurrentExecutionRun H t = Inr (Some (sanitizeRun H run))"
    using r(1) keep [OF runsFrame_recordMisses st(5)] keep [OF runsFrame_refresh st(6)]
      keep [OF runsFrame_writeCheckpoint st(7)] by simp
  then show ?thesis using r(2) unfolding st(8) by blast
qed

text \<open>C5: when verification succeeds the change set of the work tree has no violation and, where the order
  needs an implementation, is not empty; the current run is in the verify phase with exactly the
  digest and the files of that change set, nothing reviewed, no blockers.\<close>

theorem verify_success:
  assumes "runVerify H V s = (Inr (run, c, pending), t)" "allRuns runOk s"
  shows "\<exists>a. loadActive H V s = (Inr a, s) \<and> buildChangeSet H (en_tree V) (ac_workOrder a) (Some (ac_plan a)) = Inr c
    \<and> ch_violations c = [] \<and> (requiresImplementation (ac_workOrder a) \<longrightarrow> ch_files c \<noteq> [])
    \<and> readCurrentExecutionRun H t = Inr (Some (sanitizeRun H run)) \<and> run_phase run = EpVerify
    \<and> run_currentChangeDigest run = Some (ch_digest c) \<and> run_changedFiles run = map cf_path (ch_files c)
    \<and> run_reviewedChangeDigest run = None \<and> run_scopeViolations run = [] \<and> run_blockers run = []"
proof -
  obtain a s1 s2 s3 r where st: "loadActive H V s = (Inr a, s1)" "verifyGuards (ac_run a) s1 = (Inr (), s2)"
      "buildChangeSet H (en_tree V) (ac_workOrder a) (Some (ac_plan a)) = Inr c"
      "refuseChangeSet H V a c s2 = (Inr (), s3)" "verifyClean H V a c s3 = (Inr r, t)" "run = fst r"
    using assms(1) unfolding runVerify_def by (auto simp: step_iff dest!: sym [of "Inr _"])
  have "s1 = s" using loadActive_state [OF st(1)] .
  have ok: "runOk (ac_run a)" using current_run_Q [OF assms(2) loadActive_Inr(2) [OF st(1)]] .
  have guards: "canVerify (ac_run a)" using verifyGuards_Inr [OF st(2)] by blast
  have change: "ch_violations c = []" "requiresImplementation (ac_workOrder a) \<longrightarrow> ch_files c \<noteq> []"
    using st(4) by (auto simp: refuseChangeSet_def Let_def step_iff)
  have none: "run_reviewedChangeDigest (verifiedRun (en_now V) c (ac_run a)) = None"
    using ok guards by (auto simp: runOk_def canVerify_def verifiedRun_def touchRun_def)
  from verifyClean_result [OF st(5)] obtain applied where
    "readCurrentExecutionRun H t = Inr (Some (sanitizeRun H run))"
    "run = verifiedRun (en_now V) c (ac_run a) \<or> run = reuseRun (en_now V) applied (verifiedRun (en_now V) c (ac_run a))"
    unfolding st(6) by blast
  then show ?thesis
    using st(1,3) change none \<open>s1 = s\<close>
    by (intro exI [of _ a]) (auto simp: verifiedRun_def reuseRun_def touchRun_def)
qed

text \<open>
  A run that can be stored: its sanitized form is valid against the schema and its id is a safe path.
  Storing it without a packet fails only when it is not, and then writes nothing.
\<close>

definition storableRun :: "'h sys_scheme \<Rightarrow> executionRun \<Rightarrow> bool" where
  "storableRun H run \<longleftrightarrow>
     okRun H (sanitizeRun H run) \<and> runPathCheck (run_executionRunId (sanitizeRun H run)) = Inr ()"

lemma persist_storable:
  assumes "storableRun H run"
  shows "\<exists>r t. persistExecutionRun H run None s = (Inr r, t)"
  using assms by (auto simp: storableRun_def persistExecutionRun_def Let_def bindE_def assertSchema_def
      guardE_def checkE_def liftE_def writeE_def returnE_def)

lemma persist_not_storable:
  assumes "\<not> storableRun H run"
  shows "\<exists>e. persistExecutionRun H run None s = (Inl e, s)"
proof -
  obtain r t where p: "persistExecutionRun H run None s = (r, t)" by fastforce
  show ?thesis
  proof (cases r)
    case (Inl e)
    then have "t = s" using p by (auto simp: persistExecutionRun_def Let_def step_iff)
    with p Inl show ?thesis by blast
  next
    case (Inr x)
    with p have False
      using assms by (auto simp: storableRun_def persistExecutionRun_def Let_def step_iff)
    then show ?thesis by blast
  qed
qed

lemma verifyGuards_iff:
  "verifyGuards run s = (Inr (), s)
     \<longleftrightarrow> run_status run \<noteq> ExCompleted \<and> run_status run \<noteq> ExFailed \<and> canVerify run"
  "\<not> (run_status run \<noteq> ExCompleted \<and> run_status run \<noteq> ExFailed \<and> canVerify run)
     \<Longrightarrow> \<exists>e. verifyGuards run s = (Inl e, s)"
  by (auto simp: verifyGuards_def bindE_def refuseIf_def guardE_def returnE_def throwE_def blockedE_def)

lemma refuse_violations:
  assumes "ch_files c \<noteq> []" "ch_violations c \<noteq> []" "storableRun H (violatingRun (en_now V) c (ac_run a))"
    and "refuseChangeSet H V a c s = (res, t)"
  shows "(\<exists>e. res = Inl e)
    \<and> readCurrentExecutionRun H t = Inr (Some (sanitizeRun H (violatingRun (en_now V) c (ac_run a))))"
proof -
  let ?blocked = "violatingRun (en_now V) c (ac_run a)"
  obtain r s2 where p: "persistExecutionRun H ?blocked None s = (Inr r, s2)"
    using persist_storable [OF assms(3)] by blast
  obtain k s3 where k: "writeCheckpoint H (stoppedCheckpoint (en_now V) ?blocked (ac_checkpoint a))
      (ac_workOrder a) (ac_plan a) s2 = (k, s3)" by fastforce
  have "(\<exists>e. res = Inl e) \<and> t = s3"
    using assms(1,2,4) p k by (cases k) (auto simp: refuseChangeSet_def Let_def bindE_def blockedE_def throwE_def)
  moreover have "readCurrentExecutionRun H s3 = Inr (Some (sanitizeRun H ?blocked))"
    using persist_current [OF p] frame_keeps_current [where H = H, OF runsFrame_writeCheckpoint k] by simp
  ultimately show ?thesis by simp
qed

text \<open>C31: a change set with a violation is never verified: the operation throws, and it stops the run. When
  the run is one that may be verified, the current run of the sidecar afterwards is that run, blocked
  and stopped, with the digest, the files and the violations of the change set. Nothing is written only
  when the run is completed, failed or in a phase that cannot be verified, or when the stopped run is
  not valid against its schema.\<close>

theorem verify_violation_stops:
  assumes "loadActive H V s = (Inr a, s)"
    and "buildChangeSet H (en_tree V) (ac_workOrder a) (Some (ac_plan a)) = Inr c" "ch_violations c \<noteq> []"
    and "runVerify H V s = (res, t)"
  shows "(\<exists>e. res = Inl e) \<and>
    (if run_status (ac_run a) \<noteq> ExCompleted \<and> run_status (ac_run a) \<noteq> ExFailed \<and> canVerify (ac_run a)
        \<and> storableRun H (violatingRun (en_now V) c (ac_run a))
     then \<exists>stopped. readCurrentExecutionRun H t = Inr (Some (sanitizeRun H stopped))
        \<and> run_executionRunId stopped = run_executionRunId (ac_run a) \<and> run_status stopped = ExBlocked
        \<and> run_phase stopped = EpStopped \<and> run_currentChangeDigest stopped = Some (ch_digest c)
        \<and> run_changedFiles stopped = map cf_path (ch_files c) \<and> run_scopeViolations stopped = ch_violations c
        \<and> violationText '': '' ` set (ch_violations c) \<subseteq> set (run_blockers stopped)
     else t = s)"
proof (cases "run_status (ac_run a) \<noteq> ExCompleted \<and> run_status (ac_run a) \<noteq> ExFailed \<and> canVerify (ac_run a)")
  case False
  then obtain e where "verifyGuards (ac_run a) s = (Inl e, s)" using verifyGuards_iff(2) by blast
  then have "runVerify H V s = (Inl e, s)" using assms(1) by (simp add: runVerify_def bindE_def)
  with False assms(4) show ?thesis by auto
next
  case True
  let ?blocked = "violatingRun (en_now V) c (ac_run a)"
  have files: "ch_files c \<noteq> []"
    using assms(2,3) by (auto simp: buildChangeSet_def Let_def List.map_filter_def)
  have run: "runVerify H V s = bindE (refuseChangeSet H V a c) (\<lambda>_. bindE (verifyClean H V a c)
      (\<lambda>r. returnE (fst r, c, snd r))) s"
    using assms(1,2) True verifyGuards_iff(1) [of "ac_run a" s] by (simp add: runVerify_def bindE_def liftE_def)
  show ?thesis
  proof (cases "storableRun H ?blocked")
    case False
    then obtain e where "refuseChangeSet H V a c s = (Inl e, s)"
      using files assms(3) persist_not_storable [OF False, of s] by (auto simp: refuseChangeSet_def Let_def bindE_def)
    with False run assms(4) show ?thesis by (auto simp: bindE_def)
  next
    case storable: True
    obtain r u where r: "refuseChangeSet H V a c s = (r, u)" by fastforce
    note stop = refuse_violations [OF files assms(3) storable r]
    then have "(\<exists>e. res = Inl e) \<and> t = u" using run r assms(4) by (auto simp: bindE_def)
    moreover have "run_executionRunId ?blocked = run_executionRunId (ac_run a)" "run_status ?blocked = ExBlocked"
        "run_phase ?blocked = EpStopped" "run_currentChangeDigest ?blocked = Some (ch_digest c)"
        "run_changedFiles ?blocked = map cf_path (ch_files c)" "run_scopeViolations ?blocked = ch_violations c"
        "violationText '': '' ` set (ch_violations c) \<subseteq> set (run_blockers ?blocked)"
      by (auto simp: violatingRun_def touchRun_def violationText_def)
    ultimately show ?thesis using stop True storable by (simp only: simp_thms if_True) blast
  qed
qed

section \<open>Evidence\<close>

text \<open>A gate that evidence can be recorded for allows no review evidence.\<close>

lemma recordable_gate:
  assumes "assertRecordableGate run g = Inr def"
  shows "lookupGate g = Some def \<and> g \<in> set (run_selectedGates run) \<and> \<not> isReviewGate g
    \<and> ReviewEvidence \<notin> set (gd_allowedEvidenceKinds def) \<and> (gd_contractKind def = CommandGate \<longrightarrow>
         gd_allowedEvidenceKinds def = [CommandEvidence])"
proof -
  have def: "lookupGate g = Some def" "g \<in> set (run_selectedGates run)" "\<not> isReviewGate g"
    using assms by (auto simp: assertRecordableGate_def split: if_splits option.splits)
  from lookupGate_shape [OF def(1)] lookupGate_review [OF def(1)] def(3) show ?thesis using def by auto
qed

text \<open>The contract that admits a passing record and the test that later lets it pass its gate are the
  same: a record is admitted as PASS exactly when the gate derivation accepts it.\<close>

theorem pass_contract_is_gate_test:
  assumes "assertRecordableGate run g = Inr def" "evidenceStatusOf i = EvPass"
    and "\<And>x. x \<noteq> [] \<Longrightarrow> sanitizeOperationalText H x \<noteq> []"
  shows "assertPassContract def i p = Inr () \<longleftrightarrow> evidenceSatisfiesGate (evidenceRecordOf H now run i p) def"
proof -
  note gate = recordable_gate [OF assms(1)]
  have cmd: "truthy (if truthy (ei_command i) then Some (sanitizeOperationalText H (or_empty (ei_command i))) else None)
      = truthy (ei_command i)"
    using assms(3) [of "or_empty (ei_command i)"] by (cases "ei_command i") (auto simp: truthy_iff or_empty_def)
  have exit: "ei_kind i = CommandEvidence \<Longrightarrow> ei_exitCode i = Some 0"
    using assms(2) by (auto simp: evidenceStatusOf_def split: if_splits option.splits)
  let ?r = "evidenceRecordOf H now run i p"
  have r: "ev_status ?r = EvPass" "ev_kind ?r = ei_kind i" "ev_source ?r = Some Executed"
      "truthy (ev_command ?r) = truthy (ei_command i)" "ev_outputRef ?r = pf_outputRef p"
      "ev_outputDigest ?r = pf_outputDigest p" "ev_fileRef ?r = pf_fileRef p" "ev_fileDigest ?r = pf_fileDigest p"
      "ei_kind i = CommandEvidence \<Longrightarrow> ev_exitCode ?r = ei_exitCode i"
    using assms(2) cmd by (simp_all add: evidenceRecordOf_def Let_def)
  show ?thesis
    by (cases "ei_kind i"; cases "gd_contractKind def")
      (use gate exit r in \<open>simp_all add: assertPassContract_def evidenceSatisfiesGate_def Let_def\<close>)
qed

section \<open>Finalizing\<close>

lemma blockIf_Nil [simp]: "blockIf b m = [] \<longleftrightarrow> \<not> b"
  by (simp add: blockIf_def)

lemma blocker_text_nonempty: "blocker_text b \<noteq> []"
  by (cases "fst b") (auto simp: blocker_text_def reason_text_def)

lemma no_blockers_allowed:
  assumes "ar_blockers (evaluateAssurancePolicy H I) = []"
  shows "ar_allowed (evaluateAssurancePolicy H I)"
proof -
  have "filter (\<lambda>v. v \<noteq> []) (map blocker_text (assuranceBlockers H I)) = []"
    using assms by (simp add: evaluateAssurancePolicy_def Let_def sortedNonEmpty_def)
  then have "assuranceBlockers H I = []"
    using blocker_text_nonempty by (cases "assuranceBlockers H I") auto
  then show ?thesis by (simp add: evaluateAssurancePolicy_def Let_def)
qed

lemma gateFinalBlockers_Nil: "gateFinalBlockers run g = [] \<Longrightarrow> gs_status g = GatePass"
  by (cases "gs_status g") (auto simp: gateFinalBlockers_def)

lemma independent_ok:
  assumes "independentBlockers run live revs = []"
  shows "\<exists>r\<in>set revs. rv_reviewerRole r = INDEPENDENT_REVIEWER_ROLE \<and> rv_verdict r = Approved
    \<and> rv_reviewerRole r \<noteq> rv_implementerRole r \<and> rv_reviewSessionId r \<noteq> rv_implementerSessionId r
    \<and> (truthy (run_implementerSessionId run) \<longrightarrow> Some (rv_implementerSessionId r) = run_implementerSessionId run)
    \<and> rv_changeDigest r = live"
proof -
  obtain r where r: "find (\<lambda>r. rv_reviewerRole r = INDEPENDENT_REVIEWER_ROLE) revs = Some r"
    using assms by (auto simp: independentBlockers_def split: option.splits)
  then have "r \<in> set revs" "rv_reviewerRole r = INDEPENDENT_REVIEWER_ROLE"
    by (auto simp: find_Some_iff)
  then show ?thesis using assms r by (auto simp: independentBlockers_def split: if_splits)
qed

text \<open>
  What the policy adds when it allows a run to be finalized: every required role has an approval of the
  current digest that names the run's implementer session and was given in another, and no two
  roles share a session.
\<close>

definition boundApproval :: "executionRun \<Rightarrow> string \<Rightarrow> reviewRecord \<Rightarrow> bool" where
  "boundApproval run role r \<longleftrightarrow>
     rv_reviewerRole r = role \<and> rv_verdict r = Approved
     \<and> rv_workOrderId r = run_workOrderId run \<and> rv_executionRunId r = run_executionRunId run
     \<and> Some (rv_changeDigest r) = run_currentChangeDigest run
     \<and> rv_reviewerRole r \<noteq> run_implementerRole run \<and> rv_implementerRole r = run_implementerRole run
     \<and> Some (rv_implementerSessionId r) = run_implementerSessionId run
     \<and> rv_reviewSessionId r \<noteq> [] \<and> Some (rv_reviewSessionId r) \<noteq> run_implementerSessionId run"

lemma current_approval_bound:
  assumes "x \<in> set (currentApprovals I)" "reviewsClean I" "ai_candidate I = None"
    and "wo_workOrderId (ai_workOrder I) = run_workOrderId (ai_run I)"
  shows "x \<in> set (ai_reviews I) \<and> boundApproval (ai_run I) (rv_reviewerRole x) x"
proof -
  have x: "x \<in> set (ai_reviews I)" "rv_verdict x = Approved" "reviewIdentityMatches I x" "reviewSound I x"
    using assms(1-3) by (auto simp: currentApprovals_def currentReviews_def reviewsClean_def)
  from x(4) have "run_implementerSessionId (ai_run I) = Some (rv_implementerSessionId x)"
      "rv_reviewSessionId x \<noteq> rv_implementerSessionId x" "rv_reviewSessionId x \<noteq> []"
      "rv_reviewerRole x \<noteq> run_implementerRole (ai_run I)" "rv_implementerRole x = run_implementerRole (ai_run I)"
    by (simp_all add: reviewSound_def)
  with x(1-3) assms(4) show ?thesis by (simp add: boundApproval_def reviewIdentityMatches_def)
qed

lemma finalize_policy_approvals:
  assumes "ar_allowed (finalizePolicy H V w run F)" "wo_workOrderId w = run_workOrderId run"
  shows "truthy (run_implementerSessionId run)"
    and "\<exists>approval. (\<forall>role\<in>set (run_requiredReviewers run) - {[]}.
           approval role \<in> set (fi_reviews F) \<and> boundApproval run role (approval role))
         \<and> inj_on (\<lambda>role. rv_reviewSessionId (approval role)) (set (run_requiredReviewers run) - {[]})"
proof -
  define I where "I = policyInput V FinalizeMode w run (fi_states F) (fi_evidence F) (fi_reviews F) None (fst (fi_selection F))"
  have I: "ai_run I = run" "ai_reviews I = fi_reviews F" "ai_candidate I = None" "ai_mode I = FinalizeMode" "ai_workOrder I = w"
    by (simp_all add: I_def policyInput_def)
  have ok: "runReady H I" "reviewsClean I" "modeSatisfied I"
    using assms(1) unfolding finalizePolicy_def I_def [symmetric] by (simp_all add: policy_allowed_iff)
  show "truthy (run_implementerSessionId run)" using ok(1) by (simp add: runReady_def Let_def I)
  let ?roles = "set (run_requiredReviewers run) - {[]}"
  have "\<forall>role\<in>?roles. \<exists>r. r \<in> set (currentApprovals I) \<and> rv_reviewerRole r = role"
    using ok(3) by (auto simp: modeSatisfied_def I)
  then obtain approval where ap: "\<And>role. role \<in> ?roles \<Longrightarrow> approval role \<in> set (currentApprovals I)"
      "\<And>role. role \<in> ?roles \<Longrightarrow> rv_reviewerRole (approval role) = role"
    by (metis (no_types, lifting))
  have "approval role \<in> set (fi_reviews F) \<and> boundApproval run role (approval role)" if "role \<in> ?roles" for role
    using current_approval_bound [OF ap(1) [OF that] ok(2) I(3)] assms(2)
    unfolding ap(2) [OF that] I by blast
  moreover have "inj_on (\<lambda>role. rv_reviewSessionId (approval role)) ?roles"
  proof (rule inj_onI)
    fix x y assume xy: "x \<in> ?roles" "y \<in> ?roles"
      and same: "rv_reviewSessionId (approval x) = rv_reviewSessionId (approval y)"
    have "inj_on rv_reviewSessionId (set (currentApprovals I))"
      using ok(2) by (simp add: reviewsClean_def distinct_map)
    from inj_onD [OF this same ap(1) [OF xy(1)] ap(1) [OF xy(2)]] show "x = y"
      using ap(2) [OF xy(1)] ap(2) [OF xy(2)] by metis
  qed
  ultimately show "\<exists>approval. (\<forall>role\<in>?roles. approval role \<in> set (fi_reviews F) \<and> boundApproval run role (approval role))
         \<and> inj_on (\<lambda>role. rv_reviewSessionId (approval role)) ?roles" by blast
qed

lemma independent_bound:
  assumes "independentBlockers run live (reviewsOfDigest run reviews) = []" "truthy (run_implementerSessionId run)"
  shows "\<exists>x\<in>set (reviewsOfDigest run reviews). rv_reviewerRole x = INDEPENDENT_REVIEWER_ROLE \<and> rv_verdict x = Approved
    \<and> Some (rv_implementerSessionId x) = run_implementerSessionId run
    \<and> Some (rv_reviewSessionId x) \<noteq> run_implementerSessionId run \<and> rv_changeDigest x = live"
proof -
  obtain x where "x \<in> set (reviewsOfDigest run reviews)" "rv_reviewerRole x = INDEPENDENT_REVIEWER_ROLE" "rv_verdict x = Approved"
      "rv_reviewSessionId x \<noteq> rv_implementerSessionId x" "rv_changeDigest x = live"
      "Some (rv_implementerSessionId x) = run_implementerSessionId run"
    using independent_ok [OF assms(1)] assms(2) by blast
  then show ?thesis by (metis option.inject)
qed

text \<open>What an empty list of reasons means.\<close>

lemma finalize_facts:
  assumes "finalizeBlockersOf H V w run F = []"
  shows "Some (fi_live F) = run_currentChangeDigest run" "run_phase run = EpReview \<or> run_phase run = EpStopped"
    "run_scopeViolations run = []" "\<forall>g\<in>set (fi_states F). gs_status g = GatePass"
    "independentBlockers run (fi_live F) (reviewsOfDigest run (fi_reviews F)) = []"
    "\<forall>role\<in>set (run_requiredReviewers run). \<exists>r\<in>set (reviewsOfDigest run (fi_reviews F)).
        rv_reviewerRole r = role \<and> rv_verdict r = Approved"
    "ar_allowed (finalizePolicy H V w run F)" "run_status run = ExBlocked \<longrightarrow> run_blockers run = []"
    "wo_acceptanceCriteria w \<noteq> [] \<longrightarrow> passOfDigest run (fi_evidence F) \<noteq> []"
proof -
  have run: "finalizeRunBlockers run w (fi_live F) = []"
    and pol: "ar_blockers (finalizePolicy H V w run F) = []"
    and gates: "\<forall>g\<in>set (fi_states F). gateFinalBlockers run g = []"
    and ind: "independentBlockers run (fi_live F) (reviewsOfDigest run (fi_reviews F)) = []"
    and miss: "missingReviewerBlockers run (reviewsOfDigest run (fi_reviews F)) = []"
    and rest: "run_status run = ExBlocked \<longrightarrow> run_blockers run = []"
      "wo_acceptanceCriteria w \<noteq> [] \<longrightarrow> passOfDigest run (fi_evidence F) \<noteq> []"
    using assms by (auto simp: finalizeBlockersOf_def Let_def split: if_splits)
  from run show "Some (fi_live F) = run_currentChangeDigest run" "run_scopeViolations run = []"
    by (auto simp: finalizeRunBlockers_def)
  from run show "run_phase run = EpReview \<or> run_phase run = EpStopped"
    by (cases "run_phase run") (auto simp: finalizeRunBlockers_def)
  from gates gateFinalBlockers_Nil show "\<forall>g\<in>set (fi_states F). gs_status g = GatePass" by blast
  from miss show "\<forall>role\<in>set (run_requiredReviewers run). \<exists>r\<in>set (reviewsOfDigest run (fi_reviews F)).
        rv_reviewerRole r = role \<and> rv_verdict r = Approved"
    by (auto simp: missingReviewerBlockers_def list_ex_iff)
  from pol show "ar_allowed (finalizePolicy H V w run F)"
    unfolding finalizePolicy_def by (rule no_blockers_allowed)
  show "independentBlockers run (fi_live F) (reviewsOfDigest run (fi_reviews F)) = []" by (fact ind)
  show "run_status run = ExBlocked \<longrightarrow> run_blockers run = []"
    "wo_acceptanceCriteria w \<noteq> [] \<longrightarrow> passOfDigest run (fi_evidence F) \<noteq> []" by (fact rest)+
qed

lemma finalizeInputs_Inr:
  assumes "finalizeInputsOf H V a s = (Inr F, t)"
  shows "t = s \<and> (\<exists>c. buildChangeSet H (en_tree V) (ac_workOrder a) (Some (ac_plan a)) = Inr c \<and> fi_live F = ch_digest c)
    \<and> listEvidenceRecords H s (run_executionRunId (ac_run a)) = Inr (fi_evidence F)
    \<and> listReviewRecords H s (run_executionRunId (ac_run a)) = Inr (fi_reviews F)
    \<and> fi_states F = runGateStates H V s (ac_run a) (fi_evidence F) (fi_reviews F)"
proof -
  have sel: "u = v" if "finalizeSelection H V w p u = (x, v)" for w p u x v
    using that by (cases x)
      (auto simp: finalizeSelection_def assuranceSelection_def step_iff split: sum.splits option.splits)
  show ?thesis
    using assms unfolding finalizeInputsOf_def Let_def
    by (auto simp: step_iff gateStatesOf_def dest!: sym [of "Inr _"] dest: sel)
qed

text \<open>C1: a run is finalized only when the digest of the work tree is the verified digest, every selected gate
  is PASS, there is no violation, and the run is bound to an implementer session. Every required role
  has an approval of this run and digest that names that session and was given in another one, no two
  roles in the same, and the independent reviewer approved in a session other than the run's
  implementer session. The run is then read back as completed; finalizing a completed run changes
  nothing.\<close>

theorem finalize_sound:
  assumes "runFinalize H V s = (Inr r, t)"
  shows "\<exists>a. loadActive H V s = (Inr a, s) \<and>
    (if run_status (ac_run a) = ExCompleted then r = ac_run a \<and> t = s
     else \<exists>c evidence reviews. buildChangeSet H (en_tree V) (ac_workOrder a) (Some (ac_plan a)) = Inr c
       \<and> Some (ch_digest c) = run_currentChangeDigest (ac_run a) \<and> run_scopeViolations (ac_run a) = []
       \<and> listEvidenceRecords H s (run_executionRunId (ac_run a)) = Inr evidence
       \<and> listReviewRecords H s (run_executionRunId (ac_run a)) = Inr reviews
       \<and> (\<forall>g\<in>set (runGateStates H V s (ac_run a) evidence reviews). gs_status g = GatePass)
       \<and> truthy (run_implementerSessionId (ac_run a))
       \<and> (\<exists>approval. (\<forall>role\<in>set (run_requiredReviewers (ac_run a)) - {[]}.
               approval role \<in> set reviews \<and> boundApproval (ac_run a) role (approval role))
           \<and> inj_on (\<lambda>role. rv_reviewSessionId (approval role)) (set (run_requiredReviewers (ac_run a)) - {[]}))
       \<and> (\<exists>x\<in>set (reviewsOfDigest (ac_run a) reviews). rv_reviewerRole x = INDEPENDENT_REVIEWER_ROLE
             \<and> rv_verdict x = Approved \<and> Some (rv_implementerSessionId x) = run_implementerSessionId (ac_run a)
             \<and> Some (rv_reviewSessionId x) \<noteq> run_implementerSessionId (ac_run a) \<and> rv_changeDigest x = ch_digest c)
       \<and> run_status r = ExCompleted \<and> readCurrentExecutionRun H t = Inr (Some (sanitizeRun H r)))"
proof -
  obtain a s1 where a: "loadActive H V s = (Inr a, s1)"
      "(if run_status (ac_run a) = ExCompleted then returnE (ac_run a)
        else bindE (finalizeInputsOf H V a) (\<lambda>F.
           let blockers = finalizeBlockersOf H V (ac_workOrder a) (ac_run a) F
           in bindE (refuseIf (blockers \<noteq> []) ''finalize refused'' (unique blockers)) (\<lambda>_. completeRun H V a F))) s1 = (Inr r, t)"
    using assms unfolding runFinalize_def by (auto simp: bindE_Inr)
  have s1: "s1 = s" using loadActive_state [OF a(1)] .
  show ?thesis
  proof (cases "run_status (ac_run a) = ExCompleted")
    case True
    with a s1 show ?thesis by (auto simp: step_iff)
  next
    case False
    then obtain F s2 where F: "finalizeInputsOf H V a s = (Inr F, s2)"
        "finalizeBlockersOf H V (ac_workOrder a) (ac_run a) F = []" "completeRun H V a F s2 = (Inr r, t)"
      using a(2) s1 by (auto simp: Let_def bindE_Inr refuseIf_Inr)
    obtain p u st q v k where fin: "r = finalizedRun (en_now V) (completedAction (ac_run a) (fi_evidence F)) (ac_run a)"
        "persistExecutionRun H r (Some (buildPacket r (ac_workOrder a))) s2 = (Inr p, u)"
        "refreshQptSnapshot H (en_now V) (en_projectId V) (int (length (run_selectedGates r))) (passCount st)
           ReviewSatisfied (Some (radius_text (run_contextRadius r))) u = (Inr q, v)"
        "writeCheckpoint H (completedCheckpoint (en_now V) (completedAction (ac_run a) (fi_evidence F)) (ac_checkpoint a))
           ((ac_workOrder a)\<lparr>wo_status := WoCompleted, wo_updatedAt := en_now V,
              wo_nextAction := completedAction (ac_run a) (fi_evidence F)\<rparr>) (ac_plan a) v = (Inr k, t)"
      using F(3) unfolding completeRun_def Let_def by (auto simp: step_iff gateStatesOf_def)
    have "readCurrentExecutionRun H t = Inr (Some (sanitizeRun H r))"
      using persist_current [OF fin(2)] frame_keeps_current [where H = H, OF runsFrame_refresh fin(3)]
        frame_keeps_current [where H = H, OF runsFrame_writeCheckpoint fin(4)] by simp
    moreover have "run_status r = ExCompleted" using fin(1) by (simp add: finalizedRun_def touchRun_def)
    ultimately show ?thesis
      using a(1) s1 False finalizeInputs_Inr [OF F(1)] finalize_facts(1,3,4) [OF F(2)]
        finalize_policy_approvals [OF finalize_facts(7) [OF F(2)] loadActive_run(3) [OF a(1), symmetric]]
        independent_bound [OF finalize_facts(5) [OF F(2)] finalize_policy_approvals(1) [OF finalize_facts(7) [OF F(2)] loadActive_run(3) [OF a(1), symmetric]]]
      by (intro exI [of _ a]) auto
  qed
qed

section \<open>Review\<close>

text \<open>C4: an accepted review is by a required role that is not the implementer's, in a session that is not the
  implementer's, on the current digest; a correction starts the next attempt with nothing reviewed,
  an approval binds the reviewed digest, a block stops the run.\<close>

theorem review_independent:
  assumes "runAssuranceRecord H V i s = (Inr (r, run), t)"
  shows "\<exists>a. loadActive H V s = (Inr a, s)
    \<and> rv_reviewerRole r \<noteq> run_implementerRole (ac_run a) \<and> rv_reviewerRole r \<noteq> IMPLEMENTER_ROLE
    \<and> Some (rv_reviewSessionId r) \<noteq> run_implementerSessionId (ac_run a)
    \<and> rv_reviewerRole r \<in> set (run_requiredReviewers (ac_run a))
    \<and> Some (rv_changeDigest r) = run_currentChangeDigest (ac_run a)
    \<and> readCurrentExecutionRun H t = Inr (Some (sanitizeRun H run))
    \<and> (case rv_verdict r of
          CorrectionNeeded \<Rightarrow> run_attempt run = run_attempt (ac_run a) + 1 \<and> run_reviewedChangeDigest run = None
            \<and> run_phase run = EpImplement
        | Approved \<Rightarrow> run_attempt run = run_attempt (ac_run a)
            \<and> run_reviewedChangeDigest run = run_currentChangeDigest (ac_run a) \<and> run_phase run = EpReview
        | VerdictBlocked \<Rightarrow> run_attempt run = run_attempt (ac_run a) \<and> run_phase run = EpStopped \<and> run_status run = ExBlocked)"
proof -
  let ?S = "sanitizeOperationalText H"
  obtain a s0 s1 s2 s3 x1 s4 x2 s5 st x3 s6 x4 where st: "loadActive H V s = (Inr a, s0)"
      "reviewGuards (ac_run a) (ac_workOrder a) s0 = (Inr (), s1)"
      "reviewerGuards (ac_run a) (?S (ri_role i)) (?S (ri_session i))
         (if truthy (ri_implementerSession i) then ?S (or_empty (ri_implementerSession i)) else []) s1 = (Inr (), s2)"
      "admitReview H V a i s2 = (Inr r, s3)" "run = reviewedRun (en_now V) r (ac_run a)"
      "persistExecutionRun H run (Some (buildPacket run (ac_workOrder a))) s4 = (Inr x2, s5)"
      "refreshQptSnapshot H (en_now V) (en_projectId V) (int (length (run_selectedGates run))) (passCount st)
         (independentStatus run x1) (Some (radius_text (run_contextRadius run))) s5 = (Inr x3, s6)"
      "writeCheckpoint H (recordedCheckpoint (en_now V) run (ac_checkpoint a)) (ac_workOrder a) (ac_plan a) s6 = (Inr x4, t)"
    using assms unfolding runAssuranceRecord_def commitReview_def Let_def by (auto simp: bindE_Inr queryE_iff gateStatesOf_def readE_iff returnE_iff)
  have cur: "readCurrentExecutionRun H t = Inr (Some (sanitizeRun H run))"
    using persist_current [OF st(6)] frame_keeps_current [where H = H, OF runsFrame_refresh st(7)]
      frame_keeps_current [where H = H, OF runsFrame_writeCheckpoint st(8)] by simp
  have who: "rv_reviewerRole r \<noteq> run_implementerRole (ac_run a)" "rv_reviewerRole r \<noteq> IMPLEMENTER_ROLE"
      "Some (rv_reviewSessionId r) \<noteq> run_implementerSessionId (ac_run a)"
      "rv_reviewerRole r \<in> set (run_requiredReviewers (ac_run a))"
    using st(3) admitReview_Inr [OF st(4)] by (auto simp: reviewerGuards_def step_iff)
  have digest: "Some (rv_changeDigest r) = run_currentChangeDigest (ac_run a)"
    using reviewGuards_Inr [OF st(2)] st(4)
    by (auto simp: admitReview_def Let_def step_iff reviewRecordOf_def truthy_iff or_empty_def)
  have phase: "run_phase (ac_run a) = EpReview" using reviewGuards_Inr [OF st(2)] by blast
  have "s0 = s" using loadActive_state [OF st(1)] .
  with st(1,5) cur who digest phase show ?thesis
    by (intro exI [of _ a]) (auto simp: reviewedRun_def touchRun_def Let_def split: reviewVerdict.split)
qed

section \<open>Context expansion\<close>

lemma budgetedIntel_facts:
  assumes "budgetedIntel H V n r w i h a sub s = (Inr intel, t)"
  shows "\<exists>b u. currentOrRefreshIndex H V n s = (Inr b, u) \<and> en_intel V b r w i h a = Inr intel
    \<and> int (cx_estimatedTokens (snd intel)) \<le> tb_hardLimit (wo_tokenBudget w)
    \<and> (\<exists>x. en_publish V (fst intel) (snd intel) = Inr x)"
proof -
  have never: "(case e of CostBudget m x y \<Rightarrow> blockedE m [''hard token budget exceeded''] | _ \<Rightarrow> throwE e) u \<noteq> (Inr z, v)"
    for e u z v by (cases e) (simp_all add: blockedE_def throwE_def)
  obtain b u d v x where st: "currentOrRefreshIndex H V n s = (Inr b, u)" "en_intel V b r w i h a = Inr intel"
      "enforceTokenBudget H (en_now V) w (int (cx_estimatedTokens (snd intel))) sub (Some i) u = (Inr d, v)"
      "en_publish V (fst intel) (snd intel) = Inr x"
    using assms unfolding budgetedIntel_def
    by (auto simp: catchE_Inr bindE_Inr liftE_iff returnE_iff never dest!: sym [of "Inr _"])
  from enforce_outcome [OF st(3)] have "int (cx_estimatedTokens (snd intel)) \<le> tb_hardLimit (wo_tokenBudget w)"
    by (auto split: if_splits)
  with st show ?thesis by blast
qed

text \<open>C32: an expansion moves the current run one radius further, to C5 only with an explicit approval. The
  pack is the one built for that radius from the index as it was read or refreshed, it is published,
  its estimated tokens are within the hard limit of the work order, and the run records its id, its
  report and its index, its candidates and the step in its history. No other field of the run changes
  but the action and the time, and the run is read back so.\<close>

theorem context_expansion_one_step:
  assumes "runContextExpand H V reason ok s = (Inr (run, packet), t)"
  shows "\<exists>a radius history b u report pack. loadActive H V s = (Inr a, s)
    \<and> nextRadius (run_contextRadius (ac_run a)) = Some radius \<and> (radius = C5 \<longrightarrow> ok)
    \<and> history = run_expansionHistory (ac_run a) @
         [\<lparr>ce_from = run_contextRadius (ac_run a), ce_to = radius, ce_reason = sanitizeOperationalText H reason,
           ce_at = en_now V\<rparr>]
    \<and> currentOrRefreshIndex H V 0 s = (Inr b, u)
    \<and> en_intel V b radius (ac_workOrder a) (run_executionRunId (ac_run a)) history ok = Inr (report, pack)
    \<and> int (cx_estimatedTokens pack) \<le> tb_hardLimit (wo_tokenBudget (ac_workOrder a))
    \<and> (\<exists>x. en_publish V report pack = Inr x)
    \<and> run = (ac_run a)\<lparr>run_contextRadius := radius,
         run_contextCandidates := (case en_map V of None \<Rightarrow> unique (run_contextCandidates (ac_run a))
            | Some m \<Rightarrow> selectContextCandidates radius (expansionIntake (ac_workOrder a)) m),
         run_expansionHistory := history, run_contextPackId := Some (cx_contextPackId pack),
         run_impactReportId := Some (ip_impactReportId report), run_indexDigest := Some (cx_indexDigest pack),
         run_nextAction := ''Context expanded to '' @ radius_text radius
           @ ''. Do not treat this as permission to edit unrelated areas.'', run_updatedAt := en_now V\<rparr>
    \<and> readCurrentExecutionRun H t = Inr (Some (sanitizeRun H run))"
proof -
  obtain a s0 radius where st: "loadActive H V s = (Inr a, s0)" "nextRadius (run_contextRadius (ac_run a)) = Some radius"
      "radius = C5 \<longrightarrow> ok" "expandTo H V a radius reason ok s0 = (Inr (run, packet), t)"
    using assms unfolding runContextExpand_def by (auto simp: step_iff split: option.splits)
  define history where "history = run_expansionHistory (ac_run a) @
         [\<lparr>ce_from = run_contextRadius (ac_run a), ce_to = radius, ce_reason = sanitizeOperationalText H reason,
           ce_at = en_now V\<rparr>]"
  obtain intel s1 p s3 s4 k where ex:
      "budgetedIntel H V 0 radius (ac_workOrder a) (run_executionRunId (ac_run a)) history ok
         (''context-expand:'' @ radius_text radius) s0 = (Inr intel, s1)"
      "run = expandedRun (en_now V) radius (expandedCandidates V radius (ac_workOrder a) (ac_run a))
         history (snd intel) (fst intel) (ac_run a)"
      "persistExecutionRun H run (Some packet) s3 = (Inr p, s4)"
      "writeCheckpoint H ((ac_checkpoint a)\<lparr>cp_updatedAt := en_now V, cp_nextAction := run_nextAction run\<rparr>) (ac_workOrder a)
         (expandedPlan radius (expandedCandidates V radius (ac_workOrder a) (ac_run a)) reason (snd intel) (fst intel)
            (ac_plan a)) s4 = (Inr k, t)"
    using st(4) unfolding expandTo_def commitExpansion_def Let_def history_def by (auto simp: bindE_Inr returnE_iff)
  have read: "readCurrentExecutionRun H t = Inr (Some (sanitizeRun H run))"
    using persist_current [OF ex(3)] frame_keeps_current [where H = H, OF runsFrame_writeCheckpoint ex(4)] by simp
  have same: "s0 = s" using loadActive_state [OF st(1)] .
  obtain b u where b: "currentOrRefreshIndex H V 0 s = (Inr b, u)"
      "en_intel V b radius (ac_workOrder a) (run_executionRunId (ac_run a)) history ok = Inr (fst intel, snd intel)"
      "int (cx_estimatedTokens (snd intel)) \<le> tb_hardLimit (wo_tokenBudget (ac_workOrder a))"
      "\<exists>x. en_publish V (fst intel) (snd intel) = Inr x"
    using budgetedIntel_facts [OF ex(1)] same by auto
  show ?thesis
    using st(1-3) same b read
    by (intro exI [of _ a] exI [of _ radius] exI [of _ history] exI [of _ b] exI [of _ u] exI [of _ "fst intel"]
        exI [of _ "snd intel"] conjI)
      (simp_all add: ex(2) expandedRun_def expandedCandidates_def touchRun_def history_def)
qed

end
