(* ===== verification/Review_Witnesses.thy ===== *)
theory Review_Witnesses
  imports Execution_Demo Lifecycle_Properties
begin

text \<open>
  A review and the finalizing of the demo run. The assurance policy is decided by the simplifier for
  any host, the writes of the operations by evaluation.
\<close>

definition stageInput :: "'h host_scheme \<Rightarrow> assuranceMode \<Rightarrow> reviewRecord list \<Rightarrow> reviewRecord option \<Rightarrow> assurancePolicyInput" where
  "stageInput H mode reviews candidate =
    \<lparr>ai_mode = mode, ai_projectId = ''p_1'', ai_workOrder = demoWorkOrder, ai_run = openRun,
     ai_gateStates = [gateWith ''build'' GatePass (Some ''ev_1'')], ai_evidence = [demoEvidence],
     ai_reviews = reviews, ai_candidate = candidate, ai_specialistSelectionPlan = Some (demoPlan H)\<rparr>"

lemma stage_plan_valid: "typedSelectionPlanIsValid H (stageInput H mode reviews candidate)"
proof -
  have known: "lookupGate ''build'' = Some (commandGate ''build'' ''gate:build'' ''compile/build'')"
    by (simp add: lookupGate_def GATE_REGISTRY_def gate_constructors)
  have "typedPlanDigestIsValid H (demoPlan H)"
    by (simp add: typedPlanDigestIsValid_def demoPlan_digest)
  then show ?thesis
    by (simp add: typedSelectionPlanIsValid_def stageInput_def openRun_def demo_defs
        requiredObligationsAreWellFormed_def isKnownGateId_iff known findObligation_def
        coverageItemIsValid_def obligationIsCoveredOnce_def or_empty_def gate_constructors)
qed

lemma stage_ready: "runReady H (stageInput H mode reviews candidate)"
proof -
  have known: "isKnownGateId ''build''"
    by (simp add: isKnownGateId_def GATE_REGISTRY_def gate_constructors)
  show ?thesis
    unfolding runReady_def Let_def
    by (intro conjI stage_plan_valid)
      (simp_all add: stageInput_def openRun_def demo_defs isRecognizedAssuranceRole_def ASSURANCE_ROLES_def
        sameSet_def sortedNonEmpty_def known)
qed

lemma stage_gates: "gatesClean (stageInput H mode reviews candidate)"
  by (simp add: gatesClean_def stageInput_def currentEvidence_def evidenceIdentityMatches_def openRun_def demo_defs)

lemma stage_evidence [simp]: "currentEvidence (stageInput H mode reviews candidate) = [demoEvidence]"
  by (simp add: stageInput_def currentEvidence_def evidenceIdentityMatches_def openRun_def demo_defs)

lemma stage_run:
  "ai_run (stageInput H mode reviews candidate) = openRun" "ai_mode (stageInput H mode reviews candidate) = mode"
  "ai_candidate (stageInput H mode reviews candidate) = candidate"
  by (simp_all add: stageInput_def)

lemma stage_proven:
  assumes "rv_reviewerRole r = ''independent-reviewer''"
  shows "approvalProven (stageInput H mode reviews candidate) r"
  using assms
  by (simp add: approvalProven_def roleGateIsSufficient_def hasRelevantEvidence_def demo_defs openRun_def
        assuranceRoleToGates_def typedRoleObligations_def stageInput_def)

lemma stage_sound:
  assumes "rv_reviewerRole r = ''independent-reviewer''" "rv_reviewSessionId r = ''s_rev''"
    "rv_implementerRole r = ''implementation-agent''" "rv_implementerSessionId r = ''s_impl''"
    "rv_findings r = []" "rv_verdict r = Approved"
    "set (rv_evidenceRefs r) \<subseteq> {evidenceRef openRun demoEvidence}"
  shows "reviewSound (stageInput H mode reviews candidate) r"
  using assms
  by (simp add: reviewSound_def stage_run openRun_fields isRecognizedAssuranceRole_def ASSURANCE_ROLES_def hasSevereFinding_def)

text \<open>The approval that \<open>demoReviewInput\<close> is recorded as.\<close>

definition demoApproval :: "'h host_scheme \<Rightarrow> string \<Rightarrow> reviewRecord" where
  "demoApproval H now = reviewRecordOf H now openRun demoReviewInput [] [evidenceRef openRun demoEvidence]"

lemma stage_allowed:
  "ar_allowed (evaluateAssurancePolicy H (stageInput H FinalizeMode [demoReview] None))"
  "sanitizeOperationalText H = id \<Longrightarrow>
     ar_allowed (evaluateAssurancePolicy H (stageInput H SubmissionMode [] (Some (demoApproval H now))))"
proof -
  have old: "reviewSound (stageInput H mode reviews candidate) demoReview"
      "approvalProven (stageInput H mode reviews candidate) demoReview" for mode reviews candidate
    by (rule stage_sound stage_proven; simp add: demoReview_def)+
  have old_fields: "rv_reviewerRole demoReview = ''independent-reviewer''" "rv_verdict demoReview = Approved"
    by (simp_all add: demoReview_def)
  have "currentReviews (stageInput H FinalizeMode [demoReview] None) = [demoReview]"
    by (simp add: currentReviews_def stageInput_def reviewIdentityMatches_def openRun_def demo_defs)
  then show "ar_allowed (evaluateAssurancePolicy H (stageInput H FinalizeMode [demoReview] None))"
    using old
    by (simp add: policy_allowed_iff reviewsClean_def modeSatisfied_def currentApprovals_def stage_run openRun_fields old_fields stage_ready stage_gates)
  assume S: "sanitizeOperationalText H = id"
  have new: "reviewSound (stageInput H mode reviews candidate) (demoApproval H now)"
      "approvalProven (stageInput H mode reviews candidate) (demoApproval H now)" for mode reviews candidate
    by (rule stage_sound stage_proven;
        simp add: demoApproval_def reviewRecordOf_def Let_def S demoReviewInput_def openRun_def demoRun_def or_empty_def)+
  have new_fields: "rv_reviewerRole (demoApproval H now) = ''independent-reviewer''"
      "rv_verdict (demoApproval H now) = Approved" "rv_changeDigest (demoApproval H now) = ''d_1''"
      "isRecognizedAssuranceRole ''independent-reviewer''"
    by (simp_all add: demoApproval_def reviewRecordOf_def Let_def S demoReviewInput_def openRun_fields
        isRecognizedAssuranceRole_def ASSURANCE_ROLES_def or_empty_def)
  have "currentReviews (stageInput H SubmissionMode [] (Some (demoApproval H now))) = [demoApproval H now]"
    by (simp add: currentReviews_def stageInput_def reviewIdentityMatches_def demoApproval_def reviewRecordOf_def Let_def
        openRun_def demoRun_def demoWorkOrder_def or_empty_def)
  then show "ar_allowed (evaluateAssurancePolicy H (stageInput H SubmissionMode [] (Some (demoApproval H now))))"
    using new
    by (simp add: policy_allowed_iff reviewsClean_def modeSatisfied_def currentApprovals_def stage_run openRun_fields new_fields stage_ready stage_gates)
qed



definition stageSelection :: "workOrder \<Rightarrow> routingDecision option \<Rightarrow> contextPlan \<Rightarrow> string option
    \<Rightarrow> selectionFailure + specialistSelectionPlan" where
  "stageSelection w d p i = Inr (demoPlan fixed_sys)"

definition stageEnv :: "string \<Rightarrow> execEnv" where
  "stageEnv now = (offlineEnv now demoTree)\<lparr>en_selection := stageSelection\<rparr>"

definition stageSidecar :: "reviewRecord list \<Rightarrow> sidecar" where
  "stageSidecar reviews = sidecarWith openRun [demoEvidence] reviews"

lemma stage_active: "loadActive fixed_sys (stageEnv now) (stageSidecar reviews) = (Inr (activeOf openRun), stageSidecar reviews)"
  unfolding stageSidecar_def
  by (rule demo_active [where h = "\<lambda>_. ''d_1''"])
    (simp_all add: fixed_sys_def openRun_def demoRun_def stageEnv_def offlineEnv_def demoEnv_def)

lemma stage_change_set:
  "\<exists>c. buildChangeSet fixed_sys demoTree demoWorkOrder (Some demoContextPlan) = Inr c \<and> ch_digest c = ''d_1''"
proof -
  have "case buildChangeSet fixed_sys demoTree demoWorkOrder (Some demoContextPlan) of Inl _ \<Rightarrow> False | Inr c \<Rightarrow> ch_digest c = ''d_1''"
    by code_simp
  then show ?thesis by (auto split: sum.splits)
qed

lemma stage_records:
  "listEvidenceRecords fixed_sys (stageSidecar reviews) ''ex_1'' = Inr [demoEvidence]"
  "listReviewRecords fixed_sys (stageSidecar []) ''ex_1'' = Inr []"
  "listReviewRecords fixed_sys (stageSidecar [demoReview]) ''ex_1'' = Inr [demoReview]"
  by code_simp+

lemma stage_states:
  "runGateStates fixed_sys (stageEnv now) (stageSidecar rs) openRun [demoEvidence] reviews = [gateWith ''build'' GatePass (Some ''ev_1'')]"
  by code_simp

lemma stage_selection:
  "assuranceSelection fixed_sys (stageEnv now) demoWorkOrder demoContextPlan (stageSidecar rs) = (Inr (demoPlan fixed_sys), stageSidecar rs)"
proof -
  have "\<exists>r. readRoutingDecision fixed_sys (stageSidecar rs) (wo_routingDecisionId demoWorkOrder) = Inr r"
    by (simp add: readRoutingDecision_def demo_ids demoWorkOrder_def)
  then show ?thesis
    by (auto simp: assuranceSelection_def step_iff stageEnv_def stageSelection_def dest!: sym [of "Inr _"])
qed

definition stageInputs :: finalizeInputs where
  "stageInputs = \<lparr>fi_live = ''d_1'', fi_evidence = [demoEvidence], fi_reviews = [demoReview],
     fi_selection = (Some (demoPlan fixed_sys), []), fi_states = [gateWith ''build'' GatePass (Some ''ev_1'')]\<rparr>"

lemma stage_inputs:
  "finalizeInputsOf fixed_sys (stageEnv now) (activeOf openRun) (stageSidecar [demoReview])
     = (Inr stageInputs, stageSidecar [demoReview])"
proof -
  obtain c where "buildChangeSet fixed_sys demoTree demoWorkOrder (Some demoContextPlan) = Inr c" "ch_digest c = ''d_1''"
    using stage_change_set by blast
  moreover have "en_tree (stageEnv now) = demoTree" by (simp add: stageEnv_def offlineEnv_def demoEnv_def)
  moreover have "run_executionRunId openRun = ''ex_1''" by (simp add: openRun_def demoRun_def)
  ultimately show ?thesis
    by (simp add: finalizeInputsOf_def activeOf_def bindE_def liftE_def queryE_def readE_def returnE_def stage_records
      finalizeSelection_def catchE_def stage_selection gateStatesOf_def stage_states stageInputs_def)
qed

lemma stage_complete:
  "succeeds (completeRun fixed_sys (stageEnv ''t6'') (activeOf openRun) stageInputs) (stageSidecar [demoReview])
     (\<lambda>r t. run_status r = ExCompleted)"
  by code_simp

lemma stage_blockers: "finalizeBlockersOf fixed_sys (stageEnv now) demoWorkOrder openRun stageInputs = []"
proof -
  have "policyInput (stageEnv now) FinalizeMode demoWorkOrder openRun (fi_states stageInputs) (fi_evidence stageInputs)
        (fi_reviews stageInputs) None (fst (fi_selection stageInputs)) = stageInput fixed_sys FinalizeMode [demoReview] None"
    by (simp add: policyInput_def stageInput_def stageInputs_def stageEnv_def offlineEnv_def demoEnv_def)
  with stage_allowed(1) [of fixed_sys] have "ar_allowed (finalizePolicy fixed_sys (stageEnv now) demoWorkOrder openRun stageInputs)"
    by (simp add: finalizePolicy_def)
  then have policy: "ar_blockers (finalizePolicy fixed_sys (stageEnv now) demoWorkOrder openRun stageInputs) = []"
    unfolding finalizePolicy_def by (simp add: evaluateAssurancePolicy_def Let_def sortedNonEmpty_def)
  have known: "isKnownGateId ''build''" by (simp add: isKnownGateId_def GATE_REGISTRY_def gate_constructors)
  show ?thesis
    unfolding finalizeBlockersOf_def Let_def policy
    by (simp add: stageInputs_def finalizeRunBlockers_def openRun_def demoRun_def demoReview_def demoEvidence_def blockIf_def truthy_def
        gateFinalBlockers_def known independentBlockers_def reviewsOfDigest_def missingReviewerBlockers_def
        passOfDigest_def INDEPENDENT_REVIEWER_ROLE_def)
qed

lemma stage_finalized:
  "\<exists>r t. runFinalize fixed_sys (stageEnv ''t6'') (stageSidecar [demoReview]) = (Inr r, t) \<and> run_status r = ExCompleted"
proof -
  obtain r t where "completeRun fixed_sys (stageEnv ''t6'') (activeOf openRun) stageInputs (stageSidecar [demoReview]) = (Inr r, t)"
      "run_status r = ExCompleted"
    using succeedsD [OF stage_complete] by blast
  then show ?thesis
    by (simp add: runFinalize_def bindE_def stage_active stage_inputs refuseIf_def returnE_def guardE_def activeOf_fields
        openRun_fields stage_blockers)
qed

lemma finalize_sound_witness:
  "\<exists>r t. runFinalize fixed_sys (stageEnv ''t6'') (stageSidecar [demoReview]) = (Inr r, t) \<and> run_status r = ExCompleted
     \<and> readCurrentExecutionRun fixed_sys t = Inr (Some (sanitizeRun fixed_sys r))"
proof -
  obtain r t where f: "runFinalize fixed_sys (stageEnv ''t6'') (stageSidecar [demoReview]) = (Inr r, t)" "run_status r = ExCompleted"
    using stage_finalized by blast
  have "run_status openRun \<noteq> ExCompleted" by (simp add: openRun_fields)
  with finalize_sound [OF f(1)] f show ?thesis
    by (auto simp: stage_active activeOf_fields)
qed

section \<open>The review\<close>

lemma stage_commit:
  "succeeds (commitReview fixed_sys (stageEnv ''t5'') (activeOf openRun) (demoApproval fixed_sys ''t5'')) (stageSidecar [])
     (\<lambda>r t. run_phase r = EpReview)"
  by code_simp

lemma stage_admitted:
  "admitReview fixed_sys (stageEnv ''t5'') (activeOf openRun) demoReviewInput (stageSidecar [])
     = (Inr (demoApproval fixed_sys ''t5''), stageSidecar [])"
proof -
  have now: "en_now (stageEnv ''t5'') = ''t5''" "en_projectId (stageEnv ''t5'') = ''p_1''"
    by (simp_all add: stageEnv_def offlineEnv_def demoEnv_def)
  have "currentRefs fixed_sys (stageEnv ''t5'') openRun [demoEvidence] = [evidenceRef openRun demoEvidence]"
  proof -
    have "ev_projectId demoEvidence = ''p_1''" "ev_workOrderId demoEvidence = run_workOrderId openRun"
      "ev_executionRunId demoEvidence = run_executionRunId openRun" "Some (ev_changeDigest demoEvidence) = run_currentChangeDigest openRun"
      by (simp_all add: demoEvidence_def openRun_def demoRun_def)
    then show ?thesis by (simp add: currentRefs_def now)
  qed
  moreover have "parseFindings fixed_sys (ri_findings demoReviewInput) = Inr []"
    by (simp add: parseFindings_def demoReviewInput_def findingsTextOf_def MAX_FINDINGS_FILE_BYTES_def)
  ultimately have rec: "reviewRecordOf fixed_sys ''t5'' openRun demoReviewInput [] (currentRefs fixed_sys (stageEnv ''t5'') openRun [demoEvidence])
      = demoApproval fixed_sys ''t5''" "parseFindings fixed_sys (ri_findings demoReviewInput) = Inr []"
    by (simp_all add: demoApproval_def)
  have "policyInput (stageEnv ''t5'') SubmissionMode demoWorkOrder openRun [gateWith ''build'' GatePass (Some ''ev_1'')]
        [demoEvidence] [] (Some (demoApproval fixed_sys ''t5'')) (Some (demoPlan fixed_sys))
      = stageInput fixed_sys SubmissionMode [] (Some (demoApproval fixed_sys ''t5''))"
    by (simp add: policyInput_def stageInput_def now)
  moreover have "sanitizeOperationalText fixed_sys = id" by (simp add: fixed_sys_def plain_sys_def plain_host_def id_def)
  ultimately have "ar_allowed (evaluateAssurancePolicy fixed_sys (policyInput (stageEnv ''t5'') SubmissionMode demoWorkOrder
        openRun [gateWith ''build'' GatePass (Some ''ev_1'')] [demoEvidence] [] (Some (demoApproval fixed_sys ''t5'')) (Some (demoPlan fixed_sys))))"
    using stage_allowed(2) [of fixed_sys "''t5''"] by simp
  moreover have "run_executionRunId openRun = ''ex_1''" by (simp add: openRun_def demoRun_def)
  ultimately show ?thesis
    by (simp add: admitReview_def Let_def activeOf_def bindE_def liftE_def queryE_def readE_def returnE_def stage_records
      stage_selection gateStatesOf_def stage_states rec now refuseIf_def guardE_def)
qed

lemma stage_recorded:
  "\<exists>r run t. runAssuranceRecord fixed_sys (stageEnv ''t5'') demoReviewInput (stageSidecar []) = (Inr (r, run), t)
     \<and> rv_verdict r = Approved"
proof -
  obtain r t where c: "commitReview fixed_sys (stageEnv ''t5'') (activeOf openRun) (demoApproval fixed_sys ''t5'') (stageSidecar []) = (Inr r, t)"
    using succeedsD [OF stage_commit] by blast
  have "reviewGuards openRun demoWorkOrder (stageSidecar []) = (Inr (), stageSidecar [])"
    "reviewerGuards openRun ''independent-reviewer'' ''s_rev'' [] (stageSidecar []) = (Inr (), stageSidecar [])"
    by code_simp+
  moreover have "sanitizeOperationalText fixed_sys = id" by (simp add: fixed_sys_def plain_sys_def plain_host_def id_def)
  moreover have "ac_run (activeOf openRun) = openRun" "ac_workOrder (activeOf openRun) = demoWorkOrder" by (simp_all add: activeOf_def)
  ultimately have "runAssuranceRecord fixed_sys (stageEnv ''t5'') demoReviewInput (stageSidecar [])
      = (Inr (demoApproval fixed_sys ''t5'', r), t)"
    using c by (simp add: runAssuranceRecord_def Let_def bindE_def stage_active stage_admitted returnE_def)
      (simp add: demoReviewInput_def truthy_def stage_admitted [unfolded demoReviewInput_def] c)
  then show ?thesis
    by (auto simp: demoApproval_def reviewRecordOf_def Let_def demoReviewInput_def)
qed

lemma review_independent_witness:
  "\<exists>r run t. runAssuranceRecord fixed_sys (stageEnv ''t5'') demoReviewInput (stageSidecar []) = (Inr (r, run), t)
     \<and> rv_reviewerRole r \<noteq> IMPLEMENTER_ROLE \<and> readCurrentExecutionRun fixed_sys t = Inr (Some (sanitizeRun fixed_sys run))"
proof -
  obtain r run t where "runAssuranceRecord fixed_sys (stageEnv ''t5'') demoReviewInput (stageSidecar []) = (Inr (r, run), t)"
    using stage_recorded by blast
  with review_independent [OF this] show ?thesis by blast
qed

end
