(* ===== verification/Verify_Witnesses.thy ===== *)
theory Verify_Witnesses
  imports Execution_Demo Lifecycle_Properties Execution_Properties
begin

text \<open>
  Verification of the demo run in a changed work tree and in one with a changed secret file, and the
  evidence of its build.
\<close>

section \<open>Verification and evidence\<close>

lemma implementing_ok: "allRuns runOk (sidecarWith implementingRun [] [])"
  by (simp add: allRuns_def sidecarWith_def runStoreOf_def emptyRunStore_def implementingRun_def demoRun_def runOk_def)

lemma implementing_active:
  "loadActive plain_sys (offlineEnv now tree) (sidecarWith implementingRun [] []) = (Inr (activeOf implementingRun), sidecarWith implementingRun [] [])"
  by (rule demo_active [where h = "sha256Hex plain_sys"])
    (simp_all add: plain_sys_def implementingRun_def demoRun_def offlineEnv_def demoEnv_def)

lemma demo_env_tree: "en_tree (offlineEnv now tree) = tree"
  by (simp add: offlineEnv_def demoEnv_def)

lemma implementing_guards:
  "verifyGuards implementingRun s = (Inr (), s)"
  by (simp add: verifyGuards_def bindE_def refuseIf_def guardE_def returnE_def implementingRun_def canVerify_def)

text \<open>Verification of the demo run comes down to the check of its change set and the writes.\<close>

lemma implementing_verify:
  "runVerify plain_sys (offlineEnv now tree) (sidecarWith implementingRun [] []) =
     bindE (liftE (buildChangeSet plain_sys tree demoWorkOrder (Some demoContextPlan))) (\<lambda>c.
     bindE (refuseChangeSet plain_sys (offlineEnv now tree) (activeOf implementingRun) c) (\<lambda>_.
     bindE (verifyClean plain_sys (offlineEnv now tree) (activeOf implementingRun) c) (\<lambda>r.
     returnE (fst r, c, snd r)))) (sidecarWith implementingRun [] [])"
  by (simp add: runVerify_def bindE_def [of "loadActive H V" for H V] bindE_def [of "verifyGuards r" for r]
      implementing_active implementing_guards activeOf_fields demo_env_tree)

lemma demo_verify:
  "succeeds (runVerify plain_sys (offlineEnv ''t2'' demoTree)) (sidecarWith implementingRun [] [])
     (\<lambda>r t. run_phase (fst r) = EpVerify)"
  unfolding succeeds_def implementing_verify by code_simp

lemma demo_violation:
  "throws (runVerify plain_sys (offlineEnv ''t2'' secretTree)) (sidecarWith implementingRun [] [])
     (\<lambda>e t. currentIs (\<lambda>r. run_status r = ExBlocked) t)"
  unfolding throws_def implementing_verify by code_simp

section \<open>Verification, gates, expansion\<close>

lemma verify_success_witness:
  "\<exists>run c p t. runVerify plain_sys (offlineEnv ''t2'' demoTree) (sidecarWith implementingRun [] []) = (Inr (run, c, p), t)
     \<and> run_phase run = EpVerify \<and> ch_violations c = []"
proof -
  obtain x t where x: "runVerify plain_sys (offlineEnv ''t2'' demoTree) (sidecarWith implementingRun [] []) = (Inr x, t)"
    using succeedsD [OF demo_verify] by blast
  obtain run c p where "x = (run, c, p)" by (cases x)
  with verify_success [OF x [unfolded this] implementing_ok] x show ?thesis by blast
qed

lemma secret_change_set:
  "\<exists>c. buildChangeSet plain_sys secretTree demoWorkOrder (Some demoContextPlan) = Inr c \<and> ch_violations c \<noteq> []"
proof -
  have "case buildChangeSet plain_sys secretTree demoWorkOrder (Some demoContextPlan) of Inl _ \<Rightarrow> False | Inr c \<Rightarrow> ch_violations c \<noteq> []"
    by code_simp
  then show ?thesis by (auto split: sum.splits)
qed

lemma verify_violation_stops_witness:
  "\<exists>e t. runVerify plain_sys (offlineEnv ''t2'' secretTree) (sidecarWith implementingRun [] []) = (Inl e, t)
     \<and> (\<exists>r. readCurrentExecutionRun plain_sys t = Inr (Some r) \<and> run_status r = ExBlocked)"
proof -
  obtain c where c: "buildChangeSet plain_sys secretTree demoWorkOrder (Some demoContextPlan) = Inr c" "ch_violations c \<noteq> []"
    using secret_change_set by blast
  obtain e t where t: "runVerify plain_sys (offlineEnv ''t2'' secretTree) (sidecarWith implementingRun [] []) = (Inl e, t)"
      "currentIs (\<lambda>r. run_status r = ExBlocked) t"
    using throwsD [OF demo_violation] by blast
  have "en_tree (offlineEnv ''t2'' secretTree) = secretTree" by (simp add: offlineEnv_def demoEnv_def)
  with c have "buildChangeSet plain_sys (en_tree (offlineEnv ''t2'' secretTree)) (ac_workOrder (activeOf implementingRun))
      (Some (ac_plan (activeOf implementingRun))) = Inr c" by (simp add: activeOf_def)
  from verify_violation_stops [OF implementing_active this c(2) t(1)] t currentIsD show ?thesis by blast
qed

definition demoProof :: evidenceProof where
  "demoProof = \<lparr>pf_outputRef = Some ''out'', pf_outputDigest = Some ''od'', pf_fileRef = None, pf_fileDigest = None\<rparr>"

lemma pass_contract_is_gate_test_witness:
  "\<exists>def. assertRecordableGate openRun ''build'' = Inr def
     \<and> assertPassContract def demoBuildInput demoProof = Inr ()
     \<and> evidenceSatisfiesGate (evidenceRecordOf plain_host ''t3'' openRun demoBuildInput demoProof) def"
proof -
  have "case assertRecordableGate openRun ''build'' of Inl _ \<Rightarrow> False | Inr def \<Rightarrow> assertPassContract def demoBuildInput demoProof = Inr ()"
    by code_simp
  then obtain def where d: "assertRecordableGate openRun ''build'' = Inr def" "assertPassContract def demoBuildInput demoProof = Inr ()"
    by (auto split: sum.splits)
  have "evidenceStatusOf demoBuildInput = EvPass" by (simp add: evidenceStatusOf_def demoBuildInput_def)
  moreover have "sanitizeOperationalText plain_host x \<noteq> []" if "x \<noteq> []" for x
    using that by (simp add: plain_host_def)
  ultimately show ?thesis using pass_contract_is_gate_test [OF d(1), where H = plain_host and now = "''t3''"] d by blast
qed

section \<open>A context expansion\<close>

text \<open>
  A context expansion of the demo run.
\<close>

text \<open>Expansion with an index but no repository map.\<close>

definition expandEnv :: execEnv where
  "expandEnv = (demoEnv ''t3'' demoTree)\<lparr>en_map := None\<rparr>"

lemma demo_expand:
  "succeeds (expandTo fixed_sys expandEnv (activeOf openRun) C2 ''reason'' False) (sidecarWith openRun [] []) (\<lambda>r t. True)"
  by code_simp

lemma context_expansion_one_step_witness:
  "\<exists>run p t. runContextExpand fixed_sys expandEnv ''reason'' False (sidecarWith openRun [] []) = (Inr (run, p), t)
     \<and> run_contextRadius run = C2"
proof -
  obtain x t where x: "expandTo fixed_sys expandEnv (activeOf openRun) C2 ''reason'' False (sidecarWith openRun [] []) = (Inr x, t)"
    using succeedsD [OF demo_expand] by blast
  have load: "loadActive fixed_sys expandEnv (sidecarWith openRun [] []) = (Inr (activeOf openRun), sidecarWith openRun [] [])"
    by (rule demo_active [where h = "\<lambda>_. ''d_1''"])
      (simp_all add: fixed_sys_def openRun_def demoRun_def expandEnv_def demoEnv_def)
  have more: "nextRadius (run_contextRadius openRun) = Some C2"
    by (simp add: nextRadius_def RADIUS_ORDER_def openRun_def demoRun_def)
  obtain run p where "x = (run, p)" by (cases x)
  then have "runContextExpand fixed_sys expandEnv ''reason'' False (sidecarWith openRun [] []) = (Inr (run, p), t)"
    using x more by (simp add: runContextExpand_def bindE_def load refuseIf_def guardE_def returnE_def activeOf_fields)
  with context_expansion_one_step [OF this] load more show ?thesis by (fastforce simp: activeOf_fields)
qed

section \<open>Dispatch\<close>

text \<open>
  The dispatch of the planned demo work order, and what the state machine of runs says of it.
\<close>

lemma demo_dispatch:
  "succeeds (runDispatch plain_sys (demoEnv ''t1'' cleanTree) (Some ''s_impl'')) plannedSidecar
     (\<lambda>r t. run_status (fst r) = ExReady \<and> currentIs (\<lambda>x. run_implementerSessionId x = Some ''s_impl'') t)"
  by code_simp

lemma planned_no_run: "readCurrentExecutionRun plain_sys plannedSidecar = Inr None"
  by (simp add: readCurrentExecutionRun_def readCurrentExecutionRunId_def plannedSidecar_def)

lemma dispatch_success_witness:
  "\<exists>run packet w t. runDispatch plain_sys (demoEnv ''t1'' cleanTree) (Some ''s_impl'') plannedSidecar = (Inr (run, packet, w), t)
     \<and> run_workOrderId run = wo_workOrderId w \<and> run_status run \<noteq> ExBlocked"
proof -
  obtain x t where x: "runDispatch plain_sys (demoEnv ''t1'' cleanTree) (Some ''s_impl'') plannedSidecar = (Inr x, t)"
    using succeedsD [OF demo_dispatch] by blast
  obtain run packet w where "x = (run, packet, w)" by (cases x)
  from dispatch_success [OF x [unfolded this] planned_no_run] x this show ?thesis by blast
qed

section \<open>Moves of a run\<close>

lemma session_binding_permanent_witness:
  "\<exists>r. runMove plain_host demoRun r \<and> run_implementerSessionId r = Some ''s_impl'' \<and> run_attempt demoRun \<le> run_attempt r"
proof -
  let ?r = "sanitizeRun plain_host (reviewStartRun ''t4'' ''next'' demoRun)"
  have m: "runMove plain_host demoRun ?r"
    by (rule runMove.ReviewStart) (simp_all add: demoRun_def truthy_iff)
  have "stableIds plain_host demoRun" "truthy (run_implementerSessionId demoRun)"
    by (simp_all add: stableIds_def plain_host_def sanOpt_def demoRun_def truthy_iff)
  from session_binding_permanent [OF r_into_rtranclp [of "runMove plain_host", OF m] this] m show ?thesis
    by (intro exI [of _ ?r]) (simp add: demoRun_def)
qed

lemma planned_runs_ok: "allRuns runOk plannedSidecar"
  by (simp add: allRuns_def plannedSidecar_def runStoreOf_def emptyRunStore_def)

lemma demo_dispatched:
  "\<exists>x t r. runDispatch plain_sys (demoEnv ''t1'' cleanTree) (Some ''s_impl'') plannedSidecar = (Inr x, t)
     \<and> readCurrentExecutionRun plain_sys t = Inr (Some r) \<and> run_implementerSessionId r = Some ''s_impl''"
  using succeedsD [OF demo_dispatch] currentIsD by blast

lemma current_is_stored:
  "readCurrentExecutionRun H s = Inr (Some r) \<Longrightarrow> \<exists>i. rn_run (runStoreOf i s) = Parsed r"
  by (auto simp: readCurrentExecutionRun_def readExecutionRun_def split: option.splits sum.splits if_splits)

lemma operations_refine_run_machine_witness:
  "\<exists>t r i. uadsSteps plain_sys plannedSidecar t \<and> rn_run (runStoreOf i t) = Parsed r
     \<and> run_implementerSessionId r = Some ''s_impl'' \<and> descends plain_sys plannedSidecar r"
proof -
  obtain x t r where d: "runDispatch plain_sys (demoEnv ''t1'' cleanTree) (Some ''s_impl'') plannedSidecar = (Inr x, t)"
      "readCurrentExecutionRun plain_sys t = Inr (Some r)" "run_implementerSessionId r = Some ''s_impl''"
    using demo_dispatched by blast
  have s: "uadsSteps plain_sys plannedSidecar t" using uadsStep.DispatchStep [OF d(1)] by blast
  obtain i where "rn_run (runStoreOf i t) = Parsed r" using current_is_stored [OF d(2)] by blast
  with operations_refine_run_machine [OF s this] s d(3) show ?thesis by blast
qed

lemma reachable_runs_consistent_witness:
  "\<exists>t r. uadsSteps plain_sys plannedSidecar t \<and> readCurrentExecutionRun plain_sys t = Inr (Some r) \<and> runOk r"
proof -
  obtain x t r where d: "runDispatch plain_sys (demoEnv ''t1'' cleanTree) (Some ''s_impl'') plannedSidecar = (Inr x, t)"
      "readCurrentExecutionRun plain_sys t = Inr (Some r)"
    using demo_dispatched by blast
  have s: "uadsSteps plain_sys plannedSidecar t" using uadsStep.DispatchStep [OF d(1)] by blast
  from current_run_Q [OF reachable_runs_consistent [OF s planned_runs_ok] d(2)] s d(2) show ?thesis by blast
qed

section \<open>A dispatch in a dirty work tree\<close>

text \<open>
  A dispatch in a dirty work tree after the run was completed.
\<close>

text \<open>The demo run after it was finalized.\<close>

definition completedRun :: executionRun where
  "completedRun = finalizedRun ''t6'' ''done'' (demoRun\<lparr>run_phase := EpReview\<rparr>)"

lemma completed_current:
  "readCurrentExecutionRun plain_sys (sidecarWith completedRun [] []) = Inr (Some completedRun)
     \<and> run_status completedRun = ExCompleted"
  by (simp add: readCurrentExecutionRun_def readCurrentExecutionRunId_def readExecutionRun_def sidecarWith_def
      completedRun_def finalizedRun_def touchRun_def demoRun_def runStoreOf_def readRequired_def isSafeSidecarId_def
      is_safe_char_def starts_with_def runPathCheck_def plain_sys_def)

lemma demo_dirty_dispatch:
  "throws (runDispatch plain_sys (demoEnv ''t7'' demoTree) (Some ''s_impl'')) (sidecarWith completedRun [] [])
     (\<lambda>e t. currentIs (\<lambda>x. run_status x = ExBlocked \<and> run_phase x = EpStopped) t)"
  by code_simp

text \<open>Dispatch in a dirty work tree turns the run of the work order into a blocked one even when it was
  completed: the check of the work tree comes before the check for a completed run.\<close>

theorem dirty_dispatch_demotes_completed_run:
  "readCurrentExecutionRun plain_sys (sidecarWith completedRun [] []) = Inr (Some completedRun)
   \<and> run_status completedRun = ExCompleted
   \<and> (\<exists>e t r. runDispatch plain_sys (demoEnv ''t7'' demoTree) (Some ''s_impl'') (sidecarWith completedRun [] []) = (Inl e, t)
        \<and> readCurrentExecutionRun plain_sys t = Inr (Some r) \<and> run_status r = ExBlocked \<and> run_phase r = EpStopped)"
  using completed_current throwsD [OF demo_dirty_dispatch] currentIsD by blast

lemma completed_run_left_only_by_dirty_dispatch_witness:
  "\<exists>r. runMove plain_host completedRun r \<and> r = sanitizeRun plain_host (dirtyRun ''t7'' completedRun)
     \<and> ((run_status r = ExCompleted \<and> run_phase r = EpStopped
           \<and> run_currentChangeDigest r = sanOpt plain_host (run_currentChangeDigest completedRun))
        \<or> (\<exists>now. r = sanitizeRun plain_host (dirtyRun now completedRun)))"
proof -
  have m: "runMove plain_host completedRun (sanitizeRun plain_host (dirtyRun ''t7'' completedRun))"
    by (rule runMove.Dirty)
  have "runOk completedRun" "run_status completedRun = ExCompleted"
    by (simp_all add: runOk_def completedRun_def finalizedRun_def touchRun_def demoRun_def)
  from completed_run_left_only_by_dirty_dispatch [OF m this] m show ?thesis by blast
qed

end
