(* ===== verification/Request_Intake.thy ===== *)
theory Request_Intake
  imports Kernel_Types Sidecar_Store
begin

text \<open>
  \<^verbatim>\<open>src/kernel/intake.ts\<close>: the structured intake of a request. The text classifier
  is a table of rules, each adding its signals to the intake when one of its words occurs in the
  request. A raw intake is a partial object: an absent field is \<open>None\<close>.
\<close>

section \<open>Normalizing\<close>

definition emptyIntake :: "string \<Rightarrow> intakeClassifier \<Rightarrow> normalizedIntake" where
  "emptyIntake objective classifier =
    \<lparr>in_objective = objective, in_constraints = [], in_requestedArtifacts = [], in_inScope = [],
     in_outOfScope = [], in_acceptanceCriteria = [], in_domainSignals = [], in_riskSignals = [],
     in_destructiveSignals = [], in_affectedAreas = [], in_uncertainties = [], in_approvedBoundaries = [],
     in_classifier = classifier\<rparr>"

text \<open>
  The fields of the object that \<open>normalizeIntake\<close> reads. An objective that is no string is absent;
  the last field tells whether one of the three fields for hidden reasoning is there.
\<close>

record rawIntake =
  raw_schema :: "string option"
  raw_schemaVersion :: "string option"
  raw_objective :: "string option"
  raw_classifier :: "string option"
  raw_constraints :: "string list option"
  raw_requestedArtifacts :: "string list option"
  raw_inScope :: "string list option"
  raw_outOfScope :: "string list option"
  raw_acceptanceCriteria :: "string list option"
  raw_domainSignals :: "string list option"
  raw_riskSignals :: "string list option"
  raw_destructiveSignals :: "string list option"
  raw_affectedAreas :: "string list option"
  raw_uncertainties :: "string list option"
  raw_approvedBoundaries :: "string list option"
  raw_reasoning :: bool

definition list_or :: "'a list option \<Rightarrow> 'a list" where
  "list_or v = (case v of None \<Rightarrow> [] | Some xs \<Rightarrow> xs)"

text \<open>\<^verbatim>\<open>schemas/intake.schema.json\<close> on a typed intake: the length of the objective.\<close>

definition intakeSchemaOk :: "normalizedIntake \<Rightarrow> bool" where
  "intakeSchemaOk i \<longleftrightarrow> 1 \<le> length (in_objective i) \<and> length (in_objective i) \<le> 4000"

definition intakeOfRaw :: "string \<Rightarrow> rawIntake \<Rightarrow> normalizedIntake" where
  "intakeOfRaw objective raw =
    (emptyIntake objective (if raw_classifier raw = Some ''fallback-text'' then FallbackText else HostStructured))
      \<lparr>in_constraints := list_or (raw_constraints raw), in_requestedArtifacts := list_or (raw_requestedArtifacts raw),
       in_inScope := (if list_or (raw_inScope raw) = [] then [objective] else list_or (raw_inScope raw)),
       in_outOfScope := list_or (raw_outOfScope raw), in_acceptanceCriteria := list_or (raw_acceptanceCriteria raw),
       in_domainSignals := unique (list_or (raw_domainSignals raw)),
       in_riskSignals := unique (list_or (raw_riskSignals raw)),
       in_destructiveSignals := unique (list_or (raw_destructiveSignals raw)),
       in_affectedAreas := unique (list_or (raw_affectedAreas raw)),
       in_uncertainties := list_or (raw_uncertainties raw), in_approvedBoundaries := list_or (raw_approvedBoundaries raw)\<rparr>"

definition normalizeIntake :: "rawIntake \<Rightarrow> uadsError + normalizedIntake" where
  "normalizeIntake raw =
    (if truthy (raw_schema raw) \<and> raw_schema raw \<noteq> Some ''uads.intake''
     then Inl (PlainError ''intake.schema is invalid'')
     else if truthy (raw_schemaVersion raw) \<and> raw_schemaVersion raw \<noteq> Some ''0.2.0''
     then Inl (PlainError ''intake.schemaVersion is invalid'')
     else if \<not> truthy (raw_objective raw) then Inl (PlainError ''intake.objective is required'')
     else let intake = intakeOfRaw (trim (or_empty (raw_objective raw))) raw
          in if raw_reasoning raw then Inl (PlainError ''intake must not include chain-of-thought fields'')
             else if \<not> intakeSchemaOk intake then Inl (PlainError (schemaError ''intake.schema.json''))
             else Inr intake)"

text \<open>A normalized intake passed in again, as an object.\<close>

definition rawOfIntake :: "normalizedIntake \<Rightarrow> rawIntake" where
  "rawOfIntake i =
    \<lparr>raw_schema = Some ''uads.intake'', raw_schemaVersion = Some ''0.2.0'', raw_objective = Some (in_objective i),
     raw_classifier = Some (case in_classifier i of FallbackText \<Rightarrow> ''fallback-text'' | HostStructured \<Rightarrow> ''host-structured''),
     raw_constraints = Some (in_constraints i), raw_requestedArtifacts = Some (in_requestedArtifacts i),
     raw_inScope = Some (in_inScope i), raw_outOfScope = Some (in_outOfScope i),
     raw_acceptanceCriteria = Some (in_acceptanceCriteria i), raw_domainSignals = Some (in_domainSignals i),
     raw_riskSignals = Some (in_riskSignals i), raw_destructiveSignals = Some (in_destructiveSignals i),
     raw_affectedAreas = Some (in_affectedAreas i), raw_uncertainties = Some (in_uncertainties i),
     raw_approvedBoundaries = Some (in_approvedBoundaries i), raw_reasoning = False\<rparr>"

section \<open>The text classifier\<close>

record textRule =
  tr_words :: "string list"
  tr_domains :: "string list"
  tr_risks :: "string list"
  tr_destructive :: "string list"
  tr_areas :: "string list"

definition rule :: "string list \<Rightarrow> string list \<Rightarrow> string list \<Rightarrow> string list \<Rightarrow> string list \<Rightarrow> textRule" where
  "rule ws ds rs xs as = \<lparr>tr_words = ws, tr_domains = ds, tr_risks = rs, tr_destructive = xs, tr_areas = as\<rparr>"

text \<open>One entry per \<open>if\<close> of \<open>intakeFromRequest\<close>, in its order.\<close>

definition TEXT_RULES :: "textRule list" where
  "TEXT_RULES =
    [rule [''button'', ''color'', ''css'', ''style'', ''stylesheet'', ''theme''] [''frontend''] [] [] [''ui''],
     rule [''typo'', ''readme'', ''documentation'', ''docs'', ''wording'', ''spelling''] [''documentation''] [] [] [],
     rule [''auth'', ''authenticated'', ''oauth'', ''jwt'', ''rbac'', ''login'', ''permission'']
       [''api'', ''security'', ''backend''] [''authentication''] [] [''auth''],
     rule [''billing'', ''payment'', ''invoice'', ''money'', ''payout''] [''finance-economics'', ''saas''] [''payments''] [] [],
     rule [''migration'', ''column'', ''schema'', ''postgres'', ''database'', ''sql'']
       [''database'', ''reliability''] [''database-migration''] [] [''database''],
     rule [''remove a production'', ''drop table'', ''destructive'', ''delete production'']
       [] [''destructive''] [''destructive-data''] [],
     rule [''defi'', ''withdrawal'', ''smart contract'', ''vault'', ''web3'', ''solidity'', ''wallet'']
       [''web3'', ''smart-contracts'', ''security'', ''finance-economics''] [''web3'', ''smart-contracts''] [] [''contracts''],
     rule [''tokenomics'', ''token economy''] [''tokenomics'', ''finance-economics''] [''tokenomics''] [] [],
     rule [''fee'', ''accrual'', ''rounding'', ''ledger'', ''financial''] [''finance-economics'', ''backend'']
       [''financial-calculation''] [] [],
     rule [''latency'', ''hot path'', ''performance'', ''p99''] [''backend'', ''performance''] [''performance-hot-path''] [] [],
     rule [''combat'', ''critical-hit'', ''damage scaling'', ''gameplay formula'']
       [''game-systems'', ''mathematics-simulation''] [''simulation''] [] [],
     rule [''deploy'', ''kubernetes'', ''infrastructure'', ''production config''] [''cloud-devops''] [''infrastructure''] [] [],
     rule [''api endpoint'', ''public api'', ''contract change''] [''api''] [''public-api''] [] [],
     rule [''dependency'', ''package update'', ''supply-chain'', ''upgrade npm''] [] [''dependency'', ''supply-chain''] [] [],
     rule [''cut a release'', ''prepare a release'', ''release checklist''] [''release''] [] [] []]"

definition matchedRules :: "string \<Rightarrow> textRule list" where
  "matchedRules text = filter (\<lambda>r. includesAny text (tr_words r)) TEXT_RULES"

definition classifiedIntake :: "string \<Rightarrow> normalizedIntake" where
  "classifiedIntake objective =
    (let rs = matchedRules (to_lower objective)
     in (emptyIntake objective FallbackText)
          \<lparr>in_domainSignals := unique (concat (map tr_domains rs)), in_riskSignals := unique (concat (map tr_risks rs)),
           in_destructiveSignals := unique (concat (map tr_destructive rs)),
           in_affectedAreas := concat (map tr_areas rs), in_inScope := [objective]\<rparr>)"

definition intakeFromRequest :: "string \<Rightarrow> uadsError + normalizedIntake" where
  "intakeFromRequest request =
    (let objective = trim (squash_spaces request)
     in if objective = [] then Inl (PlainError ''request text is empty'')
        else normalizeIntake (rawOfIntake (classifiedIntake objective)))"

section \<open>Facts\<close>

lemma trim_trim [simp]: "trim (trim s) = trim s"
proof -
  have idem: "dropWhile P (dropWhile P xs) = dropWhile P xs" for P and xs :: string
    by (induction xs) auto
  have keep: "dropWhile is_space (rev (dropWhile is_space (rev xs))) = rev (dropWhile is_space (rev xs))"
    if "xs = [] \<or> \<not> is_space (hd xs)" for xs
  proof (cases "dropWhile is_space (rev xs)" rule: rev_cases)
    case Nil
    show ?thesis unfolding Nil by simp
  next
    case (snoc ys y)
    then have "xs = y # rev (ys) @ []  \<or> (\<exists>zs. xs = y # zs)"
      by (metis dropWhile_eq_Nil_conv rev_append rev_rev_ident rev_singleton_conv set_rev takeWhile_dropWhile_id append_Cons append_Nil)
    with that snoc show ?thesis by auto
  qed
  have "dropWhile is_space s = [] \<or> \<not> is_space (hd (dropWhile is_space s))"
    using hd_dropWhile by blast
  from keep [OF this] show ?thesis by (simp add: trim_def idem)
qed

definition wellFormedIntake :: "normalizedIntake \<Rightarrow> bool" where
  "wellFormedIntake i \<longleftrightarrow> in_objective i \<noteq> [] \<and> length (in_objective i) \<le> 4000 \<and> trim (in_objective i) = in_objective i
     \<and> in_inScope i \<noteq> []
     \<and> (\<forall>xs\<in>{in_domainSignals i, in_riskSignals i, in_destructiveSignals i, in_affectedAreas i}. distinct xs \<and> [] \<notin> set xs)"

lemma unique_of_distinct: "distinct xs \<Longrightarrow> [] \<notin> set xs \<Longrightarrow> unique xs = xs"
  by (simp add: unique_def filter_id_conv) (metis dedup_distinct filter_True)

lemma normalize_well_formed:
  assumes "normalizeIntake raw = Inr i"
  shows "wellFormedIntake i"
  using assms
  by (auto simp: normalizeIntake_def Let_def intakeOfRaw_def emptyIntake_def wellFormedIntake_def intakeSchemaOk_def
      split: if_splits)

lemma normalize_fixpoint:
  assumes "wellFormedIntake i"
  shows "normalizeIntake (rawOfIntake i) = Inr i"
  using assms
  by (cases i; cases "in_classifier i")
    (auto simp: normalizeIntake_def Let_def rawOfIntake_def intakeOfRaw_def emptyIntake_def wellFormedIntake_def
      intakeSchemaOk_def list_or_def or_empty_def unique_of_distinct Suc_le_eq)

text \<open>Normalizing accepts its own results and leaves them as they are; what it accepts has a trimmed
  objective of 1 to 4000 characters, a scope, and signals without blanks and repetitions.\<close>

theorem intake_normal_form:
  assumes "normalizeIntake raw = Inr i"
  shows "wellFormedIntake i \<and> normalizeIntake (rawOfIntake i) = Inr i"
  using normalize_well_formed [OF assms] normalize_fixpoint by blast

lemma intake_normal_form_witness:
  "wellFormedIntake (intakeOfRaw ''add a button'' (rawOfIntake (emptyIntake '' add a button '' HostStructured)))"
proof -
  have "normalizeIntake (rawOfIntake (emptyIntake '' add a button '' HostStructured))
      = Inr (intakeOfRaw ''add a button'' (rawOfIntake (emptyIntake '' add a button '' HostStructured)))"
    by code_simp
  from intake_normal_form [OF this] show ?thesis by blast
qed

end
