(* ===== verification/Policy.thy ===== *)
theory Policy
  imports Request_Intake Specialist_Types
begin

text \<open>
  \<^verbatim>\<open>src/kernel/policy.ts\<close> and \<^verbatim>\<open>scope-control.ts\<close>: scope, risk, domains, context radius and
  capability of a request, each from the structured intake and the signals of the repository map.
\<close>

section \<open>Scope\<close>

record scopeDecision =
  sd_scopeClass :: scopeClass
  sd_reasons :: "string list"
  sd_included :: "string list"
  sd_outOfScope :: "string list"
  sd_recommendations :: "string list"

definition scopeText :: "normalizedIntake \<Rightarrow> string" where
  "scopeText i = to_lower (in_objective i @ '' '' @ join_with '' '' (in_domainSignals i) @ '' ''
     @ join_with '' '' (in_riskSignals i))"

definition isWording :: "normalizedIntake \<Rightarrow> bool" where
  "isWording i \<longleftrightarrow> includesAny (scopeText i) [''typo'', ''wording'', ''spelling'', ''readme'']
     \<or> in_domainSignals i = [''documentation'']"

definition isPresentation :: "normalizedIntake \<Rightarrow> bool" where
  "isPresentation i \<longleftrightarrow> includesAny (scopeText i) [''button color'', ''primary button'', ''css'', ''stylesheet'']
     \<and> in_riskSignals i = []"

definition isArchitectural :: "normalizedIntake \<Rightarrow> bool" where
  "isArchitectural i \<longleftrightarrow>
     includesAny (scopeText i) [''architecture'', ''auth architecture'', ''storage model'',
       ''change the public contract'', ''public api contract'']
     \<or> ''kernel-runtime'' \<in> set (in_domainSignals i)
     \<or> (''state-recovery'' \<in> set (in_domainSignals i) \<and> ''offline-first'' \<in> set (in_domainSignals i))"

definition isCrossCutting :: "normalizedIntake \<Rightarrow> bool" where
  "isCrossCutting i \<longleftrightarrow> length (in_domainSignals i) \<ge> 3 \<or> ''database'' \<in> set (in_domainSignals i)
     \<or> ''database-migration'' \<in> set (in_riskSignals i)
     \<or> (''api'' \<in> set (in_domainSignals i) \<and> ''security'' \<in> set (in_domainSignals i))
     \<or> ''smart-contracts'' \<in> set (in_domainSignals i)"

definition scopeClassOf :: "normalizedIntake \<Rightarrow> scopeClass \<times> string list" where
  "scopeClassOf i =
    (if isWording i then (Trivial, [''documentation/wording change''])
     else if isPresentation i then (Trivial, [''isolated presentation change''])
     else if isArchitectural i
     then (Architectural, [''public contract, kernel/runtime, or core architecture is in play''])
     else if isCrossCutting i then (CrossCutting, [''change spans more than one module or contract surface''])
     else if length (in_affectedAreas i) \<le> 1 \<and> length (in_domainSignals i) \<le> 2
     then (Local, [''isolated module or component''])
     else (Local, []))"

definition classifyScopeSize :: "normalizedIntake \<Rightarrow> scopeDecision" where
  "classifyScopeSize i =
    \<lparr>sd_scopeClass = fst (scopeClassOf i), sd_reasons = snd (scopeClassOf i),
     sd_included = (if in_inScope i \<noteq> [] then in_inScope i else [in_objective i]),
     sd_outOfScope = unique (in_outOfScope i @ [''unrelated architecture refactors'', ''unrelated Web3/tokenomics work'',
       ''unrelated marketplace or dashboard features'']),
     sd_recommendations = (if fst (scopeClassOf i) \<noteq> Trivial
       then [''Record focused tests as IMPORTANT if not already requested''] else [])\<rparr>"

section \<open>Risk\<close>

definition SENSITIVE_SIGNALS :: "string list" where
  "SENSITIVE_SIGNALS = [''security'', ''authentication'', ''web3'', ''smart-contracts'', ''finance-economics'',
     ''payments'', ''tokenomics'', ''database'', ''destructive'', ''destructive-data'']"

definition sensitiveUncertainty :: "normalizedIntake \<Rightarrow> bool" where
  "sensitiveUncertainty i \<longleftrightarrow> in_uncertainties i \<noteq> []
     \<and> list_ex (\<lambda>item. item \<in> set SENSITIVE_SIGNALS \<or> includes_text ''auth'' item \<or> includes_text ''contract'' item)
         (in_domainSignals i @ in_riskSignals i @ in_destructiveSignals i @ map to_lower (in_affectedAreas i))"

definition signalsOf :: "normalizedIntake \<Rightarrow> string list" where
  "signalsOf i = in_riskSignals i @ in_destructiveSignals i @ in_domainSignals i"

definition hasSignal :: "normalizedIntake \<Rightarrow> string list \<Rightarrow> bool" where
  "hasSignal i names \<longleftrightarrow> list_ex (\<lambda>n. n \<in> set (signalsOf i)) names"

definition touchesContracts :: "normalizedIntake \<Rightarrow> bool" where
  "touchesContracts i \<longleftrightarrow> hasSignal i [''web3'', ''smart-contracts'']
     \<or> includesAny (to_lower (in_objective i)) [''defi'', ''withdrawal path'']"

definition touchesMigrations :: "normalizedIntake \<Rightarrow> bool" where
  "touchesMigrations i \<longleftrightarrow> hasSignal i [''database-migration'', ''database'']
     \<or> includesAny (to_lower (in_objective i)) [''remove a production column'']"

definition mutatesProduction :: "normalizedIntake \<Rightarrow> bool" where
  "mutatesProduction i \<longleftrightarrow> hasSignal i [''destructive'', ''destructive-data'']
     \<or> includesAny (to_lower (in_objective i)) [''remove a production column'']"

definition mapHasData :: "repositoryMap \<Rightarrow> bool" where
  "mapHasData m \<longleftrightarrow> map_signals m ''migrations'' \<or> map_signals m ''database''"

definition alsoIf :: "bool \<Rightarrow> string \<Rightarrow> string list" where
  "alsoIf b s = (if b then [s] else [])"

definition classifyRisk :: "normalizedIntake \<Rightarrow> repositoryMap \<Rightarrow> riskLevel \<times> string list" where
  "classifyRisk i m =
    (if touchesContracts i
     then (CRITICAL, ''funds/smart-contract path''
            # alsoIf (map_signals m ''web3'') ''repository map corroborates smart-contract surface'')
     else if mutatesProduction i
     then (CRITICAL, ''destructive data or production mutation''
            # alsoIf (mapHasData m) ''repository map corroborates database/migration presence'')
     else if hasSignal i [''financial-calculation'', ''tokenomics'', ''payments'']
     then (HIGH, ''financial/economic correctness''
            # alsoIf (hasSignal i [''authentication'']) ''authenticated access to financial data'')
     else if hasSignal i [''database-migration'']
     then (HIGH, ''schema/data migration''
            # alsoIf (mapHasData m) ''repository map corroborates migration/database presence'')
     else if hasSignal i [''kernel-runtime'', ''state-recovery'', ''offline-first'', ''certification'']
          \<or> (hasSignal i [''event-driven-systems''] \<and> hasSignal i [''contracts''])
     then (HIGH, [''foundational runtime, recovery, offline, contract, or certification surface''])
     else if hasSignal i [''authentication'', ''public-api'', ''infrastructure'']
     then (MEDIUM, [''auth, public contract, or infrastructure signal''])
     else if hasSignal i [''performance-hot-path''] then (MEDIUM, [''latency-sensitive path''])
     else if sensitiveUncertainty i then (MEDIUM, [''material uncertainty in a sensitive affected area''])
     else if touchesMigrations i \<and> mapHasData m \<and> hasSignal i [''database'']
     then (HIGH, [''repository map corroborates migration/database presence''])
     else (LOW, [''no high-risk structured signals in intake'']))"

section \<open>Domains, radius, capability\<close>

text \<open>\<open>add\<close>: an entry is appended unless one with its identifier is there.\<close>

definition addReason :: "string \<Rightarrow> string \<Rightarrow> idReason list \<Rightarrow> idReason list" where
  "addReason i r xs = (if list_ex (\<lambda>x. ir_id x = i) xs then xs else xs @ [\<lparr>ir_id = i, ir_reason = r\<rparr>])"

definition domainReason :: "string \<Rightarrow> string" where
  "domainReason signal =
    (if signal \<in> set DOMAIN_IDS then ''intake domain signal: '' @ signal else ''unlisted domain signal: '' @ signal)"

definition selectDomains :: "normalizedIntake \<Rightarrow> idReason list" where
  "selectDomains i =
    (let named = fold (\<lambda>s. addReason s (domainReason s)) (in_domainSignals i) [];
         selected = (if named = [] then addReason ''general'' ''no stronger domain signal; default general'' named else named)
     in if ''documentation'' \<in> set (in_domainSignals i) \<and> length selected = 1
        then addReason ''documentation'' ''documentation-only request'' selected else selected)"

definition selectContextRadius :: "scopeClass \<Rightarrow> riskLevel \<Rightarrow> contextRadius \<times> string" where
  "selectContextRadius scope risk =
    (if risk = CRITICAL \<or> scope = Architectural
     then (C4, ''architectural/critical: connected subsystems, not repository-wide'')
     else if risk = HIGH \<or> scope = CrossCutting
     then (C3, ''cross-cutting or high risk: dependency neighborhood'')
     else if scope = Local then (C2, ''local module plus focused tests'')
     else if scope = Trivial then (C1, ''trivial change: named/affected files only'')
     else (C2, ''default smallest sufficient module radius''))"

definition selectCapabilityClass :: "riskLevel \<Rightarrow> scopeClass \<Rightarrow> capabilityClass" where
  "selectCapabilityClass risk scope =
    (if risk = CRITICAL then Critical
     else if risk = HIGH \<or> scope = Architectural then Strong
     else if risk = MEDIUM \<or> scope = CrossCutting then Balanced
     else Economy)"

definition TOKEN_BUDGETS :: "capabilityClass \<Rightarrow> int \<times> int" where
  "TOKEN_BUDGETS c = (case c of Economy \<Rightarrow> (8000, 16000) | Balanced \<Rightarrow> (24000, 48000)
     | Strong \<Rightarrow> (48000, 96000) | Critical \<Rightarrow> (64000, 128000))"

section \<open>Scope control\<close>

record scopedWork =
  sw_necessary :: "string list"
  sw_important :: "string list"
  sw_future :: "string list"
  sw_excluded :: "string list"

definition classifyRequestedWork :: "string \<Rightarrow> string list \<Rightarrow> string list \<Rightarrow> string list \<Rightarrow> scopedWork" where
  "classifyRequestedWork objective inScope outOfScope recommendations =
    \<lparr>sw_necessary = (if inScope \<noteq> [] then inScope else [objective]), sw_important = recommendations,
     sw_future = [], sw_excluded = outOfScope\<rparr>"

section \<open>Facts\<close>

lemma addReason_ids [simp]: "set (map ir_id (addReason i r xs)) = insert i (set (map ir_id xs))"
  by (auto simp: addReason_def list_ex_iff)

lemma addReason_distinct: "distinct (map ir_id xs) \<Longrightarrow> distinct (map ir_id (addReason i r xs))"
  by (auto simp: addReason_def list_ex_iff)

lemma fold_addReason:
  "set (map ir_id (fold (\<lambda>s. addReason s (f s)) ss xs)) = set ss \<union> set (map ir_id xs)"
  "distinct (map ir_id xs) \<Longrightarrow> distinct (map ir_id (fold (\<lambda>s. addReason s (f s)) ss xs))"
proof (induction ss arbitrary: xs)
  case (Cons s ss)
  { case 1 then show ?case using Cons(1) [of "addReason s (f s) xs"] by (simp del: set_map) }
  { case 2 then show ?case using Cons(2) [OF addReason_distinct [OF 2]] by simp }
qed simp_all

lemma selected_domains:
  "distinct (map ir_id (selectDomains i))"
  "set (map ir_id (selectDomains i)) = (if in_domainSignals i = [] then {''general''} else set (in_domainSignals i))"
proof -
  let ?named = "fold (\<lambda>s. addReason s (domainReason s)) (in_domainSignals i) []"
  have ids: "set (map ir_id ?named) = set (in_domainSignals i)" "distinct (map ir_id ?named)"
    using fold_addReason [where f = domainReason and ss = "in_domainSignals i" and xs = "[]"] by (simp_all del: set_map)
  have nil: "?named = [] \<longleftrightarrow> in_domainSignals i = []" using ids(1) by (metis list.map_disc_iff set_empty)
  show "distinct (map ir_id (selectDomains i))"
    unfolding selectDomains_def Let_def by (auto intro!: addReason_distinct simp: ids(2))
  show "set (map ir_id (selectDomains i)) = (if in_domainSignals i = [] then {''general''} else set (in_domainSignals i))"
    unfolding selectDomains_def Let_def using ids(1) nil by (auto simp del: set_map)
qed

end
