(* ===== verification/Routing.thy ===== *)
theory Routing
  imports Policy Gates
begin

text \<open>
  \<^verbatim>\<open>src/kernel/routing.ts\<close>: the roles, the gates and the autonomy boundary of a
  request. The table \<open>SPECIALISTS\<close> of that file is read by no code and is left out.
\<close>

section \<open>Roles\<close>

record specialistChoice =
  sc_specialists :: "string list"
  sc_assurance :: "string list"

definition docsOnly :: "string list \<Rightarrow> bool" where
  "docsOnly domains \<longleftrightarrow> domains \<noteq> [] \<and> list_all (\<lambda>d. d = ''documentation'' \<or> d = ''general'') domains"

definition styleOnly :: "scopeClass \<Rightarrow> riskLevel \<Rightarrow> string list \<Rightarrow> string list \<Rightarrow> bool" where
  "styleOnly scope risk domains riskSignals \<longleftrightarrow>
     scope = Trivial \<and> risk = LOW \<and> ''frontend'' \<in> set domains \<and> riskSignals = []"

definition onlyIf :: "bool \<Rightarrow> 'a \<Rightarrow> 'a list" where
  "onlyIf b x = (if b then [x] else [])"

definition RUNTIME_DOMAINS :: "string list" where
  "RUNTIME_DOMAINS = [''rust'', ''kernel-runtime'', ''contracts'', ''event-driven-systems'', ''state-recovery'', ''offline-first'']"

definition selectSpecialists ::
  "normalizedIntake \<Rightarrow> string list \<Rightarrow> scopeClass \<Rightarrow> riskLevel \<Rightarrow> specialistChoice" where
  "selectSpecialists i domains scope risk =
    (let specialists = unique ([''repo-inspector'', ''implementation-planner'', ''checkpoint-manager'']
           @ onlyIf (scope \<noteq> Trivial) ''requirements-engineer''
           @ onlyIf (scope = Architectural \<or> scope = CrossCutting) ''software-architect''
           @ [''implementation-agent'']
           @ onlyIf (\<not> docsOnly domains \<and> \<not> styleOnly scope risk domains (in_riskSignals i)) ''test-engineer''
           @ onlyIf (list_ex (\<lambda>d. d \<in> set RUNTIME_DOMAINS) domains) ''systems-runtime-specialist'');
         assurance = unique ([INDEPENDENT_REVIEWER_ROLE]
           @ onlyIf (risk = HIGH \<or> risk = CRITICAL \<or> ''authentication'' \<in> set (in_riskSignals i)) ''security-reviewer''
           @ onlyIf (''performance-hot-path'' \<in> set (in_riskSignals i) \<or> ''performance'' \<in> set domains) ''performance-reviewer'')
     in \<lparr>sc_specialists = specialists,
         sc_assurance = (if IMPLEMENTER_ROLE \<in> set specialists \<and> assurance = [] then [INDEPENDENT_REVIEWER_ROLE]
                         else assurance)\<rparr>)"

definition assertIndependentReview :: "string list \<Rightarrow> string list \<Rightarrow> uadsError + unit" where
  "assertIndependentReview specialists assurance =
    (if IMPLEMENTER_ROLE \<in> set specialists
     then let reviewers = unique (assurance @ filter (\<lambda>r. r \<noteq> IMPLEMENTER_ROLE \<and> ends_with ''reviewer'' r) specialists)
          in if INDEPENDENT_REVIEWER_ROLE \<notin> set reviewers \<and> ''security-reviewer'' \<notin> set reviewers
             then Inl (PlainError ''implementer cannot be the sole final reviewer'') else Inr ()
     else Inr ())"

section \<open>Gates\<close>

definition addIf :: "bool \<Rightarrow> string \<Rightarrow> string \<Rightarrow> idReason list \<Rightarrow> idReason list" where
  "addIf b i r xs = (if b then addReason i r xs else xs)"

definition baseGates :: "normalizedIntake \<Rightarrow> string list \<Rightarrow> scopeClass \<Rightarrow> idReason list" where
  "baseGates i domains scope =
     addIf (scope \<noteq> Trivial \<or> ''frontend'' \<in> set domains) ''unit-test'' ''focused tests or smoke for the requested change''
       (addReason ''static'' ''static analysis for every planned change'' [])"

text \<open>The gates past the two early returns, in the order of the code.\<close>

definition dependencyPurpose :: string where
  "dependencyPurpose = (case find (\<lambda>g. gd_id g = ''dependency-audit'') GATE_REGISTRY of
     Some g \<Rightarrow> gd_purpose g | None \<Rightarrow> ''dependency/supply-chain audit'')"

definition furtherGates ::
  "normalizedIntake \<Rightarrow> string list \<Rightarrow> scopeClass \<Rightarrow> riskLevel \<Rightarrow> idReason list \<Rightarrow> idReason list" where
  "furtherGates i domains scope risk g0 =
    (let risks = set (in_riskSignals i); D = set domains; signals = set (in_domainSignals i);
         api = ''api'' \<in> D \<or> ''authentication'' \<in> risks;
         data = ''database-migration'' \<in> risks \<or> ''database'' \<in> D;
         chain = ''web3'' \<in> D \<or> ''smart-contracts'' \<in> D;
         g1 = addIf (''dependency'' \<in> risks \<or> ''supply-chain'' \<in> risks \<or> (''release'' \<in> signals \<and> ''dependency'' \<in> risks))
                ''dependency-audit'' dependencyPurpose g0;
         g2 = addIf (scope = Architectural) ''architecture-conformance'' ''architectural scope requires conformance evidence'' g1;
         g3 = addIf (''release'' \<in> D \<or> ''release'' \<in> signals) ''release-check''
                ''release-domain work requires release readiness evidence'' g2;
         g4 = addIf api ''integration-test'' ''authenticated/API path needs integration coverage'' g3;
         g5 = addIf api ''contract-test'' ''public API/contract assertions when applicable'' g4;
         g6 = addIf api ''security-review'' ''auth/API change requires security review'' g5;
         g7 = addIf api ''build'' ''compile the service'' g6;
         g8 = addIf data ''database-migration'' ''migration test for schema change'' g7;
         g9 = addIf data ''rollback-validation'' ''rollback/integrity validation'' g8;
         g10 = addIf chain ''web3-unit'' ''contract unit tests'' g9;
         g11 = addIf chain ''web3-fuzz'' ''fuzz public contract paths'' g10;
         g12 = addIf chain ''web3-invariant'' ''invariant checks for vault/fund accounting'' g11;
         g13 = addIf chain ''security-review'' ''independent security review'' g12;
         g14 = addIf (''financial-calculation'' \<in> risks \<or> ''finance-economics'' \<in> D) ''financial-numerical-validation''
                 ''numerical/edge-case validation'' g13;
         g15 = addIf (''mathematics-simulation'' \<in> D \<or> ''game-systems'' \<in> D) ''simulation-invariant''
                 ''simulation/invariant validation'' g14;
         g16 = addIf (''performance-hot-path'' \<in> risks \<or> ''performance'' \<in> D) ''performance-check''
                 ''hot-path regression check'' g15;
         g17 = addIf (''contracts'' \<in> D \<or> ''event-driven-systems'' \<in> D) ''contract-test''
                 ''systems contracts and event boundaries require contract evidence'' g16;
         g18 = addIf (''state-recovery'' \<in> D \<or> ''offline-first'' \<in> D) ''rollback-validation''
                 ''state recovery and offline behavior require rollback/recovery evidence'' g17
     in addIf (risk = HIGH \<or> risk = CRITICAL) ''security-review'' ''high/critical plans require security assurance'' g18)"

definition selectGates :: "normalizedIntake \<Rightarrow> string list \<Rightarrow> scopeClass \<Rightarrow> riskLevel \<Rightarrow> idReason list" where
  "selectGates i domains scope risk =
    (let base = baseGates i domains scope
     in if ''frontend'' \<in> set (in_domainSignals i) \<and> scope = Trivial
        then addReason ''build'' ''build if the project convention compiles UI assets'' base
        else if ''documentation'' \<in> set domains \<and> scope = Trivial then base
        else furtherGates i domains scope risk base)"

section \<open>Actions that need approval\<close>

text \<open>
  \<open>normalize("NFD")\<close> and the removal of the combining marks: the base letter of an accented one.
  The letters without decomposition stay.
\<close>

definition baseLetter :: "char \<Rightarrow> char" where
  "baseLetter c =
    (let n = (of_char c :: nat) in
     if 192 \<le> n \<and> n \<le> 197 then CHR ''A'' else if n = 199 then CHR ''C''
     else if 200 \<le> n \<and> n \<le> 203 then CHR ''E'' else if 204 \<le> n \<and> n \<le> 207 then CHR ''I''
     else if n = 209 then CHR ''N'' else if 210 \<le> n \<and> n \<le> 214 then CHR ''O''
     else if 217 \<le> n \<and> n \<le> 220 then CHR ''U'' else if n = 221 then CHR ''Y''
     else if 224 \<le> n \<and> n \<le> 229 then CHR ''a'' else if n = 231 then CHR ''c''
     else if 232 \<le> n \<and> n \<le> 235 then CHR ''e'' else if 236 \<le> n \<and> n \<le> 239 then CHR ''i''
     else if n = 241 then CHR ''n'' else if 242 \<le> n \<and> n \<le> 246 then CHR ''o''
     else if 249 \<le> n \<and> n \<le> 252 then CHR ''u'' else if n = 253 \<or> n = 255 then CHR ''y''
     else c)"

definition isAlnum :: "char \<Rightarrow> bool" where
  "isAlnum c \<longleftrightarrow> (let n = (of_char c :: nat) in (97 \<le> n \<and> n \<le> 122) \<or> (48 \<le> n \<and> n \<le> 57))"

text \<open>\<open>replace(/[^a-z0-9]+/g, " ").trim()\<close>\<close>

fun wordsOf :: "string \<Rightarrow> string \<Rightarrow> string list" where
  "wordsOf w [] = (if w = [] then [] else [rev w])"
| "wordsOf w (c # cs) =
     (if isAlnum c then wordsOf (c # w) cs
      else if w = [] then wordsOf [] cs else rev w # wordsOf [] cs)"

definition normalizedApprovalText :: "string \<Rightarrow> string" where
  "normalizedApprovalText value = join_with '' '' (wordsOf [] (to_lower (map baseLetter value)))"

definition approvalCorpus :: "normalizedIntake \<Rightarrow> string" where
  "approvalCorpus i =
     join_with '' '' (filter (\<lambda>t. t \<noteq> []) (map normalizedApprovalText
       (in_objective i # in_constraints i @ in_inScope i @ in_requestedArtifacts i @ in_acceptanceCriteria i
        @ in_domainSignals i @ in_riskSignals i @ in_destructiveSignals i)))"

text \<open>\<open>(?:^| )term(?: |$)\<close> on the corpus: the term between blanks of the padded corpus.\<close>

definition hasApprovalTerm :: "string \<Rightarrow> string list \<Rightarrow> bool" where
  "hasApprovalTerm corpus terms \<longleftrightarrow>
     list_ex (\<lambda>t. includes_text ('' '' @ normalizedApprovalText t @ '' '') ('' '' @ corpus @ '' '')) terms"

definition PRODUCTION_TERMS :: "string list" where
  "PRODUCTION_TERMS = [''production'', ''prod'']"

definition DATABASE_TERMS :: "string list" where
  "DATABASE_TERMS = [''database'', ''db'', ''postgres'', ''sql'', ''schema'', ''table'', ''migration'']"

definition WEB3_TERMS :: "string list" where
  "WEB3_TERMS = [''web3'', ''blockchain'', ''on chain'', ''onchain'', ''smart contract'', ''wallet'', ''solidity'']"

definition INFRASTRUCTURE_TERMS :: "string list" where
  "INFRASTRUCTURE_TERMS = [''infrastructure'', ''external infrastructure'', ''cloud'', ''kubernetes'', ''terraform'',
     ''aws'', ''gcp'', ''azure'']"

definition DESTRUCTIVE_TERMS :: "string list" where
  "DESTRUCTIVE_TERMS = [''destructive'', ''drop'', ''truncate'', ''delete'', ''destroy'', ''wipe'', ''reset hard'']"

definition DEPLOYMENT_TERMS :: "string list" where
  "DEPLOYMENT_TERMS = [''deploy'', ''deployment'', ''rollout'', ''roll out'', ''promote'', ''promoting'', ''promotion'']"

definition TRANSFER_TERMS :: "string list" where
  "TRANSFER_TERMS = [''transfer'', ''transferring'', ''send'', ''withdraw'', ''withdrawal'', ''payout'', ''deposit'',
     ''bridge'', ''swap'']"

definition ASSET_TERMS :: "string list" where
  "ASSET_TERMS = [''asset'', ''assets'', ''fund'', ''funds'', ''money'', ''token'', ''tokens'']"

definition ON_CHAIN_TERMS :: "string list" where
  "ON_CHAIN_TERMS = [''transaction'', ''execute'', ''submit'', ''sign'', ''broadcast'', ''mint'', ''burn'', ''transfer'',
     ''withdraw'', ''send'', ''swap'', ''deploy contract'']"

definition CREDENTIAL_TERMS :: "string list" where
  "CREDENTIAL_TERMS = [''credential'', ''credentials'', ''secret'', ''secrets'', ''api key'', ''api keys'', ''access key'',
     ''real credentials'']"

definition ROTATION_TERMS :: "string list" where
  "ROTATION_TERMS = [''rotate'', ''rotation'', ''rotating'', ''regenerate'']"

definition GIT_TERMS :: "string list" where
  "GIT_TERMS = [''git'', ''git history'', ''force push'', ''rebase'', ''reset hard'']"

definition HISTORY_TERMS :: "string list" where
  "HISTORY_TERMS = [''rewrite history'', ''history rewrite'', ''rewrite git history'', ''force push'', ''rebase'',
     ''reset hard'', ''filter branch'']"

definition PACKAGE_TERMS :: "string list" where
  "PACKAGE_TERMS = [''package'', ''packages'', ''npm'', ''release'', ''releases'', ''registry'']"

definition PUBLISH_TERMS :: "string list" where
  "PUBLISH_TERMS = [''publish'', ''publishing'', ''publication'', ''cut a release'', ''cut release'']"

definition COST_TERMS :: "string list" where
  "COST_TERMS = [''spend'', ''spending'', ''money'', ''cost'', ''costs'', ''paid'', ''billing'', ''budget'', ''material cost'',
     ''availability impact'', ''purchase'']"

text \<open>The fixed order of the actions, and when each one is active.\<close>

definition ACTIVE_APPROVAL_GATED_ACTIONS :: "activeApprovalGatedAction list" where
  "ACTIVE_APPROVAL_GATED_ACTIONS =
    [ProductionDeployment, DestructiveProductionDatabaseOperation, SpendingMoney, RotatingRealCredentials,
     DestructiveGitHistoryRewrite, PublishingPackageRelease, TransferringAssets, OnChainTransaction]"

definition actionActive :: "string \<Rightarrow> activeApprovalGatedAction \<Rightarrow> bool" where
  "actionActive corpus action \<longleftrightarrow>
    (let has = hasApprovalTerm corpus in
     case action of
       ProductionDeployment \<Rightarrow> has PRODUCTION_TERMS \<and> has DEPLOYMENT_TERMS
     | DestructiveProductionDatabaseOperation \<Rightarrow> has PRODUCTION_TERMS \<and> has DATABASE_TERMS \<and> has DESTRUCTIVE_TERMS
     | SpendingMoney \<Rightarrow> has INFRASTRUCTURE_TERMS \<and> has COST_TERMS
     | RotatingRealCredentials \<Rightarrow> has CREDENTIAL_TERMS \<and> has ROTATION_TERMS
     | DestructiveGitHistoryRewrite \<Rightarrow> has GIT_TERMS \<and> has HISTORY_TERMS
     | PublishingPackageRelease \<Rightarrow> has PUBLISH_TERMS \<and> has PACKAGE_TERMS
     | TransferringAssets \<Rightarrow> has TRANSFER_TERMS \<and> has ASSET_TERMS
     | OnChainTransaction \<Rightarrow> has WEB3_TERMS \<and> has ON_CHAIN_TERMS)"

definition classifyActiveApprovalGatedActions :: "normalizedIntake \<Rightarrow> activeApprovalGatedAction list" where
  "classifyActiveApprovalGatedActions i = filter (actionActive (approvalCorpus i)) ACTIVE_APPROVAL_GATED_ACTIONS"

definition SENSITIVE_TERMS :: "string list" where
  "SENSITIVE_TERMS =
    [''production'', ''prod'', ''database'', ''db'', ''postgres'', ''sql'', ''schema'', ''table'', ''migration'',
     ''web3'', ''blockchain'', ''on chain'', ''onchain'', ''smart contract'', ''wallet'', ''solidity'',
     ''infrastructure'', ''external infrastructure'', ''cloud'', ''kubernetes'', ''terraform'', ''aws'', ''gcp'', ''azure'',
     ''credential'', ''credentials'', ''secret'', ''secrets'', ''api key'', ''access key'',
     ''git'', ''git history'', ''force push'', ''rebase'',
     ''package'', ''packages'', ''npm'', ''release'', ''releases'', ''registry'',
     ''asset'', ''assets'', ''fund'', ''funds'', ''money'', ''token'', ''tokens'']"

definition OPERATION_TERMS :: "string list" where
  "OPERATION_TERMS =
    [''change'', ''modify'', ''update'', ''alter'', ''operate'', ''execute'', ''run'', ''apply'', ''migrate'',
     ''remove'', ''delete'', ''drop'', ''deploy'', ''provision'', ''rotate'', ''rotation'', ''regenerate'',
     ''publish'', ''publishing'', ''publication'', ''transfer'', ''send'', ''spend'', ''spending'',
     ''rewrite'', ''reset'', ''sign'', ''broadcast'', ''create'', ''destroy'', ''wipe'', ''truncate'',
     ''cut release'', ''rollout'', ''promote'', ''promoting'', ''promotion'', ''swap'', ''withdraw'', ''payout'',
     ''deposit'', ''bridge'', ''purchase'', ''billing'']"

definition isActiveApprovalIntentAmbiguous :: "normalizedIntake \<Rightarrow> bool" where
  "isActiveApprovalIntentAmbiguous i \<longleftrightarrow>
     classifyActiveApprovalGatedActions i = [] \<and> hasApprovalTerm (approvalCorpus i) SENSITIVE_TERMS
     \<and> hasApprovalTerm (approvalCorpus i) OPERATION_TERMS"

definition autonomyBoundaryOf :: "normalizedIntake \<Rightarrow> autonomyBoundary" where
  "autonomyBoundaryOf i =
    (let risks = set (in_riskSignals i);
         extra = onlyIf (in_destructiveSignals i \<noteq> [] \<or> ''destructive'' \<in> risks) ''destructive production database operation''
           @ (if ''web3'' \<in> set (in_domainSignals i) \<or> ''web3'' \<in> risks
              then [''transferring assets/funds'', ''on-chain transaction execution''] else [])
           @ (if ''infrastructure'' \<in> risks
              then [''production deployment'', ''changing external infrastructure with material cost/availability impact''] else [])
     in \<lparr>ab_safeAutonomous =
           [''repository reads'', ''local code edits'', ''local tests'', ''lint/typecheck/build'', ''review-bundle generation'',
            ''non-destructive Git inspection'', ''normal commits/pushes in an authorized workflow''],
         ab_requiresApproval = unique (extra @ [''production deployment'', ''spending money'', ''rotating real credentials'',
            ''destructive Git history rewrite'', ''publishing packages/releases when not already authorized'']),
         ab_activeApprovalGatedActions = classifyActiveApprovalGatedActions i,
         ab_activeApprovalIntentAmbiguous = isActiveApprovalIntentAmbiguous i\<rparr>)"

end
