(* ===== verification/Planning_Properties.thy ===== *)
theory Planning_Properties
  imports Routing Assurance_Policy
begin

text \<open>
  What the policy of a plan guarantees: the selected roles can always review the work
  independently, the selected gates are known gates, and work on funds, contracts or
  production data gets the strongest control.
\<close>

section \<open>Gates\<close>

definition gateIds :: "idReason list \<Rightarrow> string list" where
  "gateIds gates = map ir_id gates"

definition knownGates :: "idReason list \<Rightarrow> bool" where
  "knownGates gates \<longleftrightarrow> distinct (gateIds gates) \<and> set (gateIds gates) \<subseteq> set MANDATORY_GATE_IDS
     \<and> ''static'' \<in> set (gateIds gates)"

lemma set_gateIds_add [simp]: "set (gateIds (addReason i r xs)) = insert i (set (gateIds xs))"
  by (simp only: gateIds_def addReason_ids)

lemma set_gateIds_addIf [simp]:
  "set (gateIds (addIf b i r xs)) = (if b then insert i (set (gateIds xs)) else set (gateIds xs))"
  by (simp add: addIf_def)

lemma knownGates_add: "knownGates xs \<Longrightarrow> i \<in> set MANDATORY_GATE_IDS \<Longrightarrow> knownGates (addReason i r xs)"
  using addReason_distinct [of xs i r] by (simp add: knownGates_def) (simp add: gateIds_def)

lemma knownGates_addIf: "knownGates xs \<Longrightarrow> i \<in> set MANDATORY_GATE_IDS \<Longrightarrow> knownGates (addIf b i r xs)"
  by (simp add: addIf_def knownGates_add)

lemma mandatory_ids:
  "MANDATORY_GATE_IDS = [''static'', ''unit-test'', ''integration-test'', ''contract-test'', ''build'', ''security-review'',
     ''dependency-audit'', ''performance-check'', ''architecture-conformance'', ''database-migration'',
     ''rollback-validation'', ''web3-unit'', ''web3-fuzz'', ''web3-invariant'', ''financial-numerical-validation'',
     ''simulation-invariant'', ''release-check'']"
  by code_simp

lemma base_gates_known: "knownGates (baseGates i domains scope)"
proof -
  have "knownGates (addReason ''static'' r [])" for r
    by (simp add: knownGates_def mandatory_ids) (simp add: gateIds_def addReason_def)
  then show ?thesis unfolding baseGates_def by (rule knownGates_addIf) (simp add: mandatory_ids)
qed

lemma further_gates_known: "knownGates xs \<Longrightarrow> knownGates (furtherGates i domains scope risk xs)"
  unfolding furtherGates_def Let_def by (intro knownGates_addIf) (simp_all add: mandatory_ids)

lemma select_gates_known: "knownGates (selectGates i domains scope risk)"
  unfolding selectGates_def Let_def
  by (simp add: knownGates_add base_gates_known further_gates_known mandatory_ids)

text \<open>The two early returns of \<open>selectGates\<close>.\<close>

definition gatesCutShort :: "normalizedIntake \<Rightarrow> string list \<Rightarrow> scopeClass \<Rightarrow> bool" where
  "gatesCutShort i domains scope \<longleftrightarrow>
     scope = Trivial \<and> (''frontend'' \<in> set (in_domainSignals i) \<or> ''documentation'' \<in> set domains)"

lemma security_gate_in_base: "''security-review'' \<notin> set (gateIds (baseGates i domains scope))"
  by (auto simp: baseGates_def) (auto simp: gateIds_def)

lemma security_gate_iff:
  assumes "risk = HIGH \<or> risk = CRITICAL"
  shows "''security-review'' \<in> set (gateIds (selectGates i domains scope risk)) \<longleftrightarrow> \<not> gatesCutShort i domains scope"
  using assms security_gate_in_base [of i domains scope]
  by (auto simp: selectGates_def Let_def furtherGates_def gatesCutShort_def)

section \<open>Roles\<close>

definition plannedReviewers :: "normalizedIntake \<Rightarrow> string list \<Rightarrow> riskLevel \<Rightarrow> string list" where
  "plannedReviewers i domains risk =
     unique ([INDEPENDENT_REVIEWER_ROLE]
       @ onlyIf (risk = HIGH \<or> risk = CRITICAL \<or> ''authentication'' \<in> set (in_riskSignals i)) ''security-reviewer''
       @ onlyIf (''performance-hot-path'' \<in> set (in_riskSignals i) \<or> ''performance'' \<in> set domains) ''performance-reviewer'')"

lemma set_onlyIf [simp]: "set (onlyIf b x) = (if b then {x} else {})"
  by (cases b) (simp_all add: onlyIf_def)

lemma set_planned_reviewers:
  "set (plannedReviewers i domains risk) = {INDEPENDENT_REVIEWER_ROLE}
     \<union> (if risk = HIGH \<or> risk = CRITICAL \<or> ''authentication'' \<in> set (in_riskSignals i) then {''security-reviewer''} else {})
     \<union> (if ''performance-hot-path'' \<in> set (in_riskSignals i) \<or> ''performance'' \<in> set domains then {''performance-reviewer''} else {})"
  unfolding plannedReviewers_def by (simp add: INDEPENDENT_REVIEWER_ROLE_def insert_Diff_if)

lemma selected_assurance: "sc_assurance (selectSpecialists i domains scope risk) = plannedReviewers i domains risk"
proof -
  have "plannedReviewers i domains risk \<noteq> []" using set_planned_reviewers [of i domains risk] by auto
  then show ?thesis by (simp add: selectSpecialists_def Let_def plannedReviewers_def)
qed

lemma implementer_selected: "IMPLEMENTER_ROLE \<in> set (sc_specialists (selectSpecialists i domains scope risk))"
  by (simp add: selectSpecialists_def Let_def IMPLEMENTER_ROLE_def)

lemma selected_can_review:
  "assertIndependentReview (sc_specialists (selectSpecialists i domains scope risk))
     (sc_assurance (selectSpecialists i domains scope risk)) = Inr ()"
  by (auto simp: assertIndependentReview_def Let_def selected_assurance set_planned_reviewers INDEPENDENT_REVIEWER_ROLE_def)

section \<open>Properties\<close>

text \<open>C37: whatever the intake, the selected roles implement and can review independently, so the guard
  against a sole reviewer never refuses them; the selected gates are distinct gates of the registry
  with static analysis among them.\<close>

theorem planned_roles_and_gates:
  "assertIndependentReview (sc_specialists (selectSpecialists i domains scope risk))
     (sc_assurance (selectSpecialists i domains scope risk)) = Inr ()
   \<and> IMPLEMENTER_ROLE \<in> set (sc_specialists (selectSpecialists i domains scope risk))
   \<and> distinct (map ir_id (selectGates i domains scope risk))
   \<and> set (map ir_id (selectGates i domains scope risk)) \<subseteq> set MANDATORY_GATE_IDS
   \<and> ''static'' \<in> set (map ir_id (selectGates i domains scope risk))"
  using selected_can_review implementer_selected select_gates_known [of i domains scope risk]
  by (simp only: knownGates_def gateIds_def)

text \<open>C38: work that touches funds or contracts or mutates production data is CRITICAL whatever the
  repository looks like: the widest radius but the exceptional one, the critical capability class
  with its token budget, the security reviewer, and the security gate unless the request is also
  classified as a trivial presentation or documentation change.\<close>

theorem critical_work_controlled:
  assumes "touchesContracts i \<or> mutatesProduction i"
  shows "fst (classifyRisk i m) = CRITICAL
    \<and> fst (selectContextRadius scope CRITICAL) = C4
    \<and> TOKEN_BUDGETS (selectCapabilityClass CRITICAL scope) = (64000, 128000)
    \<and> ''security-reviewer'' \<in> set (sc_assurance (selectSpecialists i domains scope CRITICAL))
    \<and> (''security-review'' \<in> set (map ir_id (selectGates i domains scope CRITICAL)) \<longleftrightarrow> \<not> gatesCutShort i domains scope)"
  using assms security_gate_iff [of CRITICAL i domains scope]
  by (auto simp: classifyRisk_def selectContextRadius_def selectCapabilityClass_def TOKEN_BUDGETS_def
      selected_assurance set_planned_reviewers gateIds_def)

definition vaultIntake :: normalizedIntake where
  "vaultIntake = classifiedIntake ''change the vault withdrawal limit''"

lemma critical_work_controlled_witness:
  "(\<forall>m. fst (classifyRisk vaultIntake m) = CRITICAL)
   \<and> ''security-review'' \<in> set (map ir_id (selectGates vaultIntake [''web3''] CrossCutting CRITICAL))"
proof -
  have "touchesContracts vaultIntake" by code_simp
  then have "touchesContracts vaultIntake \<or> mutatesProduction vaultIntake" ..
  from critical_work_controlled [OF this, of _ CrossCutting "[''web3'']"] show ?thesis
    by (simp add: gatesCutShort_def)
qed

text \<open>C39: \<open>selectGates\<close> returns early for a change of trivial scope with a frontend signal or the documentation
  domain (\<open>gatesCutShort\<close>), also when the risk is HIGH or CRITICAL. The obligations of the plan of
  such a request then demand the security reviewer without the
  gate it must back its approval with, and the assurance policy never lets such a run be finalized.\<close>

theorem trivial_high_risk_deadlock:
  assumes "risk = HIGH \<or> risk = CRITICAL" "gatesCutShort i domains scope"
    and "ai_mode I = FinalizeMode"
    and "run_selectedGates (ai_run I) = map ir_id (selectGates i domains scope risk)"
    and "si_riskLevel R = risk" "set (assuranceRolesOf R) \<subseteq> set (run_requiredReviewers (ai_run I))"
  shows "\<not> ar_allowed (evaluateAssurancePolicy H I)"
proof
  let ?role = "''security-reviewer''"
  assume allowed: "ar_allowed (evaluateAssurancePolicy H I)"
  have "?role \<in> set (run_requiredReviewers (ai_run I))"
    using assms(1,5,6) by (auto simp: in_assurance_roles securityRequired_def)
  from finalize_approvals [OF allowed assms(3) this] have "hasRelevantEvidence I ?role"
    by (auto simp: approvalProven_def)
  moreover have "''security-review'' \<notin> set (run_selectedGates (ai_run I))"
    using security_gate_iff [OF assms(1), of i domains scope] assms(2,4) by (simp add: gateIds_def)
  ultimately show False
    by (auto simp: hasRelevantEvidence_def requiredRoleGate_def split: option.splits if_splits)
qed

definition paymentButton :: normalizedIntake where
  "paymentButton = classifiedIntake ''fix typo in payment button''"

definition demoTrivial :: assurancePolicyInput where
  "demoTrivial = demoAssurance\<lparr>ai_run := demoRun\<lparr>
     run_selectedGates := map ir_id (selectGates paymentButton [''frontend'', ''documentation''] Trivial HIGH),
     run_requiredReviewers := assuranceRolesOf (demoRoutingInput\<lparr>si_riskLevel := HIGH\<rparr>)\<rparr>\<rparr>"

lemma trivial_high_risk_deadlock_witness:
  "scopeClassOf paymentButton = (Trivial, [''documentation/wording change''])
   \<and> (\<forall>m. fst (classifyRisk paymentButton m) = HIGH)
   \<and> \<not> ar_allowed (evaluateAssurancePolicy plain_host demoTrivial)"
proof (intro conjI)
  show "scopeClassOf paymentButton = (Trivial, [''documentation/wording change''])" by code_simp
  have "\<not> touchesContracts paymentButton" "\<not> mutatesProduction paymentButton"
    "hasSignal paymentButton [''financial-calculation'', ''tokenomics'', ''payments'']" by code_simp+
  then show "\<forall>m. fst (classifyRisk paymentButton m) = HIGH" by (simp add: classifyRisk_def)
  show "\<not> ar_allowed (evaluateAssurancePolicy plain_host demoTrivial)"
  proof (rule trivial_high_risk_deadlock)
    show "(HIGH::riskLevel) = HIGH \<or> HIGH = CRITICAL" by simp
    show "gatesCutShort paymentButton [''frontend'', ''documentation''] Trivial" by (simp add: gatesCutShort_def)
    show "si_riskLevel (demoRoutingInput\<lparr>si_riskLevel := HIGH\<rparr>) = HIGH" by simp
  qed (simp_all add: demoTrivial_def demoAssurance_def)
qed

end
