(* ===== verification/Specialist_Digest.thy ===== *)
theory Specialist_Digest
  imports Specialist_Obligations
begin

text \<open>
  The JSON texts whose digests identify a registry, the routing policy and a routing input
  (\<^verbatim>\<open>src/kernel/specialist-registry.ts\<close>, \<^verbatim>\<open>specialist-router.ts\<close>,
  \<^verbatim>\<open>specialist-obligations.ts\<close>). A member whose value is \<open>undefined\<close> is not printed.
\<close>

section \<open>Profiles and the registry\<close>

definition scope_text :: "scopeClass \<Rightarrow> string" where
  "scope_text s = (case s of Trivial \<Rightarrow> ''trivial'' | Local \<Rightarrow> ''local'' | CrossCutting \<Rightarrow> ''cross-cutting''
     | Architectural \<Rightarrow> ''architectural'')"

definition status_text :: "specialistStatus \<Rightarrow> string" where
  "status_text s = (case s of SpEnabled \<Rightarrow> ''enabled'' | SpDisabled \<Rightarrow> ''disabled'' | SpExperimental \<Rightarrow> ''experimental'')"

definition source_text :: "specialistSource \<Rightarrow> string" where
  "source_text s = (case s of BuiltinProfile \<Rightarrow> ''builtin'' | UserProfile \<Rightarrow> ''user-config'' | AdapterProfile \<Rightarrow> ''adapter'')"

definition function_text :: "specialistFunction \<Rightarrow> string" where
  "function_text f = (case f of InspectFn \<Rightarrow> ''inspect'' | RequirementsFn \<Rightarrow> ''requirements''
     | ArchitectureFn \<Rightarrow> ''architecture'' | PlanningFn \<Rightarrow> ''planning'' | ImplementationFn \<Rightarrow> ''implementation''
     | TestingFn \<Rightarrow> ''testing'' | IndependentReviewFn \<Rightarrow> ''independent-review''
     | SecurityAssuranceFn \<Rightarrow> ''security-assurance'' | PerformanceAssuranceFn \<Rightarrow> ''performance-assurance''
     | ReliabilityAssuranceFn \<Rightarrow> ''reliability-assurance'' | CheckpointFn \<Rightarrow> ''checkpoint'' | FrontendFn \<Rightarrow> ''frontend''
     | BackendApiFn \<Rightarrow> ''backend-api'' | DatabaseFn \<Rightarrow> ''database'' | MobileFn \<Rightarrow> ''mobile''
     | PlatformCloudFn \<Rightarrow> ''platform-cloud'' | DataAiFn \<Rightarrow> ''data-ai'' | Web3ContractFn \<Rightarrow> ''web3-contract''
     | FinanceMathFn \<Rightarrow> ''finance-math'' | GameSystemsFn \<Rightarrow> ''game-systems'' | DocumentationFn \<Rightarrow> ''documentation''
     | ReleaseFn \<Rightarrow> ''release'' | QualityFn \<Rightarrow> ''quality'' | SystemsRuntimeFn \<Rightarrow> ''systems-runtime'')"

definition optional_member :: "string \<Rightarrow> json option \<Rightarrow> (string \<times> json) list" where
  "optional_member key v = (case v of None \<Rightarrow> [] | Some j \<Rightarrow> [(key, j)])"

definition activationJson :: "specialistActivation \<Rightarrow> json" where
  "activationJson a = JObj
     (optional_member ''scopeClasses'' (map_option (\<lambda>xs. jstrs (map scope_text xs)) (ac_scopeClasses a))
      @ optional_member ''minRisk'' (map_option (\<lambda>r. JStr (risk_text r)) (ac_minRisk a))
      @ optional_member ''domainAny'' (map_option jstrs (ac_domainAny a))
      @ optional_member ''riskSignalsAny'' (map_option jstrs (ac_riskSignalsAny a))
      @ optional_member ''gatesAny'' (map_option jstrs (ac_gatesAny a))
      @ optional_member ''affectedAreaAny'' (map_option jstrs (ac_affectedAreaAny a)))"

definition profileMembers :: "specialistProfile \<Rightarrow> (string \<times> json) list" where
  "profileMembers p =
     [(''schema'', JStr ''uads.specialist-profile''), (''schemaVersion'', JStr ''0.9.0''),
      (''specialistId'', JStr (sp_specialistId p)), (''kind'', JStr (kind_text (sp_kind p))),
      (''status'', JStr (status_text (sp_status p))), (''purpose'', JStr (sp_purpose p)),
      (''coveredDomains'', jstrs (sp_coveredDomains p)), (''functions'', jstrs (map function_text (sp_functions p))),
      (''mayImplement'', JBool (sp_mayImplement p)), (''reviewOnly'', JBool (sp_reviewOnly p)),
      (''independenceClass'', JStr (independence_text (sp_independenceClass p))),
      (''activation'', activationJson (sp_activation p)), (''requiredInputs'', jstrs (sp_requiredInputs p)),
      (''producesEvidence'', jstrs (sp_producesEvidence p)), (''incompatibleWith'', jstrs (sp_incompatibleWith p)),
      (''priority'', JInt (int (sp_priority p))), (''source'', JStr (source_text (sp_source p))),
      (''notes'', jstr_opt (sp_notes p))]"

definition computeSpecialistProfileDigest :: "'h host_scheme \<Rightarrow> specialistProfile \<Rightarrow> string" where
  "computeSpecialistProfileDigest H p = sha256Json H (JObj (profileMembers p))"

definition profileJson :: "specialistProfile \<Rightarrow> json" where
  "profileJson p = JObj (profileMembers p @ [(''profileDigest'', JStr (sp_profileDigest p))])"

definition SPECIALIST_POLICY_VERSION :: string where
  "SPECIALIST_POLICY_VERSION = ''0.9.0''"

definition byId :: "'h host_scheme \<Rightarrow> specialistProfile list \<Rightarrow> specialistProfile list" where
  "byId H ps = sort_with (\<lambda>a b. locale_le H (sp_specialistId a) (sp_specialistId b)) ps"

definition computeSpecialistRegistryDigest :: "'h host_scheme \<Rightarrow> specialistProfile list \<Rightarrow> string" where
  "computeSpecialistRegistryDigest H ps = sha256Json H (JObj
     [(''schema'', JStr ''uads.specialist-registry''), (''schemaVersion'', JStr ''0.9.0''),
      (''policyVersion'', JStr SPECIALIST_POLICY_VERSION), (''profiles'', JArr (map profileJson (byId H ps)))])"

section \<open>The routing policy\<close>

definition requirementJson :: "gateRequirement \<Rightarrow> json" where
  "requirementJson q = JObj [(''functions'', jstrs (map function_text (gq_functions q))),
     (''assurance'', JBool (gq_assurance q)), (''aliases'', jstrs (gq_aliases q))]"

definition obligationContractJson :: json where
  "obligationContractJson = JArr (map (\<lambda>g. JObj
     ([(''id'', JStr (gd_id g)), (''evidence'', JStr (gd_evidence g)),
       (''contractKind'', JStr (contract_kind_text (gd_contractKind g))),
       (''reviewerRole'', jstr_opt (gd_reviewerRole g))]
      @ optional_member ''requirement'' (map_option requirementJson (GATE_REQUIREMENTS (gd_id g))))) GATE_REGISTRY)"

definition SPECIALIST_OBLIGATION_CONTRACT_DIGEST :: "'h host_scheme \<Rightarrow> string" where
  "SPECIALIST_OBLIGATION_CONTRACT_DIGEST H = sha256Json H obligationContractJson"

definition MAX_SELECTED :: nat where
  "MAX_SELECTED = 32"

definition policyJson :: "'h host_scheme \<Rightarrow> json" where
  "policyJson H = JObj
     [(''schema'', JStr ''uads.specialist-routing-policy''), (''policyVersion'', JStr ''0.9.0''),
      (''obligationPolicyVersion'', JStr ''0.9.1''),
      (''obligationContractDigest'', JStr (SPECIALIST_OBLIGATION_CONTRACT_DIGEST H)),
      (''maxProfiles'', JInt 64), (''maxSelected'', JInt (int MAX_SELECTED)),
      (''algorithm'', JStr ''bounded-deterministic-greedy''),
      (''mandatoryCoreOrder'', jstrs [''repo-inspector'', ''implementation-planner'', ''checkpoint-manager'',
         ''requirements-engineer'', ''software-architect'', ''implementation-agent'', ''test-engineer'']),
      (''assuranceOrder'', jstrs [''independent-reviewer'', ''security-reviewer'', ''performance-reviewer'', ''reliability-reviewer'']),
      (''forbiddenParallelPairs'', JArr (map (\<lambda>r. jstrs [''implementation-agent'', r])
         [''independent-reviewer'', ''security-reviewer'', ''performance-reviewer'', ''reliability-reviewer'']))]"

definition SPECIALIST_POLICY_DIGEST :: "'h host_scheme \<Rightarrow> string" where
  "SPECIALIST_POLICY_DIGEST H = sha256Json H (policyJson H)"

section \<open>The routing input\<close>

definition sortedStrs :: "'h host_scheme \<Rightarrow> string list \<Rightarrow> json" where
  "sortedStrs H xs = jstrs (sortedUnique H xs)"

definition dependency_source_text :: "dependencySource \<Rightarrow> string" where
  "dependency_source_text s = (case s of ScopeClassifier \<Rightarrow> ''scope-classifier'' | ImpactReport \<Rightarrow> ''impact-report''
     | HostStructuredSource \<Rightarrow> ''host-structured'')"

definition dependencySignalsJson :: "specialistDependencySignals option \<Rightarrow> json" where
  "dependencySignalsJson d = (case d of None \<Rightarrow> JNull
     | Some s \<Rightarrow> JObj [(''crossCutting'', JBool (dep_crossCutting s)), (''source'', JStr (dependency_source_text (dep_source s)))])"

definition canonicalInput :: "'h host_scheme \<Rightarrow> specialistRoutingInput \<Rightarrow> json" where
  "canonicalInput H I = JObj
     [(''projectId'', JStr (si_projectId I)), (''objective'', JStr (si_objective I)),
      (''constraints'', sortedStrs H (si_constraints I)), (''inScope'', sortedStrs H (si_inScope I)),
      (''outOfScope'', sortedStrs H (si_outOfScope I)), (''acceptanceCriteria'', sortedStrs H (si_acceptanceCriteria I)),
      (''domains'', sortedStrs H (si_domains I)), (''scopeClass'', JStr (scope_text (si_scopeClass I))),
      (''riskLevel'', JStr (risk_text (si_riskLevel I))), (''riskSignals'', sortedStrs H (si_riskSignals I)),
      (''riskReasons'', sortedStrs H (si_riskReasons I)), (''affectedAreas'', sortedStrs H (si_affectedAreas I)),
      (''gates'', sortedStrs H (si_gates I)), (''requiredEvidence'', sortedStrs H (si_requiredEvidence I)),
      (''dependencyInfo'', sortedStrs H (si_dependencyInfo I)),
      (''dependencySignals'', dependencySignalsJson (si_dependencySignals I)),
      (''changeDigest'', jstr_opt (si_changeDigest I)), (''impactDigest'', jstr_opt (si_impactDigest I)),
      (''gateContractDigest'', jstr_opt (si_gateContractDigest I))]"

definition computeSpecialistRoutingDigest :: "'h host_scheme \<Rightarrow> specialistRoutingInput \<Rightarrow> string" where
  "computeSpecialistRoutingDigest H I = sha256Json H (canonicalInput H I)"

definition computeSpecialistWorkOrderDigest :: "'h host_scheme \<Rightarrow> specialistRoutingInput \<Rightarrow> string" where
  "computeSpecialistWorkOrderDigest H I = sha256Json H (JObj
     [(''objective'', JStr (si_objective I)), (''constraints'', sortedStrs H (si_constraints I)),
      (''inScope'', sortedStrs H (si_inScope I)), (''outOfScope'', sortedStrs H (si_outOfScope I)),
      (''acceptanceCriteria'', sortedStrs H (si_acceptanceCriteria I)),
      (''requiredEvidence'', sortedStrs H (si_requiredEvidence I)), (''dependencyInfo'', sortedStrs H (si_dependencyInfo I))])"

definition gateDefJson :: "gateDef \<Rightarrow> json" where
  "gateDefJson g = JObj
     ([(''id'', JStr (gd_id g)), (''evidence'', JStr (gd_evidence g)), (''purpose'', JStr (gd_purpose g)),
       (''contractKind'', JStr (contract_kind_text (gd_contractKind g))),
       (''allowedEvidenceKinds'', jstrs (map evidence_kind_text (gd_allowedEvidenceKinds g))),
       (''requiresExitCodeZero'', JBool (gd_requiresExitCodeZero g)),
       (''requiresOutputDigest'', JBool (gd_requiresOutputDigest g))]
      @ optional_member ''reviewerRole'' (map_option JStr (gd_reviewerRole g)))"

definition computeSpecialistGateContractDigest :: "'h host_scheme \<Rightarrow> idReason list \<Rightarrow> string" where
  "computeSpecialistGateContractDigest H gates = sha256Json H (JArr (map (\<lambda>g. JObj
     [(''id'', JStr (ir_id g)), (''reason'', JStr (ir_reason g)),
      (''definition'', case lookupGate (ir_id g) of None \<Rightarrow> JNull | Some d \<Rightarrow> gateDefJson d)]) gates))"

end
