(* ===== verification/Specialist_Router.thy ===== *)
theory Specialist_Router
  imports Specialist_Digest Execution_Types
begin

text \<open>
  \<^verbatim>\<open>src/kernel/specialist-router.ts\<close>: the mandatory core, the greedy loop that adds the
  profile covering most of the open obligations, coverage, conflicts and rejections, the
  assignments with their dependency groups, and the plan with its digest.
\<close>

section \<open>Eligibility\<close>

definition any_in :: "string list option \<Rightarrow> string list \<Rightarrow> bool" where
  "any_in wanted given = (case wanted of None \<Rightarrow> False | Some xs \<Rightarrow> list_ex (\<lambda>x. x \<in> set given) xs)"

definition activationMatches :: "specialistProfile \<Rightarrow> specialistRoutingInput \<Rightarrow> bool" where
  "activationMatches p I =
    (let a = sp_activation p in
     if (case ac_scopeClasses a of None \<Rightarrow> False | Some cs \<Rightarrow> si_scopeClass I \<notin> set cs) then False
     else if (case ac_minRisk a of None \<Rightarrow> False | Some r \<Rightarrow> si_riskLevel I < r) then False
     else (ac_domainAny a = None \<and> ac_riskSignalsAny a = None \<and> ac_gatesAny a = None \<and> ac_affectedAreaAny a = None)
        \<or> any_in (ac_domainAny a) (si_domains I) \<or> any_in (ac_riskSignalsAny a) (si_riskSignals I)
        \<or> any_in (ac_gatesAny a) (si_gates I) \<or> any_in (ac_affectedAreaAny a) (si_affectedAreas I))"

text \<open>The reason why a profile is not eligible; \<open>None\<close> when it is.\<close>

definition operationalEligible :: "specialistProfile \<Rightarrow> specialistRoutingInput \<Rightarrow> string option" where
  "operationalEligible p I =
    (if sp_status p = SpDisabled then Some ''SPECIALIST_DISABLED''
     else if sp_status p = SpExperimental \<and> \<not> si_allowExperimental I then Some ''SPECIALIST_EXPERIMENTAL_NOT_ALLOWED''
     else if \<not> activationMatches p I then Some ''MINIMUM_SUFFICIENT_SET''
     else None)"

definition experimentalRefused :: "specialistProfile \<Rightarrow> specialistRoutingInput \<Rightarrow> specialistObligation \<Rightarrow> bool" where
  "experimentalRefused p I item \<longleftrightarrow> sp_status p = SpExperimental
     \<and> (\<not> si_allowExperimental I
        \<or> (si_riskLevel I = CRITICAL \<and> (ob_kind item = AssuranceOb \<or> sp_independenceClass p = AssuranceClass)))"

definition obligationEligibility :: "specialistProfile \<Rightarrow> specialistRoutingInput \<Rightarrow> specialistObligation \<Rightarrow> string option" where
  "obligationEligibility p I item =
    (if sp_status p = SpDisabled then Some ''SPECIALIST_DISABLED''
     else if experimentalRefused p I item then Some ''SPECIALIST_EXPERIMENTAL_NOT_ALLOWED''
     else if ob_kind item \<noteq> GateOb \<and> ob_kind item \<noteq> EvidenceOb \<and> ob_kind item \<noteq> AssuranceOb
        \<and> ob_kind item \<noteq> DependencyOb \<and> \<not> activationMatches p I then Some ''MINIMUM_SUFFICIENT_SET''
     else if \<not> profileCoversSpecialistObligation p item then Some ''MINIMUM_SUFFICIENT_SET''
     else None)"

text \<open>\<open>new Map(registry.profiles.map(...))\<close>: the last profile of an identifier wins.\<close>

definition profileOf :: "specialistRegistry \<Rightarrow> string \<Rightarrow> specialistProfile option" where
  "profileOf R = map_of (rev (map (\<lambda>p. (sp_specialistId p, p)) (sr_profiles R)))"

section \<open>Selections\<close>

type_synonym selections = "specialistSelection list \<times> specialistSelection list"

definition selectionOf :: "'h host_scheme \<Rightarrow> specialistProfile \<Rightarrow> bool \<Rightarrow> string list \<Rightarrow> specialistSelection" where
  "selectionOf H p required reasons =
    \<lparr>ss_specialistId = sp_specialistId p, ss_kind = sp_kind p, ss_role = sp_purpose p, ss_required = required,
     ss_reasonCodes = sortedUnique H reasons, ss_coversDomains = sortedUnique H (sp_coveredDomains p),
     ss_coversGates = [], ss_independenceClass = sp_independenceClass p\<rparr>"

definition selectionIds :: "specialistSelection list \<Rightarrow> string list" where
  "selectionIds = map ss_specialistId"

definition addSelection ::
  "'h host_scheme \<Rightarrow> specialistSelection list \<Rightarrow> specialistProfile \<Rightarrow> bool \<Rightarrow> string list \<Rightarrow> specialistSelection list" where
  "addSelection H selected p required reasons =
    (if sp_specialistId p \<in> set (selectionIds selected)
     then map (\<lambda>s. if ss_specialistId s = sp_specialistId p
               then s\<lparr>ss_reasonCodes := sortedUnique H (ss_reasonCodes s @ reasons)\<rparr> else s) selected
     else selected @ [selectionOf H p required reasons])"

definition addAssurance ::
  "'h host_scheme \<Rightarrow> specialistSelection list \<Rightarrow> specialistProfile \<Rightarrow> string list \<Rightarrow> specialistSelection list" where
  "addAssurance H assurance p reasons = addSelection H assurance p True reasons"

definition isAssuranceProfile :: "specialistProfile \<Rightarrow> bool" where
  "isAssuranceProfile p \<longleftrightarrow> sp_kind p = AssuranceKind \<or> sp_independenceClass p = AssuranceClass
     \<or> sp_independenceClass p = IndependentReviewClass"

definition selectionForProfile ::
  "'h host_scheme \<Rightarrow> specialistProfile \<Rightarrow> selections \<Rightarrow> bool \<Rightarrow> string list \<Rightarrow> selections" where
  "selectionForProfile H p st required reasons =
    (if isAssuranceProfile p then (fst st, addAssurance H (snd st) p reasons)
     else (addSelection H (fst st) p required reasons, snd st))"

definition chosenIds :: "selections \<Rightarrow> string list" where
  "chosenIds st = selectionIds (fst st @ snd st)"

definition chosenProfiles :: "specialistRegistry \<Rightarrow> selections \<Rightarrow> specialistProfile list" where
  "chosenProfiles R st = List.map_filter (profileOf R) (chosenIds st)"

section \<open>The mandatory core\<close>

record coreState =
  cs_selected :: "specialistSelection list"
  cs_rejections :: "specialistRejection list"
  cs_unmet :: "string list"

definition addCore ::
  "'h host_scheme \<Rightarrow> specialistRoutingInput \<Rightarrow> string \<times> string \<Rightarrow> coreState \<Rightarrow> coreState" where
  "addCore H I request st =
    (let i = fst request in
     case profileOf (si_registry I) i of
       None \<Rightarrow> st\<lparr>cs_unmet := cs_unmet st @ [''NO_DOMAIN_COVERAGE:'' @ i]\<rparr>
     | Some p \<Rightarrow>
         (case operationalEligible p I of
            None \<Rightarrow> st\<lparr>cs_selected := addSelection H (cs_selected st) p True [snd request]\<rparr>
          | Some reason \<Rightarrow>
              st\<lparr>cs_rejections := cs_rejections st @ [\<lparr>sj_specialistId = i, sj_reasonCodes = [reason],
                    sj_reasons = [''core profile is unavailable for this routing input'']\<rparr>],
                 cs_unmet := cs_unmet st
                   @ (if reason = ''SPECIALIST_DISABLED'' \<or> reason = ''SPECIALIST_EXPERIMENTAL_NOT_ALLOWED''
                      then [reason @ '':'' @ i] else [])\<rparr>))"

definition docsOnlyInput :: "specialistRoutingInput \<Rightarrow> bool" where
  "docsOnlyInput I \<longleftrightarrow> si_domains I \<noteq> [] \<and> list_all (\<lambda>d. d = ''documentation'' \<or> d = ''general'') (si_domains I)"

definition styleOnlyInput :: "specialistRoutingInput \<Rightarrow> bool" where
  "styleOnlyInput I \<longleftrightarrow> si_scopeClass I = Trivial \<and> si_riskLevel I = LOW
     \<and> ''frontend'' \<in> set (si_domains I) \<and> si_riskSignals I = []"

definition needsArchitect :: "specialistRoutingInput \<Rightarrow> bool" where
  "needsArchitect I \<longleftrightarrow> si_scopeClass I = Architectural \<or> si_scopeClass I = CrossCutting
     \<or> ''architecture'' \<in> set (si_domains I)
     \<or> list_ex (\<lambda>s. s \<in> set [''database-migration'', ''destructive'', ''infrastructure'']) (si_riskSignals I)"

definition needsVerification :: "specialistRoutingInput \<Rightarrow> specialistObligation list \<Rightarrow> bool" where
  "needsVerification I obligations \<longleftrightarrow> (\<not> docsOnlyInput I \<and> \<not> styleOnlyInput I)
     \<or> list_ex (\<lambda>b. ob_kind b = GateOb \<or> ob_kind b = EvidenceOb) obligations"

definition coreRequests :: "specialistRoutingInput \<Rightarrow> specialistObligation list \<Rightarrow> (string \<times> string) list" where
  "coreRequests I obligations =
     [(''repo-inspector'', ''CORE_REQUIRED''), (''implementation-planner'', ''CORE_REQUIRED''),
      (''checkpoint-manager'', ''CORE_REQUIRED'')]
     @ (if si_scopeClass I \<noteq> Trivial then [(''requirements-engineer'', ''CORE_REQUIRED'')] else [])
     @ (if needsArchitect I then [(''software-architect'', ''ARCHITECTURE_SCOPE'')] else [])
     @ [(''implementation-agent'', ''CORE_REQUIRED'')]
     @ (if needsVerification I obligations then [(''test-engineer'', ''CORE_REQUIRED'')] else [])"

definition coreSelection :: "'h host_scheme \<Rightarrow> specialistRoutingInput \<Rightarrow> specialistObligation list \<Rightarrow> coreState" where
  "coreSelection H I obligations =
     fold (addCore H I) (coreRequests I obligations) \<lparr>cs_selected = [], cs_rejections = [], cs_unmet = []\<rparr>"

section \<open>The greedy loop\<close>

definition uncovered :: "specialistRegistry \<Rightarrow> specialistObligation list \<Rightarrow> selections \<Rightarrow> specialistObligation list" where
  "uncovered R obligations st =
     filter (\<lambda>item. \<not> list_ex (\<lambda>p. profileCoversSpecialistObligation p item) (chosenProfiles R st)) obligations"

definition eligibleItems ::
  "specialistProfile \<Rightarrow> specialistRoutingInput \<Rightarrow> specialistObligation list \<Rightarrow> specialistObligation list" where
  "eligibleItems p I items = filter (\<lambda>item. obligationEligibility p I item = None) items"

definition candidate_le ::
  "'h host_scheme \<Rightarrow> specialistProfile \<times> specialistObligation list \<Rightarrow> specialistProfile \<times> specialistObligation list \<Rightarrow> bool" where
  "candidate_le H a b \<longleftrightarrow>
    (if length (snd a) \<noteq> length (snd b) then length (snd b) < length (snd a)
     else if sp_priority (fst a) \<noteq> sp_priority (fst b) then sp_priority (fst a) < sp_priority (fst b)
     else locale_le H (sp_specialistId (fst a)) (sp_specialistId (fst b)))"

definition candidates ::
  "'h host_scheme \<Rightarrow> specialistRoutingInput \<Rightarrow> specialistObligation list \<Rightarrow> selections
     \<Rightarrow> (specialistProfile \<times> specialistObligation list) list" where
  "candidates H I obligations st =
    (let remaining = uncovered (si_registry I) obligations st
     in sort_with (candidate_le H)
          (filter (\<lambda>c. snd c \<noteq> [])
            (map (\<lambda>p. (p, eligibleItems p I remaining))
              (filter (\<lambda>p. sp_specialistId p \<notin> set (chosenIds st)) (sr_profiles (si_registry I))))))"

text \<open>One round of the loop: \<open>None\<close> when nothing is open or no profile is left that helps.\<close>

definition coverStep ::
  "'h host_scheme \<Rightarrow> specialistRoutingInput \<Rightarrow> specialistObligation list \<Rightarrow> selections \<Rightarrow> selections option" where
  "coverStep H I obligations st =
    (if uncovered (si_registry I) obligations st = [] then None
     else case candidates H I obligations st of
       [] \<Rightarrow> None
     | c # _ \<Rightarrow> Some (selectionForProfile H (fst c) st True
                  (sortedUnique H (map specialistObligationReasonCode (snd c)))))"

definition unchosen :: "specialistRoutingInput \<Rightarrow> selections \<Rightarrow> specialistProfile list" where
  "unchosen I st = filter (\<lambda>p. sp_specialistId p \<notin> set (chosenIds st)) (sr_profiles (si_registry I))"

lemma addSelection_ids:
  "selectionIds (addSelection H sel p r rs) =
     (if sp_specialistId p \<in> set (selectionIds sel) then selectionIds sel else selectionIds sel @ [sp_specialistId p])"
proof (cases "sp_specialistId p \<in> set (selectionIds sel)")
  case True
  have "map ss_specialistId (map (\<lambda>s. if ss_specialistId s = sp_specialistId p
      then s\<lparr>ss_reasonCodes := sortedUnique H (ss_reasonCodes s @ rs)\<rparr> else s) sel) = map ss_specialistId sel"
    by (rule nth_equalityI) simp_all
  with True show ?thesis by (simp add: addSelection_def selectionIds_def)
qed (simp add: addSelection_def selectionIds_def selectionOf_def)

lemma set_chosenIds: "set (chosenIds st) = set (selectionIds (fst st)) \<union> set (selectionIds (snd st))"
  by (auto simp: chosenIds_def selectionIds_def)

lemma selectionForProfile_ids [simp]:
  "set (chosenIds (selectionForProfile H p st r rs)) = insert (sp_specialistId p) (set (chosenIds st))"
  by (auto simp: selectionForProfile_def set_chosenIds addAssurance_def addSelection_ids split: if_splits)

lemma candidates_mem:
  "c \<in> set (candidates H I obligations st) \<longleftrightarrow>
     fst c \<in> set (unchosen I st) \<and> snd c \<noteq> []
     \<and> snd c = eligibleItems (fst c) I (uncovered (si_registry I) obligations st)"
  by (cases c) (auto simp: candidates_def Let_def unchosen_def)

lemma coverStep_Some:
  assumes "coverStep H I obligations st = Some st'"
  obtains c rs where "c \<in> set (candidates H I obligations st)" "st' = selectionForProfile H (fst c) st True rs"
  using assms by (auto simp: coverStep_def split: if_splits list.splits)

lemma coverStep_shrinks:
  assumes "coverStep H I obligations st = Some st'"
  shows "length (unchosen I st') < length (unchosen I st)"
proof (rule coverStep_Some [OF assms])
  fix c rs
  assume c: "c \<in> set (candidates H I obligations st)" and st': "st' = selectionForProfile H (fst c) st True rs"
  have "unchosen I st' = filter (\<lambda>p. sp_specialistId p \<noteq> sp_specialistId (fst c)) (unchosen I st)"
    by (auto simp: unchosen_def st' intro: filter_cong)
  moreover have "fst c \<in> set (unchosen I st)" using c by (simp add: candidates_mem)
  ultimately show ?thesis by (metis (mono_tags, lifting) length_filter_less)
qed

function coverLoop ::
  "'h host_scheme \<Rightarrow> specialistRoutingInput \<Rightarrow> specialistObligation list \<Rightarrow> selections \<Rightarrow> selections" where
  "coverLoop H I obligations st =
    (case coverStep H I obligations st of None \<Rightarrow> st | Some st' \<Rightarrow> coverLoop H I obligations st')"
  by pat_completeness auto

termination
  by (relation "measure (\<lambda>(H, I, obligations, st). length (unchosen I st))") (auto intro: coverStep_shrinks)

declare coverLoop.simps [simp del]

end
