(* ===== verification/Specialist_Plan.thy ===== *)
theory Specialist_Plan
  imports Specialist_Router
begin

text \<open>
  The second half of \<open>selectSpecialistPlan\<close> (\<^verbatim>\<open>src/kernel/specialist-router.ts\<close>): from the chosen
  profiles to the plan, and the test whether a stored plan is the one its input gives.
\<close>

section \<open>Coverage\<close>

definition priorityOf :: "specialistRegistry \<Rightarrow> string \<Rightarrow> nat" where
  "priorityOf R i = (case profileOf R i of None \<Rightarrow> 0 | Some p \<Rightarrow> sp_priority p)"

definition byPriority :: "'h host_scheme \<Rightarrow> specialistRegistry \<Rightarrow> specialistSelection list \<Rightarrow> specialistSelection list" where
  "byPriority H R = sort_with (\<lambda>a b.
     if priorityOf R (ss_specialistId a) \<noteq> priorityOf R (ss_specialistId b)
     then priorityOf R (ss_specialistId a) < priorityOf R (ss_specialistId b)
     else locale_le H (ss_specialistId a) (ss_specialistId b))"

definition ownerOf :: "specialistProfile list \<Rightarrow> specialistObligation \<Rightarrow> specialistProfile option" where
  "ownerOf chosen item = find (\<lambda>p. profileCoversSpecialistObligation p item) chosen"

definition coverageOf :: "specialistProfile list \<Rightarrow> specialistObligation \<Rightarrow> obligationCoverage option" where
  "coverageOf chosen item = map_option (\<lambda>owner.
     \<lparr>oc_obligationId = ob_obligationId item, oc_gateId = ob_gateId item, oc_evidenceId = ob_evidenceId item,
      oc_specialistId = sp_specialistId owner, oc_reasonCode = specialistObligationReasonCode item,
      oc_coverageKind = ob_kind item\<rparr>) (ownerOf chosen item)"

definition unmetReason :: "specialistObligation \<Rightarrow> string" where
  "unmetReason item =
    (if ob_kind item = GateOb \<or> ob_kind item = EvidenceOb then ''UNMET_REQUIRED_EVIDENCE''
     else if ob_kind item = AssuranceOb then ''NO_ASSURANCE_COVERAGE'' else ''NO_DOMAIN_COVERAGE'')"

definition unmetOf :: "specialistObligation \<Rightarrow> unmetObligation" where
  "unmetOf item = \<lparr>uo_obligationId = ob_obligationId item, uo_gateId = ob_gateId item, uo_evidenceId = ob_evidenceId item,
     uo_specialistId = ob_specialistId item, uo_reasonCode = unmetReason item, uo_coverageKind = ob_kind item\<rparr>"

definition or_else :: "string option \<Rightarrow> string \<Rightarrow> string" where
  "or_else v d = (case v of None \<Rightarrow> d | Some x \<Rightarrow> x)"

definition unmetSubject :: "specialistObligation \<Rightarrow> string" where
  "unmetSubject item =
    (if ob_kind item = GateOb \<or> ob_kind item = EvidenceOb then or_else (ob_evidenceId item) (ob_obligationId item)
     else if ob_kind item = AssuranceOb then or_else (ob_specialistId item) (ob_obligationId item)
     else if ob_kind item = DomainOb then or_else (ob_domainId item) (ob_obligationId item)
     else ob_obligationId item)"

definition possibleProfiles :: "specialistRoutingInput \<Rightarrow> specialistObligation \<Rightarrow> specialistProfile list" where
  "possibleProfiles I item = filter (\<lambda>p. profileCoversSpecialistObligation p item) (sr_profiles (si_registry I))"

definition joinedIds :: "specialistProfile list \<Rightarrow> string" where
  "joinedIds ps = join_with '','' (sort_with code_unit_le (map sp_specialistId ps))"

definition unmetTexts :: "specialistRoutingInput \<Rightarrow> specialistObligation \<Rightarrow> string list" where
  "unmetTexts I item =
     [unmetReason item @ '':'' @ unmetSubject item]
     @ (let possible = possibleProfiles I item in
        if possible \<noteq> [] \<and> list_all (\<lambda>p. sp_status p = SpDisabled) possible
        then [''SPECIALIST_DISABLED:'' @ joinedIds possible]
        else if possible \<noteq> [] \<and> list_all (\<lambda>p. experimentalRefused p I item) possible
        then [''SPECIALIST_EXPERIMENTAL_NOT_ALLOWED:'' @ joinedIds possible]
        else [])"

definition openItems :: "specialistProfile list \<Rightarrow> specialistObligation list \<Rightarrow> specialistObligation list" where
  "openItems chosen obligations = filter (\<lambda>item. ownerOf chosen item = None) obligations"

definition conflictsOf :: "specialistRegistry \<Rightarrow> selections \<Rightarrow> string list" where
  "conflictsOf R st =
     concat (map (\<lambda>i. case profileOf R i of None \<Rightarrow> []
        | Some p \<Rightarrow> map (\<lambda>other. ''SPECIALIST_CONFLICT:'' @ i @ '':'' @ other)
            (filter (\<lambda>other. other \<in> set (chosenIds st)) (sp_incompatibleWith p))) (chosenIds st))
     @ (if MAX_SELECTED < length (chosenIds st) then [''SPECIALIST_CONFLICT:MAX_SELECTED:32''] else [])"

definition applyCoverage ::
  "'h host_scheme \<Rightarrow> obligationCoverage list \<Rightarrow> specialistSelection list \<Rightarrow> specialistSelection list" where
  "applyCoverage H coverage = map (\<lambda>s.
     let owned = filter (\<lambda>c. oc_specialistId c = ss_specialistId s) coverage
     in s\<lparr>ss_reasonCodes := sortedUnique H (ss_reasonCodes s @ map oc_reasonCode owned),
          ss_coversGates := sortedUnique H (List.map_filter oc_gateId owned)\<rparr>)"

definition rejectionOf :: "specialistRoutingInput \<Rightarrow> specialistProfile \<Rightarrow> specialistRejection" where
  "rejectionOf I p =
    (let reason = or_else (operationalEligible p I) ''MINIMUM_SUFFICIENT_SET'' in
     \<lparr>sj_specialistId = sp_specialistId p, sj_reasonCodes = [reason],
      sj_reasons = [if reason = ''SPECIALIST_DISABLED'' then ''profile is disabled''
        else if reason = ''SPECIALIST_EXPERIMENTAL_NOT_ALLOWED'' then ''experimental profile is not permitted''
        else ''profile is outside the minimum sufficient set'']\<rparr>)"

section \<open>Assignments\<close>

definition inAssurance :: "string list \<Rightarrow> specialistProfile \<Rightarrow> bool" where
  "inAssurance assuranceIds p \<longleftrightarrow> sp_specialistId p \<in> set assuranceIds
     \<or> sp_independenceClass p = IndependentReviewClass \<or> sp_independenceClass p = AssuranceClass"

definition dependencyGroupOf :: "bool \<Rightarrow> specialistProfile \<Rightarrow> nat" where
  "dependencyGroupOf isAssurance p =
    (if isAssurance then 5 else if sp_mayImplement p then 4 else if sp_kind p = DomainKind then 2
     else if TestingFn \<in> set (sp_functions p) then 3
     else if PlanningFn \<in> set (sp_functions p) \<or> ArchitectureFn \<in> set (sp_functions p) then 2 else 1)"

definition isFileArea :: "string \<Rightarrow> bool" where
  "isFileArea area \<longleftrightarrow> CHR '':'' \<notin> set area \<and> \<not> starts_with ''sidecar://'' area \<and> \<not> starts_with ''http'' area"

definition relevantAreas :: "'h host_scheme \<Rightarrow> specialistProfile \<Rightarrow> specialistRoutingInput \<Rightarrow> string list" where
  "relevantAreas H p I =
    (case ac_affectedAreaAny (sp_activation p) of
       Some (a # as) \<Rightarrow> sortedUnique H (filter (\<lambda>x. x \<in> set (si_affectedAreas I)) (a # as))
     | _ \<Rightarrow> sortedUnique H (si_affectedAreas I))"

definition assignmentOf ::
  "'h host_scheme \<Rightarrow> specialistRoutingInput \<Rightarrow> string list \<Rightarrow> obligationCoverage list \<Rightarrow> specialistProfile \<Rightarrow> specialistAssignment" where
  "assignmentOf H I assuranceIds coverage p =
    (let isAssurance = inAssurance assuranceIds p;
         group = dependencyGroupOf isAssurance p;
         ownedEvidence = List.map_filter oc_evidenceId (filter (\<lambda>c. oc_specialistId c = sp_specialistId p) coverage)
     in \<lparr>as_specialistId = sp_specialistId p, as_role = sp_purpose p, as_objective = si_objective I,
         as_coveredDomains = sortedUnique H (sp_coveredDomains p),
         as_relevantAffectedAreas = relevantAreas H p I,
         as_relevantFiles = sortedUnique H (filter isFileArea (si_affectedAreas I)),
         as_relevantGates = sortedUnique H (si_gates I),
         as_evidenceObligations = sortedUnique H (sp_producesEvidence p @ ownedEvidence),
         as_riskLevel = si_riskLevel I,
         as_forbiddenScope = sortedUnique H ([''out-of-scope work''] @ si_outOfScope I
            @ (if isAssurance then [''implementing product changes'', ''approving without independent evidence''] else [])
            @ (if truthy (sp_notes p) then [or_empty (sp_notes p)] else [])),
         as_dependencyGroup = group,
         as_parallelEligible = (\<not> isAssurance \<and> \<not> sp_mayImplement p \<and> sp_kind p = DomainKind \<and> group = 2)\<rparr>)"

definition assignment_le :: "'h host_scheme \<Rightarrow> specialistAssignment \<Rightarrow> specialistAssignment \<Rightarrow> bool" where
  "assignment_le H a b \<longleftrightarrow>
    (if localeCompare H (as_specialistId a) (as_specialistId b) \<noteq> 0
     then localeCompare H (as_specialistId a) (as_specialistId b) < 0
     else as_dependencyGroup a \<le> as_dependencyGroup b)"

fun assignmentsFor ::
  "'h host_scheme \<Rightarrow> specialistRoutingInput \<Rightarrow> string list \<Rightarrow> obligationCoverage list \<Rightarrow> string list
     \<Rightarrow> uadsError + specialistAssignment list" where
  "assignmentsFor H I assuranceIds coverage [] = Inr []"
| "assignmentsFor H I assuranceIds coverage (i # ids) =
     (case profileOf (si_registry I) i of
        None \<Rightarrow> Inl (PlainError (''missing selected specialist profile: '' @ i))
      | Some p \<Rightarrow>
          (case assignmentsFor H I assuranceIds coverage ids of
             Inl e \<Rightarrow> Inl e
           | Inr as \<Rightarrow> Inr (assignmentOf H I assuranceIds coverage p # as)))"

definition buildAssignments ::
  "'h host_scheme \<Rightarrow> specialistRoutingInput \<Rightarrow> selections \<Rightarrow> obligationCoverage list \<Rightarrow> uadsError + specialistAssignment list" where
  "buildAssignments H I st coverage =
    (case assignmentsFor H I (selectionIds (snd st)) coverage (chosenIds st) of
       Inl e \<Rightarrow> Inl e | Inr as \<Rightarrow> Inr (sort_with (assignment_le H) as))"

definition dependencyGroupsOf :: "'h host_scheme \<Rightarrow> specialistAssignment list \<Rightarrow> string list list" where
  "dependencyGroupsOf H as =
     map (\<lambda>g. sort_with (locale_le H) (map as_specialistId (filter (\<lambda>a. as_dependencyGroup a = g) as)))
       (sort_with (\<le>) (dedup (map as_dependencyGroup as)))"

fun addToGroup :: "(string list \<Rightarrow> bool) \<Rightarrow> string \<Rightarrow> string list list \<Rightarrow> string list list" where
  "addToGroup P i [] = [[i]]"
| "addToGroup P i (g # gs) = (if P g then (g @ [i]) # gs else g # addToGroup P i gs)"

definition sameGroup :: "specialistAssignment list \<Rightarrow> specialistAssignment \<Rightarrow> string list \<Rightarrow> bool" where
  "sameGroup as a ids =
    (case find (\<lambda>b. ids \<noteq> [] \<and> as_specialistId b = hd ids) as of None \<Rightarrow> False
     | Some b \<Rightarrow> as_dependencyGroup b = as_dependencyGroup a)"

definition parallelGroupsOf :: "'h host_scheme \<Rightarrow> specialistAssignment list \<Rightarrow> string list list" where
  "parallelGroupsOf H as =
     map (sort_with (locale_le H)) (filter (\<lambda>ids. 1 < length ids)
       (fold (\<lambda>a. addToGroup (sameGroup as a) (as_specialistId a)) (filter as_parallelEligible as) []))"

section \<open>The plan\<close>

definition assertRegistryBinding :: "'h host_scheme \<Rightarrow> specialistRegistry \<Rightarrow> uadsError + unit" where
  "assertRegistryBinding H R =
    (if sr_policyVersion R \<noteq> SPECIALIST_POLICY_VERSION
     then Inl (PlainError ''specialist registry policy version mismatch'')
     else if sr_registryDigest R \<noteq> computeSpecialistRegistryDigest H (sr_profiles R)
     then Inl (PlainError ''specialist registry digest mismatch'')
     else Inr ())"

definition selectionIdentity :: "'h host_scheme \<Rightarrow> specialistRoutingInput \<Rightarrow> json" where
  "selectionIdentity H I = JObj
     [(''projectId'', JStr (si_projectId I)), (''workOrderDigest'', JStr (computeSpecialistWorkOrderDigest H I)),
      (''routingDigest'', JStr (computeSpecialistRoutingDigest H I)),
      (''registryDigest'', JStr (sr_registryDigest (si_registry I))),
      (''policyDigest'', JStr (SPECIALIST_POLICY_DIGEST H)), (''changeDigest'', jstr_opt (si_changeDigest I)),
      (''impactDigest'', jstr_opt (si_impactDigest I)), (''gateContractDigest'', jstr_opt (si_gateContractDigest I))]"

definition chooseProfiles :: "'h host_scheme \<Rightarrow> specialistRoutingInput \<Rightarrow> selections" where
  "chooseProfiles H I =
    (let obligations = deriveSpecialistObligations H I (sr_profiles (si_registry I));
         st = coverLoop H I obligations (cs_selected (coreSelection H I obligations), [])
     in (byPriority H (si_registry I) (fst st), byPriority H (si_registry I) (snd st)))"

definition reasonHead :: "string \<Rightarrow> string" where
  "reasonHead text = takeWhile (\<lambda>c. c \<noteq> CHR '':'') text"

definition planOf :: "'h host_scheme \<Rightarrow> specialistRoutingInput \<Rightarrow> specialistAssignment list \<Rightarrow> specialistSelectionPlan" where
  "planOf H I assignments =
    (let R = si_registry I;
         obligations = deriveSpecialistObligations H I (sr_profiles R);
         core = coreSelection H I obligations;
         st = chooseProfiles H I;
         chosen = chosenProfiles R st;
         covered = List.map_filter (coverageOf chosen) obligations;
         open = openItems chosen obligations;
         unmetCoverage = cs_unmet core @ concat (map (unmetTexts I) open);
         conflicts = conflictsOf R st
     in \<lparr>spl_selectionPlanId = ''sp_'' @ take 16 (sha256Json H (selectionIdentity H I)),
         spl_projectId = si_projectId I, spl_workOrderId = si_workOrderId I,
         spl_workOrderDigest = computeSpecialistWorkOrderDigest H I,
         spl_routingDigest = computeSpecialistRoutingDigest H I,
         spl_registryDigest = sr_registryDigest R, spl_policyDigest = SPECIALIST_POLICY_DIGEST H,
         spl_changeDigest = si_changeDigest I, spl_impactDigest = si_impactDigest I,
         spl_gateContractDigest = si_gateContractDigest I,
         spl_selected = applyCoverage H covered (fst st), spl_assurance = applyCoverage H covered (snd st),
         spl_assignments = assignments,
         spl_rejections = cs_rejections core
           @ map (rejectionOf I) (filter (\<lambda>p. sp_specialistId p \<notin> set (chosenIds st)) (sr_profiles R)),
         spl_unmetCoverage = sortedUnique H unmetCoverage, spl_requiredObligations = obligations,
         spl_coveredObligations = covered, spl_unmetObligations = map unmetOf open,
         spl_conflicts = sortedUnique H conflicts,
         spl_dependencyGroups = dependencyGroupsOf H assignments,
         spl_parallelEligibleGroups = parallelGroupsOf H assignments,
         spl_selected_status = (open = [] \<and> unmetCoverage = [] \<and> conflicts = []),
         spl_blockedReasonCodes = sortedUnique H (map reasonHead (unmetCoverage @ conflicts)),
         spl_selectionDigest = []\<rparr>)"

definition selectSpecialistPlan :: "'h host_scheme \<Rightarrow> specialistRoutingInput \<Rightarrow> uadsError + specialistSelectionPlan" where
  "selectSpecialistPlan H I =
    (case assertRegistryBinding H (si_registry I) of
       Inl e \<Rightarrow> Inl e
     | Inr _ \<Rightarrow>
         (let st = chooseProfiles H I;
              obligations = deriveSpecialistObligations H I (sr_profiles (si_registry I));
              covered = List.map_filter (coverageOf (chosenProfiles (si_registry I) st)) obligations
          in case buildAssignments H I st covered of
               Inl e \<Rightarrow> Inl e
             | Inr as \<Rightarrow> (let p = planOf H I as in Inr (p\<lparr>spl_selectionDigest := planDigest H p\<rparr>))))"

definition isSpecialistSelectionPlanCurrent :: "'h host_scheme \<Rightarrow> specialistSelectionPlan \<Rightarrow> specialistRoutingInput \<Rightarrow> bool" where
  "isSpecialistSelectionPlanCurrent H p I \<longleftrightarrow>
     spl_projectId p = si_projectId I \<and> spl_workOrderId p = si_workOrderId I
     \<and> sr_policyVersion (si_registry I) = SPECIALIST_POLICY_VERSION
     \<and> spl_registryDigest p = sr_registryDigest (si_registry I) \<and> spl_policyDigest p = SPECIALIST_POLICY_DIGEST H
     \<and> spl_workOrderDigest p = computeSpecialistWorkOrderDigest H I
     \<and> spl_routingDigest p = computeSpecialistRoutingDigest H I
     \<and> spl_selectionDigest p = planDigest H p
     \<and> (case selectSpecialistPlan H I of Inl _ \<Rightarrow> False
        | Inr expected \<Rightarrow> spl_selectionPlanId p = spl_selectionPlanId expected
            \<and> spl_selectionDigest p = spl_selectionDigest expected)"

end
