(* ===== verification/Selection_Properties.thy ===== *)
theory Selection_Properties
  imports Specialist_Plan Specialist_Catalog
begin

text \<open>
  What the specialist selection guarantees: the greedy loop ends, a selected plan covers every
  obligation with usable profiles of the registry, an obligation stays open only when no profile
  can serve it, and a plan is current for the input it was selected from.
\<close>

section \<open>Registry lookups\<close>

definition distinctIds :: "specialistRegistry \<Rightarrow> bool" where
  "distinctIds R \<longleftrightarrow> distinct (map sp_specialistId (sr_profiles R))"

lemma profileOf_Some: "profileOf R i = Some p \<Longrightarrow> p \<in> set (sr_profiles R) \<and> sp_specialistId p = i"
  by (auto simp: profileOf_def dest!: map_of_SomeD)

lemma profileOf_mem:
  assumes "distinctIds R" "p \<in> set (sr_profiles R)"
  shows "profileOf R (sp_specialistId p) = Some p"
proof -
  have "distinct (map fst (rev (map (\<lambda>p. (sp_specialistId p, p)) (sr_profiles R))))"
    using assms(1) by (simp add: distinctIds_def rev_map [symmetric] comp_def)
  moreover have "(sp_specialistId p, p) \<in> set (rev (map (\<lambda>p. (sp_specialistId p, p)) (sr_profiles R)))"
    using assms(2) by simp
  ultimately show ?thesis unfolding profileOf_def by (rule map_of_is_SomeI)
qed

lemma chosenProfiles_mem:
  "p \<in> set (chosenProfiles R st) \<longleftrightarrow> profileOf R (sp_specialistId p) = Some p \<and> sp_specialistId p \<in> set (chosenIds st)"
  by (auto simp: chosenProfiles_def in_map_filter dest: profileOf_Some)

section \<open>The loop ends\<close>

primrec coverRounds ::
  "nat \<Rightarrow> 'h host_scheme \<Rightarrow> specialistRoutingInput \<Rightarrow> specialistObligation list \<Rightarrow> selections \<Rightarrow> selections" where
  "coverRounds 0 H I obligations st = st"
| "coverRounds (Suc n) H I obligations st =
     (case coverStep H I obligations st of None \<Rightarrow> st | Some st' \<Rightarrow> coverRounds n H I obligations st')"

lemma coverLoop_stable: "coverStep H I obligations (coverLoop H I obligations st) = None"
proof (induction H I obligations st rule: coverLoop.induct)
  case (1 H I obligations st)
  then show ?case
    by (cases "coverStep H I obligations st") (simp_all add: coverLoop.simps [of H I obligations st])
qed

lemma rounds_reach_loop:
  "length (unchosen I st) \<le> n \<Longrightarrow> coverRounds n H I obligations st = coverLoop H I obligations st"
proof (induction n arbitrary: st)
  case 0
  have "coverStep H I obligations st = None"
    using 0 coverStep_shrinks [of H I obligations st] by (cases "coverStep H I obligations st") auto
  then show ?case by (simp add: coverLoop.simps [of H I obligations st])
next
  case (Suc n)
  show ?case
  proof (cases "coverStep H I obligations st")
    case (Some st')
    with Suc coverStep_shrinks [OF Some] show ?thesis by (simp add: coverLoop.simps [of H I obligations st])
  qed (simp add: coverLoop.simps [of H I obligations st])
qed

section \<open>What holds of every chosen profile\<close>

text \<open>
  An invariant of the chosen profiles: it holds of a profile that is eligible for the core and of
  one that is eligible for an open obligation.
\<close>

locale selection_invariant =
  fixes I :: specialistRoutingInput and Q :: "specialistProfile \<Rightarrow> bool"
  assumes core_ok: "operationalEligible p I = None \<Longrightarrow> Q p"
    and step_ok: "obligationEligibility p I item = None \<Longrightarrow> Q p"
begin

definition good :: "string list \<Rightarrow> bool" where
  "good ids \<longleftrightarrow> (\<forall>i\<in>set ids. \<exists>p. profileOf (si_registry I) i = Some p \<and> Q p)"

lemma good_core: "good (selectionIds (cs_selected st)) \<Longrightarrow> good (selectionIds (cs_selected (addCore H I request st)))"
  by (auto simp: addCore_def Let_def good_def addSelection_ids core_ok split: option.splits)
    (metis core_ok profileOf_Some)

lemma good_cores: "good (selectionIds (cs_selected st)) \<Longrightarrow> good (selectionIds (cs_selected (fold (addCore H I) rs st)))"
  by (induction rs arbitrary: st) (simp_all add: good_core)

lemma good_step:
  assumes "distinctIds (si_registry I)" "good (chosenIds st)" "coverStep H I obligations st = Some st'"
  shows "good (chosenIds st')"
proof (rule coverStep_Some [OF assms(3)])
  fix c rs
  assume c: "c \<in> set (candidates H I obligations st)" and st': "st' = selectionForProfile H (fst c) st True rs"
  have "fst c \<in> set (sr_profiles (si_registry I))" "snd c \<noteq> []"
    "snd c = eligibleItems (fst c) I (uncovered (si_registry I) obligations st)"
    using c by (auto simp: candidates_mem unchosen_def)
  then have "profileOf (si_registry I) (sp_specialistId (fst c)) = Some (fst c) \<and> Q (fst c)"
    using profileOf_mem [OF assms(1)] by (auto simp: eligibleItems_def filter_empty_conv intro: step_ok)
  then show ?thesis using assms(2) by (auto simp: good_def st')
qed

lemma good_loop:
  assumes "distinctIds (si_registry I)" "good (chosenIds st)"
  shows "good (chosenIds (coverLoop H I obligations st))"
  using assms(2)
proof (induction "length (unchosen I st)" arbitrary: st rule: less_induct)
  case less
  show ?case
  proof (cases "coverStep H I obligations st")
    case None
    then show ?thesis using less.prems by (simp add: coverLoop.simps [of H I obligations st])
  next
    case (Some st')
    from less.hyps [OF coverStep_shrinks [OF Some] good_step [OF assms(1) less.prems Some]] show ?thesis
      by (simp add: coverLoop.simps [of H I obligations st] Some)
  qed
qed

lemma selection_good:
  assumes "distinctIds (si_registry I)" "i \<in> set (chosenIds (chooseProfiles H I))"
  shows "\<exists>p. profileOf (si_registry I) i = Some p \<and> Q p"
proof -
  let ?obs = "deriveSpecialistObligations H I (sr_profiles (si_registry I))"
  have "good (chosenIds (cs_selected (coreSelection H I ?obs), []))"
    using good_cores [of "\<lparr>cs_selected = [], cs_rejections = [], cs_unmet = []\<rparr>" H "coreRequests I ?obs"]
    by (simp add: coreSelection_def good_def chosenIds_def selectionIds_def)
  from good_loop [OF assms(1) this, of H ?obs] show ?thesis
    using assms(2) by (auto simp: good_def set_chosenIds chooseProfiles_def Let_def byPriority_def selectionIds_def)
qed

end

text \<open>Usable: not disabled, and experimental only when the input allows it.\<close>

definition usable :: "specialistRoutingInput \<Rightarrow> specialistProfile \<Rightarrow> bool" where
  "usable I p \<longleftrightarrow> sp_status p \<noteq> SpDisabled \<and> (sp_status p = SpExperimental \<longrightarrow> si_allowExperimental I)"

interpretation chosen_usable: selection_invariant I "usable I" for I
  by unfold_locales
    (auto simp: usable_def operationalEligible_def obligationEligibility_def experimentalRefused_def split: if_splits)

section \<open>Coverage\<close>

lemma ownerOf_Some: "ownerOf chosen b = Some q \<Longrightarrow> q \<in> set chosen \<and> profileCoversSpecialistObligation q b"
  by (auto simp: ownerOf_def find_Some_iff)

lemma ownerOf_None: "ownerOf chosen b = None \<longleftrightarrow> (\<forall>q\<in>set chosen. \<not> profileCoversSpecialistObligation q b)"
  by (auto simp: ownerOf_def find_None_iff)

lemma eligible_covers: "obligationEligibility p I b = None \<Longrightarrow> profileCoversSpecialistObligation p b"
  by (auto simp: obligationEligibility_def split: if_splits)

text \<open>What stays open after the loop is served by no profile of the registry.\<close>

lemma coverLoop_complete:
  assumes "distinctIds (si_registry I)" "b \<in> set (uncovered (si_registry I) obligations (coverLoop H I obligations st))"
    and "q \<in> set (sr_profiles (si_registry I))"
  shows "obligationEligibility q I b \<noteq> None"
proof
  let ?R = "si_registry I" and ?st = "coverLoop H I obligations st"
  assume el: "obligationEligibility q I b = None"
  have "q \<notin> set (chosenProfiles ?R ?st)"
    using assms(2) eligible_covers [OF el] by (auto simp: uncovered_def list_ex_iff)
  then have "q \<in> set (unchosen I ?st)"
    using assms(3) profileOf_mem [OF assms(1,3)] by (simp add: unchosen_def chosenProfiles_mem)
  moreover have "eligibleItems q I (uncovered ?R obligations ?st) \<noteq> []"
    using assms(2) el by (auto simp: eligibleItems_def filter_empty_conv)
  ultimately have "(q, eligibleItems q I (uncovered ?R obligations ?st)) \<in> set (candidates H I obligations ?st)"
    by (simp add: candidates_mem)
  moreover have "candidates H I obligations ?st = []"
    using coverLoop_stable [of H I obligations st] assms(2) by (auto simp: coverStep_def split: if_splits list.splits)
  ultimately show False by simp
qed

lemma open_unservable:
  assumes "distinctIds (si_registry I)"
    and "b \<in> set (openItems (chosenProfiles (si_registry I) (chooseProfiles H I)) (deriveSpecialistObligations H I (sr_profiles (si_registry I))))"
    and "q \<in> set (sr_profiles (si_registry I))"
  shows "obligationEligibility q I b \<noteq> None"
proof -
  let ?R = "si_registry I" and ?obs = "deriveSpecialistObligations H I (sr_profiles (si_registry I))"
  let ?st = "coverLoop H I ?obs (cs_selected (coreSelection H I ?obs), [])"
  have "set (chosenIds (chooseProfiles H I)) = set (chosenIds ?st)"
    by (simp add: set_chosenIds chooseProfiles_def Let_def byPriority_def selectionIds_def)
  then have "b \<in> set (uncovered ?R ?obs ?st)"
    using assms(2) by (auto simp: openItems_def ownerOf_None chosenProfiles_mem uncovered_def list_ex_iff)
  from coverLoop_complete [OF assms(1) this assms(3)] show ?thesis .
qed

lemma plan_result:
  assumes "selectSpecialistPlan H I = Inr p"
  obtains as where "p = (planOf H I as)\<lparr>spl_selectionDigest := planDigest H (planOf H I as)\<rparr>"
    "assertRegistryBinding H (si_registry I) = Inr ()"
  using assms by (auto simp: selectSpecialistPlan_def Let_def split: sum.splits)

lemma applyCoverage_ids [simp]: "map ss_specialistId (applyCoverage H cov xs) = map ss_specialistId xs"
  by (simp add: applyCoverage_def Let_def comp_def)

section \<open>Guarantees of a plan\<close>

text \<open>The properties of the specialist selection, with their witnesses on the built-in catalog.\<close>

section \<open>A selection always gives a plan\<close>

lemma assignments_total:
  "(\<And>i. i \<in> set ids \<Longrightarrow> profileOf (si_registry I) i \<noteq> None) \<Longrightarrow> \<exists>as. assignmentsFor H I x cov ids = Inr as"
proof (induction ids)
  case (Cons i ids)
  then obtain as p where "assignmentsFor H I x cov ids = Inr as" "profileOf (si_registry I) i = Some p"
    by fastforce
  then show ?case by simp
qed simp

lemma selection_total:
  assumes "distinctIds (si_registry I)" "assertRegistryBinding H (si_registry I) = Inr ()"
  shows "\<exists>p. selectSpecialistPlan H I = Inr p"
proof -
  have "profileOf (si_registry I) i \<noteq> None" if "i \<in> set (chosenIds (chooseProfiles H I))" for i
    using chosen_usable.selection_good [OF assms(1) that] by auto
  then obtain as where "assignmentsFor H I (selectionIds (snd (chooseProfiles H I)))
      (List.map_filter (coverageOf (chosenProfiles (si_registry I) (chooseProfiles H I)))
        (deriveSpecialistObligations H I (sr_profiles (si_registry I)))) (chosenIds (chooseProfiles H I)) = Inr as"
    using assignments_total by blast
  then show ?thesis by (simp add: selectSpecialistPlan_def assms(2) Let_def buildAssignments_def)
qed

section \<open>Properties\<close>

definition planIds :: "specialistSelectionPlan \<Rightarrow> string list" where
  "planIds p = map ss_specialistId (spl_selected p @ spl_assurance p)"

lemma planIds_planOf: "planIds ((planOf H I as)\<lparr>spl_selectionDigest := d\<rparr>) = chosenIds (chooseProfiles H I)"
  by (simp add: planIds_def planOf_def Let_def chosenIds_def selectionIds_def)

lemma plan_required:
  "selectSpecialistPlan H I = Inr p \<Longrightarrow> spl_requiredObligations p = deriveSpecialistObligations H I (sr_profiles (si_registry I))"
  by (erule plan_result) (simp add: planOf_def Let_def)

lemma covered_by_owner:
  assumes "ownerOf chosen b = Some q" "b \<in> set obligations"
  shows "\<exists>c\<in>set (List.map_filter (coverageOf chosen) obligations).
    oc_obligationId c = ob_obligationId b \<and> oc_specialistId c = sp_specialistId q"
proof -
  have "coverageOf chosen b \<noteq> None" using assms(1) by (simp add: coverageOf_def)
  then obtain c where c: "coverageOf chosen b = Some c" by auto
  with assms have "c \<in> set (List.map_filter (coverageOf chosen) obligations)" by (auto simp: in_map_filter)
  moreover have "oc_obligationId c = ob_obligationId b" "oc_specialistId c = sp_specialistId q"
    using c assms(1) by (auto simp: coverageOf_def)
  ultimately show ?thesis by blast
qed

lemma conflicts_Nil:
  assumes "conflictsOf R st = []"
  shows "length (chosenIds st) \<le> MAX_SELECTED
    \<and> (\<forall>i\<in>set (chosenIds st). \<forall>p\<in>set_option (profileOf R i). \<forall>other\<in>set (sp_incompatibleWith p). other \<notin> set (chosenIds st))"
  using assms by (fastforce simp: conflictsOf_def filter_empty_conv split: if_splits option.splits)

text \<open>C34: a selected plan covers every obligation derived from its input by a usable profile of the registry
  that is among the chosen ones and is named in the coverage; no two chosen profiles are declared
  incompatible, and at most 32 are chosen.\<close>

theorem selected_plan_covers:
  assumes "distinctIds (si_registry I)" "selectSpecialistPlan H I = Inr p" "spl_selected_status p"
  shows "spl_requiredObligations p = deriveSpecialistObligations H I (sr_profiles (si_registry I))
    \<and> (\<forall>b\<in>set (spl_requiredObligations p). \<exists>q\<in>set (sr_profiles (si_registry I)).
         sp_specialistId q \<in> set (planIds p) \<and> usable I q \<and> profileCoversSpecialistObligation q b
         \<and> (\<exists>c\<in>set (spl_coveredObligations p). oc_obligationId c = ob_obligationId b \<and> oc_specialistId c = sp_specialistId q))
    \<and> (\<forall>q\<in>set (sr_profiles (si_registry I)). sp_specialistId q \<in> set (planIds p) \<longrightarrow>
         set (sp_incompatibleWith q) \<inter> set (planIds p) = {})
    \<and> length (planIds p) \<le> 32"
proof (rule plan_result [OF assms(2)])
  fix as
  assume p: "p = (planOf H I as)\<lparr>spl_selectionDigest := planDigest H (planOf H I as)\<rparr>"
  let ?R = "si_registry I" and ?st = "chooseProfiles H I"
  let ?obs = "deriveSpecialistObligations H I (sr_profiles ?R)" and ?chosen = "chosenProfiles ?R ?st"
  have ids: "planIds p = chosenIds ?st" unfolding p by (rule planIds_planOf)
  have req: "spl_requiredObligations p = ?obs"
    and cov: "spl_coveredObligations p = List.map_filter (coverageOf ?chosen) ?obs"
    and opened: "openItems ?chosen ?obs = []" and conf: "conflictsOf ?R ?st = []"
    using assms(3) by (simp_all add: p planOf_def Let_def)
  have "\<exists>q\<in>set (sr_profiles ?R). sp_specialistId q \<in> set (planIds p) \<and> usable I q \<and> profileCoversSpecialistObligation q b
         \<and> (\<exists>c\<in>set (spl_coveredObligations p). oc_obligationId c = ob_obligationId b \<and> oc_specialistId c = sp_specialistId q)"
    if b: "b \<in> set ?obs" for b
  proof -
    obtain q where q: "ownerOf ?chosen b = Some q" using opened b by (auto simp: openItems_def filter_empty_conv)
    then have "profileOf ?R (sp_specialistId q) = Some q" "sp_specialistId q \<in> set (chosenIds ?st)"
      "profileCoversSpecialistObligation q b"
      using ownerOf_Some [OF q] by (simp_all add: chosenProfiles_mem)
    moreover from this chosen_usable.selection_good [OF assms(1), of "sp_specialistId q" H] have "usable I q" by auto
    ultimately show ?thesis
      using covered_by_owner [OF q b] profileOf_Some [of ?R "sp_specialistId q" q] by (auto simp: ids cov)
  qed
  moreover have "set (sp_incompatibleWith q) \<inter> set (planIds p) = {}"
    if "q \<in> set (sr_profiles ?R)" "sp_specialistId q \<in> set (planIds p)" for q
    using conflicts_Nil [OF conf] profileOf_mem [OF assms(1) that(1)] that(2) by (auto simp: ids)
  ultimately show ?thesis
    using conflicts_Nil [OF conf] by (auto simp: req ids MAX_SELECTED_def)
qed

text \<open>An obligation is reported as unmet only when no profile of the registry can serve it: each one is
  disabled, refused as experimental, inactive for this input, or does not cover it. Every other
  obligation is covered by a chosen profile.\<close>

theorem unmet_only_if_unservable:
  assumes "distinctIds (si_registry I)" "selectSpecialistPlan H I = Inr p"
    and "b \<in> set (spl_requiredObligations p)"
  shows "(unmetOf b \<in> set (spl_unmetObligations p) \<and>
       (\<forall>q\<in>set (sr_profiles (si_registry I)). obligationEligibility q I b \<noteq> None))
    \<or> (\<exists>c\<in>set (spl_coveredObligations p). \<exists>q\<in>set (sr_profiles (si_registry I)).
         oc_obligationId c = ob_obligationId b \<and> oc_specialistId c = sp_specialistId q
         \<and> sp_specialistId q \<in> set (planIds p) \<and> profileCoversSpecialistObligation q b)"
proof (rule plan_result [OF assms(2)])
  fix as
  assume p: "p = (planOf H I as)\<lparr>spl_selectionDigest := planDigest H (planOf H I as)\<rparr>"
  let ?R = "si_registry I" and ?st = "chooseProfiles H I"
  let ?obs = "deriveSpecialistObligations H I (sr_profiles ?R)" and ?chosen = "chosenProfiles ?R ?st"
  have ids: "planIds p = chosenIds ?st" unfolding p by (rule planIds_planOf)
  have b: "b \<in> set ?obs" and cov: "spl_coveredObligations p = List.map_filter (coverageOf ?chosen) ?obs"
    and unmet: "spl_unmetObligations p = map unmetOf (openItems ?chosen ?obs)"
    using assms(3) by (simp_all add: p planOf_def Let_def)
  show ?thesis
  proof (cases "ownerOf ?chosen b")
    case None
    with b have "b \<in> set (openItems ?chosen ?obs)" by (simp add: openItems_def)
    with open_unservable [OF assms(1) this] show ?thesis by (auto simp: unmet)
  next
    case (Some q)
    have q: "profileOf ?R (sp_specialistId q) = Some q" "sp_specialistId q \<in> set (chosenIds ?st)"
      "profileCoversSpecialistObligation q b"
      using ownerOf_Some [OF Some] by (simp_all add: chosenProfiles_mem)
    then have "q \<in> set (sr_profiles ?R)" using profileOf_Some [OF q(1)] by simp
    with q(2,3) covered_by_owner [OF Some b] show ?thesis unfolding cov ids by blast
  qed
qed

text \<open>What the loop adds, and what it leaves open.\<close>

lemma coverLoop_adds:
  assumes "i \<in> set (chosenIds (coverLoop H I obligations st))"
  shows "i \<in> set (chosenIds st) \<or> (\<exists>q\<in>set (sr_profiles (si_registry I)). sp_specialistId q = i
    \<and> (\<exists>b\<in>set (uncovered (si_registry I) obligations st). obligationEligibility q I b = None))"
  using assms
proof (induction "length (unchosen I st)" arbitrary: st rule: less_induct)
  case less
  show ?case
  proof (cases "coverStep H I obligations st")
    case None
    then show ?thesis using less.prems by (simp add: coverLoop.simps [of H I obligations st])
  next
    case (Some st')
    then have loop: "i \<in> set (chosenIds (coverLoop H I obligations st'))"
      using less.prems by (simp add: coverLoop.simps [of H I obligations st])
    obtain c rs where c: "c \<in> set (candidates H I obligations st)" "st' = selectionForProfile H (fst c) st True rs"
      using coverStep_Some [OF Some] by metis
    have fst: "fst c \<in> set (sr_profiles (si_registry I))"
        "\<exists>b\<in>set (uncovered (si_registry I) obligations st). obligationEligibility (fst c) I b = None"
      using c(1) by (auto simp: candidates_mem unchosen_def eligibleItems_def filter_empty_conv)
    have "set (uncovered (si_registry I) obligations st') \<subseteq> set (uncovered (si_registry I) obligations st)"
      using c(2) by (auto simp: uncovered_def list_ex_iff chosenProfiles_mem)
    with less.hyps [OF coverStep_shrinks [OF Some] loop] fst c(2) show ?thesis by auto
  qed
qed

lemma coverLoop_keeps: "set (chosenIds st) \<subseteq> set (chosenIds (coverLoop H I obligations st))"
proof (induction "length (unchosen I st)" arbitrary: st rule: less_induct)
  case less
  show ?case
  proof (cases "coverStep H I obligations st")
    case (Some st')
    obtain c rs where "c \<in> set (candidates H I obligations st)" "st' = selectionForProfile H (fst c) st True rs"
      using coverStep_Some [OF Some] by metis
    then have "set (chosenIds st) \<subseteq> set (chosenIds st')" by auto
    moreover have "coverLoop H I obligations st = coverLoop H I obligations st'"
      by (simp add: coverLoop.simps [of H I obligations st] Some)
    ultimately show ?thesis using less.hyps [OF coverStep_shrinks [OF Some]] by simp
  qed (simp add: coverLoop.simps [of H I obligations st])
qed

text \<open>C36: the greedy loop ends, after as many rounds as profiles are not chosen yet at most, and only when
  nothing more can be covered: an obligation that no chosen profile covers then is one for which no
  profile of the registry is eligible. It keeps what was chosen before, and every profile it adds is
  one of the registry that is eligible for an obligation that was open when it started.\<close>

theorem cover_loop_terminates:
  assumes "distinctIds (si_registry I)"
  shows "coverRounds (length (unchosen I st) + k) H I obligations st = coverLoop H I obligations st
    \<and> (\<forall>b\<in>set obligations.
         (\<exists>q. profileOf (si_registry I) (sp_specialistId q) = Some q
            \<and> sp_specialistId q \<in> set (chosenIds (coverLoop H I obligations st)) \<and> profileCoversSpecialistObligation q b)
         \<or> (\<forall>q\<in>set (sr_profiles (si_registry I)). obligationEligibility q I b \<noteq> None))
    \<and> set (chosenIds st) \<subseteq> set (chosenIds (coverLoop H I obligations st))
    \<and> (\<forall>i\<in>set (chosenIds (coverLoop H I obligations st)) - set (chosenIds st).
         \<exists>q\<in>set (sr_profiles (si_registry I)). sp_specialistId q = i
           \<and> (\<exists>b\<in>set obligations. obligationEligibility q I b = None
                \<and> \<not> (\<exists>p\<in>set (chosenProfiles (si_registry I) st). profileCoversSpecialistObligation p b)))"
proof (intro conjI ballI)
  show "coverRounds (length (unchosen I st) + k) H I obligations st = coverLoop H I obligations st"
    by (simp add: rounds_reach_loop)
  show "set (chosenIds st) \<subseteq> set (chosenIds (coverLoop H I obligations st))" by (rule coverLoop_keeps)
next
  fix b assume b: "b \<in> set obligations"
  show "(\<exists>q. profileOf (si_registry I) (sp_specialistId q) = Some q
            \<and> sp_specialistId q \<in> set (chosenIds (coverLoop H I obligations st)) \<and> profileCoversSpecialistObligation q b)
         \<or> (\<forall>q\<in>set (sr_profiles (si_registry I)). obligationEligibility q I b \<noteq> None)"
    using coverLoop_complete [OF assms, of b obligations H st] b
    by (auto simp: uncovered_def list_ex_iff chosenProfiles_mem)
next
  fix i assume "i \<in> set (chosenIds (coverLoop H I obligations st)) - set (chosenIds st)"
  with coverLoop_adds [of i H I obligations st]
  show "\<exists>q\<in>set (sr_profiles (si_registry I)). sp_specialistId q = i
           \<and> (\<exists>b\<in>set obligations. obligationEligibility q I b = None
                \<and> \<not> (\<exists>p\<in>set (chosenProfiles (si_registry I) st). profileCoversSpecialistObligation p b))"
    by (auto simp: uncovered_def list_ex_iff)
qed

text \<open>A plan is current for the input it was selected from, and for another input only when that input
  selects a plan with the same identifier and digest for the same project and work order.\<close>

theorem plan_current_for_own_input:
  assumes "selectSpecialistPlan H I = Inr p"
  shows "isSpecialistSelectionPlanCurrent H p I
    \<and> (isSpecialistSelectionPlanCurrent H p J \<longrightarrow>
         (\<exists>q. selectSpecialistPlan H J = Inr q \<and> spl_selectionDigest q = spl_selectionDigest p
            \<and> spl_workOrderId q = spl_workOrderId p \<and> spl_projectId q = spl_projectId p))"
proof (rule plan_result [OF assms])
  fix as
  assume p: "p = (planOf H I as)\<lparr>spl_selectionDigest := planDigest H (planOf H I as)\<rparr>"
    and bound: "assertRegistryBinding H (si_registry I) = Inr ()"
  have "sr_policyVersion (si_registry I) = SPECIALIST_POLICY_VERSION"
    using bound by (auto simp: assertRegistryBinding_def split: if_splits)
  moreover have "planDigest H p = spl_selectionDigest p" by (simp add: p planDigest_def planJson_def)
  moreover have "spl_projectId p = si_projectId I" "spl_workOrderId p = si_workOrderId I"
    "spl_registryDigest p = sr_registryDigest (si_registry I)" "spl_policyDigest p = SPECIALIST_POLICY_DIGEST H"
    "spl_workOrderDigest p = computeSpecialistWorkOrderDigest H I" "spl_routingDigest p = computeSpecialistRoutingDigest H I"
    by (simp_all add: p planOf_def Let_def)
  ultimately have own: "isSpecialistSelectionPlanCurrent H p I" by (simp add: isSpecialistSelectionPlanCurrent_def assms)
  have "spl_projectId q = si_projectId J \<and> spl_workOrderId q = si_workOrderId J" if "selectSpecialistPlan H J = Inr q" for q
    by (rule plan_result [OF that]) (simp add: planOf_def Let_def)
  then show ?thesis
    using own by (auto simp: isSpecialistSelectionPlanCurrent_def split: sum.splits)
qed

end
