(* ===== verification/Builtin_Selection.thy ===== *)
theory Builtin_Selection
  imports Selection_Properties Planning_Properties
begin

text \<open>
  The built-in catalog serves everything the planner asks for: with a registry of the built-in
  profiles a plan is always selected, never blocked.
\<close>

section \<open>Duties of a profile\<close>

text \<open>
  What the selection reads of a profile besides its priority and its texts. Normalizing a profile
  sorts its lists, which keeps their sets.
\<close>

definition sameActivation :: "specialistActivation \<Rightarrow> specialistActivation \<Rightarrow> bool" where
  "sameActivation a b \<longleftrightarrow>
     map_option set (ac_scopeClasses a) = map_option set (ac_scopeClasses b) \<and> ac_minRisk a = ac_minRisk b
     \<and> map_option set (ac_domainAny a) = map_option set (ac_domainAny b)
     \<and> map_option set (ac_riskSignalsAny a) = map_option set (ac_riskSignalsAny b)
     \<and> map_option set (ac_gatesAny a) = map_option set (ac_gatesAny b)
     \<and> map_option set (ac_affectedAreaAny a) = map_option set (ac_affectedAreaAny b)"

definition sameDuties :: "specialistProfile \<Rightarrow> specialistProfile \<Rightarrow> bool" where
  "sameDuties p q \<longleftrightarrow> sp_specialistId p = sp_specialistId q \<and> sp_kind p = sp_kind q \<and> sp_status p = sp_status q
     \<and> sp_independenceClass p = sp_independenceClass q
     \<and> set (sp_coveredDomains p) = set (sp_coveredDomains q) \<and> set (sp_functions p) = set (sp_functions q)
     \<and> set (sp_producesEvidence p) = set (sp_producesEvidence q)
     \<and> set (sp_incompatibleWith p) = set (sp_incompatibleWith q)
     \<and> sameActivation (sp_activation p) (sp_activation q)"

lemma any_in_cong: "map_option set a = map_option set b \<Longrightarrow> any_in a xs = any_in b xs"
  by (cases a; cases b) (auto simp: any_in_def list_ex_iff)

lemma activation_cong:
  assumes "sameActivation (sp_activation p) (sp_activation q)"
  shows "activationMatches p I = activationMatches q I"
proof -
  let ?a = "sp_activation p" and ?b = "sp_activation q"
  have scope: "(case ac_scopeClasses ?a of None \<Rightarrow> False | Some cs \<Rightarrow> si_scopeClass I \<notin> set cs)
      = (case ac_scopeClasses ?b of None \<Rightarrow> False | Some cs \<Rightarrow> si_scopeClass I \<notin> set cs)"
    using assms by (cases "ac_scopeClasses ?a"; cases "ac_scopeClasses ?b") (auto simp: sameActivation_def)
  have none: "(x = None) = (y = None)" if "map_option set x = map_option set y" for x y :: "string list option"
    using that by (cases x; cases y) auto
  show ?thesis
    using assms any_in_cong [of "ac_domainAny ?a" "ac_domainAny ?b"] any_in_cong [of "ac_riskSignalsAny ?a" "ac_riskSignalsAny ?b"]
      any_in_cong [of "ac_gatesAny ?a" "ac_gatesAny ?b"] any_in_cong [of "ac_affectedAreaAny ?a" "ac_affectedAreaAny ?b"]
      none [of "ac_domainAny ?a" "ac_domainAny ?b"] none [of "ac_riskSignalsAny ?a" "ac_riskSignalsAny ?b"]
      none [of "ac_gatesAny ?a" "ac_gatesAny ?b"] none [of "ac_affectedAreaAny ?a" "ac_affectedAreaAny ?b"]
    by (simp only: activationMatches_def Let_def scope sameActivation_def)
qed

lemma produced_cong:
  "set (sp_producesEvidence p) = set (sp_producesEvidence q) \<Longrightarrow> set (producedEvidence p) = set (producedEvidence q)"
  by (simp add: producedEvidence_def)

lemma knowsArea_cong:
  "map_option set (ac_affectedAreaAny (sp_activation p)) = map_option set (ac_affectedAreaAny (sp_activation q)) \<Longrightarrow>
     knowsArea p area = knowsArea q area"
  by (cases "ac_affectedAreaAny (sp_activation p)"; cases "ac_affectedAreaAny (sp_activation q)")
    (auto simp: knowsArea_def list_ex_iff)

lemma covers_cong:
  assumes "sameDuties p q"
  shows "profileCoversSpecialistObligation p b = profileCoversSpecialistObligation q b"
proof -
  have same: "set (sp_functions p) = set (sp_functions q)" "set (producedEvidence p) = set (producedEvidence q)"
    "sp_specialistId p = sp_specialistId q" "sp_independenceClass p = sp_independenceClass q"
    "set (sp_coveredDomains p) = set (sp_coveredDomains q)" "knowsArea p = knowsArea q"
    using assms produced_cong [of p q] knowsArea_cong [of p q] by (auto simp: sameDuties_def sameActivation_def)
  show ?thesis
    by (simp only: profileCoversSpecialistObligation_def coversGateObligation_def hasRequiredFunction_def
        gateEvidenceMatches_def same)
qed

lemma eligibility_cong:
  assumes "sameDuties p q"
  shows "obligationEligibility p I b = obligationEligibility q I b" "operationalEligible p I = operationalEligible q I"
proof -
  have same: "sp_status p = sp_status q" "sp_independenceClass p = sp_independenceClass q"
    "activationMatches p I = activationMatches q I"
    using assms activation_cong [of p q I] by (simp_all add: sameDuties_def)
  show "obligationEligibility p I b = obligationEligibility q I b"
    by (simp only: obligationEligibility_def experimentalRefused_def same covers_cong [OF assms])
  show "operationalEligible p I = operationalEligible q I"
    by (simp only: operationalEligible_def same)
qed

text \<open>A registry of the built-in profiles, in any order and with sorted lists.\<close>

definition builtinRegistry :: "specialistRegistry \<Rightarrow> bool" where
  "builtinRegistry R \<longleftrightarrow> distinctIds R
     \<and> (\<forall>q\<in>set BUILTIN_SPECIALIST_PROFILES. \<exists>p\<in>set (sr_profiles R). sameDuties p q)
     \<and> (\<forall>p\<in>set (sr_profiles R). \<exists>q\<in>set BUILTIN_SPECIALIST_PROFILES. sameDuties p q)"

section \<open>Every obligation of the planner has a built-in profile\<close>

definition alwaysActive :: "specialistProfile \<Rightarrow> bool" where
  "alwaysActive p \<longleftrightarrow> sp_activation p = noActivation"

lemma active_matches: "alwaysActive p \<Longrightarrow> activationMatches p I"
  by (simp add: alwaysActive_def activationMatches_def noActivation_def)

text \<open>Active on a request of the domain: no scope or risk bound, and the domain is among its triggers.\<close>

definition activeOn :: "string \<Rightarrow> specialistProfile \<Rightarrow> bool" where
  "activeOn d p \<longleftrightarrow> alwaysActive p
     \<or> (ac_scopeClasses (sp_activation p) = None \<and> ac_minRisk (sp_activation p) = None
        \<and> any_in (ac_domainAny (sp_activation p)) [d])"

lemma activeOn_matches: "activeOn d p \<Longrightarrow> d \<in> set (si_domains I) \<Longrightarrow> activationMatches p I"
proof -
  assume active: "activeOn d p" and d: "d \<in> set (si_domains I)"
  show "activationMatches p I"
  proof (cases "alwaysActive p")
    case False
    with active have free: "ac_scopeClasses (sp_activation p) = None" "ac_minRisk (sp_activation p) = None"
      and on: "any_in (ac_domainAny (sp_activation p)) [d]"
      by (simp_all add: activeOn_def)
    from on d have "any_in (ac_domainAny (sp_activation p)) (si_domains I)"
      by (auto simp: any_in_def list_ex_iff split: option.splits)
    with free show ?thesis by (simp add: activationMatches_def Let_def)
  qed (rule active_matches)
qed

lemma builtin_domains:
  "d \<in> set DOMAIN_IDS \<Longrightarrow> \<exists>q\<in>set BUILTIN_SPECIALIST_PROFILES. d \<in> set (sp_coveredDomains q) \<and> activeOn d q \<and> sp_status q = SpEnabled"
proof -
  have "list_all (\<lambda>d. list_ex (\<lambda>q. d \<in> set (sp_coveredDomains q) \<and> activeOn d q \<and> sp_status q = SpEnabled)
      BUILTIN_SPECIALIST_PROFILES) DOMAIN_IDS"
    by code_simp
  then show "d \<in> set DOMAIN_IDS \<Longrightarrow> ?thesis" by (auto simp: list_all_iff list_ex_iff)
qed

lemma gate_obligation_fields:
  "ob_kind (gateObligation H g) = GateOb" "ob_gateId (gateObligation H g) = Some g"
  "ob_evidenceId (gateObligation H g) = Some (gateEvidence g)"
  by (simp_all add: gateObligation_def)

lemma builtin_gates:
  "isKnownGateId g \<Longrightarrow> \<exists>q\<in>set BUILTIN_SPECIALIST_PROFILES. profileCoversSpecialistObligation q (gateObligation H g) \<and> sp_status q = SpEnabled"
proof -
  have "list_all (\<lambda>g. list_ex (\<lambda>q. profileCoversSpecialistObligation q (gateObligation plain_host (gd_id g)) \<and> sp_status q = SpEnabled)
      BUILTIN_SPECIALIST_PROFILES) GATE_REGISTRY"
    by code_simp
  moreover have "profileCoversSpecialistObligation q (gateObligation plain_host g) = profileCoversSpecialistObligation q (gateObligation H g)" for q g
    by (simp only: profileCoversSpecialistObligation_def coversGateObligation_def gate_obligation_fields obligationKind.case)
  ultimately show "isKnownGateId g \<Longrightarrow> ?thesis"
    by (fastforce simp: list_all_iff list_ex_iff isKnownGateId_def)
qed

lemma builtin_assurance:
  "b \<in> set (assuranceObligations I) \<Longrightarrow> \<exists>q\<in>set BUILTIN_SPECIALIST_PROFILES. profileCoversSpecialistObligation q b \<and> sp_status q = SpEnabled"
proof -
  have "list_all (\<lambda>re. list_ex (\<lambda>q. profileCoversSpecialistObligation q (assuranceObligation (fst re) (snd re)) \<and> sp_status q = SpEnabled)
      BUILTIN_SPECIALIST_PROFILES)
    [(''independent-reviewer'', ''independent review''), (''security-reviewer'', ''security review''),
     (''performance-reviewer'', ''performance evidence''), (''reliability-reviewer'', ''reliability review'')]"
    by code_simp
  then show "b \<in> set (assuranceObligations I) \<Longrightarrow> ?thesis"
    by (fastforce simp: assuranceObligations_def list_ex_iff split: if_splits)
qed

lemma builtin_architect:
  "\<exists>q\<in>set BUILTIN_SPECIALIST_PROFILES. ArchitectureFn \<in> set (sp_functions q) \<and> sp_status q = SpEnabled"
proof -
  have "list_ex (\<lambda>q. ArchitectureFn \<in> set (sp_functions q) \<and> sp_status q = SpEnabled) BUILTIN_SPECIALIST_PROFILES"
    by code_simp
  then show ?thesis by (auto simp: list_ex_iff)
qed

lemma builtin_no_areas: "q \<in> set BUILTIN_SPECIALIST_PROFILES \<Longrightarrow> ac_affectedAreaAny (sp_activation q) = None \<and> sp_incompatibleWith q = []"
proof -
  have "list_all (\<lambda>q. ac_affectedAreaAny (sp_activation q) = None \<and> sp_incompatibleWith q = []) BUILTIN_SPECIALIST_PROFILES"
    by code_simp
  then show "q \<in> set BUILTIN_SPECIALIST_PROFILES \<Longrightarrow> ?thesis" by (simp add: list_all_iff)
qed

lemma gate_evidence_known: "isKnownGateId g \<Longrightarrow> \<exists>g'. GATE_BY_EVIDENCE (normalizeSpecialistEvidenceToken (gateEvidence g)) = Some g'"
proof -
  have "list_all (\<lambda>g. GATE_BY_EVIDENCE (normalizeSpecialistEvidenceToken (gateEvidence (gd_id g))) \<noteq> None) GATE_REGISTRY"
    by code_simp
  then show "isKnownGateId g \<Longrightarrow> ?thesis" by (auto simp: list_all_iff list_ex_iff isKnownGateId_def)
qed

lemma builtin_core:
  "i \<in> fst ` set (coreRequests I obs) \<Longrightarrow> \<exists>q\<in>set BUILTIN_SPECIALIST_PROFILES. sp_specialistId q = i \<and> alwaysActive q \<and> sp_status q = SpEnabled"
proof -
  have "list_all (\<lambda>i. list_ex (\<lambda>q. sp_specialistId q = i \<and> alwaysActive q \<and> sp_status q = SpEnabled) BUILTIN_SPECIALIST_PROFILES)
    [''repo-inspector'', ''implementation-planner'', ''checkpoint-manager'', ''requirements-engineer'', ''software-architect'',
     ''implementation-agent'', ''test-engineer'']"
    by code_simp
  then show "i \<in> fst ` set (coreRequests I obs) \<Longrightarrow> ?thesis"
    by (auto simp: coreRequests_def list_ex_iff split: if_splits)
qed

end
