(* ===== verification/Builtin_Plan.thy ===== *)
theory Builtin_Plan
  imports Builtin_Selection
begin

text \<open>With a registry of the built-in profiles every plan of the planner is selected.\<close>

section \<open>Chosen identifiers are distinct\<close>

lemma distinct_addSelection:
  "distinct (selectionIds sel) \<Longrightarrow> distinct (selectionIds (addSelection H sel p r rs))"
  by (simp add: addSelection_ids)

lemma distinct_core: "distinct (selectionIds (cs_selected (coreSelection H I obs)))"
proof -
  have step: "distinct (selectionIds (cs_selected st)) \<Longrightarrow> distinct (selectionIds (cs_selected (addCore H I rq st)))" for rq st
    by (auto simp: addCore_def Let_def distinct_addSelection split: option.splits)
  have "distinct (selectionIds (cs_selected st)) \<Longrightarrow> distinct (selectionIds (cs_selected (fold (addCore H I) rs st)))" for rs st
    by (induction rs arbitrary: st) (simp_all add: step)
  then show ?thesis by (simp add: coreSelection_def selectionIds_def)
qed

lemma chosenIds_append: "chosenIds st = selectionIds (fst st) @ selectionIds (snd st)"
  by (simp add: chosenIds_def selectionIds_def)

lemma distinct_step:
  assumes "distinct (chosenIds st)" "coverStep H I obligations st = Some st'"
  shows "distinct (chosenIds st')"
proof (rule coverStep_Some [OF assms(2)])
  fix c rs
  assume c: "c \<in> set (candidates H I obligations st)" and st': "st' = selectionForProfile H (fst c) st True rs"
  have "sp_specialistId (fst c) \<notin> set (chosenIds st)" using c by (simp add: candidates_mem unchosen_def)
  then show ?thesis
    using assms(1) by (auto simp: st' selectionForProfile_def addAssurance_def chosenIds_append addSelection_ids)
qed

lemma distinct_loop: "distinct (chosenIds st) \<Longrightarrow> distinct (chosenIds (coverLoop H I obligations st))"
proof (induction H I obligations st rule: coverLoop.induct)
  case (1 H I obligations st)
  then show ?case
    by (cases "coverStep H I obligations st")
      (simp_all add: coverLoop.simps [of H I obligations st] distinct_step)
qed

lemma distinct_chosen: "distinct (chosenIds (chooseProfiles H I))"
proof -
  let ?obs = "deriveSpecialistObligations H I (sr_profiles (si_registry I))"
  let ?st = "coverLoop H I ?obs (cs_selected (coreSelection H I ?obs), [])"
  have "distinct (chosenIds (cs_selected (coreSelection H I ?obs), []))"
    using distinct_core by (simp add: chosenIds_append) (simp add: selectionIds_def)
  from distinct_loop [OF this, of H I ?obs] have "distinct (selectionIds (fst ?st) @ selectionIds (snd ?st))"
    by (simp add: chosenIds_append)
  then show ?thesis
    unfolding chosenIds_append chooseProfiles_def Let_def byPriority_def fst_conv snd_conv distinct_append
    by (simp add: selectionIds_def distinct_map_sort_with)
qed

lemma chosen_registered:
  assumes "distinctIds (si_registry I)"
  shows "set (chosenIds (chooseProfiles H I)) \<subseteq> sp_specialistId ` set (sr_profiles (si_registry I))"
proof
  fix i assume "i \<in> set (chosenIds (chooseProfiles H I))"
  from chosen_usable.selection_good [OF assms this] obtain p where "profileOf (si_registry I) i = Some p" by blast
  from profileOf_Some [OF this] show "i \<in> sp_specialistId ` set (sr_profiles (si_registry I))" by auto
qed

section \<open>The built-in registry\<close>

lemma builtin_count: "length BUILTIN_SPECIALIST_PROFILES \<le> 32"
  by code_simp

lemma builtin_chosen_bound:
  assumes "builtinRegistry (si_registry I)"
  shows "length (chosenIds (chooseProfiles H I)) \<le> 32"
proof -
  have "set (chosenIds (chooseProfiles H I)) \<subseteq> sp_specialistId ` set BUILTIN_SPECIALIST_PROFILES"
    proof -
    have "sp_specialistId ` set (sr_profiles (si_registry I)) \<subseteq> sp_specialistId ` set BUILTIN_SPECIALIST_PROFILES"
    proof (rule image_subsetI)
      fix p assume "p \<in> set (sr_profiles (si_registry I))"
      then obtain q where "q \<in> set BUILTIN_SPECIALIST_PROFILES" "sameDuties p q" using assms by (auto simp: builtinRegistry_def)
      then show "sp_specialistId p \<in> sp_specialistId ` set BUILTIN_SPECIALIST_PROFILES"
        by (metis imageI sameDuties_def)
    qed
    then show ?thesis using chosen_registered [of I H] assms by (auto simp: builtinRegistry_def)
  qed
  then have "card (set (chosenIds (chooseProfiles H I))) \<le> card (sp_specialistId ` set BUILTIN_SPECIALIST_PROFILES)"
    by (rule card_mono [OF finite_imageI [OF List.finite_set]])
  also have "\<dots> \<le> card (set BUILTIN_SPECIALIST_PROFILES)" by (rule card_image_le [OF List.finite_set])
  also have "\<dots> \<le> length BUILTIN_SPECIALIST_PROFILES" by (rule card_length)
  also have "\<dots> \<le> 32" by (rule builtin_count)
  finally show ?thesis by (simp add: distinct_card [OF distinct_chosen])
qed

text \<open>A built-in profile that serves an obligation gives one of the registry that does.\<close>

lemma builtin_serves:
  assumes "builtinRegistry (si_registry I)" "q \<in> set BUILTIN_SPECIALIST_PROFILES" "obligationEligibility q I b = None"
  shows "\<exists>p\<in>set (sr_profiles (si_registry I)). obligationEligibility p I b = None"
proof -
  obtain p where p: "p \<in> set (sr_profiles (si_registry I))" "sameDuties p q"
    using assms(1,2) by (auto simp: builtinRegistry_def)
  then show ?thesis using eligibility_cong(1) [OF p(2), of I b] assms(3) by auto
qed

lemma enabled_eligible:
  assumes "sp_status q = SpEnabled" "profileCoversSpecialistObligation q b"
    and "ob_kind b \<in> {DomainOb, AffectedAreaOb} \<Longrightarrow> activationMatches q I"
  shows "obligationEligibility q I b = None"
proof -
  have "sp_status q \<noteq> SpDisabled" "\<not> experimentalRefused q I b" using assms(1) by (simp_all add: experimentalRefused_def)
  moreover have "activationMatches q I \<or> ob_kind b = GateOb \<or> ob_kind b = EvidenceOb \<or> ob_kind b = AssuranceOb \<or> ob_kind b = DependencyOb"
    using assms(3) by (cases "ob_kind b") simp_all
  ultimately show ?thesis using assms(2) by (auto simp: obligationEligibility_def)
qed

definition plannerInput :: "specialistRoutingInput \<Rightarrow> bool" where
  "plannerInput I \<longleftrightarrow> set (si_domains I) \<subseteq> set DOMAIN_IDS \<and> (\<forall>g\<in>set (si_gates I). isKnownGateId g)
     \<and> si_requiredEvidence I = map gateEvidence (si_gates I)"

lemma builtin_serves_proposed:
  assumes R: "builtinRegistry (si_registry I)" and I: "plannerInput I"
    and b: "b \<in> set (proposedObligations H I (sr_profiles (si_registry I)))"
  shows "\<exists>p\<in>set (sr_profiles (si_registry I)). obligationEligibility p I b = None"
proof -
  have gate: ?thesis if known: "isKnownGateId g" and item: "b = gateObligation H g" for g
  proof -
    from builtin_gates [OF known, of H] obtain q where q: "q \<in> set BUILTIN_SPECIALIST_PROFILES"
      "profileCoversSpecialistObligation q b" "sp_status q = SpEnabled" unfolding item by blast
    have "ob_kind b = GateOb" unfolding item by (rule gate_obligation_fields)
    with q show ?thesis by (intro builtin_serves [OF R q(1)] enabled_eligible) auto
  qed
  have none: "\<not> knowsArea p area" if p: "p \<in> set (sr_profiles (si_registry I))" for p area
  proof -
    obtain q where q: "q \<in> set BUILTIN_SPECIALIST_PROFILES" "sameDuties p q" using R p by (auto simp: builtinRegistry_def)
    then have "ac_affectedAreaAny (sp_activation p) = None"
      using builtin_no_areas [OF q(1)] by (simp add: sameDuties_def sameActivation_def)
    then show ?thesis by (simp add: knowsArea_def)
  qed
  from b consider d where "d \<in> set (si_domains I)" "b = domainObligation H d"
    | g where "g \<in> set (si_gates I)" "b = gateObligation H g"
    | e where "e \<in> set (si_requiredEvidence I)" "b = evidenceObligation H e"
    | "b \<in> set (assuranceObligations I)" | "b \<in> set (areaObligations H I (sr_profiles (si_registry I)))"
    | "b \<in> set (dependencyObligations I)"
    by (auto simp: proposedObligations_def requestedDomains_def)
  then show ?thesis
  proof cases
    case 1
    then have "d \<in> set DOMAIN_IDS" using I by (auto simp: plannerInput_def)
    from builtin_domains [OF this] obtain q where q: "q \<in> set BUILTIN_SPECIALIST_PROFILES" "d \<in> set (sp_coveredDomains q)"
      "activeOn d q" "sp_status q = SpEnabled" by blast
    moreover have "profileCoversSpecialistObligation q b"
      using q(2) 1(2) by (simp add: profileCoversSpecialistObligation_def domainObligation_def)
    ultimately show ?thesis
      using activeOn_matches [OF q(3) 1(1)] by (intro builtin_serves [OF R q(1)] enabled_eligible) auto
  next
    case 2
    then show ?thesis using I gate by (auto simp: plannerInput_def)
  next
    case 3
    then obtain g where "isKnownGateId g" "e = gateEvidence g" using I by (auto simp: plannerInput_def)
    then obtain g' where g': "GATE_BY_EVIDENCE (normalizeSpecialistEvidenceToken e) = Some g'"
      using gate_evidence_known by blast
    then have "b = gateObligation H g'" by (simp add: 3(2) evidenceObligation_def Let_def)
    then show ?thesis using gate GATE_BY_EVIDENCE_known [OF g'] by blast
  next
    case 4
    from builtin_assurance [OF this] obtain q where "q \<in> set BUILTIN_SPECIALIST_PROFILES"
      "profileCoversSpecialistObligation q b" "sp_status q = SpEnabled" by blast
    moreover have "ob_kind b = AssuranceOb" using 4 by (auto simp: assuranceObligations_def assuranceObligation_def split: if_splits)
    ultimately show ?thesis by (intro builtin_serves [OF R] enabled_eligible) auto
  next
    case 5
    then show ?thesis using none by (auto simp: areaObligations_def list_ex_iff)
  next
    case 6
    from builtin_architect obtain q where "q \<in> set BUILTIN_SPECIALIST_PROFILES" "ArchitectureFn \<in> set (sp_functions q)"
      "sp_status q = SpEnabled" by blast
    moreover have "b = obligation ''dependency:cross-cutting'' DependencyOb"
      using 6 by (auto simp: dependencyObligations_def split: option.splits if_splits)
    ultimately show ?thesis
      by (intro builtin_serves [OF R] enabled_eligible) (auto simp: profileCoversSpecialistObligation_def)
  qed
qed

lemma builtin_core_unmet:
  assumes "builtinRegistry (si_registry I)"
  shows "cs_unmet (coreSelection H I obs) = []"
proof -
  have step: "cs_unmet (addCore H I rq st) = cs_unmet st" if "rq \<in> set (coreRequests I obs)" for rq st
  proof -
    from that have "fst rq \<in> fst ` set (coreRequests I obs)" by simp
    from builtin_core [OF this] obtain q where q: "q \<in> set BUILTIN_SPECIALIST_PROFILES" "sp_specialistId q = fst rq"
      "alwaysActive q" "sp_status q = SpEnabled" by blast
    then obtain p where p: "p \<in> set (sr_profiles (si_registry I))" "sameDuties p q"
      using assms by (auto simp: builtinRegistry_def)
    have "profileOf (si_registry I) (fst rq) = Some p"
      using profileOf_mem [of "si_registry I" p] p q(2) assms by (simp add: builtinRegistry_def sameDuties_def)
    moreover have "operationalEligible p I = None"
      using eligibility_cong(2) [OF p(2), of I] q active_matches [of q I] by (simp add: operationalEligible_def)
    ultimately show ?thesis by (simp add: addCore_def Let_def)
  qed
  have "set rs \<subseteq> set (coreRequests I obs) \<Longrightarrow> cs_unmet (fold (addCore H I) rs st) = cs_unmet st" for rs st
    by (induction rs arbitrary: st) (simp_all add: step)
  then show ?thesis by (simp add: coreSelection_def)
qed

lemma builtin_no_conflicts:
  assumes "builtinRegistry (si_registry I)"
  shows "conflictsOf (si_registry I) (chooseProfiles H I) = []"
proof -
  have "sp_incompatibleWith p = []" if "profileOf (si_registry I) i = Some p" for i p
  proof -
    have "p \<in> set (sr_profiles (si_registry I))" using profileOf_Some [OF that] by blast
    then obtain q where "q \<in> set BUILTIN_SPECIALIST_PROFILES" "sameDuties p q" using assms by (auto simp: builtinRegistry_def)
    then show ?thesis using builtin_no_areas [of q] by (simp add: sameDuties_def)
  qed
  then show ?thesis
    using builtin_chosen_bound [OF assms, of H] by (auto simp: conflictsOf_def MAX_SELECTED_def split: option.splits)
qed

lemma builtin_selection:
  assumes "builtinRegistry (si_registry I)" "assertRegistryBinding H (si_registry I) = Inr ()" "plannerInput I"
  shows "\<exists>p. selectSpecialistPlan H I = Inr p \<and> spl_selected_status p \<and> spl_blockedReasonCodes p = []"
proof -
  let ?obs = "deriveSpecialistObligations H I (sr_profiles (si_registry I))"
  have ids: "distinctIds (si_registry I)" using assms(1) by (simp add: builtinRegistry_def)
  obtain p where p: "selectSpecialistPlan H I = Inr p" using selection_total [OF ids assms(2)] by blast
  have "openItems (chosenProfiles (si_registry I) (chooseProfiles H I)) ?obs = []" (is "?open = []")
  proof (rule ccontr)
    assume "?open \<noteq> []"
    then obtain b where b: "b \<in> set ?open" by (cases ?open) auto
    then have "b \<in> set ?obs" by (simp add: openItems_def)
    then have "b \<in> set (proposedObligations H I (sr_profiles (si_registry I)))"
      using foldl_addObligation_sub [of "[]" "proposedObligations H I (sr_profiles (si_registry I))"]
      by (auto simp: set_derive_obligations)
    from builtin_serves_proposed [OF assms(1,3) this] open_unservable [OF ids b] show False by auto
  qed
  then have "spl_selected_status (planOf H I as)" "spl_blockedReasonCodes (planOf H I as) = []" for as
    using builtin_core_unmet [OF assms(1), of H ?obs] builtin_no_conflicts [OF assms(1), of H]
    by (simp_all add: planOf_def Let_def sortedUnique_def)
  then show ?thesis
    using p by (intro exI [of _ p]) (auto elim!: plan_result)
qed

section \<open>Properties\<close>

text \<open>C35: with a registry of the built-in profiles the selection never blocks a plan: whatever the scope, the
  risk and the dependency signals, a request for known domains and gates gets a selected plan without
  unmet coverage and conflicts.\<close>

theorem builtin_plan_selected:
  assumes "builtinRegistry (si_registry I)" "assertRegistryBinding H (si_registry I) = Inr ()" "plannerInput I"
  shows "\<exists>p. selectSpecialistPlan H I = Inr p \<and> spl_selected_status p \<and> spl_blockedReasonCodes p = []"
  by (rule builtin_selection [OF assms])

definition catalogRegistry :: specialistRegistry where
  "catalogRegistry = \<lparr>sr_profiles = BUILTIN_SPECIALIST_PROFILES,
     sr_registryDigest = computeSpecialistRegistryDigest plain_host BUILTIN_SPECIALIST_PROFILES,
     sr_policyVersion = SPECIALIST_POLICY_VERSION\<rparr>"

definition demoBase :: "string list \<Rightarrow> specialistRoutingInput" where
  "demoBase domains = demoRoutingInput\<lparr>si_domains := domains, si_requiredEvidence := map gateEvidence (si_gates demoRoutingInput)\<rparr>"

definition demoRequest :: "string list \<Rightarrow> specialistRoutingInput" where
  "demoRequest domains = (demoBase domains)\<lparr>si_registry := catalogRegistry\<rparr>"

lemma derive_registry:
  "deriveSpecialistObligations H (I\<lparr>si_registry := R\<rparr>) ps = deriveSpecialistObligations H I ps"
proof -
  have any: "hasAny (I\<lparr>si_registry := R\<rparr>) = hasAny I" by (simp add: fun_eq_iff hasAny_def)
  show ?thesis
    by (simp add: deriveSpecialistObligations_def proposedObligations_def requestedDomains_def areaObligations_def
        assuranceObligations_def securityRequired_def performanceRequired_def reliabilityRequired_def any
        dependencyObligations_def)
qed

lemma demo_registry [simp]: "si_registry (demoRequest ds) = catalogRegistry"
  by (simp add: demoRequest_def)

lemma catalog_profiles: "sr_profiles catalogRegistry = BUILTIN_SPECIALIST_PROFILES"
  by (simp add: catalogRegistry_def)

lemma catalog_builtin: "builtinRegistry catalogRegistry"
  using builtin_ids_distinct by (auto simp: builtinRegistry_def distinctIds_def catalog_profiles sameDuties_def sameActivation_def)

lemma catalog_distinct: "distinctIds (si_registry (demoRequest ds))"
  using catalog_builtin by (simp add: builtinRegistry_def)

lemma catalog_bound: "assertRegistryBinding plain_host (si_registry (demoRequest ds)) = Inr ()"
  by (simp add: assertRegistryBinding_def catalogRegistry_def)

lemma demo_planner: "plannerInput (demoRequest [''database''])"
  using demo_gates_known by (simp add: plannerInput_def demoRequest_def demoBase_def DOMAIN_IDS_def)

lemma demo_selected: "\<exists>p. selectSpecialistPlan plain_host (demoRequest [''database'']) = Inr p \<and> spl_selected_status p"
  using builtin_selection [OF _ catalog_bound demo_planner] catalog_builtin by auto

lemma builtin_plan_selected_witness:
  "\<exists>p. selectSpecialistPlan plain_host (demoRequest [''database'']) = Inr p \<and> spl_selected_status p \<and> spl_blockedReasonCodes p = []"
  using builtin_plan_selected [OF _ catalog_bound demo_planner] catalog_builtin by simp

lemma selected_plan_covers_witness:
  "\<exists>p. selectSpecialistPlan plain_host (demoRequest [''database'']) = Inr p \<and> length (planIds p) \<le> 32
     \<and> (\<forall>b\<in>set (spl_requiredObligations p). \<exists>q\<in>set BUILTIN_SPECIALIST_PROFILES. profileCoversSpecialistObligation q b)"
proof -
  obtain p where p: "selectSpecialistPlan plain_host (demoRequest [''database'']) = Inr p" "spl_selected_status p"
    using demo_selected by blast
  from selected_plan_covers [OF catalog_distinct p] p(1) show ?thesis
    by (intro exI [of _ p]) (auto simp: catalog_profiles)
qed

lemma cover_loop_terminates_witness:
  "\<exists>q. sp_specialistId q \<in> set (chosenIds (coverLoop plain_host (demoRequest [''database''])
        [assuranceObligation ''independent-reviewer'' ''independent review''] ([], [])))
     \<and> profileCoversSpecialistObligation q (assuranceObligation ''independent-reviewer'' ''independent review'')"
proof -
  let ?I = "demoRequest [''database'']" and ?b = "assuranceObligation ''independent-reviewer'' ''independent review''"
  have "?b \<in> set (proposedObligations plain_host ?I (sr_profiles (si_registry ?I)))"
    by (simp add: proposedObligations_def assuranceObligations_def)
  from builtin_serves_proposed [OF _ demo_planner this] catalog_builtin
  have "\<not> (\<forall>q\<in>set (sr_profiles (si_registry ?I)). obligationEligibility q ?I ?b \<noteq> None)" by simp
  then show ?thesis
    using cover_loop_terminates [OF catalog_distinct [of "[''database'']"], where st = "([], [])" and k = 0 and H = plain_host
        and obligations = "[?b]"] by auto
qed

lemma unmet_only_if_unservable_witness:
  "\<exists>p. selectSpecialistPlan plain_host (demoRequest [''ugas'']) = Inr p
     \<and> unmetOf (domainObligation plain_host ''ugas'') \<in> set (spl_unmetObligations p)"
proof -
  let ?I = "demoRequest [''ugas'']"
  obtain p where p: "selectSpecialistPlan plain_host ?I = Inr p"
    using selection_total [OF catalog_distinct catalog_bound] by blast
  have required: "spl_requiredObligations p = deriveSpecialistObligations plain_host ?I BUILTIN_SPECIALIST_PROFILES"
    using plan_required [OF p] by (simp add: catalog_profiles demoRequest_def)
  have derived: "list_ex (\<lambda>b. b = domainObligation plain_host ''ugas'')
      (deriveSpecialistObligations plain_host (demoBase [''ugas'']) BUILTIN_SPECIALIST_PROFILES)"
    by code_simp
  have uncoverable: "list_all (\<lambda>q. \<not> profileCoversSpecialistObligation q (domainObligation plain_host ''ugas'')) BUILTIN_SPECIALIST_PROFILES"
    by code_simp
  have "domainObligation plain_host ''ugas'' \<in> set (spl_requiredObligations p)"
    using derived by (auto simp: required list_ex_iff demoRequest_def derive_registry)
  from unmet_only_if_unservable [OF catalog_distinct p this] uncoverable
  have "unmetOf (domainObligation plain_host ''ugas'') \<in> set (spl_unmetObligations p)"
    by (auto simp: list_all_iff catalog_profiles)
  with p show ?thesis by blast
qed

lemma plan_current_for_own_input_witness:
  "\<exists>p. selectSpecialistPlan plain_host (demoRequest [''database'']) = Inr p
     \<and> isSpecialistSelectionPlanCurrent plain_host p (demoRequest [''database''])"
  using demo_selected plan_current_for_own_input by blast

end
