(* ===== verification/Json_Decode.thy ===== *)
theory Json_Decode
  imports Json Execution_Types
begin

text \<open>
  Reading typed values out of JSON as the registries of the kernel do it
  (\<^verbatim>\<open>specialist-registry.ts\<close>, \<^verbatim>\<open>model-registry.ts\<close>, \<^verbatim>\<open>model-runtime.ts\<close> each have a copy of
  these helpers): an absent member is \<open>undefined\<close>, a refusal is an error with its message.
\<close>

section \<open>Results\<close>

type_synonym 'a res = "uadsError + 'a"

definition bindR :: "'a res \<Rightarrow> ('a \<Rightarrow> 'b res) \<Rightarrow> 'b res" where
  "bindR r f = (case r of Inl e \<Rightarrow> Inl e | Inr x \<Rightarrow> f x)"

definition refuse :: "string \<Rightarrow> 'a res" where
  "refuse m = Inl (PlainError m)"

definition ensure :: "bool \<Rightarrow> string \<Rightarrow> unit res" where
  "ensure ok m = (if ok then Inr () else refuse m)"

primrec mapR :: "('a \<Rightarrow> 'b res) \<Rightarrow> 'a list \<Rightarrow> 'b list res" where
  "mapR f [] = Inr []"
| "mapR f (x # xs) = bindR (f x) (\<lambda>y. bindR (mapR f xs) (\<lambda>ys. Inr (y # ys)))"

lemma bindR_Inr [simp]: "bindR r f = Inr y \<longleftrightarrow> (\<exists>x. r = Inr x \<and> f x = Inr y)"
  by (cases r) (simp_all add: bindR_def)

lemma bindR_simps [simp]: "bindR (Inr x) f = f x" "bindR (Inl e) f = Inl e"
  by (simp_all add: bindR_def)

lemma ensure_Inr [simp]: "ensure ok m = Inr u \<longleftrightarrow> ok"
  by (simp add: ensure_def refuse_def)

lemma refuse_Inr [simp]: "refuse m \<noteq> Inr x"
  by (simp add: refuse_def)

lemma mapR_Inr: "mapR f xs = Inr ys \<longleftrightarrow> list_all2 (\<lambda>x y. f x = Inr y) xs ys"
  by (induction xs arbitrary: ys) (auto simp: list_all2_Cons1)

section \<open>Members\<close>

definition memberOf :: "json \<Rightarrow> string \<Rightarrow> json option" where
  "memberOf j key = (case j of JObj kvs \<Rightarrow> map_of kvs key | _ \<Rightarrow> None)"

definition isRecord :: "json \<Rightarrow> bool" where
  "isRecord j = (case j of JObj _ \<Rightarrow> True | _ \<Rightarrow> False)"

definition unsupportedKeys :: "json \<Rightarrow> string list \<Rightarrow> string list" where
  "unsupportedKeys j allowed = (case j of JObj kvs \<Rightarrow> filter (\<lambda>k. k \<notin> set allowed) (map fst kvs) | _ \<Rightarrow> [])"

definition assertOnlyKeys :: "json \<Rightarrow> string list \<Rightarrow> string \<Rightarrow> unit res" where
  "assertOnlyKeys j allowed label =
     ensure (unsupportedKeys j allowed = [])
       (label @ '' contains unsupported fields: '' @ join_with '', '' (sort_with code_unit_le (unsupportedKeys j allowed)))"

definition enumValue :: "('a \<Rightarrow> string) \<Rightarrow> 'a list \<Rightarrow> string \<Rightarrow> 'a option \<Rightarrow> json option \<Rightarrow> 'a res" where
  "enumValue text values label fallback v =
    (case v of
       None \<Rightarrow> (case fallback of Some x \<Rightarrow> Inr x | None \<Rightarrow> refuse (label @ '' has an unsupported value''))
     | Some (JStr s) \<Rightarrow>
         (case find (\<lambda>x. text x = s) values of Some x \<Rightarrow> Inr x
          | None \<Rightarrow> refuse (label @ '' has an unsupported value''))
     | Some _ \<Rightarrow> refuse (label @ '' has an unsupported value''))"

definition optionalR :: "json option \<Rightarrow> (json option \<Rightarrow> 'a res) \<Rightarrow> 'a option res" where
  "optionalR v f = (case v of None \<Rightarrow> Inr None | Some j \<Rightarrow> bindR (f (Some j)) (\<lambda>x. Inr (Some x)))"

definition boolMember :: "json option \<Rightarrow> bool option" where
  "boolMember v = (case v of Some (JBool b) \<Rightarrow> Some b | _ \<Rightarrow> None)"

definition literalOr :: "string \<Rightarrow> json option \<Rightarrow> bool" where
  "literalOr s v \<longleftrightarrow> v = None \<or> v = Some (JStr s)"

text \<open>The first identifier that occurs a second time.\<close>

fun firstDuplicate :: "string list \<Rightarrow> string list \<Rightarrow> string option" where
  "firstDuplicate seen [] = None"
| "firstDuplicate seen (i # is) = (if i \<in> set seen then Some i else firstDuplicate (i # seen) is)"

end
