(* ===== verification/Specialist_Registry.thy ===== *)
theory Specialist_Registry
  imports Json_Decode Specialist_Digest Specialist_Catalog Sidecar_Persist
begin

text \<open>
  \<^verbatim>\<open>src/kernel/specialist-registry.ts\<close>: profiles come in as JSON values, of the catalog, of a
  user or of the registry file, and leave as typed profiles with their digest, or are refused. The
  two content tests of \<^verbatim>\<open>lib/secrets.ts\<close> are one parameter. An absent member is \<open>undefined\<close>.
\<close>

section \<open>Values\<close>

text \<open>The registry file: the profiles stay JSON until they are normalized.\<close>

record registryFile =
  rf_profiles :: "json list"
  rf_registryDigest :: string
  rf_policyVersion :: string

record specialistSys = sys +
  unsafeText :: "string \<Rightarrow> bool"
  okSelectionPlan :: "specialistSelectionPlan \<Rightarrow> bool"
  okRegistry :: "registryFile \<Rightarrow> bool"

text \<open>\<open>/^[^\<^bold>u0000-\<^bold>u001f\<^bold>u007f]+$/\<close>\<close>

definition isSafeText :: "string \<Rightarrow> bool" where
  "isSafeText s \<longleftrightarrow> s \<noteq> [] \<and> list_all (\<lambda>c. 32 \<le> (of_char c :: nat) \<and> (of_char c :: nat) \<noteq> 127) s"

definition isAsciiLetter :: "char \<Rightarrow> bool" where
  "isAsciiLetter c \<longleftrightarrow> (let n = of_char c :: nat in (65 \<le> n \<and> n \<le> 90) \<or> (97 \<le> n \<and> n \<le> 122))"

definition isAbsoluteLike :: "string \<Rightarrow> bool" where
  "isAbsoluteLike s \<longleftrightarrow> starts_with ''/'' s \<or> starts_with [CHR 0x5C] s
     \<or> (case s of c # d # e # _ \<Rightarrow> isAsciiLetter c \<and> d = CHR '':'' \<and> (e = CHR 0x5C \<or> e = CHR ''/'') | _ \<Rightarrow> False)
     \<or> starts_with ''file://'' (to_lower s)"

text \<open>A whole word of the list: a maximal run of word characters, in any case.\<close>

definition isWordChar :: "char \<Rightarrow> bool" where
  "isWordChar c \<longleftrightarrow> isAsciiLetter c \<or> c = CHR ''_'' \<or> (let n = of_char c :: nat in 48 \<le> n \<and> n \<le> 57)"

fun wordRuns :: "string \<Rightarrow> string \<Rightarrow> string list" where
  "wordRuns w [] = [rev w]"
| "wordRuns w (c # cs) = (if isWordChar c then wordRuns (c # w) cs else rev w # wordRuns [] cs)"

definition COMMAND_WORDS :: "string list" where
  "COMMAND_WORDS = [''command'', ''commands'', ''hook'', ''hooks'', ''exec'', ''curl'', ''powershell'', ''bash'']"

definition mentionsCommand :: "string \<Rightarrow> bool" where
  "mentionsCommand s \<longleftrightarrow> list_ex (\<lambda>w. to_lower w \<in> set COMMAND_WORDS) (wordRuns [] s)"

definition safeString :: "'h specialistSys_scheme \<Rightarrow> json option \<Rightarrow> string \<Rightarrow> nat \<Rightarrow> string res" where
  "safeString H v label maxLength =
    (case v of
       None \<Rightarrow> refuse (label @ '' is required'')
     | Some JNull \<Rightarrow> refuse (label @ '' is required'')
     | Some (JStr s) \<Rightarrow>
         if trim s = [] \<or> maxLength < length s \<or> \<not> isSafeText s
         then refuse (label @ '' must be a bounded safe string'')
         else if isAbsoluteLike (trim s) \<or> unsafeText H (trim s) \<or> mentionsCommand (trim s)
         then refuse (label @ '' contains secret-like or host-path data'')
         else Inr (trim s)
     | Some _ \<Rightarrow> refuse (label @ '' must be a bounded safe string''))"

definition MAX_SPECIALIST_ARRAY_ITEMS :: nat where
  "MAX_SPECIALIST_ARRAY_ITEMS = 32"

definition sortedSet :: "'h host_scheme \<Rightarrow> string list \<Rightarrow> string list" where
  "sortedSet H xs = sort_with (locale_le H) (dedup xs)"

text \<open>The label of an item carries its index; the message of the first refused item is the outcome.\<close>

fun safeItems :: "'h specialistSys_scheme \<Rightarrow> string \<Rightarrow> nat \<Rightarrow> nat \<Rightarrow> json list \<Rightarrow> string list res" where
  "safeItems H label maxLength i [] = Inr []"
| "safeItems H label maxLength i (j # js) =
     bindR (safeString H (Some j) (label @ ''['' @ digits_of i @ '']'') maxLength) (\<lambda>s.
       bindR (safeItems H label maxLength (Suc i) js) (\<lambda>ss. Inr (s # ss)))"

definition safeStringArray :: "'h specialistSys_scheme \<Rightarrow> json option \<Rightarrow> string \<Rightarrow> nat \<Rightarrow> string list res" where
  "safeStringArray H v label maxLength =
    (case v of
       None \<Rightarrow> refuse (label @ '' is required'')
     | Some JNull \<Rightarrow> refuse (label @ '' is required'')
     | Some (JArr js) \<Rightarrow>
         if MAX_SPECIALIST_ARRAY_ITEMS < length js then refuse (label @ '' must be a bounded array'')
         else bindR (safeItems H label maxLength 0 js) (\<lambda>ss. Inr (sortedSet H ss))
     | Some _ \<Rightarrow> refuse (label @ '' must be a bounded array''))"

definition enumItems :: "('a \<Rightarrow> string) \<Rightarrow> 'a list \<Rightarrow> string \<Rightarrow> string list \<Rightarrow> 'a list res" where
  "enumItems text values label xs = mapR (\<lambda>s. enumValue text values label None (Some (JStr s))) xs"

definition safeInteger :: "json option \<Rightarrow> string \<Rightarrow> nat res" where
  "safeInteger v label =
    (case v of
       Some (JInt n) \<Rightarrow> if 0 \<le> n \<and> n \<le> 1000000 then Inr (nat n) else refuse (label @ '' must be a bounded non-negative integer'')
     | _ \<Rightarrow> refuse (label @ '' must be a bounded non-negative integer''))"

section \<open>Profiles\<close>

definition SCOPES :: "scopeClass list" where
  "SCOPES = [Trivial, Local, CrossCutting, Architectural]"

definition RISKS :: "riskLevel list" where
  "RISKS = [LOW, MEDIUM, HIGH, CRITICAL]"

definition FUNCTIONS :: "specialistFunction list" where
  "FUNCTIONS = [InspectFn, RequirementsFn, ArchitectureFn, PlanningFn, ImplementationFn, TestingFn, IndependentReviewFn,
     SecurityAssuranceFn, PerformanceAssuranceFn, ReliabilityAssuranceFn, CheckpointFn, FrontendFn, BackendApiFn,
     DatabaseFn, MobileFn, PlatformCloudFn, DataAiFn, Web3ContractFn, FinanceMathFn, GameSystemsFn,
     DocumentationFn, ReleaseFn, QualityFn, SystemsRuntimeFn]"

definition PROFILE_KEYS :: "string list" where
  "PROFILE_KEYS =
    [''schema'', ''schemaVersion'', ''specialistId'', ''kind'', ''status'', ''purpose'', ''coveredDomains'', ''functions'',
     ''mayImplement'', ''reviewOnly'', ''independenceClass'', ''activation'', ''requiredInputs'', ''producesEvidence'',
     ''incompatibleWith'', ''priority'', ''source'', ''notes'', ''profileDigest'']"

definition ACTIVATION_KEYS :: "string list" where
  "ACTIVATION_KEYS = [''scopeClasses'', ''minRisk'', ''domainAny'', ''riskSignalsAny'', ''gatesAny'', ''affectedAreaAny'']"

text \<open>\<open>/^[a-z0-9][a-z0-9-]{0,95}$/\<close>\<close>

definition isSafeId :: "string \<Rightarrow> bool" where
  "isSafeId s \<longleftrightarrow> (case s of [] \<Rightarrow> False | c # cs \<Rightarrow> is_id_start c \<and> length cs \<le> 95
     \<and> list_all (\<lambda>d. is_id_start d \<or> d = CHR ''-'') cs)"

definition activationFields :: "'h specialistSys_scheme \<Rightarrow> json \<Rightarrow> specialistActivation res" where
  "activationFields H j =
    bindR (optionalR (memberOf j ''scopeClasses'') (\<lambda>v. bindR (safeStringArray H v ''activation.scopeClasses'' 32)
      (enumItems scope_text SCOPES ''activation.scopeClasses''))) (\<lambda>scopes.
    bindR (optionalR (memberOf j ''domainAny'') (\<lambda>v. bindR (safeStringArray H v ''activation.domainAny'' 64)
      (enumItems (\<lambda>d. d) DOMAIN_IDS ''activation.domainAny''))) (\<lambda>domains.
    bindR (optionalR (memberOf j ''minRisk'') (enumValue risk_text RISKS ''activation.minRisk'' None)) (\<lambda>risk.
    bindR (optionalR (memberOf j ''riskSignalsAny'') (\<lambda>v. safeStringArray H v ''activation.riskSignalsAny'' 96)) (\<lambda>signals.
    bindR (optionalR (memberOf j ''gatesAny'') (\<lambda>v. safeStringArray H v ''activation.gatesAny'' 96)) (\<lambda>gates.
    bindR (optionalR (memberOf j ''affectedAreaAny'') (\<lambda>v. safeStringArray H v ''activation.affectedAreaAny'' 96)) (\<lambda>areas.
    Inr \<lparr>ac_scopeClasses = scopes, ac_minRisk = risk, ac_domainAny = domains, ac_riskSignalsAny = signals,
         ac_gatesAny = gates, ac_affectedAreaAny = areas\<rparr>))))))"

definition normalizeActivation :: "'h specialistSys_scheme \<Rightarrow> json option \<Rightarrow> specialistActivation res" where
  "normalizeActivation H v =
    (case v of
       None \<Rightarrow> Inr noActivation
     | Some JNull \<Rightarrow> Inr noActivation
     | Some j \<Rightarrow>
         bindR (ensure (isRecord j) ''activation must be an object'') (\<lambda>_.
         bindR (assertOnlyKeys j ACTIVATION_KEYS ''activation'') (\<lambda>_. activationFields H j)))"

definition separationCheck :: "bool \<Rightarrow> bool \<Rightarrow> independenceClass \<Rightarrow> unit res" where
  "separationCheck mayImplement reviewOnly ind =
    bindR (ensure (\<not> (mayImplement \<and> reviewOnly)) ''reviewOnly=true and mayImplement=true is invalid'') (\<lambda>_.
    bindR (ensure (\<not> (ind = IndependentReviewClass \<and> mayImplement)) ''independent-review profiles cannot implement'') (\<lambda>_.
    bindR (ensure (\<not> (mayImplement \<and> ind \<noteq> ImplementationClass)) ''implementing profiles must use independenceClass=implementation'') (\<lambda>_.
    ensure (\<not> (reviewOnly \<and> ind = ImplementationClass)) ''implementation class cannot be reviewOnly'')))"

definition sourceOf :: "specialistSource option \<Rightarrow> json option \<Rightarrow> specialistSource res" where
  "sourceOf override v = (case override of Some s \<Rightarrow> Inr s
     | None \<Rightarrow> enumValue source_text [BuiltinProfile, UserProfile, AdapterProfile] ''source'' (Some UserProfile) v)"

definition notesOf :: "'h specialistSys_scheme \<Rightarrow> json option \<Rightarrow> string option res" where
  "notesOf H v = (if v = None \<or> v = Some JNull then Inr None
     else bindR (safeString H v ''notes'' 1000) (\<lambda>s. Inr (Some s)))"

definition profileFields :: "'h specialistSys_scheme \<Rightarrow> json \<Rightarrow> specialistSource option \<Rightarrow> specialistProfile res" where
  "profileFields H raw override =
    bindR (safeString H (memberOf raw ''specialistId'') ''specialistId'' 96) (\<lambda>i.
    bindR (ensure (isSafeId i \<and> i \<notin> set [''__proto__'', ''constructor'', ''prototype'']) ''specialistId is unsafe'') (\<lambda>_.
    bindR (ensure (literalOr ''uads.specialist-profile'' (memberOf raw ''schema'') \<and> literalOr ''0.9.0'' (memberOf raw ''schemaVersion''))
             ''specialist profile schema/version mismatch'') (\<lambda>_.
    bindR (bindR (safeStringArray H (memberOf raw ''coveredDomains'') ''coveredDomains'' 64) (enumItems (\<lambda>d. d) DOMAIN_IDS ''coveredDomains'')) (\<lambda>domains.
    bindR (bindR (safeStringArray H (memberOf raw ''functions'') ''functions'' 64) (enumItems function_text FUNCTIONS ''functions'')) (\<lambda>fs.
    (case (boolMember (memberOf raw ''mayImplement''), boolMember (memberOf raw ''reviewOnly'')) of
       (Some mayImplement, Some reviewOnly) \<Rightarrow>
         bindR (enumValue independence_text [ImplementationClass, SupportClass, IndependentReviewClass, AssuranceClass]
                  ''independenceClass'' None (memberOf raw ''independenceClass'')) (\<lambda>ind.
         bindR (separationCheck mayImplement reviewOnly ind) (\<lambda>_.
         bindR (safeStringArray H (memberOf raw ''incompatibleWith'') ''incompatibleWith'' 96) (\<lambda>incompatible.
         bindR (ensure (list_all isSafeId incompatible) ''incompatibleWith contains an unsafe specialist ID'') (\<lambda>_.
         bindR (enumValue kind_text [CoreKind, DomainKind, AssuranceKind] ''kind'' None (memberOf raw ''kind'')) (\<lambda>kind.
         bindR (enumValue status_text [SpEnabled, SpDisabled, SpExperimental] ''status'' (Some SpEnabled) (memberOf raw ''status'')) (\<lambda>status.
         bindR (safeString H (memberOf raw ''purpose'') ''purpose'' 240) (\<lambda>purpose.
         bindR (normalizeActivation H (memberOf raw ''activation'')) (\<lambda>act.
         bindR (safeStringArray H (memberOf raw ''requiredInputs'') ''requiredInputs'' 160) (\<lambda>inputs.
         bindR (safeStringArray H (memberOf raw ''producesEvidence'') ''producesEvidence'' 160) (\<lambda>produces.
         bindR (safeInteger (memberOf raw ''priority'') ''priority'') (\<lambda>priority.
         bindR (sourceOf override (memberOf raw ''source'')) (\<lambda>source.
         bindR (notesOf H (memberOf raw ''notes'')) (\<lambda>notes.
         Inr \<lparr>sp_specialistId = i, sp_kind = kind, sp_status = status, sp_purpose = purpose, sp_coveredDomains = domains,
              sp_functions = fs, sp_mayImplement = mayImplement, sp_reviewOnly = reviewOnly,
              sp_independenceClass = ind, sp_activation = act, sp_requiredInputs = inputs,
              sp_producesEvidence = produces, sp_incompatibleWith = incompatible, sp_priority = priority,
              sp_source = source, sp_notes = notes, sp_profileDigest = []\<rparr>)))))))))))))
     | _ \<Rightarrow> refuse ''mayImplement and reviewOnly must be boolean''))))))"

definition normalizeSpecialistProfile ::
  "'h specialistSys_scheme \<Rightarrow> json \<Rightarrow> specialistSource option \<Rightarrow> specialistProfile res" where
  "normalizeSpecialistProfile H raw override =
    bindR (ensure (isRecord raw) ''specialist profile must be a JSON object'') (\<lambda>_.
    bindR (assertOnlyKeys raw PROFILE_KEYS ''specialist profile'') (\<lambda>_.
    bindR (profileFields H raw override) (\<lambda>p.
      let digest = computeSpecialistProfileDigest H p
      in if memberOf raw ''profileDigest'' \<noteq> None \<and> memberOf raw ''profileDigest'' \<noteq> Some (JStr digest)
         then refuse (''profileDigest mismatch for '' @ sp_specialistId p)
         else Inr (p\<lparr>sp_profileDigest := digest\<rparr>))))"

section \<open>Registries\<close>

definition MAX_SPECIALIST_PROFILES :: nat where
  "MAX_SPECIALIST_PROFILES = 64"

definition distinctProfiles :: "specialistProfile list \<Rightarrow> unit res" where
  "distinctProfiles ps = (case firstDuplicate [] (map sp_specialistId ps) of None \<Rightarrow> Inr ()
     | Some i \<Rightarrow> refuse (''duplicate specialist ID: '' @ i))"

definition createSpecialistRegistry :: "'h specialistSys_scheme \<Rightarrow> json list \<Rightarrow> specialistRegistry res" where
  "createSpecialistRegistry H raws =
    bindR (ensure (length raws \<le> MAX_SPECIALIST_PROFILES) ''specialist registry exceeds maximum profile count'') (\<lambda>_.
    bindR (mapR (\<lambda>raw. normalizeSpecialistProfile H raw None) raws) (\<lambda>ps.
      let sorted = byId H ps
      in bindR (distinctProfiles sorted) (\<lambda>_.
         Inr \<lparr>sr_profiles = sorted, sr_registryDigest = computeSpecialistRegistryDigest H sorted,
              sr_policyVersion = SPECIALIST_POLICY_VERSION\<rparr>)))"

definition builtinSpecialistRegistry :: "'h specialistSys_scheme \<Rightarrow> specialistRegistry res" where
  "builtinSpecialistRegistry H =
    bindR (mapR (\<lambda>p. normalizeSpecialistProfile H (JObj (profileMembers p)) (Some BuiltinProfile)) BUILTIN_SPECIALIST_PROFILES) (\<lambda>ps.
      createSpecialistRegistry H (map profileJson ps))"

end
