(* ===== verification/Specialist_Store.thy ===== *)
theory Specialist_Store
  imports Specialist_Registry Specialist_Plan
begin

text \<open>
  \<^verbatim>\<open>src/kernel/specialist-persist.ts\<close> and the stores of \<^verbatim>\<open>specialist-registry.ts\<close>: the registry
  file, the current selection plan with its history, and the check that binds the plan to its work
  order. The planner works on the sidecar together with these files. Symbolic links in the sidecar
  are not modelled, so the path checks of the fixed paths always pass.
\<close>

section \<open>Files\<close>

record registryState =
  gs_registryDigest :: string
  gs_policyVersion :: string
  gs_profileCount :: nat

record specialistFiles =
  sx_registry :: "registryFile artifact"
  sx_state :: "registryState artifact"
  sx_current :: "specialistSelectionPlan artifact"
  sx_history :: "(string \<times> specialistSelectionPlan artifact) list"

record workspaceFiles =
  wf_sidecar :: sidecar
  wf_specialists :: specialistFiles

type_synonym 'a wop = "(workspaceFiles, uadsError, 'a) step"

text \<open>An operation of the sidecar alone.\<close>

definition onSidecar :: "'a op \<Rightarrow> 'a wop" where
  "onSidecar m = (\<lambda>s. case m (wf_sidecar s) of (r, t) \<Rightarrow> (r, s\<lparr>wf_sidecar := t\<rparr>))"

definition setRegistry :: "registryFile \<Rightarrow> workspaceFiles \<Rightarrow> workspaceFiles" where
  "setRegistry f s = s\<lparr>wf_specialists := (wf_specialists s)\<lparr>sx_registry := Parsed f\<rparr>\<rparr>"

definition setRegistryState :: "registryState \<Rightarrow> workspaceFiles \<Rightarrow> workspaceFiles" where
  "setRegistryState f s = s\<lparr>wf_specialists := (wf_specialists s)\<lparr>sx_state := Parsed f\<rparr>\<rparr>"

definition setCurrentSelection :: "specialistSelectionPlan \<Rightarrow> workspaceFiles \<Rightarrow> workspaceFiles" where
  "setCurrentSelection p s = s\<lparr>wf_specialists := (wf_specialists s)\<lparr>sx_current := Parsed p\<rparr>\<rparr>"

definition addSelectionHistory :: "string \<Rightarrow> specialistSelectionPlan \<Rightarrow> workspaceFiles \<Rightarrow> workspaceFiles" where
  "addSelectionHistory i p s = s\<lparr>wf_specialists := (wf_specialists s)
     \<lparr>sx_history := write_entry (jsonName i) (Parsed p) (sx_history (wf_specialists s))\<rparr>\<rparr>"

section \<open>The registry file\<close>

fun sanitizeJson :: "'h host_scheme \<Rightarrow> json \<Rightarrow> json" where
  "sanitizeJson H (JStr s) = JStr (sanitizeOperationalText H s)"
| "sanitizeJson H (JArr js) = JArr (map (sanitizeJson H) js)"
| "sanitizeJson H (JObj kvs) = JObj (map (\<lambda>kv. (fst kv, sanitizeJson H (snd kv))) kvs)"
| "sanitizeJson H j = j"

definition fileOfRegistry :: "specialistRegistry \<Rightarrow> registryFile" where
  "fileOfRegistry R = \<lparr>rf_profiles = map profileJson (sr_profiles R), rf_registryDigest = sr_registryDigest R,
     rf_policyVersion = sr_policyVersion R\<rparr>"

definition sanitizeRegistryFile :: "'h host_scheme \<Rightarrow> registryFile \<Rightarrow> registryFile" where
  "sanitizeRegistryFile H f = f\<lparr>rf_profiles := map (sanitizeJson H) (rf_profiles f),
     rf_registryDigest := sanitizeOperationalText H (rf_registryDigest f),
     rf_policyVersion := sanitizeOperationalText H (rf_policyVersion f)\<rparr>"

definition registryStateOf :: "specialistRegistry \<Rightarrow> registryState" where
  "registryStateOf R = \<lparr>gs_registryDigest = sr_registryDigest R, gs_policyVersion = sr_policyVersion R,
     gs_profileCount = length (sr_profiles R)\<rparr>"

definition mismatchMessage :: string where
  "mismatchMessage = ''specialist registry digest or policy version mismatch''"

definition persistSpecialistRegistry :: "'h specialistSys_scheme \<Rightarrow> specialistRegistry \<Rightarrow> specialistRegistry wop" where
  "persistSpecialistRegistry H R =
    bindE (liftE (createSpecialistRegistry H (map profileJson (sr_profiles R)))) (\<lambda>normalized.
    bindE (guardE (sr_registryDigest R = sr_registryDigest normalized \<and> sr_policyVersion R = SPECIALIST_POLICY_VERSION)
             (PlainError mismatchMessage)) (\<lambda>_.
    bindE (guardE (okRegistry H (fileOfRegistry normalized)) (PlainError (schemaError ''specialist-registry.schema.json''))) (\<lambda>_.
    bindE (writeE (setRegistry (sanitizeRegistryFile H (fileOfRegistry normalized)))) (\<lambda>_.
    bindE (writeE (setRegistryState (registryStateOf normalized))) (\<lambda>_.
    returnE normalized)))))"

definition storedRegistry :: "'h specialistSys_scheme \<Rightarrow> registryFile \<Rightarrow> specialistRegistry res" where
  "storedRegistry H f =
    bindR (ensure (okRegistry H f)
      (''specialist registry failed schema validation: '' @ schemaError ''specialist-registry.schema.json'')) (\<lambda>_.
    bindR (mapR (\<lambda>raw. normalizeSpecialistProfile H raw None) (rf_profiles f)) (\<lambda>ps.
    bindR (createSpecialistRegistry H (map profileJson ps)) (\<lambda>normalized.
    bindR (ensure (sr_registryDigest normalized = rf_registryDigest f \<and> rf_policyVersion f = SPECIALIST_POLICY_VERSION)
             mismatchMessage) (\<lambda>_.
    Inr normalized))))"

text \<open>Profiles of users and adapters stay, the built-in ones are those of the program.\<close>

definition reconciledRegistry :: "'h specialistSys_scheme \<Rightarrow> specialistRegistry \<Rightarrow> specialistRegistry res" where
  "reconciledRegistry H normalized =
    bindR (builtinSpecialistRegistry H) (\<lambda>current.
      let preserved = filter (\<lambda>p. sp_source p \<noteq> BuiltinProfile) (sr_profiles normalized)
      in case find (\<lambda>p. sp_specialistId p \<in> set (map sp_specialistId (sr_profiles current))) preserved of
           Some p \<Rightarrow> refuse (''persisted non-builtin specialist collides with built-in ID: '' @ sp_specialistId p)
         | None \<Rightarrow> createSpecialistRegistry H (map profileJson (sr_profiles current @ preserved)))"

definition loadSpecialistRegistry :: "'h specialistSys_scheme \<Rightarrow> specialistRegistry wop" where
  "loadSpecialistRegistry H =
    bindE (readE (\<lambda>s. sx_registry (wf_specialists s))) (\<lambda>file.
      case file of
        Missing \<Rightarrow> bindE (liftE (builtinSpecialistRegistry H)) (\<lambda>R.
          bindE (guardE (okRegistry H (fileOfRegistry R)) (PlainError (schemaError ''specialist-registry.schema.json''))) (\<lambda>_.
          persistSpecialistRegistry H R))
      | Unreadable _ \<Rightarrow> throwE (PlainError ''specialist registry is missing or corrupt'')
      | Parsed f \<Rightarrow>
          bindE (liftE (storedRegistry H f)) (\<lambda>normalized.
          bindE (liftE (reconciledRegistry H normalized)) (\<lambda>reconciled.
            if sr_registryDigest reconciled \<noteq> sr_registryDigest normalized
            then persistSpecialistRegistry H reconciled else returnE normalized)))"

text \<open>The import of profiles: an array, an object with the array, or one profile.\<close>

definition importedProfiles :: "json \<Rightarrow> json list res" where
  "importedProfiles raw =
    (case raw of
       JArr js \<Rightarrow> Inr js
     | _ \<Rightarrow> (case memberOf raw ''profiles'' of
          Some (JArr js) \<Rightarrow> bindR (assertOnlyKeys raw [''profiles''] ''specialist profile import'') (\<lambda>_. Inr js)
        | _ \<Rightarrow> Inr [raw]))"

definition addSpecialistProfiles :: "'h specialistSys_scheme \<Rightarrow> json \<Rightarrow> specialistRegistry wop" where
  "addSpecialistProfiles H raw =
    bindE (liftE (bindR (importedProfiles raw) (\<lambda>js.
       bindR (ensure (js \<noteq> [] \<and> length js \<le> MAX_SPECIALIST_PROFILES) ''profile import count is outside the allowed range'') (\<lambda>_.
       bindR (mapR (\<lambda>j. normalizeSpecialistProfile H j (Some UserProfile)) js) (\<lambda>incoming.
       bindR (distinctProfiles incoming) (\<lambda>_. Inr incoming)))))) (\<lambda>incoming.
    bindE (loadSpecialistRegistry H) (\<lambda>current.
    bindE (case find (\<lambda>p. sp_specialistId p \<in> set (map sp_specialistId (sr_profiles current))) incoming of
             Some p \<Rightarrow> throwE (PlainError (''specialist ID already registered: '' @ sp_specialistId p))
           | None \<Rightarrow> returnE ()) (\<lambda>_.
    bindE (liftE (createSpecialistRegistry H (map profileJson (sr_profiles current @ incoming)))) (\<lambda>R.
    persistSpecialistRegistry H R))))"

section \<open>The selection plan\<close>

definition sanitizeSelection :: "'h host_scheme \<Rightarrow> specialistSelection \<Rightarrow> specialistSelection" where
  "sanitizeSelection H x = (let S = sanitizeOperationalText H in
     x\<lparr>ss_specialistId := S (ss_specialistId x), ss_role := S (ss_role x), ss_reasonCodes := sanList H (ss_reasonCodes x),
       ss_coversDomains := sanList H (ss_coversDomains x), ss_coversGates := sanList H (ss_coversGates x)\<rparr>)"

definition sanitizeRejection :: "'h host_scheme \<Rightarrow> specialistRejection \<Rightarrow> specialistRejection" where
  "sanitizeRejection H x =
     x\<lparr>sj_specialistId := sanitizeOperationalText H (sj_specialistId x), sj_reasonCodes := sanList H (sj_reasonCodes x),
       sj_reasons := sanList H (sj_reasons x)\<rparr>"

definition sanitizeObligation :: "'h host_scheme \<Rightarrow> specialistObligation \<Rightarrow> specialistObligation" where
  "sanitizeObligation H x =
     x\<lparr>ob_obligationId := sanitizeOperationalText H (ob_obligationId x), ob_domainId := sanOpt H (ob_domainId x),
       ob_gateId := sanOpt H (ob_gateId x), ob_evidenceId := sanOpt H (ob_evidenceId x),
       ob_affectedArea := sanOpt H (ob_affectedArea x), ob_specialistId := sanOpt H (ob_specialistId x)\<rparr>"

definition sanitizeCoverage :: "'h host_scheme \<Rightarrow> obligationCoverage \<Rightarrow> obligationCoverage" where
  "sanitizeCoverage H x = (let S = sanitizeOperationalText H in
     x\<lparr>oc_obligationId := S (oc_obligationId x), oc_gateId := sanOpt H (oc_gateId x),
       oc_evidenceId := sanOpt H (oc_evidenceId x), oc_specialistId := S (oc_specialistId x), oc_reasonCode := S (oc_reasonCode x)\<rparr>)"

definition sanitizeUnmet :: "'h host_scheme \<Rightarrow> unmetObligation \<Rightarrow> unmetObligation" where
  "sanitizeUnmet H x = (let S = sanitizeOperationalText H in
     x\<lparr>uo_obligationId := S (uo_obligationId x), uo_gateId := sanOpt H (uo_gateId x),
       uo_evidenceId := sanOpt H (uo_evidenceId x), uo_specialistId := sanOpt H (uo_specialistId x), uo_reasonCode := S (uo_reasonCode x)\<rparr>)"

definition sanitizeSelectionPlan :: "'h host_scheme \<Rightarrow> specialistSelectionPlan \<Rightarrow> specialistSelectionPlan" where
  "sanitizeSelectionPlan H p = (let S = sanitizeOperationalText H in
     p\<lparr>spl_selectionPlanId := S (spl_selectionPlanId p), spl_projectId := S (spl_projectId p),
       spl_workOrderId := S (spl_workOrderId p), spl_workOrderDigest := S (spl_workOrderDigest p),
       spl_routingDigest := S (spl_routingDigest p), spl_registryDigest := S (spl_registryDigest p),
       spl_policyDigest := S (spl_policyDigest p), spl_changeDigest := sanOpt H (spl_changeDigest p),
       spl_impactDigest := sanOpt H (spl_impactDigest p), spl_gateContractDigest := sanOpt H (spl_gateContractDigest p),
       spl_selected := map (sanitizeSelection H) (spl_selected p), spl_assurance := map (sanitizeSelection H) (spl_assurance p),
       spl_assignments := map (sanitizeAssignment H) (spl_assignments p),
       spl_rejections := map (sanitizeRejection H) (spl_rejections p), spl_unmetCoverage := sanList H (spl_unmetCoverage p),
       spl_requiredObligations := map (sanitizeObligation H) (spl_requiredObligations p),
       spl_coveredObligations := map (sanitizeCoverage H) (spl_coveredObligations p),
       spl_unmetObligations := map (sanitizeUnmet H) (spl_unmetObligations p), spl_conflicts := sanList H (spl_conflicts p),
       spl_dependencyGroups := map (sanList H) (spl_dependencyGroups p),
       spl_parallelEligibleGroups := map (sanList H) (spl_parallelEligibleGroups p),
       spl_blockedReasonCodes := sanList H (spl_blockedReasonCodes p), spl_selectionDigest := S (spl_selectionDigest p)\<rparr>)"

definition validatePlan :: "'h specialistSys_scheme \<Rightarrow> specialistSelectionPlan \<Rightarrow> specialistSelectionPlan res" where
  "validatePlan H p =
    bindR (ensure (okSelectionPlan H p) (schemaError ''specialist-selection-plan.schema.json'')) (\<lambda>_.
    bindR (ensure (spl_selectionDigest p = planDigest H p) ''specialist selection digest mismatch'') (\<lambda>_. Inr p))"

definition persistSpecialistSelectionPlan :: "'h specialistSys_scheme \<Rightarrow> specialistSelectionPlan \<Rightarrow> specialistSelectionPlan wop" where
  "persistSpecialistSelectionPlan H p =
    bindE (liftE (validatePlan H p)) (\<lambda>validated.
    bindE (writeE (setCurrentSelection (sanitizeSelectionPlan H validated))) (\<lambda>_.
    bindE (writeE (addSelectionHistory (spl_selectionPlanId p) (sanitizeSelectionPlan H validated))) (\<lambda>_.
    returnE validated)))"

definition readCurrentSpecialistSelectionPlan ::
  "'h specialistSys_scheme \<Rightarrow> workspaceFiles \<Rightarrow> specialistSelectionPlan option res" where
  "readCurrentSpecialistSelectionPlan H s =
    (case sx_current (wf_specialists s) of
       Missing \<Rightarrow> Inr None
     | Unreadable _ \<Rightarrow> refuse ''current specialist selection is corrupt''
     | Parsed p \<Rightarrow> bindR (validatePlan H p) (\<lambda>q. Inr (Some q)))"

definition blockedSelectionMessage :: "specialistSelectionPlan \<Rightarrow> string" where
  "blockedSelectionMessage p = ''specialist selection is blocked: '' @ join_with '', '' (spl_blockedReasonCodes p)"

definition assertCurrentSpecialistSelection ::
  "'h specialistSys_scheme \<Rightarrow> specialistSelectionPlan \<Rightarrow> specialistRoutingInput \<Rightarrow> unit res" where
  "assertCurrentSpecialistSelection H p I =
    bindR (ensure (spl_selected_status p) (blockedSelectionMessage p)) (\<lambda>_.
    bindR (ensure (isSpecialistSelectionPlanCurrent H p I)
             ''specialist selection is stale or bound to different project/routing inputs'') (\<lambda>_.
    bindR (validatePlan H p) (\<lambda>_. Inr ())))"

end
