(* ===== verification/Specialist_Binding.thy ===== *)
theory Specialist_Binding
  imports Specialist_Store
begin

text \<open>
  The binding of a stored selection plan to its work order (\<^verbatim>\<open>src/kernel/specialist-persist.ts\<close>):
  the routing input that the current artifacts give, and the check every later phase makes before
  it trusts the plan. Two JSON texts of string sets or assignments are equal exactly when the lists
  are, so they are compared as lists. A context plan without \<open>indexDigest\<close> counts as one with null.
\<close>

record selectionArtifacts =
  xa_routing :: "routingDecision option"
  xa_contextPlan :: "contextPlan option"
  xa_currentImpactDigest :: "string option option"
  xa_currentChangeDigest :: "string option option"

definition sameStringSet :: "'h host_scheme \<Rightarrow> string list \<Rightarrow> string list \<Rightarrow> bool" where
  "sameStringSet H xs ys \<longleftrightarrow> sortedSet H xs = sortedSet H ys"

definition stableAssignments :: "'h host_scheme \<Rightarrow> specialistAssignment list option \<Rightarrow> specialistAssignment list" where
  "stableAssignments H v = (case v of None \<Rightarrow> []
     | Some as \<Rightarrow> sort_with (\<lambda>a b. locale_le H (as_specialistId a) (as_specialistId b)) as)"

definition list_of :: "'a list option \<Rightarrow> 'a list" where
  "list_of v = (case v of None \<Rightarrow> [] | Some xs \<Rightarrow> xs)"

definition specialistRoutingInputFromWorkOrder :: "workOrder \<Rightarrow> specialistRegistry \<Rightarrow> specialistRoutingInput" where
  "specialistRoutingInputFromWorkOrder w R =
    (let b = wo_binding w in
     \<lparr>si_projectId = wo_projectId w, si_workOrderId = wo_workOrderId w, si_objective = wo_objective w,
      si_constraints = wo_constraints w, si_inScope = wo_includedScope w, si_outOfScope = wo_outOfScope w,
      si_acceptanceCriteria = wo_acceptanceCriteria w, si_domains = wo_domains w, si_scopeClass = wo_scopeClass w,
      si_riskLevel = wo_riskLevel w,
      si_riskSignals = (case sb_riskSignals b of None \<Rightarrow> wo_riskReasons w | Some xs \<Rightarrow> xs),
      si_riskReasons = wo_riskReasons w, si_affectedAreas = wo_affectedAreas w, si_gates = wo_qualityGates w,
      si_requiredEvidence = wo_requiredEvidence w, si_dependencyInfo = wo_dependencies w,
      si_dependencySignals = sb_dependencySignals b, si_changeDigest = sb_changeDigest b,
      si_impactDigest = sb_impactDigest b, si_gateContractDigest = sb_gateContractDigest b,
      si_registry = R, si_allowExperimental = False\<rparr>)"

definition specialistRoutingInputFromCurrentArtifacts ::
  "'h host_scheme \<Rightarrow> workOrder \<Rightarrow> specialistRegistry \<Rightarrow> selectionArtifacts \<Rightarrow> specialistRoutingInput" where
  "specialistRoutingInputFromCurrentArtifacts H w R x =
    (let base = specialistRoutingInputFromWorkOrder w R in
     base\<lparr>si_impactDigest := (case xa_currentImpactDigest x of Some d \<Rightarrow> d
             | None \<Rightarrow> (case xa_contextPlan x of Some p \<Rightarrow> pl_indexDigest p | None \<Rightarrow> si_impactDigest base)),
          si_changeDigest := (case xa_currentChangeDigest x of Some d \<Rightarrow> d | None \<Rightarrow> si_changeDigest base),
          si_gateContractDigest := (case xa_routing x of
             Some d \<Rightarrow> Some (computeSpecialistGateContractDigest H (rd_gates d)) | None \<Rightarrow> si_gateContractDigest base)\<rparr>)"

text \<open>The seven identities of a plan and of the binding in a work order or a routing decision.\<close>

definition planBinding :: "specialistSelectionPlan \<Rightarrow> specialistBinding \<Rightarrow> bool" where
  "planBinding p b \<longleftrightarrow> sb_selectionPlanId b = Some (spl_selectionPlanId p) \<and> sb_selectionDigest b = Some (spl_selectionDigest p)
     \<and> sb_registryDigest b = Some (spl_registryDigest p) \<and> sb_policyDigest b = Some (spl_policyDigest p)
     \<and> sb_changeDigest b = spl_changeDigest p \<and> sb_impactDigest b = spl_impactDigest p
     \<and> sb_gateContractDigest b = spl_gateContractDigest p"

definition planSelectedIds :: "specialistSelectionPlan \<Rightarrow> string list" where
  "planSelectedIds p = map ss_specialistId (spl_selected p)"

definition planAssuranceIds :: "specialistSelectionPlan \<Rightarrow> string list" where
  "planAssuranceIds p = map ss_specialistId (spl_assurance p)"

definition routingAgrees :: "'h host_scheme \<Rightarrow> specialistSelectionPlan \<Rightarrow> workOrder \<Rightarrow> routingDecision \<Rightarrow> bool" where
  "routingAgrees H p w d \<longleftrightarrow>
     rd_projectId d = spl_projectId p \<and> sameStringSet H (rd_specialists d) (planSelectedIds p)
     \<and> sameStringSet H (rd_assuranceSpecialists d) (planAssuranceIds p)
     \<and> sameStringSet H (map ir_id (rd_domains d)) (wo_domains w)
     \<and> sameStringSet H (map ir_id (rd_gates d)) (wo_qualityGates w)
     \<and> rd_scopeClass d = wo_scopeClass w \<and> rd_riskLevel d = wo_riskLevel w \<and> planBinding p (rd_binding d)
     \<and> sameStringSet H (list_of (sb_riskSignals (rd_binding d))) (list_of (sb_riskSignals (wo_binding w)))
     \<and> sb_dependencySignals (rd_binding d) = sb_dependencySignals (wo_binding w)"

definition workOrderAgrees :: "'h host_scheme \<Rightarrow> specialistSelectionPlan \<Rightarrow> workOrder \<Rightarrow> bool" where
  "workOrderAgrees H p w \<longleftrightarrow> sameStringSet H (wo_specialists w) (planSelectedIds p)
     \<and> sameStringSet H (wo_assuranceReviewers w) (planAssuranceIds p)
     \<and> stableAssignments H (wo_specialistAssignments w) = stableAssignments H (Some (spl_assignments p))"

definition routingCheck ::
  "'h host_scheme \<Rightarrow> specialistSelectionPlan \<Rightarrow> workOrder \<Rightarrow> routingDecision option \<Rightarrow> unit res" where
  "routingCheck H p w routing =
    (case routing of None \<Rightarrow> Inr ()
     | Some d \<Rightarrow>
         bindR (ensure (routingAgrees H p w d) ''Routing Decision diverges from the current selection plan'') (\<lambda>_.
         ensure (spl_gateContractDigest p = Some (computeSpecialistGateContractDigest H (rd_gates d)))
           ''current routing gate contract differs from the selection plan''))"

definition contextCheck :: "specialistSelectionPlan \<Rightarrow> contextPlan option \<Rightarrow> unit res" where
  "contextCheck p contextPlan =
    (case contextPlan of None \<Rightarrow> Inr ()
     | Some c \<Rightarrow>
         bindR (ensure (truthy (pl_indexDigest c) \<and> truthy (spl_impactDigest p)) ''current Context/Impact identity is missing'') (\<lambda>_.
         ensure (pl_indexDigest c = spl_impactDigest p) ''current Context/Impact identity differs from the selection plan''))"

text \<open>What is checked once the plan, the registry and the artifacts are read.\<close>

definition boundPlanCheck ::
  "'h host_scheme \<Rightarrow> specialistSelectionPlan \<Rightarrow> workOrder \<Rightarrow> specialistRegistry \<Rightarrow> selectionArtifacts \<Rightarrow> unit res" where
  "boundPlanCheck H p w R x =
    bindR (ensure (sr_registryDigest R = spl_registryDigest p) ''specialist registry changed after selection'') (\<lambda>_.
    bindR (ensure (isSpecialistSelectionPlanCurrent H p (specialistRoutingInputFromCurrentArtifacts H w R x))
             ''specialist selection is stale or semantically mismatched'') (\<lambda>_.
    bindR (ensure (workOrderAgrees H p w)
             ''Work Order specialist IDs or assignments diverge from the current selection plan'') (\<lambda>_.
    bindR (routingCheck H p w (xa_routing x)) (\<lambda>_. contextCheck p (xa_contextPlan x)))))"

definition currentPlanOf :: "'h specialistSys_scheme \<Rightarrow> workOrder \<Rightarrow> workspaceFiles \<Rightarrow> specialistSelectionPlan res" where
  "currentPlanOf H w s =
    bindR (readCurrentSpecialistSelectionPlan H s) (\<lambda>found.
      case found of None \<Rightarrow> refuse ''current specialist selection is missing''
      | Some p \<Rightarrow>
          bindR (ensure (spl_selected_status p) (blockedSelectionMessage p)) (\<lambda>_.
          bindR (ensure (spl_projectId p = wo_projectId w \<and> spl_workOrderId p = wo_workOrderId w \<and> planBinding p (wo_binding w))
                   ''specialist selection is stale or not bound to the Work Order'') (\<lambda>_.
          Inr p)))"

definition errorText :: "uadsError \<Rightarrow> string" where
  "errorText e = (case e of ExecutionBlocked m _ \<Rightarrow> m | InvalidOrchestrationState m \<Rightarrow> m
     | CostBudget m _ _ \<Rightarrow> m | PlainError m \<Rightarrow> m)"

definition assertSpecialistSelectionBoundToWorkOrder ::
  "'h specialistSys_scheme \<Rightarrow> workOrder \<Rightarrow> selectionArtifacts \<Rightarrow> specialistSelectionPlan wop" where
  "assertSpecialistSelectionBoundToWorkOrder H w x =
    bindE (queryE (currentPlanOf H w)) (\<lambda>p.
    bindE (catchE (loadSpecialistRegistry H)
             (\<lambda>e. throwE (PlainError (''specialist registry is unavailable: '' @ errorText e)))) (\<lambda>R.
    bindE (liftE (boundPlanCheck H p w R x)) (\<lambda>_. returnE p)))"

end
