(* ===== verification/Planner.thy ===== *)
theory Planner
  imports Specialist_Binding Routing Context_Candidates Execution_Base
begin

text \<open>
  \<open>runPlan\<close> and \<open>planFromIntake\<close> of \<^verbatim>\<open>src/kernel/orchestrator.ts\<close>: policy, specialist selection and
  artifacts of a plan, written to the sidecar; then, when the impact analysis of the repository can
  be built, the same plan bound to its index. The repository map, the impact analysis, the failure
  status and the model plan are answers of parts modelled elsewhere or not at all.
\<close>

record planEnv =
  pe_env :: execEnv
  pe_map :: repositoryMap
  pe_mapReused :: bool
  pe_intel :: "indexBundle \<Rightarrow> contextRadius \<Rightarrow> workOrder \<Rightarrow> uadsError + (impactReport \<times> contextPack)"
  pe_failureLoop :: "uadsError + bool"
  pe_modelPlan :: "workOrder \<Rightarrow> bool \<Rightarrow> uadsError + modelExecutionPlan"

section \<open>Policy\<close>

record planDraft =
  df_intake :: normalizedIntake
  df_scope :: scopeDecision
  df_risk :: "riskLevel \<times> string list"
  df_domains :: "idReason list"
  df_gates :: "idReason list"
  df_context :: "contextRadius \<times> string"
  df_capability :: capabilityClass
  df_material :: string

definition draftRoles :: "planDraft \<Rightarrow> specialistChoice" where
  "draftRoles d = selectSpecialists (df_intake d) (map ir_id (df_domains d)) (sd_scopeClass (df_scope d)) (fst (df_risk d))"

definition draftPlan :: "string \<Rightarrow> string \<Rightarrow> normalizedIntake \<Rightarrow> repositoryMap \<Rightarrow> planDraft" where
  "draftPlan now projectId i m =
    (let scope = classifyScopeSize i; risk = classifyRisk i m; domains = selectDomains i
     in \<lparr>df_intake = i, df_scope = scope, df_risk = risk, df_domains = domains,
         df_gates = selectGates i (map ir_id domains) (sd_scopeClass scope) (fst risk),
         df_context = selectContextRadius (sd_scopeClass scope) (fst risk),
         df_capability = selectCapabilityClass (fst risk) (sd_scopeClass scope),
         df_material = projectId @ '':'' @ in_objective i @ '':'' @ now\<rparr>)"

definition draftWork :: "planDraft \<Rightarrow> scopedWork" where
  "draftWork d = classifyRequestedWork (in_objective (df_intake d)) (sd_included (df_scope d)) (sd_outOfScope (df_scope d))
     (sd_recommendations (df_scope d))"

definition ORDER_CONSTRAINTS :: "string list" where
  "ORDER_CONSTRAINTS = [''inspect before edit'', ''implement only NECESSARY scope'',
     IMPLEMENTER_ROLE @ '' is not the sole final reviewer'']"

definition STOP_CONDITIONS :: "string list" where
  "STOP_CONDITIONS = [''missing required evidence'', ''approval-gated action requested'', ''hard token budget exceeded'']"

definition draftCriteria :: "planDraft \<Rightarrow> string list" where
  "draftCriteria d = (if in_acceptanceCriteria (df_intake d) \<noteq> [] then in_acceptanceCriteria (df_intake d)
     else [''Requested objective is met'', ''Selected gates have evidence'',
       ''Independent review completed if implementation occurred''])"

definition draftRoutingInput :: "'h host_scheme \<Rightarrow> string \<Rightarrow> planDraft \<Rightarrow> specialistRegistry \<Rightarrow> specialistRoutingInput" where
  "draftRoutingInput H projectId d R =
    (let i = df_intake d in
     \<lparr>si_projectId = projectId, si_workOrderId = newPrefixedId H ''wo'' (df_material d), si_objective = in_objective i,
      si_constraints = in_constraints i, si_inScope = sw_necessary (draftWork d), si_outOfScope = sd_outOfScope (df_scope d),
      si_acceptanceCriteria = draftCriteria d, si_domains = map ir_id (df_domains d),
      si_scopeClass = sd_scopeClass (df_scope d), si_riskLevel = fst (df_risk d), si_riskSignals = in_riskSignals i,
      si_riskReasons = snd (df_risk d), si_affectedAreas = in_affectedAreas i, si_gates = map ir_id (df_gates d),
      si_requiredEvidence = map (\<lambda>g. gateEvidence (ir_id g)) (df_gates d), si_dependencyInfo = ORDER_CONSTRAINTS,
      si_dependencySignals = None, si_changeDigest = None, si_impactDigest = None,
      si_gateContractDigest = Some (computeSpecialistGateContractDigest H (df_gates d)),
      si_registry = R, si_allowExperimental = False\<rparr>)"

section \<open>The artifacts of a plan\<close>

definition bindingOf :: "specialistSelectionPlan \<Rightarrow> string list \<Rightarrow> specialistDependencySignals option \<Rightarrow> specialistBinding" where
  "bindingOf p riskSignals dependencySignals =
    \<lparr>sb_selectionPlanId = Some (spl_selectionPlanId p), sb_selectionDigest = Some (spl_selectionDigest p),
     sb_registryDigest = Some (spl_registryDigest p), sb_policyDigest = Some (spl_policyDigest p),
     sb_changeDigest = spl_changeDigest p, sb_impactDigest = spl_impactDigest p,
     sb_gateContractDigest = spl_gateContractDigest p, sb_riskSignals = Some riskSignals,
     sb_dependencySignals = dependencySignals\<rparr>"

definition blockedAction :: "specialistSelectionPlan \<Rightarrow> string" where
  "blockedAction p =
    (let codes = join_with '', '' (spl_blockedReasonCodes p)
     in ''Routing blocked: '' @ (if codes = [] then ''unmet specialist coverage'' else codes)
        @ ''. Resolve the selection plan before dispatch.'')"

definition plannedAction :: "specialistSelectionPlan \<Rightarrow> string" where
  "plannedAction p = (if \<not> spl_selected_status p then blockedAction p
     else ''Execute only NECESSARY scope with selected specialists, collect required evidence, then independent review.'')"

definition decisionOf :: "'h host_scheme \<Rightarrow> string \<Rightarrow> string \<Rightarrow> planDraft \<Rightarrow> specialistSelectionPlan \<Rightarrow> routingDecision" where
  "decisionOf H now projectId d p =
    \<lparr>rd_routingDecisionId = newPrefixedId H ''rd'' (df_material d), rd_projectId = projectId, rd_createdAt = now,
     rd_scopeClass = sd_scopeClass (df_scope d), rd_scopeReasons = sd_reasons (df_scope d),
     rd_riskLevel = fst (df_risk d), rd_riskReasons = snd (df_risk d), rd_domains = df_domains d,
     rd_specialists = planSelectedIds p, rd_assuranceSpecialists = planAssuranceIds p,
     rd_binding = bindingOf p (in_riskSignals (df_intake d)) None, rd_gates = df_gates d,
     rd_contextRadius = fst (df_context d), rd_contextReason = snd (df_context d), rd_capabilityClass = df_capability d,
     rd_orderConstraints = ORDER_CONSTRAINTS, rd_stopConditions = STOP_CONDITIONS,
     rd_warnings = (if in_classifier (df_intake d) = FallbackText
        then [''intake used conservative fallback-text classifier, not host semantic interpretation''] else [])
       @ (if fst (df_context d) = C5 then [''C5 is exceptional and was not expected as default''] else [])\<rparr>"

definition draftBudget :: "planDraft \<Rightarrow> bool \<Rightarrow> tokenBudget" where
  "draftBudget d mapReused =
    \<lparr>tb_softLimit = fst (TOKEN_BUDGETS (df_capability d)), tb_hardLimit = snd (TOKEN_BUDGETS (df_capability d)),
     tb_capabilityClass = df_capability d, tb_cachePreference = (if mapReused then PreferCache else Refresh),
     tb_expansionPolicy = ''expand one radius level only when evidence shows missing context''\<rparr>"

definition workOrderOf ::
  "'h host_scheme \<Rightarrow> string \<Rightarrow> string \<Rightarrow> planDraft \<Rightarrow> bool \<Rightarrow> specialistSelectionPlan \<Rightarrow> workOrder" where
  "workOrderOf H now projectId d mapReused p =
    (let i = df_intake d in
     \<lparr>wo_workOrderId = newPrefixedId H ''wo'' (df_material d), wo_projectId = projectId,
      wo_title = titleFromObjective (in_objective i), wo_objective = in_objective i,
      wo_status = (if spl_selected_status p then WoPlanned else WoBlocked), wo_createdAt = now, wo_updatedAt = now,
      wo_intakeRef = ''intake:'' @ take 12 (sha256Hex H (in_objective i)),
      wo_routingDecisionId = newPrefixedId H ''rd'' (df_material d), wo_scopeClass = sd_scopeClass (df_scope d),
      wo_includedScope = sw_necessary (draftWork d), wo_outOfScope = sd_outOfScope (df_scope d),
      wo_recommendations = sd_recommendations (df_scope d), wo_riskLevel = fst (df_risk d), wo_riskReasons = snd (df_risk d),
      wo_constraints = in_constraints i, wo_requestedArtifacts = in_requestedArtifacts i,
      wo_destructiveSignals = in_destructiveSignals i, wo_domains = map ir_id (df_domains d),
      wo_affectedAreas = in_affectedAreas i, wo_specialists = planSelectedIds p, wo_assuranceReviewers = planAssuranceIds p,
      wo_binding = bindingOf p (in_riskSignals i) None, wo_specialistAssignments = Some (spl_assignments p),
      wo_qualityGates = map ir_id (df_gates d), wo_contextRadius = fst (df_context d), wo_tokenBudget = draftBudget d mapReused,
      wo_dependencies = ORDER_CONSTRAINTS, wo_acceptanceCriteria = draftCriteria d,
      wo_requiredEvidence = map (\<lambda>g. gateEvidence (ir_id g)) (df_gates d), wo_stopConditions = STOP_CONDITIONS,
      wo_autonomyBoundary = autonomyBoundaryOf i, wo_nextAction = plannedAction p\<rparr>)"

definition contextPlanOf :: "'h host_scheme \<Rightarrow> planDraft \<Rightarrow> repositoryMap \<Rightarrow> contextPlan" where
  "contextPlanOf H d m =
    \<lparr>pl_radius = fst (df_context d), pl_reason = snd (df_context d),
     pl_candidateAreas = selectContextCandidates (fst (df_context d)) (df_intake d) m,
     pl_reusableArtifacts = [''sidecar://index/repository-map.json'', ''sidecar://state/current.json'',
       ''sidecar://decisions/'' @ newPrefixedId H ''rd'' (df_material d) @ ''.json''],
     pl_contextPackId = None, pl_impactReportId = None, pl_indexDigest = None\<rparr>"

definition checkpointOf ::
  "'h host_scheme \<Rightarrow> string \<Rightarrow> string \<Rightarrow> planDraft \<Rightarrow> repositoryMap \<Rightarrow> specialistSelectionPlan \<Rightarrow> checkpoint" where
  "checkpointOf H now projectId d m p =
    \<lparr>cp_checkpointId = newPrefixedId H ''cp'' (df_material d), cp_projectId = projectId,
     cp_workOrderId = Some (newPrefixedId H ''wo'' (df_material d)),
     cp_routingDecisionId = Some (newPrefixedId H ''rd'' (df_material d)), cp_createdAt = now, cp_updatedAt = now,
     cp_phase = Plan, cp_status = (if spl_selected_status p then CpInProgress else CpBlocked),
     cp_completedSteps = [''intake'', ''classify'', ''plan''], cp_nextAction = plannedAction p,
     cp_blockers = spl_unmetCoverage p @ spl_conflicts p, cp_evidenceRefs = [],
     cp_repositoryMapDigest = Some (map_digest m), cp_contextPlanRef = Some ''sidecar://context/plan.json'',
     cp_resumeCursor = ''plan-complete:await-implementation''\<rparr>"

section \<open>Binding the plan to the index\<close>

type_synonym planArtifacts = "workOrder \<times> routingDecision \<times> checkpoint \<times> contextPlan"

definition dependencySignalsFromImpact :: "impactReport \<Rightarrow> specialistDependencySignals option" where
  "dependencySignalsFromImpact report =
    (if list_ex (\<lambda>x. im_relation x = DependencyImpact \<or> im_relation x = DependentImpact)
          (ip_supportingContext report @ ip_possibleImpact report)
     then Some \<lparr>dep_crossCutting = True, dep_source = ImpactReport\<rparr> else None)"

definition withPack :: "impactReport \<Rightarrow> contextPack \<Rightarrow> contextPlan \<Rightarrow> contextPlan" where
  "withPack report pack c =
    c\<lparr>pl_contextPackId := Some (cx_contextPackId pack), pl_impactReportId := Some (ip_impactReportId report),
      pl_indexDigest := Some (cx_indexDigest pack),
      pl_reusableArtifacts := pl_reusableArtifacts c @ [''sidecar://context/packs/'' @ cx_contextPackId pack @ ''.json'']\<rparr>"

definition reboundWorkOrder ::
  "workOrder \<Rightarrow> specialistSelectionPlan \<Rightarrow> string list \<Rightarrow> specialistDependencySignals option \<Rightarrow> workOrder" where
  "reboundWorkOrder w p riskSignals dependencySignals =
    w\<lparr>wo_status := (if spl_selected_status p then wo_status w else WoBlocked), wo_specialists := planSelectedIds p,
      wo_assuranceReviewers := planAssuranceIds p, wo_binding := bindingOf p riskSignals dependencySignals,
      wo_specialistAssignments := Some (spl_assignments p),
      wo_nextAction := (if spl_selected_status p then wo_nextAction w else blockedAction p)\<rparr>"

definition reboundDecision ::
  "routingDecision \<Rightarrow> specialistSelectionPlan \<Rightarrow> string list \<Rightarrow> specialistDependencySignals option \<Rightarrow> routingDecision" where
  "reboundDecision d p riskSignals dependencySignals =
    d\<lparr>rd_specialists := planSelectedIds p, rd_assuranceSpecialists := planAssuranceIds p,
      rd_binding := bindingOf p riskSignals dependencySignals\<rparr>"

definition reboundCheckpoint :: "checkpoint \<Rightarrow> specialistSelectionPlan \<Rightarrow> checkpoint" where
  "reboundCheckpoint c p =
    c\<lparr>cp_status := (if spl_selected_status p then cp_status c else CpBlocked),
      cp_blockers := spl_unmetCoverage p @ spl_conflicts p\<rparr>"

text \<open>
  The \<open>try\<close> block of \<open>planFromIntake\<close>: what was assigned to the artifacts and to the selection plan
  before a throw stays assigned, so each stage falls back to the values of the one before.
\<close>

definition persistStage ::
  "'h specialistSys_scheme \<Rightarrow> planArtifacts \<Rightarrow> specialistSelectionPlan \<Rightarrow> (planArtifacts \<times> specialistSelectionPlan) wop" where
  "persistStage H arts p =
    catchE (bindE (persistSpecialistSelectionPlan H p) (\<lambda>_. returnE (arts, p))) (\<lambda>_. returnE (arts, p))"

definition rebindStage ::
  "'h specialistSys_scheme \<Rightarrow> planArtifacts \<Rightarrow> specialistSelectionPlan \<Rightarrow> string list \<Rightarrow> specialistDependencySignals option
     \<Rightarrow> (planArtifacts \<times> specialistSelectionPlan) wop" where
  "rebindStage H arts p riskSignals dependencySignals =
    (case arts of (w, d, c, k) \<Rightarrow>
      catchE (bindE (onSidecar (persistPlan H (reboundWorkOrder w p riskSignals dependencySignals)
                (reboundDecision d p riskSignals dependencySignals) (reboundCheckpoint c p) k))
              (\<lambda>arts'. persistStage H arts' p))
        (\<lambda>_. returnE (arts, p)))"

definition reselectStage ::
  "'h specialistSys_scheme \<Rightarrow> specialistRoutingInput \<Rightarrow> impactReport \<Rightarrow> contextPack \<Rightarrow> planArtifacts
     \<Rightarrow> specialistSelectionPlan \<Rightarrow> (planArtifacts \<times> specialistSelectionPlan) wop" where
  "reselectStage H I report pack arts p =
    (let signals = dependencySignalsFromImpact report in
     catchE (bindE (liftE (selectSpecialistPlan H (I\<lparr>si_impactDigest := Some (cx_indexDigest pack), si_dependencySignals := signals\<rparr>)))
              (\<lambda>p'. rebindStage H arts p' (si_riskSignals I) signals))
       (\<lambda>_. returnE (arts, p)))"

definition buildImpactAndPack :: "'h sys_scheme \<Rightarrow> planEnv \<Rightarrow> contextRadius \<Rightarrow> workOrder \<Rightarrow> (impactReport \<times> contextPack) op" where
  "buildImpactAndPack H V radius w =
    bindE (currentOrRefreshIndex H (pe_env V) 0) (\<lambda>b. liftE (pe_intel V b radius w))"

definition intelStage ::
  "'h specialistSys_scheme \<Rightarrow> planEnv \<Rightarrow> specialistRoutingInput \<Rightarrow> contextRadius \<Rightarrow> planArtifacts
     \<Rightarrow> specialistSelectionPlan \<Rightarrow> (planArtifacts \<times> specialistSelectionPlan) wop" where
  "intelStage H V I radius arts p =
    (case arts of (w, d, c, k) \<Rightarrow>
      catchE (bindE (onSidecar (buildImpactAndPack H V radius w)) (\<lambda>intel.
              bindE (onSidecar (persistPlan H w d c (withPack (fst intel) (snd intel) k))) (\<lambda>arts'.
              reselectStage H I (fst intel) (snd intel) arts' p)))
        (\<lambda>_. returnE (arts, p)))"

section \<open>Planning\<close>

record planResult =
  pr_artifacts :: planArtifacts
  pr_modelPlan :: modelExecutionPlan
  pr_specialistPlan :: specialistSelectionPlan

definition closePlan :: "'h specialistSys_scheme \<Rightarrow> planEnv \<Rightarrow> planArtifacts \<Rightarrow> specialistSelectionPlan \<Rightarrow> planResult wop" where
  "closePlan H V arts p =
    bindE (liftE (pe_failureLoop V)) (\<lambda>looping.
    bindE (liftE (pe_modelPlan V (fst arts) looping)) (\<lambda>modelPlan.
    bindE (persistSpecialistSelectionPlan H p) (\<lambda>_.
    returnE \<lparr>pr_artifacts = arts, pr_modelPlan = modelPlan, pr_specialistPlan = p\<rparr>)))"

definition planFromIntake :: "'h specialistSys_scheme \<Rightarrow> planEnv \<Rightarrow> normalizedIntake \<Rightarrow> planResult wop" where
  "planFromIntake H V i =
    (let now = en_now (pe_env V); projectId = en_projectId (pe_env V);
         d = draftPlan now projectId i (pe_map V); roles = draftRoles d
     in bindE (liftE (assertIndependentReview (sc_specialists roles) (sc_assurance roles))) (\<lambda>_.
        bindE (loadSpecialistRegistry H) (\<lambda>R.
        bindE (liftE (selectSpecialistPlan H (draftRoutingInput H projectId d R))) (\<lambda>p.
        bindE (onSidecar (persistPlan H (workOrderOf H now projectId d (pe_mapReused V) p) (decisionOf H now projectId d p)
                 (checkpointOf H now projectId d (pe_map V) p) (contextPlanOf H d (pe_map V)))) (\<lambda>arts.
        bindE (intelStage H V (draftRoutingInput H projectId d R) (fst (df_context d)) arts p) (\<lambda>final.
        closePlan H V (fst final) (snd final)))))))"

datatype planRequest = StructuredIntake rawIntake | RequestText string

definition requestedIntake :: "planRequest \<Rightarrow> uadsError + normalizedIntake" where
  "requestedIntake r = (case r of StructuredIntake raw \<Rightarrow> normalizeIntake raw | RequestText text \<Rightarrow> intakeFromRequest text)"

definition runPlan :: "'h specialistSys_scheme \<Rightarrow> planEnv \<Rightarrow> planRequest \<Rightarrow> planResult wop" where
  "runPlan H V r = bindE (liftE (requestedIntake r)) (\<lambda>i. planFromIntake H V i)"

end
