(* ===== verification/Model_Requirements.thy ===== *)
theory Model_Requirements
  imports Model_Types Cost_Types Intelligence_Types Specialist_Digest
begin

text \<open>
  \<^verbatim>\<open>src/kernel/model-requirements.ts\<close>: what a work order demands of a model. The quality floor is
  the largest of four classes (the budget's, the risk's, the scope's and that of sensitive words in
  the text); failures and a preference may raise it, nothing lowers it.
\<close>

section \<open>Ranks\<close>

definition CLASS_ORDER :: "capabilityClass list" where
  "CLASS_ORDER = [Economy, Balanced, Strong, Critical]"

fun capabilityRank :: "capabilityClass \<Rightarrow> nat" where
  "capabilityRank Economy = 0" | "capabilityRank Balanced = 1"
| "capabilityRank Strong = 2" | "capabilityRank Critical = 3"

fun reasoningRank :: "reasoningClass \<Rightarrow> nat" where
  "reasoningRank Basic = 0" | "reasoningRank Standard = 1"
| "reasoningRank Advanced = 2" | "reasoningRank Deep = 3"

definition maxCapability :: "capabilityClass \<Rightarrow> capabilityClass \<Rightarrow> capabilityClass" where
  "maxCapability a b = (if capabilityRank b \<le> capabilityRank a then a else b)"

lemma capabilityRank_inj: "capabilityRank a = capabilityRank b \<Longrightarrow> a = b"
  by (cases a; cases b) simp_all

interpretation tier: ranked capabilityRank maxCapability
  by unfold_locales (auto simp: maxCapability_def intro: capabilityRank_inj)

lemma capabilityRank_le3: "capabilityRank c \<le> 3"
  by (cases c) simp_all

fun minimumReasoningFor :: "capabilityClass \<Rightarrow> reasoningClass" where
  "minimumReasoningFor Economy = Basic" | "minimumReasoningFor Balanced = Standard"
| "minimumReasoningFor Strong = Advanced" | "minimumReasoningFor Critical = Deep"

lemma minimumReasoning_rank: "reasoningRank (minimumReasoningFor c) = capabilityRank c"
  by (cases c) simp_all

definition reasoning_text :: "reasoningClass \<Rightarrow> string" where
  "reasoning_text r = (case r of Basic \<Rightarrow> ''basic'' | Standard \<Rightarrow> ''standard'' | Advanced \<Rightarrow> ''advanced'' | Deep \<Rightarrow> ''deep'')"

section \<open>The quality floor\<close>

definition mentions :: "string \<Rightarrow> string list \<Rightarrow> bool" where
  "mentions text words \<longleftrightarrow> list_ex (\<lambda>w. includes_text w text) words"

definition SENSITIVE_WORDS :: "string list" where
  "SENSITIVE_WORDS = [''destructive'', ''security'', ''financial'', ''finance'', ''web3'', ''smart-contract'', ''smart contract'',
     ''wallet'', ''payment'', ''authentication'', ''authorization'']"

definition floorText :: "workOrder \<Rightarrow> string" where
  "floorText w = to_lower (wo_objective w @ '' '' @ join_with '' '' (wo_domains w) @ '' ''
     @ join_with '' '' (wo_riskReasons w) @ '' '' @ join_with '' '' (wo_qualityGates w))"

definition riskFloor :: "riskLevel \<Rightarrow> capabilityClass" where
  "riskFloor r = (case r of CRITICAL \<Rightarrow> Critical | HIGH \<Rightarrow> Strong | MEDIUM \<Rightarrow> Balanced | LOW \<Rightarrow> Economy)"

definition scopeFloor :: "scopeClass \<Rightarrow> capabilityClass" where
  "scopeFloor s = (case s of Architectural \<Rightarrow> Strong | CrossCutting \<Rightarrow> Balanced | _ \<Rightarrow> Economy)"

definition sensitiveFloor :: "workOrder \<Rightarrow> capabilityClass" where
  "sensitiveFloor w = (if mentions (floorText w) SENSITIVE_WORDS then Strong else Economy)"

definition qualityFloorFor :: "workOrder \<Rightarrow> capabilityClass \<times> string list" where
  "qualityFloorFor w =
    (let before = tb_capabilityClass (wo_tokenBudget w);
         floor = maxCapability (maxCapability (maxCapability before (riskFloor (wo_riskLevel w)))
                   (scopeFloor (wo_scopeClass w))) (sensitiveFloor w)
     in (floor, if floor \<noteq> before then [''QUALITY_FLOOR_RAISED:'' @ capability_text floor] else []))"

section \<open>Escalation\<close>

definition escalationCountOf :: "modelRoutingFailureSignals \<Rightarrow> nat" where
  "escalationCountOf f = fs_repeatedDistinctFailures f + (if fs_loopDetected f then 1 else 0)
     + (if fs_unresolvedAmbiguity f then 1 else 0) + (if fs_failedArchitectureReview f then 1 else 0)
     + length (fs_explicitReasons f)"

definition escalatedClass :: "capabilityClass \<Rightarrow> nat \<Rightarrow> capabilityClass" where
  "escalatedClass c n = (if 0 < n then CLASS_ORDER ! min 3 (capabilityRank c + min 2 n) else c)"

definition addNew :: "'a \<Rightarrow> 'a list \<Rightarrow> 'a list" where
  "addNew x xs = (if x \<in> set xs then xs else xs @ [x])"

definition failureReasons :: "modelRoutingFailureSignals \<Rightarrow> string list \<Rightarrow> string list" where
  "failureReasons f rs0 =
    (let rs1 = (if fs_loopDetected f \<or> 2 \<le> fs_repeatedDistinctFailures f
           then addNew ''REPEATED_FAILURE_ESCALATION'' rs0 else rs0);
         rs2 = rs1 @ (if fs_unresolvedAmbiguity f then [''UNRESOLVED_AMBIGUITY_ESCALATION''] else []);
         rs3 = rs2 @ (if fs_failedArchitectureReview f then [''ARCHITECTURE_REVIEW_ESCALATION''] else [])
     in fold addNew (fs_explicitReasons f) rs3)"

text \<open>
  The options of a routing request that only the requirements read; an absent preference is
  \<open>undefined\<close>.
\<close>

record requirementOptions =
  rq_estimatedInputTokens :: "int option"
  rq_requiredOutputTokens :: "int option"
  rq_failureSignals :: modelRoutingFailureSignals
  rq_allowExperimental :: bool
  rq_preferredCapabilityClass :: "capabilityClass option"
  rq_blockedProviderIds :: "string list"

definition preferenceRaises :: "capabilityClass option \<Rightarrow> capabilityClass \<Rightarrow> bool" where
  "preferenceRaises p c \<longleftrightarrow> (case p of None \<Rightarrow> False | Some q \<Rightarrow> capabilityRank c < capabilityRank q)"

definition requiredClassOf :: "workOrder \<Rightarrow> requirementOptions \<Rightarrow> capabilityClass" where
  "requiredClassOf w q =
    (let c = escalatedClass (fst (qualityFloorFor w)) (escalationCountOf (rq_failureSignals q))
     in case rq_preferredCapabilityClass q of
          Some p \<Rightarrow> if capabilityRank c < capabilityRank p then p else c | None \<Rightarrow> c)"

definition escalationReasonsOf :: "workOrder \<Rightarrow> requirementOptions \<Rightarrow> string list" where
  "escalationReasonsOf w q =
    (let floor = fst (qualityFloorFor w); c = escalatedClass floor (escalationCountOf (rq_failureSignals q))
     in failureReasons (rq_failureSignals q)
          (snd (qualityFloorFor w) @ (if c \<noteq> floor then [''ESCALATION_SIGNAL_RAISED_FLOOR''] else []))
        @ (if preferenceRaises (rq_preferredCapabilityClass q) c then [''EXPLICIT_PREFERENCE_RAISED_FLOOR''] else []))"

section \<open>Capabilities, size, complexity\<close>

definition capabilityText :: "workOrder \<Rightarrow> string" where
  "capabilityText w = to_lower (wo_objective w @ '' '' @ join_with '' '' (wo_domains w) @ '' '' @ join_with '' '' (wo_qualityGates w))"

definition requiredCapabilitiesOf :: "workOrder \<Rightarrow> modelCapability list" where
  "requiredCapabilitiesOf w =
    (let text = capabilityText w
     in [ModelSelection]
      @ (if mentions text [''tool-call'', ''tool call'', ''toolcall'', ''execute tool'', ''execute a tool'', ''shell'',
           ''command execution'', ''browser automation''] then [ToolCalling] else [])
      @ (if mentions text [''structured output'', ''json output'', ''schema output'', ''machine-readable'', ''machine readable'']
         then [StructuredOutput] else [])
      @ (if mentions text [''vision'', ''image'', ''screenshot'', ''visual input''] then [VisionInput] else []))"

definition estimatedTokensOf :: "int option \<Rightarrow> contextPack option \<Rightarrow> int" where
  "estimatedTokensOf given pack =
     max 0 (case given of Some n \<Rightarrow> n | None \<Rightarrow> (case pack of Some p \<Rightarrow> int (cx_estimatedTokens p) | None \<Rightarrow> 0))"

text \<open>A quarter of the hard limit, at least 512 and at most 4096 tokens.\<close>

definition outputTokensOf :: "int option \<Rightarrow> workOrder \<Rightarrow> int" where
  "outputTokensOf given w =
     max 0 (case given of Some n \<Rightarrow> n
       | None \<Rightarrow> min 4096 (max 512 (max 0 (tb_hardLimit (wo_tokenBudget w)) div 4)))"

definition complexityFor :: "workOrder \<Rightarrow> complexity" where
  "complexityFor w =
    (if wo_riskLevel w = CRITICAL then CriticalWork
     else if wo_scopeClass w = Trivial then TrivialWork
     else if wo_riskLevel w = HIGH \<or> wo_scopeClass w = Architectural \<or> wo_scopeClass w = CrossCutting then ComplexWork
     else ModerateWork)"

definition uncertaintyFor :: "workOrder \<Rightarrow> int" where
  "uncertaintyFor w =
    (let text = to_lower (wo_objective w @ '' '' @ join_with '' '' (wo_riskReasons w) @ '' '' @ join_with '' '' (wo_recommendations w));
         score = min 60 (int (length (wo_riskReasons w)) * 8 + int (length (wo_affectedAreas w)) * 4)
           + (if mentions text [''unknown'', ''uncertain'', ''ambigu'', ''unresolved'', ''explore'', ''investigate''] then 20 else 0)
           + (if wo_scopeClass w = Architectural then 15 else 0)
     in min 100 score)"

definition deriveModelRequirements ::
  "workOrder \<Rightarrow> contextPack option \<Rightarrow> requirementOptions \<Rightarrow> modelRoutingRequirements" where
  "deriveModelRequirements w pack q =
    (let c = requiredClassOf w q; estimated = estimatedTokensOf (rq_estimatedInputTokens q) pack
     in \<lparr>mq_requiredCapabilityClass = c, mq_requiredCapabilities = requiredCapabilitiesOf w,
         mq_minimumReasoningClass = minimumReasoningFor c, mq_estimatedInputTokens = estimated,
         mq_requiredOutputTokens = outputTokensOf (rq_requiredOutputTokens q) w, mq_requireProvenRuntime = True,
         mq_allowExperimental = (rq_allowExperimental q \<and> wo_riskLevel w \<noteq> CRITICAL),
         mq_explicitPreferenceFloor = rq_preferredCapabilityClass q,
         mq_blockedProviderIds = sort_with code_unit_le (dedup (rq_blockedProviderIds q)),
         mq_complexity = complexityFor w, mq_uncertainty = uncertaintyFor w,
         mq_reasons = [''risk='' @ risk_text (wo_riskLevel w), ''scope='' @ scope_text (wo_scopeClass w),
           ''quality-floor='' @ capability_text c, ''reasoning-floor='' @ reasoning_text (minimumReasoningFor c),
           ''estimated-input='' @ int_text estimated] @ escalationReasonsOf w q\<rparr>)"

section \<open>Nothing lowers the floor\<close>

lemma floor_covers:
  "capabilityRank (tb_capabilityClass (wo_tokenBudget w)) \<le> capabilityRank (fst (qualityFloorFor w))"
  "capabilityRank (riskFloor (wo_riskLevel w)) \<le> capabilityRank (fst (qualityFloorFor w))"
  "capabilityRank (scopeFloor (wo_scopeClass w)) \<le> capabilityRank (fst (qualityFloorFor w))"
  "capabilityRank (sensitiveFloor w) \<le> capabilityRank (fst (qualityFloorFor w))"
  by (simp_all add: qualityFloorFor_def Let_def tier.rank_join)

lemma escalated_rank: "capabilityRank (escalatedClass c n) = (if 0 < n then min 3 (capabilityRank c + min 2 n) else capabilityRank c)"
proof (cases "0 < n")
  case True
  have nth: "capabilityRank (CLASS_ORDER ! k) = k" if "k \<le> 3" for k
  proof -
    have "k = 0 \<or> k = 1 \<or> k = 2 \<or> k = 3" using that by linarith
    then show ?thesis by (auto simp: CLASS_ORDER_def numeral_2_eq_2 numeral_3_eq_3)
  qed
  with True show ?thesis by (simp add: escalatedClass_def)
qed (simp add: escalatedClass_def)

lemma required_covers_floor: "capabilityRank (fst (qualityFloorFor w)) \<le> capabilityRank (requiredClassOf w q)"
proof -
  let ?c = "escalatedClass (fst (qualityFloorFor w)) (escalationCountOf (rq_failureSignals q))"
  have "capabilityRank (fst (qualityFloorFor w)) \<le> capabilityRank ?c"
    using capabilityRank_le3 [of "fst (qualityFloorFor w)"] by (simp add: escalated_rank)
  moreover have "capabilityRank ?c \<le> capabilityRank (requiredClassOf w q)"
    by (auto simp: requiredClassOf_def Let_def split: option.splits)
  ultimately show ?thesis by linarith
qed

lemma uncertainty_bounds: "0 \<le> uncertaintyFor w \<and> uncertaintyFor w \<le> 95"
  by (auto simp: uncertaintyFor_def Let_def min_def)

lemma output_bounds: "rq_requiredOutputTokens q = None \<Longrightarrow> 512 \<le> outputTokensOf (rq_requiredOutputTokens q) w
    \<and> outputTokensOf (rq_requiredOutputTokens q) w \<le> 4096"
  by (simp add: outputTokensOf_def)

end
