(* ===== verification/Model_Runtime.thy ===== *)
theory Model_Runtime
  imports Json_Decode Specialist_Registry Model_Requirements
begin

text \<open>
  \<^verbatim>\<open>src/kernel/model-runtime.ts\<close>: what the runtime of the host can do, as a snapshot with an
  identity, and which capability a model effectively has in it. Tests of \<^verbatim>\<open>lib/secrets.ts\<close> and
  the schema are parameters.
\<close>

record modelSys = specialistSys +
  nodeVersion :: string
  okRuntimeSnapshot :: "runtimeCapabilitySnapshot \<Rightarrow> bool"
  okModelProfile :: "modelProfile \<Rightarrow> bool"
  okModelRegistry :: "modelProfileRegistry \<Rightarrow> bool"
  okModelPlan :: "modelExecutionPlan \<Rightarrow> bool"
  unsafePlanText :: "modelExecutionPlan \<Rightarrow> bool"

definition MODEL_ROUTING_SCHEMA_VERSION :: string where
  "MODEL_ROUTING_SCHEMA_VERSION = ''0.8.0''"

definition RUNTIME_CAPABILITY_KEYS :: "modelCapability list" where
  "RUNTIME_CAPABILITY_KEYS = [ModelSelection, ToolCalling, StructuredOutput, PromptCache, ExplicitCache,
     PersistentContext, Subagents, ParallelAgents, UsageTelemetry, VisionInput]"

definition modelCapability_text :: "modelCapability \<Rightarrow> string" where
  "modelCapability_text c = (case c of ModelSelection \<Rightarrow> ''modelSelection'' | ToolCalling \<Rightarrow> ''toolCalling''
     | StructuredOutput \<Rightarrow> ''structuredOutput'' | PromptCache \<Rightarrow> ''promptCache'' | ExplicitCache \<Rightarrow> ''explicitCache''
     | PersistentContext \<Rightarrow> ''persistentContext'' | Subagents \<Rightarrow> ''subagents'' | ParallelAgents \<Rightarrow> ''parallelAgents''
     | UsageTelemetry \<Rightarrow> ''usageTelemetry'' | VisionInput \<Rightarrow> ''visionInput'')"

datatype capabilityOwnership = HostRuntime | ModelRuntimeIntersection | RouterRuntimeControl

definition HOST_RUNTIME_ONLY_CAPABILITIES :: "modelCapability list" where
  "HOST_RUNTIME_ONLY_CAPABILITIES = [Subagents, ParallelAgents]"

definition ROUTER_RUNTIME_CONTROL_CAPABILITIES :: "modelCapability list" where
  "ROUTER_RUNTIME_CONTROL_CAPABILITIES = [ModelSelection]"

definition capabilityOwnershipOf :: "modelCapability \<Rightarrow> capabilityOwnership" where
  "capabilityOwnershipOf c =
    (if c \<in> set HOST_RUNTIME_ONLY_CAPABILITIES then HostRuntime
     else if c \<in> set ROUTER_RUNTIME_CONTROL_CAPABILITIES then RouterRuntimeControl
     else ModelRuntimeIntersection)"

section \<open>Effective capabilities\<close>

text \<open>\<open>profile.supports[name]\<close>: a name that is no member of \<open>supports\<close> is \<open>undefined\<close>.\<close>

definition modelSupportsOf :: "modelProfile \<Rightarrow> modelCapability \<Rightarrow> bool" where
  "modelSupportsOf p c =
    (let u = mp_supports p in
     case c of ModelSelection \<Rightarrow> True | VisionInput \<Rightarrow> su_vision u | ToolCalling \<Rightarrow> su_toolCalling u
     | StructuredOutput \<Rightarrow> su_structuredOutput u | PromptCache \<Rightarrow> su_promptCache u | ExplicitCache \<Rightarrow> su_explicitCache u
     | PersistentContext \<Rightarrow> su_persistentContext u | UsageTelemetry \<Rightarrow> su_usageTelemetry u
     | Subagents \<Rightarrow> False | ParallelAgents \<Rightarrow> False)"

definition effectiveCapability :: "modelProfile \<Rightarrow> runtimeCapabilitySnapshot \<Rightarrow> modelCapability \<Rightarrow> bool" where
  "effectiveCapability p r c =
    (let runtimeProves = rs_capabilities r c = Proven True
     in case capabilityOwnershipOf c of HostRuntime \<Rightarrow> runtimeProves | RouterRuntimeControl \<Rightarrow> runtimeProves
        | ModelRuntimeIntersection \<Rightarrow> modelSupportsOf p c \<and> runtimeProves)"

definition effectiveCapabilities :: "modelProfile \<Rightarrow> runtimeCapabilitySnapshot \<Rightarrow> (modelCapability \<times> bool) list" where
  "effectiveCapabilities p r = map (\<lambda>c. (c, effectiveCapability p r c)) RUNTIME_CAPABILITY_KEYS"

lemma effective_proved: "effectiveCapability p r c \<Longrightarrow> rs_capabilities r c = Proven True"
  by (auto simp: effectiveCapability_def Let_def split: capabilityOwnership.splits)

lemma effective_supported:
  "effectiveCapability p r c \<Longrightarrow> capabilityOwnershipOf c = ModelRuntimeIntersection \<Longrightarrow> modelSupportsOf p c"
  by (simp add: effectiveCapability_def Let_def)

section \<open>Snapshots\<close>

definition capabilityJson :: "capabilityValue \<Rightarrow> json" where
  "capabilityJson v = (case v of Proven b \<Rightarrow> JBool b | UnknownCapability \<Rightarrow> JStr ''unknown'')"

definition capabilitiesJson :: "(modelCapability \<Rightarrow> capabilityValue) \<Rightarrow> json" where
  "capabilitiesJson f = JObj (map (\<lambda>c. (modelCapability_text c, capabilityJson (f c))) RUNTIME_CAPABILITY_KEYS)"

definition snapshotSource_text :: "snapshotSource \<Rightarrow> string" where
  "snapshotSource_text s = (case s of FromAdapter \<Rightarrow> ''adapter'' | ExplicitConfig \<Rightarrow> ''explicit-config''
     | TestFixture \<Rightarrow> ''test-fixture'')"

definition confidence_text :: "snapshotConfidence \<Rightarrow> string" where
  "confidence_text c = (case c of ConfidenceProven \<Rightarrow> ''proven'' | ConfidenceDeclared \<Rightarrow> ''declared''
     | ConfidenceUnknown \<Rightarrow> ''unknown'')"

definition snapshotMembers :: "runtimeCapabilitySnapshot \<Rightarrow> (string \<times> json) list" where
  "snapshotMembers r =
     [(''schema'', JStr ''uads.runtime-capability-snapshot''), (''schemaVersion'', JStr (rs_schemaVersion r)),
      (''runtimeId'', JStr (rs_runtimeId r)), (''adapterId'', JStr (rs_adapterId r)),
      (''adapterVersion'', JStr (rs_adapterVersion r)), (''runtimeVersion'', jstr_opt (rs_runtimeVersion r)),
      (''capabilities'', capabilitiesJson (rs_capabilities r)),
      (''provenance'', JObj [(''source'', JStr (snapshotSource_text (rs_source r))),
         (''confidence'', JStr (confidence_text (rs_confidence r)))])]"

definition computeRuntimeIdentityDigest :: "'h host_scheme \<Rightarrow> runtimeCapabilitySnapshot \<Rightarrow> string" where
  "computeRuntimeIdentityDigest H r = sha256Json H (JObj (snapshotMembers r))"

definition snapshotJson :: "runtimeCapabilitySnapshot \<Rightarrow> json" where
  "snapshotJson r = JObj (snapshotMembers r @ [(''identityDigest'', JStr (rs_identityDigest r))])"

definition withIdentity :: "'h host_scheme \<Rightarrow> runtimeCapabilitySnapshot \<Rightarrow> runtimeCapabilitySnapshot" where
  "withIdentity H r = r\<lparr>rs_identityDigest := computeRuntimeIdentityDigest H r\<rparr>"

text \<open>The snapshot of a runtime nothing is known about; the planner gives only its identifier.\<close>

definition conservativeRuntimeCapabilitySnapshot :: "'h modelSys_scheme \<Rightarrow> string \<Rightarrow> runtimeCapabilitySnapshot" where
  "conservativeRuntimeCapabilitySnapshot H runtimeId = withIdentity H
     \<lparr>rs_schemaVersion = MODEL_ROUTING_SCHEMA_VERSION, rs_runtimeId = runtimeId, rs_adapterId = ''host-managed'',
      rs_adapterVersion = MODEL_ROUTING_SCHEMA_VERSION, rs_runtimeVersion = Some (nodeVersion H),
      rs_capabilities = (\<lambda>_. UnknownCapability), rs_source = FromAdapter, rs_confidence = ConfidenceUnknown,
      rs_identityDigest = []\<rparr>"

definition hasControl :: "string \<Rightarrow> bool" where
  "hasControl s \<longleftrightarrow> list_ex (\<lambda>c. (of_char c :: nat) < 32 \<or> (of_char c :: nat) = 127) s"

definition boundedString :: "'h specialistSys_scheme \<Rightarrow> json option \<Rightarrow> string \<Rightarrow> nat \<Rightarrow> string res" where
  "boundedString H v label maxLength =
    (case v of
       Some (JStr s) \<Rightarrow>
         if trim s = [] \<or> maxLength < length s \<or> hasControl s then refuse (label @ '' must be a bounded safe string'')
         else if unsafeText H (trim s) then refuse (label @ '' contains secret-like or host-path data'')
         else Inr (trim s)
     | _ \<Rightarrow> refuse (label @ '' must be a bounded safe string''))"

definition capabilityFrom :: "json option \<Rightarrow> string \<Rightarrow> capabilityValue res" where
  "capabilityFrom v label =
    (case v of None \<Rightarrow> Inr UnknownCapability | Some JNull \<Rightarrow> Inr UnknownCapability
     | Some (JBool b) \<Rightarrow> Inr (Proven b)
     | Some (JStr s) \<Rightarrow> if s = ''unknown'' then Inr UnknownCapability else refuse (label @ '' must be boolean or unknown'')
     | Some _ \<Rightarrow> refuse (label @ '' must be boolean or unknown''))"

definition capabilitiesFrom :: "json \<Rightarrow> (modelCapability \<Rightarrow> capabilityValue) res" where
  "capabilitiesFrom j =
    bindR (mapR (\<lambda>c. bindR (capabilityFrom (memberOf j (modelCapability_text c)) (''capabilities.'' @ modelCapability_text c))
                       (\<lambda>v. Inr (c, v))) RUNTIME_CAPABILITY_KEYS) (\<lambda>kvs.
      Inr (\<lambda>c. case map_of kvs c of None \<Rightarrow> UnknownCapability | Some v \<Rightarrow> v))"

text \<open>\<open>String(source)\<close> of the valid texts; an array of one valid text prints the same and is not modelled.\<close>

definition literalOf :: "('a \<Rightarrow> string) \<Rightarrow> 'a list \<Rightarrow> json option \<Rightarrow> string \<Rightarrow> 'a res" where
  "literalOf text values v message =
    (case v of Some (JStr s) \<Rightarrow> (case find (\<lambda>x. text x = s) values of Some x \<Rightarrow> Inr x | None \<Rightarrow> refuse message)
     | _ \<Rightarrow> refuse message)"

definition SNAPSHOT_KEYS :: "string list" where
  "SNAPSHOT_KEYS = [''schema'', ''schemaVersion'', ''runtimeId'', ''adapterId'', ''adapterVersion'', ''runtimeVersion'',
     ''capabilities'', ''provenance'', ''identityDigest'']"

definition objectMember :: "json \<Rightarrow> string \<Rightarrow> bool" where
  "objectMember j key \<longleftrightarrow> (case memberOf j key of Some v \<Rightarrow> isRecord v | None \<Rightarrow> False)"

definition memberObject :: "json \<Rightarrow> string \<Rightarrow> json" where
  "memberObject j key = (case memberOf j key of Some v \<Rightarrow> v | None \<Rightarrow> JNull)"

definition snapshotFields :: "'h modelSys_scheme \<Rightarrow> json \<Rightarrow> runtimeCapabilitySnapshot res" where
  "snapshotFields H raw =
    (let caps = memberObject raw ''capabilities''; prov = memberObject raw ''provenance'' in
    bindR (assertOnlyKeys caps (map modelCapability_text RUNTIME_CAPABILITY_KEYS) ''runtime capabilities'') (\<lambda>_.
    bindR (assertOnlyKeys prov [''source'', ''confidence''] ''runtime provenance'') (\<lambda>_.
    bindR (capabilitiesFrom caps) (\<lambda>capabilities.
    bindR (literalOf snapshotSource_text [FromAdapter, ExplicitConfig, TestFixture] (memberOf prov ''source'')
             ''runtime provenance source is invalid'') (\<lambda>source.
    bindR (literalOf confidence_text [ConfidenceProven, ConfidenceDeclared, ConfidenceUnknown] (memberOf prov ''confidence'')
             ''runtime provenance confidence is invalid'') (\<lambda>confidence.
    bindR (boundedString H (memberOf raw ''runtimeId'') ''runtimeId'' 128) (\<lambda>runtimeId.
    bindR (boundedString H (memberOf raw ''adapterId'') ''adapterId'' 128) (\<lambda>adapterId.
    bindR (boundedString H (memberOf raw ''adapterVersion'') ''adapterVersion'' 64) (\<lambda>adapterVersion.
    bindR (if memberOf raw ''runtimeVersion'' = None \<or> memberOf raw ''runtimeVersion'' = Some JNull then Inr None
           else bindR (boundedString H (memberOf raw ''runtimeVersion'') ''runtimeVersion'' 128) (\<lambda>s. Inr (Some s))) (\<lambda>runtimeVersion.
    Inr \<lparr>rs_schemaVersion = MODEL_ROUTING_SCHEMA_VERSION, rs_runtimeId = runtimeId, rs_adapterId = adapterId,
         rs_adapterVersion = adapterVersion, rs_runtimeVersion = runtimeVersion, rs_capabilities = capabilities,
         rs_source = source, rs_confidence = confidence, rs_identityDigest = []\<rparr>))))))))))"

definition normalizeRuntimeCapabilitySnapshot :: "'h modelSys_scheme \<Rightarrow> json \<Rightarrow> runtimeCapabilitySnapshot res" where
  "normalizeRuntimeCapabilitySnapshot H raw =
    bindR (ensure (isRecord raw) ''runtime capability snapshot must be an object'') (\<lambda>_.
    bindR (assertOnlyKeys raw SNAPSHOT_KEYS ''runtime snapshot'') (\<lambda>_.
    bindR (ensure (memberOf raw ''schema'' = Some (JStr ''uads.runtime-capability-snapshot'')
                   \<and> memberOf raw ''schemaVersion'' = Some (JStr MODEL_ROUTING_SCHEMA_VERSION))
             ''runtime capability snapshot schema/version mismatch'') (\<lambda>_.
    bindR (ensure (objectMember raw ''capabilities'' \<and> objectMember raw ''provenance'')
             ''runtime snapshot nested objects are required'') (\<lambda>_.
    bindR (snapshotFields H raw) (\<lambda>base.
    bindR (ensure (memberOf raw ''identityDigest'' = Some (JStr (computeRuntimeIdentityDigest H base)))
             ''runtime identity digest mismatch'') (\<lambda>_.
    bindR (ensure (okRuntimeSnapshot H (withIdentity H base)) (schemaError ''runtime-capability-snapshot.schema.json'')) (\<lambda>_.
    Inr (withIdentity H base))))))))"

end
