(* ===== verification/Model_Registry.thy ===== *)
theory Model_Registry
  imports Model_Runtime
begin

text \<open>
  \<^verbatim>\<open>src/kernel/model-registry.ts\<close>: model profiles come in as JSON values of a user or of the
  registry file and leave as typed profiles with a digest, or are refused.
\<close>

section \<open>Texts of the closed unions\<close>

definition modelStatus_text :: "modelStatus \<Rightarrow> string" where
  "modelStatus_text s = (case s of ModelEnabled \<Rightarrow> ''enabled'' | ModelDisabled \<Rightarrow> ''disabled'' | ModelExperimental \<Rightarrow> ''experimental'')"

definition relative_text :: "relativeClass \<Rightarrow> string" where
  "relative_text c = (case c of VeryLow \<Rightarrow> ''very-low'' | Low \<Rightarrow> ''low'' | Medium \<Rightarrow> ''medium'' | High \<Rightarrow> ''high''
     | VeryHigh \<Rightarrow> ''very-high'' | UnknownClass \<Rightarrow> ''unknown'')"

definition modelSource_text :: "modelProfileSource \<Rightarrow> string" where
  "modelSource_text s = (case s of BuiltinFixture \<Rightarrow> ''builtin-fixture'' | UserConfig \<Rightarrow> ''user-config''
     | AdapterSource \<Rightarrow> ''adapter'' | Imported \<Rightarrow> ''imported'')"

definition MODEL_STATUSES :: "modelStatus list" where
  "MODEL_STATUSES = [ModelEnabled, ModelDisabled, ModelExperimental]"

definition REASONING_CLASSES :: "reasoningClass list" where
  "REASONING_CLASSES = [Basic, Standard, Advanced, Deep]"

definition COST_CLASSES :: "relativeClass list" where
  "COST_CLASSES = [VeryLow, Low, Medium, High, VeryHigh, UnknownClass]"

definition PROFILE_SOURCES :: "modelProfileSource list" where
  "PROFILE_SOURCES = [BuiltinFixture, UserConfig, AdapterSource, Imported]"

definition SUPPORT_KEYS :: "string list" where
  "SUPPORT_KEYS = [''toolCalling'', ''structuredOutput'', ''vision'', ''promptCache'', ''explicitCache'',
     ''persistentContext'', ''usageTelemetry'']"

definition MODEL_PROFILE_KEYS :: "string list" where
  "MODEL_PROFILE_KEYS =
    [''schema'', ''schemaVersion'', ''profileId'', ''providerId'', ''modelId'', ''status'', ''capabilityClass'',
     ''reasoningClass'', ''contextWindowTokens'', ''maxOutputTokens'', ''relativeCostClass'', ''relativeLatencyClass'',
     ''supports'', ''constraints'', ''notes'', ''source'', ''adapterId'', ''adapterVersion'', ''profileDigest'']"

section \<open>Values\<close>

definition stringValue :: "'h specialistSys_scheme \<Rightarrow> json option \<Rightarrow> string \<Rightarrow> nat \<Rightarrow> string res" where
  "stringValue H v label maxLength =
    (if v = None \<or> v = Some JNull then refuse (label @ '' is required'') else boundedString H v label maxLength)"

definition optionalString :: "'h specialistSys_scheme \<Rightarrow> json option \<Rightarrow> string \<Rightarrow> nat \<Rightarrow> string option res" where
  "optionalString H v label maxLength =
    (if v = None \<or> v = Some JNull then Inr None else bindR (stringValue H v label maxLength) (\<lambda>s. Inr (Some s)))"

text \<open>A positive safe integer, below 2 to the power of 53.\<close>

definition integerValue :: "json option \<Rightarrow> string \<Rightarrow> int option res" where
  "integerValue v label =
    (case v of None \<Rightarrow> Inr None | Some JNull \<Rightarrow> Inr None
     | Some (JInt n) \<Rightarrow> if 1 \<le> n \<and> n < 2 ^ 53 then Inr (Some n) else refuse (label @ '' must be a positive integer'')
     | Some _ \<Rightarrow> refuse (label @ '' must be a positive integer''))"

definition supportMember :: "json \<Rightarrow> string \<Rightarrow> bool res" where
  "supportMember j key = (case boolMember (memberOf j key) of Some b \<Rightarrow> Inr b
     | None \<Rightarrow> refuse (''supports.'' @ key @ '' must be boolean''))"

definition normalizeSupports :: "json option \<Rightarrow> modelSupports res" where
  "normalizeSupports v =
    (case v of None \<Rightarrow> refuse ''supports must be an object''
     | Some j \<Rightarrow>
        bindR (ensure (isRecord j) ''supports must be an object'') (\<lambda>_.
        bindR (assertOnlyKeys j SUPPORT_KEYS ''supports'') (\<lambda>_.
        bindR (supportMember j ''toolCalling'') (\<lambda>a. bindR (supportMember j ''structuredOutput'') (\<lambda>b.
        bindR (supportMember j ''vision'') (\<lambda>c. bindR (supportMember j ''promptCache'') (\<lambda>d.
        bindR (supportMember j ''explicitCache'') (\<lambda>e. bindR (supportMember j ''persistentContext'') (\<lambda>f.
        bindR (supportMember j ''usageTelemetry'') (\<lambda>g.
        Inr \<lparr>su_toolCalling = a, su_structuredOutput = b, su_vision = c, su_promptCache = d, su_explicitCache = e,
             su_persistentContext = f, su_usageTelemetry = g\<rparr>))))))))))"

section \<open>Profiles\<close>

definition jint_opt :: "int option \<Rightarrow> json" where
  "jint_opt v = (case v of None \<Rightarrow> JNull | Some n \<Rightarrow> JInt n)"

definition supportsJson :: "modelSupports \<Rightarrow> json" where
  "supportsJson u = JObj [(''toolCalling'', JBool (su_toolCalling u)), (''structuredOutput'', JBool (su_structuredOutput u)),
     (''vision'', JBool (su_vision u)), (''promptCache'', JBool (su_promptCache u)), (''explicitCache'', JBool (su_explicitCache u)),
     (''persistentContext'', JBool (su_persistentContext u)), (''usageTelemetry'', JBool (su_usageTelemetry u))]"

definition modelProfileMembers :: "modelProfile \<Rightarrow> (string \<times> json) list" where
  "modelProfileMembers p =
    [(''schema'', JStr ''uads.model-profile''), (''schemaVersion'', JStr MODEL_ROUTING_SCHEMA_VERSION),
     (''profileId'', JStr (mp_profileId p)), (''providerId'', JStr (mp_providerId p)), (''modelId'', JStr (mp_modelId p)),
     (''status'', JStr (modelStatus_text (mp_status p))), (''capabilityClass'', JStr (capability_text (mp_capabilityClass p))),
     (''reasoningClass'', JStr (reasoning_text (mp_reasoningClass p))),
     (''contextWindowTokens'', jint_opt (mp_contextWindowTokens p)), (''maxOutputTokens'', jint_opt (mp_maxOutputTokens p)),
     (''relativeCostClass'', JStr (relative_text (mp_relativeCostClass p))),
     (''relativeLatencyClass'', JStr (relative_text (mp_relativeLatencyClass p))),
     (''supports'', supportsJson (mp_supports p)),
     (''constraints'', JObj [(''maxConcurrency'', jint_opt (mp_maxConcurrency p))]), (''notes'', jstr_opt (mp_notes p)),
     (''source'', JStr (modelSource_text (mp_source p))), (''adapterId'', jstr_opt (mp_adapterId p)),
     (''adapterVersion'', jstr_opt (mp_adapterVersion p))]"

definition computeModelProfileDigest :: "'h host_scheme \<Rightarrow> modelProfile \<Rightarrow> string" where
  "computeModelProfileDigest H p = sha256Json H (JObj (modelProfileMembers p))"

definition modelProfileJson :: "modelProfile \<Rightarrow> json" where
  "modelProfileJson p = JObj (modelProfileMembers p @ [(''profileDigest'', JStr (mp_profileDigest p))])"

text \<open>\<open>/^[a-z0-9][a-z0-9._/-]{0,127}$/\<close>, without \<open>..\<close>\<close>

definition isSafeProfileId :: "string \<Rightarrow> bool" where
  "isSafeProfileId s \<longleftrightarrow>
    (case s of [] \<Rightarrow> False | c # cs \<Rightarrow> is_id_start c \<and> length cs \<le> 127
       \<and> list_all (\<lambda>d. is_id_start d \<or> d \<in> set ''._/-'') cs)
    \<and> \<not> includes_text ''..'' s \<and> s \<notin> set [''__proto__'', ''constructor'', ''prototype'']"

definition profileConstraints :: "json \<Rightarrow> int option res" where
  "profileConstraints raw =
    (let c = (case memberOf raw ''constraints'' of None \<Rightarrow> JObj [] | Some j \<Rightarrow> j) in
     bindR (ensure (isRecord c) ''constraints must be an object'') (\<lambda>_.
     bindR (assertOnlyKeys c [''maxConcurrency''] ''constraints'') (\<lambda>_.
     integerValue (memberOf c ''maxConcurrency'') ''constraints.maxConcurrency'')))"

definition modelSourceOf :: "modelProfileSource option \<Rightarrow> json option \<Rightarrow> modelProfileSource res" where
  "modelSourceOf override v = (case override of Some s \<Rightarrow> Inr s
     | None \<Rightarrow> enumValue modelSource_text PROFILE_SOURCES ''source'' (Some UserConfig) v)"

definition knownSource :: "json option \<Rightarrow> bool" where
  "knownSource v \<longleftrightarrow> (case v of None \<Rightarrow> True | Some (JStr s) \<Rightarrow> s \<in> set (map modelSource_text PROFILE_SOURCES) | Some _ \<Rightarrow> False)"

text \<open>The identity part of a profile, then its classes and limits, in the order the code checks them.\<close>

definition profileIdentity :: "'h specialistSys_scheme \<Rightarrow> json \<Rightarrow> (string \<times> string \<times> string) res" where
  "profileIdentity H raw =
    bindR (stringValue H (memberOf raw ''profileId'') ''profileId'' 128) (\<lambda>profileId.
    bindR (ensure (isSafeProfileId profileId) ''profileId is unsafe'') (\<lambda>_.
    bindR (ensure (literalOr ''uads.model-profile'' (memberOf raw ''schema'')
                   \<and> literalOr MODEL_ROUTING_SCHEMA_VERSION (memberOf raw ''schemaVersion''))
             ''model profile schema/version mismatch'') (\<lambda>_.
    bindR (stringValue H (memberOf raw ''providerId'') ''providerId'' 128) (\<lambda>providerId.
    bindR (stringValue H (memberOf raw ''modelId'') ''modelId'' 256) (\<lambda>modelId.
    Inr (profileId, providerId, modelId))))))"

definition modelProfileFields :: "'h specialistSys_scheme \<Rightarrow> json \<Rightarrow> modelProfileSource option \<Rightarrow> modelProfile res" where
  "modelProfileFields H raw override =
    bindR (profileIdentity H raw) (\<lambda>ids.
    bindR (integerValue (memberOf raw ''contextWindowTokens'') ''contextWindowTokens'') (\<lambda>contextWindow.
    bindR (integerValue (memberOf raw ''maxOutputTokens'') ''maxOutputTokens'') (\<lambda>maxOutput.
    bindR (profileConstraints raw) (\<lambda>maxConcurrency.
    bindR (optionalString H (memberOf raw ''notes'') ''notes'' 2000) (\<lambda>notes.
    bindR (ensure (override = None \<or> knownSource (memberOf raw ''source'')) ''source has an unsupported value'') (\<lambda>_.
    bindR (enumValue modelStatus_text MODEL_STATUSES ''status'' (Some ModelEnabled) (memberOf raw ''status'')) (\<lambda>status.
    bindR (enumValue capability_text CLASS_ORDER ''capabilityClass'' None (memberOf raw ''capabilityClass'')) (\<lambda>capabilityClass.
    bindR (enumValue reasoning_text REASONING_CLASSES ''reasoningClass'' None (memberOf raw ''reasoningClass'')) (\<lambda>reasoning.
    bindR (enumValue relative_text COST_CLASSES ''relativeCostClass'' (Some UnknownClass) (memberOf raw ''relativeCostClass'')) (\<lambda>cost.
    bindR (enumValue relative_text COST_CLASSES ''relativeLatencyClass'' (Some UnknownClass) (memberOf raw ''relativeLatencyClass'')) (\<lambda>latency.
    bindR (normalizeSupports (memberOf raw ''supports'')) (\<lambda>supports.
    bindR (modelSourceOf override (memberOf raw ''source'')) (\<lambda>source.
    bindR (optionalString H (memberOf raw ''adapterId'') ''adapterId'' 128) (\<lambda>adapterId.
    bindR (optionalString H (memberOf raw ''adapterVersion'') ''adapterVersion'' 64) (\<lambda>adapterVersion.
    Inr \<lparr>mp_profileId = fst ids, mp_providerId = fst (snd ids), mp_modelId = snd (snd ids), mp_status = status,
         mp_capabilityClass = capabilityClass, mp_reasoningClass = reasoning, mp_contextWindowTokens = contextWindow,
         mp_maxOutputTokens = maxOutput, mp_relativeCostClass = cost, mp_relativeLatencyClass = latency,
         mp_supports = supports, mp_maxConcurrency = maxConcurrency, mp_notes = notes, mp_source = source,
         mp_adapterId = adapterId, mp_adapterVersion = adapterVersion, mp_profileDigest = []\<rparr>)))))))))))))))"

definition normalizeModelProfile :: "'h modelSys_scheme \<Rightarrow> json \<Rightarrow> modelProfileSource option \<Rightarrow> modelProfile res" where
  "normalizeModelProfile H raw override =
    bindR (ensure (isRecord raw) ''model profile must be a JSON object'') (\<lambda>_.
    bindR (assertOnlyKeys raw MODEL_PROFILE_KEYS ''model profile'') (\<lambda>_.
    bindR (modelProfileFields H raw override) (\<lambda>p.
      let digest = computeModelProfileDigest H p; q = p\<lparr>mp_profileDigest := digest\<rparr>
      in bindR (ensure (memberOf raw ''profileDigest'' = None \<or> memberOf raw ''profileDigest'' = Some (JStr digest))
                  (''profileDigest mismatch for '' @ mp_profileId p)) (\<lambda>_.
         bindR (ensure (okModelProfile H q) (schemaError ''model-profile.schema.json'')) (\<lambda>_.
         Inr q)))))"

section \<open>Registries\<close>

definition MAX_MODEL_PROFILES :: nat where
  "MAX_MODEL_PROFILES = 256"

definition byProfileId :: "'h host_scheme \<Rightarrow> modelProfile list \<Rightarrow> modelProfile list" where
  "byProfileId H ps = sort_with (\<lambda>a b. locale_le H (mp_profileId a) (mp_profileId b)) ps"

definition computeModelRegistryDigest :: "'h host_scheme \<Rightarrow> modelProfile list \<Rightarrow> string" where
  "computeModelRegistryDigest H ps = sha256Json H (JObj
     [(''schema'', JStr ''uads.model-profile-registry''), (''schemaVersion'', JStr MODEL_ROUTING_SCHEMA_VERSION),
      (''profiles'', JArr (map modelProfileJson (byProfileId H ps)))])"

text \<open>The loop of \<open>createModelProfileRegistry\<close>: a repeated identifier or a profile that does not normalize stops it.\<close>

fun checkProfiles :: "'h modelSys_scheme \<Rightarrow> string list \<Rightarrow> modelProfile list \<Rightarrow> unit res" where
  "checkProfiles H seen [] = Inr ()"
| "checkProfiles H seen (p # ps) =
    (if mp_profileId p \<in> set seen then refuse (''duplicate profile ID: '' @ mp_profileId p)
     else bindR (normalizeModelProfile H (modelProfileJson p) None) (\<lambda>_. checkProfiles H (mp_profileId p # seen) ps))"

definition createModelProfileRegistry :: "'h modelSys_scheme \<Rightarrow> modelProfile list \<Rightarrow> modelProfileRegistry res" where
  "createModelProfileRegistry H ps =
    bindR (ensure (length ps \<le> MAX_MODEL_PROFILES) ''model registry exceeds maximum profile count'') (\<lambda>_.
    bindR (checkProfiles H [] (byProfileId H ps)) (\<lambda>_.
    Inr \<lparr>mr_schemaVersion = MODEL_ROUTING_SCHEMA_VERSION, mr_profiles = byProfileId H ps,
         mr_registryDigest = computeModelRegistryDigest H (byProfileId H ps)\<rparr>))"

lemma checkProfiles_distinct:
  "checkProfiles H seen ps = Inr () \<Longrightarrow> distinct (map mp_profileId ps) \<and> set (map mp_profileId ps) \<inter> set seen = {}"
  by (induction H seen ps rule: checkProfiles.induct) (auto split: if_splits)

text \<open>Every registry has at most 256 profiles, with distinct identifiers.\<close>

lemma registry_distinct:
  assumes "createModelProfileRegistry H ps = Inr R"
  shows "distinct (map mp_profileId (mr_profiles R)) \<and> length (mr_profiles R) \<le> 256 \<and> set (mr_profiles R) = set ps"
  using assms checkProfiles_distinct [of H "[]" "byProfileId H ps"]
  by (auto simp: createModelProfileRegistry_def byProfileId_def MAX_MODEL_PROFILES_def)

end
