(* ===== verification/Model_Router.thy ===== *)
theory Model_Router
  imports Model_Registry
begin

text \<open>
  \<^verbatim>\<open>src/kernel/model-router.ts\<close>: every profile of the registry is accepted or rejected with its
  reasons, the accepted ones are ordered (least capability above the required tier, then
  reasoning, head room, cost, latency, identifier) and the first is selected. With an empty
  registry moderate work is left to the model of the host; otherwise nothing eligible blocks.
\<close>

section \<open>Requests and identities\<close>

record modelRoutingInput =
  mi_workOrder :: workOrder
  mi_projectId :: "string option"
  mi_registry :: modelProfileRegistry
  mi_runtime :: runtimeCapabilitySnapshot
  mi_contextPack :: "contextPack option"
  mi_changeDigest :: "string option"
  mi_previousPlan :: "modelExecutionPlan option"
  mi_options :: requirementOptions

definition MODEL_ROUTING_POLICY_DIGEST :: "'h host_scheme \<Rightarrow> string" where
  "MODEL_ROUTING_POLICY_DIGEST H = sha256Hex H (''uads-model-routing-policy:0.8.0:capability-before-cost''
     @ '';quality-floor-before-scoring;no-silent-downgrade;deterministic-tiebreak'')"

fun relativeRank :: "relativeClass \<Rightarrow> nat" where
  "relativeRank VeryLow = 0" | "relativeRank Low = 1" | "relativeRank Medium = 2" | "relativeRank High = 3"
| "relativeRank VeryHigh = 4" | "relativeRank UnknownClass = 99"

definition MODEL_ROLES :: "modelRole list" where
  "MODEL_ROLES = [ImplementationRole, ReviewRole, TestingRole, AssuranceRole]"

definition workStatus_text :: "workOrderStatus \<Rightarrow> string" where
  "workStatus_text s = (case s of WoDraft \<Rightarrow> ''draft'' | WoPlanned \<Rightarrow> ''planned'' | WoActive \<Rightarrow> ''active''
     | WoBlocked \<Rightarrow> ''blocked'' | WoCompleted \<Rightarrow> ''completed'' | WoCancelled \<Rightarrow> ''cancelled'')"

definition cachePreference_text :: "cachePreference \<Rightarrow> string" where
  "cachePreference_text c = (case c of PreferCache \<Rightarrow> ''prefer-cache'' | Refresh \<Rightarrow> ''refresh'')"

definition tokenBudgetJson :: "tokenBudget \<Rightarrow> json" where
  "tokenBudgetJson b = JObj [(''softLimit'', JInt (tb_softLimit b)), (''hardLimit'', JInt (tb_hardLimit b)),
     (''capabilityClass'', JStr (capability_text (tb_capabilityClass b))),
     (''cachePreference'', JStr (cachePreference_text (tb_cachePreference b))),
     (''expansionPolicy'', JStr (tb_expansionPolicy b))]"

definition gatedAction_text :: "activeApprovalGatedAction \<Rightarrow> string" where
  "gatedAction_text a = (case a of ProductionDeployment \<Rightarrow> ''production deployment''
     | DestructiveProductionDatabaseOperation \<Rightarrow> ''destructive production database operation''
     | SpendingMoney \<Rightarrow> ''spending money / material-cost external infrastructure action''
     | RotatingRealCredentials \<Rightarrow> ''rotating real credentials''
     | DestructiveGitHistoryRewrite \<Rightarrow> ''destructive Git history rewrite''
     | PublishingPackageRelease \<Rightarrow> ''publishing package/release when not already authorized''
     | TransferringAssets \<Rightarrow> ''transferring assets/funds''
     | OnChainTransaction \<Rightarrow> ''on-chain transaction execution'')"

definition autonomyJson :: "autonomyBoundary \<Rightarrow> json" where
  "autonomyJson a = JObj [(''safeAutonomous'', jstrs (ab_safeAutonomous a)), (''requiresApproval'', jstrs (ab_requiresApproval a)),
     (''activeApprovalGatedActions'', jstrs (map gatedAction_text (ab_activeApprovalGatedActions a))),
     (''activeApprovalIntentAmbiguous'', JBool (ab_activeApprovalIntentAmbiguous a))]"

definition computeWorkOrderRoutingDigest :: "'h host_scheme \<Rightarrow> workOrder \<Rightarrow> string" where
  "computeWorkOrderRoutingDigest H w = sha256Json H (JObj
    [(''schema'', JStr ''uads.work-order''), (''schemaVersion'', JStr ''0.2.0''),
     (''workOrderId'', JStr (wo_workOrderId w)), (''projectId'', JStr (wo_projectId w)),
     (''objective'', JStr (wo_objective w)), (''status'', JStr (workStatus_text (wo_status w))),
     (''scopeClass'', JStr (scope_text (wo_scopeClass w))), (''includedScope'', jstrs (wo_includedScope w)),
     (''outOfScope'', jstrs (wo_outOfScope w)), (''riskLevel'', JStr (risk_text (wo_riskLevel w))),
     (''riskReasons'', jstrs (wo_riskReasons w)), (''constraints'', jstrs (wo_constraints w)),
     (''requestedArtifacts'', jstrs (wo_requestedArtifacts w)), (''destructiveSignals'', jstrs (wo_destructiveSignals w)),
     (''domains'', jstrs (wo_domains w)), (''affectedAreas'', jstrs (wo_affectedAreas w)),
     (''specialists'', jstrs (wo_specialists w)), (''assuranceReviewers'', jstrs (wo_assuranceReviewers w)),
     (''qualityGates'', jstrs (wo_qualityGates w)), (''contextRadius'', JStr (radius_text (wo_contextRadius w))),
     (''tokenBudget'', tokenBudgetJson (wo_tokenBudget w)), (''dependencies'', jstrs (wo_dependencies w)),
     (''acceptanceCriteria'', jstrs (wo_acceptanceCriteria w)), (''requiredEvidence'', jstrs (wo_requiredEvidence w)),
     (''stopConditions'', jstrs (wo_stopConditions w)), (''autonomyBoundary'', autonomyJson (wo_autonomyBoundary w))])"

section \<open>Rejections\<close>

definition capabilityReasonCode :: "modelCapability \<Rightarrow> string" where
  "capabilityReasonCode c = (case c of ToolCalling \<Rightarrow> ''TOOL_CALLING_UNAVAILABLE''
     | StructuredOutput \<Rightarrow> ''STRUCTURED_OUTPUT_UNAVAILABLE'' | VisionInput \<Rightarrow> ''VISION_UNAVAILABLE''
     | PromptCache \<Rightarrow> ''PROMPT_CACHE_UNAVAILABLE'' | ExplicitCache \<Rightarrow> ''EXPLICIT_CACHE_UNAVAILABLE''
     | PersistentContext \<Rightarrow> ''PERSISTENT_CONTEXT_UNAVAILABLE'' | Subagents \<Rightarrow> ''SUBAGENTS_UNAVAILABLE''
     | ParallelAgents \<Rightarrow> ''PARALLEL_AGENTS_UNAVAILABLE'' | UsageTelemetry \<Rightarrow> ''USAGE_TELEMETRY_UNAVAILABLE''
     | ModelSelection \<Rightarrow> ''RUNTIME_CAPABILITY_UNAVAILABLE'')"

text \<open>A rejection is collected as pairs of a code and a reason.\<close>

definition rejectIf :: "bool \<Rightarrow> string \<Rightarrow> string \<Rightarrow> (string \<times> string) list" where
  "rejectIf b code reason = (if b then [(code, reason)] else [])"

lemma rejectIf_Nil [simp]: "rejectIf b code reason = [] \<longleftrightarrow> \<not> b"
  by (simp add: rejectIf_def)

definition capabilityRejections :: "modelProfile \<Rightarrow> runtimeCapabilitySnapshot \<Rightarrow> modelCapability \<Rightarrow> (string \<times> string) list" where
  "capabilityRejections p r c =
     rejectIf (c \<noteq> ModelSelection \<and> \<not> modelSupportsOf p c) (capabilityReasonCode c)
       (''profile does not support '' @ modelCapability_text c)
     @ rejectIf (\<not> effectiveCapability p r c) ''RUNTIME_CAPABILITY_UNAVAILABLE''
       (''runtime cannot prove effective '' @ modelCapability_text c)"

definition below :: "int option \<Rightarrow> int \<Rightarrow> bool" where
  "below v n \<longleftrightarrow> (case v of None \<Rightarrow> False | Some m \<Rightarrow> m < n)"

definition opt_int_text :: "int option \<Rightarrow> string" where
  "opt_int_text v = (case v of None \<Rightarrow> ''null'' | Some n \<Rightarrow> int_text n)"

definition rejectionItems :: "modelProfile \<Rightarrow> modelRoutingInput \<Rightarrow> modelRoutingRequirements \<Rightarrow> (string \<times> string) list" where
  "rejectionItems p I q =
    (let w = mi_workOrder I; tokens = mq_estimatedInputTokens q + mq_requiredOutputTokens q;
         hard = tb_hardLimit (wo_tokenBudget w) in
     rejectIf (mp_status p = ModelDisabled) ''PROFILE_DISABLED'' ''profile is disabled''
     @ rejectIf (mp_status p = ModelExperimental \<and> \<not> mq_allowExperimental q) ''PROFILE_EXPERIMENTAL_NOT_ALLOWED''
         ''experimental profiles require explicit policy eligibility''
     @ rejectIf (mp_status p = ModelExperimental \<and> wo_riskLevel w = CRITICAL) ''PROFILE_EXPERIMENTAL_NOT_ALLOWED''
         ''experimental profile cannot satisfy CRITICAL work''
     @ rejectIf (mp_providerId p \<in> set (mq_blockedProviderIds q)) ''POLICY_BLOCKED'' ''provider is blocked by routing policy''
     @ rejectIf (capabilityRank (mp_capabilityClass p) < capabilityRank (mq_requiredCapabilityClass q)) ''CAPABILITY_CLASS_TOO_LOW''
         (''profile class '' @ capability_text (mp_capabilityClass p) @ '' is below '' @ capability_text (mq_requiredCapabilityClass q))
     @ rejectIf (reasoningRank (mp_reasoningClass p) < reasoningRank (mq_minimumReasoningClass q)) ''REASONING_CLASS_TOO_LOW''
         (''reasoning class '' @ reasoning_text (mp_reasoningClass p) @ '' is below '' @ reasoning_text (mq_minimumReasoningClass q))
     @ concat (map (capabilityRejections p (mi_runtime I)) (mq_requiredCapabilities q))
     @ rejectIf (mq_requireProvenRuntime q \<and> rs_confidence (mi_runtime I) \<noteq> ConfidenceProven) ''NO_PROVEN_CAPABILITY''
         ''required runtime capabilities are not proven''
     @ rejectIf (below (mp_contextWindowTokens p) tokens) ''CONTEXT_WINDOW_TOO_SMALL''
         (''context window '' @ opt_int_text (mp_contextWindowTokens p) @ '' is below required '' @ int_text tokens)
     @ rejectIf (mp_contextWindowTokens p = None \<and> 0 < tokens) ''CONTEXT_WINDOW_TOO_SMALL''
         ''unknown context window is not sufficient for conservative high-volume routing''
     @ rejectIf (below (mp_maxOutputTokens p) (mq_requiredOutputTokens q)) ''OUTPUT_RESERVE_TOO_SMALL''
         (''max output '' @ opt_int_text (mp_maxOutputTokens p) @ '' is below required '' @ int_text (mq_requiredOutputTokens q))
     @ rejectIf (hard < tokens) ''HARD_TOKEN_BUDGET_INCOMPATIBLE''
         (''required input plus output '' @ int_text tokens @ '' exceeds hard budget '' @ int_text hard))"

definition profileRejection :: "modelProfile \<Rightarrow> modelRoutingInput \<Rightarrow> modelRoutingRequirements \<Rightarrow> modelRejection option" where
  "profileRejection p I q =
    (let items = rejectionItems p I q in
     if items = [] then None
     else Some \<lparr>mj_profileId = mp_profileId p, mj_reasonCodes = dedup (map fst items), mj_reasons = map snd items\<rparr>)"

section \<open>The order of the candidates\<close>

definition headroom :: "int \<Rightarrow> modelProfile \<Rightarrow> int" where
  "headroom estimated p = (case mp_contextWindowTokens p of None \<Rightarrow> -1 | Some n \<Rightarrow> n - estimated)"

text \<open>
  \<open>compareCandidate\<close> as the relation "not after". The overshoots are differences to the same rank,
  so they compare as the ranks do.
\<close>

definition candidateKey :: "int \<Rightarrow> modelProfile \<Rightarrow> int list" where
  "candidateKey estimated p = [int (capabilityRank (mp_capabilityClass p)), int (reasoningRank (mp_reasoningClass p)),
     - headroom estimated p, int (relativeRank (mp_relativeCostClass p)), int (relativeRank (mp_relativeLatencyClass p))]"

fun keyLess :: "int list \<Rightarrow> int list \<Rightarrow> bool" where
  "keyLess (a # as) (b # bs) \<longleftrightarrow> a < b \<or> (a = b \<and> keyLess as bs)"
| "keyLess _ _ \<longleftrightarrow> False"

definition compareCandidate :: "'h host_scheme \<Rightarrow> int \<Rightarrow> modelProfile \<Rightarrow> modelProfile \<Rightarrow> bool" where
  "compareCandidate H estimated a b \<longleftrightarrow> keyLess (candidateKey estimated a) (candidateKey estimated b)
     \<or> (candidateKey estimated a = candidateKey estimated b \<and> locale_le H (mp_profileId a) (mp_profileId b))"

section \<open>The plan\<close>

definition candidateSummary :: "modelProfile \<Rightarrow> modelCandidateSummary" where
  "candidateSummary p = \<lparr>cs_profileId = mp_profileId p, cs_providerId = mp_providerId p, cs_modelId = mp_modelId p,
     cs_capabilityClass = mp_capabilityClass p, cs_reasoningClass = mp_reasoningClass p,
     cs_relativeCostClass = mp_relativeCostClass p, cs_relativeLatencyClass = mp_relativeLatencyClass p\<rparr>"

definition roleSelections :: "modelProfile option \<Rightarrow> modelRoutingStatus \<Rightarrow> modelSelectionMode \<Rightarrow> modelRoleSelection list" where
  "roleSelections selected status mode = map (\<lambda>role.
     \<lparr>ms_role = role, ms_profileId = map_option mp_profileId selected, ms_providerId = map_option mp_providerId selected,
      ms_modelId = map_option mp_modelId selected,
      ms_status = (if status = RoutingBlocked then RoleBlocked else if mode = HostManagedMode then RoleHostManaged else RoleSelected),
      ms_reasonCodes = (if status = RoutingBlocked then [''NO_ELIGIBLE_MODEL''] else if mode = HostManagedMode
        then [''HOST_MANAGED_COMPATIBILITY''] else [''ROLE_USES_MINIMUM_SUFFICIENT_PROFILE''])\<rparr>) MODEL_ROLES"

definition usable_in :: "modelProfile option \<Rightarrow> runtimeCapabilitySnapshot \<Rightarrow> modelCapability \<Rightarrow> bool" where
  "usable_in selected r c = (case selected of None \<Rightarrow> False | Some p \<Rightarrow> effectiveCapability p r c)"

definition effectiveCacheHints :: "modelProfile option \<Rightarrow> runtimeCapabilitySnapshot \<Rightarrow> contextPack option \<Rightarrow> modelCacheHints" where
  "effectiveCacheHints selected r pack =
    \<lparr>mh_staticLayerDigest = map_option cx_staticLayerDigest pack, mh_semiStableLayerDigest = map_option cx_semiStableLayerDigest pack,
     mh_dynamicLayerDigest = map_option cx_dynamicLayerDigest pack, mh_promptCacheUsable = usable_in selected r PromptCache,
     mh_explicitCacheUsable = usable_in selected r ExplicitCache,
     mh_persistentContextUsable = usable_in selected r PersistentContext\<rparr>"

definition allowsParallel :: "modelProfile \<Rightarrow> bool" where
  "allowsParallel p \<longleftrightarrow> (case mp_maxConcurrency p of None \<Rightarrow> True | Some n \<Rightarrow> 1 < n)"

definition executionStrategy :: "modelProfile option \<Rightarrow> runtimeCapabilitySnapshot \<Rightarrow> modelExecutionStrategy" where
  "executionStrategy selected r =
    \<lparr>me_parallel = (case selected of None \<Rightarrow> False | Some p \<Rightarrow> effectiveCapability p r ParallelAgents \<and> allowsParallel p),
     me_roleDispatch = (if usable_in selected r Subagents then SubagentDispatch else RoleCycling),
     me_usageTelemetryAvailable = (if usable_in selected r UsageTelemetry then Some True else None)\<rparr>"

text \<open>The tier of a former plan of the same work order is a floor for the next.\<close>

definition priorTierOf :: "modelRoutingInput \<Rightarrow> capabilityClass option" where
  "priorTierOf I = (case mi_previousPlan I of None \<Rightarrow> None
     | Some p \<Rightarrow> if mx_workOrderId p = wo_workOrderId (mi_workOrder I) then Some (mx_escalationCurrentTier p) else None)"

definition requirementsOf :: "modelRoutingInput \<Rightarrow> modelRoutingRequirements" where
  "requirementsOf I = deriveModelRequirements (mi_workOrder I) (mi_contextPack I) (mi_options I)"

definition currentTierOf :: "modelRoutingInput \<Rightarrow> capabilityClass" where
  "currentTierOf I = (let c = mq_requiredCapabilityClass (requirementsOf I) in
     case priorTierOf I of None \<Rightarrow> c | Some t \<Rightarrow> maxCapability c t)"

definition currentRequirements :: "modelRoutingInput \<Rightarrow> modelRoutingRequirements" where
  "currentRequirements I = (requirementsOf I)\<lparr>mq_requiredCapabilityClass := currentTierOf I,
     mq_minimumReasoningClass := minimumReasoningFor (currentTierOf I)\<rparr>"

definition modelCandidates :: "'h host_scheme \<Rightarrow> modelRoutingInput \<Rightarrow> modelProfile list" where
  "modelCandidates H I = byProfileId H (mr_profiles (mi_registry I))"

definition modelRejections :: "'h host_scheme \<Rightarrow> modelRoutingInput \<Rightarrow> modelRejection list" where
  "modelRejections H I = List.map_filter (\<lambda>p. profileRejection p I (currentRequirements I)) (modelCandidates H I)"

definition eligibleModels :: "'h host_scheme \<Rightarrow> modelRoutingInput \<Rightarrow> modelProfile list" where
  "eligibleModels H I = sort_with (compareCandidate H (mq_estimatedInputTokens (currentRequirements I)))
     (filter (\<lambda>p. mp_profileId p \<notin> set (map mj_profileId (modelRejections H I))) (modelCandidates H I))"

definition escalationTexts :: "modelRoutingInput \<Rightarrow> string list" where
  "escalationTexts I = dedup (filter (includes_text ''ESCALATION'') (mq_reasons (requirementsOf I))
     @ fs_explicitReasons (rq_failureSignals (mi_options I))
     @ (case priorTierOf I of None \<Rightarrow> [] | Some t \<Rightarrow>
          if capabilityRank (mq_requiredCapabilityClass (requirementsOf I)) < capabilityRank t then [''MONOTONIC_PRIOR_FLOOR''] else []))"

definition hostManagedRouting :: "'h host_scheme \<Rightarrow> modelRoutingInput \<Rightarrow> bool" where
  "hostManagedRouting H I \<longleftrightarrow> eligibleModels H I = [] \<and> mr_profiles (mi_registry I) = []
     \<and> capabilityRank (currentTierOf I) \<le> capabilityRank Balanced \<and> wo_riskLevel (mi_workOrder I) \<noteq> CRITICAL"

definition selectedModel :: "'h host_scheme \<Rightarrow> modelRoutingInput \<Rightarrow> modelProfile option" where
  "selectedModel H I = (if hostManagedRouting H I then None
     else case eligibleModels H I of [] \<Rightarrow> None | p # _ \<Rightarrow> Some p)"

definition routedStatus :: "'h host_scheme \<Rightarrow> modelRoutingInput \<Rightarrow> modelRoutingStatus" where
  "routedStatus H I = (if selectedModel H I \<noteq> None \<or> hostManagedRouting H I then RoutingSelected else RoutingBlocked)"

definition selectionReasons :: "'h host_scheme \<Rightarrow> modelRoutingInput \<Rightarrow> string list" where
  "selectionReasons H I =
    (if hostManagedRouting H I then [''HOST_MANAGED_COMPATIBILITY'', ''NO_CONCRETE_PROFILE'', ''QUALITY_FLOOR_RETAINED''] else [])
    @ (if selectedModel H I \<noteq> None then [''MINIMUM_CAPABILITY_FLOOR'', ''REASONING_ADEQUATE'', ''CONTEXT_HEADROOM'',
         ''RELATIVE_COST_PREFERENCE'', ''RELATIVE_LATENCY_PREFERENCE'', ''LEXICOGRAPHIC_PROFILE_ID_TIE_BREAK''] else [])
    @ (if routedStatus H I = RoutingBlocked then [''NO_ELIGIBLE_MODEL'', ''FAIL_CLOSED''] else [])"

definition modelPlanIdOf :: "'h host_scheme \<Rightarrow> modelRoutingInput \<Rightarrow> string" where
  "modelPlanIdOf H I = newPrefixedId H ''mrp'' (join_with '':''
     [wo_projectId (mi_workOrder I), wo_workOrderId (mi_workOrder I), computeWorkOrderRoutingDigest H (mi_workOrder I),
      rs_identityDigest (mi_runtime I), mr_registryDigest (mi_registry I), MODEL_ROUTING_POLICY_DIGEST H,
      capability_text (currentTierOf I), (case mi_changeDigest I of None \<Rightarrow> ''none'' | Some d \<Rightarrow> d)])"

definition modelPlanOf :: "'h host_scheme \<Rightarrow> modelRoutingInput \<Rightarrow> modelExecutionPlan" where
  "modelPlanOf H I =
    (let w = mi_workOrder I; q = requirementsOf I; selected = selectedModel H I; status = routedStatus H I;
         mode = (if hostManagedRouting H I then HostManagedMode else RouterMode) in
     \<lparr>mx_planId = modelPlanIdOf H I,
      mx_projectId = (case mi_projectId I of None \<Rightarrow> wo_projectId w | Some i \<Rightarrow> i), mx_workOrderId = wo_workOrderId w,
      mx_workOrderDigest = computeWorkOrderRoutingDigest H w, mx_changeDigest = mi_changeDigest I, mx_risk = wo_riskLevel w,
      mx_scopeClass = wo_scopeClass w, mx_complexity = mq_complexity q, mx_uncertainty = mq_uncertainty q,
      mx_requiredCapabilityClass = currentTierOf I, mx_requiredCapabilities = mq_requiredCapabilities q,
      mx_runtimeIdentityDigest = rs_identityDigest (mi_runtime I), mx_registryDigest = mr_registryDigest (mi_registry I),
      mx_policyDigest = MODEL_ROUTING_POLICY_DIGEST H, mx_candidates = map candidateSummary (modelCandidates H I),
      mx_eligibleCandidates = map mp_profileId (eligibleModels H I), mx_rejections = modelRejections H I,
      mx_selectedProfileId = map_option mp_profileId selected, mx_selectedProviderId = map_option mp_providerId selected,
      mx_selectedModelId = map_option mp_modelId selected, mx_roleSelections = roleSelections selected status mode,
      mx_selectionReasonCodes = selectionReasons H I,
      mx_fallbackProfileIds = (if selected = None then [] else map mp_profileId (tl (eligibleModels H I))),
      mx_escalationFloor = mq_requiredCapabilityClass q, mx_escalationCurrentTier = currentTierOf I,
      mx_escalationReasonCodes = escalationTexts I, mx_cacheHints = effectiveCacheHints selected (mi_runtime I) (mi_contextPack I),
      mx_execution = executionStrategy selected (mi_runtime I),
      mx_budget = \<lparr>mb_hardLimit = tb_hardLimit (wo_tokenBudget w), mb_softLimit = tb_softLimit (wo_tokenBudget w),
        mb_estimatedInputTokens = mq_estimatedInputTokens q, mb_requiredOutputTokens = mq_requiredOutputTokens q,
        mb_selectedContextWindowTokens = Option.bind selected mp_contextWindowTokens\<rparr>,
      mx_selectionMode = mode, mx_status = status,
      mx_blockedReason = (if status = RoutingBlocked then Some ''NO_ELIGIBLE_MODEL'' else None)\<rparr>)"

definition routeModel :: "'h host_scheme \<Rightarrow> modelRoutingInput \<Rightarrow> modelExecutionPlan res" where
  "routeModel H I =
    bindR (ensure (mi_projectId I = None \<or> mi_projectId I = Some (wo_projectId (mi_workOrder I)))
             ''cross-project model routing rejected'') (\<lambda>_.
    bindR (ensure (mr_schemaVersion (mi_registry I) = MODEL_ROUTING_SCHEMA_VERSION
                   \<and> rs_schemaVersion (mi_runtime I) = MODEL_ROUTING_SCHEMA_VERSION) ''model routing schema/version mismatch'') (\<lambda>_.
    Inr (modelPlanOf H I)))"

end
