(* ===== verification/Model_Properties.thy ===== *)
theory Model_Properties
  imports Model_Router Demo_State
begin

text \<open>
  What model routing guarantees: the selected profile meets every demand of the work order and
  comes first among those that do; the tier never falls below a floor or a former tier; when
  nothing is eligible the plan is blocked, but for moderate work with an empty registry.
\<close>

section \<open>The order of the candidates is total\<close>

lemma keyLess_trans: "keyLess a b \<Longrightarrow> keyLess b c \<Longrightarrow> keyLess a c"
  by (induction a b arbitrary: c rule: keyLess.induct) (case_tac c, auto)+

lemma keyLess_total: "length a = length b \<Longrightarrow> a = b \<or> keyLess a b \<or> keyLess b a"
  by (induction a b rule: keyLess.induct) auto

lemma compareCandidate_comparator:
  assumes "comparator (locale_le H)"
  shows "comparator (compareCandidate H n)"
proof
  fix a b c :: modelProfile
  show "compareCandidate H n a b \<or> compareCandidate H n b a"
    using keyLess_total [of "candidateKey n a" "candidateKey n b"] comparator.le_total [OF assms]
    by (auto simp: compareCandidate_def candidateKey_def)
  assume "compareCandidate H n a b" "compareCandidate H n b c"
  then show "compareCandidate H n a c"
    using comparator.le_trans [OF assms] keyLess_trans by (auto simp: compareCandidate_def)
qed

section \<open>Eligibility\<close>

definition acceptable :: "modelProfile \<Rightarrow> modelRoutingInput \<Rightarrow> bool" where
  "acceptable p I \<longleftrightarrow>
    (let w = mi_workOrder I; tier = currentTierOf I; q = requirementsOf I;
         tokens = mq_estimatedInputTokens q + mq_requiredOutputTokens q in
     mp_status p \<noteq> ModelDisabled
     \<and> (mp_status p = ModelExperimental \<longrightarrow> rq_allowExperimental (mi_options I) \<and> wo_riskLevel w \<noteq> CRITICAL)
     \<and> mp_providerId p \<notin> set (rq_blockedProviderIds (mi_options I))
     \<and> capabilityRank tier \<le> capabilityRank (mp_capabilityClass p)
     \<and> capabilityRank tier \<le> reasoningRank (mp_reasoningClass p)
     \<and> list_all (effectiveCapability p (mi_runtime I)) (mq_requiredCapabilities q)
     \<and> rs_confidence (mi_runtime I) = ConfidenceProven
     \<and> (case mp_contextWindowTokens p of None \<Rightarrow> tokens \<le> 0 | Some n \<Rightarrow> tokens \<le> n)
     \<and> (case mp_maxOutputTokens p of None \<Rightarrow> True | Some n \<Rightarrow> mq_requiredOutputTokens q \<le> n)
     \<and> tokens \<le> tb_hardLimit (wo_tokenBudget w))"

lemma capabilityRejections_Nil:
  "c \<noteq> Subagents \<Longrightarrow> c \<noteq> ParallelAgents \<Longrightarrow> capabilityRejections p r c = [] \<longleftrightarrow> effectiveCapability p r c"
  by (cases c) (auto simp: capabilityRejections_def effectiveCapability_def Let_def capabilityOwnershipOf_def
      HOST_RUNTIME_ONLY_CAPABILITIES_def ROUTER_RUNTIME_CONTROL_CAPABILITIES_def modelSupportsOf_def)

lemma required_not_host: "c \<in> set (requiredCapabilitiesOf w) \<Longrightarrow> c \<noteq> Subagents \<and> c \<noteq> ParallelAgents"
  by (auto simp: requiredCapabilitiesOf_def Let_def split: if_splits)

lemma requirementsOf_simps [simp]:
  "mq_requiredCapabilityClass (requirementsOf I) = requiredClassOf (mi_workOrder I) (mi_options I)"
  "mq_requiredCapabilities (requirementsOf I) = requiredCapabilitiesOf (mi_workOrder I)"
  "mq_requireProvenRuntime (requirementsOf I)"
  "mq_allowExperimental (requirementsOf I) \<longleftrightarrow> rq_allowExperimental (mi_options I) \<and> wo_riskLevel (mi_workOrder I) \<noteq> CRITICAL"
  "set (mq_blockedProviderIds (requirementsOf I)) = set (rq_blockedProviderIds (mi_options I))"
  "mq_uncertainty (requirementsOf I) = uncertaintyFor (mi_workOrder I)"
  by (simp_all add: requirementsOf_def deriveModelRequirements_def Let_def)

lemma currentRequirements_simps [simp]:
  "mq_requiredCapabilityClass (currentRequirements I) = currentTierOf I"
  "mq_minimumReasoningClass (currentRequirements I) = minimumReasoningFor (currentTierOf I)"
  "mq_requiredCapabilities (currentRequirements I) = requiredCapabilitiesOf (mi_workOrder I)"
  "mq_requireProvenRuntime (currentRequirements I)"
  "mq_allowExperimental (currentRequirements I) = mq_allowExperimental (requirementsOf I)"
  "mq_blockedProviderIds (currentRequirements I) = mq_blockedProviderIds (requirementsOf I)"
  "mq_estimatedInputTokens (currentRequirements I) = mq_estimatedInputTokens (requirementsOf I)"
  "mq_requiredOutputTokens (currentRequirements I) = mq_requiredOutputTokens (requirementsOf I)"
  by (simp_all add: currentRequirements_def)

lemma below_iff: "\<not> below v n \<longleftrightarrow> (case v of None \<Rightarrow> True | Some m \<Rightarrow> n \<le> m)"
  by (cases v) (auto simp: below_def)

lemma capabilities_accepted:
  "concat (map (capabilityRejections p r) (requiredCapabilitiesOf w)) = []
     \<longleftrightarrow> list_all (effectiveCapability p r) (requiredCapabilitiesOf w)"
  using capabilityRejections_Nil required_not_host by (fastforce simp: list_all_iff)

lemma rejection_None: "profileRejection p I (currentRequirements I) = None \<longleftrightarrow> acceptable p I"
proof -
  have "profileRejection p I (currentRequirements I) = None \<longleftrightarrow> rejectionItems p I (currentRequirements I) = []"
    by (simp add: profileRejection_def Let_def)
  also have "\<dots> \<longleftrightarrow> acceptable p I"
    unfolding rejectionItems_def acceptable_def Let_def append_is_Nil_conv rejectIf_Nil currentRequirements_simps
      capabilities_accepted requirementsOf_simps minimumReasoning_rank below_iff
    by (cases "mp_contextWindowTokens p") auto
  finally show ?thesis .
qed

lemma rejection_id: "profileRejection p I q = Some r \<Longrightarrow> mj_profileId r = mp_profileId p"
  by (auto simp: profileRejection_def Let_def split: if_splits)

lemma rejected_ids:
  "mj_profileId ` set (modelRejections H I) = mp_profileId ` {p \<in> set (mr_profiles (mi_registry I)). \<not> acceptable p I}"
proof -
  let ?q = "currentRequirements I"
  have mem: "r \<in> set (modelRejections H I) \<longleftrightarrow> (\<exists>p\<in>set (mr_profiles (mi_registry I)). profileRejection p I ?q = Some r)" for r
    unfolding modelRejections_def in_map_filter modelCandidates_def byProfileId_def set_sort_with by (rule refl)
  have ids: "i \<in> mj_profileId ` set (modelRejections H I) \<longleftrightarrow>
      (\<exists>p\<in>set (mr_profiles (mi_registry I)). \<exists>r. profileRejection p I ?q = Some r \<and> mj_profileId r = i)" for i
    unfolding image_iff Bex_def mem by blast
  have "(\<exists>r. profileRejection p I ?q = Some r \<and> mj_profileId r = i) \<longleftrightarrow> \<not> acceptable p I \<and> mp_profileId p = i" for p i
    using rejection_None [of p I] rejection_id [of p I ?q] by (cases "profileRejection p I ?q") auto
  then have "i \<in> mj_profileId ` set (modelRejections H I) \<longleftrightarrow>
      (\<exists>p\<in>set (mr_profiles (mi_registry I)). \<not> acceptable p I \<and> mp_profileId p = i)" for i
    unfolding ids by blast
  then show ?thesis by (intro set_eqI) (simp add: image_iff, blast)
qed

definition distinctProfileIds :: "modelProfileRegistry \<Rightarrow> bool" where
  "distinctProfileIds R \<longleftrightarrow> distinct (map mp_profileId (mr_profiles R))"

lemma eligible_models_iff:
  assumes "distinctProfileIds (mi_registry I)"
  shows "set (eligibleModels H I) = {p \<in> set (mr_profiles (mi_registry I)). acceptable p I}"
proof -
  have "mp_profileId p \<in> mp_profileId ` {p \<in> set (mr_profiles (mi_registry I)). \<not> acceptable p I} \<longleftrightarrow> \<not> acceptable p I"
    if "p \<in> set (mr_profiles (mi_registry I))" for p
    using that assms by (auto simp: distinctProfileIds_def distinct_map dest: inj_onD)
  then show ?thesis
    by (auto simp: eligibleModels_def rejected_ids modelCandidates_def byProfileId_def)
qed

lemma eligible_first:
  assumes "comparator (locale_le H)" "q \<in> set (eligibleModels H I)"
  shows "compareCandidate H (mq_estimatedInputTokens (requirementsOf I)) (hd (eligibleModels H I)) q"
proof -
  have "q \<in> set (filter (\<lambda>p. mp_profileId p \<notin> set (map mj_profileId (modelRejections H I))) (modelCandidates H I))"
    using assms(2) by (simp add: eligibleModels_def)
  from comparator.hd_sort_with_least [OF compareCandidate_comparator [OF assms(1)] this]
  show ?thesis by (simp add: eligibleModels_def)
qed

section \<open>Properties\<close>

lemma tier_covers:
  "capabilityRank (requiredClassOf (mi_workOrder I) (mi_options I)) \<le> capabilityRank (currentTierOf I)"
  "priorTierOf I = Some t \<Longrightarrow> capabilityRank t \<le> capabilityRank (currentTierOf I)"
  by (auto simp: currentTierOf_def Let_def tier.rank_join split: option.splits)

text \<open>C11: the profile that routing selects is in the registry and acceptable: not disabled, not
  blocked, experimental only when allowed and never for CRITICAL work, with the class and reasoning of
  the required tier, every required capability proved by the runtime, a context window and an output
  limit that hold the request, within the hard token budget. Among the acceptable profiles it comes
  first in the candidate order, and the others are the fallbacks.\<close>

theorem selected_model_sound:
  assumes "comparator (locale_le H)" "distinctProfileIds (mi_registry I)" "routeModel H I = Inr P"
    and "mx_selectedProfileId P = Some i"
  shows "\<exists>p\<in>set (mr_profiles (mi_registry I)). mp_profileId p = i \<and> mx_selectedModelId P = Some (mp_modelId p)
    \<and> mx_status P = RoutingSelected \<and> acceptable p I
    \<and> (\<forall>q\<in>set (mr_profiles (mi_registry I)). acceptable q I \<longrightarrow>
         compareCandidate H (mq_estimatedInputTokens (requirementsOf I)) p q
         \<and> (q \<noteq> p \<longrightarrow> mp_profileId q \<in> set (mx_fallbackProfileIds P)))"
proof -
  have P: "P = modelPlanOf H I" using assms(3) by (auto simp: routeModel_def)
  then obtain p where sel: "selectedModel H I = Some p" and i: "mp_profileId p = i"
    using assms(4) by (auto simp: modelPlanOf_def Let_def)
  then obtain ps where el: "eligibleModels H I = p # ps"
    by (auto simp: selectedModel_def split: if_splits list.splits)
  have eligible: "set (eligibleModels H I) = {p \<in> set (mr_profiles (mi_registry I)). acceptable p I}"
    by (rule eligible_models_iff [OF assms(2)])
  have first: "compareCandidate H (mq_estimatedInputTokens (requirementsOf I)) p q" if "q \<in> set (eligibleModels H I)" for q
    using eligible_first [OF assms(1) that] el by simp
  have "p \<in> set (eligibleModels H I)" using el by simp
  moreover have "mp_profileId q \<in> set (mx_fallbackProfileIds P)" if "q \<in> set (eligibleModels H I)" "q \<noteq> p" for q
    using that el sel P by (auto simp: modelPlanOf_def Let_def)
  ultimately show ?thesis
    using first eligible i sel P by (auto simp: modelPlanOf_def Let_def routedStatus_def)
qed

text \<open>C15: the tier of a plan is never below the quality floor of the work order (the class of its
  token budget, of its risk, of its scope, and strong for sensitive words), nor below the tier of the
  former plan of the same work order; no profile below it is eligible.\<close>

theorem tier_never_lowered:
  assumes "routeModel H I = Inr P" "distinctProfileIds (mi_registry I)"
  shows "(let tier = mx_requiredCapabilityClass P; w = mi_workOrder I in
      capabilityRank (tb_capabilityClass (wo_tokenBudget w)) \<le> capabilityRank tier
    \<and> capabilityRank (riskFloor (wo_riskLevel w)) \<le> capabilityRank tier
    \<and> capabilityRank (scopeFloor (wo_scopeClass w)) \<le> capabilityRank tier
    \<and> capabilityRank (sensitiveFloor w) \<le> capabilityRank tier
    \<and> (\<forall>t. priorTierOf I = Some t \<longrightarrow> capabilityRank t \<le> capabilityRank tier)
    \<and> (\<forall>p\<in>set (mr_profiles (mi_registry I)). capabilityRank (mp_capabilityClass p) < capabilityRank tier
         \<longrightarrow> mp_profileId p \<notin> set (mx_eligibleCandidates P)))"
proof -
  have P: "P = modelPlanOf H I" using assms(1) by (auto simp: routeModel_def)
  let ?w = "mi_workOrder I"
  have floor: "capabilityRank (fst (qualityFloorFor ?w)) \<le> capabilityRank (currentTierOf I)"
    using required_covers_floor [of ?w "mi_options I"] tier_covers(1) [of I] by linarith
  have "mp_profileId p \<notin> mp_profileId ` set (eligibleModels H I)"
    if "p \<in> set (mr_profiles (mi_registry I))" "capabilityRank (mp_capabilityClass p) < capabilityRank (currentTierOf I)" for p
  proof
    assume "mp_profileId p \<in> mp_profileId ` set (eligibleModels H I)"
    then obtain p' where p': "p' \<in> set (mr_profiles (mi_registry I))" "acceptable p' I" "mp_profileId p' = mp_profileId p"
      using eligible_models_iff [OF assms(2), of H] by auto
    with that(1) assms(2) have "p' = p" by (auto simp: distinctProfileIds_def distinct_map dest: inj_onD)
    with p'(2) that(2) show False by (simp add: acceptable_def Let_def)
  qed
  then have none: "\<forall>p\<in>set (mr_profiles (mi_registry I)). capabilityRank (mp_capabilityClass p) < capabilityRank (currentTierOf I)
         \<longrightarrow> mp_profileId p \<notin> set (mx_eligibleCandidates P)"
    by (simp add: P modelPlanOf_def Let_def)
  have tier: "mx_requiredCapabilityClass P = currentTierOf I" by (simp add: P modelPlanOf_def Let_def)
  have up: "n \<le> capabilityRank (currentTierOf I)" if "n \<le> capabilityRank (fst (qualityFloorFor ?w))" for n
    using that floor by linarith
  show ?thesis
    unfolding Let_def tier
    by (intro conjI, (rule up, rule floor_covers)+, intro allI impI, erule tier_covers(2), rule none)
qed

text \<open>C16: routing either selects, or leaves the choice to the host, or is blocked with the reason
  that no model is eligible. It is blocked exactly when no profile is acceptable and the registry is
  not empty, the tier is above balanced, or the work is CRITICAL; the choice is left to the host exactly
  when the registry is empty, the tier at most balanced and the work not CRITICAL.\<close>

theorem routing_blocked_iff:
  assumes "routeModel H I = Inr P" "distinctProfileIds (mi_registry I)"
  shows "(mx_status P = RoutingBlocked \<longleftrightarrow>
       (\<forall>p\<in>set (mr_profiles (mi_registry I)). \<not> acceptable p I)
       \<and> (mr_profiles (mi_registry I) \<noteq> [] \<or> 1 < capabilityRank (mx_requiredCapabilityClass P) \<or> mx_risk P = CRITICAL))
    \<and> (mx_selectionMode P = HostManagedMode \<longleftrightarrow> mr_profiles (mi_registry I) = []
       \<and> capabilityRank (mx_requiredCapabilityClass P) \<le> 1 \<and> mx_risk P \<noteq> CRITICAL)
    \<and> (mx_blockedReason P = Some ''NO_ELIGIBLE_MODEL'' \<longleftrightarrow> mx_status P = RoutingBlocked)
    \<and> (mx_status P = RoutingBlocked \<longrightarrow> mx_selectedProfileId P = None)"
proof -
  have P: "P = modelPlanOf H I" using assms(1) by (auto simp: routeModel_def)
  have none: "eligibleModels H I = [] \<longleftrightarrow> (\<forall>p\<in>set (mr_profiles (mi_registry I)). \<not> acceptable p I)"
    using eligible_models_iff [OF assms(2), of H] by (metis (mono_tags, lifting) mem_Collect_eq empty_iff list.set(1) list.set_intros(1) neq_Nil_conv)
  show ?thesis
  proof (cases "eligibleModels H I")
    case Nil
    with none show ?thesis
      by (auto simp: P modelPlanOf_def Let_def routedStatus_def selectedModel_def hostManagedRouting_def)
  next
    case (Cons p ps)
    then have "mr_profiles (mi_registry I) \<noteq> []" using none by auto
    with Cons none show ?thesis
      by (auto simp: P modelPlanOf_def Let_def routedStatus_def selectedModel_def hostManagedRouting_def)
  qed
qed

section \<open>Witnesses\<close>

text \<open>
  Concrete routing requests for the properties of model routing: a registry with an economy, a
  balanced and a disabled profile on a runtime that proves model selection.
\<close>

definition demoSupports :: modelSupports where
  "demoSupports = \<lparr>su_toolCalling = True, su_structuredOutput = True, su_vision = False, su_promptCache = False,
     su_explicitCache = False, su_persistentContext = False, su_usageTelemetry = True\<rparr>"

definition demoModel :: "string \<Rightarrow> modelStatus \<Rightarrow> capabilityClass \<Rightarrow> reasoningClass \<Rightarrow> modelProfile" where
  "demoModel i status c r = \<lparr>mp_profileId = i, mp_providerId = ''prov'', mp_modelId = ''m-'' @ i, mp_status = status,
     mp_capabilityClass = c, mp_reasoningClass = r, mp_contextWindowTokens = Some 200000, mp_maxOutputTokens = Some 8192,
     mp_relativeCostClass = Low, mp_relativeLatencyClass = Low, mp_supports = demoSupports, mp_maxConcurrency = None,
     mp_notes = None, mp_source = UserConfig, mp_adapterId = None, mp_adapterVersion = None, mp_profileDigest = ''pd''\<rparr>"

definition demoModels :: modelProfileRegistry where
  "demoModels = \<lparr>mr_schemaVersion = ''0.8.0'',
     mr_profiles = [demoModel ''large'' ModelEnabled Strong Deep, demoModel ''medium'' ModelEnabled Balanced Standard,
       demoModel ''off'' ModelDisabled Critical Deep], mr_registryDigest = ''rd''\<rparr>"

definition demoRuntime :: runtimeCapabilitySnapshot where
  "demoRuntime = \<lparr>rs_schemaVersion = ''0.8.0'', rs_runtimeId = ''rt'', rs_adapterId = ''ad'', rs_adapterVersion = ''1'',
     rs_runtimeVersion = None, rs_capabilities = (\<lambda>_. Proven True), rs_source = TestFixture,
     rs_confidence = ConfidenceProven, rs_identityDigest = ''id''\<rparr>"

definition demoOptions :: requirementOptions where
  "demoOptions = \<lparr>rq_estimatedInputTokens = Some 100, rq_requiredOutputTokens = Some 100,
     rq_failureSignals = \<lparr>fs_repeatedDistinctFailures = 0, fs_loopDetected = False, fs_unresolvedAmbiguity = False,
       fs_failedArchitectureReview = False, fs_explicitReasons = []\<rparr>,
     rq_allowExperimental = False, rq_preferredCapabilityClass = Some Balanced, rq_blockedProviderIds = []\<rparr>"

definition modelRequest :: "modelProfileRegistry \<Rightarrow> modelRoutingInput" where
  "modelRequest R = \<lparr>mi_workOrder = demoWorkOrder, mi_projectId = None, mi_registry = R, mi_runtime = demoRuntime,
     mi_contextPack = None, mi_changeDigest = None, mi_previousPlan = None, mi_options = demoOptions\<rparr>"

lemma modelRequest_routed:
  "mr_schemaVersion R = ''0.8.0'' \<Longrightarrow> routeModel plain_host (modelRequest R) = Inr (modelPlanOf plain_host (modelRequest R))"
  by (simp add: routeModel_def modelRequest_def demoRuntime_def MODEL_ROUTING_SCHEMA_VERSION_def ensure_def)

lemma demo_routed: "routeModel plain_host (modelRequest demoModels) = Inr (modelPlanOf plain_host (modelRequest demoModels))"
  by (rule modelRequest_routed) (simp add: demoModels_def)

lemma demo_distinct: "distinctProfileIds (mi_registry (modelRequest demoModels))"
  by (simp add: distinctProfileIds_def modelRequest_def demoModels_def demoModel_def)

lemma demo_capabilities: "requiredCapabilitiesOf demoWorkOrder = [ModelSelection]"
  by code_simp

lemma demo_floor: "qualityFloorFor demoWorkOrder = (Balanced, [])"
  by code_simp

lemma demo_tier: "currentTierOf (modelRequest R) = Balanced"
  by (simp add: currentTierOf_def requiredClassOf_def demo_floor modelRequest_def priorTierOf_def demoOptions_def
      escalatedClass_def escalationCountOf_def)

lemma demo_tokens:
  "mq_estimatedInputTokens (requirementsOf (modelRequest R)) = 100"
  "mq_requiredOutputTokens (requirementsOf (modelRequest R)) = 100"
  by (simp_all add: requirementsOf_def deriveModelRequirements_def Let_def modelRequest_def demoOptions_def
      estimatedTokensOf_def outputTokensOf_def)

lemma modelRequest_simps [simp]:
  "mi_workOrder (modelRequest R) = demoWorkOrder" "mi_runtime (modelRequest R) = demoRuntime"
  "mi_registry (modelRequest R) = R" "mi_options (modelRequest R) = demoOptions"
  by (simp_all add: modelRequest_def)

lemma demo_effective: "effectiveCapability p demoRuntime ModelSelection"
  by (simp add: effectiveCapability_def capabilityOwnershipOf_def HOST_RUNTIME_ONLY_CAPABILITIES_def
      ROUTER_RUNTIME_CONTROL_CAPABILITIES_def demoRuntime_def)

lemma demo_acceptable:
  "acceptable (demoModel i s c r) (modelRequest R) \<longleftrightarrow> s = ModelEnabled \<and> 1 \<le> capabilityRank c \<and> 1 \<le> reasoningRank r"
  unfolding acceptable_def Let_def demo_tier demo_tokens requirementsOf_simps modelRequest_simps demo_capabilities
  by (cases s) (auto simp: demo_effective demoModel_def demoOptions_def demoRuntime_def [THEN arg_cong, of rs_confidence]
      demoWorkOrder_def demoBudget_def)

lemma demo_selection:
  "selectedModel plain_host (modelRequest demoModels) \<noteq> None"
proof -
  have "demoModel ''large'' ModelEnabled Strong Deep \<in> set (eligibleModels plain_host (modelRequest demoModels))"
    unfolding eligible_models_iff [OF demo_distinct] by (simp add: demo_acceptable) (simp add: demoModels_def)
  then show ?thesis
    by (cases "eligibleModels plain_host (modelRequest demoModels)") (auto simp: selectedModel_def hostManagedRouting_def)
qed

theorem selected_model_sound_witness:
  "\<exists>P. routeModel plain_host (modelRequest demoModels) = Inr P \<and> mx_selectedProfileId P = Some ''medium''
     \<and> mx_status P = RoutingSelected \<and> ''large'' \<in> set (mx_fallbackProfileIds P)"
proof -
  let ?P = "modelPlanOf plain_host (modelRequest demoModels)"
  let ?medium = "demoModel ''medium'' ModelEnabled Balanced Standard"
  let ?large = "demoModel ''large'' ModelEnabled Strong Deep"
  obtain i where i: "mx_selectedProfileId ?P = Some i"
    using demo_selection by (auto simp: modelPlanOf_def Let_def)
  obtain p where p: "p \<in> set (mr_profiles demoModels)" "mp_profileId p = i" "mx_status ?P = RoutingSelected"
      "acceptable p (modelRequest demoModels)"
    and best: "\<forall>q\<in>set (mr_profiles demoModels). acceptable q (modelRequest demoModels) \<longrightarrow>
         compareCandidate plain_host 100 p q \<and> (q \<noteq> p \<longrightarrow> mp_profileId q \<in> set (mx_fallbackProfileIds ?P))"
    using selected_model_sound [OF plain_comparator demo_distinct demo_routed i] unfolding modelRequest_simps demo_tokens by blast
  have "compareCandidate plain_host 100 p ?medium"
    using best by (simp add: demoModels_def demo_acceptable)
  with p(1,4) have pm: "p = ?medium"
    by (auto simp: demoModels_def demo_acceptable compareCandidate_def candidateKey_def demoModel_def)
  have "''large'' \<in> set (mx_fallbackProfileIds ?P)"
    using best pm by (simp add: demoModels_def demo_acceptable) (simp add: demoModel_def)
  with demo_routed p(2,3) pm i show ?thesis by (auto simp: demoModel_def)
qed

theorem tier_never_lowered_witness:
  "\<exists>P. routeModel plain_host (modelRequest demoModels) = Inr P
     \<and> capabilityRank Balanced \<le> capabilityRank (mx_requiredCapabilityClass P)"
proof (intro exI conjI)
  have "tb_capabilityClass (wo_tokenBudget demoWorkOrder) = Balanced" by (simp add: demoWorkOrder_def demoBudget_def)
  then show "capabilityRank Balanced \<le> capabilityRank (mx_requiredCapabilityClass (modelPlanOf plain_host (modelRequest demoModels)))"
    using tier_never_lowered [OF demo_routed demo_distinct] by (simp only: Let_def modelRequest_simps)
qed (rule demo_routed)

text \<open>With only a disabled profile nothing is eligible, and routing is blocked.\<close>

definition disabledModels :: modelProfileRegistry where
  "disabledModels = \<lparr>mr_schemaVersion = ''0.8.0'', mr_profiles = [demoModel ''off'' ModelDisabled Critical Deep],
     mr_registryDigest = ''rd''\<rparr>"

theorem routing_blocked_witness:
  "\<exists>P. routeModel plain_host (modelRequest disabledModels) = Inr P \<and> mx_status P = RoutingBlocked
     \<and> mx_blockedReason P = Some ''NO_ELIGIBLE_MODEL''"
proof -
  have routed: "routeModel plain_host (modelRequest disabledModels) = Inr (modelPlanOf plain_host (modelRequest disabledModels))"
    by (rule modelRequest_routed) (simp add: disabledModels_def)
  have "distinctProfileIds (mi_registry (modelRequest disabledModels))"
    by (simp add: distinctProfileIds_def disabledModels_def)
  from routing_blocked_iff [OF routed this] routed show ?thesis
    by (auto simp: disabledModels_def demo_acceptable)
qed

end
