(* ===== verification/Impact.thy ===== *)
theory Impact
  imports Json_Decode Intelligence_Types Safe_Path Sidecar_Store
begin

text \<open>
  \<^verbatim>\<open>src/kernel/impact.ts\<close>: which files of the indexed repository a change may concern. Seeds are
  resolved against the index; the radius adds local neighbours, a breadth-first search over the
  dependency graph in both directions up to a number of hops, and whole folders. The items are a
  map in insertion order; an item is replaced only by one with fewer hops.
\<close>

section \<open>Radius and seeds\<close>

fun isCodeDep :: "edgeType \<Rightarrow> bool" where
  "isCodeDep ImportsEdge = True" | "isCodeDep RequiresEdge = True" | "isCodeDep DynamicImportEdge = True"
| "isCodeDep _ = False"

fun isStructural :: "edgeType \<Rightarrow> bool" where
  "isStructural DocumentsEdge = True" | "isStructural ConfiguresEdge = True" | "isStructural ManifestReferenceEdge = True"
| "isStructural _ = False"

definition edge_text :: "edgeType \<Rightarrow> string" where
  "edge_text e = (case e of ImportsEdge \<Rightarrow> ''imports'' | RequiresEdge \<Rightarrow> ''requires'' | DynamicImportEdge \<Rightarrow> ''dynamic-import''
     | TestOfEdge \<Rightarrow> ''test-of'' | ConfiguresEdge \<Rightarrow> ''configures'' | DocumentsEdge \<Rightarrow> ''documents''
     | InterfaceReferenceEdge \<Rightarrow> ''interface-reference'' | ManifestReferenceEdge \<Rightarrow> ''manifest-reference'')"

definition reverseStructuralRelation :: "edgeType \<Rightarrow> impactRelation" where
  "reverseStructuralRelation e = (if e = DocumentsEdge then DocumentationImpact else ConfigImpact)"

text \<open>\<open>depHops\<close> is -1 at radius C0, where not even the seeds are reported.\<close>

record radiusLimits =
  rl_depHops :: int
  rl_includeLocal :: bool
  rl_includeAll :: bool

fun hopsForRadius :: "contextRadius \<Rightarrow> radiusLimits" where
  "hopsForRadius C0 = \<lparr>rl_depHops = -1, rl_includeLocal = False, rl_includeAll = False\<rparr>"
| "hopsForRadius C1 = \<lparr>rl_depHops = 0, rl_includeLocal = False, rl_includeAll = False\<rparr>"
| "hopsForRadius C2 = \<lparr>rl_depHops = 0, rl_includeLocal = True, rl_includeAll = False\<rparr>"
| "hopsForRadius C3 = \<lparr>rl_depHops = 1, rl_includeLocal = True, rl_includeAll = False\<rparr>"
| "hopsForRadius C4 = \<lparr>rl_depHops = 2, rl_includeLocal = True, rl_includeAll = False\<rparr>"
| "hopsForRadius C5 = \<lparr>rl_depHops = 99, rl_includeLocal = True, rl_includeAll = True\<rparr>"

definition sortedPaths :: "'h host_scheme \<Rightarrow> string list \<Rightarrow> string list" where
  "sortedPaths H xs = sort_with (locale_le H) (dedup xs)"

definition normalizeSeedPaths :: "'h host_scheme \<Rightarrow> string list \<Rightarrow> string list res" where
  "normalizeSeedPaths H values =
    bindR (mapR (\<lambda>v. case assertSafeRelativeProjectPath v of Some p \<Rightarrow> Inr p
                   | None \<Rightarrow> refuse (''unsafe impact path rejected: '' @ v)) values) (\<lambda>out. Inr (sortedPaths H out))"

text \<open>What one requested prefix gives: the seeds it names and its exclusion.\<close>

definition seedsOfPrefix :: "string list \<Rightarrow> string \<Rightarrow> string list \<times> (string \<times> string) list" where
  "seedsOfPrefix indexed raw =
    (case assertSafeRelativeProjectPath raw of
       None \<Rightarrow> ([], [(raw, ''unsafe path rejected'')])
     | Some safe \<Rightarrow>
         if safe \<in> set indexed then ([safe], [])
         else (let found = filter (\<lambda>p. p = safe \<or> starts_with (safe @ ''/'') p) indexed
               in (found, if found = [] then [(safe, ''not in current index'')] else [])))"

definition resolveSeeds :: "'h host_scheme \<Rightarrow> string list \<Rightarrow> string list \<Rightarrow> string list \<Rightarrow> string list \<times> (string \<times> string) list" where
  "resolveSeeds H requested affectedAreas indexed =
    (let parts = map (seedsOfPrefix indexed) (requested @ affectedAreas)
     in (sortedPaths H (concat (map fst parts)), concat (map snd parts)))"

section \<open>Items\<close>

type_synonym impactItems = "(string \<times> impactItem) list"

definition addItem :: "impactItem \<Rightarrow> impactItems \<Rightarrow> impactItems" where
  "addItem item items = (case map_of items (im_path item) of
     None \<Rightarrow> items @ [(im_path item, item)]
   | Some current \<Rightarrow> if im_hops item < im_hops current then write_entry (im_path item) item items else items)"

definition mkItem :: "string \<Rightarrow> impactRelation \<Rightarrow> string \<Rightarrow> rat \<Rightarrow> nat \<Rightarrow> impactItem" where
  "mkItem p relation reason confidence hops =
    \<lparr>im_path = p, im_relation = relation, im_reason = reason, im_confidence = confidence, im_hops = hops\<rparr>"

definition dirOf :: "string \<Rightarrow> string" where
  "dirOf p = (if CHR ''/'' \<in> set p then rev (tl (dropWhile (\<lambda>c. c \<noteq> CHR ''/'') (rev p))) else [])"

definition sameDir :: "string \<Rightarrow> string \<Rightarrow> bool" where
  "sameDir a b \<longleftrightarrow> dirOf a = dirOf b"

definition topFolder :: "string \<Rightarrow> string" where
  "topFolder p = hd (split_on (CHR ''/'') p)"

definition reverseReason :: "graphEdge \<Rightarrow> string" where
  "reverseReason e = ''reverse '' @ edge_text (ge_type e) @ '' from '' @ ge_source e @ '' ('' @ ge_method e @ '')''"

text \<open>The items a seed contributes locally: its edges, its directory, its contracts.\<close>

definition edgeItems :: "string \<Rightarrow> graphEdge \<Rightarrow> impactItem list" where
  "edgeItems seed e =
    (if ge_type e = TestOfEdge \<and> ge_target e = seed
     then [mkItem (ge_source e) TestImpact ''focused test related to seed (not a sufficiency claim)'' (ge_confidence e) 0] else [])
    @ (if ge_type e = InterfaceReferenceEdge \<and> (ge_source e = seed \<or> ge_target e = seed)
       then [mkItem (if ge_source e = seed then ge_target e else ge_source e) InterfaceImpact ''connected explicit contract''
               (ge_confidence e) 0] else [])
    @ (if isStructural (ge_type e) \<and> ge_target e = seed
       then [mkItem (ge_source e) (reverseStructuralRelation (ge_type e)) (reverseReason e) (ge_confidence e) 0] else [])"

definition neighbourItems :: "string \<Rightarrow> graphNode \<Rightarrow> impactItem list" where
  "neighbourItems seed n =
    (if gn_path n \<noteq> seed \<and> sameDir (gn_path n) seed
        \<and> (gn_kind n = SourceFile \<or> gn_kind n = TestFile \<or> gn_kind n = SchemaFile)
     then [mkItem (gn_path n) (if gn_kind n = TestFile then TestImpact else if gn_kind n = SchemaFile then InterfaceImpact
             else DirectImpact) ''owning/local module neighbor'' (45 / 100) 0] else [])"

definition contractItems :: "string \<Rightarrow> interfaceContract \<Rightarrow> impactItem list" where
  "contractItems seed c =
    (if sameDir (ic_path c) seed \<or> ic_path c = seed
     then [mkItem (ic_path c) (if ic_kind c = ''config'' then ConfigImpact else InterfaceImpact) (ic_evidence c) (ic_confidence c) 0]
     else [])"

definition localItems :: "indexBundle \<Rightarrow> string \<Rightarrow> impactItem list" where
  "localItems B seed = concat (map (edgeItems seed) (dg_edges (ib_graph B)))
     @ concat (map (neighbourItems seed) (dg_nodes (ib_graph B)))
     @ concat (map (contractItems seed) (ib_interfaces B))"

section \<open>The search\<close>

record impactSearch =
  qs_queue :: "(string \<times> nat) list"
  qs_visited :: "string list"
  qs_items :: impactItems

definition followed :: "graphEdge \<Rightarrow> bool" where
  "followed e \<longleftrightarrow> isCodeDep (ge_type e) \<or> isStructural (ge_type e)"

definition forwardRelation :: "edgeType \<Rightarrow> impactRelation" where
  "forwardRelation e = (if e = DocumentsEdge then DocumentationImpact
     else if e = ConfiguresEdge \<or> e = ManifestReferenceEdge then ConfigImpact else DependencyImpact)"

definition backwardRelation :: "edgeType \<Rightarrow> impactRelation" where
  "backwardRelation e = (if isStructural e then reverseStructuralRelation e else DependentImpact)"

text \<open>A node that the search meets at \<open>hops\<close> hops, unless it was met before.\<close>

definition visit :: "string \<Rightarrow> nat \<Rightarrow> impactItem \<Rightarrow> impactSearch \<Rightarrow> impactSearch" where
  "visit p hops item s =
    (if p \<in> set (qs_visited s) then s
     else s\<lparr>qs_queue := qs_queue s @ [(p, hops)], qs_visited := p # qs_visited s, qs_items := addItem item (qs_items s)\<rparr>)"

definition visitOut :: "nat \<Rightarrow> graphEdge \<Rightarrow> impactSearch \<Rightarrow> impactSearch" where
  "visitOut hops e = visit (ge_target e) hops (mkItem (ge_target e) (forwardRelation (ge_type e))
     (edge_text (ge_type e) @ '' from '' @ ge_source e @ '' ('' @ ge_method e @ '')'') (ge_confidence e) hops)"

definition visitIn :: "nat \<Rightarrow> graphEdge \<Rightarrow> impactSearch \<Rightarrow> impactSearch" where
  "visitIn hops e = visit (ge_source e) hops (mkItem (ge_source e) (backwardRelation (ge_type e)) (reverseReason e)
     (ge_confidence e) hops)"

definition neighbours_out :: "indexBundle \<Rightarrow> string \<Rightarrow> graphEdge list" where
  "neighbours_out B p = filter (\<lambda>e. ge_source e = p \<and> followed e) (dg_edges (ib_graph B))"

definition neighbours_in :: "indexBundle \<Rightarrow> string \<Rightarrow> graphEdge list" where
  "neighbours_in B p = filter (\<lambda>e. ge_target e = p \<and> followed e) (dg_edges (ib_graph B))"

text \<open>One round of the loop, on a queue with the given head.\<close>

definition expandNode :: "indexBundle \<Rightarrow> string \<Rightarrow> nat \<Rightarrow> impactSearch \<Rightarrow> impactSearch" where
  "expandNode B p hops s = fold (visitIn (Suc hops)) (neighbours_in B p) (fold (visitOut (Suc hops)) (neighbours_out B p) s)"

definition searchStep :: "indexBundle \<Rightarrow> nat \<Rightarrow> impactSearch \<Rightarrow> impactSearch option" where
  "searchStep B depHops s =
    (case qs_queue s of [] \<Rightarrow> None
     | (p, hops) # rest \<Rightarrow>
         let s' = s\<lparr>qs_queue := rest\<rparr> in Some (if depHops \<le> hops then s' else expandNode B p hops s'))"

text \<open>The endpoints of edges that are not visited yet bound what can still be queued.\<close>

definition endpoints :: "indexBundle \<Rightarrow> string set" where
  "endpoints B = ge_source ` set (dg_edges (ib_graph B)) \<union> ge_target ` set (dg_edges (ib_graph B))"

definition searchSize :: "indexBundle \<Rightarrow> impactSearch \<Rightarrow> nat" where
  "searchSize B s = card (endpoints B - set (qs_visited s)) + length (qs_queue s)"

lemma finite_endpoints [simp]: "finite (endpoints B)"
  by (simp add: endpoints_def)

lemma visit_size:
  assumes "p \<in> endpoints B"
  shows "searchSize B (visit p hops item s) = searchSize B s"
proof (cases "p \<in> set (qs_visited s)")
  case False
  let ?open = "endpoints B - set (qs_visited s)"
  have "Suc (card (?open - {p})) = card ?open"
    using assms False by (intro card_Suc_Diff1) auto
  moreover have "?open - {p} = endpoints B - set (p # qs_visited s)" by auto
  ultimately show ?thesis using False by (simp add: visit_def searchSize_def)
qed (simp add: visit_def)

lemma fold_keeps_size:
  assumes "\<And>e s. e \<in> set es \<Longrightarrow> searchSize B (f e s) = searchSize B s"
  shows "searchSize B (fold f es s) = searchSize B s"
  using assms by (induction es arbitrary: s) auto

lemma expandNode_size: "searchSize B (expandNode B p hops s) = searchSize B s"
  unfolding expandNode_def
  by (subst fold_keeps_size, (auto simp: visitIn_def neighbours_in_def endpoints_def intro!: visit_size) [])+
     (subst fold_keeps_size, auto simp: visitOut_def neighbours_out_def endpoints_def intro!: visit_size)

lemma searchStep_size: "searchStep B n s = Some t \<Longrightarrow> searchSize B t < searchSize B s"
  by (auto simp: searchStep_def Let_def expandNode_size split: list.splits if_splits) (simp_all add: searchSize_def)

function searchLoop :: "indexBundle \<Rightarrow> nat \<Rightarrow> impactSearch \<Rightarrow> impactSearch" where
  "searchLoop B n s = (case searchStep B n s of None \<Rightarrow> s | Some t \<Rightarrow> searchLoop B n t)"
  by pat_completeness auto

termination
  by (relation "measure (\<lambda>(B, n, s). searchSize B s)") (auto intro: searchStep_size)

declare searchLoop.simps [simp del]

end
