(* ===== verification/Impact_Report.thy ===== *)
theory Impact_Report
  imports Impact
begin

text \<open>
  \<open>analyzeImpact\<close> of \<^verbatim>\<open>src/kernel/impact.ts\<close> and the context pack of
  \<^verbatim>\<open>src/kernel/context-pack.ts\<close>, composed from the parts of theory \<open>Impact\<close>.
\<close>

section \<open>The impact report\<close>

record impactRequest =
  iq_projectId :: string
  iq_workOrderId :: "string option"
  iq_executionRunId :: "string option"
  iq_radius :: contextRadius
  iq_requestedPaths :: "string list"
  iq_affectedAreas :: "string list"
  iq_approveC5 :: bool

definition indexedPaths :: "indexBundle \<Rightarrow> string list" where
  "indexedPaths B = dedup (map gn_path (dg_nodes (ib_graph B)))"

definition addAll :: "impactItem list \<Rightarrow> impactItems \<Rightarrow> impactItems" where
  "addAll is items = fold addItem is items"

definition addAbsent :: "impactItem list \<Rightarrow> impactItems \<Rightarrow> impactItems" where
  "addAbsent is items = fold (\<lambda>i acc. if map_of acc (im_path i) = None then addItem i acc else acc) is items"

definition seedItems :: "contextRadius \<Rightarrow> string list \<Rightarrow> impactItem list" where
  "seedItems r seeds = (if 0 \<le> rl_depHops (hopsForRadius r)
     then map (\<lambda>s. mkItem s DirectImpact ''directly named or changed file'' 1 0) seeds else [])"

definition localPart :: "indexBundle \<Rightarrow> contextRadius \<Rightarrow> string list \<Rightarrow> impactItem list" where
  "localPart B r seeds = (if rl_includeLocal (hopsForRadius r) then concat (map (localItems B) seeds) else [])"

definition searchItems :: "indexBundle \<Rightarrow> contextRadius \<Rightarrow> string list \<Rightarrow> impactItems \<Rightarrow> impactItems" where
  "searchItems B r seeds items = (if 0 < rl_depHops (hopsForRadius r)
     then qs_items (searchLoop B (nat (rl_depHops (hopsForRadius r)))
       \<lparr>qs_queue = map (\<lambda>s. (s, 0)) seeds, qs_visited = seeds, qs_items = items\<rparr>) else items)"

definition widePart :: "indexBundle \<Rightarrow> contextRadius \<Rightarrow> string list \<Rightarrow> impactItem list" where
  "widePart B r seeds =
    (let nodes = map gn_path (dg_nodes (ib_graph B)) in
     if rl_includeAll (hopsForRadius r)
     then map (\<lambda>p. mkItem p DependentImpact ''C5 repository-wide inclusion after explicit approval'' (3 / 10) 3) nodes
     else if r = C4
     then concat (map (\<lambda>s. map (\<lambda>p. mkItem p DependentImpact ''connected subsystem folder at C4'' (35 / 100) 2)
            (filter (\<lambda>p. topFolder p = topFolder s) nodes)) seeds)
     else [])"

definition impactItemsOf :: "indexBundle \<Rightarrow> contextRadius \<Rightarrow> string list \<Rightarrow> impactItems" where
  "impactItemsOf B r seeds =
     addAbsent (widePart B r seeds) (searchItems B r seeds (addAll (localPart B r seeds) (addAll (seedItems r seeds) [])))"

definition sortedItems :: "'h host_scheme \<Rightarrow> impactItems \<Rightarrow> impactItem list" where
  "sortedItems H items = sort_with (\<lambda>a b. locale_le H (im_path a) (im_path b)) (map snd items)"

definition unresolvedOf :: "'h host_scheme \<Rightarrow> indexBundle \<Rightarrow> string list \<Rightarrow> impactItems \<Rightarrow> unresolvedReference list" where
  "unresolvedOf H B seeds items =
     sort_with (\<lambda>a b. locale_le H (ur_source a @ [CHR 0x00] @ ur_specifier a) (ur_source b @ [CHR 0x00] @ ur_specifier b))
       (filter (\<lambda>u. ur_source u \<in> set seeds \<or> map_of items (ur_source u) \<noteq> None) (dg_unresolved (ib_graph B)))"

definition isDirect :: "impactItem \<Rightarrow> bool" where
  "isDirect i \<longleftrightarrow> im_relation i = DirectImpact"

definition reportOf ::
  "'h host_scheme \<Rightarrow> string \<Rightarrow> indexBundle \<Rightarrow> impactRequest \<Rightarrow> string list \<Rightarrow> (string \<times> string) list \<Rightarrow> impactReport" where
  "reportOf H now B q seeds excluded =
    (let items = impactItemsOf B (iq_radius q) seeds; sorted = sortedItems H items; st = ib_state B in
     \<lparr>ip_impactReportId = newPrefixedId H ''imp'' (join_with '':'' [iq_projectId q, or_empty (iq_workOrderId q),
        is_indexDigest st, radius_text (iq_radius q), join_with '','' seeds]),
      ip_projectId = iq_projectId q, ip_workOrderId = iq_workOrderId q, ip_executionRunId = iq_executionRunId q,
      ip_indexDigest = is_indexDigest st, ip_gitHead = is_gitHead st, ip_dirtyDigest = is_dirtyDigest st,
      ip_generatedAt = now, ip_contextRadius = iq_radius q, ip_seeds = seeds,
      ip_inScopeCandidates = filter isDirect sorted,
      ip_supportingContext = filter (\<lambda>i. \<not> isDirect i \<and> im_hops i < 2) sorted,
      ip_possibleImpact = filter (\<lambda>i. \<not> isDirect i \<and> 2 \<le> im_hops i) sorted,
      ip_excluded = excluded, ip_unresolved = unresolvedOf H B seeds items, ip_stale = False,
      ip_indexConfidence = is_confidence st\<rparr>)"

definition incompleteIndex :: "indexBundle \<Rightarrow> bool" where
  "incompleteIndex B \<longleftrightarrow> \<not> is_complete (ib_state B) \<or> is_truncated (ib_state B)"

definition analyzeImpact :: "'h host_scheme \<Rightarrow> string \<Rightarrow> indexBundle \<Rightarrow> impactRequest \<Rightarrow> impactReport res" where
  "analyzeImpact H now B q =
    bindR (ensure (is_projectId (ib_state B) = iq_projectId q) ''cross-project index artifact rejected'') (\<lambda>_.
    bindR (ensure (\<not> incompleteIndex B) (case is_truncationReason (ib_state B) of Some m \<Rightarrow> m
             | None \<Rightarrow> ''index is incomplete and cannot drive impact analysis'')) (\<lambda>_.
    bindR (ensure (iq_radius q \<noteq> C5 \<or> iq_approveC5 q) ''C5 is exceptional and blocked by default'') (\<lambda>_.
    bindR (normalizeSeedPaths H (iq_requestedPaths q)) (\<lambda>requested.
      let resolved = resolveSeeds H requested (iq_affectedAreas q) (indexedPaths B)
      in Inr (reportOf H now B q (fst resolved) (snd resolved))))))"

section \<open>The context pack\<close>

text \<open>\<open>Math.ceil(bytes / 4)\<close>\<close>

definition estimateTokensFromBytes :: "nat \<Rightarrow> nat" where
  "estimateTokensFromBytes bytes = (bytes + 3) div 4"

definition roleFor :: "impactRelation \<Rightarrow> string \<Rightarrow> contextRole" where
  "roleFor relation p =
    (if relation = TestImpact \<or> includes_text ''.test.'' p \<or> includes_text ''/tests/'' p then TestCtx
     else if relation = InterfaceImpact \<or> includes_text ''/schemas/'' p then ContractCtx
     else if relation = DocumentationImpact \<or> ends_with ''.md'' p then DocsCtx
     else if relation = ConfigImpact \<or> ends_with ''.json'' p \<or> ends_with ''.yml'' p then ConfigCtx
     else if includes_text ''security'' (to_lower p) then SecurityCtx
     else if relation = DependentImpact then ReviewCtx
     else ImplementationCtx)"

definition layerFor :: "impactItem \<Rightarrow> contextLayer" where
  "layerFor i =
    (if starts_with ''docs/'' (im_path i) \<or> im_path i = ''README.md'' then StaticLayer
     else if im_relation i = InterfaceImpact \<or> im_relation i = ConfigImpact \<or> includes_text ''/schemas/'' (im_path i)
     then SemiStableLayer else DynamicLayer)"

fun layerRank :: "contextLayer \<Rightarrow> nat" where
  "layerRank StaticLayer = 0" | "layerRank SemiStableLayer = 1" | "layerRank DynamicLayer = 2"

definition layer_text :: "contextLayer \<Rightarrow> string" where
  "layer_text l = (case l of StaticLayer \<Rightarrow> ''static'' | SemiStableLayer \<Rightarrow> ''semi-stable'' | DynamicLayer \<Rightarrow> ''dynamic'')"

definition computeLayerDigest :: "'h host_scheme \<Rightarrow> contextPackItem list \<Rightarrow> contextLayer \<Rightarrow> string" where
  "computeLayerDigest H items layer =
    (let text = join_with ''|'' (sort_with (locale_le H)
           (map (\<lambda>i. ck_path i @ '':'' @ ck_contentDigest i) (filter (\<lambda>i. ck_layer i = layer) items)))
     in sha256Hex H (if text = [] then layer_text layer else text))"

definition itemsForRole :: "contextPack \<Rightarrow> contextRole \<Rightarrow> contextPackItem list" where
  "itemsForRole p r = filter (\<lambda>i. ck_role i = r) (cx_items p)"

text \<open>\<open>new Map(files.map(...))\<close>: the last record of a path wins.\<close>

definition fileByPath :: "indexBundle \<Rightarrow> string \<Rightarrow> indexedFileRecord option" where
  "fileByPath B = map_of (rev (map (\<lambda>f. (if_path f, f)) (is_files (ib_state B))))"

definition packItem :: "indexBundle \<Rightarrow> impactItem \<Rightarrow> contextPackItem option" where
  "packItem B i = (case fileByPath B (im_path i) of None \<Rightarrow> None
     | Some f \<Rightarrow> Some \<lparr>ck_path = im_path i, ck_role = roleFor (im_relation i) (im_path i), ck_relation = im_relation i,
         ck_reason = im_reason i, ck_confidence = im_confidence i, ck_contentDigest = if_contentDigest f,
         ck_estimatedTokens = estimateTokensFromBytes (if_bytes f), ck_layer = layerFor i\<rparr>)"

definition packItem_le :: "'h host_scheme \<Rightarrow> contextPackItem \<Rightarrow> contextPackItem \<Rightarrow> bool" where
  "packItem_le H a b \<longleftrightarrow> (if layerRank (ck_layer a) \<noteq> layerRank (ck_layer b) then layerRank (ck_layer a) < layerRank (ck_layer b)
     else locale_le H (ck_path a) (ck_path b))"

definition packItems :: "'h host_scheme \<Rightarrow> indexBundle \<Rightarrow> impactReport \<Rightarrow> contextPackItem list" where
  "packItems H B r = sort_with (packItem_le H) (List.map_filter (packItem B)
     (ip_inScopeCandidates r @ ip_supportingContext r @ ip_possibleImpact r))"

definition rolePaths :: "contextPackItem list \<Rightarrow> contextRole \<Rightarrow> string list" where
  "rolePaths items r = dedup (map ck_path (filter (\<lambda>i. ck_role i = r) items))"

record packRequest =
  pq_projectId :: string
  pq_workOrderId :: "string option"
  pq_executionRunId :: "string option"
  pq_radius :: contextRadius
  pq_objective :: "string option"
  pq_expansionHistory :: "packExpansion list"

definition packOf :: "'h host_scheme \<Rightarrow> string \<Rightarrow> indexBundle \<Rightarrow> impactReport \<Rightarrow> packRequest \<Rightarrow> contextPack" where
  "packOf H now B r q =
    (let items = packItems H B r; st = ib_state B in
     \<lparr>cx_contextPackId = newPrefixedId H ''cpk'' (join_with '':'' [pq_projectId q, or_empty (pq_workOrderId q),
        ip_impactReportId r, radius_text (pq_radius q)]),
      cx_projectId = pq_projectId q, cx_workOrderId = pq_workOrderId q, cx_executionRunId = pq_executionRunId q,
      cx_impactReportId = ip_impactReportId r, cx_indexDigest = is_indexDigest st, cx_gitHead = is_gitHead st,
      cx_dirtyDigest = is_dirtyDigest st, cx_generatedAt = now, cx_contextRadius = pq_radius q, cx_objective = pq_objective q,
      cx_estimatedTokens = sum_list (map ck_estimatedTokens items), cx_items = items,
      cx_focusedTests = rolePaths items TestCtx, cx_contracts = rolePaths items ContractCtx, cx_docs = rolePaths items DocsCtx,
      cx_unresolved = ip_unresolved r, cx_excludedSummary = ip_excluded r, cx_expansionHistory = pq_expansionHistory q,
      cx_staticLayerDigest = computeLayerDigest H items StaticLayer,
      cx_semiStableLayerDigest = computeLayerDigest H items SemiStableLayer,
      cx_dynamicLayerDigest = computeLayerDigest H items DynamicLayer\<rparr>)"

definition buildContextPack :: "'h host_scheme \<Rightarrow> string \<Rightarrow> indexBundle \<Rightarrow> impactReport \<Rightarrow> packRequest \<Rightarrow> contextPack res" where
  "buildContextPack H now B r q =
    bindR (ensure (ip_projectId r = pq_projectId q \<and> is_projectId (ib_state B) = pq_projectId q)
             ''cross-project Context Pack rejected'') (\<lambda>_.
    bindR (ensure (\<not> (truthy (pq_workOrderId q) \<and> truthy (ip_workOrderId r) \<and> ip_workOrderId r \<noteq> pq_workOrderId q))
             ''cross-work-order Context Pack rejected'') (\<lambda>_.
    bindR (ensure (ip_indexDigest r = is_indexDigest (ib_state B)) ''stale impact report rejected'') (\<lambda>_.
    Inr (packOf H now B r q))))"

end
