(* ===== verification/Impact_Properties.thy ===== *)
theory Impact_Properties
  imports Impact_Report
begin

text \<open>
  Correctness of the impact analysis: the search visits exactly the files within the given number
  of hops of a seed, the paths of a report are characterised per radius, and a wider radius never
  loses a path.
\<close>

section \<open>The files within some hops\<close>

definition adjacent :: "indexBundle \<Rightarrow> string \<Rightarrow> string set" where
  "adjacent B p = ge_target ` set (neighbours_out B p) \<union> ge_source ` set (neighbours_in B p)"

fun nearby :: "indexBundle \<Rightarrow> string set \<Rightarrow> nat \<Rightarrow> string set" where
  "nearby B S 0 = S"
| "nearby B S (Suc n) = nearby B S n \<union> (\<Union>p\<in>nearby B S n. adjacent B p)"

lemma nearby_mono: "m \<le> n \<Longrightarrow> nearby B S m \<subseteq> nearby B S n"
  by (induction n) (auto simp: le_Suc_eq)

lemma nearby_closed: "\<forall>p\<in>nearby B S m. adjacent B p \<subseteq> nearby B S m \<Longrightarrow> m \<le> n \<Longrightarrow> nearby B S n = nearby B S m"
  by (induction n) (auto simp: le_Suc_eq)

section \<open>Paths of items\<close>

definition itemPaths :: "impactItems \<Rightarrow> string set" where
  "itemPaths items = fst ` set items"

lemma itemPaths_map_of: "map_of items p \<noteq> None \<longleftrightarrow> p \<in> itemPaths items"
  by (simp add: itemPaths_def map_of_eq_None_iff)

lemma itemPaths_add [simp]: "itemPaths (addItem i items) = insert (im_path i) (itemPaths items)"
proof (cases "map_of items (im_path i)")
  case None
  then show ?thesis by (simp add: addItem_def itemPaths_def)
next
  case (Some c)
  then have "im_path i \<in> itemPaths items" using itemPaths_map_of [of items "im_path i"] by simp
  with Some write_entry_names [of "im_path i" i items] show ?thesis
    by (auto simp: addItem_def itemPaths_def)
qed

lemma itemPaths_addAll [simp]: "itemPaths (addAll is items) = im_path ` set is \<union> itemPaths items"
  unfolding addAll_def by (induction "is" arbitrary: items) auto

lemma itemPaths_addAbsent [simp]: "itemPaths (addAbsent is items) = im_path ` set is \<union> itemPaths items"
  unfolding addAbsent_def
proof (induction "is" arbitrary: items)
  case (Cons i "is")
  then show ?case using itemPaths_map_of [of items "im_path i"] by (cases "map_of items (im_path i)") auto
qed simp

definition keyed :: "impactItems \<Rightarrow> bool" where
  "keyed items \<longleftrightarrow> (\<forall>e\<in>set items. im_path (snd e) = fst e)"

lemma write_entry_subset: "set (write_entry n v es) \<subseteq> insert (n, v) (set es)"
  by (induction es) auto

lemma keyed_add: "keyed items \<Longrightarrow> keyed (addItem i items)"
  using write_entry_subset [of "im_path i" i items] by (fastforce simp: keyed_def addItem_def split: option.splits)

lemma keyed_fold: "(\<And>i acc. keyed acc \<Longrightarrow> keyed (f i acc)) \<Longrightarrow> keyed items \<Longrightarrow> keyed (fold f is items)"
  by (induction "is" arbitrary: items) auto

lemma keyed_paths: "keyed items \<Longrightarrow> im_path ` set (map snd items) = itemPaths items"
  by (force simp: keyed_def itemPaths_def image_iff)

lemma mkItem_path [simp]: "im_path (mkItem p r t c h) = p"
  by (simp add: mkItem_def)

section \<open>One round of the search\<close>

lemma visit_fold:
  assumes "\<And>e. im_path (it e) = t e"
  shows "\<exists>news. qs_queue (fold (\<lambda>e. visit (t e) h (it e)) es s) = qs_queue s @ map (\<lambda>x. (x, h)) news
     \<and> set news = t ` set es - set (qs_visited s)
     \<and> set (qs_visited (fold (\<lambda>e. visit (t e) h (it e)) es s)) = set (qs_visited s) \<union> t ` set es
     \<and> itemPaths (qs_items (fold (\<lambda>e. visit (t e) h (it e)) es s)) = itemPaths (qs_items s) \<union> set news
     \<and> (keyed (qs_items s) \<longrightarrow> keyed (qs_items (fold (\<lambda>e. visit (t e) h (it e)) es s)))"
proof (induction es arbitrary: s)
  case Nil
  show ?case by (intro exI [of _ "[]"]) simp
next
  case (Cons e es)
  let ?s = "visit (t e) h (it e) s"
  obtain news where news: "qs_queue (fold (\<lambda>e. visit (t e) h (it e)) es ?s) = qs_queue ?s @ map (\<lambda>x. (x, h)) news"
      "set news = t ` set es - set (qs_visited ?s)"
      "set (qs_visited (fold (\<lambda>e. visit (t e) h (it e)) es ?s)) = set (qs_visited ?s) \<union> t ` set es"
      "itemPaths (qs_items (fold (\<lambda>e. visit (t e) h (it e)) es ?s)) = itemPaths (qs_items ?s) \<union> set news"
      "keyed (qs_items ?s) \<longrightarrow> keyed (qs_items (fold (\<lambda>e. visit (t e) h (it e)) es ?s))"
    using Cons.IH [of ?s] by blast
  show ?case
  proof (cases "t e \<in> set (qs_visited s)")
    case True
    then have "?s = s" by (simp add: visit_def)
    with True news show ?thesis by (intro exI [of _ news]) auto
  next
    case False
    then have v: "qs_queue ?s = qs_queue s @ [(t e, h)]" "set (qs_visited ?s) = insert (t e) (set (qs_visited s))"
        "itemPaths (qs_items ?s) = insert (t e) (itemPaths (qs_items s))" "keyed (qs_items s) \<longrightarrow> keyed (qs_items ?s)"
      by (simp_all add: visit_def assms keyed_add)
    have "set (t e # news) = t ` set (e # es) - set (qs_visited s)" using news(2) v(2) False by auto
    moreover have "insert (t e) (set (qs_visited s)) \<union> t ` set es = set (qs_visited s) \<union> t ` set (e # es)" by auto
    ultimately show ?thesis
      using news(1,3,4,5) v by (intro exI [of _ "t e # news"]) (simp, blast)
  qed
qed

lemma expandNode_effect:
  "\<exists>news. qs_queue (expandNode B p h s) = qs_queue s @ map (\<lambda>x. (x, Suc h)) news
     \<and> set news = adjacent B p - set (qs_visited s)
     \<and> set (qs_visited (expandNode B p h s)) = set (qs_visited s) \<union> adjacent B p
     \<and> itemPaths (qs_items (expandNode B p h s)) = itemPaths (qs_items s) \<union> set news
     \<and> (keyed (qs_items s) \<longrightarrow> keyed (qs_items (expandNode B p h s)))"
proof -
  let ?io = "\<lambda>e. mkItem (ge_target e) (forwardRelation (ge_type e))
     (edge_text (ge_type e) @ '' from '' @ ge_source e @ '' ('' @ ge_method e @ '')'') (ge_confidence e) (Suc h)"
  let ?ii = "\<lambda>e. mkItem (ge_source e) (backwardRelation (ge_type e)) (reverseReason e) (ge_confidence e) (Suc h)"
  let ?s = "fold (visitOut (Suc h)) (neighbours_out B p) s"
  have fs: "visitOut (Suc h) = (\<lambda>e. visit (ge_target e) (Suc h) (?io e))"
      "visitIn (Suc h) = (\<lambda>e. visit (ge_source e) (Suc h) (?ii e))"
    by (simp_all add: fun_eq_iff visitOut_def visitIn_def)
  obtain n1 where n1: "qs_queue ?s = qs_queue s @ map (\<lambda>x. (x, Suc h)) n1"
      "set n1 = ge_target ` set (neighbours_out B p) - set (qs_visited s)"
      "set (qs_visited ?s) = set (qs_visited s) \<union> ge_target ` set (neighbours_out B p)"
      "itemPaths (qs_items ?s) = itemPaths (qs_items s) \<union> set n1" "keyed (qs_items s) \<longrightarrow> keyed (qs_items ?s)"
    using visit_fold [of ?io ge_target "Suc h" "neighbours_out B p" s] unfolding fs by auto
  obtain n2 where n2: "qs_queue (expandNode B p h s) = qs_queue ?s @ map (\<lambda>x. (x, Suc h)) n2"
      "set n2 = ge_source ` set (neighbours_in B p) - set (qs_visited ?s)"
      "set (qs_visited (expandNode B p h s)) = set (qs_visited ?s) \<union> ge_source ` set (neighbours_in B p)"
      "itemPaths (qs_items (expandNode B p h s)) = itemPaths (qs_items ?s) \<union> set n2"
      "keyed (qs_items ?s) \<longrightarrow> keyed (qs_items (expandNode B p h s))"
    using visit_fold [of ?ii ge_source "Suc h" "neighbours_in B p" ?s] unfolding expandNode_def fs by auto
  show ?thesis
    using n1 n2 by (intro exI [of _ "n1 @ n2"]) (auto simp: adjacent_def)
qed

section \<open>The search by levels\<close>

text \<open>
  The queue holds the rest of level \<open>m\<close> and the part of level \<open>m + 1\<close> found so far. Everything within
  \<open>m\<close> hops is visited, and what of it is no longer queued has only visited neighbours.
\<close>

definition level_inv :: "indexBundle \<Rightarrow> string set \<Rightarrow> nat \<Rightarrow> impactItems \<Rightarrow> nat \<Rightarrow> string list \<Rightarrow> string list \<Rightarrow> impactSearch \<Rightarrow> bool" where
  "level_inv B S n items0 m as bs s \<longleftrightarrow> m \<le> n \<and> (m = n \<longrightarrow> bs = [])
     \<and> qs_queue s = map (\<lambda>p. (p, m)) as @ map (\<lambda>p. (p, Suc m)) bs
     \<and> set (qs_visited s) = nearby B S m \<union> set bs \<and> set as \<subseteq> nearby B S m \<and> set bs \<subseteq> nearby B S (Suc m)
     \<and> (\<forall>p\<in>nearby B S m. p \<in> set as \<or> (m < n \<longrightarrow> adjacent B p \<subseteq> set (qs_visited s)))
     \<and> keyed (qs_items s) \<and> itemPaths (qs_items s) = itemPaths items0 \<union> set (qs_visited s)"

lemma level_expand:
  assumes inv: "level_inv B S n items0 m (a # as) bs s" and m: "m < n"
    and queue: "qs_queue t = map (\<lambda>p. (p, m)) as @ map (\<lambda>p. (p, Suc m)) (bs @ news)"
    and news: "set news = adjacent B a - set (qs_visited s)"
    and visited: "set (qs_visited t) = set (qs_visited s) \<union> adjacent B a"
    and paths: "itemPaths (qs_items t) = itemPaths (qs_items s) \<union> set news" and keys: "keyed (qs_items t)"
  shows "level_inv B S n items0 m as (bs @ news) t"
proof -
  note parts = inv [unfolded level_inv_def]
  have as: "set (a # as) \<subseteq> nearby B S m" using parts by blast
  then have a: "a \<in> nearby B S m" by simp
  have vs: "set (qs_visited s) = nearby B S m \<union> set bs" using parts by blast
  have bs: "set bs \<subseteq> nearby B S (Suc m)" using parts by blast
  have old: "\<forall>p\<in>nearby B S m. p \<in> set (a # as) \<or> adjacent B p \<subseteq> set (qs_visited s)" using parts m by blast
  have ips: "itemPaths (qs_items s) = itemPaths items0 \<union> set (qs_visited s)" using parts by blast
  have "set news \<subseteq> nearby B S (Suc m)" using a news by auto
  moreover have "set (qs_visited t) = nearby B S m \<union> set (bs @ news)" using visited vs news by auto
  moreover have "\<forall>p\<in>nearby B S m. p \<in> set as \<or> adjacent B p \<subseteq> set (qs_visited t)" using old visited by auto
  moreover have "itemPaths (qs_items t) = itemPaths items0 \<union> set (qs_visited t)" using ips paths visited news by blast
  ultimately show ?thesis using m queue bs as keys by (simp add: level_inv_def)
qed

lemma level_step:
  assumes inv: "level_inv B S n items0 m (a # as) bs s" and m: "m < n"
  shows "\<exists>bs' t. searchStep B n s = Some t \<and> level_inv B S n items0 m as bs' t"
proof -
  let ?s = "s\<lparr>qs_queue := map (\<lambda>p. (p, m)) as @ map (\<lambda>p. (p, Suc m)) bs\<rparr>"
  obtain news where news: "qs_queue (expandNode B a m ?s) = qs_queue ?s @ map (\<lambda>x. (x, Suc m)) news"
      "set news = adjacent B a - set (qs_visited s)"
      "set (qs_visited (expandNode B a m ?s)) = set (qs_visited s) \<union> adjacent B a"
      "itemPaths (qs_items (expandNode B a m ?s)) = itemPaths (qs_items s) \<union> set news"
      "keyed (qs_items s) \<longrightarrow> keyed (qs_items (expandNode B a m ?s))"
    using expandNode_effect [of B a m ?s] by auto
  have step: "searchStep B n s = Some (expandNode B a m ?s)"
    using inv m by (simp add: searchStep_def level_inv_def)
  have "level_inv B S n items0 m as (bs @ news) (expandNode B a m ?s)"
    by (rule level_expand [OF inv m]) (use news inv in \<open>simp_all add: level_inv_def\<close>)
  with step show ?thesis by blast
qed

lemma level_next:
  assumes inv: "level_inv B S n items0 m [] bs s" and "m < n"
  shows "level_inv B S n items0 (Suc m) bs [] s"
proof -
  have closed: "\<forall>p\<in>nearby B S m. adjacent B p \<subseteq> nearby B S m \<union> set bs"
    using inv assms(2) by (auto simp: level_inv_def)
  have "nearby B S (Suc m) = nearby B S m \<union> set bs"
    using closed inv by (auto simp: level_inv_def)
  with inv assms(2) closed show ?thesis by (auto simp: level_inv_def simp del: nearby.simps)
qed

lemma level_last:
  "level_inv B S n items0 n (a # as) [] s \<Longrightarrow> \<exists>t. searchStep B n s = Some t \<and> level_inv B S n items0 n as [] t"
  by (auto simp: level_inv_def searchStep_def)

lemma level_search:
  "level_inv B S n items0 m as bs s \<Longrightarrow>
     keyed (qs_items (searchLoop B n s)) \<and> itemPaths (qs_items (searchLoop B n s)) = itemPaths items0 \<union> nearby B S n"
proof (induction B n s arbitrary: m as bs rule: searchLoop.induct)
  case (1 B n s)
  note inv = "1.prems"
  have here: "?case" if final: "set (qs_visited s) = nearby B S n" "qs_queue s = []" "level_inv B S n items0 m as bs s"
    using that by (subst (1 2) searchLoop.simps) (simp add: searchStep_def level_inv_def)
  have step: "?case" if "searchStep B n s = Some t" "level_inv B S n items0 m' as' bs' t" for t m' as' bs'
    using "1.IH" [OF that(1) that(2)] that(1) by (subst (1 2) searchLoop.simps) simp
  show ?case
  proof (cases as)
    case (Cons a as')
    show ?thesis
    proof (cases "m < n")
      case True
      with level_step [of B S n items0 m a as' bs s] inv Cons step show ?thesis by blast
    next
      case False
      then have "m = n" "bs = []" using inv by (auto simp: level_inv_def)
      with level_last [of B S n items0 a as' s] inv Cons step show ?thesis by blast
    qed
  next
    case Nil
    show ?thesis
    proof (cases bs)
      case bs: Nil
      have "set (qs_visited s) = nearby B S n"
      proof (cases "m < n")
        case True
        with inv Nil bs have "nearby B S n = nearby B S m"
          by (intro nearby_closed) (auto simp: level_inv_def)
        with inv bs show ?thesis by (simp add: level_inv_def)
      next
        case False
        then show ?thesis using inv bs by (auto simp: level_inv_def)
      qed
      then show ?thesis by (rule here [OF _ _ inv]) (use inv Nil bs in \<open>simp add: level_inv_def\<close>)
    next
      case (Cons b bs')
      then have m: "m < n" using inv by (auto simp: level_inv_def)
      have inv': "level_inv B S n items0 (Suc m) (b # bs') [] s"
        using level_next [OF _ m] inv Nil Cons by simp
      show ?thesis
      proof (cases "Suc m < n")
        case True
        with level_step [OF inv'] step show ?thesis by blast
      next
        case False
        with m have "Suc m = n" by simp
        with level_last [of B S n items0 b bs' s] inv' step show ?thesis by blast
      qed
    qed
  qed
qed

text \<open>The search from a set of seeds finds what lies within the hops, and nothing else.\<close>

lemma search_from_seeds:
  assumes "keyed items" "set seeds \<subseteq> itemPaths items"
    and "s0 = \<lparr>qs_queue = map (\<lambda>s. (s, 0)) seeds, qs_visited = seeds, qs_items = items\<rparr>"
  shows "keyed (qs_items (searchLoop B n s0))
    \<and> itemPaths (qs_items (searchLoop B n s0)) = itemPaths items \<union> nearby B (set seeds) n"
proof -
  have "level_inv B (set seeds) n items 0 seeds [] s0"
    using assms by (auto simp: level_inv_def)
  then show ?thesis by (rule level_search)
qed

section \<open>The paths of a report\<close>

definition localPaths :: "indexBundle \<Rightarrow> string list \<Rightarrow> string set" where
  "localPaths B seeds = im_path ` (\<Union>s\<in>set seeds. set (localItems B s))"

definition folderPaths :: "indexBundle \<Rightarrow> string list \<Rightarrow> string set" where
  "folderPaths B seeds = {p \<in> gn_path ` set (dg_nodes (ib_graph B)). \<exists>s\<in>set seeds. topFolder p = topFolder s}"

fun pathsAt :: "indexBundle \<Rightarrow> string list \<Rightarrow> contextRadius \<Rightarrow> string set" where
  "pathsAt B seeds C0 = {}"
| "pathsAt B seeds C1 = set seeds"
| "pathsAt B seeds C2 = set seeds \<union> localPaths B seeds"
| "pathsAt B seeds C3 = nearby B (set seeds) 1 \<union> localPaths B seeds"
| "pathsAt B seeds C4 = nearby B (set seeds) 2 \<union> localPaths B seeds \<union> folderPaths B seeds"
| "pathsAt B seeds C5 = nearby B (set seeds) 99 \<union> localPaths B seeds \<union> gn_path ` set (dg_nodes (ib_graph B))"

lemma keyed_addAll: "keyed items \<Longrightarrow> keyed (addAll is items)"
  unfolding addAll_def by (rule keyed_fold [OF keyed_add])

lemma keyed_addAbsent: "keyed items \<Longrightarrow> keyed (addAbsent is items)"
  unfolding addAbsent_def by (rule keyed_fold) (simp_all add: keyed_add)

lemma seeds_nearby: "S \<subseteq> nearby B S n"
  using nearby_mono [of 0 n B S] by simp

lemma searchItems_paths:
  assumes "keyed items" "set seeds \<subseteq> itemPaths items"
  shows "keyed (searchItems B r seeds items)
    \<and> itemPaths (searchItems B r seeds items) = itemPaths items
       \<union> (if 0 < rl_depHops (hopsForRadius r) then nearby B (set seeds) (nat (rl_depHops (hopsForRadius r))) else {})"
  using search_from_seeds [OF assms refl] assms(1) by (simp add: searchItems_def)

lemma wide_paths:
  "im_path ` set (widePart B r seeds) = (if r = C5 then gn_path ` set (dg_nodes (ib_graph B))
     else if r = C4 then folderPaths B seeds else {})"
  by (cases r) (auto simp: widePart_def folderPaths_def image_iff)

lemma local_paths: "im_path ` set (localPart B r seeds) = (if rl_includeLocal (hopsForRadius r) then localPaths B seeds else {})"
  by (auto simp: localPart_def localPaths_def)

lemma impactItemsOf_paths:
  "keyed (impactItemsOf B r seeds) \<and> itemPaths (impactItemsOf B r seeds) = pathsAt B seeds r"
proof -
  let ?items = "addAll (localPart B r seeds) (addAll (seedItems r seeds) [])"
  have keys: "keyed ?items" by (intro keyed_addAll) (simp add: keyed_def)
  have start: "itemPaths ?items = (if r = C0 then {} else set seeds)
      \<union> (if rl_includeLocal (hopsForRadius r) then localPaths B seeds else {})"
    by (cases r) (auto simp: local_paths seedItems_def itemPaths_def [of "[]"] image_image)
  have "keyed (searchItems B r seeds ?items) \<and> itemPaths (searchItems B r seeds ?items) = itemPaths ?items
       \<union> (if 0 < rl_depHops (hopsForRadius r) then nearby B (set seeds) (nat (rl_depHops (hopsForRadius r))) else {})"
  proof (cases "r = C0")
    case True
    with keys show ?thesis by (simp add: searchItems_def)
  next
    case False
    show ?thesis by (rule searchItems_paths [OF keys]) (use False start in auto)
  qed
  then show ?thesis
    using seeds_nearby [of "set seeds" B] start
    by (cases r) (auto simp: impactItemsOf_def keyed_addAbsent wide_paths)
qed

lemma pathsAt_mono: "a \<le> b \<Longrightarrow> pathsAt B seeds a \<subseteq> pathsAt B seeds b"
  using seeds_nearby [of "set seeds" B] nearby_mono [of 1 2 B "set seeds"] nearby_mono [of 1 99 B "set seeds"]
    nearby_mono [of 2 99 B "set seeds"]
  by (cases a; cases b) (simp_all add: less_eq_contextRadius_def folderPaths_def del: nearby.simps, (blast | auto)+)

definition reportPaths :: "impactReport \<Rightarrow> string set" where
  "reportPaths r = im_path ` set (ip_inScopeCandidates r @ ip_supportingContext r @ ip_possibleImpact r)"

lemma reportPaths_reportOf: "reportPaths (reportOf H now B q seeds ex) = pathsAt B seeds (iq_radius q)"
proof -
  have "reportPaths (reportOf H now B q seeds ex) = im_path ` set (map snd (impactItemsOf B (iq_radius q) seeds))"
    by (auto simp: reportPaths_def reportOf_def Let_def sortedItems_def)
  then show ?thesis
    using keyed_paths impactItemsOf_paths by metis
qed

definition seedsOf :: "'h host_scheme \<Rightarrow> indexBundle \<Rightarrow> impactRequest \<Rightarrow> string list res" where
  "seedsOf H B q = bindR (normalizeSeedPaths H (iq_requestedPaths q)) (\<lambda>requested.
     Inr (fst (resolveSeeds H requested (iq_affectedAreas q) (indexedPaths B))))"

lemma analyze_result:
  "analyzeImpact H now B q = Inr r \<Longrightarrow> \<exists>ex. seedsOf H B q = Inr (ip_seeds r) \<and> r = reportOf H now B q (ip_seeds r) ex"
  by (auto simp: analyzeImpact_def seedsOf_def Let_def reportOf_def)

lemma set_resolveSeeds: "set (fst (resolveSeeds H requested areas indexed)) \<subseteq> set indexed"
  by (auto simp: resolveSeeds_def Let_def sortedPaths_def seedsOfPrefix_def split: option.splits if_splits)

lemma seedsOf_indexed: "seedsOf H B q = Inr seeds \<Longrightarrow> set seeds \<subseteq> set (indexedPaths B)"
  unfolding seedsOf_def bindR_Inr by (elim exE conjE) (drule Inr_inject, drule sym, simp only: set_resolveSeeds)

text \<open>C12: a report holds, per radius, exactly these paths: none at C0, the seeds at C1, their local
  neighbourhood at C2, the files within one hop of the dependency graph at C3, within two hops and in the
  same top folders at C4, and the whole index at C5; so a wider radius never loses a path.\<close>

theorem impact_report_paths:
  assumes "analyzeImpact H now B q = Inr r"
  shows "reportPaths r = pathsAt B (ip_seeds r) (iq_radius q)
    \<and> set (ip_seeds r) \<subseteq> set (indexedPaths B)
    \<and> (\<forall>C r'. analyzeImpact H now B (q\<lparr>iq_radius := C\<rparr>) = Inr r' \<longrightarrow> iq_radius q \<le> C
         \<longrightarrow> reportPaths r \<subseteq> reportPaths r')"
proof -
  obtain ex where seeds: "seedsOf H B q = Inr (ip_seeds r)" and r: "r = reportOf H now B q (ip_seeds r) ex"
    using analyze_result [OF assms] by blast
  have paths: "reportPaths r = pathsAt B (ip_seeds r) (iq_radius q)"
    by (subst r) (rule reportPaths_reportOf)
  note seedsOf_indexed [OF seeds]
  moreover have "reportPaths r \<subseteq> reportPaths r'"
    if r': "analyzeImpact H now B (q\<lparr>iq_radius := C\<rparr>) = Inr r'" and rank: "iq_radius q \<le> C" for C r'
  proof -
    obtain ex' where "seedsOf H B (q\<lparr>iq_radius := C\<rparr>) = Inr (ip_seeds r')"
        and e: "r' = reportOf H now B (q\<lparr>iq_radius := C\<rparr>) (ip_seeds r') ex'"
      using analyze_result [OF r'] by blast
    then have same: "ip_seeds r' = ip_seeds r" using seeds by (auto simp: seedsOf_def)
    have "reportPaths r' = pathsAt B (ip_seeds r) C"
      by (subst e) (simp add: reportPaths_reportOf same)
    then show ?thesis using paths pathsAt_mono [OF rank] by simp
  qed
  ultimately show ?thesis using paths by blast
qed

section \<open>Context packs\<close>

text \<open>
  Correctness of the context pack: it holds every path of the impact report that the index has a
  file for, once, with the digest and the estimate of that file, ordered by cache layer and path.
\<close>

section \<open>The items of a report are distinct\<close>

definition reportItems :: "impactReport \<Rightarrow> impactItem list" where
  "reportItems r = ip_inScopeCandidates r @ ip_supportingContext r @ ip_possibleImpact r"

definition uniqueKeys :: "impactItems \<Rightarrow> bool" where
  "uniqueKeys items \<longleftrightarrow> distinct (map fst items)"

lemma unique_add: "uniqueKeys items \<Longrightarrow> uniqueKeys (addItem i items)"
  by (auto simp: uniqueKeys_def addItem_def map_of_eq_None_iff write_entry_distinct split: option.split)

lemma unique_fold: "(\<And>i acc. uniqueKeys acc \<Longrightarrow> uniqueKeys (f i acc)) \<Longrightarrow> uniqueKeys items \<Longrightarrow> uniqueKeys (fold f is items)"
  by (induction "is" arbitrary: items) auto

lemma unique_visits:
  "uniqueKeys (qs_items s) \<Longrightarrow> uniqueKeys (qs_items (fold (\<lambda>e. visit (t e) h (g e)) es s))"
  by (induction es arbitrary: s) (auto simp: visit_def unique_add)

lemma unique_expand: "uniqueKeys (qs_items s) \<Longrightarrow> uniqueKeys (qs_items (expandNode B p h s))"
  unfolding expandNode_def visitIn_def visitOut_def by (intro unique_visits)

lemma unique_search: "uniqueKeys (qs_items s) \<Longrightarrow> uniqueKeys (qs_items (searchLoop B n s))"
proof (induction B n s rule: searchLoop.induct)
  case (1 B n s)
  show ?case
  proof (cases "searchStep B n s")
    case None
    with 1 show ?thesis by (simp add: searchLoop.simps)
  next
    case (Some t)
    then have "uniqueKeys (qs_items t)"
      using 1 by (auto simp: searchStep_def Let_def unique_expand split: list.splits if_splits)
    with 1 Some show ?thesis by (simp add: searchLoop.simps [of B n s])
  qed
qed

lemma unique_items: "uniqueKeys (impactItemsOf B r seeds)"
proof -
  have "uniqueKeys (searchItems B r seeds (addAll (localPart B r seeds) (addAll (seedItems r seeds) [])))"
    unfolding searchItems_def addAll_def
    by (auto intro!: unique_search unique_fold unique_add) (simp_all add: uniqueKeys_def)
  then show ?thesis
    unfolding impactItemsOf_def addAbsent_def by (rule unique_fold [rotated]) (simp add: unique_add)
qed

lemma keyed_distinct: "keyed items \<Longrightarrow> uniqueKeys items \<Longrightarrow> distinct (map im_path (map snd items))"
  unfolding keyed_def uniqueKeys_def by (simp add: comp_def cong: map_cong)

lemma distinct_parts:
  assumes "distinct (map f xs)"
  shows "distinct (map f (filter P xs @ filter (\<lambda>x. \<not> P x \<and> Q x) xs @ filter (\<lambda>x. \<not> P x \<and> \<not> Q x) xs))"
proof -
  have inj: "inj_on f (set xs)" and d: "distinct xs" using assms by (simp_all add: distinct_map)
  show ?thesis
    unfolding distinct_map
  proof
    show "distinct (filter P xs @ filter (\<lambda>x. \<not> P x \<and> Q x) xs @ filter (\<lambda>x. \<not> P x \<and> \<not> Q x) xs)"
      using d by auto
  qed (rule inj_on_subset [OF inj], auto)
qed

lemma report_items_distinct: "distinct (map im_path (reportItems (reportOf H now B q seeds ex)))"
proof -
  let ?sorted = "sortedItems H (impactItemsOf B (iq_radius q) seeds)"
  have "distinct (map im_path (map snd (impactItemsOf B (iq_radius q) seeds)))"
    using impactItemsOf_paths keyed_distinct unique_items by blast
  then have "distinct (map im_path ?sorted)"
    unfolding sortedItems_def distinct_map set_sort_with distinct_sort_with .
  from distinct_parts [OF this, of isDirect "\<lambda>i. im_hops i < 2"] show ?thesis
    by (simp add: reportItems_def reportOf_def Let_def not_less)
qed

section \<open>The order of the items\<close>

lemma packItem_le_comparator:
  assumes "comparator (locale_le H)"
  shows "comparator (packItem_le H)"
proof
  fix a b c :: contextPackItem
  show "packItem_le H a b \<or> packItem_le H b a"
    using comparator.le_total [OF assms] by (auto simp: packItem_le_def)
  assume "packItem_le H a b" "packItem_le H b c"
  then show "packItem_le H a c"
    using comparator.le_trans [OF assms] by (auto simp: packItem_le_def split: if_splits)
qed

lemma distinct_map_filter:
  assumes "distinct (map f xs)" "\<And>x y. g x = Some y \<Longrightarrow> h y = f x"
  shows "distinct (map h (List.map_filter g xs))"
  using assms(1)
proof (induction xs)
  case (Cons x xs)
  have "h y \<noteq> h z" if "g x = Some y" "z \<in> set (List.map_filter g xs)" for y z
  proof -
    obtain w where "w \<in> set xs" "g w = Some z" using \<open>z \<in> _\<close> by (auto simp: in_map_filter)
    then show ?thesis using assms(2) that(1) Cons.prems by fastforce
  qed
  with Cons show ?case by (auto simp: map_filter_simps split: option.split)
qed (simp add: map_filter_simps)

definition inFiles :: "indexBundle \<Rightarrow> string \<Rightarrow> bool" where
  "inFiles B p \<longleftrightarrow> p \<in> if_path ` set (is_files (ib_state B))"

lemma fileByPath_None: "fileByPath B p = None \<longleftrightarrow> \<not> inFiles B p"
  by (auto simp: fileByPath_def inFiles_def map_of_eq_None_iff image_iff)

lemma fileByPath_path: "fileByPath B p = Some f \<Longrightarrow> f \<in> set (is_files (ib_state B)) \<and> if_path f = p"
  unfolding fileByPath_def by (drule map_of_SomeD) auto

lemma packItem_Some:
  "packItem B i = Some c \<longleftrightarrow> (\<exists>f. fileByPath B (im_path i) = Some f \<and> c =
     \<lparr>ck_path = im_path i, ck_role = roleFor (im_relation i) (im_path i), ck_relation = im_relation i,
      ck_reason = im_reason i, ck_confidence = im_confidence i, ck_contentDigest = if_contentDigest f,
      ck_estimatedTokens = estimateTokensFromBytes (if_bytes f), ck_layer = layerFor i\<rparr>)"
  by (auto simp: packItem_def split: option.split)

lemma in_packItems: "c \<in> set (packItems H B r) \<longleftrightarrow> (\<exists>i\<in>set (reportItems r). packItem B i = Some c)"
  unfolding packItems_def set_sort_with in_map_filter reportItems_def by (rule refl)

lemma packItems_paths: "ck_path ` set (packItems H B r) = {p \<in> reportPaths r. inFiles B p}"
proof -
  have paths: "reportPaths r = im_path ` set (reportItems r)"
    by (simp add: reportPaths_def reportItems_def)
  have item: "(\<exists>c. packItem B i = Some c \<and> ck_path c = p) \<longleftrightarrow> im_path i = p \<and> inFiles B p" for i p
    using fileByPath_None [of B "im_path i"] by (cases "fileByPath B (im_path i)") (auto simp: packItem_def)
  have "p \<in> ck_path ` set (packItems H B r) \<longleftrightarrow> (\<exists>i\<in>set (reportItems r). \<exists>c. packItem B i = Some c \<and> ck_path c = p)" for p
    unfolding image_iff Bex_def in_packItems by blast
  then show ?thesis unfolding item paths by (intro set_eqI) (simp add: image_iff, blast)
qed

lemma packItems_files:
  assumes "c \<in> set (packItems H B r)"
  shows "\<exists>f\<in>set (is_files (ib_state B)). if_path f = ck_path c \<and> ck_contentDigest c = if_contentDigest f
     \<and> if_bytes f \<le> 4 * ck_estimatedTokens c \<and> 4 * ck_estimatedTokens c < if_bytes f + 4"
proof -
  obtain i where "packItem B i = Some c" using assms in_packItems by blast
  then obtain f where f: "fileByPath B (im_path i) = Some f" and c: "ck_path c = im_path i"
      "ck_contentDigest c = if_contentDigest f" "ck_estimatedTokens c = estimateTokensFromBytes (if_bytes f)"
    unfolding packItem_Some by auto
  show ?thesis
    using fileByPath_path [OF f] c by (intro bexI [of _ f]) (auto simp: estimateTokensFromBytes_def)
qed

text \<open>C17: a context pack built from an impact report has exactly one item for each path of the report
  that the index has a file for, carrying that file's digest and its size in tokens (a quarter of the
  bytes, rounded up); the items are ordered by cache layer, then path; the estimate of the pack is their
  sum; and the pack is bound to the project and to the index the report was made on.\<close>

theorem context_pack_faithful:
  assumes "comparator (locale_le H)" "analyzeImpact H now B q = Inr r" "buildContextPack H now' B' r pq = Inr p"
  shows "distinct (map ck_path (cx_items p)) \<and> set (map ck_path (cx_items p)) = {x \<in> reportPaths r. inFiles B' x}
    \<and> (\<forall>c\<in>set (cx_items p). \<exists>f\<in>set (is_files (ib_state B')). if_path f = ck_path c \<and> ck_contentDigest c = if_contentDigest f
         \<and> if_bytes f \<le> 4 * ck_estimatedTokens c \<and> 4 * ck_estimatedTokens c < if_bytes f + 4)
    \<and> sorted_wrt (packItem_le H) (cx_items p) \<and> sorted (map (layerRank \<circ> ck_layer) (cx_items p))
    \<and> cx_estimatedTokens p = sum_list (map ck_estimatedTokens (cx_items p))
    \<and> cx_projectId p = iq_projectId q \<and> cx_indexDigest p = is_indexDigest (ib_state B)"
proof -
  obtain seeds ex where r: "r = reportOf H now B q seeds ex" using analyze_result [OF assms(2)] by blast
  have p: "p = packOf H now' B' r pq" and same: "ip_projectId r = pq_projectId pq" "ip_indexDigest r = is_indexDigest (ib_state B')"
    using assms(3) by (auto simp: buildContextPack_def ensure_def split: if_splits)
  have items: "cx_items p = packItems H B' r" by (simp add: p packOf_def Let_def)
  have "distinct (map im_path (reportItems r))" unfolding r by (rule report_items_distinct)
  then have "distinct (map ck_path (List.map_filter (packItem B') (reportItems r)))"
    by (rule distinct_map_filter) (auto simp: packItem_Some)
  then have d: "distinct (map ck_path (cx_items p))"
    unfolding items packItems_def reportItems_def distinct_map set_sort_with distinct_sort_with .
  have s: "sorted_wrt (packItem_le H) (cx_items p)"
    unfolding items packItems_def by (rule comparator.sorted_sort_with [OF packItem_le_comparator [OF assms(1)]])
  have "sorted (map (layerRank \<circ> ck_layer) (cx_items p))"
    unfolding sorted_wrt_map by (rule sorted_wrt_mono_rel [OF _ s]) (auto simp: packItem_le_def split: if_splits)
  moreover have "cx_projectId p = iq_projectId q \<and> cx_indexDigest p = is_indexDigest (ib_state B)"
    using same by (simp add: p packOf_def r reportOf_def Let_def)
  moreover have "cx_estimatedTokens p = sum_list (map ck_estimatedTokens (cx_items p))"
    by (simp add: p packOf_def Let_def)
  ultimately show ?thesis
    using d s packItems_paths [of H B' r] packItems_files [of _ H B' r] by (simp add: items)
qed

end
