(* ===== verification/Impact_Witnesses.thy ===== *)
theory Impact_Witnesses
  imports Impact_Properties
begin

text \<open>
  A small index for the properties of the impact analysis: \<open>src/a.ts\<close> imports \<open>src/b.ts\<close>, which
  imports \<open>lib/c.ts\<close>; the request names \<open>src/a.ts\<close> at radius C3.
\<close>

definition demoNode :: "string \<Rightarrow> graphNode" where
  "demoNode p = \<lparr>gn_path = p, gn_kind = SourceFile, gn_contentDigest = ''d''\<rparr>"

definition demoImport :: "string \<Rightarrow> string \<Rightarrow> graphEdge" where
  "demoImport a b = \<lparr>ge_type = ImportsEdge, ge_source = a, ge_target = b, ge_method = ''regex'', ge_confidence = 1,
     ge_evidence = ''import'', ge_line = Some 1, ge_sourceDigest = ''d''\<rparr>"

definition demoRecord :: "string \<Rightarrow> nat \<Rightarrow> indexedFileRecord" where
  "demoRecord p n = \<lparr>if_path = p, if_contentDigest = ''d'', if_kind = SourceFile, if_language = None, if_bytes = n,
     if_hasExportBoundary = True\<rparr>"

definition demoIndexState :: indexState where
  "demoIndexState = \<lparr>is_projectId = ''p_1'', is_indexDigest = ''idx'', is_extractorVersion = ''1'', is_engineVersion = ''1'',
     is_generatedAt = ''t0'', is_updatedAt = ''t0'', is_gitHead = None, is_dirtyDigest = ''dd'', is_gitAvailable = True,
     is_mode = FullBuild, is_confidence = HighConfidence, is_stale = False, is_staleReason = None, is_filesConsidered = 3, is_filesParsed = 3,
     is_filesReused = 0, is_filesRemoved = 0, is_unresolvedCount = 0, is_nodeCount = 3, is_edgeCount = 2, is_complete = True,
     is_truncated = False, is_truncationReason = None,
     is_files = [demoRecord ''src/a.ts'' 10, demoRecord ''src/b.ts'' 5, demoRecord ''lib/c.ts'' 8]\<rparr>"

definition demoBundle :: indexBundle where
  "demoBundle = \<lparr>ib_state = demoIndexState,
     ib_graph = \<lparr>dg_projectId = ''p_1'', dg_indexDigest = ''idx'', dg_generatedAt = ''t0'', dg_extractorVersion = ''1'',
       dg_nodes = [demoNode ''src/a.ts'', demoNode ''src/b.ts'', demoNode ''lib/c.ts''],
       dg_edges = [demoImport ''src/a.ts'' ''src/b.ts'', demoImport ''src/b.ts'' ''lib/c.ts''], dg_unresolved = []\<rparr>,
     ib_tests = [], ib_interfaces = []\<rparr>"

definition demoImpactRequest :: "contextRadius \<Rightarrow> impactRequest" where
  "demoImpactRequest r = \<lparr>iq_projectId = ''p_1'', iq_workOrderId = None, iq_executionRunId = None, iq_radius = r,
     iq_requestedPaths = [''src/a.ts''], iq_affectedAreas = [], iq_approveC5 = False\<rparr>"

definition demoPackRequest :: packRequest where
  "demoPackRequest = \<lparr>pq_projectId = ''p_1'', pq_workOrderId = None, pq_executionRunId = None, pq_radius = C3,
     pq_objective = None, pq_expansionHistory = []\<rparr>"

lemma demo_seeds: "seedsOf plain_host demoBundle (demoImpactRequest r) = Inr [''src/a.ts'']"
  by code_simp

lemma demo_analyzed:
  "r \<noteq> C5 \<Longrightarrow> \<exists>ex. analyzeImpact plain_host ''t0'' demoBundle (demoImpactRequest r)
     = Inr (reportOf plain_host ''t0'' demoBundle (demoImpactRequest r) [''src/a.ts''] ex)"
  using demo_seeds [of r]
  by (auto simp: analyzeImpact_def seedsOf_def Let_def ensure_def incompleteIndex_def)
     (simp_all add: demoBundle_def demoIndexState_def demoImpactRequest_def)

theorem impact_report_paths_witness:
  "\<exists>r. analyzeImpact plain_host ''t0'' demoBundle (demoImpactRequest C3) = Inr r
     \<and> ''src/b.ts'' \<in> reportPaths r \<and> ''lib/c.ts'' \<notin> reportPaths r"
proof -
  obtain ex where a: "analyzeImpact plain_host ''t0'' demoBundle (demoImpactRequest C3)
     = Inr (reportOf plain_host ''t0'' demoBundle (demoImpactRequest C3) [''src/a.ts''] ex)"
    using demo_analyzed [of C3] by auto
  have "reportPaths (reportOf plain_host ''t0'' demoBundle (demoImpactRequest C3) [''src/a.ts''] ex)
      = pathsAt demoBundle [''src/a.ts''] C3"
    using impact_report_paths [OF a] by (simp add: reportOf_def Let_def demoImpactRequest_def)
  moreover have "''src/b.ts'' \<in> pathsAt demoBundle [''src/a.ts''] C3 \<and> ''lib/c.ts'' \<notin> pathsAt demoBundle [''src/a.ts''] C3"
    by code_simp
  ultimately show ?thesis using a by auto
qed

theorem context_pack_faithful_witness:
  "\<exists>r p. analyzeImpact plain_host ''t0'' demoBundle (demoImpactRequest C3) = Inr r
     \<and> buildContextPack plain_host ''t0'' demoBundle r demoPackRequest = Inr p
     \<and> distinct (map ck_path (cx_items p)) \<and> sorted (map (layerRank \<circ> ck_layer) (cx_items p))"
proof -
  obtain ex where a: "analyzeImpact plain_host ''t0'' demoBundle (demoImpactRequest C3)
     = Inr (reportOf plain_host ''t0'' demoBundle (demoImpactRequest C3) [''src/a.ts''] ex)" (is "_ = Inr ?r")
    using demo_analyzed [of C3] by auto
  have "buildContextPack plain_host ''t0'' demoBundle ?r demoPackRequest = Inr (packOf plain_host ''t0'' demoBundle ?r demoPackRequest)"
    by (simp add: buildContextPack_def ensure_def reportOf_def Let_def)
       (simp add: demoPackRequest_def demoImpactRequest_def demoBundle_def demoIndexState_def truthy_def)
  then show ?thesis using context_pack_faithful [OF plain_comparator a] a by blast
qed

end
