(* ===== verification/Failure_Types.thy ===== *)
theory Failure_Types
  imports Intelligence_Types
begin

text \<open>
  The data model of \<^verbatim>\<open>src/kernel/failure-types.ts\<close>: failure records, diagnosis reports and the
  memory of failures. The confidence of a candidate is computed from its score, an exact rational.
\<close>

definition LOOP_THRESHOLD :: nat where
  "LOOP_THRESHOLD = 3"

datatype failureSource = TestFailure | LintFailure | TypecheckFailure | BuildFailure | RuntimeFailure | GateFailure
  | ManualEvidence
datatype failureClass = AssertionClass | ExceptionClass | CompileClass | TypeClass | LintClass | CommandClass
  | TimeoutClass | UnknownFailure
datatype failureRecordStatus = FailRecorded | FailDiagnosed | FailLoop | FailResolved
datatype diagnosisStatus = Localized | Ambiguous | NeedsEvidence | DiagnosisBlocked
datatype hypothesisConfidence = HypHigh | HypMedium | HypLow
datatype memoryOutcome = OutcomeOpen | OutcomeLoop | OutcomeHistorical | OutcomeResolved | OutcomeDisproved
datatype memoryMatchKind = ReusableMatch | HistoricalMatch

record stackFrame =
  sk_path :: "string option"
  sk_line :: "nat option"
  sk_column :: "nat option"
  sk_functionName :: "string option"
  sk_inRepo :: bool

record failingTest =
  ft_id :: string
  ft_file :: "string option"
  ft_title :: "string option"

record failureRecord =
  fr_failureRecordId :: string
  fr_projectId :: string
  fr_workOrderId :: "string option"
  fr_executionRunId :: "string option"
  fr_createdAt :: string
  fr_source :: failureSource
  fr_command :: "string option"
  fr_exitCode :: "int option"
  fr_status :: failureRecordStatus
  fr_failureClass :: failureClass
  fr_messageSummary :: string
  fr_stackFrames :: "stackFrame list"
  fr_failingTests :: "failingTest list"
  fr_relatedEvidenceRefs :: "string list"
  fr_changeDigest :: "string option"
  fr_repositoryIndexDigest :: "string option"
  fr_repositoryHead :: "string option"
  fr_dirtyDigest :: "string option"
  fr_signature :: string
  fr_redacted :: bool
  fr_kinds :: "string list"

record rankedCandidate =
  rk_path :: string
  rk_score :: rat
  rk_confidence :: hypothesisConfidence
  rk_signals :: "string list"
  rk_reason :: string

record memoryMatch =
  mt_failureSignature :: string
  mt_kind :: memoryMatchKind
  mt_reason :: string

record loopState =
  lp_detected :: bool
  lp_occurrences :: nat
  lp_sameChangeDigest :: bool
  lp_recommendedAction :: string

record diagnosisReport =
  dx_diagnosisId :: string
  dx_failureRecordId :: string
  dx_projectId :: string
  dx_workOrderId :: "string option"
  dx_executionRunId :: "string option"
  dx_createdAt :: string
  dx_failureSignature :: string
  dx_indexDigest :: string
  dx_changeDigest :: "string option"
  dx_initialRadius :: contextRadius
  dx_recommendedRadius :: contextRadius
  dx_status :: diagnosisStatus
  dx_rankedCandidates :: "rankedCandidate list"
  dx_evidenceUsed :: "string list"
  dx_unresolved :: "string list"
  dx_nextEvidence :: "string list"
  dx_escalationReason :: "string option"
  dx_contextPackRef :: "string option"
  dx_memoryMatches :: "memoryMatch list"
  dx_loopState :: loopState

record failureMemoryEntry =
  fe_failureSignature :: string
  fe_firstSeenAt :: string
  fe_lastSeenAt :: string
  fe_occurrences :: nat
  fe_lastRepositoryHead :: "string option"
  fe_lastChangeDigest :: "string option"
  fe_sameDigestStreak :: nat
  fe_candidatePaths :: "string list"
  fe_candidateDigests :: "(string \<times> string) list"
  fe_validityBasisPaths :: "string list"
  fe_validityBasisDigests :: "(string \<times> string) list"
  fe_verifiedRootCausePaths :: "string list"
  fe_verifiedCorrectionPaths :: "string list"
  fe_disprovedPaths :: "string list"
  fe_resolutionSummary :: "string option"
  fe_resolutionEvidenceRefs :: "string list"
  fe_resolutionExecutionRunId :: "string option"
  fe_resolutionChangeDigest :: "string option"
  fe_resolutionIndexDigest :: "string option"
  fe_lastFailureRecordId :: "string option"
  fe_lastOutcome :: memoryOutcome

record failureMemory =
  fm_projectId :: string
  fm_updatedAt :: string
  fm_entries :: "failureMemoryEntry list"

record failureCursor =
  fc_failureRecordId :: "string option"
  fc_diagnosisId :: "string option"
  fc_updatedAt :: string

text \<open>The one part of the text of a failure that this development takes as given: its normal form.\<close>

record normalizedFailureText =
  nf_messageSummary :: string
  nf_stackFrames :: "stackFrame list"
  nf_failingTests :: "failingTest list"
  nf_failureClass :: failureClass
  nf_redacted :: bool
  nf_kinds :: "string list"

end
