(* ===== verification/Failure_Store.thy ===== *)
theory Failure_Store
  imports Failure_Types Execution_Base
begin

text \<open>
  The files of \<^verbatim>\<open>src/kernel/failure-persist.ts\<close> and the impact reports of
  \<^verbatim>\<open>intelligence-persist.ts\<close>, beside the sidecar. Every value is sanitized before it is checked
  and written; a value that is read is checked again.
\<close>

record failureFiles =
  fx_records :: "(string \<times> failureRecord artifact) list"
  fx_diagnoses :: "(string \<times> diagnosisReport artifact) list"
  fx_memory :: "failureMemory artifact"
  fx_current :: "failureCursor artifact"
  fx_diagnosticPacks :: "(string \<times> contextPack artifact) list"
  fx_impactReports :: "(string \<times> impactReport artifact) list"

record failureState =
  fl_sidecar :: sidecar
  fl_files :: failureFiles

record failureSys = sys +
  okFailureRecord :: "failureRecord \<Rightarrow> bool"
  okDiagnosis :: "diagnosisReport \<Rightarrow> bool"
  okFailureMemory :: "failureMemory \<Rightarrow> bool"
  okContextPack :: "contextPack \<Rightarrow> bool"
  okImpactReport :: "impactReport \<Rightarrow> bool"

type_synonym 'a fop = "(failureState, uadsError, 'a) step"

text \<open>An operation of the sidecar alone, and a change of the failure files alone.\<close>

definition onCore :: "'a op \<Rightarrow> 'a fop" where
  "onCore m = (\<lambda>s. case m (fl_sidecar s) of (r, t) \<Rightarrow> (r, s\<lparr>fl_sidecar := t\<rparr>))"

definition onFiles :: "(failureFiles \<Rightarrow> failureFiles) \<Rightarrow> failureState \<Rightarrow> failureState" where
  "onFiles f s = s\<lparr>fl_files := f (fl_files s)\<rparr>"

lemma onCore_iff [step_iff]: "onCore m s = (r, t) \<longleftrightarrow> (\<exists>u. m (fl_sidecar s) = (r, u) \<and> t = s\<lparr>fl_sidecar := u\<rparr>)"
  by (auto simp: onCore_def split: prod.splits)

definition failureError :: "string \<Rightarrow> uadsError" where
  "failureError m = PlainError m"

section \<open>Sanitizing\<close>

definition sanitizeFrame :: "'h host_scheme \<Rightarrow> stackFrame \<Rightarrow> stackFrame" where
  "sanitizeFrame H f = f\<lparr>sk_path := sanOpt H (sk_path f), sk_functionName := sanOpt H (sk_functionName f)\<rparr>"

definition sanitizeTest :: "'h host_scheme \<Rightarrow> failingTest \<Rightarrow> failingTest" where
  "sanitizeTest H f = f\<lparr>ft_id := sanitizeOperationalText H (ft_id f), ft_file := sanOpt H (ft_file f),
     ft_title := sanOpt H (ft_title f)\<rparr>"

definition sanitizeFailure :: "'h host_scheme \<Rightarrow> failureRecord \<Rightarrow> failureRecord" where
  "sanitizeFailure H r = (let S = sanitizeOperationalText H in
     r\<lparr>fr_failureRecordId := S (fr_failureRecordId r), fr_projectId := S (fr_projectId r),
       fr_workOrderId := sanOpt H (fr_workOrderId r), fr_executionRunId := sanOpt H (fr_executionRunId r),
       fr_createdAt := S (fr_createdAt r), fr_command := sanOpt H (fr_command r),
       fr_messageSummary := S (fr_messageSummary r), fr_stackFrames := map (sanitizeFrame H) (fr_stackFrames r),
       fr_failingTests := map (sanitizeTest H) (fr_failingTests r),
       fr_relatedEvidenceRefs := sanList H (fr_relatedEvidenceRefs r), fr_changeDigest := sanOpt H (fr_changeDigest r),
       fr_repositoryIndexDigest := sanOpt H (fr_repositoryIndexDigest r),
       fr_repositoryHead := sanOpt H (fr_repositoryHead r), fr_dirtyDigest := sanOpt H (fr_dirtyDigest r),
       fr_signature := S (fr_signature r), fr_kinds := sanList H (fr_kinds r)\<rparr>)"

definition sanitizeCandidate :: "'h host_scheme \<Rightarrow> rankedCandidate \<Rightarrow> rankedCandidate" where
  "sanitizeCandidate H c = c\<lparr>rk_path := sanitizeOperationalText H (rk_path c), rk_signals := sanList H (rk_signals c),
     rk_reason := sanitizeOperationalText H (rk_reason c)\<rparr>"

definition sanitizeMatch :: "'h host_scheme \<Rightarrow> memoryMatch \<Rightarrow> memoryMatch" where
  "sanitizeMatch H m = m\<lparr>mt_failureSignature := sanitizeOperationalText H (mt_failureSignature m),
     mt_reason := sanitizeOperationalText H (mt_reason m)\<rparr>"

definition sanitizeDiagnosis :: "'h host_scheme \<Rightarrow> diagnosisReport \<Rightarrow> diagnosisReport" where
  "sanitizeDiagnosis H d = (let S = sanitizeOperationalText H; l = dx_loopState d in
     d\<lparr>dx_diagnosisId := S (dx_diagnosisId d), dx_failureRecordId := S (dx_failureRecordId d),
       dx_projectId := S (dx_projectId d), dx_workOrderId := sanOpt H (dx_workOrderId d),
       dx_executionRunId := sanOpt H (dx_executionRunId d), dx_createdAt := S (dx_createdAt d),
       dx_failureSignature := S (dx_failureSignature d), dx_indexDigest := S (dx_indexDigest d),
       dx_changeDigest := sanOpt H (dx_changeDigest d),
       dx_rankedCandidates := map (sanitizeCandidate H) (dx_rankedCandidates d),
       dx_evidenceUsed := sanList H (dx_evidenceUsed d), dx_unresolved := sanList H (dx_unresolved d),
       dx_nextEvidence := sanList H (dx_nextEvidence d), dx_escalationReason := sanOpt H (dx_escalationReason d),
       dx_contextPackRef := sanOpt H (dx_contextPackRef d), dx_memoryMatches := map (sanitizeMatch H) (dx_memoryMatches d),
       dx_loopState := l\<lparr>lp_recommendedAction := S (lp_recommendedAction l)\<rparr>\<rparr>)"

definition sanitizeEntry :: "'h host_scheme \<Rightarrow> failureMemoryEntry \<Rightarrow> failureMemoryEntry" where
  "sanitizeEntry H e = (let S = sanitizeOperationalText H in
     e\<lparr>fe_failureSignature := S (fe_failureSignature e), fe_firstSeenAt := S (fe_firstSeenAt e),
       fe_lastSeenAt := S (fe_lastSeenAt e), fe_lastRepositoryHead := sanOpt H (fe_lastRepositoryHead e),
       fe_lastChangeDigest := sanOpt H (fe_lastChangeDigest e), fe_candidatePaths := sanList H (fe_candidatePaths e),
       fe_candidateDigests := sanValues H (fe_candidateDigests e),
       fe_validityBasisPaths := sanList H (fe_validityBasisPaths e),
       fe_validityBasisDigests := sanValues H (fe_validityBasisDigests e),
       fe_verifiedRootCausePaths := sanList H (fe_verifiedRootCausePaths e),
       fe_verifiedCorrectionPaths := sanList H (fe_verifiedCorrectionPaths e),
       fe_disprovedPaths := sanList H (fe_disprovedPaths e), fe_resolutionSummary := sanOpt H (fe_resolutionSummary e),
       fe_resolutionEvidenceRefs := sanList H (fe_resolutionEvidenceRefs e),
       fe_resolutionExecutionRunId := sanOpt H (fe_resolutionExecutionRunId e),
       fe_resolutionChangeDigest := sanOpt H (fe_resolutionChangeDigest e),
       fe_resolutionIndexDigest := sanOpt H (fe_resolutionIndexDigest e),
       fe_lastFailureRecordId := sanOpt H (fe_lastFailureRecordId e)\<rparr>)"

definition sanitizeMemory :: "'h host_scheme \<Rightarrow> failureMemory \<Rightarrow> failureMemory" where
  "sanitizeMemory H m = m\<lparr>fm_projectId := sanitizeOperationalText H (fm_projectId m),
     fm_updatedAt := sanitizeOperationalText H (fm_updatedAt m), fm_entries := map (sanitizeEntry H) (fm_entries m)\<rparr>"

definition sanitizeUnresolved :: "'h host_scheme \<Rightarrow> unresolvedReference \<Rightarrow> unresolvedReference" where
  "sanitizeUnresolved H u = (let S = sanitizeOperationalText H in
     u\<lparr>ur_source := S (ur_source u), ur_specifier := S (ur_specifier u), ur_reason := S (ur_reason u),
       ur_method := S (ur_method u), ur_sourceDigest := S (ur_sourceDigest u)\<rparr>)"

definition sanPairs :: "'h host_scheme \<Rightarrow> (string \<times> string) list \<Rightarrow> (string \<times> string) list" where
  "sanPairs H kvs = map (map_prod (sanitizeOperationalText H) (sanitizeOperationalText H)) kvs"

definition sanitizePackItem :: "'h host_scheme \<Rightarrow> contextPackItem \<Rightarrow> contextPackItem" where
  "sanitizePackItem H i = (let S = sanitizeOperationalText H in
     i\<lparr>ck_path := S (ck_path i), ck_reason := S (ck_reason i), ck_contentDigest := S (ck_contentDigest i)\<rparr>)"

definition sanitizePackExpansion :: "'h host_scheme \<Rightarrow> packExpansion \<Rightarrow> packExpansion" where
  "sanitizePackExpansion H x = (let S = sanitizeOperationalText H in
     map_prod S (map_prod S (map_prod S S)) x)"

definition sanitizePack :: "'h host_scheme \<Rightarrow> contextPack \<Rightarrow> contextPack" where
  "sanitizePack H p = (let S = sanitizeOperationalText H in
     p\<lparr>cx_contextPackId := S (cx_contextPackId p), cx_projectId := S (cx_projectId p),
       cx_workOrderId := sanOpt H (cx_workOrderId p), cx_executionRunId := sanOpt H (cx_executionRunId p),
       cx_impactReportId := S (cx_impactReportId p), cx_indexDigest := S (cx_indexDigest p),
       cx_gitHead := sanOpt H (cx_gitHead p), cx_dirtyDigest := S (cx_dirtyDigest p),
       cx_generatedAt := S (cx_generatedAt p), cx_objective := sanOpt H (cx_objective p),
       cx_items := map (sanitizePackItem H) (cx_items p), cx_focusedTests := sanList H (cx_focusedTests p),
       cx_contracts := sanList H (cx_contracts p), cx_docs := sanList H (cx_docs p),
       cx_unresolved := map (sanitizeUnresolved H) (cx_unresolved p),
       cx_excludedSummary := sanPairs H (cx_excludedSummary p),
       cx_expansionHistory := map (sanitizePackExpansion H) (cx_expansionHistory p),
       cx_staticLayerDigest := S (cx_staticLayerDigest p), cx_semiStableLayerDigest := S (cx_semiStableLayerDigest p),
       cx_dynamicLayerDigest := S (cx_dynamicLayerDigest p)\<rparr>)"

definition sanitizeImpactItem :: "'h host_scheme \<Rightarrow> impactItem \<Rightarrow> impactItem" where
  "sanitizeImpactItem H i = i\<lparr>im_path := sanitizeOperationalText H (im_path i),
     im_reason := sanitizeOperationalText H (im_reason i)\<rparr>"

definition sanitizeImpactReport :: "'h host_scheme \<Rightarrow> impactReport \<Rightarrow> impactReport" where
  "sanitizeImpactReport H r = (let S = sanitizeOperationalText H in
     r\<lparr>ip_impactReportId := S (ip_impactReportId r), ip_projectId := S (ip_projectId r),
       ip_workOrderId := sanOpt H (ip_workOrderId r), ip_executionRunId := sanOpt H (ip_executionRunId r),
       ip_indexDigest := S (ip_indexDigest r), ip_gitHead := sanOpt H (ip_gitHead r), ip_dirtyDigest := S (ip_dirtyDigest r),
       ip_generatedAt := S (ip_generatedAt r), ip_seeds := sanList H (ip_seeds r),
       ip_inScopeCandidates := map (sanitizeImpactItem H) (ip_inScopeCandidates r),
       ip_supportingContext := map (sanitizeImpactItem H) (ip_supportingContext r),
       ip_possibleImpact := map (sanitizeImpactItem H) (ip_possibleImpact r), ip_excluded := sanPairs H (ip_excluded r),
       ip_unresolved := map (sanitizeUnresolved H) (ip_unresolved r)\<rparr>)"

section \<open>Writes\<close>

definition setRecordFile :: "failureRecord \<Rightarrow> failureFiles \<Rightarrow> failureFiles" where
  "setRecordFile r f = f\<lparr>fx_records := write_entry (jsonName (fr_failureRecordId r)) (Parsed r) (fx_records f)\<rparr>"

definition setCursor :: "failureCursor \<Rightarrow> failureFiles \<Rightarrow> failureFiles" where
  "setCursor c f = f\<lparr>fx_current := Parsed c\<rparr>"

definition persistFailureRecord :: "'h failureSys_scheme \<Rightarrow> failureRecord \<Rightarrow> bool \<Rightarrow> failureRecord fop" where
  "persistFailureRecord H r0 updateCursor =
    (let r = sanitizeFailure H r0
     in bindE (assertSchema ''failure-record.schema.json'' (okFailureRecord H r)) (\<lambda>_.
        bindE (liftE (assertSafeSidecarId (fr_failureRecordId r))) (\<lambda>_.
        bindE (writeE (onFiles (setRecordFile r))) (\<lambda>_.
        bindE (if updateCursor then writeE (onFiles (setCursor \<lparr>fc_failureRecordId = Some (fr_failureRecordId r),
                 fc_diagnosisId = None, fc_updatedAt = fr_createdAt r\<rparr>)) else returnE ()) (\<lambda>_.
        returnE r)))))"

definition setDiagnosisFile :: "diagnosisReport \<Rightarrow> failureFiles \<Rightarrow> failureFiles" where
  "setDiagnosisFile d f = f\<lparr>fx_diagnoses := write_entry (jsonName (dx_diagnosisId d)) (Parsed d) (fx_diagnoses f)\<rparr>"

definition persistDiagnosisReport :: "'h failureSys_scheme \<Rightarrow> diagnosisReport \<Rightarrow> diagnosisReport fop" where
  "persistDiagnosisReport H d0 =
    (let d = sanitizeDiagnosis H d0
     in bindE (assertSchema ''diagnosis-report.schema.json'' (okDiagnosis H d)) (\<lambda>_.
        bindE (liftE (assertSafeSidecarId (dx_diagnosisId d))) (\<lambda>_.
        bindE (writeE (onFiles (setDiagnosisFile d))) (\<lambda>_.
        bindE (writeE (onFiles (setCursor \<lparr>fc_failureRecordId = Some (dx_failureRecordId d),
                 fc_diagnosisId = Some (dx_diagnosisId d), fc_updatedAt = dx_createdAt d\<rparr>))) (\<lambda>_.
        returnE d)))))"

definition persistFailureMemory :: "'h failureSys_scheme \<Rightarrow> failureMemory \<Rightarrow> failureMemory fop" where
  "persistFailureMemory H m0 =
    (let m = sanitizeMemory H m0
     in bindE (assertSchema ''failure-memory.schema.json'' (okFailureMemory H m)) (\<lambda>_.
        bindE (writeE (onFiles (\<lambda>f. f\<lparr>fx_memory := Parsed m\<rparr>))) (\<lambda>_.
        returnE m)))"

definition persistDiagnosticPack :: "'h failureSys_scheme \<Rightarrow> contextPack \<Rightarrow> contextPack fop" where
  "persistDiagnosticPack H p0 =
    (let p = sanitizePack H p0
     in bindE (assertSchema ''context-pack.schema.json'' (okContextPack H p)) (\<lambda>_.
        bindE (liftE (assertSafeSidecarId (cx_contextPackId p))) (\<lambda>_.
        bindE (writeE (onFiles (\<lambda>f. f\<lparr>fx_diagnosticPacks :=
                 write_entry (jsonName (cx_contextPackId p)) (Parsed p) (fx_diagnosticPacks f)\<rparr>))) (\<lambda>_.
        returnE p))))"

definition persistImpactReport :: "'h failureSys_scheme \<Rightarrow> impactReport \<Rightarrow> impactReport fop" where
  "persistImpactReport H r0 =
    (let r = sanitizeImpactReport H r0
     in bindE (assertSchema ''impact-report.schema.json'' (okImpactReport H r)) (\<lambda>_.
        bindE (liftE (assertSafeSidecarId (ip_impactReportId r))) (\<lambda>_.
        bindE (writeE (onFiles (\<lambda>f. f\<lparr>fx_impactReports :=
                 write_entry (jsonName (ip_impactReportId r)) (Parsed r) (fx_impactReports f)\<rparr>))) (\<lambda>_.
        returnE r))))"

section \<open>Reads\<close>

text \<open>A file below a directory: its identifier is checked, then it has to parse and to match its schema.\<close>

definition readChecked :: "string \<Rightarrow> ('a \<Rightarrow> bool) \<Rightarrow> string \<Rightarrow> (string \<times> 'a artifact) list \<Rightarrow> uadsError + 'a" where
  "readChecked what ok i es =
    (case assertSafeSidecarId i of Inl e \<Rightarrow> Inl e
     | Inr _ \<Rightarrow> (case read_entry (jsonName i) es of
          Parsed v \<Rightarrow> if ok v then Inr v else Inl (failureError (what @ '' failed schema validation''))
        | _ \<Rightarrow> Inl (failureError (what @ '' missing or corrupt''))))"

lemma readChecked_Inr [simp]:
  "readChecked what ok i es = Inr v \<longleftrightarrow> isSafeSidecarId i \<and> read_entry (jsonName i) es = Parsed v \<and> ok v"
  by (auto simp: readChecked_def split: sum.splits artifact.splits)

definition readFailureRecord :: "'h failureSys_scheme \<Rightarrow> failureFiles \<Rightarrow> string \<Rightarrow> uadsError + failureRecord" where
  "readFailureRecord H f i = readChecked ''failure record'' (okFailureRecord H) i (fx_records f)"

definition readDiagnosisReport :: "'h failureSys_scheme \<Rightarrow> failureFiles \<Rightarrow> string \<Rightarrow> uadsError + diagnosisReport" where
  "readDiagnosisReport H f i = readChecked ''diagnosis report'' (okDiagnosis H) i (fx_diagnoses f)"

text \<open>The text of \<open>new Date(0).toISOString()\<close> for the memory of a project without failures.\<close>

definition emptyMemoryAt :: "string \<Rightarrow> string \<Rightarrow> failureMemory" where
  "emptyMemoryAt projectId t = \<lparr>fm_projectId = projectId, fm_updatedAt = t, fm_entries = []\<rparr>"

definition readFailureMemory :: "'h failureSys_scheme \<Rightarrow> failureFiles \<Rightarrow> string \<Rightarrow> uadsError + failureMemory" where
  "readFailureMemory H f projectId =
    (case fx_memory f of
       Missing \<Rightarrow> Inr (emptyMemoryAt projectId ''1970-01-01T00:00:00.000Z'')
     | Unreadable _ \<Rightarrow> Inl (failureError ''failure memory missing or corrupt'')
     | Parsed m \<Rightarrow>
         if \<not> okFailureMemory H m then Inl (failureError ''failure memory failed schema validation'')
         else if fm_projectId m \<noteq> projectId then Inl (failureError ''cross-project failure memory rejected'')
         else Inr m)"

definition readFailureCursor :: "failureFiles \<Rightarrow> uadsError + failureCursor option" where
  "readFailureCursor f =
    (case fx_current f of Missing \<Rightarrow> Inr None
     | Unreadable _ \<Rightarrow> Inl (failureError ''failure cursor missing or corrupt'') | Parsed c \<Rightarrow> Inr (Some c))"

text \<open>\<open>name.replace(/\.json$/, "")\<close> of a name with that ending.\<close>

definition withoutJson :: "string \<Rightarrow> string" where
  "withoutJson name = take (length name - 5) name"

definition jsonEntries :: "(string \<times> 'a) list \<Rightarrow> (string \<times> 'a) list" where
  "jsonEntries es = filter (\<lambda>e. ends_with ''.json'' (fst e)) es"

fun readEach :: "(string \<Rightarrow> uadsError + 'a) \<Rightarrow> string list \<Rightarrow> uadsError + 'a list" where
  "readEach get [] = Inr []"
| "readEach get (i # is) = (case get i of Inl e \<Rightarrow> Inl e | Inr v \<Rightarrow> map_sum id (\<lambda>vs. v # vs) (readEach get is))"

definition listFailureRecords :: "'h failureSys_scheme \<Rightarrow> failureFiles \<Rightarrow> uadsError + failureRecord list" where
  "listFailureRecords H f =
     readEach (readFailureRecord H f) (map withoutJson (sort_with code_unit_le (map fst (jsonEntries (fx_records f)))))"

definition findLatestDiagnosis :: "'h failureSys_scheme \<Rightarrow> failureFiles \<Rightarrow> string \<Rightarrow> uadsError + diagnosisReport option" where
  "findLatestDiagnosis H f failureRecordId =
     map_sum id (\<lambda>ds. let matches = sort_with (\<lambda>a b. locale_le H (dx_createdAt a) (dx_createdAt b))
                          (filter (\<lambda>d. dx_failureRecordId d = failureRecordId) ds)
                      in if matches = [] then None else Some (last matches))
       (readEach (readDiagnosisReport H f) (map (\<lambda>e. withoutJson (fst e)) (jsonEntries (fx_diagnoses f))))"

record failureStatusFields =
  sf_activeFailureId :: "string option"
  sf_failureSignaturePrefix :: "string option"
  sf_diagnosisStatus :: "diagnosisStatus option"
  sf_loopDetected :: bool
  sf_recommendedDiagnosticRadius :: "contextRadius option"

definition noFailureStatus :: failureStatusFields where
  "noFailureStatus = \<lparr>sf_activeFailureId = None, sf_failureSignaturePrefix = None, sf_diagnosisStatus = None,
     sf_loopDetected = False, sf_recommendedDiagnosticRadius = None\<rparr>"

definition statusOf :: "failureRecord \<Rightarrow> diagnosisReport option \<Rightarrow> failureStatusFields" where
  "statusOf r d = \<lparr>sf_activeFailureId = Some (fr_failureRecordId r), sf_failureSignaturePrefix = Some (take 12 (fr_signature r)),
     sf_diagnosisStatus = map_option dx_status d,
     sf_loopDetected = (case d of None \<Rightarrow> False | Some x \<Rightarrow> lp_detected (dx_loopState x)),
     sf_recommendedDiagnosticRadius = map_option dx_recommendedRadius d\<rparr>"

definition diagnosisFor :: "'h failureSys_scheme \<Rightarrow> failureFiles \<Rightarrow> failureCursor \<Rightarrow> failureRecord \<Rightarrow> uadsError + diagnosisReport option" where
  "diagnosisFor H f c r =
    (if truthy (fc_diagnosisId c) then map_sum id Some (readDiagnosisReport H f (or_empty (fc_diagnosisId c)))
     else findLatestDiagnosis H f (fr_failureRecordId r))"

definition readFailureStatusFields :: "'h failureSys_scheme \<Rightarrow> failureFiles \<Rightarrow> uadsError + failureStatusFields" where
  "readFailureStatusFields H f =
    (case readFailureCursor f of
       Inl e \<Rightarrow> Inl e
     | Inr None \<Rightarrow> Inr noFailureStatus
     | Inr (Some c) \<Rightarrow>
         if \<not> truthy (fc_failureRecordId c) then Inr noFailureStatus
         else (case readFailureRecord H f (or_empty (fc_failureRecordId c)) of
                 Inl e \<Rightarrow> Inl e
               | Inr r \<Rightarrow> map_sum id (statusOf r) (diagnosisFor H f c r)))"

end
