(* ===== verification/Failure_Memory.thy ===== *)
theory Failure_Memory
  imports Failure_Store Impact_Report
begin

text \<open>
  \<^verbatim>\<open>src/kernel/failure-memory.ts\<close> and the checks of \<^verbatim>\<open>failure-binding.ts\<close>: the entry of a
  failure signature counts its occurrences and how often in a row it failed at the same change
  digest; a correction is remembered only for a completed, reviewed run, with the digests of the
  files it depends on, and is reusable while these are unchanged.
\<close>

section \<open>Entries\<close>

definition emptyEntry :: "string \<Rightarrow> string \<Rightarrow> failureRecord \<Rightarrow> failureMemoryEntry" where
  "emptyEntry signature t r =
    \<lparr>fe_failureSignature = signature, fe_firstSeenAt = t, fe_lastSeenAt = t, fe_occurrences = 1,
     fe_lastRepositoryHead = fr_repositoryHead r, fe_lastChangeDigest = fr_changeDigest r, fe_sameDigestStreak = 1,
     fe_candidatePaths = [], fe_candidateDigests = [], fe_validityBasisPaths = [], fe_validityBasisDigests = [],
     fe_verifiedRootCausePaths = [], fe_verifiedCorrectionPaths = [], fe_disprovedPaths = [], fe_resolutionSummary = None,
     fe_resolutionEvidenceRefs = [], fe_resolutionExecutionRunId = None, fe_resolutionChangeDigest = None,
     fe_resolutionIndexDigest = None, fe_lastFailureRecordId = Some (fr_failureRecordId r), fe_lastOutcome = OutcomeOpen\<rparr>"

definition entryOf :: "string \<Rightarrow> failureMemory \<Rightarrow> failureMemoryEntry option" where
  "entryOf signature m = find (\<lambda>e. fe_failureSignature e = signature) (fm_entries m)"

fun updateFirst :: "('a \<Rightarrow> bool) \<Rightarrow> ('a \<Rightarrow> 'a) \<Rightarrow> 'a list \<Rightarrow> 'a list" where
  "updateFirst P f [] = []"
| "updateFirst P f (x # xs) = (if P x then f x # xs else x # updateFirst P f xs)"

text \<open>The code changes the entry it found in place.\<close>

definition changeEntry :: "string \<Rightarrow> (failureMemoryEntry \<Rightarrow> failureMemoryEntry) \<Rightarrow> failureMemory \<Rightarrow> failureMemory" where
  "changeEntry signature f m = m\<lparr>fm_entries := updateFirst (\<lambda>e. fe_failureSignature e = signature) f (fm_entries m)\<rparr>"

definition withCandidates :: "string list \<Rightarrow> failureMemoryEntry \<Rightarrow> failureMemoryEntry" where
  "withCandidates paths e = (if paths \<noteq> [] then e\<lparr>fe_candidatePaths := paths\<rparr> else e)"

definition looping :: "failureMemoryEntry \<Rightarrow> failureMemoryEntry" where
  "looping e = (if LOOP_THRESHOLD \<le> fe_sameDigestStreak e then e\<lparr>fe_lastOutcome := OutcomeLoop\<rparr> else e)"

definition nextStreak :: "failureRecord \<Rightarrow> failureMemoryEntry \<Rightarrow> nat" where
  "nextStreak r e = (if truthy (fr_changeDigest r) \<and> fe_lastChangeDigest e = fr_changeDigest r
     then fe_sameDigestStreak e + 1 else 1)"

definition seenAgain :: "failureRecord \<Rightarrow> string list \<Rightarrow> failureMemoryEntry \<Rightarrow> failureMemoryEntry" where
  "seenAgain r paths e =
    (if fe_lastFailureRecordId e = Some (fr_failureRecordId r)
     then withCandidates paths (e\<lparr>fe_lastSeenAt := fr_createdAt r, fe_lastRepositoryHead := fr_repositoryHead r\<rparr>)
     else looping (withCandidates paths (e\<lparr>fe_lastSeenAt := fr_createdAt r, fe_occurrences := fe_occurrences e + 1,
            fe_lastRepositoryHead := fr_repositoryHead r, fe_sameDigestStreak := nextStreak r e,
            fe_lastChangeDigest := fr_changeDigest r, fe_lastFailureRecordId := Some (fr_failureRecordId r)\<rparr>)))"

definition noteOccurrence :: "failureRecord \<Rightarrow> string list \<Rightarrow> failureMemory \<Rightarrow> failureMemory" where
  "noteOccurrence r paths m =
    (case entryOf (fr_signature r) m of
       None \<Rightarrow> m\<lparr>fm_entries := fm_entries m @ [(emptyEntry (fr_signature r) (fr_createdAt r) r)\<lparr>fe_candidatePaths := paths\<rparr>],
                 fm_updatedAt := fr_createdAt r\<rparr>
     | Some _ \<Rightarrow> (changeEntry (fr_signature r) (seenAgain r paths) m)\<lparr>fm_updatedAt := fr_createdAt r\<rparr>)"

section \<open>The stored memory\<close>

definition loadMemory :: "'h failureSys_scheme \<Rightarrow> string \<Rightarrow> string \<Rightarrow> failureFiles \<Rightarrow> uadsError + failureMemory" where
  "loadMemory H now projectId f =
    (if fx_memory f = Missing then Inr (emptyMemoryAt projectId now) else readFailureMemory H f projectId)"

definition readMemory :: "'h failureSys_scheme \<Rightarrow> string \<Rightarrow> string \<Rightarrow> failureMemory fop" where
  "readMemory H now projectId = queryE (\<lambda>s. loadMemory H now projectId (fl_files s))"

definition upsertFailureOccurrence :: "'h failureSys_scheme \<Rightarrow> string \<Rightarrow> string \<Rightarrow> failureRecord \<Rightarrow> string list \<Rightarrow> failureMemory fop" where
  "upsertFailureOccurrence H now projectId r paths =
    bindE (readMemory H now projectId) (\<lambda>m. persistFailureMemory H (noteOccurrence r paths m))"

definition diagnosed :: "string \<Rightarrow> rankedCandidate list \<Rightarrow> (string \<times> string) list \<Rightarrow> memoryMatchKind option
    \<Rightarrow> failureMemoryEntry \<Rightarrow> failureMemoryEntry" where
  "diagnosed now candidates digests kind e =
    (let e1 = e\<lparr>fe_candidatePaths := map rk_path candidates, fe_candidateDigests := digests, fe_lastSeenAt := now\<rparr>;
         e2 = (if kind = Some HistoricalMatch \<and> fe_lastOutcome e1 = OutcomeResolved
               then e1\<lparr>fe_lastOutcome := OutcomeHistorical\<rparr> else e1)
     in looping e2)"

definition noteDiagnosisAttempt ::
  "'h failureSys_scheme \<Rightarrow> string \<Rightarrow> string \<Rightarrow> string \<Rightarrow> rankedCandidate list \<Rightarrow> (string \<times> string) list
     \<Rightarrow> memoryMatchKind option \<Rightarrow> failureMemoryEntry fop" where
  "noteDiagnosisAttempt H now projectId signature candidates digests kind =
    bindE (readMemory H now projectId) (\<lambda>m.
    case entryOf signature m of
      None \<Rightarrow> throwE (failureError ''failure memory entry missing for diagnosis'')
    | Some e \<Rightarrow>
        bindE (persistFailureMemory H
          ((changeEntry signature (diagnosed now candidates digests kind) m)\<lparr>fm_updatedAt := now\<rparr>)) (\<lambda>_.
        returnE (diagnosed now candidates digests kind e)))"

section \<open>Matching a memory against the index\<close>

definition basisPresent :: "indexBundle \<Rightarrow> failureMemoryEntry \<Rightarrow> bool" where
  "basisPresent B e \<longleftrightarrow> fe_validityBasisPaths e \<noteq> []
     \<and> list_all (\<lambda>p. p \<in> set (map if_path (is_files (ib_state B)))) (fe_validityBasisPaths e)"

definition basisUnchanged :: "indexBundle \<Rightarrow> failureMemoryEntry \<Rightarrow> bool" where
  "basisUnchanged B e \<longleftrightarrow> basisPresent B e
     \<and> list_all (\<lambda>p. truthy (map_of (fe_validityBasisDigests e) p)
                     \<and> map_of (fe_validityBasisDigests e) p = fileDigestOf B p) (fe_validityBasisPaths e)"

definition indexUsable :: "indexBundle \<Rightarrow> bool" where
  "indexUsable B \<longleftrightarrow> is_complete (ib_state B) \<and> \<not> is_truncated (ib_state B) \<and> \<not> is_stale (ib_state B)"

definition resolvedMatch :: "indexBundle \<Rightarrow> failureMemoryEntry \<Rightarrow> memoryMatch" where
  "resolvedMatch B e =
    (if basisUnchanged B e \<and> indexUsable B
     then \<lparr>mt_failureSignature = fe_failureSignature e, mt_kind = ReusableMatch, mt_reason =
       ''verified correction recurrence with compatible post-fix validity basis (advisory, not root-cause proof)''\<rparr>
     else \<lparr>mt_failureSignature = fe_failureSignature e, mt_kind = HistoricalMatch, mt_reason =
       (if \<not> basisPresent B e then ''historical validity-basis path missing from current index''
        else if \<not> basisUnchanged B e then ''candidate or dependency digest changed; memory is historical''
        else ''index is not current; memory is historical'')\<rparr>)"

definition evaluateMemoryMatch :: "string \<Rightarrow> string \<Rightarrow> failureMemory \<Rightarrow> indexBundle \<Rightarrow> memoryMatch option" where
  "evaluateMemoryMatch projectId signature m B =
    (if fm_projectId m \<noteq> projectId then None
     else case entryOf signature m of
       None \<Rightarrow> None
     | Some e \<Rightarrow>
         if fe_lastOutcome e = OutcomeResolved \<and> fe_validityBasisDigests e \<noteq> [] then Some (resolvedMatch B e)
         else if fe_occurrences e \<le> 1 \<and> fe_candidateDigests e = [] then None
         else Some \<lparr>mt_failureSignature = fe_failureSignature e, mt_kind = HistoricalMatch,
                    mt_reason = ''prior observation without current verified validity''\<rparr>)"

section \<open>A verified correction\<close>

text \<open>\<open>assertLiveMatchesExecutionDigest\<close>; the flag tells recording from resolving.\<close>

definition liveMismatch :: "bool \<Rightarrow> string" where
  "liveMismatch recording = (if recording
     then ''failure evidence rejected: live change digest differs from authoritative execution digest; run uads verify again''
     else ''verified resolution refused: repository state no longer matches the verified corrective digest'')"

definition assertLiveMatchesExecutionDigest ::
  "'h host_scheme \<Rightarrow> worktree \<Rightarrow> string \<Rightarrow> bool \<Rightarrow> uadsError + unit" where
  "assertLiveMatchesExecutionDigest H W expected recording =
    (if liveDigest H W = Inr expected then Inr () else Inl (failureError (liveMismatch recording)))"

definition differs :: "string option \<Rightarrow> string \<Rightarrow> bool" where
  "differs bound actual \<longleftrightarrow> truthy bound \<and> bound \<noteq> Some actual"

definition gatePassedAt :: "evidenceRecord list \<Rightarrow> string \<Rightarrow> string \<Rightarrow> bool" where
  "gatePassedAt evidence digest gateId \<longleftrightarrow>
     list_ex (\<lambda>v. ev_gateId v = gateId \<and> ev_changeDigest v = digest \<and> ev_status v = EvPass) evidence"

definition independentApproval :: "reviewRecord list \<Rightarrow> string \<Rightarrow> reviewRecord option" where
  "independentApproval reviews digest =
     find (\<lambda>v. rv_reviewerRole v = INDEPENDENT_REVIEWER_ROLE \<and> rv_changeDigest v = digest \<and> rv_verdict v = Approved) reviews"

definition correctiveRefs :: "executionRun \<Rightarrow> string \<Rightarrow> reviewRecord \<Rightarrow> evidenceRecord list \<Rightarrow> string list" where
  "correctiveRefs run digest review evidence =
     [''execution:'' @ run_executionRunId run, ''digest:'' @ digest, ''review:'' @ rv_reviewId review]
     @ map (\<lambda>v. ''evidence:'' @ ev_evidenceId v) (filter (\<lambda>v. ev_changeDigest v = digest \<and> ev_status v = EvPass) evidence)"

text \<open>The checks on the run itself, then on its evidence and reviews.\<close>

definition correctiveRun :: "failureRecord \<Rightarrow> executionRun \<Rightarrow> string \<Rightarrow> unit fop" where
  "correctiveRun r run digest =
    bindE (guardE (run_projectId run = fr_projectId r) (failureError ''cross-project execution resolution rejected'')) (\<lambda>_.
    bindE (guardE (run_status run = ExCompleted) (failureError ''verified resolution requires a completed execution run'')) (\<lambda>_.
    bindE (guardE (digest \<noteq> []) (failureError ''verified resolution requires a change digest'')) (\<lambda>_.
    bindE (guardE (\<not> differs (fr_executionRunId r) (run_executionRunId run))
             (failureError ''corrective execution is not the failure's bound run'')) (\<lambda>_.
    bindE (guardE (\<not> differs (fr_workOrderId r) (run_workOrderId run))
             (failureError ''corrective execution is not the failure's bound work order'')) (\<lambda>_.
    guardE (fr_changeDigest r \<noteq> Some digest) (failureError ''verified resolution requires a new change digest''))))))"

definition readRunFor :: "'h failureSys_scheme \<Rightarrow> string \<Rightarrow> executionRun fop" where
  "readRunFor H runId = queryE (\<lambda>s. case readExecutionRun H (fl_sidecar s) runId of
     Inl _ \<Rightarrow> Inl (failureError ''corrective execution run missing or corrupt'') | Inr run \<Rightarrow> Inr run)"

definition assertCorrectiveExecution ::
  "'h failureSys_scheme \<Rightarrow> failureRecord \<Rightarrow> string \<Rightarrow> (string \<times> string list \<times> string list) fop" where
  "assertCorrectiveExecution H r runId =
    bindE (guardE (truthy (fr_executionRunId r) \<or> truthy (fr_workOrderId r))
             (failureError ''standalone failure cannot claim verified resolution from an execution'')) (\<lambda>_.
    bindE (readRunFor H runId) (\<lambda>run. let digest = or_empty (run_currentChangeDigest run) in
    bindE (correctiveRun r run digest) (\<lambda>_.
    bindE (queryE (\<lambda>s. listEvidenceRecords H (fl_sidecar s) (run_executionRunId run))) (\<lambda>evidence.
    bindE (queryE (\<lambda>s. listReviewRecords H (fl_sidecar s) (run_executionRunId run))) (\<lambda>reviews.
    bindE (case find (\<lambda>g. \<not> isReviewGate g \<and> \<not> gatePassedAt evidence digest g) (run_selectedGates run) of
             Some g \<Rightarrow> throwE (failureError (''required gate '' @ g @ '' is not PASS on the corrective digest''))
           | None \<Rightarrow> returnE ()) (\<lambda>_.
    case independentApproval reviews digest of
      None \<Rightarrow> throwE (failureError ''verified resolution requires independent assurance on the corrective digest'')
    | Some review \<Rightarrow> returnE (digest, correctiveRefs run digest review evidence, run_changedFiles run)))))))"

definition safePathText :: "string \<Rightarrow> bool" where
  "safePathText p \<longleftrightarrow> truthy (assertSafeRelativeProjectPath p)"

definition framePaths :: "failureRecord \<Rightarrow> string list" where
  "framePaths r = List.map_filter (\<lambda>f. if truthy (sk_path f) then sk_path f else None) (fr_stackFrames r)"

definition resolvedEntry ::
  "string \<Rightarrow> string \<Rightarrow> string \<Rightarrow> string list \<Rightarrow> string list \<Rightarrow> (string \<times> string) list \<Rightarrow> string \<Rightarrow> failureMemoryEntry \<Rightarrow> failureMemoryEntry" where
  "resolvedEntry now runId digest refs paths basis indexDigest e =
    e\<lparr>fe_verifiedRootCausePaths := [], fe_verifiedCorrectionPaths := paths, fe_validityBasisPaths := map fst basis,
      fe_validityBasisDigests := basis, fe_resolutionEvidenceRefs := refs, fe_resolutionExecutionRunId := Some runId,
      fe_resolutionChangeDigest := Some digest, fe_resolutionIndexDigest := Some indexDigest,
      fe_resolutionSummary := Some ''verified correction bound to completed execution; root cause remains unproven'',
      fe_lastOutcome := OutcomeResolved, fe_lastChangeDigest := Some digest, fe_lastSeenAt := now\<rparr>"

definition commitResolution ::
  "'h failureSys_scheme \<Rightarrow> execEnv \<Rightarrow> failureRecord \<Rightarrow> string \<Rightarrow> string \<times> string list \<times> string list \<Rightarrow> indexBundle \<Rightarrow> failureMemory fop" where
  "commitResolution H V r runId corrective B =
    (case corrective of (digest, refs, changed) \<Rightarrow>
      let now = en_now V; paths = filter safePathText changed;
          basis = buildValidityBasis H B (framePaths r @ paths);
          resolve = resolvedEntry now runId digest refs paths basis (is_indexDigest (ib_state B))
      in bindE (readMemory H now (en_projectId V)) (\<lambda>m.
         case entryOf (fr_signature r) m of
           None \<Rightarrow> throwE (failureError ''failure memory entry missing for resolution'')
         | Some _ \<Rightarrow>
             let m' = (changeEntry (fr_signature r) resolve m)\<lparr>fm_updatedAt := now\<rparr>
             in bindE (persistFailureMemory H m') (\<lambda>_.
                bindE (persistFailureRecord H (r\<lparr>fr_status := FailResolved\<rparr>) False) (\<lambda>_.
                returnE m'))))"

definition markVerifiedResolution :: "'h failureSys_scheme \<Rightarrow> execEnv \<Rightarrow> string \<Rightarrow> string \<Rightarrow> failureMemory fop" where
  "markVerifiedResolution H V failureRecordId runId =
    bindE (queryE (\<lambda>s. readFailureRecord H (fl_files s) failureRecordId)) (\<lambda>r.
    bindE (guardE (fr_projectId r = en_projectId V) (failureError ''cross-project failure resolution rejected'')) (\<lambda>_.
    bindE (assertCorrectiveExecution H r runId) (\<lambda>corrective.
    bindE (liftE (assertLiveMatchesExecutionDigest H (en_tree V) (fst corrective) False)) (\<lambda>_.
    bindE (onCore (currentOrRefreshIndex H V 0)) (\<lambda>B.
    bindE (guardE (\<not> incompleteIndex B)
             (failureError ''index is incomplete; cannot persist verified correction memory'')) (\<lambda>_.
    commitResolution H V r runId corrective B))))))"

section \<open>Rows for display\<close>

record failureRow =
  ro_signaturePrefix :: string
  ro_occurrences :: nat
  ro_lastOutcome :: memoryOutcome
  ro_lastSeenAt :: string
  ro_reusable :: bool
  ro_rootCauseVerified :: bool

definition compactFailureRows :: "'h host_scheme \<Rightarrow> failureMemory \<Rightarrow> failureRow list" where
  "compactFailureRows H m =
    map (\<lambda>e. \<lparr>ro_signaturePrefix = take 12 (fe_failureSignature e), ro_occurrences = fe_occurrences e,
              ro_lastOutcome = fe_lastOutcome e, ro_lastSeenAt = fe_lastSeenAt e,
              ro_reusable = (fe_lastOutcome e = OutcomeResolved \<and> fe_validityBasisDigests e \<noteq> []),
              ro_rootCauseVerified = (fe_verifiedRootCausePaths e \<noteq> [])\<rparr>)
      (sort_with (\<lambda>a b. localeCompare H (fe_lastSeenAt b) (fe_lastSeenAt a) \<le> 0) (fm_entries m))"

end
