(* ===== verification/Fault_Localization.thy ===== *)
theory Fault_Localization
  imports Failure_Memory
begin

text \<open>
  The ranking of \<^verbatim>\<open>src/kernel/fault-localization.ts\<close>: every signal that points at a file adds its
  weight once; the candidates are ordered by score. A score is a sum of weights rounded to four
  decimals by \<open>toFixed\<close>, which is the exact sum, because every weight is a multiple of one
  hundredth and the error of the floating-point sum is far below the rounding. The comparison of
  two scores by their difference is done on binary floating-point numbers, as in the code.
\<close>

section \<open>Binary floating point\<close>

definition round_half_even :: "rat \<Rightarrow> int" where
  "round_half_even x = (let f = \<lfloor>x\<rfloor>; d = x - of_int f in
     if d < 1 / 2 then f else if 1 / 2 < d then f + 1 else if even f then f else f + 1)"

text \<open>The nearest double of a number between 0 and 1.\<close>

definition double_of :: "rat \<Rightarrow> rat" where
  "double_of x = (case find (\<lambda>e. 2 ^ 52 \<le> x * 2 ^ e) [52..<120] of
     None \<Rightarrow> 0 | Some e \<Rightarrow> of_int (round_half_even (x * 2 ^ e)) / 2 ^ e)"

text \<open>\<open>Math.abs(a - b) <= 0.02\<close>\<close>

definition closeScores :: "rat \<Rightarrow> rat \<Rightarrow> bool" where
  "closeScores a b \<longleftrightarrow> double_of \<bar>double_of a - double_of b\<bar> \<le> double_of (2 / 100)"

section \<open>Signals\<close>

definition WEIGHTS :: "(string \<times> rat) list" where
  "WEIGHTS = [(''stack'', 40 / 100), (''failing-test'', 30 / 100), (''tested-by'', 25 / 100), (''related-changed'', 20 / 100),
     (''dep-neighbor'', 12 / 100), (''interface'', 10 / 100), (''local-module'', 8 / 100), (''reusable-memory'', 6 / 100),
     (''shared-utility'', 18 / 100)]"

definition weightOf :: "string \<Rightarrow> rat" where
  "weightOf signal = (case map_of WEIGHTS signal of None \<Rightarrow> 0 | Some w \<Rightarrow> w)"

record faultSignal =
  sg_path :: string
  sg_signal :: string
  sg_reason :: string

definition mkSignal :: "string \<Rightarrow> string \<Rightarrow> string \<Rightarrow> faultSignal" where
  "mkSignal signal reason p = \<lparr>sg_path = p, sg_signal = signal, sg_reason = reason\<rparr>"

section \<open>What points at which file\<close>

definition testFilesOf :: "failureRecord \<Rightarrow> string list" where
  "testFilesOf r = List.map_filter (\<lambda>t. if truthy (ft_file t) then ft_file t else None) (fr_failingTests r)"

definition testedSources :: "indexBundle \<Rightarrow> failureRecord \<Rightarrow> string list" where
  "testedSources B r = map tr_source (filter (\<lambda>x. tr_test x \<in> set (testFilesOf r)) (ib_tests B))"

definition failureSeeds :: "indexBundle \<Rightarrow> failureRecord \<Rightarrow> string list" where
  "failureSeeds B r = dedup (framePaths r @ testFilesOf r @ testedSources B r)"

definition relatedToSeeds :: "indexBundle \<Rightarrow> string list \<Rightarrow> string \<Rightarrow> bool" where
  "relatedToSeeds B seeds changed \<longleftrightarrow>
     changed \<in> set seeds \<or> list_ex (\<lambda>s. dirOf s = dirOf changed) seeds
     \<or> list_ex (\<lambda>e. (ge_source e = changed \<and> ge_target e \<in> set seeds) \<or> (ge_target e = changed \<and> ge_source e \<in> set seeds))
         (dg_edges (ib_graph B))
     \<or> list_ex (\<lambda>x. (tr_test x = changed \<and> tr_source x \<in> set seeds) \<or> (tr_source x = changed \<and> tr_test x \<in> set seeds))
         (ib_tests B)"

definition isTestPath :: "string \<Rightarrow> bool" where
  "isTestPath p \<longleftrightarrow> includes_text ''.test.'' p \<or> includes_text ''.spec.'' p \<or> includes_text ''/tests/'' p"

definition codeEdges :: "indexBundle \<Rightarrow> graphEdge list" where
  "codeEdges B = filter (\<lambda>e. isCodeDep (ge_type e)) (dg_edges (ib_graph B))"

definition dependencySignals :: "string list \<Rightarrow> graphEdge \<Rightarrow> faultSignal list" where
  "dependencySignals seeds e =
     (if ge_source e \<in> set seeds \<and> ge_target e \<noteq> ge_source e
      then [mkSignal ''dep-neighbor'' ''dependency of a failure seed'' (ge_target e)] else [])
     @ (if ge_target e \<in> set seeds \<and> ge_source e \<noteq> ge_target e
        then [mkSignal ''dep-neighbor'' ''dependent of a failure seed'' (ge_source e)] else [])"

text \<open>The seeds, tests apart, that import a file; a file with two of them is a shared utility.\<close>

definition utilityEdges :: "indexBundle \<Rightarrow> string list \<Rightarrow> graphEdge list" where
  "utilityEdges B seeds = filter (\<lambda>e. ge_source e \<in> set seeds \<and> ge_target e \<noteq> ge_source e) (codeEdges B)"

definition ownersOf :: "indexBundle \<Rightarrow> string list \<Rightarrow> string \<Rightarrow> string list" where
  "ownersOf B seeds p = dedup (map ge_source
     (filter (\<lambda>e. ge_target e = p \<and> \<not> isTestPath (ge_source e)) (utilityEdges B seeds)))"

definition sharedUtilities :: "indexBundle \<Rightarrow> string list \<Rightarrow> string list" where
  "sharedUtilities B seeds =
     filter (\<lambda>p. 2 \<le> length (ownersOf B seeds p)) (dedup (map ge_target (utilityEdges B seeds)))"

definition interfaceSignals :: "string list \<Rightarrow> graphEdge \<Rightarrow> faultSignal list" where
  "interfaceSignals seeds e = (if ge_type e \<noteq> InterfaceReferenceEdge then [] else
     (if ge_source e \<in> set seeds then [mkSignal ''interface'' ''Interface Map neighbor'' (ge_target e)] else [])
     @ (if ge_target e \<in> set seeds then [mkSignal ''interface'' ''Interface Map neighbor'' (ge_source e)] else []))"

definition moduleSignals :: "indexBundle \<Rightarrow> string \<Rightarrow> faultSignal list" where
  "moduleSignals B seed = map (\<lambda>n. mkSignal ''local-module'' ''owning/local module neighbor'' (gn_path n))
     (filter (\<lambda>n. gn_path n \<noteq> seed \<and> dirOf (gn_path n) = dirOf seed
                 \<and> (gn_kind n = SourceFile \<or> gn_kind n = TestFile \<or> gn_kind n = SchemaFile)) (dg_nodes (ib_graph B)))"

definition faultSignals :: "failureRecord \<Rightarrow> indexBundle \<Rightarrow> string list \<Rightarrow> string list \<Rightarrow> faultSignal list" where
  "faultSignals r B changedFiles reusablePaths =
    (let seeds = failureSeeds B r in
     map (mkSignal ''stack'' ''stack frame in repository'') (framePaths r)
     @ map (mkSignal ''failing-test'' ''failing test file'') (testFilesOf r)
     @ map (mkSignal ''tested-by'' ''Test Map source of a failing test'') (testedSources B r)
     @ map (mkSignal ''related-changed'' ''recent change related to failure evidence'') (filter (relatedToSeeds B seeds) changedFiles)
     @ concat (map (dependencySignals seeds) (codeEdges B)) @ map (mkSignal ''shared-utility'' ''shared utility imported by multiple failing modules'') (sharedUtilities B seeds)
     @ concat (map (interfaceSignals seeds) (dg_edges (ib_graph B))) @ concat (map (moduleSignals B) seeds)
     @ map (mkSignal ''reusable-memory'' ''reusable Failure Memory match (advisory)'') reusablePaths)"

section \<open>Scores\<close>

record faultScore =
  sq_score :: rat
  sq_signals :: "string list"
  sq_reasons :: "string list"

type_synonym faultScores = "(string \<times> faultScore) list"

definition addSignal :: "(string \<Rightarrow> bool) \<Rightarrow> faultSignal \<Rightarrow> faultScores \<Rightarrow> faultScores" where
  "addSignal admitted g scores =
    (if sg_path g = [] \<or> \<not> admitted (sg_path g) then scores
     else let current = (case map_of scores (sg_path g) of Some c \<Rightarrow> c | None \<Rightarrow> \<lparr>sq_score = 0, sq_signals = [], sq_reasons = []\<rparr>)
          in write_entry (sg_path g) (if sg_signal g \<in> set (sq_signals current) then current
               else \<lparr>sq_score = sq_score current + weightOf (sg_signal g), sq_signals = sq_signals current @ [sg_signal g],
                     sq_reasons = sq_reasons current @ [sg_reason g]\<rparr>) scores)"

definition clampScore :: "rat \<Rightarrow> rat" where
  "clampScore x = min 1 x"

definition confidenceFor :: "rat \<Rightarrow> hypothesisConfidence" where
  "confidenceFor score = (if 50 / 100 \<le> score then HypHigh else if 25 / 100 \<le> score then HypMedium else HypLow)"

definition candidateOf :: "string \<times> faultScore \<Rightarrow> rankedCandidate" where
  "candidateOf c = \<lparr>rk_path = fst c, rk_score = clampScore (sq_score (snd c)),
     rk_confidence = confidenceFor (clampScore (sq_score (snd c))), rk_signals = sq_signals (snd c),
     rk_reason = join_with ''; '' (sq_reasons (snd c))\<rparr>"

definition candidate_le :: "'h host_scheme \<Rightarrow> rankedCandidate \<Rightarrow> rankedCandidate \<Rightarrow> bool" where
  "candidate_le H a b \<longleftrightarrow> rk_score b < rk_score a \<or> (rk_score a = rk_score b \<and> locale_le H (rk_path a) (rk_path b))"

definition admittedPath :: "indexBundle \<Rightarrow> string list \<Rightarrow> string \<Rightarrow> bool" where
  "admittedPath B seeds p \<longleftrightarrow> p \<in> set (map if_path (is_files (ib_state B))) \<or> p \<in> set seeds"

definition scoresOf :: "failureRecord \<Rightarrow> indexBundle \<Rightarrow> string list \<Rightarrow> string list \<Rightarrow> faultScores" where
  "scoresOf r B changedFiles reusablePaths =
     fold (addSignal (admittedPath B (failureSeeds B r))) (faultSignals r B changedFiles reusablePaths) []"

definition rankFaultCandidates ::
  "'h host_scheme \<Rightarrow> failureRecord \<Rightarrow> indexBundle \<Rightarrow> string list \<Rightarrow> string list \<Rightarrow> rankedCandidate list" where
  "rankFaultCandidates H r B changedFiles reusablePaths =
     sort_with (candidate_le H) (map candidateOf (scoresOf r B changedFiles reusablePaths))"

section \<open>What follows from the ranking\<close>

definition diagnosisStatusOf :: "rankedCandidate list \<Rightarrow> diagnosisStatus" where
  "diagnosisStatusOf cs = (case cs of
     [] \<Rightarrow> NeedsEvidence
   | best # rest \<Rightarrow>
       if rk_score best < 25 / 100 then NeedsEvidence
       else (case rest of
          second # _ \<Rightarrow> if 25 / 100 \<le> rk_score second \<and> closeScores (rk_score best) (rk_score second) then Ambiguous else Localized
        | [] \<Rightarrow> Localized))"

definition focusedSignals :: "rankedCandidate list \<Rightarrow> string set" where
  "focusedSignals cs = (\<Union>c\<in>set (take 5 (filter (\<lambda>c. 25 / 100 \<le> rk_score c) cs)). set (rk_signals c))"

definition radiusFromSignals :: "rankedCandidate list \<Rightarrow> contextRadius" where
  "radiusFromSignals cs = (let signals = focusedSignals cs in
     if ''shared-utility'' \<in> signals \<or> ''dep-neighbor'' \<in> signals then C3
     else if ''tested-by'' \<in> signals \<or> ''local-module'' \<in> signals \<or> ''interface'' \<in> signals then C2
     else C1)"

fun bumpRadius :: "contextRadius \<Rightarrow> contextRadius" where
  "bumpRadius C0 = C1" | "bumpRadius C1 = C2" | "bumpRadius C2 = C3" | "bumpRadius C3 = C4"
| "bumpRadius C4 = C4" | "bumpRadius C5 = C4"

definition nextEvidenceFor :: "diagnosisStatus \<Rightarrow> rankedCandidate list \<Rightarrow> string list" where
  "nextEvidenceFor status cs =
    (if status = NeedsEvidence then [''record a stack frame, failing test, or command output bound to the current change digest'']
     else if status = Ambiguous then [''collect a more specific stack or failing-test pointer to distinguish equivalent candidates'']
     else (case cs of c # _ \<Rightarrow>
         if rk_confidence c \<noteq> HypHigh then [''inspect the top candidate and its focused test before expanding radius''] else []
       | [] \<Rightarrow> []))"

end
