(* ===== verification/Regex_Match.thy ===== *)
theory Regex_Match
  imports Safe_Path
begin

text \<open>
  The part of ECMAScript regular expressions that the program uses, with its backtracking order:
  \<open>matchEnds r s i g\<close> lists the ends of all matches of \<open>r\<close> in \<open>s\<close> from position \<open>i\<close>, the preferred
  one first, each with the groups it has captured. A repetition is always of one character class.
\<close>

section \<open>Expressions\<close>

datatype regex =
    Empty
  | Class "char \<Rightarrow> bool"
  | Both regex regex
  | Either regex regex
  | Greedy nat "char \<Rightarrow> bool"
  | Lazy nat "char \<Rightarrow> bool"
  | Group nat regex
  | WordBoundary
  | NotAhead "char \<Rightarrow> bool"
  | LineStart
  | LineEnd
  | TextEnd

type_synonym captures = "(nat \<times> nat \<times> nat) list"

definition is_word :: "char \<Rightarrow> bool" where
  "is_word c \<longleftrightarrow> is_alnum c \<or> c = CHR ''_''"

definition is_newline :: "char \<Rightarrow> bool" where
  "is_newline c \<longleftrightarrow> c = CHR 0x0A \<or> c = CHR 0x0D"

definition wordAt :: "string \<Rightarrow> nat \<Rightarrow> bool" where
  "wordAt s i \<longleftrightarrow> i < length s \<and> is_word (s ! i)"

definition boundaryAt :: "string \<Rightarrow> nat \<Rightarrow> bool" where
  "boundaryAt s i \<longleftrightarrow> wordAt s i \<noteq> (0 < i \<and> wordAt s (i - 1))"

definition classRun :: "(char \<Rightarrow> bool) \<Rightarrow> string \<Rightarrow> nat \<Rightarrow> nat" where
  "classRun p s i = length (takeWhile p (drop i s))"

fun matchEnds :: "regex \<Rightarrow> string \<Rightarrow> nat \<Rightarrow> captures \<Rightarrow> (nat \<times> captures) list" where
  "matchEnds Empty s i g = [(i, g)]"
| "matchEnds (Class p) s i g = (if i < length s \<and> p (s ! i) then [(Suc i, g)] else [])"
| "matchEnds (Both a b) s i g = concat (map (\<lambda>(j, h). matchEnds b s j h) (matchEnds a s i g))"
| "matchEnds (Either a b) s i g = matchEnds a s i g @ matchEnds b s i g"
| "matchEnds (Greedy n p) s i g = map (\<lambda>k. (i + k, g)) (rev [n..<Suc (classRun p s i)])"
| "matchEnds (Lazy n p) s i g = map (\<lambda>k. (i + k, g)) [n..<Suc (classRun p s i)]"
| "matchEnds (Group n r) s i g = map (\<lambda>(j, h). (j, (n, i, j) # h)) (matchEnds r s i g)"
| "matchEnds WordBoundary s i g = (if boundaryAt s i then [(i, g)] else [])"
| "matchEnds (NotAhead p) s i g = (if i < length s \<and> p (s ! i) then [] else [(i, g)])"
| "matchEnds LineStart s i g = (if i = 0 \<or> is_newline (s ! (i - 1)) then [(i, g)] else [])"
| "matchEnds LineEnd s i g = (if length s \<le> i \<or> is_newline (s ! i) then [(i, g)] else [])"
| "matchEnds TextEnd s i g = (if length s \<le> i then [(i, g)] else [])"

text \<open>Abbreviated forms.\<close>

fun sequence :: "regex list \<Rightarrow> regex" where
  "sequence [] = Empty"
| "sequence [r] = r"
| "sequence (r # rs) = Both r (sequence rs)"

fun choice :: "regex list \<Rightarrow> regex" where
  "choice [] = Class (\<lambda>_. False)"
| "choice [r] = r"
| "choice (r # rs) = Either r (choice rs)"

definition optional :: "regex \<Rightarrow> regex" where
  "optional r = Either r Empty"

definition literal :: "string \<Rightarrow> regex" where
  "literal t = sequence (map (\<lambda>c. Class ((=) c)) t)"

text \<open>With the flag \<open>i\<close>.\<close>

definition literalI :: "string \<Rightarrow> regex" where
  "literalI t = sequence (map (\<lambda>c. Class (\<lambda>d. lower_char d = lower_char c)) t)"

definition oneOf :: "string \<Rightarrow> char \<Rightarrow> bool" where
  "oneOf cs c \<longleftrightarrow> c \<in> set cs"

definition noneOf :: "string \<Rightarrow> char \<Rightarrow> bool" where
  "noneOf cs c \<longleftrightarrow> c \<notin> set cs"

definition anyChar :: "char \<Rightarrow> bool" where
  "anyChar c \<longleftrightarrow> True"

definition notNewline :: "char \<Rightarrow> bool" where
  "notNewline c \<longleftrightarrow> \<not> is_newline c"

definition between :: "nat \<Rightarrow> nat \<Rightarrow> (char \<Rightarrow> bool) \<Rightarrow> regex" where
  "between lo hi p = choice (map (\<lambda>n. sequence (replicate n (Class p))) (rev [lo..<Suc hi]))"

definition notSpace :: "char \<Rightarrow> bool" where
  "notSpace c \<longleftrightarrow> \<not> is_space c"

section \<open>Searching\<close>

type_synonym occurrence = "nat \<times> nat \<times> captures"

definition matchAt :: "regex \<Rightarrow> string \<Rightarrow> nat \<Rightarrow> (nat \<times> captures) option" where
  "matchAt r s i = (case matchEnds r s i [] of [] \<Rightarrow> None | m # _ \<Rightarrow> Some m)"

text \<open>\<open>s.matchAll(r)\<close> from a position: start, end and groups of each match; an empty match moves on by one.\<close>

function matchesFrom :: "regex \<Rightarrow> string \<Rightarrow> nat \<Rightarrow> occurrence list" where
  "matchesFrom r s i =
    (if length s < i then []
     else case matchAt r s i of
       None \<Rightarrow> matchesFrom r s (Suc i)
     | Some (j, g) \<Rightarrow> (i, j, g) # matchesFrom r s (max j (Suc i)))"
  by pat_completeness auto

termination
  by (relation "measure (\<lambda>(r, s, i). Suc (length s) - i)") auto

declare matchesFrom.simps [simp del]

definition matchAll :: "regex \<Rightarrow> string \<Rightarrow> occurrence list" where
  "matchAll r s = matchesFrom r s 0"

definition testRegex :: "regex \<Rightarrow> string \<Rightarrow> bool" where
  "testRegex r s \<longleftrightarrow> list_ex (\<lambda>i. matchAt r s i \<noteq> None) [0..<Suc (length s)]"

definition slice :: "string \<Rightarrow> nat \<Rightarrow> nat \<Rightarrow> string" where
  "slice s i j = take (j - i) (drop i s)"

definition groupText :: "string \<Rightarrow> captures \<Rightarrow> nat \<Rightarrow> string option" where
  "groupText s g n = map_option (\<lambda>(i, j). slice s i j) (map_of g n)"

text \<open>\<open>s.replace(r, rep)\<close> with the flag \<open>g\<close>: what stands between the matches.\<close>

fun replaceMatches :: "string \<Rightarrow> string \<Rightarrow> nat \<Rightarrow> occurrence list \<Rightarrow> string" where
  "replaceMatches rep s i [] = drop i s"
| "replaceMatches rep s i ((j, k, g) # ms) = slice s i j @ rep @ replaceMatches rep s k ms"

definition replaceAll :: "regex \<Rightarrow> string \<Rightarrow> string \<Rightarrow> string" where
  "replaceAll r rep s = replaceMatches rep s 0 (matchAll r s)"

definition matchTexts :: "regex \<Rightarrow> string \<Rightarrow> string list" where
  "matchTexts r s = map (\<lambda>(i, j, g). slice s i j) (matchAll r s)"

fun index_of :: "string \<Rightarrow> string \<Rightarrow> nat option" where
  "index_of t [] = (if t = [] then Some 0 else None)"
| "index_of t (c # cs) = (if starts_with t (c # cs) then Some 0 else map_option Suc (index_of t cs))"

section \<open>Where matches lie\<close>

lemma classRun_bound: "i \<le> length s \<Longrightarrow> i + classRun p s i \<le> length s"
  unfolding classRun_def by (metis add_leD1 le_diff_conv2 length_drop length_takeWhile_le add.commute)

lemma matchEnds_bounds:
  "(j, h) \<in> set (matchEnds r s i g) \<Longrightarrow> i \<le> length s \<Longrightarrow> i \<le> j \<and> j \<le> length s"
proof (induction r arbitrary: i j g h)
  case (Both a b)
  from Both.prems obtain k e where "(k, e) \<in> set (matchEnds a s i g)" "(j, h) \<in> set (matchEnds b s k e)"
    by auto
  with Both.IH Both.prems(2) show ?case by (meson le_trans)
next
  case (Either a b)
  then show ?case by auto
next
  case (Greedy n p)
  then obtain k where "j = i + k" "k \<le> classRun p s i" by auto
  with classRun_bound [OF Greedy.prems(2), of p] show ?case by simp
next
  case (Lazy n p)
  then obtain k where "j = i + k" "k \<le> classRun p s i" by auto
  with classRun_bound [OF Lazy.prems(2), of p] show ?case by simp
qed (auto split: if_splits)

lemma matchAt_bounds: "matchAt r s i = Some (j, g) \<Longrightarrow> i \<le> length s \<Longrightarrow> i \<le> j \<and> j \<le> length s"
  using matchEnds_bounds [of j g r s i "[]"] by (auto simp: matchAt_def split: list.splits)

lemma matchesFrom_bounds:
  "(a, b, g) \<in> set (matchesFrom r s i) \<Longrightarrow> i \<le> a \<and> a \<le> b \<and> b \<le> length s"
proof (induction r s i rule: matchesFrom.induct)
  case (1 r s i)
  show ?case
  proof (cases "length s < i")
    case True
    with 1(3) show ?thesis by (simp add: matchesFrom.simps [of r s i])
  next
    case False
    then show ?thesis
      using 1 matchAt_bounds [of r s i]
      by (cases "matchAt r s i") (fastforce simp: matchesFrom.simps [of r s i])+
  qed
qed

end
