(* ===== verification/Failure_Signature.thy ===== *)
theory Failure_Signature
  imports Failure_Types Json Regex_Match
begin

text \<open>
  \<^verbatim>\<open>src/kernel/failure-signature.ts\<close>: what stays of a failure when times, line numbers and host
  paths are removed, as a digest.
\<close>

section \<open>The patterns\<close>

definition VOLATILE :: regex where
  "VOLATILE = choice [
     sequence [between 4 4 is_digit, literal ''-'', between 2 2 is_digit, literal ''-'', between 2 2 is_digit, literal ''T'',
       Greedy 1 (\<lambda>c. is_digit c \<or> oneOf '':.Z+-'' c)],
     sequence [WordBoundary, between 10 13 is_digit, WordBoundary],
     sequence [literal '':'', Greedy 1 is_digit, optional (sequence [literal '':'', Greedy 1 is_digit])]]"

definition DRIVE_PATH :: regex where
  "DRIVE_PATH = sequence [WordBoundary, Class is_letter, literal ('':'' @ [backslash]), Greedy 1 notSpace]"

definition HOME_PATH :: regex where
  "HOME_PATH = sequence [literal ''/'', choice [literal ''home'', literal ''Users''], literal ''/'', Greedy 1 notSpace]"

definition ERROR_CODE :: regex where
  "ERROR_CODE = sequence [WordBoundary, choice [literal ''TS'', literal ''E''], between 3 5 is_digit, WordBoundary]"

section \<open>The signature\<close>

definition stableTokens :: "'h host_scheme \<Rightarrow> string \<Rightarrow> string" where
  "stableTokens H summary =
     take 180 (trim (squash_spaces (replaceAll HOME_PATH '' '' (replaceAll DRIVE_PATH '' ''
       (replaceAll VOLATILE '' '' (sanitizeOperationalText H summary))))))"

definition errorCodes :: "string \<Rightarrow> string list" where
  "errorCodes summary = dedup (sort_with code_unit_le (matchTexts ERROR_CODE summary))"

definition failureSource_text :: "failureSource \<Rightarrow> string" where
  "failureSource_text s = (case s of TestFailure \<Rightarrow> ''test'' | LintFailure \<Rightarrow> ''lint'' | TypecheckFailure \<Rightarrow> ''typecheck''
     | BuildFailure \<Rightarrow> ''build'' | RuntimeFailure \<Rightarrow> ''runtime'' | GateFailure \<Rightarrow> ''gate'' | ManualEvidence \<Rightarrow> ''manual-evidence'')"

definition failureClass_text :: "failureClass \<Rightarrow> string" where
  "failureClass_text c = (case c of AssertionClass \<Rightarrow> ''assertion'' | ExceptionClass \<Rightarrow> ''exception'' | CompileClass \<Rightarrow> ''compile''
     | TypeClass \<Rightarrow> ''type'' | LintClass \<Rightarrow> ''lint'' | CommandClass \<Rightarrow> ''command'' | TimeoutClass \<Rightarrow> ''timeout''
     | UnknownFailure \<Rightarrow> ''unknown'')"

definition repoFramePaths :: "stackFrame list \<Rightarrow> string list" where
  "repoFramePaths fs = List.map_filter (\<lambda>f. if sk_inRepo f \<and> truthy (sk_path f) then sk_path f else None) fs"

definition commandText :: "'h host_scheme \<Rightarrow> string option \<Rightarrow> string" where
  "commandText H command = (if truthy command
     then trim (replaceAll VOLATILE '' '' (sanitizeOperationalText H (or_empty command))) else [])"

definition computeFailureSignature ::
  "'h host_scheme \<Rightarrow> failureSource \<Rightarrow> string option \<Rightarrow> failureClass \<Rightarrow> stackFrame list \<Rightarrow> failingTest list \<Rightarrow> string \<Rightarrow> string" where
  "computeFailureSignature H source command failClass frames tests summary = sha256Json H (JObj
     [(''source'', JStr (failureSource_text source)), (''command'', JStr (commandText H command)),
      (''failureClass'', JStr (failureClass_text failClass)),
      (''frames'', jstrs (sort_with (locale_le H) (repoFramePaths frames))),
      (''tests'', jstrs (sort_with (locale_le H) (map ft_id tests))),
      (''codes'', jstrs (errorCodes summary)), (''tokens'', JStr (stableTokens H summary))])"

text \<open>The patterns on a text that has them all.\<close>

lemma volatile_example: "replaceAll VOLATILE '' '' ''2024-01-02T03:04Z a:12:7 1234567890'' = ''  a   ''"
  by code_simp

lemma codes_example: "errorCodes ''TS2345 E404 XTS999 TS12'' = [''E404'', ''TS2345'']"
  by code_simp

lemma paths_example: "replaceAll HOME_PATH '' '' (replaceAll DRIVE_PATH '' '' (''C:'' @ [backslash] @ ''x y /home/z'')) = ''  y  ''"
  by code_simp

end
