(* ===== verification/Failure_Diagnosis.thy ===== *)
theory Failure_Diagnosis
  imports Fault_Localization Failure_Signature
begin

text \<open>
  \<open>recordFailure\<close> and \<open>diagnoseFailure\<close> of \<^verbatim>\<open>src/kernel/fault-localization.ts\<close>, and the
  binding of a failure to the current run (\<^verbatim>\<open>failure-binding.ts\<close>). The parser of failure texts
  (\<^verbatim>\<open>failure-normalize.ts\<close>) is an argument, as is which errors of the index say that it is
  incomplete.
\<close>

record failureEnv = execEnv +
  fv_gitHead :: "string option"
  fv_isIncomplete :: "uadsError \<Rightarrow> bool"
  fv_normalize :: "string list \<Rightarrow> string \<Rightarrow> failureSource \<Rightarrow> normalizedFailureText"

section \<open>Binding to a run\<close>

record failureBinding =
  fb_workOrderId :: "string option"
  fb_executionRunId :: "string option"
  fb_changeDigest :: "string option"
  fb_standalone :: bool

definition computeFailureAttemptDigest ::
  "'h host_scheme \<Rightarrow> worktree \<Rightarrow> string option \<Rightarrow> string option \<Rightarrow> uadsError + string" where
  "computeFailureAttemptDigest H W gitHead indexDigest =
    (let entries = listChangedEntries (wt_status W);
         none = (\<lambda>v. case v of None \<Rightarrow> ''none'' | Some x \<Rightarrow> x);
         identity = ''head:'' @ none gitHead @ '':index:'' @ none indexDigest;
         unknown = Inl (failureError ''cannot establish failure attempt identity'')
     in if entries \<noteq> [] then
          (case liveDigestOf H W entries of
             Inr d \<Rightarrow> Inr d
           | Inl _ \<Rightarrow> if \<not> truthy indexDigest \<and> \<not> truthy gitHead then unknown
                      else Inr (sha256Hex H (identity @ '':nogit'')))
        else if \<not> truthy gitHead \<and> \<not> truthy indexDigest then unknown
        else Inr (sha256Hex H (identity @ '':worktree:'' @ worktreeContentDigest H (identityOf H W) (wt_status W))))"

definition runBinding :: "executionRun \<Rightarrow> failureBinding" where
  "runBinding run = \<lparr>fb_workOrderId = Some (run_workOrderId run), fb_executionRunId = Some (run_executionRunId run),
     fb_changeDigest = run_currentChangeDigest run, fb_standalone = False\<rparr>"

definition bindLive :: "'h host_scheme \<Rightarrow> worktree option \<Rightarrow> failureBinding \<Rightarrow> uadsError + failureBinding" where
  "bindLive H W b =
    (case W of None \<Rightarrow> Inr b
     | Some tree \<Rightarrow> if truthy (fb_executionRunId b) \<and> truthy (fb_changeDigest b)
         then map_sum id (\<lambda>_. b) (assertLiveMatchesExecutionDigest H tree (or_empty (fb_changeDigest b)) True) else Inr b)"

definition trimmedRequest :: "string option \<Rightarrow> string" where
  "trimmedRequest v = trim (or_empty v)"

definition requireF :: "bool \<Rightarrow> string \<Rightarrow> uadsError + unit" where
  "requireF ok m = (if ok then Inr () else Inl (failureError m))"

definition bindRun ::
  "'h failureSys_scheme \<Rightarrow> sidecar \<Rightarrow> string \<Rightarrow> worktree option \<Rightarrow> string \<Rightarrow> string \<Rightarrow> executionRun option
     \<Rightarrow> uadsError + failureBinding" where
  "bindRun H s projectId W order runId current =
    (case readExecutionRun H s runId of
       Inl _ \<Rightarrow> Inl (failureError ''supplied execution run missing or corrupt'')
     | Inr run \<Rightarrow>
        bindR (requireF (run_projectId run = projectId) ''cross-project execution binding rejected'') (\<lambda>_.
        bindR (requireF (case current of None \<Rightarrow> True | Some c \<Rightarrow> run_executionRunId c = run_executionRunId run)
                 ''supplied execution run does not match authoritative current run'') (\<lambda>_.
        bindR (requireF (order = [] \<or> order = run_workOrderId run) ''work-order does not match execution run'') (\<lambda>_.
        bindLive H W (runBinding run)))))"

definition bindOrder ::
  "'h failureSys_scheme \<Rightarrow> sidecar \<Rightarrow> string \<Rightarrow> worktree option \<Rightarrow> string \<Rightarrow> executionRun option \<Rightarrow> uadsError + failureBinding" where
  "bindOrder H s projectId W order current =
    bindR (readWorkOrder H s order) (\<lambda>w.
    bindR (requireF (case w of None \<Rightarrow> False | Some x \<Rightarrow> wo_projectId x = projectId)
             ''supplied work order missing, corrupt, or cross-project'') (\<lambda>_.
    case current of
      None \<Rightarrow> Inr \<lparr>fb_workOrderId = Some order, fb_executionRunId = None, fb_changeDigest = None, fb_standalone = True\<rparr>
    | Some c \<Rightarrow>
        bindR (requireF (run_workOrderId c = order) ''supplied work-order does not match authoritative current run'') (\<lambda>_.
        bindLive H W (runBinding c))))"

definition currentRunFor :: "'h failureSys_scheme \<Rightarrow> sidecar \<Rightarrow> uadsError + executionRun option" where
  "currentRunFor H s =
    (case readCurrentExecutionRun H s of
       Inl (InvalidOrchestrationState _) \<Rightarrow> Inl (failureError ''execution state missing or corrupt'')
     | Inl e \<Rightarrow> Inl e
     | Inr c \<Rightarrow> Inr c)"

definition resolveFailureExecutionBinding ::
  "'h failureSys_scheme \<Rightarrow> sidecar \<Rightarrow> string \<Rightarrow> worktree option \<Rightarrow> string option \<Rightarrow> string option \<Rightarrow> uadsError + failureBinding" where
  "resolveFailureExecutionBinding H s projectId W requestedOrder requestedRun =
    (let order = trimmedRequest requestedOrder; runId = trimmedRequest requestedRun
     in bindR (currentRunFor H s) (\<lambda>current.
        if runId \<noteq> [] then bindRun H s projectId W order runId current
        else if order \<noteq> [] then bindOrder H s projectId W order current
        else (case current of
           Some c \<Rightarrow> if run_projectId c = projectId then bindLive H W (runBinding c)
             else Inr \<lparr>fb_workOrderId = None, fb_executionRunId = None, fb_changeDigest = None, fb_standalone = True\<rparr>
         | None \<Rightarrow> Inr \<lparr>fb_workOrderId = None, fb_executionRunId = None, fb_changeDigest = None, fb_standalone = True\<rparr>)))"

section \<open>Recording\<close>

record failureReport =
  fq_source :: failureSource
  fq_command :: "string option"
  fq_exitCode :: "int option"
  fq_text :: string
  fq_workOrderId :: "string option"
  fq_executionRunId :: "string option"
  fq_changeDigest :: "string option"

definition signatureOf :: "'h host_scheme \<Rightarrow> failureReport \<Rightarrow> normalizedFailureText \<Rightarrow> string" where
  "signatureOf H q n = computeFailureSignature H (fq_source q) (fq_command q) (nf_failureClass n) (nf_stackFrames n)
     (nf_failingTests n) (nf_messageSummary n)"

definition recordOf ::
  "'h host_scheme \<Rightarrow> failureEnv \<Rightarrow> failureReport \<Rightarrow> indexBundle option \<Rightarrow> normalizedFailureText \<Rightarrow> string \<Rightarrow> failureRecord" where
  "recordOf H V q B n digest =
    (let now = en_now V; signature = signatureOf H q n; st = map_option ib_state B in
     \<lparr>fr_failureRecordId = newPrefixedId H ''fail'' (en_projectId V @ '':'' @ signature @ '':'' @ now),
      fr_projectId = en_projectId V, fr_workOrderId = fq_workOrderId q, fr_executionRunId = fq_executionRunId q,
      fr_createdAt = now, fr_source = fq_source q, fr_command = fq_command q, fr_exitCode = fq_exitCode q,
      fr_status = FailRecorded, fr_failureClass = nf_failureClass n, fr_messageSummary = nf_messageSummary n,
      fr_stackFrames = nf_stackFrames n, fr_failingTests = nf_failingTests n, fr_relatedEvidenceRefs = [],
      fr_changeDigest = Some digest, fr_repositoryIndexDigest = map_option is_indexDigest st,
      fr_repositoryHead = (case st of None \<Rightarrow> fv_gitHead V | Some x \<Rightarrow> is_gitHead x),
      fr_dirtyDigest = map_option is_dirtyDigest st, fr_signature = signature,
      fr_redacted = nf_redacted n, fr_kinds = nf_kinds n\<rparr>)"

text \<open>Recording goes on without an index.\<close>

definition tryIndex :: "'h failureSys_scheme \<Rightarrow> failureEnv \<Rightarrow> indexBundle option fop" where
  "tryIndex H V = catchE (bindE (onCore (currentOrRefreshIndex H (execEnv.truncate V) 0)) (\<lambda>B. returnE (Some B))) (\<lambda>_. returnE None)"

definition attemptDigest :: "'h host_scheme \<Rightarrow> failureEnv \<Rightarrow> failureReport \<Rightarrow> indexBundle option \<Rightarrow> uadsError + string" where
  "attemptDigest H V q B =
    (let head = (case B of None \<Rightarrow> fv_gitHead V | Some b \<Rightarrow> is_gitHead (ib_state b));
         digest = map_option (\<lambda>b. is_indexDigest (ib_state b)) B
     in if truthy (fq_executionRunId q) \<and> fq_changeDigest q \<noteq> None then Inr (the (fq_changeDigest q))
        else computeFailureAttemptDigest H (en_tree V) head digest)"

definition checkReportedDigest :: "'h host_scheme \<Rightarrow> failureEnv \<Rightarrow> failureReport \<Rightarrow> uadsError + unit" where
  "checkReportedDigest H V q =
    (if truthy (fq_executionRunId q) \<and> truthy (fq_changeDigest q)
     then assertLiveMatchesExecutionDigest H (en_tree V) (or_empty (fq_changeDigest q)) True else Inr ())"

definition recordFailure :: "'h failureSys_scheme \<Rightarrow> failureEnv \<Rightarrow> failureReport \<Rightarrow> failureRecord fop" where
  "recordFailure H V q =
    bindE (tryIndex H V) (\<lambda>B.
      let n = fv_normalize V (case B of None \<Rightarrow> [] | Some b \<Rightarrow> dedup (map if_path (is_files (ib_state b)))) (fq_text q) (fq_source q)
      in bindE (liftE (checkReportedDigest H V q)) (\<lambda>_.
         bindE (liftE (attemptDigest H V q B)) (\<lambda>digest.
         bindE (persistFailureRecord H (recordOf H V q B n digest) True) (\<lambda>r.
         bindE (upsertFailureOccurrence H (en_now V) (en_projectId V) r []) (\<lambda>_.
         returnE r)))))"

section \<open>Diagnosis\<close>

text \<open>\<open>new IndexIncompleteError\<close> and \<open>new FailureStateError\<close> around the request for the index.\<close>

definition incompleteMessage :: "indexBundle \<Rightarrow> string" where
  "incompleteMessage B = (case is_truncationReason (ib_state B) of Some m \<Rightarrow> m
     | None \<Rightarrow> (case is_staleReason (ib_state B) of Some m \<Rightarrow> m | None \<Rightarrow> ''index is incomplete and cannot drive diagnosis''))"

definition diagnosisIndex :: "'h failureSys_scheme \<Rightarrow> failureEnv \<Rightarrow> indexBundle fop" where
  "diagnosisIndex H V =
    bindE (catchE (onCore (currentOrRefreshIndex H (execEnv.truncate V) 0))
             (\<lambda>e. throwE (if fv_isIncomplete V e then e else failureError ''index missing or corrupt; diagnosis blocked''))) (\<lambda>B.
    bindE (guardE (\<not> incompleteIndex B) (PlainError (incompleteMessage B))) (\<lambda>_. returnE B))"

definition sameIdentity :: "indexBundle \<Rightarrow> failureRecord \<Rightarrow> diagnosisReport \<Rightarrow> bool" where
  "sameIdentity B r d \<longleftrightarrow> dx_indexDigest d = is_indexDigest (ib_state B) \<and> dx_changeDigest d = fr_changeDigest r"

definition noteReuse :: "'h failureSys_scheme \<Rightarrow> failureEnv \<Rightarrow> failureRecord \<Rightarrow> costDecision fop" where
  "noteReuse H V r = onCore (noteGovernorEvent H (en_now V) (en_projectId V) (fr_workOrderId r) (fr_executionRunId r)
     ReuseOutcome [''DIAGNOSIS_REUSED'', ''IDENTICAL_FAILURE_INDEX_IDENTITY''] ''failure-diagnosis''
     (Some [AvoidedToolExecutions \<mapsto> 1]))"

definition reusablePathsOf :: "memoryMatch option \<Rightarrow> string \<Rightarrow> failureMemory \<Rightarrow> string list" where
  "reusablePathsOf mt signature m =
    (case mt of None \<Rightarrow> []
     | Some x \<Rightarrow> if mt_kind x = ReusableMatch
         then (case entryOf signature m of None \<Rightarrow> [] | Some e \<Rightarrow> fe_verifiedCorrectionPaths e) else [])"

definition candidateDigests :: "indexBundle \<Rightarrow> rankedCandidate list \<Rightarrow> (string \<times> string) list" where
  "candidateDigests B ranking = map (\<lambda>c. (rk_path c, or_empty (fileDigestOf B (rk_path c)))) (take 8 ranking)"

definition loopStateOf :: "failureRecord \<Rightarrow> failureMemoryEntry \<Rightarrow> contextRadius \<Rightarrow> contextRadius \<Rightarrow> loopState" where
  "loopStateOf r e initial recommended =
    (let detected = LOOP_THRESHOLD \<le> fe_sameDigestStreak e in
     \<lparr>lp_detected = detected, lp_occurrences = fe_occurrences e,
      lp_sameChangeDigest = (truthy (fr_changeDigest r) \<and> fe_lastChangeDigest e = fr_changeDigest r),
      lp_recommendedAction =
        (if detected then
           (if recommended = initial then ''LOOP_DETECTED: change strategy; C5 remains exceptional and is not auto-expanded''
            else ''LOOP_DETECTED: change strategy or expand one diagnostic radius step; do not repeat the same edit'')
         else ''continue with the ranked candidates; diagnosis is not verified root cause'')\<rparr>)"

definition recommendedRadius :: "failureMemoryEntry \<Rightarrow> contextRadius \<Rightarrow> contextRadius" where
  "recommendedRadius e initial = (if LOOP_THRESHOLD \<le> fe_sameDigestStreak e then bumpRadius initial else initial)"

definition diagnosisSeeds :: "failureRecord \<Rightarrow> rankedCandidate list \<Rightarrow> string list" where
  "diagnosisSeeds r ranking = framePaths r @ testFilesOf r
     @ map rk_path (take 5 (filter (\<lambda>c. 25 / 100 \<le> rk_score c) ranking))"

definition diagnosticImpact :: "failureEnv \<Rightarrow> failureRecord \<Rightarrow> contextRadius \<Rightarrow> string list \<Rightarrow> impactRequest" where
  "diagnosticImpact V r radius seeds =
    \<lparr>iq_projectId = en_projectId V, iq_workOrderId = fr_workOrderId r, iq_executionRunId = fr_executionRunId r,
     iq_radius = radius, iq_requestedPaths = seeds, iq_affectedAreas = [], iq_approveC5 = False\<rparr>"

definition diagnosticPackRequest :: "failureEnv \<Rightarrow> failureRecord \<Rightarrow> contextRadius \<Rightarrow> contextRadius \<Rightarrow> packRequest" where
  "diagnosticPackRequest V r initial recommended =
    \<lparr>pq_projectId = en_projectId V, pq_workOrderId = fr_workOrderId r, pq_executionRunId = fr_executionRunId r,
     pq_radius = recommended,
     pq_objective = Some ''diagnostic localization pack (not a permission to edit unrelated areas)'',
     pq_expansionHistory = (if recommended \<noteq> initial then [(radius_text initial, radius_text recommended,
       ''loop: one-step diagnostic expansion after repeated signature+digest'', en_now V)] else [])\<rparr>"

definition foldersEntered :: "contextPack \<Rightarrow> string list \<Rightarrow> bool" where
  "foldersEntered pack seeds \<longleftrightarrow>
     list_ex (\<lambda>i. topFolder (ck_path i) \<notin> set (map topFolder seeds)) (cx_items pack)"

text \<open>The diagnostic pack, and the reason to escalate.\<close>

definition diagnosticPack ::
  "'h failureSys_scheme \<Rightarrow> failureEnv \<Rightarrow> failureRecord \<Rightarrow> indexBundle \<Rightarrow> contextRadius \<Rightarrow> contextRadius \<Rightarrow> string list
     \<Rightarrow> (string option \<times> string option) fop" where
  "diagnosticPack H V r B initial recommended seeds =
    bindE (liftE (analyzeImpact H (en_now V) B (diagnosticImpact V r recommended seeds))) (\<lambda>report.
    bindE (persistImpactReport H report) (\<lambda>_.
    bindE (liftE (buildContextPack H (en_now V) B report (diagnosticPackRequest V r initial recommended))) (\<lambda>pack.
    bindE (persistDiagnosticPack H pack) (\<lambda>_.
    bindE (onCore (incrementCostCounters H (en_now V) (en_projectId V)
             [EstimatedDiagnosticTokens \<mapsto> int (cx_estimatedTokens pack)]
             (\<lambda>l. l\<lparr>cl_workOrderId := fr_workOrderId r, cl_executionRunId := fr_executionRunId r\<rparr>))) (\<lambda>_.
    returnE (Some (cx_contextPackId pack),
      if foldersEntered pack seeds \<and> recommended = C4
      then Some ''architectural neighbors entered the diagnostic pack at C4; C5 is not selected'' else None))))))"

definition packStage ::
  "'h failureSys_scheme \<Rightarrow> failureEnv \<Rightarrow> failureRecord \<Rightarrow> indexBundle \<Rightarrow> diagnosisStatus \<Rightarrow> contextRadius \<Rightarrow> contextRadius
     \<Rightarrow> string list \<Rightarrow> (string option \<times> string option) fop" where
  "packStage H V r B status initial recommended seeds =
    (if seeds \<noteq> [] \<and> status \<noteq> NeedsEvidence then diagnosticPack H V r B initial recommended seeds
     else returnE (None, Some ''insufficient localizing evidence; do not expand to repository-wide reread''))"

definition frameText :: "stackFrame \<Rightarrow> string" where
  "frameText f = ''stack:'' @ (case sk_path f of None \<Rightarrow> ''null'' | Some p \<Rightarrow> p)"

definition evidenceUsedBy :: "failureRecord \<Rightarrow> indexBundle \<Rightarrow> string list \<Rightarrow> string list \<Rightarrow> string list" where
  "evidenceUsedBy r B changedFiles seeds =
     map frameText (filter sk_inRepo (fr_stackFrames r)) @ map (\<lambda>t. ''test:'' @ ft_id t) (fr_failingTests r)
     @ map (\<lambda>p. ''changed:'' @ p) (filter (relatedToSeeds B seeds) changedFiles)"

definition reportFor ::
  "'h host_scheme \<Rightarrow> failureEnv \<Rightarrow> failureRecord \<Rightarrow> indexBundle \<Rightarrow> string list \<Rightarrow> memoryMatch option \<Rightarrow> rankedCandidate list
     \<Rightarrow> failureMemoryEntry \<Rightarrow> string option \<times> string option \<Rightarrow> diagnosisReport" where
  "reportFor H V r B changedFiles mt ranking e pack =
    (let initial = radiusFromSignals ranking; recommended = recommendedRadius e initial; status = diagnosisStatusOf ranking in
     \<lparr>dx_diagnosisId = newPrefixedId H ''diag'' (fr_failureRecordId r @ '':'' @ en_now V),
      dx_failureRecordId = fr_failureRecordId r, dx_projectId = en_projectId V, dx_workOrderId = fr_workOrderId r,
      dx_executionRunId = fr_executionRunId r, dx_createdAt = en_now V, dx_failureSignature = fr_signature r,
      dx_indexDigest = is_indexDigest (ib_state B), dx_changeDigest = fr_changeDigest r, dx_initialRadius = initial,
      dx_recommendedRadius = recommended, dx_status = status, dx_rankedCandidates = take 12 ranking,
      dx_evidenceUsed = evidenceUsedBy r B changedFiles (diagnosisSeeds r ranking),
      dx_unresolved = (if ranking = [] then [''no in-repo localizing evidence''] else []),
      dx_nextEvidence = nextEvidenceFor status ranking, dx_escalationReason = snd pack, dx_contextPackRef = fst pack,
      dx_memoryMatches = (case mt of None \<Rightarrow> [] | Some x \<Rightarrow> [x]), dx_loopState = loopStateOf r e initial recommended\<rparr>)"

definition statusAfter :: "failureMemoryEntry \<Rightarrow> failureRecordStatus" where
  "statusAfter e = (if LOOP_THRESHOLD \<le> fe_sameDigestStreak e then FailLoop else FailDiagnosed)"

definition freshDiagnosis :: "'h failureSys_scheme \<Rightarrow> failureEnv \<Rightarrow> failureRecord \<Rightarrow> indexBundle \<Rightarrow> diagnosisReport fop" where
  "freshDiagnosis H V r B =
    bindE (queryE (\<lambda>s. readFailureMemory H (fl_files s) (en_projectId V))) (\<lambda>m.
      let mt = evaluateMemoryMatch (en_projectId V) (fr_signature r) m B;
          changedFiles = listChangedRelativePaths H (wt_status (en_tree V));
          ranking = rankFaultCandidates H r B changedFiles (reusablePathsOf mt (fr_signature r) m);
          initial = radiusFromSignals ranking
      in bindE (noteDiagnosisAttempt H (en_now V) (en_projectId V) (fr_signature r) ranking (candidateDigests B ranking)
                  (map_option mt_kind mt)) (\<lambda>e.
         bindE (packStage H V r B (diagnosisStatusOf ranking) initial (recommendedRadius e initial) (diagnosisSeeds r ranking)) (\<lambda>pack.
         bindE (persistDiagnosisReport H (reportFor H V r B changedFiles mt ranking e pack)) (\<lambda>d.
         bindE (persistFailureRecord H (r\<lparr>fr_status := statusAfter e\<rparr>) False) (\<lambda>_.
         returnE d)))))"

definition diagnoseFailure :: "'h failureSys_scheme \<Rightarrow> failureEnv \<Rightarrow> string \<Rightarrow> diagnosisReport fop" where
  "diagnoseFailure H V failureRecordId =
    bindE (queryE (\<lambda>s. readFailureRecord H (fl_files s) failureRecordId)) (\<lambda>r.
    bindE (guardE (fr_projectId r = en_projectId V) (failureError ''cross-project failure diagnosis rejected'')) (\<lambda>_.
    bindE (diagnosisIndex H V) (\<lambda>B.
    bindE (queryE (\<lambda>s. findLatestDiagnosis H (fl_files s) (fr_failureRecordId r))) (\<lambda>latest.
    case latest of
      Some d \<Rightarrow> if sameIdentity B r d then bindE (noteReuse H V r) (\<lambda>_. returnE d) else freshDiagnosis H V r B
    | None \<Rightarrow> freshDiagnosis H V r B))))"

end
