(* ===== verification/Failure_Properties.thy ===== *)
theory Failure_Properties
  imports Failure_Diagnosis
begin

text \<open>
  What the failure memory and the diagnosis guarantee: the counters of an entry, when a correction
  counts as verified and when it may be reused, and what the ranking of the candidates is.
\<close>

section \<open>Counting occurrences\<close>

text \<open>
  The reference: of a run of records with the same identifier only the first is an occurrence of
  its own, and the streak is the number of the latest occurrences that share one known digest.
\<close>

fun freshAfter :: "string option \<Rightarrow> failureRecord list \<Rightarrow> failureRecord list" where
  "freshAfter prev [] = []"
| "freshAfter prev (r # rs) =
     (if prev = Some (fr_failureRecordId r) then [] else [r]) @ freshAfter (Some (fr_failureRecordId r)) rs"

definition freshRecords :: "failureRecord list \<Rightarrow> failureRecord list" where
  "freshRecords = freshAfter None"

definition runLength :: "string option list \<Rightarrow> nat" where
  "runLength ds = (case ds of [] \<Rightarrow> 0 | d # rest \<Rightarrow> if truthy d then Suc (length (takeWhile ((=) d) rest)) else 1)"

definition streakOf :: "failureRecord list \<Rightarrow> nat" where
  "streakOf attempts = runLength (rev (map fr_changeDigest attempts))"

definition recordedMemory :: "string \<Rightarrow> string \<Rightarrow> failureRecord list \<Rightarrow> failureMemory" where
  "recordedMemory projectId t rs = fold (\<lambda>r. noteOccurrence r []) rs (emptyMemoryAt projectId t)"

definition everLooped :: "failureRecord list \<Rightarrow> bool" where
  "everLooped attempts \<longleftrightarrow> (\<exists>n. LOOP_THRESHOLD \<le> streakOf (take n attempts))"

definition countedBy :: "failureRecord list \<Rightarrow> failureMemoryEntry \<Rightarrow> bool" where
  "countedBy mine e \<longleftrightarrow> mine \<noteq> [] \<and>
     (let attempts = freshRecords mine in
      fe_failureSignature e = fr_signature (hd mine)
      \<and> fe_firstSeenAt e = fr_createdAt (hd mine) \<and> fe_lastSeenAt e = fr_createdAt (last mine)
      \<and> fe_occurrences e = length attempts \<and> fe_sameDigestStreak e = streakOf attempts
      \<and> (fe_lastOutcome e = OutcomeLoop \<longleftrightarrow> everLooped attempts)
      \<and> (fe_lastOutcome e = OutcomeLoop \<or> fe_lastOutcome e = OutcomeOpen)
      \<and> fe_lastChangeDigest e = fr_changeDigest (last attempts)
      \<and> fe_lastFailureRecordId e = Some (fr_failureRecordId (last mine)))"

lemma freshAfter_append:
  "freshAfter prev (rs @ [r]) = freshAfter prev rs
     @ (if (if rs = [] then prev else Some (fr_failureRecordId (last rs))) = Some (fr_failureRecordId r) then [] else [r])"
  by (induction prev rs rule: freshAfter.induct) auto

lemma freshRecords_single [simp]: "freshRecords [r] = [r]"
  by (simp add: freshRecords_def)

lemma freshRecords_append:
  "rs \<noteq> [] \<Longrightarrow> freshRecords (rs @ [r]) =
     freshRecords rs @ (if fr_failureRecordId (last rs) = fr_failureRecordId r then [] else [r])"
  by (simp add: freshRecords_def freshAfter_append)

lemma freshRecords_Nil_iff [simp]: "freshRecords rs = [] \<longleftrightarrow> rs = []"
  by (cases rs) (simp_all add: freshRecords_def)

lemma streak_single [simp]: "streakOf [r] = 1"
  by (simp add: streakOf_def runLength_def)

lemma streak_append:
  assumes "attempts \<noteq> []"
  shows "streakOf (attempts @ [r]) =
     (if truthy (fr_changeDigest r) \<and> fr_changeDigest (last attempts) = fr_changeDigest r then streakOf attempts + 1 else 1)"
proof -
  obtain qs q where "attempts = qs @ [q]"
    using assms by (metis append_butlast_last_id)
  then show ?thesis by (auto simp: streakOf_def runLength_def)
qed

lemma everLooped_append: "everLooped (xs @ [r]) \<longleftrightarrow> everLooped xs \<or> LOOP_THRESHOLD \<le> streakOf (xs @ [r])"
proof (rule iffI)
  assume "everLooped (xs @ [r])"
  then obtain n where n: "LOOP_THRESHOLD \<le> streakOf (take n (xs @ [r]))"
    unfolding everLooped_def ..
  show "everLooped xs \<or> LOOP_THRESHOLD \<le> streakOf (xs @ [r])"
  proof (cases "n \<le> length xs")
    case True
    with n show ?thesis by (auto simp: everLooped_def)
  next
    case False
    with n show ?thesis by simp
  qed
next
  assume "everLooped xs \<or> LOOP_THRESHOLD \<le> streakOf (xs @ [r])"
  then show "everLooped (xs @ [r])"
  proof
    assume "everLooped xs"
    then obtain n where "LOOP_THRESHOLD \<le> streakOf (take n xs)"
      unfolding everLooped_def ..
    then have "LOOP_THRESHOLD \<le> streakOf (take (min n (length xs)) (xs @ [r]))"
      by (cases "n \<le> length xs") (simp_all add: min_def)
    then show ?thesis unfolding everLooped_def ..
  next
    assume "LOOP_THRESHOLD \<le> streakOf (xs @ [r])"
    then have "LOOP_THRESHOLD \<le> streakOf (take (Suc (length xs)) (xs @ [r]))" by simp
    then show ?thesis unfolding everLooped_def ..
  qed
qed

lemma everLooped_single [simp]: "\<not> everLooped [r]"
proof -
  have "\<not> LOOP_THRESHOLD \<le> streakOf (take n [r])" for n
    by (cases n) (simp_all add: streakOf_def runLength_def LOOP_THRESHOLD_def)
  then show ?thesis by (simp add: everLooped_def)
qed

lemma find_updateFirst_same:
  assumes "\<And>x. P (f x) = P x"
  shows "find P (updateFirst P f xs) = map_option f (find P xs)"
  by (induction xs) (auto simp: assms)

lemma find_updateFirst_other:
  assumes "\<And>x. Q (f x) = Q x" "\<And>x. Q x \<Longrightarrow> \<not> P x"
  shows "find Q (updateFirst P f xs) = find Q xs"
  by (induction xs) (auto simp: assms(1) dest: assms(2))

lemma find_append: "find P (xs @ ys) = (case find P xs of None \<Rightarrow> find P ys | Some x \<Rightarrow> Some x)"
  by (induction xs) auto

lemma entryOf_changeEntry:
  assumes "\<And>e. fe_failureSignature (f e) = fe_failureSignature e"
  shows "entryOf other (changeEntry signature f m) =
    (if other = signature then map_option f (entryOf other m) else entryOf other m)"
proof (cases "other = signature")
  case True
  then show ?thesis by (simp add: entryOf_def changeEntry_def find_updateFirst_same assms)
next
  case False
  then have "find (\<lambda>e. fe_failureSignature e = other) (updateFirst (\<lambda>e. fe_failureSignature e = signature) f (fm_entries m))
      = find (\<lambda>e. fe_failureSignature e = other) (fm_entries m)"
    by (intro find_updateFirst_other) (auto simp: assms)
  with False show ?thesis by (simp add: entryOf_def changeEntry_def)
qed

lemma entryOf_updatedAt [simp]: "entryOf signature (m\<lparr>fm_updatedAt := t\<rparr>) = entryOf signature m"
  by (simp add: entryOf_def)

lemma entryOf_signature: "entryOf signature m = Some e \<Longrightarrow> fe_failureSignature e = signature"
  by (auto simp: entryOf_def find_Some_iff)

lemma seenAgain_signature [simp]: "fe_failureSignature (seenAgain r paths e) = fe_failureSignature e"
  by (simp add: seenAgain_def withCandidates_def looping_def)

lemma entryOf_noteOccurrence:
  "entryOf signature (noteOccurrence r paths m) =
    (if signature = fr_signature r
     then Some (case entryOf signature m of
         None \<Rightarrow> (emptyEntry signature (fr_createdAt r) r)\<lparr>fe_candidatePaths := paths\<rparr>
       | Some e \<Rightarrow> seenAgain r paths e)
     else entryOf signature m)"
proof (cases "entryOf (fr_signature r) m")
  case None
  then show ?thesis
    by (auto simp: noteOccurrence_def entryOf_def find_append emptyEntry_def split: option.splits)
next
  case (Some e)
  then show ?thesis by (auto simp: noteOccurrence_def entryOf_changeEntry)
qed

lemma counted_first: "countedBy [r] ((emptyEntry (fr_signature r) (fr_createdAt r) r)\<lparr>fe_candidatePaths := paths\<rparr>)"
  by (simp add: countedBy_def Let_def emptyEntry_def)

lemma counted_again:
  assumes "countedBy mine e" "fr_signature r = fe_failureSignature e"
  shows "countedBy (mine @ [r]) (seenAgain r [] e)"
proof (cases "fr_failureRecordId (last mine) = fr_failureRecordId r")
  case True
  with assms show ?thesis
    by (simp add: countedBy_def Let_def freshRecords_append seenAgain_def withCandidates_def) blast
next
  case False
  with assms have attempts: "freshRecords (mine @ [r]) = freshRecords mine @ [r]"
    by (simp add: countedBy_def freshRecords_append)
  have streak: "streakOf (freshRecords mine @ [r]) = nextStreak r e"
    using assms(1) by (auto simp: countedBy_def Let_def streak_append nextStreak_def)
  show ?thesis
    using assms False
    by (simp add: countedBy_def Let_def attempts streak everLooped_append seenAgain_def withCandidates_def looping_def) blast
qed

text \<open>C20: for every sequence of recorded failures the memory has an entry exactly for each
  signature that occurred, and this entry counts what happened: its occurrences are the records of
  the signature with a new identifier, its streak is how many of the latest occurrences in a row
  failed at the same known change digest, and it is a loop exactly when at some time such a streak
  reached the threshold of three.\<close>

theorem memory_counts_occurrences:
  "case entryOf signature (recordedMemory projectId t rs) of
     None \<Rightarrow> filter (\<lambda>r. fr_signature r = signature) rs = []
   | Some e \<Rightarrow> countedBy (filter (\<lambda>r. fr_signature r = signature) rs) e"
proof (induction rs rule: rev_induct)
  case Nil
  then show ?case by (simp add: recordedMemory_def emptyMemoryAt_def entryOf_def)
next
  case (snoc r rs)
  have step: "recordedMemory projectId t (rs @ [r]) = noteOccurrence r [] (recordedMemory projectId t rs)"
    by (simp add: recordedMemory_def)
  show ?case
  proof (cases "entryOf signature (recordedMemory projectId t rs)")
    case None
    then have mine: "filter (\<lambda>r. fr_signature r = signature) rs = []" using snoc by simp
    show ?thesis
    proof (cases "signature = fr_signature r")
      case True
      with mine None counted_first [of r "[]"] show ?thesis by (simp add: step entryOf_noteOccurrence)
    next
      case False
      with mine None show ?thesis by (simp add: step entryOf_noteOccurrence)
    qed
  next
    case (Some e)
    with snoc have mine: "countedBy (filter (\<lambda>r. fr_signature r = signature) rs) e" by simp
    show ?thesis
    proof (cases "signature = fr_signature r")
      case True
      with Some counted_again [OF mine] entryOf_signature [OF Some] show ?thesis
        by (simp add: step entryOf_noteOccurrence)
    next
      case False
      with mine Some show ?thesis by (simp add: step entryOf_noteOccurrence)
    qed
  qed
qed

section \<open>Verified corrections\<close>

text \<open>What the stores hold when a correction may be remembered.\<close>

definition approvedCorrection ::
  "'h failureSys_scheme \<Rightarrow> sidecar \<Rightarrow> failureRecord \<Rightarrow> executionRun \<Rightarrow> string \<Rightarrow> bool" where
  "approvedCorrection H s r run digest \<longleftrightarrow>
     run_projectId run = fr_projectId r \<and> run_status run = ExCompleted
     \<and> digest \<noteq> [] \<and> run_currentChangeDigest run = Some digest \<and> fr_changeDigest r \<noteq> Some digest
     \<and> (truthy (fr_executionRunId r) \<or> truthy (fr_workOrderId r))
     \<and> (truthy (fr_executionRunId r) \<longrightarrow> fr_executionRunId r = Some (run_executionRunId run))
     \<and> (truthy (fr_workOrderId r) \<longrightarrow> fr_workOrderId r = Some (run_workOrderId run))
     \<and> (\<exists>evidence reviews. listEvidenceRecords H s (run_executionRunId run) = Inr evidence
          \<and> listReviewRecords H s (run_executionRunId run) = Inr reviews
          \<and> (\<forall>g\<in>set (run_selectedGates run). \<not> isReviewGate g \<longrightarrow>
               (\<exists>v\<in>set evidence. ev_gateId v = g \<and> ev_changeDigest v = digest \<and> ev_status v = EvPass))
          \<and> (\<exists>v\<in>set reviews. rv_reviewerRole v = INDEPENDENT_REVIEWER_ROLE \<and> rv_changeDigest v = digest
               \<and> rv_verdict v = Approved))"

lemma correctiveRun_Inr:
  "correctiveRun r run digest s = (Inr x, t) \<longleftrightarrow>
     t = s \<and> run_projectId run = fr_projectId r \<and> run_status run = ExCompleted \<and> digest \<noteq> []
     \<and> \<not> differs (fr_executionRunId r) (run_executionRunId run) \<and> \<not> differs (fr_workOrderId r) (run_workOrderId run)
     \<and> fr_changeDigest r \<noteq> Some digest"
  by (auto simp: correctiveRun_def step_iff)

lemma readRunFor_Inr:
  "readRunFor H runId s = (Inr run, t) \<longleftrightarrow> readExecutionRun H (fl_sidecar s) runId = Inr run \<and> t = s"
  by (auto simp: readRunFor_def step_iff split: sum.splits)

lemma or_empty_Some: "or_empty v \<noteq> [] \<Longrightarrow> v = Some (or_empty v)"
  by (cases v) (simp_all add: or_empty_def)

lemma assertCorrectiveExecution_sound:
  assumes "assertCorrectiveExecution H r runId s = (Inr (digest, refs, changed), t)"
  shows "t = s \<and> (\<exists>run. readExecutionRun H (fl_sidecar s) runId = Inr run \<and> changed = run_changedFiles run
           \<and> approvedCorrection H (fl_sidecar s) r run digest)"
proof -
  from assms obtain run evidence reviews review where
    run: "readExecutionRun H (fl_sidecar s) runId = Inr run" "digest = or_empty (run_currentChangeDigest run)"
    and bound: "truthy (fr_executionRunId r) \<or> truthy (fr_workOrderId r)"
    and checked: "correctiveRun r run digest s = (Inr (), s)"
    and lists: "listEvidenceRecords H (fl_sidecar s) (run_executionRunId run) = Inr evidence"
      "listReviewRecords H (fl_sidecar s) (run_executionRunId run) = Inr reviews"
    and gates: "find (\<lambda>g. \<not> isReviewGate g \<and> \<not> gatePassedAt evidence digest g) (run_selectedGates run) = None"
    and review: "independentApproval reviews digest = Some review" and rest: "changed = run_changedFiles run" "t = s"
    by (auto simp: assertCorrectiveExecution_def Let_def step_iff readRunFor_Inr correctiveRun_Inr
          split: option.splits dest!: sym [of "Inr _" "listEvidenceRecords _ _ _"] sym [of "Inr _" "listReviewRecords _ _ _"])
  have "\<forall>g\<in>set (run_selectedGates run). \<not> isReviewGate g \<longrightarrow>
      (\<exists>v\<in>set evidence. ev_gateId v = g \<and> ev_changeDigest v = digest \<and> ev_status v = EvPass)"
    using gates by (auto simp: find_None_iff gatePassedAt_def list_ex_iff)
  moreover have "review \<in> set reviews \<and> rv_reviewerRole review = INDEPENDENT_REVIEWER_ROLE
      \<and> rv_changeDigest review = digest \<and> rv_verdict review = Approved"
    using review by (auto simp: independentApproval_def find_Some_iff)
  moreover have "run_currentChangeDigest run = Some digest"
    using checked run(2) by (auto simp: correctiveRun_Inr dest: or_empty_Some)
  ultimately show ?thesis
    using run(1) bound checked lists rest by (auto simp: approvedCorrection_def correctiveRun_Inr differs_def)
qed

lemma liveMatch_Inr: "assertLiveMatchesExecutionDigest H W d b = Inr x \<longleftrightarrow> liveDigest H W = Inr d"
  by (simp add: assertLiveMatchesExecutionDigest_def)

lemma persistFailureMemory_Inr:
  "persistFailureMemory H m s = (Inr x, t) \<longleftrightarrow>
     x = sanitizeMemory H m \<and> okFailureMemory H x \<and> t = s\<lparr>fl_files := fl_files s\<lparr>fx_memory := Parsed x\<rparr>\<rparr>"
  by (auto simp: persistFailureMemory_def Let_def step_iff assertSchema_def onFiles_def)

lemma persistFailureRecord_quiet_Inr:
  "persistFailureRecord H r False s = (Inr x, t) \<longleftrightarrow>
     x = sanitizeFailure H r \<and> okFailureRecord H x \<and> isSafeSidecarId (fr_failureRecordId x)
     \<and> t = onFiles (setRecordFile x) s"
  by (auto simp: persistFailureRecord_def Let_def step_iff assertSchema_def)

lemma readMemory_Inr:
  "readMemory H now p s = (Inr m, t) \<longleftrightarrow> loadMemory H now p (fl_files s) = Inr m \<and> t = s"
  by (auto simp: readMemory_def step_iff)

text \<open>The entry and the record that remembering leaves behind.\<close>

definition remembered ::
  "'h failureSys_scheme \<Rightarrow> failureRecord \<Rightarrow> string \<Rightarrow> string \<Rightarrow> indexBundle \<Rightarrow> string list \<Rightarrow> failureMemory \<Rightarrow> failureState \<Rightarrow> bool" where
  "remembered H r runId digest B changed m t \<longleftrightarrow>
     (\<exists>e. entryOf (fr_signature r) m = Some e \<and> fe_lastOutcome e = OutcomeResolved
        \<and> fe_resolutionChangeDigest e = Some digest \<and> fe_resolutionExecutionRunId e = Some runId
        \<and> fe_verifiedRootCausePaths e = [] \<and> fe_verifiedCorrectionPaths e = filter safePathText changed
        \<and> fe_validityBasisDigests e = buildValidityBasis H B (framePaths r @ filter safePathText changed)
        \<and> fe_validityBasisPaths e = map fst (fe_validityBasisDigests e))
     \<and> fx_memory (fl_files t) = Parsed (sanitizeMemory H m)
     \<and> (let stored = sanitizeFailure H (r\<lparr>fr_status := FailResolved\<rparr>)
        in read_entry (jsonName (fr_failureRecordId stored)) (fx_records (fl_files t)) = Parsed stored)"

lemma resolvedEntry_signature [simp]:
  "fe_failureSignature (resolvedEntry now runId digest refs paths basis indexDigest e) = fe_failureSignature e"
  by (simp add: resolvedEntry_def)

lemma commitResolution_sound:
  assumes "commitResolution H V r runId (digest, refs, changed) B s = (Inr m, t)"
  shows "remembered H r runId digest B changed m t"
proof -
  define resolve where "resolve = resolvedEntry (en_now V) runId digest refs (filter safePathText changed)
    (buildValidityBasis H B (framePaths r @ filter safePathText changed)) (is_indexDigest (ib_state B))"
  from assms obtain m0 e where m0: "loadMemory H (en_now V) (en_projectId V) (fl_files s) = Inr m0"
      and e: "entryOf (fr_signature r) m0 = Some e"
      and m: "m = (changeEntry (fr_signature r) resolve m0)\<lparr>fm_updatedAt := en_now V\<rparr>"
      and t: "t = onFiles (setRecordFile (sanitizeFailure H (r\<lparr>fr_status := FailResolved\<rparr>)))
                (s\<lparr>fl_files := fl_files s\<lparr>fx_memory := Parsed (sanitizeMemory H m)\<rparr>\<rparr>)"
    by (auto simp: commitResolution_def Let_def step_iff readMemory_Inr persistFailureMemory_Inr
          persistFailureRecord_quiet_Inr resolve_def split: option.splits)
  have "entryOf (fr_signature r) m = Some (resolve e)"
    by (simp add: m entryOf_changeEntry e resolve_def)
  then show ?thesis
    by (simp add: remembered_def resolve_def resolvedEntry_def t onFiles_def setRecordFile_def Let_def)
qed

lemma currentIndex_Inr: "currentOrRefreshIndex H V n s = (Inr b, t) \<Longrightarrow> \<exists>fullBuild. en_index V n = Inr (b, fullBuild)"
  by (auto simp: currentOrRefreshIndex_def step_iff split: sum.splits prod.splits if_splits)

lemma bound_correction:
  "approvedCorrection H s r run digest
     \<Longrightarrow> fr_executionRunId r = Some (run_executionRunId run) \<or> fr_workOrderId r = Some (run_workOrderId run)"
  by (auto simp: approvedCorrection_def)

lemma loadMemory_project: "loadMemory H now p f = Inr m \<Longrightarrow> fm_projectId m = p"
  by (auto simp: loadMemory_def emptyMemoryAt_def readFailureMemory_def split: if_splits artifact.splits)

lemma commitResolution_project:
  assumes "commitResolution H V r runId (digest, refs, changed) B s = (Inr m, t)"
  shows "fm_projectId m = en_projectId V"
  using assms
  by (auto simp: commitResolution_def Let_def step_iff readMemory_Inr changeEntry_def split: option.splits
        dest: loadMemory_project)

text \<open>C18: a correction is remembered only for a failure that is bound to a run or a work order, and only
  for the completed run it belongs to, whose change digest is known, differs from the digest the
  failure was recorded at and is the digest of the work tree now; every selected gate that is not a
  review passed at this digest and the independent reviewer approved it; the index as it was read or
  refreshed was complete. Then the entry of the signature is resolved, bound to the run and the
  digest, with the basis taken from that index, claims no root cause, and the failure record is
  stored as resolved.\<close>

theorem resolution_sound:
  assumes "markVerifiedResolution H V failureRecordId runId s = (Inr m, t)"
  shows "\<exists>r run digest B fullBuild u.
     readFailureRecord H (fl_files s) failureRecordId = Inr r \<and> fr_projectId r = en_projectId V
     \<and> (fr_executionRunId r = Some (run_executionRunId run) \<or> fr_workOrderId r = Some (run_workOrderId run))
     \<and> readExecutionRun H (fl_sidecar s) runId = Inr run \<and> approvedCorrection H (fl_sidecar s) r run digest
     \<and> liveDigest H (en_tree V) = Inr digest
     \<and> en_index V 0 = Inr (B, fullBuild) \<and> currentOrRefreshIndex H V 0 (fl_sidecar s) = (Inr B, u) \<and> \<not> incompleteIndex B
     \<and> remembered H r runId digest B (run_changedFiles run) m t"
proof -
  from assms obtain r digest refs changed B s1 u v where
    r: "readFailureRecord H (fl_files s) failureRecordId = Inr r" "fr_projectId r = en_projectId V"
    and corrective: "assertCorrectiveExecution H r runId s = (Inr (digest, refs, changed), s1)"
    and live: "Inr () = assertLiveMatchesExecutionDigest H (en_tree V) digest False"
    and index: "currentOrRefreshIndex H V 0 (fl_sidecar s1) = (Inr B, v)" and B: "\<not> incompleteIndex B"
    and commit: "commitResolution H V r runId (digest, refs, changed) B u = (Inr m, t)"
    by (auto simp: markVerifiedResolution_def step_iff dest!: sym [of "Inr _" "readFailureRecord _ _ _"])
  have live: "liveDigest H (en_tree V) = Inr digest"
    using live by (metis liveMatch_Inr)
  note sound = assertCorrectiveExecution_sound [OF corrective]
  then have read: "\<exists>v. currentOrRefreshIndex H V 0 (fl_sidecar s) = (Inr B, v)"
    using index by blast
  then have "\<exists>fullBuild. en_index V 0 = Inr (B, fullBuild)" using currentIndex_Inr by blast
  with read sound commitResolution_sound [OF commit] r live B bound_correction show ?thesis by blast
qed

section \<open>Reuse of a correction\<close>

lemma digestsOf_lookup:
  "map_of (digestsOf B ps) p = (if p \<in> set ps \<and> truthy (fileDigestOf B p) then fileDigestOf B p else None)"
  by (induction ps) (auto simp: digestsOf_def map_filter_simps or_empty_def truthy_def split: option.splits)

lemma digestsOf_domain: "map_of (digestsOf B ps) p \<noteq> None \<longleftrightarrow> p \<in> fst ` set (digestsOf B ps)"
  by (simp add: map_of_eq_None_iff)

lemma fileDigest_indexed: "fileDigestOf B p \<noteq> None \<longleftrightarrow> p \<in> if_path ` set (is_files (ib_state B))"
  by (auto simp: fileDigestOf_def find_None_iff)

lemma basis_is_digestsOf: "\<exists>ps. buildValidityBasis H B seeds = digestsOf B ps"
  by (auto simp: buildValidityBasis_def Let_def)

lemma basis_reusable_iff:
  assumes "fe_validityBasisDigests e = buildValidityBasis H B seeds" "fe_validityBasisPaths e = map fst (fe_validityBasisDigests e)"
  shows "basisUnchanged B' e \<longleftrightarrow> fe_validityBasisDigests e \<noteq> []
    \<and> (\<forall>p\<in>fst ` set (fe_validityBasisDigests e). fileDigestOf B' p = fileDigestOf B p)"
proof -
  obtain ps where ps: "fe_validityBasisDigests e = digestsOf B ps"
    using assms(1) basis_is_digestsOf [of H B seeds] by auto
  have known: "map_of (digestsOf B ps) p = fileDigestOf B p \<and> truthy (fileDigestOf B p)" if "p \<in> fst ` set (digestsOf B ps)" for p
    using that digestsOf_domain [of B ps p] by (auto simp: digestsOf_lookup split: if_splits)
  have "p \<in> if_path ` set (is_files (ib_state B'))"
    if "p \<in> fst ` set (digestsOf B ps)" "fileDigestOf B' p = fileDigestOf B p" for p
    using known [OF that(1)] that(2) fileDigest_indexed [of B' p] by (auto simp: truthy_def split: option.splits)
  with known show ?thesis
    by (auto simp: basisUnchanged_def basisPresent_def list_all_iff assms(2) ps)
qed

definition offersReuse :: "memoryMatch option \<Rightarrow> bool" where
  "offersReuse mt \<longleftrightarrow> (case mt of None \<Rightarrow> False | Some x \<Rightarrow> mt_kind x = ReusableMatch)"

lemma offersReuse_iff:
  "offersReuse (evaluateMemoryMatch projectId signature m B) \<longleftrightarrow> fm_projectId m = projectId
     \<and> (\<exists>e. entryOf signature m = Some e \<and> fe_lastOutcome e = OutcomeResolved \<and> fe_validityBasisDigests e \<noteq> []
          \<and> basisUnchanged B e \<and> indexUsable B)"
  by (auto simp: evaluateMemoryMatch_def resolvedMatch_def offersReuse_def split: option.splits)

text \<open>C19: a remembered correction is offered for reuse exactly while nothing it rests on has
  changed: the index of the later moment is complete, not truncated and not stale, the correction
  has a validity basis, and every file of this basis still has the digest it had in the index the
  correction was verified with.\<close>

theorem resolution_reusable_until_change:
  assumes "commitResolution H V r runId (digest, refs, changed) B s = (Inr m, t)"
    and "basis = buildValidityBasis H B (framePaths r @ filter safePathText changed)"
  shows "offersReuse (evaluateMemoryMatch (en_projectId V) (fr_signature r) m B') \<longleftrightarrow>
    basis \<noteq> [] \<and> indexUsable B' \<and> (\<forall>p\<in>fst ` set basis. fileDigestOf B' p = fileDigestOf B p)"
proof -
  obtain e where e: "entryOf (fr_signature r) m = Some e" "fe_lastOutcome e = OutcomeResolved"
      "fe_validityBasisDigests e = basis" "fe_validityBasisPaths e = map fst (fe_validityBasisDigests e)"
    using commitResolution_sound [OF assms(1)] assms(2) by (auto simp: remembered_def)
  have "basisUnchanged B' e \<longleftrightarrow> basis \<noteq> [] \<and> (\<forall>p\<in>fst ` set basis. fileDigestOf B' p = fileDigestOf B p)"
    using basis_reusable_iff [OF _ e(4)] e(3) assms(2) by metis
  with e commitResolution_project [OF assms(1)] show ?thesis by (auto simp: offersReuse_iff)
qed

section \<open>A correction does not reset the streak\<close>

text \<open>C40: \<open>markVerifiedResolution\<close> sets the digest of the correction in the entry but keeps its
  streak. A failure that was recorded twice at one digest and then resolved is therefore reported as
  a loop by its very first occurrence at the digest of the correction, whose streak is one.\<close>

theorem recurrence_after_resolution_loops:
  "let resolved = resolvedEntry now runId digest refs paths basis indexDigest e;
       again = seenAgain (r\<lparr>fr_changeDigest := Some digest\<rparr>) [] resolved
   in fe_sameDigestStreak again =
        (if fe_lastFailureRecordId e = Some (fr_failureRecordId r) then fe_sameDigestStreak e
         else if digest = [] then 1 else fe_sameDigestStreak e + 1)
      \<and> (fe_lastOutcome again = OutcomeLoop \<longleftrightarrow>
           fe_lastFailureRecordId e \<noteq> Some (fr_failureRecordId r) \<and> digest \<noteq> [] \<and> 2 \<le> fe_sameDigestStreak e)"
  by (simp add: resolvedEntry_def seenAgain_def withCandidates_def nextStreak_def looping_def truthy_def LOOP_THRESHOLD_def
        Let_def)

section \<open>The ranking of the candidates\<close>

text \<open>The reference: a path is a candidate when it is admitted and some signal points at it; its
  score is the sum of the weights of the different signals, at most one.\<close>

definition signalsAt :: "faultSignal list \<Rightarrow> string \<Rightarrow> string set" where
  "signalsAt gs p = sg_signal ` {g \<in> set gs. sg_path g = p}"

definition referenceScore :: "faultSignal list \<Rightarrow> string \<Rightarrow> rat" where
  "referenceScore gs p = min 1 (\<Sum>s\<in>signalsAt gs p. weightOf s)"

definition candidatePathsOf :: "(string \<Rightarrow> bool) \<Rightarrow> faultSignal list \<Rightarrow> string set" where
  "candidatePathsOf admitted gs = {p \<in> sg_path ` set gs. p \<noteq> [] \<and> admitted p}"

definition tallied :: "faultSignal list \<Rightarrow> string \<Rightarrow> faultScore \<Rightarrow> bool" where
  "tallied gs p q \<longleftrightarrow> distinct (sq_signals q) \<and> set (sq_signals q) = signalsAt gs p
     \<and> sq_score q = sum_list (map weightOf (sq_signals q))"

definition scored :: "(string \<Rightarrow> bool) \<Rightarrow> faultSignal list \<Rightarrow> faultScores \<Rightarrow> bool" where
  "scored admitted gs scores \<longleftrightarrow> distinct (map fst scores)
     \<and> fst ` set scores = candidatePathsOf admitted gs
     \<and> (\<forall>p q. map_of scores p = Some q \<longrightarrow> tallied gs p q)"

lemma signalsAt_append [simp]:
  "signalsAt (gs @ [g]) p = (if sg_path g = p then insert (sg_signal g) (signalsAt gs p) else signalsAt gs p)"
  by (auto simp: signalsAt_def)

lemma candidatePathsOf_append [simp]:
  "candidatePathsOf admitted (gs @ [g]) =
     (if sg_path g \<noteq> [] \<and> admitted (sg_path g) then insert (sg_path g) (candidatePathsOf admitted gs)
      else candidatePathsOf admitted gs)"
  by (auto simp: candidatePathsOf_def)

lemma signalsAt_none: "p \<noteq> [] \<Longrightarrow> admitted p \<Longrightarrow> p \<notin> candidatePathsOf admitted gs \<Longrightarrow> signalsAt gs p = {}"
  by (auto simp: candidatePathsOf_def signalsAt_def)

lemma tallied_none: "p \<noteq> [] \<Longrightarrow> admitted p \<Longrightarrow> p \<notin> candidatePathsOf admitted gs
    \<Longrightarrow> tallied gs p \<lparr>sq_score = 0, sq_signals = [], sq_reasons = []\<rparr>"
  by (simp add: tallied_def signalsAt_none)

lemma tallied_other: "sg_path g \<noteq> p \<Longrightarrow> tallied (gs @ [g]) p q = tallied gs p q"
  by (simp add: tallied_def)

lemma tallied_more:
  "tallied gs (sg_path g) q \<Longrightarrow> tallied (gs @ [g]) (sg_path g) (if sg_signal g \<in> set (sq_signals q) then q
     else \<lparr>sq_score = sq_score q + weightOf (sg_signal g), sq_signals = sq_signals q @ [sg_signal g],
           sq_reasons = sq_reasons q @ [sg_reason g]\<rparr>)"
  by (auto simp: tallied_def)

lemma scored_step:
  assumes "scored admitted gs scores"
  shows "scored admitted (gs @ [g]) (addSignal admitted g scores)"
proof (cases "sg_path g = [] \<or> \<not> admitted (sg_path g)")
  case True
  have "sg_path g \<noteq> p" if "map_of scores p = Some q" for p q
  proof -
    have "p \<in> fst ` set scores" using that by (metis domI dom_map_of_conv_image_fst)
    then have "p \<in> candidatePathsOf admitted gs" using assms by (simp add: scored_def)
    with True show ?thesis by (auto simp: candidatePathsOf_def)
  qed
  with True assms show ?thesis by (auto simp: scored_def addSignal_def tallied_other)
next
  case False
  let ?p = "sg_path g"
  define current where "current = (case map_of scores ?p of Some c \<Rightarrow> c | None \<Rightarrow> \<lparr>sq_score = 0, sq_signals = [], sq_reasons = []\<rparr>)"
  have current: "tallied gs ?p current"
  proof (cases "map_of scores ?p")
    case None
    then have "?p \<notin> candidatePathsOf admitted gs"
      using assms by (simp add: scored_def map_of_eq_None_iff)
    with None False tallied_none [of ?p admitted gs] show ?thesis by (simp add: current_def)
  next
    case (Some c)
    with assms show ?thesis by (simp add: current_def scored_def)
  qed
  define q where "q = (if sg_signal g \<in> set (sq_signals current) then current
     else \<lparr>sq_score = sq_score current + weightOf (sg_signal g), sq_signals = sq_signals current @ [sg_signal g],
           sq_reasons = sq_reasons current @ [sg_reason g]\<rparr>)"
  have step: "addSignal admitted g scores = write_entry ?p q scores"
    using False by (simp add: addSignal_def current_def q_def Let_def)
  have q: "tallied (gs @ [g]) ?p q"
    unfolding q_def by (rule tallied_more [OF current])
  have "tallied (gs @ [g]) p q'" if "map_of (write_entry ?p q scores) p = Some q'" for p q'
    using that q assms by (cases "?p = p") (auto simp: tallied_other scored_def)
  with assms False show ?thesis
    by (simp add: scored_def step write_entry_distinct write_entry_names)
qed

lemma scored_fold: "scored admitted gs (fold (addSignal admitted) gs [])"
proof (induction gs rule: rev_induct)
  case Nil
  then show ?case by (simp add: scored_def candidatePathsOf_def)
next
  case (snoc g gs)
  then show ?case by (simp add: scored_step)
qed

lemma scored_score:
  assumes "scored admitted gs scores" "(p, q) \<in> set scores"
  shows "clampScore (sq_score q) = referenceScore gs p \<and> set (sq_signals q) = signalsAt gs p"
proof -
  have "map_of scores p = Some q" using assms by (simp add: scored_def)
  with assms(1) have "tallied gs p q" by (simp add: scored_def)
  then show ?thesis by (simp add: clampScore_def referenceScore_def tallied_def sum_list_distinct_conv_sum_set)
qed

lemma candidate_le_comparator:
  assumes "comparator (locale_le H)"
  shows "comparator (candidate_le H)"
proof -
  have total: "candidate_le H x y \<or> candidate_le H y x" for x y
    using comparator.le_total [OF assms, of "rk_path x" "rk_path y"] by (auto simp: candidate_le_def)
  have trans: "candidate_le H x z" if "candidate_le H x y" "candidate_le H y z" for x y z
    using that comparator.le_trans [OF assms, of "rk_path x" "rk_path y" "rk_path z"] by (auto simp: candidate_le_def)
  show ?thesis by (rule comparator.intro) (use total trans in blast)+
qed

text \<open>C22: the ranking of fault candidates has every admitted path that some signal points at exactly
  once, ordered by falling score and by path among equals, each with the different signals that
  point at it and with the sum of their weights, at most one, however often and in which order the
  signals were found.\<close>

theorem ranking_matches_reference:
  assumes "comparator (locale_le H)"
    and "gs = faultSignals r B changedFiles reusablePaths" and "ranking = rankFaultCandidates H r B changedFiles reusablePaths"
  shows "distinct (map rk_path ranking) \<and> sorted_wrt (candidate_le H) ranking
    \<and> set (map rk_path ranking) = candidatePathsOf (admittedPath B (failureSeeds B r)) gs
    \<and> (\<forall>c\<in>set ranking. rk_score c = referenceScore gs (rk_path c) \<and> set (rk_signals c) = signalsAt gs (rk_path c)
         \<and> rk_confidence c = confidenceFor (rk_score c))"
proof -
  define scores where "scores = scoresOf r B changedFiles reusablePaths"
  have ok: "scored (admittedPath B (failureSeeds B r)) gs scores"
    unfolding scores_def scoresOf_def assms(2) by (rule scored_fold)
  have ranking: "ranking = sort_with (candidate_le H) (map candidateOf scores)"
    by (simp add: assms(3) rankFaultCandidates_def scores_def)
  have paths: "map rk_path (map candidateOf scores) = map fst scores"
    by (simp add: candidateOf_def)
  have "mset (map rk_path ranking) = mset (map fst scores)"
    unfolding ranking paths [symmetric] by (simp only: mset_map mset_sort_with)
  then have "distinct (map rk_path ranking)" "set (map rk_path ranking) = fst ` set scores"
    using ok by (metis scored_def mset_eq_imp_distinct_iff, metis list.set_map set_mset_mset)
  moreover have "sorted_wrt (candidate_le H) ranking"
    unfolding ranking by (rule comparator.sorted_sort_with [OF candidate_le_comparator [OF assms(1)]])
  moreover have "rk_score c = referenceScore gs (rk_path c) \<and> set (rk_signals c) = signalsAt gs (rk_path c)
      \<and> rk_confidence c = confidenceFor (rk_score c)" if "c \<in> set ranking" for c
  proof -
    from that obtain p q where "(p, q) \<in> set scores" "c = candidateOf (p, q)"
      by (auto simp: ranking)
    with scored_score [OF ok, of p q] show ?thesis by (simp add: candidateOf_def)
  qed
  ultimately show ?thesis using ok by (simp add: scored_def)
qed

section \<open>What a diagnosis asks for\<close>

lemma radiusFromSignals_bounds: "C1 \<le> radiusFromSignals cs \<and> radiusFromSignals cs \<le> C3"
  by (simp add: radiusFromSignals_def Let_def less_eq_contextRadius_def)

text \<open>C23: a diagnosis starts at most at radius C3 and recommends at most C4, never the whole
  repository; it widens the radius by exactly one step when, and only when, the failure is a loop,
  and reports at most twelve candidates.\<close>

theorem diagnosis_radius_bounded:
  "let d = reportFor H V r B changedFiles mt ranking e pack in
     C1 \<le> dx_initialRadius d \<and> dx_initialRadius d \<le> C3 \<and> dx_recommendedRadius d \<le> C4
     \<and> (dx_recommendedRadius d \<noteq> dx_initialRadius d \<longleftrightarrow> lp_detected (dx_loopState d))
     \<and> (lp_detected (dx_loopState d) \<longleftrightarrow> LOOP_THRESHOLD \<le> fe_sameDigestStreak e)
     \<and> (dx_recommendedRadius d = dx_initialRadius d \<or> dx_recommendedRadius d = bumpRadius (dx_initialRadius d))
     \<and> length (dx_rankedCandidates d) \<le> 12"
  using radiusFromSignals_bounds [of ranking]
  by (cases "radiusFromSignals ranking")
    (auto simp: reportFor_def loopStateOf_def recommendedRadius_def Let_def less_eq_contextRadius_def)

text \<open>Whether two candidates count as equally likely depends on the rounding of binary
  floating-point numbers: a failing test and a shared interface, 0.30 and 0.28, are ambiguous, while
  a stack frame with a dependency and one with an interface, 0.52 and 0.50, are not, although both
  pairs differ by 0.02.\<close>

definition scoredBy :: "string \<Rightarrow> string list \<Rightarrow> rankedCandidate" where
  "scoredBy p signals = candidateOf (p, \<lparr>sq_score = sum_list (map weightOf signals), sq_signals = signals, sq_reasons = []\<rparr>)"

theorem ambiguity_depends_on_rounding:
  "diagnosisStatusOf [scoredBy p [''failing-test''], scoredBy q [''shared-utility'', ''interface'']] = Ambiguous
   \<and> diagnosisStatusOf [scoredBy p [''stack'', ''dep-neighbor''], scoredBy q [''stack'', ''interface'']] = Localized
   \<and> rk_score (scoredBy p [''failing-test'']) - rk_score (scoredBy q [''shared-utility'', ''interface'']) = 2 / 100
   \<and> rk_score (scoredBy p [''stack'', ''dep-neighbor'']) - rk_score (scoredBy q [''stack'', ''interface'']) = 2 / 100"
  by code_simp

end
