(* ===== verification/Failure_Witnesses.thy ===== *)
theory Failure_Witnesses
  imports Failure_Properties Execution_Demo Impact_Witnesses
begin

text \<open>
  Witnesses for the properties of the failure memory: a failure recorded twice before the demo run
  and resolved by its completed form, with the small index of the impact analysis.
\<close>

definition failure_sys :: failureSys where
  "failure_sys = sys.extend fixed_sys \<lparr>okFailureRecord = (\<lambda>_. True), okDiagnosis = (\<lambda>_. True), okFailureMemory = (\<lambda>_. True),
     okContextPack = (\<lambda>_. True), okImpactReport = (\<lambda>_. True)\<rparr>"

definition correctedRun :: executionRun where
  "correctedRun = demoRun\<lparr>run_phase := EpReview, run_status := ExCompleted\<rparr>"

definition demoFailure :: failureRecord where
  "demoFailure = \<lparr>fr_failureRecordId = ''fail_1'', fr_projectId = ''p_1'', fr_workOrderId = Some ''wo_1'',
     fr_executionRunId = Some ''ex_1'', fr_createdAt = ''t2'', fr_source = TestFailure, fr_command = None, fr_exitCode = None,
     fr_status = FailRecorded, fr_failureClass = AssertionClass, fr_messageSummary = ''m'',
     fr_stackFrames = [\<lparr>sk_path = Some ''src/a.ts'', sk_line = Some 3, sk_column = None, sk_functionName = None, sk_inRepo = True\<rparr>],
     fr_failingTests = [], fr_relatedEvidenceRefs = [], fr_changeDigest = Some ''d_0'', fr_repositoryIndexDigest = None,
     fr_repositoryHead = None, fr_dirtyDigest = None, fr_signature = ''sig'', fr_redacted = False, fr_kinds = []\<rparr>"

definition demoFailureState :: failureState where
  "demoFailureState = \<lparr>fl_sidecar = sidecarWith correctedRun [demoEvidence] [demoReview],
     fl_files = \<lparr>fx_records = [(''fail_1.json'', Parsed demoFailure)], fx_diagnoses = [],
       fx_memory = Parsed (noteOccurrence demoFailure [] (emptyMemoryAt ''p_1'' ''t0'')), fx_current = Missing,
       fx_diagnosticPacks = [], fx_impactReports = []\<rparr>\<rparr>"

definition correctedEnv :: execEnv where
  "correctedEnv = (offlineEnv ''t6'' demoTree)\<lparr>en_index := \<lambda>_. Inr (demoBundle, False)\<rparr>"

lemma correction_remembered:
  "\<not> isl (fst (markVerifiedResolution failure_sys correctedEnv ''fail_1'' ''ex_1'' demoFailureState))"
  by code_simp

theorem resolution_sound_witness:
  "\<exists>m t run. markVerifiedResolution failure_sys correctedEnv ''fail_1'' ''ex_1'' demoFailureState = (Inr m, t)
     \<and> readExecutionRun failure_sys (fl_sidecar demoFailureState) ''ex_1'' = Inr run \<and> run_status run = ExCompleted"
proof -
  obtain m t where mark: "markVerifiedResolution failure_sys correctedEnv ''fail_1'' ''ex_1'' demoFailureState = (Inr m, t)"
    using correction_remembered by (metis isl_def prod.collapse sum.exhaust_sel)
  show ?thesis
    using resolution_sound [OF mark] mark by (auto simp: approvedCorrection_def)
qed

text \<open>The same index after \<open>src/b.ts\<close>, which the corrected file imports, has changed.\<close>

definition laterBundle :: indexBundle where
  "laterBundle = demoBundle\<lparr>ib_state := demoIndexState\<lparr>is_files := [demoRecord ''src/a.ts'' 10,
     (demoRecord ''src/b.ts'' 7)\<lparr>if_contentDigest := ''d2''\<rparr>, demoRecord ''lib/c.ts'' 8]\<rparr>\<rparr>"

lemma correction_committed:
  "\<not> isl (fst (commitResolution failure_sys correctedEnv demoFailure ''ex_1'' (''d_1'', [], [''src/a.ts'']) demoBundle demoFailureState))"
  by code_simp

lemma correction_basis:
  "buildValidityBasis failure_sys demoBundle (framePaths demoFailure @ filter safePathText [''src/a.ts''])
     = [(''src/a.ts'', ''d''), (''src/b.ts'', ''d'')]"
  by code_simp

lemma later_digests:
  "fileDigestOf demoBundle ''src/b.ts'' = Some ''d''" "fileDigestOf laterBundle ''src/b.ts'' = Some ''d2''"
  "indexUsable demoBundle"
  by code_simp+

theorem resolution_reusable_until_change_witness:
  "\<exists>m t. commitResolution failure_sys correctedEnv demoFailure ''ex_1'' (''d_1'', [], [''src/a.ts'']) demoBundle demoFailureState = (Inr m, t)
     \<and> offersReuse (evaluateMemoryMatch ''p_1'' ''sig'' m demoBundle) \<and> \<not> offersReuse (evaluateMemoryMatch ''p_1'' ''sig'' m laterBundle)"
proof -
  obtain m t where commit: "commitResolution failure_sys correctedEnv demoFailure ''ex_1'' (''d_1'', [], [''src/a.ts'']) demoBundle
      demoFailureState = (Inr m, t)"
    using correction_committed by (metis isl_def prod.collapse sum.exhaust_sel)
  have "en_projectId correctedEnv = ''p_1''" "fr_signature demoFailure = ''sig''"
    by (simp_all add: correctedEnv_def offlineEnv_def demoEnv_def demoFailure_def)
  with resolution_reusable_until_change [OF commit refl, of demoBundle] resolution_reusable_until_change [OF commit refl, of laterBundle]
    correction_basis later_digests
  have "offersReuse (evaluateMemoryMatch ''p_1'' ''sig'' m demoBundle)" "\<not> offersReuse (evaluateMemoryMatch ''p_1'' ''sig'' m laterBundle)"
    by simp_all
  with commit show ?thesis by blast
qed

theorem ranking_matches_reference_witness:
  "distinct (map rk_path (rankFaultCandidates plain_host demoFailure demoBundle [''src/b.ts''] []))
     \<and> ''src/b.ts'' \<in> set (map rk_path (rankFaultCandidates plain_host demoFailure demoBundle [''src/b.ts''] []))"
proof -
  have "''src/b.ts'' \<in> candidatePathsOf (admittedPath demoBundle (failureSeeds demoBundle demoFailure))
      (faultSignals demoFailure demoBundle [''src/b.ts''] [])"
    by code_simp
  with ranking_matches_reference [OF plain_comparator refl refl, of demoFailure demoBundle "[''src/b.ts'']" "[]"] show ?thesis
    by simp
qed

end
