(* ===== verification/Js_Lex.thy ===== *)
theory Js_Lex
  imports Regex_Match
begin

text \<open>
  \<^verbatim>\<open>src/kernel/js-ts-lex.ts\<close>: the masker that blanks comments, string, template and regular
  expression bodies of a JavaScript text, so that the extractor's patterns see code only. The two
  functions of the source that call each other for templates and their interpolations are one
  function with an explicit stack; the position in the source is the text that remains.
\<close>

section \<open>What was read last\<close>

record lexState =
  lx_lastSignificant :: "char option"
  lx_lastIdent :: string

definition isIdentPart :: "char \<Rightarrow> bool" where
  "isIdentPart c \<longleftrightarrow> is_word c \<or> c = CHR ''$''"

definition KEYWORDS_BEFORE_REGEX :: "string list" where
  "KEYWORDS_BEFORE_REGEX = [''return'', ''throw'', ''typeof'', ''delete'', ''void'', ''case'', ''else'', ''in'', ''of'',
     ''new'', ''await'', ''yield'', ''instanceof'']"

definition copyCode :: "char \<Rightarrow> lexState \<Rightarrow> lexState" where
  "copyCode c st =
    (if is_space c then st
     else st\<lparr>lx_lastSignificant := Some c, lx_lastIdent := (if isIdentPart c then lx_lastIdent st @ [c] else [])\<rparr>)"

definition afterToken :: "char \<Rightarrow> lexState" where
  "afterToken c = \<lparr>lx_lastSignificant = Some c, lx_lastIdent = []\<rparr>"

definition regexLikely :: "lexState \<Rightarrow> bool" where
  "regexLikely st =
    (case lx_lastSignificant st of
       None \<Rightarrow> True
     | Some c \<Rightarrow>
         if oneOf ''({[,;:?!~&|^=+-*%<>'' c then True
         else if c = CHR ''}'' \<or> c = CHR '')'' then False
         else lx_lastIdent st \<in> set KEYWORDS_BEFORE_REGEX)"

section \<open>Masked parts\<close>

definition spaceChar :: "char \<Rightarrow> char" where
  "spaceChar c = (if is_newline c then c else CHR '' '')"

text \<open>\<open>writeMasked\<close> of \<open>n\<close> positions: an escape at the very end of the source reaches one position beyond it.\<close>

definition blanks :: "nat \<Rightarrow> string \<Rightarrow> string" where
  "blanks n s = map spaceChar (take n s) @ replicate (n - length s) (CHR '' '')"

definition lineCommentSpan :: "string \<Rightarrow> nat" where
  "lineCommentSpan s = length (takeWhile notNewline s)"

fun blockSpan :: "string \<Rightarrow> nat" where
  "blockSpan [] = 0"
| "blockSpan (c # cs) = (if starts_with ''*/'' (c # cs) then 2 else Suc (blockSpan cs))"

text \<open>How far a quoted text and a regular expression reach, without their delimiters.\<close>

function quotedSpan :: "char \<Rightarrow> string \<Rightarrow> nat" where
  "quotedSpan quote [] = 0"
| "quotedSpan quote (c # cs) =
    (if c = backslash then 2 + quotedSpan quote (drop 1 cs)
     else if c = quote \<or> is_newline c then 0
     else Suc (quotedSpan quote cs))"
  by pat_completeness auto

termination
  by (relation "measure (\<lambda>(q, s). length s)") auto

function regexSpan :: "bool \<Rightarrow> string \<Rightarrow> nat" where
  "regexSpan inClass [] = 0"
| "regexSpan inClass (c # cs) =
    (if c = backslash then 2 + regexSpan inClass (drop 1 cs)
     else if c = CHR ''['' \<and> \<not> inClass then Suc (regexSpan True cs)
     else if c = CHR '']'' \<and> inClass then Suc (regexSpan False cs)
     else if c = CHR ''/'' \<and> \<not> inClass then 0
     else if is_newline c then 0
     else Suc (regexSpan inClass cs))"
  by pat_completeness auto

termination
  by (relation "measure (\<lambda>(b, s). length s)") auto

text \<open>Output and rest after the body: the closing delimiter, and the flags of a regular expression.\<close>

definition closing :: "char \<Rightarrow> string \<Rightarrow> string" where
  "closing quote rest = (case rest of c # _ \<Rightarrow> if c = quote then [quote] else [] | [] \<Rightarrow> [])"

definition maskQuoted :: "char \<Rightarrow> string \<Rightarrow> string \<times> string" where
  "maskQuoted quote cs = (let n = quotedSpan quote cs; rest = drop n cs; close = closing quote rest
     in (blanks n cs @ close, drop (length close) rest))"

definition maskRegex :: "string \<Rightarrow> string \<times> string" where
  "maskRegex cs = (let n = regexSpan False cs; rest = drop n cs; close = closing (CHR ''/'') rest;
       tail = drop (length close) rest; flags = takeWhile is_letter tail
     in (blanks n cs @ close @ flags, drop (length flags) tail))"

lemma drop_closing: "closing q rest @ drop (length (closing q rest)) rest = rest"
  by (cases rest) (auto simp: closing_def)

lemma maskQuoted_rest: "length (snd (maskQuoted q cs)) \<le> length cs"
  by (simp add: maskQuoted_def Let_def)

lemma maskRegex_rest: "length (snd (maskRegex cs)) \<le> length cs"
  by (simp add: maskRegex_def Let_def)

section \<open>The masker\<close>

text \<open>Inside a template literal, or inside an interpolation at a depth of braces.\<close>

datatype frame = TemplateFrame | BraceFrame nat

text \<open>One token: what is written, the stack and the state after it, and the rest of the source.\<close>

type_synonym masked = "string \<times> frame list \<times> lexState \<times> string"

definition templateToken :: "frame list \<Rightarrow> frame list \<Rightarrow> lexState \<Rightarrow> char \<Rightarrow> string \<Rightarrow> masked" where
  "templateToken frames outer st c cs =
    (if c = backslash then (blanks (min 2 (Suc (length cs))) (c # cs), frames, st, drop 1 cs)
     else if c = CHR 0x60 then ([c], outer, afterToken c, cs)
     else if c = CHR ''$'' \<and> starts_with ''{'' cs then (c # ''{'', BraceFrame 1 # frames, st, drop 1 cs)
     else ([spaceChar c], frames, st, cs))"

text \<open>A code character that starts no comment, literal or regular expression.\<close>

definition plainToken :: "frame list \<Rightarrow> lexState \<Rightarrow> char \<Rightarrow> string \<Rightarrow> masked" where
  "plainToken frames st c cs =
    (case frames of
       BraceFrame d # outer \<Rightarrow>
         if c = CHR ''{'' then ([c], BraceFrame (Suc d) # outer, copyCode c st, cs)
         else if c = CHR ''}'' \<and> d \<le> 1 then ([c], outer, afterToken c, cs)
         else if c = CHR ''}'' then ([c], BraceFrame (d - 1) # outer, copyCode c st, cs)
         else ([c], frames, copyCode c st, cs)
     | _ \<Rightarrow> ([c], frames, copyCode c st, cs))"

definition codeToken :: "frame list \<Rightarrow> lexState \<Rightarrow> char \<Rightarrow> string \<Rightarrow> masked" where
  "codeToken frames st c cs =
    (if c = CHR 0x27 \<or> c = CHR 0x22 then (c # fst (maskQuoted c cs), frames, afterToken c, snd (maskQuoted c cs))
     else if c = CHR 0x60 then ([c], TemplateFrame # frames, st, cs)
     else if c = CHR ''/'' \<and> starts_with ''/'' cs then
       (let n = lineCommentSpan cs in (blanks (Suc n) (c # cs), frames, st, drop n cs))
     else if c = CHR ''/'' \<and> starts_with ''*'' cs then
       (let n = Suc (blockSpan (drop 1 cs)) in (blanks (Suc n) (c # cs), frames, st, drop n cs))
     else if c = CHR ''/'' \<and> regexLikely st then (c # fst (maskRegex cs), frames, afterToken c, snd (maskRegex cs))
     else plainToken frames st c cs)"

definition token :: "frame list \<Rightarrow> lexState \<Rightarrow> char \<Rightarrow> string \<Rightarrow> masked" where
  "token frames st c cs =
    (case frames of TemplateFrame # outer \<Rightarrow> templateToken frames outer st c cs | _ \<Rightarrow> codeToken frames st c cs)"

lemma token_rest: "token frames st c cs = (out, fs, st', rest) \<Longrightarrow> length rest \<le> length cs"
  by (auto simp: token_def templateToken_def codeToken_def plainToken_def Let_def maskQuoted_rest maskRegex_rest
        split: list.splits frame.splits if_splits)

function maskFrom :: "frame list \<Rightarrow> lexState \<Rightarrow> string \<Rightarrow> string" where
  "maskFrom frames st [] = []"
| "maskFrom frames st (c # cs) =
    (case token frames st c cs of (out, frames', st', rest) \<Rightarrow> out @ maskFrom frames' st' rest)"
  by pat_completeness auto

termination
  by (relation "measure (\<lambda>(f, st, s). length s)") (auto dest: token_rest [OF sym])

definition maskNonCodeJsTs :: "string \<Rightarrow> string" where
  "maskNonCodeJsTs source = maskFrom [] \<lparr>lx_lastSignificant = None, lx_lastIdent = []\<rparr> source"

text \<open>\<open>/^\s*export(\s|{|\*|=)/m\<close>\<close>

definition EXPORT_BOUNDARY :: regex where
  "EXPORT_BOUNDARY = sequence [LineStart, Greedy 0 is_space, literal ''export'', choice [Class is_space, Class (oneOf ''{*='')]]"

definition hasJsTsExportBoundary :: "string \<Rightarrow> bool" where
  "hasJsTsExportBoundary text = testRegex EXPORT_BOUNDARY (maskNonCodeJsTs text)"

section \<open>Lines stay aligned\<close>

text \<open>Every character is kept, or replaced by a blank when it is no line break.\<close>

definition hides :: "char \<Rightarrow> char \<Rightarrow> bool" where
  "hides c d \<longleftrightarrow> d = c \<or> (d = CHR '' '' \<and> \<not> is_newline c)"

text \<open>The masked text is as long as the source, or one blank longer.\<close>

definition maskOf :: "string \<Rightarrow> string \<Rightarrow> bool" where
  "maskOf s out \<longleftrightarrow> (\<exists>body pad. out = body @ pad \<and> list_all2 hides s body \<and> pad \<in> {[], '' ''})"

lemma hides_same [simp]: "hides c c" "hides c (spaceChar c)"
  by (simp_all add: hides_def spaceChar_def)

lemma hides_list [simp]: "list_all2 hides s s"
  by (simp add: list_all2_same)

lemma maskOf_append: "list_all2 hides a b \<Longrightarrow> maskOf s out \<Longrightarrow> maskOf (a @ s) (b @ out)"
  by (auto simp: maskOf_def list_all2_appendI intro: exI [of _ "b @ x" for x]) (metis append.assoc append_Nil2 list_all2_appendI)+

lemma maskOf_Nil [simp]: "maskOf [] []"
  by (simp add: maskOf_def)

lemma maskOf_pad: "maskOf [] '' ''"
  by (simp add: maskOf_def)

lemma blanks_within: "n \<le> length s \<Longrightarrow> list_all2 hides (take n s) (blanks n s)"
  by (simp add: blanks_def list_all2_conv_all_nth)

lemma blanks_beyond: "n = Suc (length s) \<Longrightarrow> maskOf s (blanks n s)"
  using maskOf_append [of s "map spaceChar s" "[]" "'' ''", OF _ maskOf_pad]
  by (simp add: blanks_def list_all2_conv_all_nth)

lemma quotedSpan_bound: "quotedSpan q s \<le> Suc (length s)"
proof (induction q s rule: quotedSpan.induct)
  case (2 q c cs)
  then show ?case by (cases cs) auto
qed simp

lemma regexSpan_bound: "regexSpan b s \<le> Suc (length s)"
proof (induction b s rule: regexSpan.induct)
  case (2 b c cs)
  then show ?case by (cases cs) auto
qed simp

lemma blockSpan_bound: "blockSpan s \<le> length s"
  by (induction s rule: blockSpan.induct) (auto simp: starts_with_iff)

text \<open>A token leaves a masked prefix; only one that ends the source may add a blank.\<close>

definition tokenOf :: "string \<Rightarrow> string \<Rightarrow> string \<Rightarrow> bool" where
  "tokenOf s out rest \<longleftrightarrow> (\<exists>prefix. s = prefix @ rest \<and> list_all2 hides prefix out) \<or> (rest = [] \<and> maskOf s out)"

lemma tokenOf_append: "tokenOf s out rest \<Longrightarrow> maskOf rest later \<Longrightarrow> rest = [] \<longrightarrow> later = [] \<Longrightarrow> maskOf s (out @ later)"
  using maskOf_append [of _ out rest later] by (auto simp: tokenOf_def)

lemma tokenOf_Cons: "tokenOf s out rest \<Longrightarrow> tokenOf (c # s) (c # out) rest"
  unfolding tokenOf_def
  by (metis Cons_eq_appendI append_Cons append_Nil hides_list hides_same(1) list_all2_Cons maskOf_append)

lemma tokenOf_blanks:
  assumes "n \<le> Suc (length s)"
  shows "tokenOf s (blanks n s) (drop n s)"
proof (cases "n \<le> length s")
  case True
  then show ?thesis unfolding tokenOf_def by (metis append_take_drop_id blanks_within)
next
  case False
  with assms blanks_beyond [of n s] show ?thesis by (simp add: tokenOf_def)
qed

lemma tokenOf_keep: "tokenOf s out (keep @ rest) \<Longrightarrow> tokenOf s (out @ keep) rest"
  unfolding tokenOf_def by (metis append.assoc append_is_Nil_conv append_Nil2 hides_list list_all2_appendI)

lemma maskQuoted_token: "tokenOf cs (fst (maskQuoted q cs)) (snd (maskQuoted q cs))"
proof -
  let ?n = "quotedSpan q cs"
  have "tokenOf cs (blanks ?n cs) (closing q (drop ?n cs) @ drop (length (closing q (drop ?n cs))) (drop ?n cs))"
    unfolding drop_closing by (rule tokenOf_blanks [OF quotedSpan_bound])
  from tokenOf_keep [OF this] show ?thesis by (simp add: maskQuoted_def Let_def)
qed

lemma maskRegex_token: "tokenOf cs (fst (maskRegex cs)) (snd (maskRegex cs))"
proof -
  let ?n = "regexSpan False cs"
  let ?close = "closing (CHR ''/'') (drop ?n cs)"
  let ?tail = "drop (length ?close) (drop ?n cs)"
  have "tokenOf cs (blanks ?n cs) (?close @ ?tail)"
    unfolding drop_closing by (rule tokenOf_blanks [OF regexSpan_bound])
  then have "tokenOf cs (blanks ?n cs @ ?close) (takeWhile is_letter ?tail @ drop (length (takeWhile is_letter ?tail)) ?tail)"
    by (metis tokenOf_keep dropWhile_eq_drop takeWhile_dropWhile_id)
  from tokenOf_keep [OF this] show ?thesis by (simp only: maskRegex_def Let_def fst_conv snd_conv append_assoc)
qed

lemma tokenOf_char: "hides c d \<Longrightarrow> tokenOf (c # cs) [d] cs"
  unfolding tokenOf_def by (intro disjI1 exI [of _ "[c]"]) simp

lemma token_masks:
  assumes "token frames st c cs = (out, frames', st', rest)"
  shows "tokenOf (c # cs) out rest"
proof -
  have comment: "tokenOf (c # cs) (blanks (Suc n) (c # cs)) (drop n cs)" if "n \<le> length cs" for n
    using tokenOf_blanks [of "Suc n" "c # cs"] that by simp
  have line: "lineCommentSpan cs \<le> length cs"
    by (simp add: lineCommentSpan_def length_takeWhile_le)
  have block: "Suc (blockSpan (drop 1 cs)) \<le> length cs" if "starts_with ''*'' cs"
    using that blockSpan_bound [of "drop 1 cs"] by (cases cs) (auto simp: starts_with_def)
  have two: "tokenOf (c # cs) (c # ''{'') (drop 1 cs)" if "starts_with ''{'' cs"
    using that by (cases cs) (auto simp: starts_with_def tokenOf_def intro: exI [of _ "[c, CHR ''{'']"])
  have escape: "tokenOf (c # cs) (blanks (min 2 (Suc (length cs))) (c # cs)) (drop 1 cs)"
    using tokenOf_blanks [of "min 2 (Suc (length cs))" "c # cs"] by (cases cs) auto
  show ?thesis
    using assms comment [OF line] comment [OF block] two escape tokenOf_char [of c c cs] tokenOf_char [of c "spaceChar c" cs]
      tokenOf_Cons [OF maskQuoted_token, of c cs c] tokenOf_Cons [OF maskRegex_token, of c cs]
    by (auto simp: token_def templateToken_def codeToken_def plainToken_def Let_def split: list.splits frame.splits if_splits)
qed

lemma maskFrom_Nil_rest: "s = [] \<longrightarrow> maskFrom frames st s = []"
  by simp

lemma maskFrom_masks: "maskOf s (maskFrom frames st s)"
proof (induction frames st s rule: maskFrom.induct)
  case (1 frames st)
  then show ?case by simp
next
  case (2 frames st c cs)
  obtain out frames' st' rest where t: "token frames st c cs = (out, frames', st', rest)"
    by (metis prod_cases4)
  have "maskOf rest (maskFrom frames' st' rest)" using 2 t by simp
  from tokenOf_append [OF token_masks [OF t] this] show ?case
    by (simp add: t maskFrom_Nil_rest)
qed

text \<open>The line of a position, as \<open>lineOf\<close> of the extractor counts it.\<close>

definition lineOf :: "string \<Rightarrow> nat \<Rightarrow> nat" where
  "lineOf text i = Suc (length (filter ((=) (CHR 0x0A)) (take i text)))"

lemma hides_line: "list_all2 hides a b \<Longrightarrow> length (filter ((=) (CHR 0x0A)) b) = length (filter ((=) (CHR 0x0A)) a)"
  by (induction rule: list_all2_induct) (auto simp: hides_def is_newline_def)

text \<open>C21: masking keeps every line where it is: the masked text has the length of the source, or one
  blank more when the source ends inside a literal with a backslash; every character is kept or
  replaced by a blank, line breaks are kept, so that each position is on the same line in both.\<close>

theorem masking_keeps_lines:
  "maskOf source (maskNonCodeJsTs source) \<and> length source \<le> length (maskNonCodeJsTs source)
   \<and> length (maskNonCodeJsTs source) \<le> Suc (length source)
   \<and> lineOf (maskNonCodeJsTs source) (min i (length source)) = lineOf source i"
proof -
  obtain body pad where body: "maskNonCodeJsTs source = body @ pad" "list_all2 hides source body" "pad \<in> {[], '' ''}"
    using maskFrom_masks [of source] unfolding maskNonCodeJsTs_def maskOf_def by blast
  then have len: "length body = length source" by (simp add: list_all2_lengthD)
  have "take (min i (length source)) (body @ pad) = take i body"
    using len by (simp add: min_def)
  moreover have "list_all2 hides (take i source) (take i body)"
    using body(2) by (rule list_all2_takeI)
  ultimately have "lineOf (maskNonCodeJsTs source) (min i (length source)) = lineOf source i"
    using hides_line by (simp add: lineOf_def body(1))
  moreover have "maskOf source (maskNonCodeJsTs source)"
    unfolding maskNonCodeJsTs_def by (rule maskFrom_masks)
  moreover have "length pad \<le> 1" using body(3) by auto
  ultimately show ?thesis using body(1) len by simp
qed

end
