(* ===== verification/Spec2Isabelle.thy ===== *)
theory Spec2Isabelle
  imports Specialist_Types Specialist_Catalog Assurance_Policy Cost_Governor Sidecar_Persist Context_Candidates
    Worktree Gate_Properties Execution_Properties Lifecycle_Properties
    Review_Witnesses Verify_Witnesses
    Planning_Properties Builtin_Plan Planner Model_Properties Impact_Witnesses
    Failure_Witnesses Js_Lex
begin

text \<open>
  UADS is a governor for agents that change a software repository. It keeps its state in a sidecar
  directory of JSON files next to the project. A request is turned into an intake, a work order, a
  routing decision (specialist roles, quality gates, context radius, token budget), a specialist
  selection plan and a checkpoint (\<open>plan\<close>); the work order is then driven through the phases of an
  execution run: dispatch, implementation and verification of the git change set, evidence for the
  selected gates (recorded or reused from the evidence cache), independent review, and
  finalization. Every step is an operation that loads the sidecar files, checks its guards, writes
  files and either returns or throws. Around it stand the assurance policy (may this run be
  finalized?), the cost governor, the routing of the work to a model, and the impact analysis with
  the context pack of the files a change may concern.

  All sources are under \<^verbatim>\<open>src/src\<close>; the core is \<^verbatim>\<open>kernel/\<close>, some helpers are in \<^verbatim>\<open>lib/\<close>.
\<close>

section \<open>Which theory models which code\<close>

text \<open>
  Shared layer:
  \<^item> \<open>Uads_Prelude\<close>: strings, truthiness, insertion-ordered sets, stable sorting (locales
    \<open>comparator\<close> and \<open>strict_comparator\<close>), operations that may throw after writing (\<open>bindE\<close>),
    \<^verbatim>\<open>ids.ts\<close>, \<^verbatim>\<open>hash.ts\<close> and \<^verbatim>\<open>safe-persist.ts\<close>, the record \<open>host\<close> of external functions.
  \<^item> \<open>Json\<close>, \<open>Json_Decode\<close>: JSON values, \<open>JSON.stringify\<close>, and reading typed values out of JSON.
  \<^item> \<open>Kernel_Types\<close>, \<open>Specialist_Types\<close>, \<open>Model_Types\<close>, \<open>Execution_Types\<close>, \<open>Cache_Types\<close>,
    \<open>Cost_Types\<close>, \<open>Intelligence_Types\<close>: the data models of the \<^verbatim>\<open>*-types.ts\<close> files and of
    \<^verbatim>\<open>types.ts\<close>. An interface of the source is a record, a union of literals a datatype.
  \<^item> \<open>Sidecar_Store\<close>, \<open>Sidecar_Persist\<close>: the sidecar as one record (one component per file or
    directory of files), its reads (missing, corrupt or parsed) and writes: \<^verbatim>\<open>persist.ts\<close>,
    \<^verbatim>\<open>execution-persist.ts\<close>, \<^verbatim>\<open>execution-integrity.ts\<close>.

  Planning:
  \<^item> \<open>Request_Intake\<close> (\<^verbatim>\<open>intake.ts\<close>), \<open>Policy\<close> (\<^verbatim>\<open>policy.ts\<close>, \<^verbatim>\<open>scope-control.ts\<close>),
    \<open>Routing\<close> (\<^verbatim>\<open>routing.ts\<close>), \<open>Gates\<close> (\<^verbatim>\<open>gates.ts\<close>), \<open>Context_Candidates\<close>
    (\<^verbatim>\<open>context-candidates.ts\<close>).
  \<^item> \<open>Specialist_Catalog\<close>, \<open>Specialist_Obligations\<close>, \<open>Specialist_Digest\<close>,
    \<open>Specialist_Router\<close>, \<open>Specialist_Plan\<close>, \<open>Specialist_Registry\<close>, \<open>Specialist_Store\<close>,
    \<open>Specialist_Binding\<close>: the \<^verbatim>\<open>specialist-*.ts\<close> files, from the profiles through the covering
    loop to the plan, its files and its binding to the work order.
  \<^item> \<open>Planner\<close>: \<open>runPlan\<close> and \<open>planFromIntake\<close> of \<^verbatim>\<open>orchestrator.ts\<close>, which compose all of these.
  \<^item> \<open>Model_Requirements\<close>, \<open>Model_Runtime\<close>, \<open>Model_Registry\<close>, \<open>Model_Router\<close>: the
    \<^verbatim>\<open>model-*.ts\<close> files, from the demands of a work order to the execution plan of \<open>routeModel\<close>.
  \<^item> \<open>Impact\<close>, \<open>Impact_Report\<close>: \<^verbatim>\<open>impact.ts\<close> and \<^verbatim>\<open>context-pack.ts\<close>.

  Execution:
  \<^item> \<open>Safe_Path\<close>, \<open>Scope_Guard\<close>, \<open>Change_Digest\<close>, \<open>Worktree\<close>: \<^verbatim>\<open>safe-path.ts\<close>,
    \<^verbatim>\<open>exclusions.ts\<close>, \<^verbatim>\<open>scope-guard.ts\<close>, \<^verbatim>\<open>change-digest.ts\<close> and the change set of a run.
  \<^item> \<open>Gate_States\<close>, \<open>Execution_Base\<close>, \<open>Execution_Dispatch\<close>, \<open>Execution_Verify\<close>,
    \<open>Execution_Evidence\<close>, \<open>Execution_Review\<close>, \<open>Execution_Finalize\<close>: \<^verbatim>\<open>execution.ts\<close>, one theory
    per operation with every guard and every write in the order of the code.
  \<^item> \<open>Cache_Integrity\<close>, \<open>Gate_Reuse_Contract\<close>, \<open>Cache_Engine\<close>: the evidence cache.
  \<^item> \<open>Assurance_Policy\<close> (\<^verbatim>\<open>assurance-policy.ts\<close>), \<open>Cost_Governor\<close> (\<^verbatim>\<open>cost-governor.ts\<close>,
    \<^verbatim>\<open>cost-persist.ts\<close>).

  Failures:
  \<^item> \<open>Failure_Types\<close>, \<open>Failure_Store\<close>, \<open>Failure_Memory\<close>, \<open>Failure_Signature\<close>,
    \<open>Fault_Localization\<close>, \<open>Failure_Diagnosis\<close>: the \<^verbatim>\<open>failure-*.ts\<close> files and
    \<^verbatim>\<open>fault-localization.ts\<close>. Their state is the sidecar with the failure files beside it; an
    operation of the sidecar is lifted by \<open>onCore\<close>.

  Texts:
  \<^item> \<open>Regex_Match\<close>: the regular expressions of JavaScript that the program uses, with their
    backtracking order. \<open>Js_Lex\<close> (\<^verbatim>\<open>js-ts-lex.ts\<close>): the masker of comments and literals.
\<close>

section \<open>What the lemmas show\<close>

text \<open>
  \<^item> \<open>Execution_Lifecycle\<close> states the abstract state machine of one run (\<open>runMove\<close>, an inductive
    relation) and the system that interleaves all operations (\<open>uadsStep\<close>); every operation refines
    it (\<open>operations_refine_run_machine\<close>). The locale \<open>run_invariant\<close> turns an invariant of the
    machine into one of every reachable sidecar; its interpretations give the consistency of all
    stored runs and the permanence of the session binding. \<open>Execution_Frames\<close> has the frame lemmas.
  \<^item> \<open>Execution_Properties\<close> and \<open>Lifecycle_Properties\<close>: dispatch, verification, evidence, review,
    expansion and finalization, each over the sidecar before and after, failures included.
  \<^item> \<open>Gate_Properties\<close>: which records make a gate PASS, and what backs them.
  \<^item> \<open>Assurance_Policy\<close>: the evaluation refines a declarative specification; independence of the
    approvals; the deadlocks of the built-in catalog.
  \<^item> \<open>Cache_Engine\<close>, \<open>Gate_Reuse_Contract\<close>: a hit is backed by a record none of whose inputs changed; an applied
    hit is backed by the stores it was applied in.
  \<^item> \<open>Planning_Properties\<close>, \<open>Specialist_Obligations\<close>, \<open>Selection_Properties\<close>, \<open>Builtin_Selection\<close>, \<open>Builtin_Plan\<close>: a selected plan covers every
    obligation without conflicts, the built-in catalog always gives one, the covering loop ends and leaves
    open only what no profile can serve.
  \<^item> \<open>Model_Properties\<close>: the selected model is acceptable and first, the tier is never lowered.
  \<^item> \<open>Impact_Properties\<close>: the search meets exactly the files within its hops;
    what a context pack holds.
  \<^item> \<open>Failure_Properties\<close>: the counters of the failure memory, when a correction is remembered and
    when it is offered again, the ranking against a reference, the bounds of a diagnosis.
  \<^item> \<open>Js_Lex\<close>: masking keeps every line where it is.
  \<^item> \<open>Sidecar_Persist\<close>: round trips of files; \<open>Change_Digest\<close>: what git's status listing is parsed into;
    \<open>Safe_Path\<close>: an accepted path stays below the root; \<open>Cost_Types\<close>, \<open>Cost_Governor\<close>: bounds and
    enforcement of the budget.
  \<^item> The theories named \<open>Demo\<close> and \<open>Witness\<close> hold one concrete project, its history from plan to
    finalization and the small inputs at which the properties with hypotheses are applied.
\<close>

section \<open>Conventions, bounds and what is left out\<close>

text \<open>
  \<^item> Literal \<open>schema\<close> members are omitted from records, optional and nullable members are options,
    fields carry a prefix per record. A string is a list of Latin-1 code units. JSON numbers are
    integers, quotients, confidences and scores rationals; only the closeness of two scores is decided
    on binary doubles (\<open>closeScores\<close>), where it matters.
  \<^item> \<open>localeCompare\<close>, SHA-256 and the secret redactor are the parameters of \<open>host\<close>; the test for
    secret or host-path content and the JSON schema checks are predicates of \<open>specialistSys\<close> and its
    extensions. Git, the work tree, the index and the clock are arguments of the operations: a work
    tree is fixed during one operation, one instant is used per operation.
  \<^item> An error is a value; an operation that throws after it has written returns the written state
    with the error. Error messages of the schema checker are not modelled.
  \<^item> No fuel is used. Loops are structural recursions, or end by a measure: the covering loop by the
    number of unchosen profiles, the impact search by the endpoints not yet visited plus the queue.
  \<^item> The state of the impact reports, packs and model plans is not part of \<open>sidecar\<close>: the operations
    of the run take the index and the pack they read as an argument, the planner takes the answers of
    the index and of the model plan as numbered arguments. The check of the specialist selection is
    modelled in \<open>Specialist_Binding\<close> and is an argument of the operations of a run.
  \<^item> Not modelled: I/O failures while writing, symbolic link checks of the stores, \<open>Object.prototype\<close>
    members of object literals, verdict texts outside their union, the printing of a findings file
    (given as parsed rows), \<open>runResume\<close> and \<open>collectOrchestrationSnapshot\<close>.
  \<^item> Parts left out: the file walk and the edge extraction of the index, the
    parser of failure texts (an argument of \<open>recordFailure\<close>), the host adapters, the commands, the GitHub integration, the
    evaluation harness and the release tooling, which mostly perform input and output.
\<close>

end
